(* ===== verification/Core_Prelude.thy ===== *)
theory Core_Prelude
  imports Main "HOL-Library.Word"
begin

text \<open>
  Shared vocabulary of the development: the scalar types of the Go program, its string
  predicates, the transaction monad used by every PostgreSQL-backed service, keyed tables with
  their counting laws, and the locales that state the interfaces the components rely on.

  \<^item> \<open>uuid\<close> is the 16-byte \<open>uuid.UUID\<close>, \<open>uuid_Nil\<close> its zero value.
  \<^item> \<open>gotime\<close> counts nanoseconds since Go's zero \<open>time.Time\<close>, so \<open>IsZero\<close> is equality with 0.
  \<^item> Go strings are byte sequences, so they are \<open>string\<close>; UTF-8 validity and rune counts are
    computed by \<open>utf8_scan\<close>.
  \<^item> A transaction either fails with an error, and then the database is rolled back, or returns
    a value and the new database.
\<close>

named_theorems tx_simps \<open>symbolic execution of transactions that succeed\<close>
named_theorems row_simps \<open>reading keyed tables after updates\<close>

section \<open>Scalars\<close>

type_synonym uuid = "128 word"
type_synonym gotime = int
type_synonym bytes = string

abbreviation uuid_Nil :: uuid where
  "uuid_Nil \<equiv> 0"

definition IsZero :: "gotime \<Rightarrow> bool" where
  [simp]: "IsZero t \<longleftrightarrow> t = 0"

definition millisecond :: gotime where
  "millisecond = 1000000"

definition second :: gotime where
  "second = 1000 * millisecond"

text \<open>Two's-complement reading of an unbounded integer as an \<open>int64\<close>.\<close>

definition int64 :: "int \<Rightarrow> int" where
  "int64 x = (x + 2 ^ 63) mod 2 ^ 64 - 2 ^ 63"

definition max_int64 :: int where
  "max_int64 = 2 ^ 63 - 1"

lemma int64_id: "- (2 ^ 63) \<le> x \<Longrightarrow> x < 2 ^ 63 \<Longrightarrow> int64 x = x"
  by (simp add: int64_def)

lemma int64_max_wraps: "int64 (max_int64 + 1) = - (2 ^ 63)"
  by (simp add: int64_def max_int64_def)

section \<open>Strings\<close>

text \<open>
  \<open>utf8_scan\<close> gives the results of \<open>utf8.RuneCountInString\<close> and \<open>utf8.ValidString\<close>. The byte
  ranges are those of the Go decoder: overlong forms, surrogates and code points above U+10FFFF
  are invalid, and each byte that starts no valid encoding counts as one rune.
\<close>

definition utf8_cont :: "nat \<Rightarrow> bool" where
  "utf8_cont b \<longleftrightarrow> 128 \<le> b \<and> b \<le> 191"

definition utf8_lead2 :: "nat \<Rightarrow> bool" where
  "utf8_lead2 b \<longleftrightarrow> 194 \<le> b \<and> b \<le> 223"

definition utf8_lead3 :: "nat \<Rightarrow> nat \<Rightarrow> bool" where
  "utf8_lead3 a b \<longleftrightarrow>
     a = 224 \<and> 160 \<le> b \<and> b \<le> 191 \<or>
     a = 237 \<and> 128 \<le> b \<and> b \<le> 159 \<or>
     (225 \<le> a \<and> a \<le> 236 \<or> 238 \<le> a \<and> a \<le> 239) \<and> utf8_cont b"

definition utf8_lead4 :: "nat \<Rightarrow> nat \<Rightarrow> bool" where
  "utf8_lead4 a b \<longleftrightarrow>
     a = 240 \<and> 144 \<le> b \<and> b \<le> 191 \<or>
     a = 244 \<and> 128 \<le> b \<and> b \<le> 143 \<or>
     241 \<le> a \<and> a \<le> 243 \<and> utf8_cont b"

fun utf8_scan :: "nat list \<Rightarrow> nat \<times> bool" where
  "utf8_scan [] = (0, True)"
| "utf8_scan (a # xs) =
     (let bad = (case utf8_scan xs of (n, _) \<Rightarrow> (Suc n, False)) in
      if a < 128 then map_prod Suc id (utf8_scan xs)
      else case xs of
        [] \<Rightarrow> bad
      | b # ys \<Rightarrow>
          if utf8_lead2 a \<and> utf8_cont b then map_prod Suc id (utf8_scan ys)
          else case ys of
            [] \<Rightarrow> bad
          | c # zs \<Rightarrow>
              if utf8_lead3 a b \<and> utf8_cont c then map_prod Suc id (utf8_scan zs)
              else case zs of
                [] \<Rightarrow> bad
              | d # ws \<Rightarrow>
                  if utf8_lead4 a b \<and> utf8_cont c \<and> utf8_cont d
                  then map_prod Suc id (utf8_scan ws) else bad)"

text \<open>The general equation unfolds without end under case splits, so only its ASCII instance is a rewrite rule.\<close>

declare utf8_scan.simps(2) [simp del]

lemma utf8_scan_ascii [simp]: "a < 128 \<Longrightarrow> utf8_scan (a # xs) = map_prod Suc id (utf8_scan xs)"
  by (subst utf8_scan.simps(2)) simp

lemma utf8_scan_Cons_pos: "0 < fst (utf8_scan (a # xs))"
  by (subst utf8_scan.simps(2)) (simp add: Let_def split: list.split prod.split)

lemma utf8_scan_all_ascii: "list_all (\<lambda>b. b < 128) bs \<Longrightarrow> utf8_scan bs = (length bs, True)"
  by (induction bs) simp_all

definition ValidString :: "string \<Rightarrow> bool" where
  "ValidString s \<longleftrightarrow> snd (utf8_scan (map of_char s))"

definition RuneCount :: "string \<Rightarrow> nat" where
  "RuneCount s = fst (utf8_scan (map of_char s))"

text \<open>The UTF-8 encodings of the runes that \<open>unicode.IsSpace\<close> accepts.\<close>

definition space_runes :: "nat list list" where
  "space_runes =
     [[9], [10], [11], [12], [13], [32], [194, 133], [194, 160], [225, 154, 128]] @
     map (\<lambda>c. [226, 128, c]) [128, 129, 130, 131, 132, 133, 134, 135, 136, 137, 138, 168, 169, 175] @
     [[226, 129, 159], [227, 128, 128]]"

fun strip_prefix :: "'a list \<Rightarrow> 'a list \<Rightarrow> 'a list option" where
  "strip_prefix [] ys = Some ys"
| "strip_prefix (x # xs) [] = None"
| "strip_prefix (x # xs) (y # ys) = (if x = y then strip_prefix xs ys else None)"

definition strip_first :: "'a list list \<Rightarrow> 'a list \<Rightarrow> 'a list option" where
  "strip_first ps ys =
     (case filter (\<lambda>p. strip_prefix p ys \<noteq> None) ps of [] \<Rightarrow> None | p # _ \<Rightarrow> strip_prefix p ys)"

fun trim_left :: "nat \<Rightarrow> 'a list list \<Rightarrow> 'a list \<Rightarrow> 'a list" where
  "trim_left 0 ps ys = ys"
| "trim_left (Suc n) ps ys =
     (case strip_first ps ys of None \<Rightarrow> ys | Some zs \<Rightarrow> trim_left n ps zs)"

text \<open>
  \<open>strings.TrimSpace\<close>: spaces are stripped from the front and, on the reversed string, from the
  back. Every step removes at least one byte, so as many steps as there are bytes are enough.
\<close>

definition TrimSpace :: "string \<Rightarrow> string" where
  "TrimSpace s =
     (let front = trim_left (length s) (map (map char_of) space_runes) s
      in rev (trim_left (length front) (map (\<lambda>p. rev (map char_of p)) space_runes) (rev front)))"

lemma strip_prefix_length: "strip_prefix p ys = Some zs \<Longrightarrow> length ys = length p + length zs"
  by (induction p ys rule: strip_prefix.induct) (auto split: if_splits)

text \<open>A string that neither starts nor ends with a space is unchanged.\<close>

lemma strip_first_stop:
  assumes "\<And>p. p \<in> set ps \<Longrightarrow> p \<noteq> [] \<and> hd p \<noteq> c"
  shows "strip_first ps (c # cs) = None"
proof -
  have "strip_prefix p (c # cs) = None" if "p \<in> set ps" for p using assms[OF that] by (cases p) auto
  then have "filter (\<lambda>p. strip_prefix p (c # cs) \<noteq> None) ps = []" by (simp add: filter_empty_conv)
  then show ?thesis by (simp add: strip_first_def)
qed

lemma trim_left_stop: "strip_first ps ys = None \<Longrightarrow> trim_left n ps ys = ys"
  by (cases n) simp_all

lemma of_char_same: "char_of n = c \<Longrightarrow> (of_char c :: nat) = n mod 256"
  by auto

lemma TrimSpace_keeps:
  assumes "s \<noteq> []" "list_all (\<lambda>p. p \<noteq> [] \<and> of_char (hd s) \<noteq> hd p mod 256 \<and> of_char (last s) \<noteq> last p mod 256) space_runes"
  shows "TrimSpace s = s"
proof -
  obtain c cs where s: "s = c # cs" using assms(1) by (cases s) auto
  obtain e es where r: "rev s = e # es" using assms(1) by (cases "rev s") auto
  have last: "last s = e" using r by (metis last_rev list.sel(1) rev_rev_ident)
  have "strip_first (map (map char_of) space_runes) s = None"
    unfolding s by (rule strip_first_stop) (use assms(2) in \<open>auto simp: s list_all_iff hd_map dest!: of_char_same\<close>)
  moreover have "strip_first (map (\<lambda>p. rev (map char_of p)) space_runes) (rev s) = None"
    unfolding r by (rule strip_first_stop) (use assms(2) last in \<open>auto simp: list_all_iff hd_rev last_map dest!: of_char_same\<close>)
  ultimately show ?thesis by (simp add: TrimSpace_def trim_left_stop Let_def)
qed

text \<open>\<open>strings.ToLower\<close> leaves exactly the strings without ASCII capitals unchanged when every byte is ASCII.\<close>

definition is_lower_hex :: "char \<Rightarrow> bool" where
  "is_lower_hex c \<longleftrightarrow> (let b = of_char c :: nat in 48 \<le> b \<and> b \<le> 57 \<or> 97 \<le> b \<and> b \<le> 102)"

lemma map_sum_Inr: "map_sum f g r = Inr x \<longleftrightarrow> (\<exists>y. r = Inr y \<and> x = g y)"
  by (cases r) auto

section \<open>Optional references\<close>

text \<open>A Go pointer that may be nil, compared with a value: \<open>value != nil && *value == want\<close>.\<close>

definition ptr_eq :: "'a option \<Rightarrow> 'a \<Rightarrow> bool" where
  [simp]: "ptr_eq p x \<longleftrightarrow> p = Some x"

text \<open>SQL comparisons with a nullable left operand: NULL makes the condition fail.\<close>

definition sql_eq :: "'a option \<Rightarrow> 'a option \<Rightarrow> bool" where
  "sql_eq x y \<longleftrightarrow> x \<noteq> None \<and> x = y"

definition sql_gt :: "'a::ord option \<Rightarrow> 'a \<Rightarrow> bool" where
  "sql_gt v x \<longleftrightarrow> (case v of None \<Rightarrow> False | Some y \<Rightarrow> x < y)"

definition sql_le :: "'a::ord option \<Rightarrow> 'a \<Rightarrow> bool" where
  "sql_le v x \<longleftrightarrow> (case v of None \<Rightarrow> False | Some y \<Rightarrow> y \<le> x)"

lemma sql_gt_simps [simp]: "sql_gt None x = False" "sql_gt (Some y) x = (x < y)"
  by (simp_all add: sql_gt_def)

lemma sql_le_simps [simp]: "sql_le None x = False" "sql_le (Some y) x = (y \<le> x)"
  by (simp_all add: sql_le_def)

lemma sql_gt_Some: "sql_gt v x \<Longrightarrow> \<exists>y. v = Some y \<and> x < y"
  by (cases v) auto

section \<open>Optional errors\<close>

text \<open>
  A Go function that returns only an \<open>error\<close> is an option, \<open>None\<close> for nil; \<open>err_then a b\<close> is
  \<open>if err := a; err != nil { return err }\<close> followed by \<open>b\<close>, and \<open>err_if c e\<close> is
  \<open>if c { return e }\<close> at the end of a function that otherwise returns nil.
\<close>

definition err_then :: "'e option \<Rightarrow> 'e option \<Rightarrow> 'e option" where
  "err_then a b = (case a of None \<Rightarrow> b | Some e \<Rightarrow> Some e)"

definition err_if :: "bool \<Rightarrow> 'e \<Rightarrow> 'e option" where
  "err_if c e = (if c then Some e else None)"

lemma err_then_None [simp]: "err_then a b = None \<longleftrightarrow> a = None \<and> b = None"
  by (cases a) (auto simp: err_then_def)

lemma err_if_None [simp]: "err_if c e = None \<longleftrightarrow> \<not> c"
  by (simp add: err_if_def)

lemma err_then_SomeD: "err_then a b = Some e \<Longrightarrow> a = Some e \<or> b = Some e"
  by (cases a) (auto simp: err_then_def)

lemma err_if_SomeD: "err_if c e = Some e' \<Longrightarrow> e' = e"
  by (auto simp: err_if_def split: if_splits)

section \<open>Transactions\<close>

type_synonym ('s, 'e, 'a) tx = "'s \<Rightarrow> 'e + 'a \<times> 's"

definition tx_return :: "'a \<Rightarrow> ('s, 'e, 'a) tx" where
  "tx_return a = (\<lambda>s. Inr (a, s))"

definition tx_fail :: "'e \<Rightarrow> ('s, 'e, 'a) tx" where
  "tx_fail e = (\<lambda>s. Inl e)"

definition tx_bind :: "('s, 'e, 'a) tx \<Rightarrow> ('a \<Rightarrow> ('s, 'e, 'b) tx) \<Rightarrow> ('s, 'e, 'b) tx" where
  "tx_bind m f = (\<lambda>s. case m s of Inl e \<Rightarrow> Inl e | Inr (a, s') \<Rightarrow> f a s')"

text \<open>\<open>tx_guard b e\<close> is \<open>if !b { return e }\<close>; \<open>tx_lift\<close> runs a pure fallible computation.\<close>

definition tx_guard :: "bool \<Rightarrow> 'e \<Rightarrow> ('s, 'e, unit) tx" where
  "tx_guard b e = (if b then tx_return () else tx_fail e)"

definition tx_lift :: "'e + 'a \<Rightarrow> ('s, 'e, 'a) tx" where
  "tx_lift r = (case r of Inl e \<Rightarrow> tx_fail e | Inr a \<Rightarrow> tx_return a)"

text \<open>
  A \<open>:one\<close> query returns a row and the database after it, or \<open>None\<close> for \<open>pgx.ErrNoRows\<close>.
  \<open>tx_one e q\<close> maps no rows to the error \<open>e\<close>; \<open>tx_opt q\<close> hands the outcome to the caller.
\<close>

type_synonym ('s, 'a) query = "'s \<Rightarrow> ('a \<times> 's) option"

definition tx_one :: "'e \<Rightarrow> ('s, 'a) query \<Rightarrow> ('s, 'e, 'a) tx" where
  "tx_one e q = (\<lambda>s. case q s of None \<Rightarrow> Inl e | Some r \<Rightarrow> Inr r)"

definition tx_opt :: "('s, 'a) query \<Rightarrow> ('s, 'e, 'a option) tx" where
  "tx_opt q = (\<lambda>s. case q s of None \<Rightarrow> Inr (None, s) | Some (a, s') \<Rightarrow> Inr (Some a, s'))"

text \<open>\<open>pgx.BeginTxFunc\<close>: commit on success, roll back on error.\<close>

definition WithTransaction :: "('s, 'e, 'a) tx \<Rightarrow> 's \<Rightarrow> ('e + 'a) \<times> 's" where
  "WithTransaction m s = (case m s of Inl e \<Rightarrow> (Inl e, s) | Inr (a, s') \<Rightarrow> (Inr a, s'))"

lemma tx_return_Inr [tx_simps]: "tx_return a s = Inr r \<longleftrightarrow> r = (a, s)"
  by (auto simp: tx_return_def)

lemma tx_fail_Inr [tx_simps]: "tx_fail e s = Inr r \<longleftrightarrow> False"
  by (simp add: tx_fail_def)

lemma tx_bind_Inr [tx_simps]:
  "tx_bind m f s = Inr r \<longleftrightarrow> (\<exists>a s'. m s = Inr (a, s') \<and> f a s' = Inr r)"
  by (auto simp: tx_bind_def split: sum.splits)

lemma tx_guard_Inr [tx_simps]: "tx_guard b e s = Inr r \<longleftrightarrow> b \<and> r = ((), s)"
  by (auto simp: tx_guard_def tx_return_def tx_fail_def)

lemma tx_lift_Inr [tx_simps]: "tx_lift v s = Inr r \<longleftrightarrow> (\<exists>a. v = Inr a \<and> r = (a, s))"
  by (auto simp: tx_lift_def tx_return_def tx_fail_def split: sum.splits)

lemma tx_one_Inr [tx_simps]: "tx_one e q s = Inr r \<longleftrightarrow> q s = Some r"
  by (auto simp: tx_one_def split: option.splits)

lemma tx_opt_Inr [tx_simps]:
  "tx_opt q s = Inr (v, s') \<longleftrightarrow>
     (q s = None \<and> v = None \<and> s' = s \<or> (\<exists>a. q s = Some (a, s') \<and> v = Some a))"
  by (auto simp: tx_opt_def split: option.splits)

lemma tx_eval:
  "tx_return a s = Inr (a, s)" "tx_fail e s = Inl e"
  "tx_bind m f s = (case m s of Inl e \<Rightarrow> Inl e | Inr (a, s') \<Rightarrow> f a s')"
  by (simp_all add: tx_return_def tx_fail_def tx_bind_def)

lemmas tx_defs = tx_eval tx_guard_def tx_lift_def tx_one_def tx_opt_def

lemma WithTransaction_cases:
  assumes "WithTransaction m s = (r, s')"
  obtains (rollback) e where "r = Inl e" "s' = s" "m s = Inl e"
    | (commit) a where "r = Inr a" "m s = Inr (a, s')"
  using assms by (auto simp: WithTransaction_def split: sum.splits)

lemma WithTransaction_commit: "WithTransaction m s = (Inr a, s') \<longleftrightarrow> m s = Inr (a, s')"
  by (auto simp: WithTransaction_def split: sum.splits)

lemma WithTransaction_error: "WithTransaction m s = (Inl e, s') \<Longrightarrow> s' = s"
  by (auto simp: WithTransaction_def split: sum.splits)

section \<open>Keyed tables\<close>

text \<open>
  A table is the list of its rows, in insertion order, and a key projection gives the primary key.
  \<open>find_row\<close> is a \<open>SELECT\<close> by key, \<open>update_row\<close> an \<open>UPDATE\<close> by key, \<open>insert_row\<close> an
  \<open>INSERT\<close>; \<open>count_rows\<close> counts the rows that satisfy a condition.
\<close>

definition find_row :: "('r \<Rightarrow> 'k) \<Rightarrow> 'k \<Rightarrow> 'r list \<Rightarrow> 'r option" where
  "find_row key k t = List.find (\<lambda>r. key r = k) t"

definition update_row :: "('r \<Rightarrow> 'k) \<Rightarrow> 'k \<Rightarrow> ('r \<Rightarrow> 'r) \<Rightarrow> 'r list \<Rightarrow> 'r list" where
  "update_row key k f t = map (\<lambda>r. if key r = k then f r else r) t"

definition insert_row :: "'r \<Rightarrow> 'r list \<Rightarrow> 'r list" where
  "insert_row r t = t @ [r]"

definition count_rows :: "('r \<Rightarrow> bool) \<Rightarrow> 'r list \<Rightarrow> nat" where
  "count_rows P t = length (filter P t)"

definition unique_keys :: "('r \<Rightarrow> 'k) \<Rightarrow> 'r list \<Rightarrow> bool" where
  "unique_keys key t \<longleftrightarrow> distinct (map key t)"

lemma find_row_SomeD: "find_row key k t = Some r \<Longrightarrow> r \<in> set t \<and> key r = k"
  by (auto simp: find_row_def find_Some_iff)

lemma find_row_key: "find_row key k t = Some r \<Longrightarrow> key r = k"
  by (blast dest: find_row_SomeD)

lemma find_row_None: "find_row key k t = None \<longleftrightarrow> k \<notin> key ` set t"
  by (auto simp: find_row_def find_None_iff)

lemma find_row_in_set: "unique_keys key t \<Longrightarrow> r \<in> set t \<Longrightarrow> find_row key (key r) t = Some r"
  by (induction t) (auto simp: find_row_def unique_keys_def)

lemma find_row_iff: "unique_keys key t \<Longrightarrow> find_row key k t = Some r \<longleftrightarrow> r \<in> set t \<and> key r = k"
  using find_row_in_set find_row_SomeD by metis

lemma find_row_update [row_simps]:
  assumes "\<And>r. key r = k \<Longrightarrow> key (f r) = k"
  shows "find_row key j (update_row key k f t) =
           (if j = k then map_option f (find_row key k t) else find_row key j t)"
  using assms by (induction t) (auto simp: find_row_def update_row_def)

lemma find_row_replace:
  "find_row key k t = Some r \<Longrightarrow> key r' = k \<Longrightarrow>
     find_row key j (update_row key k (\<lambda>_. r') t) = (if j = k then Some r' else find_row key j t)"
  by (simp add: find_row_update)

lemma find_row_insert [row_simps]:
  "find_row key j (insert_row r t) =
     (case find_row key j t of Some x \<Rightarrow> Some x | None \<Rightarrow> if key r = j then Some r else None)"
  by (induction t) (auto simp: find_row_def insert_row_def)

lemma map_key_update [row_simps]:
  "(\<And>r. key r = k \<Longrightarrow> key (f r) = k) \<Longrightarrow> map key (update_row key k f t) = map key t"
  by (induction t) (auto simp: update_row_def)

lemma unique_keys_update [row_simps]:
  "(\<And>r. key r = k \<Longrightarrow> key (f r) = k) \<Longrightarrow> unique_keys key (update_row key k f t) = unique_keys key t"
  by (simp add: unique_keys_def map_key_update)

lemma unique_keys_insert [row_simps]:
  "unique_keys key (insert_row r t) \<longleftrightarrow> unique_keys key t \<and> find_row key (key r) t = None"
  by (auto simp: unique_keys_def insert_row_def find_row_None)

lemma set_update_row: "set (update_row key k f t) = (\<lambda>r. if key r = k then f r else r) ` set t"
  by (simp add: update_row_def)

lemma set_insert_row: "set (insert_row r t) = insert r (set t)"
  by (simp add: insert_row_def)

lemma update_row_absent: "find_row key k t = None \<Longrightarrow> update_row key k f t = t"
  by (induction t) (auto simp: find_row_def update_row_def split: if_splits)

lemma count_rows_insert [row_simps]:
  "count_rows P (insert_row r t) = count_rows P t + (if P r then 1 else 0)"
  by (simp add: count_rows_def insert_row_def)

lemma count_rows_update_pos:
  "unique_keys key t \<Longrightarrow> find_row key k t = Some r \<Longrightarrow> P r \<Longrightarrow> 0 < count_rows P t"
  by (auto simp: count_rows_def filter_empty_conv dest: find_row_SomeD)

text \<open>Updating the one row with key \<open>k\<close> changes a count by what the condition says of that row before and after.\<close>

lemma count_rows_update:
  assumes "unique_keys key t" "find_row key k t = Some r"
  shows "int (count_rows P (update_row key k f t)) =
           int (count_rows P t) - (if P r then 1 else 0) + (if P (f r) then 1 else 0)"
  using assms
proof (induction t)
  case Nil
  then show ?case by (simp add: find_row_def)
next
  case (Cons x t)
  show ?case
  proof (cases "key x = k")
    case True
    with Cons.prems have "r = x" and "find_row key k t = None"
      by (auto simp: find_row_def unique_keys_def find_row_None[unfolded find_row_def])
    then have "update_row key k f t = t" by (simp add: update_row_absent)
    with True \<open>r = x\<close> show ?thesis by (simp add: count_rows_def update_row_def)
  next
    case False
    with Cons show ?thesis
      by (auto simp: count_rows_def update_row_def find_row_def unique_keys_def)
  qed
qed

lemma count_rows_cong: "(\<And>r. r \<in> set t \<Longrightarrow> P r = Q r) \<Longrightarrow> count_rows P t = count_rows Q t"
  by (simp add: count_rows_def cong: filter_cong)

section \<open>Interfaces\<close>

text \<open>
  A service is a family of requests, each of which answers and moves the database. \<open>service_inv\<close>
  is the contract "every request keeps the invariant"; the runs of a service, which are the
  interleavings of its committed transactions, then keep it as well.
\<close>

fun run_service :: "('q \<Rightarrow> 's \<Rightarrow> 'a \<times> 's) \<Rightarrow> 'q list \<Rightarrow> 's \<Rightarrow> 's" where
  "run_service step [] s = s"
| "run_service step (q # qs) s = run_service step qs (snd (step q s))"

locale service_inv =
  fixes step :: "'q \<Rightarrow> 's \<Rightarrow> 'a \<times> 's"
    and inv :: "'s \<Rightarrow> bool"
  assumes step_inv: "inv s \<Longrightarrow> inv (snd (step q s))"
begin

lemma run_inv: "inv s \<Longrightarrow> inv (run_service step qs s)"
  by (induction qs arbitrary: s) (auto intro: step_inv)

end

text \<open>
  A service with a ranking that no request decreases, for states that satisfy the invariant.
\<close>

locale service_mono = service_inv +
  fixes rank :: "'s \<Rightarrow> 'r::preorder"
  assumes step_rank: "inv s \<Longrightarrow> rank s \<le> rank (snd (step q s))"
begin

lemma run_rank: "inv s \<Longrightarrow> rank s \<le> rank (run_service step qs s)"
proof (induction qs arbitrary: s)
  case Nil
  then show ?case by simp
next
  case (Cons q qs)
  then have "rank s \<le> rank (snd (step q s))" by (blast intro: step_rank)
  also have "\<dots> \<le> rank (run_service step qs (snd (step q s)))"
    using Cons by (blast intro: step_inv)
  finally show ?case by simp
qed

end

end
