(* ===== verification/Wire_Protocol.thy ===== *)
theory Wire_Protocol
  imports Core_Prelude Complex_Main
begin

text \<open>
  The Runtime wire vocabulary: message types, envelopes, payload structs, enumerations and the
  stable error body, from \<open>pkg/runtime/protocol.go\<close>, \<open>contract.go\<close>, \<open>wire_compatibility.go\<close>,
  \<open>protocol_error.go\<close>, \<open>event_store.go\<close> and \<open>browser_observation_payloads.go\<close>. Go string enums
  stay strings, because the validators are what rejects values outside the closed sets. A
  \<open>map[string]any\<close> is an optional list of members: \<open>None\<close> is the nil map.
\<close>

section \<open>JSON values\<close>

datatype json =
    JNull
  | JBool bool
  | JNumber string
  | JString string
  | JArray "json list"
  | JObject "(string \<times> json) list"

type_synonym jmap = "(string \<times> json) list"

text \<open>A \<open>float64\<close> as the validators see it: not a number, infinite, or a finite value.\<close>

datatype float64 = FNaN | FInf | FFin rat

section \<open>Contract constants\<close>

definition MaxRuntimeMessageBytes :: nat where
  "MaxRuntimeMessageBytes = 4 * 1024 * 1024"

definition RuntimeOfferTTLSeconds :: int where "RuntimeOfferTTLSeconds = 30"
definition RuntimeLeaseTTLSeconds :: int where "RuntimeLeaseTTLSeconds = 60"
definition RuntimeMaximumNodeCapacity :: int where "RuntimeMaximumNodeCapacity = 1024"
definition RuntimeMaximumResumeAttempts :: nat where "RuntimeMaximumResumeAttempts = 1024"

definition RuntimeProtocolVersion :: int where "RuntimeProtocolVersion = 2"

definition RuntimeContractID :: string where
  "RuntimeContractID = ''openlinker.runtime.v2''"

definition RuntimeContractDigest :: string where
  "RuntimeContractDigest = ''4be9b2fe09eeedf0e37119075134064be88f93b301c502cdfa21a6cb978c6481''"

definition RuntimeRequiredFeatures :: "string list" where
  "RuntimeRequiredFeatures =
     [''lease_fence'', ''assignment_confirm'', ''renew'', ''resume'', ''event_ack'',
      ''result_ack'', ''cancel'', ''persistent_spool'', ''session_drain'']"

definition runtimePreviousContractDigest :: string where
  "runtimePreviousContractDigest =
     ''3f84df167bbe211efdc6362ad5ec876aeedf881cbfb9677606982af63c7423e9''"

record runtimeWireGeneration =
  wg_digest :: string
  wg_requiresAttachmentGeneration :: bool

definition runtimeSupportedWireGenerations :: "runtimeWireGeneration list" where
  "runtimeSupportedWireGenerations =
     [\<lparr>wg_digest = RuntimeContractDigest, wg_requiresAttachmentGeneration = True\<rparr>,
      \<lparr>wg_digest = runtimePreviousContractDigest, wg_requiresAttachmentGeneration = True\<rparr>]"

definition runtimeWireGenerationForDigest :: "string \<Rightarrow> runtimeWireGeneration option" where
  "runtimeWireGenerationForDigest digest =
     List.find (\<lambda>g. wg_digest g = digest) runtimeSupportedWireGenerations"

definition runtimeWireContractSupported :: "string \<Rightarrow> bool" where
  "runtimeWireContractSupported digest \<longleftrightarrow> runtimeWireGenerationForDigest digest \<noteq> None"

definition runtimeWireContractAllowsMissingAttachment :: "string \<Rightarrow> bool" where
  "runtimeWireContractAllowsMissingAttachment digest \<longleftrightarrow>
     (case runtimeWireGenerationForDigest digest of
        None \<Rightarrow> False
      | Some g \<Rightarrow> \<not> wg_requiresAttachmentGeneration g)"

definition runtimeRequiredFeaturesForDigest :: "string \<Rightarrow> string list" where
  "runtimeRequiredFeaturesForDigest contractDigest =
     (if contractDigest = RuntimeContractDigest then RuntimeRequiredFeatures
      else filter (\<lambda>feature. feature \<noteq> ''session_drain'') RuntimeRequiredFeatures)"

section \<open>Message types\<close>

type_synonym RuntimeMessageType = string

abbreviation "RuntimeMessageHello \<equiv> ''runtime.hello''"
abbreviation "RuntimeMessageReady \<equiv> ''runtime.ready''"
abbreviation "RuntimeMessageRunAssigned \<equiv> ''run.assigned''"
abbreviation "RuntimeMessageAssignmentAck \<equiv> ''run.assignment.ack''"
abbreviation "RuntimeMessageAssignmentConfirmed \<equiv> ''run.assignment.confirmed''"
abbreviation "RuntimeMessageAssignmentReject \<equiv> ''run.assignment.reject''"
abbreviation "RuntimeMessageAssignmentRejected \<equiv> ''run.assignment.rejected''"
abbreviation "RuntimeMessageLeaseRenew \<equiv> ''run.lease.renew''"
abbreviation "RuntimeMessageLeaseRenewed \<equiv> ''run.lease.renewed''"
abbreviation "RuntimeMessageRunEvent \<equiv> ''run.event''"
abbreviation "RuntimeMessageRunEventAck \<equiv> ''run.event.ack''"
abbreviation "RuntimeMessageRunResult \<equiv> ''run.result''"
abbreviation "RuntimeMessageRunResultAck \<equiv> ''run.result.ack''"
abbreviation "RuntimeMessageRunCancel \<equiv> ''run.cancel''"
abbreviation "RuntimeMessageRunCancelAck \<equiv> ''run.cancel.ack''"
abbreviation "RuntimeMessageResume \<equiv> ''runtime.resume''"
abbreviation "RuntimeMessageResumeAccepted \<equiv> ''run.resume.accepted''"
abbreviation "RuntimeMessageLeaseRevoked \<equiv> ''run.lease.revoked''"
abbreviation "RuntimeMessageDrain \<equiv> ''runtime.drain''"
abbreviation "RuntimeMessageBrowserViewerCommand \<equiv> ''browser.viewer.command''"
abbreviation "RuntimeMessageBrowserViewerFrame \<equiv> ''browser.viewer.frame''"
abbreviation "RuntimeMessageBrowserViewerFrameAck \<equiv> ''browser.viewer.frame.ack''"
abbreviation "RuntimeMessageBrowserObserverCommand \<equiv> ''browser.observer.command''"
abbreviation "RuntimeMessageBrowserObserverEvent \<equiv> ''browser.observer.event''"
abbreviation "RuntimeMessageBrowserObserverEventAck \<equiv> ''browser.observer.event.ack''"
abbreviation "RuntimeMessageError \<equiv> ''runtime.error''"

text \<open>The routing envelope: the common fields and the raw payload.\<close>

record RuntimeEnvelope =
  env_ProtocolVersion :: int
  env_RuntimeContractID :: string
  env_MessageID :: uuid
  env_ReplyToMessageID :: "uuid option"
  env_Type :: RuntimeMessageType
  env_SentAt :: gotime
  env_Payload :: bytes

section \<open>Enumerations\<close>

abbreviation "RuntimeRunRunning \<equiv> ''running''"
abbreviation "RuntimeRunSuccess \<equiv> ''success''"
abbreviation "RuntimeRunFailed \<equiv> ''failed''"
abbreviation "RuntimeRunTimeout \<equiv> ''timeout''"
abbreviation "RuntimeRunCanceled \<equiv> ''canceled''"

abbreviation "RuntimeDispatchPending \<equiv> ''pending''"
abbreviation "RuntimeDispatchOffered \<equiv> ''offered''"
abbreviation "RuntimeDispatchExecuting \<equiv> ''executing''"
abbreviation "RuntimeDispatchRetryWait \<equiv> ''retry_wait''"
abbreviation "RuntimeDispatchTerminal \<equiv> ''terminal''"
abbreviation "RuntimeDispatchDeadLetter \<equiv> ''dead_letter''"

definition validRuntimeRunStatus :: "string \<Rightarrow> bool" where
  "validRuntimeRunStatus v \<longleftrightarrow>
     v \<in> {RuntimeRunRunning, RuntimeRunSuccess, RuntimeRunFailed, RuntimeRunTimeout, RuntimeRunCanceled}"

definition validRuntimeDispatchState :: "string \<Rightarrow> bool" where
  "validRuntimeDispatchState v \<longleftrightarrow>
     v \<in> {RuntimeDispatchPending, RuntimeDispatchOffered, RuntimeDispatchExecuting,
          RuntimeDispatchRetryWait, RuntimeDispatchTerminal, RuntimeDispatchDeadLetter}"

definition validRuntimeCancelState :: "string \<Rightarrow> bool" where
  "validRuntimeCancelState v \<longleftrightarrow>
     v \<in> {''requested'', ''delivered'', ''stopping'', ''stopped'', ''unsupported'', ''failed'',
          ''unconfirmed''}"

definition validRuntimeResultClassification :: "string \<Rightarrow> bool" where
  "validRuntimeResultClassification v \<longleftrightarrow>
     v \<in> {''success'', ''retryable_failure'', ''non_retryable_failure'', ''timeout'', ''canceled'',
          ''dead_letter''}"

definition validAssignmentRejectOutcome :: "string \<Rightarrow> bool" where
  "validAssignmentRejectOutcome v \<longleftrightarrow> v = ''offer_rejected'' \<or> v = ''lease_revoked''"

section \<open>Payload structs\<close>

record AttemptIdentity =
  ai_RunID :: uuid
  ai_AttemptID :: uuid
  ai_LeaseID :: uuid
  ai_FencingToken :: int
  ai_NodeID :: uuid
  ai_AgentID :: uuid
  ai_WorkerID :: string
  ai_RuntimeSessionID :: uuid

text \<open>The transport-neutral identity: Core-owned executors have no Node, Session or Worker.\<close>

record RuntimeAttemptIdentity =
  ra_RunID :: uuid
  ra_AttemptID :: uuid
  ra_LeaseID :: uuid
  ra_FencingToken :: int
  ra_NodeID :: "uuid option"
  ra_AgentID :: uuid
  ra_WorkerID :: "string option"
  ra_RuntimeSessionID :: "uuid option"

definition RuntimeIdentity :: "AttemptIdentity \<Rightarrow> RuntimeAttemptIdentity" where
  "RuntimeIdentity i =
     \<lparr>ra_RunID = ai_RunID i, ra_AttemptID = ai_AttemptID i, ra_LeaseID = ai_LeaseID i,
      ra_FencingToken = ai_FencingToken i, ra_NodeID = Some (ai_NodeID i), ra_AgentID = ai_AgentID i,
      ra_WorkerID = Some (ai_WorkerID i), ra_RuntimeSessionID = Some (ai_RuntimeSessionID i)\<rparr>"

record EventRange =
  er_Start :: int
  er_End :: int

record RuntimeHelloPayload =
  hello_NodeID :: uuid
  hello_AgentID :: uuid
  hello_WorkerID :: string
  hello_RuntimeSessionID :: uuid
  hello_SessionEpoch :: int
  hello_NodeVersion :: string
  hello_Capacity :: int
  hello_Features :: "string list"
  hello_ContractDigest :: string

record RuntimeReadyPayload =
  ready_CoreInstanceID :: string
  ready_AttachmentID :: uuid
  ready_Features :: "string list"
  ready_OfferTTLSeconds :: int
  ready_LeaseTTLSeconds :: int
  ready_DatabaseTime :: gotime

record RunAssignedPayload =
  asg_AttemptIdentity :: AttemptIdentity
  asg_OfferNo :: int
  asg_OfferExpiresAt :: gotime
  asg_AttemptDeadlineAt :: gotime
  asg_RunDeadlineAt :: gotime
  asg_Input :: "jmap option"
  asg_Metadata :: "jmap option"
  asg_NodeEnvelope :: string
  asg_AgentInvocationToken :: string

record RunAssignmentAckPayload =
  ack_AttemptIdentity :: AttemptIdentity

record RunAssignmentConfirmedPayload =
  cnf_AttemptIdentity :: AttemptIdentity
  cnf_AttemptNo :: int
  cnf_LeaseExpiresAt :: gotime

record RunAssignmentRejectPayload =
  rej_AttemptIdentity :: AttemptIdentity
  rej_ReasonCode :: string
  rej_Capacity :: int
  rej_Inflight :: int

record RunAssignmentRejectedPayload =
  rjd_AttemptIdentity :: AttemptIdentity
  rjd_Outcome :: string
  rjd_DispatchState :: string

record RunLeaseRenewPayload =
  rnw_AttemptIdentity :: AttemptIdentity
  rnw_LastClientEventSeq :: int
  rnw_Capacity :: int
  rnw_Inflight :: int

record PendingCommand =
  pc_Type :: RuntimeMessageType
  pc_Payload :: bytes

record RunLeaseRenewedPayload =
  rnd_AttemptIdentity :: AttemptIdentity
  rnd_LeaseExpiresAt :: gotime
  rnd_PendingCommand :: "PendingCommand option"

record RunEventPayload =
  evt_AttemptIdentity :: AttemptIdentity
  evt_ClientEventID :: uuid
  evt_ClientEventSeq :: int
  evt_EventType :: string
  evt_Payload :: "jmap option"

record RunEventAckPayload =
  eva_ClientEventID :: uuid
  eva_ClientEventSeq :: int
  eva_Sequence :: int
  eva_Replayed :: bool

record RunErrorPayload =
  rer_ErrorCode :: string
  rer_Message :: string
  rer_RetryableHint :: bool

record RunResultPayload =
  res_AttemptIdentity :: AttemptIdentity
  res_ResultID :: uuid
  res_Status :: string
  res_Output :: "jmap option"
  res_Error :: "RunErrorPayload option"
  res_DurationMS :: int
  res_FinalClientEventSeq :: int

record RunResultAckPayload =
  rsa_ResultID :: uuid
  rsa_Classification :: string
  rsa_RunStatus :: string
  rsa_DispatchState :: string
  rsa_Replayed :: bool
  rsa_NextAttemptAt :: "gotime option"

record RunCancelPayload =
  can_CancellationID :: uuid
  can_AttemptIdentity :: AttemptIdentity
  can_ReasonCode :: string
  can_DeadlineAt :: gotime

record RunCancelAckPayload =
  cak_CancellationID :: uuid
  cak_AttemptIdentity :: AttemptIdentity
  cak_CancelState :: string
  cak_ErrorCode :: string

record RunCancellationState =
  cst_CancellationID :: uuid
  cst_CancelState :: string
  cst_UpdatedAt :: gotime
  cst_ErrorCode :: string

record ResumeAttempt =
  rsm_AttemptIdentity :: AttemptIdentity
  rsm_LastAckedClientEventSeq :: int
  rsm_PendingClientEventRanges :: "EventRange list"
  rsm_PendingResultID :: "uuid option"
  rsm_FinalClientEventSeq :: "int option"

record RuntimeResumePayload =
  rsp_NodeID :: uuid
  rsp_AgentID :: uuid
  rsp_WorkerID :: string
  rsp_RuntimeSessionID :: uuid
  rsp_Attempts :: "ResumeAttempt list"

record RunResumeAcceptedPayload =
  rac_AttemptIdentity :: AttemptIdentity
  rac_Decision :: string
  rac_LeaseExpiresAt :: "gotime option"
  rac_AllowedActions :: "string list"

record RuntimeResumeResponse =
  rrr_Decisions :: "RunResumeAcceptedPayload list"

record RunLeaseRevokedPayload =
  rev_AttemptIdentity :: AttemptIdentity
  rev_ReasonCode :: string
  rev_DispatchState :: string
  rev_RunStatus :: string

record RuntimeDrainPayload =
  drn_DeadlineAt :: gotime
  drn_ReasonCode :: string
  drn_Capacity :: int
  drn_Inflight :: int

section \<open>Browser viewer payloads\<close>

record BrowserViewerInputPayload =
  bvi_Kind :: string
  bvi_PointerAction :: string
  bvi_KeyboardAction :: string
  bvi_X :: "int option"
  bvi_Y :: "int option"
  bvi_Button :: string
  bvi_ClickCount :: int
  bvi_Key :: string
  bvi_Text :: string
  bvi_DeltaX :: float64
  bvi_DeltaY :: float64

text \<open>The epochs are \<open>uint64\<close> values: their successor wraps around.\<close>

record BrowserViewerCommandPayload =
  bvc_AttemptIdentity :: AttemptIdentity
  bvc_Action :: string
  bvc_BrowserSessionID :: uuid
  bvc_SessionEpoch :: "64 word"
  bvc_AttachmentID :: uuid
  bvc_PreviousControlEpoch :: "64 word"
  bvc_ControlEpoch :: "64 word"
  bvc_Input :: "BrowserViewerInputPayload option"
  bvc_DeadlineAt :: gotime

record BrowserViewerFramePayload =
  bvf_AttemptIdentity :: AttemptIdentity
  bvf_BrowserSessionID :: uuid
  bvf_SessionEpoch :: "64 word"
  bvf_AttachmentID :: uuid
  bvf_ControlEpoch :: "64 word"
  bvf_FrameSeq :: "64 word"
  bvf_MIMEType :: string
  bvf_Data :: bytes
  bvf_Width :: int
  bvf_Height :: int

record BrowserViewerFrameAckPayload =
  bva_AttemptIdentity :: AttemptIdentity
  bva_ControlEpoch :: "64 word"
  bva_FrameSeq :: "64 word"

section \<open>Browser observer payloads\<close>

definition BrowserObserverMinFrameIntervalMS :: int where "BrowserObserverMinFrameIntervalMS = 100"
definition BrowserObserverMaxFrameIntervalMS :: int where "BrowserObserverMaxFrameIntervalMS = 5000"
definition BrowserObserverMaxFrameBytes :: nat where "BrowserObserverMaxFrameBytes = 2 ^ 20"

record BrowserObserverIdentity =
  boi_RunID :: uuid
  boi_AttemptID :: uuid
  boi_RuntimeLeaseID :: uuid
  boi_FencingToken :: int
  boi_NodeID :: uuid
  boi_AgentID :: uuid
  boi_WorkerID :: string
  boi_SessionEpoch :: int
  boi_BrowserSessionSHA256 :: string
  boi_AttachmentSHA256 :: string
  boi_RuntimeSessionID :: uuid

record BrowserObserverCommandPayload =
  boc_AttemptIdentity :: AttemptIdentity
  boc_SessionEpoch :: int
  boc_BrowserSessionSHA256 :: string
  boc_AttachmentSHA256 :: string
  boc_CommandID :: uuid
  boc_Action :: string
  boc_LeaseID :: uuid
  boc_LeaseExpiresAt :: gotime
  boc_DeadlineAt :: gotime
  boc_FrameIntervalMS :: int
  boc_AcceptsFinalFrame :: bool

record BrowserObserverFramePayload =
  bof_MIMEType :: string
  bof_Data :: bytes
  bof_Width :: int
  bof_Height :: int

record BrowserObserverEventPayload =
  boe_AttemptIdentity :: AttemptIdentity
  boe_SessionEpoch :: int
  boe_BrowserSessionSHA256 :: string
  boe_AttachmentSHA256 :: string
  boe_CommandID :: uuid
  boe_LeaseID :: uuid
  boe_EventSeq :: int
  boe_Kind :: string
  boe_CapturedAt :: "gotime option"
  boe_Frame :: "BrowserObserverFramePayload option"
  boe_FinalFrame :: bool
  boe_ErrorCode :: string

record BrowserObserverEventAckPayload =
  boa_AttemptIdentity :: AttemptIdentity
  boa_SessionEpoch :: int
  boa_BrowserSessionSHA256 :: string
  boa_AttachmentSHA256 :: string
  boa_LeaseID :: uuid
  boa_EventSeq :: int

definition observer_RuntimeIdentity :: "BrowserObserverIdentity \<Rightarrow> AttemptIdentity" where
  "observer_RuntimeIdentity i =
     \<lparr>ai_RunID = boi_RunID i, ai_AttemptID = boi_AttemptID i, ai_LeaseID = boi_RuntimeLeaseID i,
      ai_FencingToken = boi_FencingToken i, ai_NodeID = boi_NodeID i, ai_AgentID = boi_AgentID i,
      ai_WorkerID = boi_WorkerID i, ai_RuntimeSessionID = boi_RuntimeSessionID i\<rparr>"

definition browserObserverIdentityFromWire ::
    "AttemptIdentity \<Rightarrow> int \<Rightarrow> string \<Rightarrow> string \<Rightarrow> BrowserObserverIdentity" where
  "browserObserverIdentityFromWire attempt sessionEpoch browserSessionSHA256 attachmentSHA256 =
     \<lparr>boi_RunID = ai_RunID attempt, boi_AttemptID = ai_AttemptID attempt,
      boi_RuntimeLeaseID = ai_LeaseID attempt, boi_FencingToken = ai_FencingToken attempt,
      boi_NodeID = ai_NodeID attempt, boi_AgentID = ai_AgentID attempt,
      boi_WorkerID = ai_WorkerID attempt, boi_SessionEpoch = sessionEpoch,
      boi_BrowserSessionSHA256 = browserSessionSHA256, boi_AttachmentSHA256 = attachmentSHA256,
      boi_RuntimeSessionID = ai_RuntimeSessionID attempt\<rparr>"

section \<open>Request and response bodies\<close>

record RuntimePreviousReadyPayload =
  prdy_CoreInstanceID :: string
  prdy_Features :: "string list"
  prdy_OfferTTLSeconds :: int
  prdy_LeaseTTLSeconds :: int
  prdy_DatabaseTime :: gotime

record RuntimeCommandsResponse =
  rcr_Commands :: "PendingCommand list"
  rcr_DatabaseTime :: gotime

record RuntimeClaimRequest =
  rcl_RuntimeSessionID :: uuid
  rcl_Capacity :: int
  rcl_Inflight :: int

record CallAgentRequest =
  car_TargetAgentID :: uuid
  car_Input :: "jmap option"
  car_Metadata :: "jmap option"
  car_Reason :: string

record RunSummary =
  sum_RunID :: uuid
  sum_Status :: string
  sum_DispatchState :: string

section \<open>Transport-neutral Result request\<close>

record RuntimeResultFailure =
  rf_ErrorCode :: string
  rf_Message :: string
  rf_RetryableHint :: bool

record RuntimeResultRequest =
  rq_AttemptIdentity :: RuntimeAttemptIdentity
  rq_ResultID :: uuid
  rq_Status :: string
  rq_Output :: "jmap option"
  rq_Error :: "RuntimeResultFailure option"
  rq_DurationMS :: "32 word"
  rq_FinalClientEventSeq :: int

end
