(* ===== verification/Wire_Errors.thy ===== *)
theory Wire_Errors
  imports Wire_Protocol
begin

text \<open>
  The stable error vocabulary of \<open>pkg/runtime/protocol_error.go\<close>: the closed set of codes, the
  error body, the constructors that normalise codes and messages, and the mappings to HTTP
  statuses and WebSocket close codes. A Go error is a chain of causes, and \<open>errors.As\<close> and
  \<open>errors.Is\<close> take the first link that matches.
\<close>

section \<open>Codes\<close>

type_synonym RuntimeErrorCode = string

abbreviation "RuntimeErrorBadRequest \<equiv> ''BAD_REQUEST''"
abbreviation "RuntimeErrorUnauthorized \<equiv> ''UNAUTHORIZED''"
abbreviation "RuntimeErrorForbidden \<equiv> ''FORBIDDEN''"
abbreviation "RuntimeErrorPermissionDenied \<equiv> ''PERMISSION_DENIED''"
abbreviation "RuntimeErrorNotFound \<equiv> ''NOT_FOUND''"
abbreviation "RuntimeErrorConflict \<equiv> ''CONFLICT''"
abbreviation "RuntimeErrorValidationFailed \<equiv> ''VALIDATION_FAILED''"
abbreviation "RuntimeErrorRateLimited \<equiv> ''RATE_LIMITED''"
abbreviation "RuntimeErrorInternal \<equiv> ''INTERNAL_ERROR''"
abbreviation "RuntimeErrorServiceUnavailable \<equiv> ''SERVICE_UNAVAILABLE''"
abbreviation "RuntimeErrorIdempotencyKeyReused \<equiv> ''IDEMPOTENCY_KEY_REUSED''"
abbreviation "RuntimeErrorRunAlreadyTerminal \<equiv> ''RUN_ALREADY_TERMINAL''"
abbreviation "RuntimeErrorStaleLease \<equiv> ''STALE_LEASE''"
abbreviation "RuntimeErrorLeaseExpired \<equiv> ''LEASE_EXPIRED''"
abbreviation "RuntimeErrorLeaseIdentityMismatch \<equiv> ''LEASE_IDENTITY_MISMATCH''"
abbreviation "RuntimeErrorResultIDConflict \<equiv> ''RESULT_ID_CONFLICT''"
abbreviation "RuntimeErrorEventIDConflict \<equiv> ''EVENT_ID_CONFLICT''"
abbreviation "RuntimeErrorNodeAtCapacity \<equiv> ''NODE_AT_CAPACITY''"
abbreviation "RuntimeErrorClientUpgradeRequired \<equiv> ''RUNTIME_CLIENT_UPGRADE_REQUIRED''"
abbreviation "RuntimeErrorRequiredFeatureMissing \<equiv> ''RUNTIME_REQUIRED_FEATURE_MISSING''"
abbreviation "RuntimeErrorRunCancelRequested \<equiv> ''RUN_CANCEL_REQUESTED''"
abbreviation "RuntimeErrorRunCancelUnconfirmed \<equiv> ''RUN_CANCEL_UNCONFIRMED''"
abbreviation "RuntimeErrorRetryExhausted \<equiv> ''RUNTIME_RETRY_EXHAUSTED''"
abbreviation "RuntimeErrorDispatchTimeout \<equiv> ''RUNTIME_DISPATCH_TIMEOUT''"
abbreviation "RuntimeErrorRunDeadlineExceeded \<equiv> ''RUN_DEADLINE_EXCEEDED''"
abbreviation "RuntimeErrorEventsMissing \<equiv> ''EVENTS_MISSING''"
abbreviation "RuntimeErrorReplayInputUnavailable \<equiv> ''REPLAY_INPUT_UNAVAILABLE''"
abbreviation "RuntimeErrorEndpointResultUnknown \<equiv> ''ENDPOINT_RESULT_UNKNOWN''"
abbreviation "RuntimeErrorSessionConflict \<equiv> ''RUNTIME_SESSION_CONFLICT''"
abbreviation "RuntimeErrorSpoolCorrupt \<equiv> ''RUNTIME_SPOOL_CORRUPT''"

definition runtimeErrorCodes :: "RuntimeErrorCode list" where
  "runtimeErrorCodes =
     [RuntimeErrorBadRequest, RuntimeErrorUnauthorized, RuntimeErrorForbidden,
      RuntimeErrorPermissionDenied, RuntimeErrorNotFound, RuntimeErrorConflict,
      RuntimeErrorValidationFailed, RuntimeErrorRateLimited, RuntimeErrorInternal,
      RuntimeErrorServiceUnavailable, RuntimeErrorIdempotencyKeyReused,
      RuntimeErrorRunAlreadyTerminal, RuntimeErrorStaleLease, RuntimeErrorLeaseExpired,
      RuntimeErrorLeaseIdentityMismatch, RuntimeErrorResultIDConflict,
      RuntimeErrorEventIDConflict, RuntimeErrorNodeAtCapacity, RuntimeErrorClientUpgradeRequired,
      RuntimeErrorRequiredFeatureMissing, RuntimeErrorRunCancelRequested,
      RuntimeErrorRunCancelUnconfirmed, RuntimeErrorRetryExhausted, RuntimeErrorDispatchTimeout,
      RuntimeErrorRunDeadlineExceeded, RuntimeErrorEventsMissing,
      RuntimeErrorReplayInputUnavailable, RuntimeErrorEndpointResultUnknown,
      RuntimeErrorSessionConflict, RuntimeErrorSpoolCorrupt]"

definition validRuntimeErrorCode :: "RuntimeErrorCode \<Rightarrow> bool" where
  "validRuntimeErrorCode code \<longleftrightarrow> code \<in> set runtimeErrorCodes"

text \<open>The \<open>switch\<close> of the source as a table: the first entry for the code, else the default.\<close>

definition runtimeErrorMessages :: "(RuntimeErrorCode \<times> string) list" where
  "runtimeErrorMessages =
     [(RuntimeErrorBadRequest, ''Invalid runtime request''),
      (RuntimeErrorUnauthorized, ''Runtime authentication failed''),
      (RuntimeErrorForbidden, ''Runtime permission denied''),
      (RuntimeErrorPermissionDenied, ''Runtime permission denied''),
      (RuntimeErrorNotFound, ''Runtime resource not found''),
      (RuntimeErrorConflict, ''Runtime state conflict''),
      (RuntimeErrorValidationFailed, ''Runtime message validation failed''),
      (RuntimeErrorRateLimited, ''Runtime request rate limited''),
      (RuntimeErrorServiceUnavailable, ''Runtime service unavailable''),
      (RuntimeErrorIdempotencyKeyReused, ''Idempotency key was reused with different input''),
      (RuntimeErrorRunAlreadyTerminal, ''Run is already terminal''),
      (RuntimeErrorStaleLease, ''Runtime lease is stale''),
      (RuntimeErrorLeaseExpired, ''Runtime lease has expired''),
      (RuntimeErrorLeaseIdentityMismatch, ''Runtime lease identity does not match''),
      (RuntimeErrorResultIDConflict, ''Result identity conflicts with the stored result''),
      (RuntimeErrorEventIDConflict, ''Event identity conflicts with a stored event''),
      (RuntimeErrorNodeAtCapacity, ''Runtime node is at capacity''),
      (RuntimeErrorClientUpgradeRequired, ''Runtime client upgrade required''),
      (RuntimeErrorRequiredFeatureMissing, ''Runtime client is missing a required feature''),
      (RuntimeErrorRunCancelRequested, ''Run cancellation has been requested''),
      (RuntimeErrorRunCancelUnconfirmed, ''Run cancellation was not confirmed''),
      (RuntimeErrorRetryExhausted, ''Runtime retry limit exhausted''),
      (RuntimeErrorDispatchTimeout, ''Runtime dispatch deadline exceeded''),
      (RuntimeErrorRunDeadlineExceeded, ''Run deadline exceeded''),
      (RuntimeErrorEventsMissing, ''Runtime events are missing''),
      (RuntimeErrorReplayInputUnavailable, ''Replay input is unavailable''),
      (RuntimeErrorEndpointResultUnknown, ''Endpoint result is unknown''),
      (RuntimeErrorSessionConflict, ''Runtime session conflicts with an active session''),
      (RuntimeErrorSpoolCorrupt, ''Runtime spool is corrupt'')]"

definition runtimeErrorDefaultMessage :: "RuntimeErrorCode \<Rightarrow> string" where
  "runtimeErrorDefaultMessage code =
     (case map_of runtimeErrorMessages code of None \<Rightarrow> ''Internal runtime error'' | Some m \<Rightarrow> m)"

section \<open>Error values\<close>

record RuntimeErrorBody =
  eb_Code :: RuntimeErrorCode
  eb_Message :: string
  eb_Retryable :: bool
  eb_MissingEventRanges :: "EventRange list"
  eb_CurrentRunStatus :: string
  eb_CurrentDispatchState :: string

text \<open>
  A non-nil Go \<open>error\<close>: the typed errors of the Runtime, the sentinels \<open>ErrInvalidRuntimeEvent\<close>
  and \<open>pgx.ErrNoRows\<close>, the \<open>httpx\<close> error of the cluster gate, and any other error, each with the
  error it wraps.
\<close>

datatype go_error =
    TransportError RuntimeErrorBody "go_error option"
  | EventError RuntimeErrorCode "EventRange list" "go_error option"
  | ResultError RuntimeErrorCode "EventRange list" "go_error option"
  | LeaseError RuntimeErrorCode "go_error option"
  | InvalidRuntimeEvent
  | ErrNoRows
  | HTTPError nat string string
  | OtherError string "go_error option"

fun Unwrap :: "go_error \<Rightarrow> go_error option" where
  "Unwrap (TransportError _ c) = c"
| "Unwrap (EventError _ _ c) = c"
| "Unwrap (ResultError _ _ c) = c"
| "Unwrap (LeaseError _ c) = c"
| "Unwrap InvalidRuntimeEvent = None"
| "Unwrap ErrNoRows = None"
| "Unwrap (HTTPError _ _ _) = None"
| "Unwrap (OtherError _ c) = c"

text \<open>The chain that \<open>errors.As\<close> and \<open>errors.Is\<close> walk, the error itself first.\<close>

fun error_chain :: "go_error \<Rightarrow> go_error list" where
  "error_chain (TransportError b c) = TransportError b c # (case c of None \<Rightarrow> [] | Some e \<Rightarrow> error_chain e)"
| "error_chain (EventError k r c) = EventError k r c # (case c of None \<Rightarrow> [] | Some e \<Rightarrow> error_chain e)"
| "error_chain (ResultError k r c) = ResultError k r c # (case c of None \<Rightarrow> [] | Some e \<Rightarrow> error_chain e)"
| "error_chain (LeaseError k c) = LeaseError k c # (case c of None \<Rightarrow> [] | Some e \<Rightarrow> error_chain e)"
| "error_chain InvalidRuntimeEvent = [InvalidRuntimeEvent]"
| "error_chain ErrNoRows = [ErrNoRows]"
| "error_chain (HTTPError s k m) = [HTTPError s k m]"
| "error_chain (OtherError m c) = OtherError m c # (case c of None \<Rightarrow> [] | Some e \<Rightarrow> error_chain e)"

definition errors_As :: "(go_error \<Rightarrow> bool) \<Rightarrow> go_error \<Rightarrow> go_error option" where
  "errors_As is_kind err = List.find is_kind (error_chain err)"

definition NewRuntimeTransportError :: "RuntimeErrorCode \<Rightarrow> string \<Rightarrow> RuntimeErrorBody" where
  "NewRuntimeTransportError code0 message0 =
     (let code = (if validRuntimeErrorCode code0 then code0 else RuntimeErrorInternal);
          message = (if message0 = [] \<or> \<not> ValidString message0 \<or> 500 < RuneCount message0
                     then runtimeErrorDefaultMessage code else message0)
      in \<lparr>eb_Code = code, eb_Message = message, eb_Retryable = False, eb_MissingEventRanges = [],
          eb_CurrentRunStatus = [], eb_CurrentDispatchState = []\<rparr>)"

definition newRuntimeTransportError :: "RuntimeErrorCode \<Rightarrow> string \<Rightarrow> go_error option \<Rightarrow> go_error" where
  "newRuntimeTransportError code message cause =
     TransportError (NewRuntimeTransportError code message) cause"

definition NewRuntimeAuthenticationUnavailableError :: "go_error option \<Rightarrow> go_error" where
  "NewRuntimeAuthenticationUnavailableError cause =
     TransportError
       (NewRuntimeTransportError RuntimeErrorServiceUnavailable
          (runtimeErrorDefaultMessage RuntimeErrorServiceUnavailable) \<lparr>eb_Retryable := True\<rparr>)
       cause"

definition runtimeValidationError :: "string \<Rightarrow> go_error option \<Rightarrow> go_error" where
  "runtimeValidationError message cause =
     newRuntimeTransportError RuntimeErrorValidationFailed message cause"

fun is_TransportError :: "go_error \<Rightarrow> bool" where
  "is_TransportError (TransportError _ _) = True"
| "is_TransportError _ = False"

fun is_EventError :: "go_error \<Rightarrow> bool" where
  "is_EventError (EventError _ _ _) = True"
| "is_EventError _ = False"

fun is_ResultError :: "go_error \<Rightarrow> bool" where
  "is_ResultError (ResultError _ _ _) = True"
| "is_ResultError _ = False"

fun typed_error :: "go_error \<Rightarrow> RuntimeErrorCode \<times> EventRange list" where
  "typed_error (EventError code ranges _) = (code, ranges)"
| "typed_error (ResultError code ranges _) = (code, ranges)"
| "typed_error _ = (RuntimeErrorInternal, [])"

text \<open>The mapped body keeps the exact gaps of the typed error.\<close>

definition mapTypedRuntimeError :: "go_error \<Rightarrow> go_error \<Rightarrow> go_error" where
  "mapTypedRuntimeError typed err =
     (case typed_error typed of (code, ranges) \<Rightarrow>
        TransportError
          (NewRuntimeTransportError code (runtimeErrorDefaultMessage code)
             \<lparr>eb_MissingEventRanges := ranges\<rparr>)
          (Some err))"

definition MapRuntimeTransportError :: "go_error option \<Rightarrow> go_error option" where
  "MapRuntimeTransportError err_opt =
     (case err_opt of
        None \<Rightarrow> None
      | Some err \<Rightarrow> Some
          (case errors_As is_TransportError err of Some transportErr \<Rightarrow> transportErr
           | None \<Rightarrow>
          (case errors_As is_EventError err of Some eventErr \<Rightarrow> mapTypedRuntimeError eventErr err
           | None \<Rightarrow>
           if InvalidRuntimeEvent \<in> set (error_chain err)
           then newRuntimeTransportError RuntimeErrorValidationFailed
                  (runtimeErrorDefaultMessage RuntimeErrorValidationFailed) (Some err)
           else
          (case errors_As is_ResultError err of Some resultErr \<Rightarrow> mapTypedRuntimeError resultErr err
           | None \<Rightarrow>
             newRuntimeTransportError RuntimeErrorInternal
               (runtimeErrorDefaultMessage RuntimeErrorInternal) (Some err)))))"

section \<open>Transport mappings\<close>

definition RuntimeHTTPStatus :: "RuntimeErrorCode \<Rightarrow> nat" where
  "RuntimeHTTPStatus code =
     (if code = RuntimeErrorBadRequest then 400
      else if code = RuntimeErrorUnauthorized then 401
      else if code = RuntimeErrorForbidden \<or> code = RuntimeErrorPermissionDenied then 403
      else if code = RuntimeErrorNotFound then 404
      else if code = RuntimeErrorValidationFailed then 422
      else if code = RuntimeErrorRateLimited then 429
      else if code = RuntimeErrorClientUpgradeRequired \<or> code = RuntimeErrorRequiredFeatureMissing then 426
      else if code = RuntimeErrorReplayInputUnavailable then 410
      else if code = RuntimeErrorEndpointResultUnknown then 502
      else if code = RuntimeErrorInternal then 500
      else if code = RuntimeErrorServiceUnavailable then 503
      else 409)"

definition RuntimeWebSocketCloseCode :: "RuntimeErrorCode \<Rightarrow> nat option" where
  "RuntimeWebSocketCloseCode code =
     (if code = RuntimeErrorUnauthorized then Some 4401
      else if code = RuntimeErrorClientUpgradeRequired then Some 4406
      else if code = RuntimeErrorSessionConflict then Some 4409
      else if code = RuntimeErrorRequiredFeatureMissing then Some 4412
      else if code = RuntimeErrorBadRequest \<or> code = RuntimeErrorValidationFailed then Some 1002
      else if code = RuntimeErrorInternal \<or> code = RuntimeErrorServiceUnavailable then Some 1011
      else None)"

section \<open>The constructors only build wire errors\<close>

definition validRequiredString :: "string \<Rightarrow> nat \<Rightarrow> bool" where
  "validRequiredString value maximum \<longleftrightarrow>
     ValidString value \<and> 1 \<le> RuneCount value \<and> RuneCount value \<le> maximum"

definition validOptionalString :: "string \<Rightarrow> nat \<Rightarrow> bool" where
  "validOptionalString value maximum \<longleftrightarrow> value = [] \<or> validRequiredString value maximum"

definition validateRuntimeErrorBody :: "RuntimeErrorBody \<Rightarrow> go_error option" where
  "validateRuntimeErrorBody value =
     err_then
       (err_if (\<not> validRuntimeErrorCode (eb_Code value) \<or> \<not> validRequiredString (eb_Message value) 500 \<or>
           eb_CurrentRunStatus value \<noteq> [] \<and> \<not> validRuntimeRunStatus (eb_CurrentRunStatus value) \<or>
           eb_CurrentDispatchState value \<noteq> [] \<and> \<not> validRuntimeDispatchState (eb_CurrentDispatchState value))
         (runtimeValidationError ''invalid runtime error body'' None))
       (err_if (\<exists>r \<in> set (eb_MissingEventRanges value). er_Start r < 1 \<or> er_End r < er_Start r)
         (runtimeValidationError ''invalid missing event range'' None))"

lemma rune_count_positive: "s \<noteq> [] \<Longrightarrow> 1 \<le> RuneCount s"
  using utf8_scan_Cons_pos by (cases s) (simp_all add: RuneCount_def Suc_le_eq)

lemma ascii_string:
  "list_all (\<lambda>b. (b::nat) < 128) (map of_char s) \<Longrightarrow> ValidString s \<and> RuneCount s = length s"
  by (simp add: ValidString_def RuneCount_def utf8_scan_all_ascii)

lemma runtimeErrorMessages_wire:
  "list_all (\<lambda>(_, m). validRequiredString m 500) runtimeErrorMessages"
  by (simp add: runtimeErrorMessages_def validRequiredString_def ascii_string)

lemma runtimeErrorDefaultMessage_wire: "validRequiredString (runtimeErrorDefaultMessage code) 500"
proof (cases "map_of runtimeErrorMessages code")
  case None
  then show ?thesis by (simp add: runtimeErrorDefaultMessage_def validRequiredString_def ascii_string)
next
  case (Some m)
  then have "(code, m) \<in> set runtimeErrorMessages" by (rule map_of_SomeD)
  with runtimeErrorMessages_wire Some show ?thesis
    by (auto simp: runtimeErrorDefaultMessage_def list_all_iff)
qed

end
