(* ===== verification/Json_Scanner.thy ===== *)
theory Json_Scanner
  imports Core_Prelude
begin

text \<open>
  The byte scanner of Go's \<open>encoding/json\<close>, which decides whether the raw payload of an envelope
  is one JSON value. It is a push-down automaton: one state per position inside a value and a
  stack of the enclosing objects and arrays, at most 10000 deep. \<open>json_is_object\<close> is the check the
  envelope validator makes with \<open>json.Unmarshal\<close> into a \<open>map[string]json.RawMessage\<close>: the bytes
  are one JSON value and that value is an object (\<open>null\<close> leaves the map nil).
\<close>

datatype parse_state = ParseObjectKey | ParseObjectValue | ParseArrayValue

datatype scan_state =
    BeginValue | BeginValueOrEmpty | BeginString | BeginStringOrEmpty
  | InString | InStringEsc | InStringEscU nat
  | Neg | Zero | Digits | Dot | DotDigits | ExpE | ExpESign | ExpDigits
  | Literal string
  | EndValue | EndTop

type_synonym scanner = "scan_state \<times> parse_state list"

definition maxNestingDepth :: nat where
  "maxNestingDepth = 10000"

definition is_json_space :: "char \<Rightarrow> bool" where
  "is_json_space c \<longleftrightarrow> c = CHR '' '' \<or> c = CHR 0x09 \<or> c = CHR 0x0D \<or> c = CHR 0x0A"

definition is_digit :: "char \<Rightarrow> bool" where
  "is_digit c \<longleftrightarrow> (let b = of_char c :: nat in 48 \<le> b \<and> b \<le> 57)"

definition is_hex :: "char \<Rightarrow> bool" where
  "is_hex c \<longleftrightarrow> (let b = of_char c :: nat in
     48 \<le> b \<and> b \<le> 57 \<or> 97 \<le> b \<and> b \<le> 102 \<or> 65 \<le> b \<and> b \<le> 70)"

definition pushParseState :: "parse_state \<Rightarrow> scan_state \<Rightarrow> parse_state list \<Rightarrow> scanner option" where
  "pushParseState p st stack =
     (if length stack < maxNestingDepth then Some (st, p # stack) else None)"

definition popParseState :: "parse_state list \<Rightarrow> scanner option" where
  "popParseState stack =
     (case stack of [] \<Rightarrow> None | [_] \<Rightarrow> Some (EndTop, []) | _ # rest \<Rightarrow> Some (EndValue, rest))"

text \<open>A value that ends here and is not nested is the whole document.\<close>

definition stateEndValue :: "parse_state list \<Rightarrow> char \<Rightarrow> scanner option" where
  "stateEndValue stack c =
     (case stack of
        [] \<Rightarrow> if is_json_space c then Some (EndTop, []) else None
      | p # rest \<Rightarrow>
          if is_json_space c then Some (EndValue, stack)
          else case p of
            ParseObjectKey \<Rightarrow>
              if c = CHR '':'' then Some (BeginValue, ParseObjectValue # rest) else None
          | ParseObjectValue \<Rightarrow>
              if c = CHR '','' then Some (BeginString, ParseObjectKey # rest)
              else if c = CHR ''}'' then popParseState stack else None
          | ParseArrayValue \<Rightarrow>
              if c = CHR '','' then Some (BeginValue, stack)
              else if c = CHR '']'' then popParseState stack else None)"

definition stateBeginValue :: "parse_state list \<Rightarrow> char \<Rightarrow> scanner option" where
  "stateBeginValue stack c =
     (if is_json_space c then Some (BeginValue, stack)
      else if c = CHR ''{'' then pushParseState ParseObjectKey BeginStringOrEmpty stack
      else if c = CHR ''['' then pushParseState ParseArrayValue BeginValueOrEmpty stack
      else if c = CHR 0x22 then Some (InString, stack)
      else if c = CHR ''-'' then Some (Neg, stack)
      else if c = CHR ''0'' then Some (Zero, stack)
      else if c = CHR ''t'' then Some (Literal ''rue'', stack)
      else if c = CHR ''f'' then Some (Literal ''alse'', stack)
      else if c = CHR ''n'' then Some (Literal ''ull'', stack)
      else if is_digit c then Some (Digits, stack)
      else None)"

definition stateBeginString :: "parse_state list \<Rightarrow> char \<Rightarrow> scanner option" where
  "stateBeginString stack c =
     (if is_json_space c then Some (BeginString, stack)
      else if c = CHR 0x22 then Some (InString, stack) else None)"

definition stateInString :: "parse_state list \<Rightarrow> char \<Rightarrow> scanner option" where
  "stateInString stack c =
     (if c = CHR 0x22 then Some (EndValue, stack)
      else if c = CHR 0x5C then Some (InStringEsc, stack)
      else if (of_char c :: nat) < 32 then None else Some (InString, stack))"

definition stateExp :: "parse_state list \<Rightarrow> char \<Rightarrow> scanner option" where
  "stateExp stack c =
     (if c = CHR ''e'' \<or> c = CHR ''E'' then Some (ExpE, stack) else stateEndValue stack c)"

fun json_step :: "scanner \<Rightarrow> char \<Rightarrow> scanner option" where
  "json_step (BeginValue, stack) c = stateBeginValue stack c"
| "json_step (BeginValueOrEmpty, stack) c =
     (if is_json_space c then Some (BeginValueOrEmpty, stack)
      else if c = CHR '']'' then stateEndValue stack c else stateBeginValue stack c)"
| "json_step (BeginString, stack) c = stateBeginString stack c"
| "json_step (BeginStringOrEmpty, stack) c =
     (if is_json_space c then Some (BeginStringOrEmpty, stack)
      else if c = CHR ''}'' then stateEndValue (ParseObjectValue # tl stack) c
      else stateBeginString stack c)"
| "json_step (InString, stack) c = stateInString stack c"
| "json_step (InStringEsc, stack) c =
     (if c \<in> {CHR ''b'', CHR ''f'', CHR ''n'', CHR ''r'', CHR ''t'', CHR 0x5C, CHR ''/'', CHR 0x22}
      then Some (InString, stack)
      else if c = CHR ''u'' then Some (InStringEscU 3, stack) else None)"
| "json_step (InStringEscU n, stack) c =
     (if is_hex c then Some (case n of 0 \<Rightarrow> InString | Suc m \<Rightarrow> InStringEscU m, stack) else None)"
| "json_step (Neg, stack) c =
     (if c = CHR ''0'' then Some (Zero, stack)
      else if is_digit c then Some (Digits, stack) else None)"
| "json_step (Zero, stack) c = (if c = CHR ''.'' then Some (Dot, stack) else stateExp stack c)"
| "json_step (Digits, stack) c =
     (if is_digit c then Some (Digits, stack)
      else if c = CHR ''.'' then Some (Dot, stack) else stateExp stack c)"
| "json_step (Dot, stack) c = (if is_digit c then Some (DotDigits, stack) else None)"
| "json_step (DotDigits, stack) c =
     (if is_digit c then Some (DotDigits, stack) else stateExp stack c)"
| "json_step (ExpE, stack) c =
     (if c = CHR ''+'' \<or> c = CHR ''-'' then Some (ExpESign, stack)
      else if is_digit c then Some (ExpDigits, stack) else None)"
| "json_step (ExpESign, stack) c = (if is_digit c then Some (ExpDigits, stack) else None)"
| "json_step (ExpDigits, stack) c =
     (if is_digit c then Some (ExpDigits, stack) else stateEndValue stack c)"
| "json_step (Literal [], stack) c = None"
| "json_step (Literal [l], stack) c = (if c = l then Some (EndValue, stack) else None)"
| "json_step (Literal (l # m # ls), stack) c =
     (if c = l then Some (Literal (m # ls), stack) else None)"
| "json_step (EndValue, stack) c = stateEndValue stack c"
| "json_step (EndTop, stack) c = (if is_json_space c then Some (EndTop, stack) else None)"

fun json_run :: "scanner \<Rightarrow> string \<Rightarrow> scanner option" where
  "json_run s [] = Some s"
| "json_run s (c # cs) = (case json_step s c of None \<Rightarrow> None | Some s' \<Rightarrow> json_run s' cs)"

text \<open>At the end of the input the scanner feeds one space; the document must then be complete.\<close>

definition json_valid :: "bytes \<Rightarrow> bool" where
  "json_valid raw \<longleftrightarrow>
     (case json_run (BeginValue, []) raw of
        None \<Rightarrow> False
      | Some s \<Rightarrow> (case json_step s (CHR '' '') of Some (EndTop, _) \<Rightarrow> True | _ \<Rightarrow> False))"

definition json_is_object :: "bytes \<Rightarrow> bool" where
  "json_is_object raw \<longleftrightarrow>
     json_valid raw \<and> (case dropWhile is_json_space raw of c # _ \<Rightarrow> c = CHR ''{'' | [] \<Rightarrow> False)"

lemma json_run_append:
  "json_run s (xs @ ys) = (case json_run s xs of None \<Rightarrow> None | Some s' \<Rightarrow> json_run s' ys)"
  by (induction xs arbitrary: s) (auto split: option.splits)

lemma json_spaces_skip: "list_all is_json_space ws \<Longrightarrow> json_run (BeginValue, []) (ws @ raw) = json_run (BeginValue, []) raw"
  by (induction ws) (auto simp: stateBeginValue_def)

lemma json_empty_object: "json_is_object ''{}''"
  by code_simp

end
