(* ===== verification/Wire_Validation.thy ===== *)
theory Wire_Validation
  imports Wire_Errors Json_Scanner
begin

text \<open>
  The semantic validators of \<open>pkg/runtime/protocol_validation.go\<close> and of the observer payloads.
  A validator returns \<open>None\<close> when the Go function returns nil, and otherwise the transport error it
  returns. The loops over features, ranges, attempts and actions carry the source's \<open>seen\<close> set.
  The strict JSON decoders are a parameter: \<open>payload_decoders\<close> gives, for each payload that
  \<open>DecodePendingCommand\<close> decodes, what \<open>decodeRuntimeJSON\<close> makes of the raw bytes.
\<close>

named_theorems validation_simps \<open>acceptance conditions of the validators\<close>

abbreviation "verr message \<equiv> runtimeValidationError message None"

definition upgradeRequired :: go_error where
  "upgradeRequired =
     newRuntimeTransportError RuntimeErrorClientUpgradeRequired
       (runtimeErrorDefaultMessage RuntimeErrorClientUpgradeRequired) None"

definition requiredFeatureMissing :: go_error where
  "requiredFeatureMissing =
     newRuntimeTransportError RuntimeErrorRequiredFeatureMissing
       (runtimeErrorDefaultMessage RuntimeErrorRequiredFeatureMissing) None"

section \<open>Envelopes and replies\<close>

definition runtimeMessageTypes :: "RuntimeMessageType list" where
  "runtimeMessageTypes =
     [RuntimeMessageHello, RuntimeMessageReady, RuntimeMessageRunAssigned,
      RuntimeMessageAssignmentAck, RuntimeMessageAssignmentConfirmed, RuntimeMessageAssignmentReject,
      RuntimeMessageAssignmentRejected, RuntimeMessageLeaseRenew, RuntimeMessageLeaseRenewed,
      RuntimeMessageRunEvent, RuntimeMessageRunEventAck, RuntimeMessageRunResult,
      RuntimeMessageRunResultAck, RuntimeMessageRunCancel, RuntimeMessageRunCancelAck,
      RuntimeMessageResume, RuntimeMessageResumeAccepted, RuntimeMessageLeaseRevoked,
      RuntimeMessageDrain, RuntimeMessageBrowserViewerCommand, RuntimeMessageBrowserViewerFrame,
      RuntimeMessageBrowserViewerFrameAck, RuntimeMessageBrowserObserverCommand,
      RuntimeMessageBrowserObserverEvent, RuntimeMessageBrowserObserverEventAck,
      RuntimeMessageError]"

definition knownRuntimeMessageType :: "RuntimeMessageType \<Rightarrow> bool" where
  "knownRuntimeMessageType t \<longleftrightarrow> t \<in> set runtimeMessageTypes"

definition runtimeReplyTypes :: "(RuntimeMessageType \<times> RuntimeMessageType list) list" where
  "runtimeReplyTypes =
     [(RuntimeMessageHello, [RuntimeMessageReady]),
      (RuntimeMessageRunAssigned, [RuntimeMessageAssignmentAck, RuntimeMessageAssignmentReject]),
      (RuntimeMessageAssignmentAck, [RuntimeMessageAssignmentConfirmed]),
      (RuntimeMessageAssignmentReject, [RuntimeMessageAssignmentRejected]),
      (RuntimeMessageLeaseRenew, [RuntimeMessageLeaseRenewed]),
      (RuntimeMessageRunEvent, [RuntimeMessageRunEventAck]),
      (RuntimeMessageRunResult, [RuntimeMessageRunResultAck]),
      (RuntimeMessageRunCancel, [RuntimeMessageRunCancelAck]),
      (RuntimeMessageResume, [RuntimeMessageResumeAccepted]),
      (RuntimeMessageDrain, [RuntimeMessageDrain]),
      (RuntimeMessageBrowserViewerFrame, [RuntimeMessageBrowserViewerFrameAck]),
      (RuntimeMessageBrowserObserverEvent, [RuntimeMessageBrowserObserverEventAck])]"

definition runtimeMessageExpectsReply :: "RuntimeMessageType \<Rightarrow> bool" where
  "runtimeMessageExpectsReply t \<longleftrightarrow> map_of runtimeReplyTypes t \<noteq> None"

definition runtimeMessageRequiresReplyTo :: "RuntimeMessageType \<Rightarrow> bool" where
  "runtimeMessageRequiresReplyTo t \<longleftrightarrow>
     t \<in> {RuntimeMessageReady, RuntimeMessageAssignmentAck, RuntimeMessageAssignmentConfirmed,
          RuntimeMessageAssignmentReject, RuntimeMessageAssignmentRejected,
          RuntimeMessageLeaseRenewed, RuntimeMessageRunEventAck, RuntimeMessageRunResultAck,
          RuntimeMessageRunCancelAck, RuntimeMessageResumeAccepted,
          RuntimeMessageBrowserViewerFrameAck, RuntimeMessageBrowserObserverEventAck,
          RuntimeMessageError}"

definition ValidateRuntimeEnvelope :: "RuntimeEnvelope \<Rightarrow> go_error option" where
  "ValidateRuntimeEnvelope envelope =
     (if env_ProtocolVersion envelope \<noteq> RuntimeProtocolVersion \<or>
         env_RuntimeContractID envelope \<noteq> RuntimeContractID
      then Some upgradeRequired
      else if env_MessageID envelope = uuid_Nil
      then Some (verr ''runtime message_id must be a non-zero UUID'')
      else if env_ReplyToMessageID envelope = Some uuid_Nil
      then Some (verr ''runtime reply_to_message_id must be a non-zero UUID'')
      else if env_ReplyToMessageID envelope = Some (env_MessageID envelope)
      then Some (verr ''runtime message cannot reply to itself'')
      else if IsZero (env_SentAt envelope)
      then Some (verr ''runtime sent_at is required'')
      else if \<not> knownRuntimeMessageType (env_Type envelope)
      then Some (verr ''unknown runtime message type'')
      else if runtimeMessageRequiresReplyTo (env_Type envelope) \<and> env_ReplyToMessageID envelope = None
      then Some (verr ''runtime reply_to_message_id is required'')
      else err_if (env_Payload envelope = [] \<or> \<not> json_is_object (env_Payload envelope))
             (verr ''runtime payload must be a JSON object''))"

definition ValidateRuntimeReplyCorrelation :: "RuntimeEnvelope \<Rightarrow> RuntimeEnvelope \<Rightarrow> go_error option" where
  "ValidateRuntimeReplyCorrelation request reply =
     err_then (ValidateRuntimeEnvelope request)
    (err_then (ValidateRuntimeEnvelope reply)
       (if \<not> ptr_eq (env_ReplyToMessageID reply) (env_MessageID request)
        then Some (verr ''runtime reply correlation does not match request message_id'')
        else if env_Type reply = RuntimeMessageError
        then err_if (\<not> runtimeMessageExpectsReply (env_Type request))
               (verr ''runtime.error cannot reply to this message type'')
        else if (case map_of runtimeReplyTypes (env_Type request) of
                   None \<Rightarrow> False | Some allowed \<Rightarrow> env_Type reply \<in> set allowed)
        then None
        else Some (verr ''runtime reply type does not match request type'')))"

section \<open>Attempt identity and strings\<close>

definition validateAttemptIdentity :: "AttemptIdentity \<Rightarrow> go_error option" where
  "validateAttemptIdentity value =
     err_if (ai_RunID value = uuid_Nil \<or> ai_AttemptID value = uuid_Nil \<or> ai_LeaseID value = uuid_Nil \<or>
         ai_FencingToken value < 1 \<or> ai_NodeID value = uuid_Nil \<or> ai_AgentID value = uuid_Nil \<or>
         \<not> validRequiredString (ai_WorkerID value) 200 \<or> ai_RuntimeSessionID value = uuid_Nil)
       (verr ''invalid runtime attempt identity'')"

definition validRuntimeCapacitySnapshot :: "int \<Rightarrow> int \<Rightarrow> bool" where
  "validRuntimeCapacitySnapshot capacity inflight \<longleftrightarrow>
     0 \<le> capacity \<and> capacity \<le> RuntimeMaximumNodeCapacity \<and>
     0 \<le> inflight \<and> inflight \<le> RuntimeMaximumNodeCapacity"

text \<open>
  The pattern \<open>[a-z][a-z0-9_]*(\.[a-z][a-z0-9_]*)+\<close>, anchored at both ends: the automaton is either
  at the start of a segment or inside one, and has seen a dot or not.
\<close>

definition lower_letter :: "char \<Rightarrow> bool" where
  "lower_letter c \<longleftrightarrow> (let b = of_char c :: nat in 97 \<le> b \<and> b \<le> 122)"

definition segment_char :: "char \<Rightarrow> bool" where
  "segment_char c \<longleftrightarrow> lower_letter c \<or> is_digit c \<or> c = CHR ''_''"

fun event_type_match :: "bool \<Rightarrow> bool \<Rightarrow> string \<Rightarrow> bool" where
  "event_type_match dotted inside [] \<longleftrightarrow> dotted \<and> inside"
| "event_type_match dotted inside (c # cs) \<longleftrightarrow>
     (if inside then
        (if c = CHR ''.'' then event_type_match True False cs
         else segment_char c \<and> event_type_match dotted True cs)
      else lower_letter c \<and> event_type_match dotted True cs)"

definition runtimeEventTypePattern :: "string \<Rightarrow> bool" where
  "runtimeEventTypePattern s \<longleftrightarrow> event_type_match False False s"

definition coreOwnedRuntimeEventTypes :: "string list" where
  "coreOwnedRuntimeEventTypes = [''run.completed'', ''run.failed'', ''run.canceled'', ''run.stream.gap'']"

section \<open>Hello and Ready\<close>

fun hello_features :: "string list \<Rightarrow> string list \<Rightarrow> go_error option" where
  "hello_features seen [] = None"
| "hello_features seen (feature # rest) =
     (if \<not> validRequiredString feature 100 then Some (verr ''invalid runtime feature'')
      else if feature \<in> set seen then Some (verr ''runtime features must be unique'')
      else hello_features (feature # seen) rest)"

definition validateRuntimeHello :: "RuntimeHelloPayload \<Rightarrow> go_error option" where
  "validateRuntimeHello value =
     (if hello_NodeID value = uuid_Nil \<or> hello_AgentID value = uuid_Nil \<or>
         hello_RuntimeSessionID value = uuid_Nil \<or> \<not> validRequiredString (hello_WorkerID value) 200 \<or>
         hello_SessionEpoch value < 1 \<or> \<not> validRequiredString (hello_NodeVersion value) 100 \<or>
         hello_Capacity value < 0 \<or> RuntimeMaximumNodeCapacity < hello_Capacity value
      then Some (verr ''invalid runtime hello identity or capacity'')
      else if \<not> runtimeWireContractSupported (hello_ContractDigest value) then Some upgradeRequired
      else err_then (hello_features [] (hello_Features value))
             (err_if (\<exists>required \<in> set (runtimeRequiredFeaturesForDigest (hello_ContractDigest value)).
                        required \<notin> set (hello_Features value))
                requiredFeatureMissing))"

fun ready_features :: "string \<Rightarrow> string \<Rightarrow> string list \<Rightarrow> string list \<Rightarrow> go_error option" where
  "ready_features empty_msg dup_msg seen [] = None"
| "ready_features empty_msg dup_msg seen (feature # rest) =
     (if feature = [] then Some (verr empty_msg)
      else if feature \<in> set seen then Some (verr dup_msg)
      else ready_features empty_msg dup_msg (feature # seen) rest)"

definition validateRuntimePreviousReady :: "RuntimePreviousReadyPayload \<Rightarrow> go_error option" where
  "validateRuntimePreviousReady value =
     err_then
       (err_if (\<not> validRequiredString (prdy_CoreInstanceID value) 200 \<or> prdy_OfferTTLSeconds value < 1 \<or>
           prdy_LeaseTTLSeconds value < 1 \<or> IsZero (prdy_DatabaseTime value))
         (verr ''invalid previous runtime ready payload''))
       (ready_features ''invalid previous runtime ready feature''
          ''previous runtime ready features must be unique'' [] (prdy_Features value))"

definition validateRuntimeReady :: "RuntimeReadyPayload \<Rightarrow> go_error option" where
  "validateRuntimeReady value =
     err_then
       (err_if (\<not> validRequiredString (ready_CoreInstanceID value) 200 \<or> ready_AttachmentID value = uuid_Nil \<or>
           ready_OfferTTLSeconds value < 1 \<or> ready_LeaseTTLSeconds value < 1 \<or>
           IsZero (ready_DatabaseTime value))
         (verr ''invalid runtime ready payload''))
       (ready_features ''invalid runtime ready feature'' ''runtime ready features must be unique'' []
          (ready_Features value))"

section \<open>Assignments, events and results\<close>

definition validateRunAssigned :: "RunAssignedPayload \<Rightarrow> go_error option" where
  "validateRunAssigned value =
     err_then (validateAttemptIdentity (asg_AttemptIdentity value))
       (err_if (asg_OfferNo value < 1 \<or> IsZero (asg_OfferExpiresAt value) \<or>
           IsZero (asg_AttemptDeadlineAt value) \<or> IsZero (asg_RunDeadlineAt value) \<or>
           asg_Input value = None \<or> asg_NodeEnvelope value = [] \<or> asg_AgentInvocationToken value = [])
         (verr ''invalid run assignment''))"

definition validateAssignmentReject :: "RunAssignmentRejectPayload \<Rightarrow> go_error option" where
  "validateAssignmentReject value =
     err_then (validateAttemptIdentity (rej_AttemptIdentity value))
       (if \<not> validRuntimeCapacitySnapshot (rej_Capacity value) (rej_Inflight value)
        then Some (verr ''invalid assignment rejection capacity'')
        else err_if (rej_ReasonCode value \<notin>
                 {''NODE_AT_CAPACITY'', ''NODE_DRAINING'', ''RUNTIME_CLIENT_UPGRADE_REQUIRED'',
                  ''RUNTIME_REQUIRED_FEATURE_MISSING''})
               (verr ''invalid assignment rejection reason''))"

definition validateRunEvent :: "RunEventPayload \<Rightarrow> go_error option" where
  "validateRunEvent value =
     err_then (validateAttemptIdentity (evt_AttemptIdentity value))
    (err_then (err_if (evt_ClientEventID value = uuid_Nil \<or> evt_ClientEventSeq value < 1 \<or>
           \<not> runtimeEventTypePattern (evt_EventType value) \<or> evt_Payload value = None)
         (verr ''invalid runtime event''))
       (err_if (evt_EventType value \<in> set coreOwnedRuntimeEventTypes)
         (verr ''runtime event type is reserved by Core'')))"

definition validateRunError :: "RunErrorPayload \<Rightarrow> go_error option" where
  "validateRunError value =
     err_if (\<not> validRequiredString (rer_ErrorCode value) 120 \<or> \<not> validRequiredString (rer_Message value) 500)
       (verr ''invalid runtime result error'')"

definition validateRunResult :: "RunResultPayload \<Rightarrow> go_error option" where
  "validateRunResult value =
     err_then (validateAttemptIdentity (res_AttemptIdentity value))
       (if res_ResultID value = uuid_Nil \<or> res_DurationMS value < 0 \<or> 2 ^ 31 - 1 < res_DurationMS value \<or>
           res_FinalClientEventSeq value < 0
        then Some (verr ''invalid runtime result identity or counters'')
        else if res_Status value = ''success''
        then err_if (res_Output value = None \<or> res_Error value \<noteq> None)
               (verr ''successful runtime result requires output only'')
        else if res_Status value = ''failed''
        then (if res_Output value \<noteq> None then Some (verr ''failed runtime result requires error only'')
              else case res_Error value of
                None \<Rightarrow> Some (verr ''failed runtime result requires error only'')
              | Some e \<Rightarrow> validateRunError e)
        else Some (verr ''invalid runtime result status''))"

definition FinalizerRequest :: "RunResultPayload \<Rightarrow> go_error + RuntimeResultRequest" where
  "FinalizerRequest p =
     (case validateRunResult p of
        Some err \<Rightarrow> Inl err
      | None \<Rightarrow> Inr
          \<lparr>rq_AttemptIdentity = RuntimeIdentity (res_AttemptIdentity p), rq_ResultID = res_ResultID p,
           rq_Status = res_Status p, rq_Output = res_Output p,
           rq_Error = map_option (\<lambda>e. \<lparr>rf_ErrorCode = rer_ErrorCode e, rf_Message = rer_Message e,
                                        rf_RetryableHint = rer_RetryableHint e\<rparr>) (res_Error p),
           rq_DurationMS = word_of_int (res_DurationMS p),
           rq_FinalClientEventSeq = res_FinalClientEventSeq p\<rparr>)"

definition validateRunResultAck :: "RunResultAckPayload \<Rightarrow> go_error option" where
  "validateRunResultAck value =
     err_then
       (err_if (rsa_ResultID value = uuid_Nil \<or> \<not> validRuntimeResultClassification (rsa_Classification value) \<or>
           \<not> validRuntimeRunStatus (rsa_RunStatus value) \<or> \<not> validRuntimeDispatchState (rsa_DispatchState value))
         (verr ''invalid runtime result acknowledgement''))
       (err_if (rsa_NextAttemptAt value = Some 0) (verr ''invalid next_attempt_at''))"

definition validateRunCancel :: "RunCancelPayload \<Rightarrow> go_error option" where
  "validateRunCancel value =
     err_then
       (err_if (can_CancellationID value = uuid_Nil \<or> \<not> validRequiredString (can_ReasonCode value) 120 \<or>
           IsZero (can_DeadlineAt value))
         (verr ''invalid runtime cancellation''))
       (validateAttemptIdentity (can_AttemptIdentity value))"

definition validateRunCancelAck :: "RunCancelAckPayload \<Rightarrow> go_error option" where
  "validateRunCancelAck value =
     err_then
       (err_if (cak_CancellationID value = uuid_Nil \<or> \<not> validRuntimeCancelState (cak_CancelState value) \<or>
           \<not> validOptionalString (cak_ErrorCode value) 120)
         (verr ''invalid runtime cancellation acknowledgement''))
       (validateAttemptIdentity (cak_AttemptIdentity value))"

section \<open>Resume\<close>

text \<open>The loop over the pending ranges: the error it stops with, or the end of the last range.\<close>

fun resume_ranges :: "int \<Rightarrow> EventRange list \<Rightarrow> go_error + int" where
  "resume_ranges previousEnd [] = Inr previousEnd"
| "resume_ranges previousEnd (r # rest) =
     (if er_Start r < 1 \<or> er_End r < er_Start r then Inl (verr ''invalid pending event range'')
      else if er_Start r \<le> previousEnd
      then Inl (verr ''pending event ranges must be ordered, non-overlapping, and newer than the acknowledged sequence'')
      else resume_ranges (er_End r) rest)"

definition validateResumeAttempt :: "ResumeAttempt \<Rightarrow> go_error option" where
  "validateResumeAttempt value =
     err_then (validateAttemptIdentity (rsm_AttemptIdentity value))
       (if rsm_LastAckedClientEventSeq value < 0 then Some (verr ''invalid resume event sequence'')
        else case resume_ranges (rsm_LastAckedClientEventSeq value) (rsm_PendingClientEventRanges value) of
          Inl err \<Rightarrow> Some err
        | Inr previousEnd \<Rightarrow>
            if rsm_PendingResultID value = Some uuid_Nil then Some (verr ''invalid pending result ID'')
            else if (case rsm_FinalClientEventSeq value of None \<Rightarrow> False | Some f \<Rightarrow> f < 0)
            then Some (verr ''invalid final event sequence'')
            else if (rsm_PendingResultID value = None) \<noteq> (rsm_FinalClientEventSeq value = None)
            then Some (verr ''pending result ID and final event sequence must be provided together'')
            else err_if (case rsm_FinalClientEventSeq value of None \<Rightarrow> False | Some f \<Rightarrow> f < previousEnd)
                   (verr ''final event sequence precedes pending events''))"

fun resume_attempts :: "RuntimeResumePayload \<Rightarrow> AttemptIdentity list \<Rightarrow> ResumeAttempt list \<Rightarrow> go_error option" where
  "resume_attempts value seen [] = None"
| "resume_attempts value seen (attempt # rest) =
     (let identity = rsm_AttemptIdentity attempt in
      err_then (validateResumeAttempt attempt)
        (if ai_NodeID identity \<noteq> rsp_NodeID value \<or> ai_AgentID identity \<noteq> rsp_AgentID value \<or>
            ai_WorkerID identity \<noteq> rsp_WorkerID value
         then Some (verr ''resume attempt identity does not match session'')
         else if identity \<in> set seen then Some (verr ''runtime resume attempts must be unique'')
         else resume_attempts value (identity # seen) rest))"

definition validateRuntimeResume :: "RuntimeResumePayload \<Rightarrow> go_error option" where
  "validateRuntimeResume value =
     err_then
       (err_if (rsp_NodeID value = uuid_Nil \<or> rsp_AgentID value = uuid_Nil \<or>
           rsp_RuntimeSessionID value = uuid_Nil \<or> \<not> validRequiredString (rsp_WorkerID value) 200 \<or>
           RuntimeMaximumResumeAttempts < length (rsp_Attempts value))
         (verr ''invalid runtime resume identity''))
       (resume_attempts value [] (rsp_Attempts value))"

abbreviation "RuntimeResumeContinueExecution \<equiv> ''continue_execution''"
abbreviation "RuntimeResumeUploadSpoolOnly \<equiv> ''upload_spool_only''"
abbreviation "RuntimeResumeResultAcked \<equiv> ''result_already_acked''"
abbreviation "RuntimeResumeLeaseRevoked \<equiv> ''lease_revoked''"
abbreviation "RuntimeActionContinueExecution \<equiv> ''continue_execution''"
abbreviation "RuntimeActionUploadEvents \<equiv> ''upload_events''"
abbreviation "RuntimeActionUploadResult \<equiv> ''upload_result''"
abbreviation "RuntimeActionStopExecution \<equiv> ''stop_execution''"
abbreviation "RuntimeActionClearSpool \<equiv> ''clear_spool''"

fun resume_actions :: "string list \<Rightarrow> string list \<Rightarrow> go_error + string list" where
  "resume_actions seen [] = Inr seen"
| "resume_actions seen (action # rest) =
     (if action \<notin> {RuntimeActionContinueExecution, RuntimeActionUploadEvents,
                    RuntimeActionUploadResult, RuntimeActionStopExecution, RuntimeActionClearSpool}
      then Inl (verr ''invalid runtime resume action'')
      else if action \<in> set seen then Inl (verr ''runtime resume actions must be unique'')
      else resume_actions (action # seen) rest)"

definition resume_decision :: "string \<Rightarrow> gotime option \<Rightarrow> string list \<Rightarrow> go_error option" where
  "resume_decision decision leaseExpiresAt seen =
     (let has = (\<lambda>action. action \<in> set seen) in
      if decision = RuntimeResumeContinueExecution
      then err_if (leaseExpiresAt = None \<or> length seen \<noteq> 3 \<or> \<not> has RuntimeActionContinueExecution \<or>
                   \<not> has RuntimeActionUploadEvents \<or> \<not> has RuntimeActionUploadResult)
             (verr ''continue_execution requires a lease expiry and execution/event/result actions'')
      else if decision = RuntimeResumeUploadSpoolOnly
      then err_if (leaseExpiresAt \<noteq> None \<or> length seen = 0 \<or> 2 < length seen \<or>
                   has RuntimeActionContinueExecution \<or> has RuntimeActionStopExecution \<or>
                   has RuntimeActionClearSpool)
             (verr ''upload_spool_only permits only event and result upload actions'')
      else if decision = RuntimeResumeResultAcked
      then err_if (leaseExpiresAt \<noteq> None \<or> length seen \<noteq> 1 \<or> \<not> has RuntimeActionClearSpool)
             (verr ''result_already_acked permits only clearing the spool'')
      else if decision = RuntimeResumeLeaseRevoked
      then err_if (leaseExpiresAt \<noteq> None \<or> length seen \<noteq> 2 \<or> \<not> has RuntimeActionStopExecution \<or>
                   \<not> has RuntimeActionClearSpool)
             (verr ''lease_revoked requires stop_execution and clear_spool actions'')
      else None)"

definition validateResumeAccepted :: "RunResumeAcceptedPayload \<Rightarrow> go_error option" where
  "validateResumeAccepted value =
     err_then (validateAttemptIdentity (rac_AttemptIdentity value))
       (if rac_Decision value \<notin> {RuntimeResumeContinueExecution, RuntimeResumeUploadSpoolOnly,
                                  RuntimeResumeResultAcked, RuntimeResumeLeaseRevoked}
        then Some (verr ''invalid runtime resume decision'')
        else if rac_LeaseExpiresAt value = Some 0 then Some (verr ''invalid resumed lease expiry'')
        else case resume_actions [] (rac_AllowedActions value) of
          Inl err \<Rightarrow> Some err
        | Inr seen \<Rightarrow> resume_decision (rac_Decision value) (rac_LeaseExpiresAt value) seen)"

fun resume_decisions :: "AttemptIdentity list \<Rightarrow> RunResumeAcceptedPayload list \<Rightarrow> go_error option" where
  "resume_decisions seen [] = None"
| "resume_decisions seen (decision # rest) =
     err_then (validateResumeAccepted decision)
       (if rac_AttemptIdentity decision \<in> set seen
        then Some (verr ''runtime resume decisions must be unique per Attempt'')
        else resume_decisions (rac_AttemptIdentity decision # seen) rest)"

section \<open>Browser viewer\<close>

definition validBrowserViewerInput :: "BrowserViewerInputPayload \<Rightarrow> bool" where
  "validBrowserViewerInput i =
     (let finite = (\<lambda>d. case d of FFin r \<Rightarrow> \<bar>r\<bar> \<le> 4096 | _ \<Rightarrow> False); zero = FFin 0 in
      if bvi_Kind i = ''pointer'' then
        (case (bvi_X i, bvi_Y i) of
           (Some x, Some y) \<Rightarrow>
             0 \<le> x \<and> x < 1280 \<and> 0 \<le> y \<and> y < 720 \<and> bvi_KeyboardAction i = [] \<and> bvi_Key i = [] \<and>
             bvi_Text i = [] \<and> bvi_DeltaX i = zero \<and> bvi_DeltaY i = zero \<and>
             (if bvi_PointerAction i = ''move'' then bvi_Button i = [] \<and> bvi_ClickCount i = 0
              else bvi_PointerAction i = ''click'' \<and>
                   bvi_Button i \<in> {''left'', ''middle'', ''right''} \<and>
                   1 \<le> bvi_ClickCount i \<and> bvi_ClickCount i \<le> 3)
         | _ \<Rightarrow> False)
      else if bvi_Kind i = ''keyboard'' then
        bvi_PointerAction i = [] \<and> bvi_X i = None \<and> bvi_Y i = None \<and> bvi_Button i = [] \<and>
        bvi_ClickCount i = 0 \<and> bvi_DeltaX i = zero \<and> bvi_DeltaY i = zero \<and>
        (if bvi_KeyboardAction i = ''press'' then validRequiredString (bvi_Key i) 64 \<and> bvi_Text i = []
         else bvi_KeyboardAction i = ''text'' \<and> bvi_Key i = [] \<and>
              validRequiredString (bvi_Text i) 4096 \<and> CHR 0x00 \<notin> set (bvi_Text i))
      else if bvi_Kind i = ''scroll'' then
        bvi_PointerAction i = [] \<and> bvi_KeyboardAction i = [] \<and> bvi_X i = None \<and> bvi_Y i = None \<and>
        bvi_Button i = [] \<and> bvi_ClickCount i = 0 \<and> bvi_Key i = [] \<and> bvi_Text i = [] \<and>
        finite (bvi_DeltaX i) \<and> finite (bvi_DeltaY i) \<and>
        (bvi_DeltaX i \<noteq> zero \<or> bvi_DeltaY i \<noteq> zero)
      else False)"

definition validateBrowserViewerCommand :: "BrowserViewerCommandPayload \<Rightarrow> go_error option" where
  "validateBrowserViewerCommand value =
     err_then (validateAttemptIdentity (bvc_AttemptIdentity value))
       (if bvc_BrowserSessionID value = uuid_Nil \<or> bvc_AttachmentID value = uuid_Nil \<or>
           bvc_SessionEpoch value = 0 \<or> bvc_PreviousControlEpoch value = 0 \<or>
           bvc_ControlEpoch value = 0 \<or> IsZero (bvc_DeadlineAt value)
        then Some (verr ''invalid browser Viewer command identity'')
        else if bvc_Action value \<in> {''claim'', ''release'', ''resume'', ''terminate''}
        then err_if (bvc_Input value \<noteq> None \<or>
                     bvc_ControlEpoch value \<noteq> bvc_PreviousControlEpoch value + 1)
               (verr ''invalid browser Viewer control transition'')
        else if bvc_Action value = ''input''
        then err_if (bvc_ControlEpoch value \<noteq> bvc_PreviousControlEpoch value \<or>
                     (case bvc_Input value of None \<Rightarrow> True | Some i \<Rightarrow> \<not> validBrowserViewerInput i))
               (verr ''invalid browser Viewer input'')
        else Some (verr ''invalid browser Viewer command action''))"

definition validateBrowserViewerFrame :: "BrowserViewerFramePayload \<Rightarrow> go_error option" where
  "validateBrowserViewerFrame value =
     err_then (validateAttemptIdentity (bvf_AttemptIdentity value))
       (err_if (bvf_BrowserSessionID value = uuid_Nil \<or> bvf_AttachmentID value = uuid_Nil \<or>
           bvf_SessionEpoch value = 0 \<or> bvf_ControlEpoch value = 0 \<or> bvf_FrameSeq value = 0 \<or>
           bvf_MIMEType value \<noteq> ''image/jpeg'' \<or> length (bvf_Data value) = 0 \<or>
           2 ^ 20 < length (bvf_Data value) \<or> bvf_Width value \<noteq> 1280 \<or> bvf_Height value \<noteq> 720)
         (verr ''invalid browser Viewer frame''))"

definition validateBrowserViewerFrameAck :: "BrowserViewerFrameAckPayload \<Rightarrow> go_error option" where
  "validateBrowserViewerFrameAck value =
     err_then (validateAttemptIdentity (bva_AttemptIdentity value))
       (err_if (bva_ControlEpoch value = 0 \<or> bva_FrameSeq value = 0)
         (verr ''invalid browser Viewer frame acknowledgement''))"

section \<open>Browser observer\<close>

text \<open>
  \<open>validSHA256Hex\<close>: 64 bytes, unchanged by \<open>strings.ToLower\<close>, decodable as hexadecimal. A
  decodable string is ASCII, so it is lower case exactly when it has no capital digit.
\<close>

definition validSHA256Hex :: "string \<Rightarrow> bool" where
  "validSHA256Hex value \<longleftrightarrow> length value = 64 \<and> list_all is_lower_hex value"

definition validate_observer_identity :: "BrowserObserverIdentity \<Rightarrow> go_error option" where
  "validate_observer_identity i =
     err_then (validateAttemptIdentity (observer_RuntimeIdentity i))
       (err_if (boi_RunID i = uuid_Nil \<or> boi_AttemptID i = uuid_Nil \<or> boi_SessionEpoch i < 1 \<or>
           \<not> validSHA256Hex (boi_BrowserSessionSHA256 i) \<or> \<not> validSHA256Hex (boi_AttachmentSHA256 i) \<or>
           boi_RuntimeSessionID i = uuid_Nil)
         (verr ''browser observer identity is invalid''))"

definition observer_command_identity :: "BrowserObserverCommandPayload \<Rightarrow> BrowserObserverIdentity" where
  "observer_command_identity p =
     browserObserverIdentityFromWire (boc_AttemptIdentity p) (boc_SessionEpoch p)
       (boc_BrowserSessionSHA256 p) (boc_AttachmentSHA256 p)"

definition observer_event_identity :: "BrowserObserverEventPayload \<Rightarrow> BrowserObserverIdentity" where
  "observer_event_identity p =
     browserObserverIdentityFromWire (boe_AttemptIdentity p) (boe_SessionEpoch p)
       (boe_BrowserSessionSHA256 p) (boe_AttachmentSHA256 p)"

definition Validate_observer_command :: "BrowserObserverCommandPayload \<Rightarrow> go_error option" where
  "Validate_observer_command p =
     err_then (validate_observer_identity (observer_command_identity p))
       (if boc_CommandID p = uuid_Nil \<or> boc_LeaseID p = uuid_Nil
        then Some (verr ''browser observer command identity is invalid'')
        else if boc_Action p = ''stop'' then None
        else if boc_Action p \<noteq> ''start'' then Some (verr ''browser observer action is invalid'')
        else if IsZero (boc_LeaseExpiresAt p) \<or> IsZero (boc_DeadlineAt p)
        then Some (verr ''browser observer start requires bounded deadlines'')
        else err_if (boc_FrameIntervalMS p < BrowserObserverMinFrameIntervalMS \<or>
                     BrowserObserverMaxFrameIntervalMS < boc_FrameIntervalMS p)
               (verr ''browser observer frame interval is out of range''))"

definition Validate_observer_event :: "BrowserObserverEventPayload \<Rightarrow> go_error option" where
  "Validate_observer_event p =
     err_then (validate_observer_identity (observer_event_identity p))
       (if boe_CommandID p = uuid_Nil \<or> boe_LeaseID p = uuid_Nil \<or> boe_EventSeq p < 1
        then Some (verr ''browser observer event identity is invalid'')
        else if boe_FinalFrame p \<and> boe_Kind p \<noteq> ''frame''
        then Some (verr ''browser observer final-frame marker requires a frame'')
        else if boe_Kind p = ''started'' \<or> boe_Kind p = ''stopped''
        then err_if (boe_Frame p \<noteq> None) (verr ''browser observer lifecycle event carries a frame'')
        else if boe_Kind p = ''frame''
        then (case boe_Frame p of
                None \<Rightarrow> Some (verr ''browser observer frame event is incomplete'')
              | Some frame \<Rightarrow>
                  if boe_CapturedAt p = None \<or> boe_CapturedAt p = Some 0
                  then Some (verr ''browser observer frame event is incomplete'')
                  else err_if (bof_MIMEType frame \<noteq> ''image/jpeg'' \<or> length (bof_Data frame) = 0 \<or>
                               BrowserObserverMaxFrameBytes < length (bof_Data frame) \<or>
                               bof_Width frame < 1 \<or> bof_Height frame < 1)
                         (verr ''browser observer frame is invalid''))
        else if boe_Kind p = ''error''
        then err_if (\<not> validRequiredString (boe_ErrorCode p) 100)
               (verr ''browser observer error event has no code'')
        else Some (verr ''browser observer event kind is invalid''))"

definition Validate_observer_ack :: "BrowserObserverEventAckPayload \<Rightarrow> go_error option" where
  "Validate_observer_ack p =
     err_then (validate_observer_identity
         (browserObserverIdentityFromWire (boa_AttemptIdentity p) (boa_SessionEpoch p)
            (boa_BrowserSessionSHA256 p) (boa_AttachmentSHA256 p)))
       (err_if (boa_LeaseID p = uuid_Nil \<or> boa_EventSeq p < 1)
         (verr ''browser observer ack identity is invalid''))"

section \<open>Strict decoding\<close>

text \<open>
  What \<open>decodeRuntimeJSON\<close> uses of \<open>encoding/json\<close> and of the reflective required-field walker for
  one target type: the strict decoder, which returns the value and the unread bytes, the error of
  reading a second value, and the message of the walker.
\<close>

record 'p struct_codec =
  sc_decode :: "bytes \<Rightarrow> go_error + 'p \<times> bytes"
  sc_trailing :: "bytes \<Rightarrow> go_error"
  sc_required :: "bytes \<Rightarrow> string option"

definition decodeRuntimeJSON :: "'p struct_codec \<Rightarrow> bytes \<Rightarrow> go_error + 'p" where
  "decodeRuntimeJSON codec raw =
     (if TrimSpace raw = [] then Inl (verr ''runtime JSON body is required'')
      else case sc_decode codec raw of
        Inl err \<Rightarrow> Inl (runtimeValidationError ''invalid runtime JSON body'' (Some err))
      | Inr (target, rest) \<Rightarrow>
          if \<not> list_all is_json_space rest
          then Inl (runtimeValidationError ''runtime body must contain exactly one JSON value''
                      (Some (sc_trailing codec rest)))
          else case sc_required codec raw of
            Some message \<Rightarrow> Inl (runtimeValidationError message (Some (OtherError message None)))
          | None \<Rightarrow> Inr target)"

record payload_decoders =
  pd_RunCancel :: "RunCancelPayload struct_codec"
  pd_Drain :: "RuntimeDrainPayload struct_codec"
  pd_LeaseRevoked :: "RunLeaseRevokedPayload struct_codec"
  pd_ViewerCommand :: "BrowserViewerCommandPayload struct_codec"
  pd_ObserverCommand :: "BrowserObserverCommandPayload struct_codec"

definition validateRuntimeDrain :: "RuntimeDrainPayload \<Rightarrow> go_error option" where
  "validateRuntimeDrain value =
     err_if (IsZero (drn_DeadlineAt value) \<or> \<not> validRequiredString (drn_ReasonCode value) 120 \<or>
         drn_Capacity value \<noteq> 0 \<or> drn_Inflight value < 0)
       (verr ''invalid runtime drain command'')"

definition validateLeaseRevoked :: "RunLeaseRevokedPayload \<Rightarrow> go_error option" where
  "validateLeaseRevoked value =
     err_then (validateAttemptIdentity (rev_AttemptIdentity value))
       (err_if (\<not> validRequiredString (rev_ReasonCode value) 120 \<or>
           \<not> validRuntimeDispatchState (rev_DispatchState value) \<or> \<not> validRuntimeRunStatus (rev_RunStatus value))
         (verr ''invalid lease revocation''))"

record DecodedPendingCommand =
  dpc_Type :: RuntimeMessageType
  dpc_Cancel :: "RunCancelPayload option"
  dpc_Drain :: "RuntimeDrainPayload option"
  dpc_Revoke :: "RunLeaseRevokedPayload option"
  dpc_Viewer :: "BrowserViewerCommandPayload option"
  dpc_Observer :: "BrowserObserverCommandPayload option"

definition decode_then :: "'p struct_codec \<Rightarrow> ('p \<Rightarrow> go_error option) \<Rightarrow> bytes \<Rightarrow> go_error + 'p" where
  "decode_then codec validate raw =
     (case decodeRuntimeJSON codec raw of
        Inl err \<Rightarrow> Inl err
      | Inr payload \<Rightarrow> (case validate payload of Some err \<Rightarrow> Inl err | None \<Rightarrow> Inr payload))"

definition DecodePendingCommand :: "payload_decoders \<Rightarrow> PendingCommand \<Rightarrow> go_error + DecodedPendingCommand" where
  "DecodePendingCommand decs command =
     (let decoded = \<lparr>dpc_Type = pc_Type command, dpc_Cancel = None, dpc_Drain = None, dpc_Revoke = None,
                      dpc_Viewer = None, dpc_Observer = None\<rparr>;
          raw = pc_Payload command in
      if pc_Type command = RuntimeMessageRunCancel
      then map_sum id (\<lambda>p. decoded\<lparr>dpc_Cancel := Some p\<rparr>)
             (decode_then (pd_RunCancel decs) validateRunCancel raw)
      else if pc_Type command = RuntimeMessageDrain
      then map_sum id (\<lambda>p. decoded\<lparr>dpc_Drain := Some p\<rparr>)
             (decode_then (pd_Drain decs) validateRuntimeDrain raw)
      else if pc_Type command = RuntimeMessageLeaseRevoked
      then map_sum id (\<lambda>p. decoded\<lparr>dpc_Revoke := Some p\<rparr>)
             (decode_then (pd_LeaseRevoked decs) validateLeaseRevoked raw)
      else if pc_Type command = RuntimeMessageBrowserViewerCommand
      then map_sum id (\<lambda>p. decoded\<lparr>dpc_Viewer := Some p\<rparr>)
             (decode_then (pd_ViewerCommand decs) validateBrowserViewerCommand raw)
      else if pc_Type command = RuntimeMessageBrowserObserverCommand
      then map_sum id (\<lambda>p. decoded\<lparr>dpc_Observer := Some p\<rparr>)
             (decode_then (pd_ObserverCommand decs) Validate_observer_command raw)
      else Inl (verr ''unknown runtime command type''))"

definition pending_command_error :: "payload_decoders \<Rightarrow> PendingCommand \<Rightarrow> go_error option" where
  "pending_command_error decs command =
     (case DecodePendingCommand decs command of Inl err \<Rightarrow> Some err | Inr _ \<Rightarrow> None)"

fun pending_commands_error :: "payload_decoders \<Rightarrow> PendingCommand list \<Rightarrow> go_error option" where
  "pending_commands_error decs [] = None"
| "pending_commands_error decs (c # cs) =
     err_then (pending_command_error decs c) (pending_commands_error decs cs)"

section \<open>Every payload\<close>

text \<open>The dynamic type of the \<open>any\<close> argument; any other type is \<open>POther\<close>.\<close>

datatype RuntimePayload =
    PObserverCommand BrowserObserverCommandPayload
  | PObserverEvent BrowserObserverEventPayload
  | PObserverEventAck BrowserObserverEventAckPayload
  | PHello RuntimeHelloPayload
  | PReady RuntimeReadyPayload
  | PPreviousReady RuntimePreviousReadyPayload
  | PRunAssigned RunAssignedPayload
  | PAssignmentAck RunAssignmentAckPayload
  | PAssignmentConfirmed RunAssignmentConfirmedPayload
  | PAssignmentReject RunAssignmentRejectPayload
  | PAssignmentRejected RunAssignmentRejectedPayload
  | PLeaseRenew RunLeaseRenewPayload
  | PLeaseRenewed RunLeaseRenewedPayload
  | PRunEvent RunEventPayload
  | PRunEventAck RunEventAckPayload
  | PRunError RunErrorPayload
  | PRunResult RunResultPayload
  | PRunResultAck RunResultAckPayload
  | PRunCancel RunCancelPayload
  | PRunCancelAck RunCancelAckPayload
  | PCancellationState RunCancellationState
  | PResumeAttempt ResumeAttempt
  | PResume RuntimeResumePayload
  | PResumeAccepted RunResumeAcceptedPayload
  | PResumeResponse RuntimeResumeResponse
  | PLeaseRevoked RunLeaseRevokedPayload
  | PDrain RuntimeDrainPayload
  | PViewerCommand BrowserViewerCommandPayload
  | PViewerFrame BrowserViewerFramePayload
  | PViewerFrameAck BrowserViewerFrameAckPayload
  | PPendingCommand PendingCommand
  | PCommandsResponse RuntimeCommandsResponse
  | PClaimRequest RuntimeClaimRequest
  | PCallAgent CallAgentRequest
  | PRunSummary RunSummary
  | PErrorBody RuntimeErrorBody
  | PRuntimeError RuntimeErrorBody
  | POther

definition ValidateRuntimePayload :: "payload_decoders \<Rightarrow> RuntimePayload \<Rightarrow> go_error option" where
  "ValidateRuntimePayload decs payload =
     (case payload of
        PObserverCommand v \<Rightarrow> Validate_observer_command v
      | PObserverEvent v \<Rightarrow> Validate_observer_event v
      | PObserverEventAck v \<Rightarrow> Validate_observer_ack v
      | PHello v \<Rightarrow> validateRuntimeHello v
      | PReady v \<Rightarrow> validateRuntimeReady v
      | PPreviousReady v \<Rightarrow> validateRuntimePreviousReady v
      | PRunAssigned v \<Rightarrow> validateRunAssigned v
      | PAssignmentAck v \<Rightarrow> validateAttemptIdentity (ack_AttemptIdentity v)
      | PAssignmentConfirmed v \<Rightarrow>
          err_then (validateAttemptIdentity (cnf_AttemptIdentity v))
            (err_if (cnf_AttemptNo v < 1 \<or> IsZero (cnf_LeaseExpiresAt v))
              (verr ''invalid assignment confirmation''))
      | PAssignmentReject v \<Rightarrow> validateAssignmentReject v
      | PAssignmentRejected v \<Rightarrow>
          err_then (validateAttemptIdentity (rjd_AttemptIdentity v))
            (err_if (\<not> validAssignmentRejectOutcome (rjd_Outcome v) \<or>
                     \<not> validRuntimeDispatchState (rjd_DispatchState v))
              (verr ''invalid assignment rejection''))
      | PLeaseRenew v \<Rightarrow>
          err_then (validateAttemptIdentity (rnw_AttemptIdentity v))
            (err_if (rnw_LastClientEventSeq v < 0 \<or>
                     \<not> validRuntimeCapacitySnapshot (rnw_Capacity v) (rnw_Inflight v))
              (verr ''invalid lease renewal''))
      | PLeaseRenewed v \<Rightarrow>
          err_then (validateAttemptIdentity (rnd_AttemptIdentity v))
            (if IsZero (rnd_LeaseExpiresAt v) then Some (verr ''lease_expires_at is required'')
             else case rnd_PendingCommand v of
               None \<Rightarrow> None | Some c \<Rightarrow> pending_command_error decs c)
      | PRunEvent v \<Rightarrow> validateRunEvent v
      | PRunEventAck v \<Rightarrow>
          err_if (eva_ClientEventID v = uuid_Nil \<or> eva_ClientEventSeq v < 1 \<or> eva_Sequence v < 1)
            (verr ''invalid runtime event acknowledgement'')
      | PRunError v \<Rightarrow> validateRunError v
      | PRunResult v \<Rightarrow> validateRunResult v
      | PRunResultAck v \<Rightarrow> validateRunResultAck v
      | PRunCancel v \<Rightarrow> validateRunCancel v
      | PRunCancelAck v \<Rightarrow> validateRunCancelAck v
      | PCancellationState v \<Rightarrow>
          err_if (cst_CancellationID v = uuid_Nil \<or> \<not> validRuntimeCancelState (cst_CancelState v) \<or>
                  IsZero (cst_UpdatedAt v) \<or> \<not> validOptionalString (cst_ErrorCode v) 120)
            (verr ''invalid cancellation state'')
      | PResumeAttempt v \<Rightarrow> validateResumeAttempt v
      | PResume v \<Rightarrow> validateRuntimeResume v
      | PResumeAccepted v \<Rightarrow> validateResumeAccepted v
      | PResumeResponse v \<Rightarrow> resume_decisions [] (rrr_Decisions v)
      | PLeaseRevoked v \<Rightarrow> validateLeaseRevoked v
      | PDrain v \<Rightarrow> validateRuntimeDrain v
      | PViewerCommand v \<Rightarrow> validateBrowserViewerCommand v
      | PViewerFrame v \<Rightarrow> validateBrowserViewerFrame v
      | PViewerFrameAck v \<Rightarrow> validateBrowserViewerFrameAck v
      | PPendingCommand v \<Rightarrow> pending_command_error decs v
      | PCommandsResponse v \<Rightarrow>
          err_then (err_if (IsZero (rcr_DatabaseTime v)) (verr ''database_time is required''))
            (pending_commands_error decs (rcr_Commands v))
      | PClaimRequest v \<Rightarrow>
          err_if (rcl_RuntimeSessionID v = uuid_Nil \<or> rcl_Capacity v < 0 \<or> rcl_Inflight v < 0)
            (verr ''invalid runtime claim request'')
      | PCallAgent v \<Rightarrow>
          err_if (car_TargetAgentID v = uuid_Nil \<or> car_Input v = None \<or> \<not> validOptionalString (car_Reason v) 500)
            (verr ''invalid delegated agent request'')
      | PRunSummary v \<Rightarrow>
          err_if (sum_RunID v = uuid_Nil \<or> \<not> validRuntimeRunStatus (sum_Status v) \<or>
                  \<not> validRuntimeDispatchState (sum_DispatchState v))
            (verr ''invalid runtime run summary'')
      | PErrorBody v \<Rightarrow> validateRuntimeErrorBody v
      | PRuntimeError v \<Rightarrow> validateRuntimeErrorBody v
      | POther \<Rightarrow> Some (verr ''unsupported Runtime payload type''))"

section \<open>Messages\<close>

definition runtimeMessageTooLargeError :: go_error where
  "runtimeMessageTooLargeError =
     newRuntimeTransportError RuntimeErrorBadRequest ''Runtime message exceeds 4194304 bytes'' None"

definition parseRuntimeEnvelope :: "RuntimeEnvelope struct_codec \<Rightarrow> bytes \<Rightarrow> go_error + RuntimeEnvelope" where
  "parseRuntimeEnvelope codec raw = decode_then codec ValidateRuntimeEnvelope raw"

definition ParseRuntimeEnvelope :: "RuntimeEnvelope struct_codec \<Rightarrow> bytes \<Rightarrow> go_error + RuntimeEnvelope" where
  "ParseRuntimeEnvelope codec frame =
     (if MaxRuntimeMessageBytes < length frame then Inl runtimeMessageTooLargeError
      else parseRuntimeEnvelope codec frame)"

text \<open>
  A reader is nil, or delivers bytes and then ends or fails. The limited reader never asks for
  more than one byte above the limit, so a failure behind that byte is not seen.
\<close>

definition readRuntimeJSON :: "(bytes \<times> go_error option) option \<Rightarrow> go_error + bytes" where
  "readRuntimeJSON reader =
     (case reader of
        None \<Rightarrow> Inl (verr ''runtime request body is required'')
      | Some (bs, failure) \<Rightarrow>
          if length bs \<le> MaxRuntimeMessageBytes \<and> failure \<noteq> None
          then Inl (newRuntimeTransportError RuntimeErrorBadRequest
                      (runtimeErrorDefaultMessage RuntimeErrorBadRequest) failure)
          else (let raw = take (MaxRuntimeMessageBytes + 1) bs in
                if MaxRuntimeMessageBytes < length raw then Inl runtimeMessageTooLargeError
                else Inr raw))"

definition DecodeRuntimeEnvelope ::
    "RuntimeEnvelope struct_codec \<Rightarrow> (bytes \<times> go_error option) option \<Rightarrow> go_error + RuntimeEnvelope" where
  "DecodeRuntimeEnvelope codec reader =
     (case readRuntimeJSON reader of Inl err \<Rightarrow> Inl err | Inr raw \<Rightarrow> parseRuntimeEnvelope codec raw)"

text \<open>The type argument \<open>P\<close> of the generic functions is a codec and an injection into the payload union.\<close>

definition DecodeRuntimeMessagePayload ::
    "payload_decoders \<Rightarrow> 'p struct_codec \<Rightarrow> ('p \<Rightarrow> RuntimePayload) \<Rightarrow> RuntimeEnvelope \<Rightarrow> RuntimeMessageType
       \<Rightarrow> go_error + 'p" where
  "DecodeRuntimeMessagePayload decs codec mk envelope expected =
     (case ValidateRuntimeEnvelope envelope of
        Some err \<Rightarrow> Inl err
      | None \<Rightarrow>
          if env_Type envelope \<noteq> expected
          then Inl (verr ''runtime message type does not match payload'')
          else decode_then codec (\<lambda>p. ValidateRuntimePayload decs (mk p)) (env_Payload envelope))"

definition DecodeRuntimeBody ::
    "payload_decoders \<Rightarrow> 'p struct_codec \<Rightarrow> ('p \<Rightarrow> RuntimePayload) \<Rightarrow> (bytes \<times> go_error option) option
       \<Rightarrow> go_error + 'p" where
  "DecodeRuntimeBody decs codec mk reader =
     (case readRuntimeJSON reader of
        Inl err \<Rightarrow> Inl err
      | Inr raw \<Rightarrow> decode_then codec (\<lambda>p. ValidateRuntimePayload decs (mk p)) raw)"

text \<open>\<open>uuid.New\<close>, \<open>time.Now\<close> and \<open>json.Marshal\<close> are arguments of the outbound constructor.\<close>

definition NewRuntimeTypedMessage ::
    "payload_decoders \<Rightarrow> ('p \<Rightarrow> go_error + bytes) \<Rightarrow> ('p \<Rightarrow> RuntimePayload) \<Rightarrow> uuid \<Rightarrow> gotime
       \<Rightarrow> RuntimeMessageType \<Rightarrow> uuid option \<Rightarrow> 'p \<Rightarrow> go_error + RuntimeEnvelope" where
  "NewRuntimeTypedMessage decs marshal mk new_id now messageType replyTo payload =
     (case ValidateRuntimePayload decs (mk payload) of
        Some err \<Rightarrow> Inl err
      | None \<Rightarrow>
          (case marshal payload of
             Inl err \<Rightarrow> Inl (runtimeValidationError ''runtime payload cannot be encoded'' (Some err))
           | Inr rawPayload \<Rightarrow>
               (let message = \<lparr>env_ProtocolVersion = RuntimeProtocolVersion,
                     env_RuntimeContractID = RuntimeContractID, env_MessageID = new_id,
                     env_ReplyToMessageID = replyTo, env_Type = messageType, env_SentAt = now,
                     env_Payload = rawPayload\<rparr> in
                case ValidateRuntimeEnvelope message of Some err \<Rightarrow> Inl err | None \<Rightarrow> Inr message)))"

end
