(* ===== verification/Wire_Laws.thy ===== *)
theory Wire_Laws
  imports Wire_Validation
begin

text \<open>
  What the wire validators guarantee: each acceptance condition as a declarative specification,
  every rejection as a well-formed wire error that closes the WebSocket, and the lossless conversions.
\<close>

section \<open>Rejections are wire errors\<close>

lemma NewRuntimeTransportError_wire:
  "validateRuntimeErrorBody (NewRuntimeTransportError code message) = None"
proof -
  have msg: "validRequiredString
      (if message = [] \<or> \<not> ValidString message \<or> 500 < RuneCount message
       then runtimeErrorDefaultMessage c else message) 500" for c
    using runtimeErrorDefaultMessage_wire rune_count_positive
    by (auto simp: validRequiredString_def)
  show ?thesis
    using msg
    by (simp add: validateRuntimeErrorBody_def NewRuntimeTransportError_def Let_def
        validRuntimeErrorCode_def runtimeErrorCodes_def)
qed

text \<open>The codes a payload or envelope rejection can carry.\<close>

definition rejection_codes :: "RuntimeErrorCode set" where
  "rejection_codes =
     {RuntimeErrorValidationFailed, RuntimeErrorClientUpgradeRequired, RuntimeErrorRequiredFeatureMissing}"

definition wire_rejection :: "go_error \<Rightarrow> bool" where
  "wire_rejection e \<longleftrightarrow>
     (\<exists>b c. e = TransportError b c \<and> validateRuntimeErrorBody b = None \<and> eb_Code b \<in> rejection_codes)"

definition rejects_on_wire :: "go_error option \<Rightarrow> bool" where
  "rejects_on_wire r \<longleftrightarrow> (case r of None \<Rightarrow> True | Some e \<Rightarrow> wire_rejection e)"

lemma NewRuntimeTransportError_code:
  "validRuntimeErrorCode code \<Longrightarrow> eb_Code (NewRuntimeTransportError code message) = code"
  by (simp add: NewRuntimeTransportError_def Let_def)

lemma wire_rejection_new:
  "code \<in> rejection_codes \<Longrightarrow> wire_rejection (newRuntimeTransportError code m c)"
  using NewRuntimeTransportError_wire NewRuntimeTransportError_code
  by (auto simp: wire_rejection_def newRuntimeTransportError_def rejection_codes_def
      validRuntimeErrorCode_def runtimeErrorCodes_def)

lemma wire_rejection_basic [intro, simp]:
  "wire_rejection (runtimeValidationError m c)" "wire_rejection upgradeRequired"
  "wire_rejection requiredFeatureMissing"
  by (simp_all add: runtimeValidationError_def upgradeRequired_def requiredFeatureMissing_def
      wire_rejection_new rejection_codes_def)

lemma rejects_on_wire_basic [simp]:
  "rejects_on_wire None" "rejects_on_wire (Some e) = wire_rejection e"
  by (simp_all add: rejects_on_wire_def)

named_theorems rejects_rules \<open>every error of a validator is a wire rejection\<close>

lemma rejects_combinators [rejects_rules]:
  "wire_rejection e \<Longrightarrow> rejects_on_wire (err_if c e)"
  "rejects_on_wire a \<Longrightarrow> rejects_on_wire b \<Longrightarrow> rejects_on_wire (err_then a b)"
  "rejects_on_wire a \<Longrightarrow> rejects_on_wire b \<Longrightarrow> rejects_on_wire (if c then a else b)"
  "wire_rejection e \<Longrightarrow> rejects_on_wire (Some e)" "rejects_on_wire None"
  by (auto simp: rejects_on_wire_def err_if_def err_then_def split: option.split)

lemma rejects_case_option [rejects_rules]:
  "rejects_on_wire a \<Longrightarrow> (\<And>x. rejects_on_wire (f x)) \<Longrightarrow> rejects_on_wire (case v of None \<Rightarrow> a | Some x \<Rightarrow> f x)"
  by (cases v) simp_all

lemmas [rejects_rules] = wire_rejection_basic

lemma rejects_identity [rejects_rules]: "rejects_on_wire (validateAttemptIdentity v)"
  unfolding validateAttemptIdentity_def by (intro rejects_rules)

lemma rejects_hello_features [rejects_rules]: "rejects_on_wire (hello_features seen fs)"
  by (induction seen fs rule: hello_features.induct) auto

lemma rejects_ready_features [rejects_rules]: "rejects_on_wire (ready_features a b seen fs)"
  by (induction a b seen fs rule: ready_features.induct) auto

lemma rejects_run_error [rejects_rules]: "rejects_on_wire (validateRunError v)"
  unfolding validateRunError_def by (intro rejects_rules)

lemma resume_ranges_rejects: "resume_ranges p rs = Inl e \<Longrightarrow> wire_rejection e"
  by (induction p rs rule: resume_ranges.induct) (auto split: if_splits)

lemma resume_actions_rejects: "resume_actions seen as = Inl e \<Longrightarrow> wire_rejection e"
  by (induction seen as rule: resume_actions.induct) (auto split: if_splits)

lemma rejects_resume_attempt [rejects_rules]: "rejects_on_wire (validateResumeAttempt v)"
  unfolding validateResumeAttempt_def
  by (intro rejects_rules, cases "resume_ranges (rsm_LastAckedClientEventSeq v) (rsm_PendingClientEventRanges v)")
     (simp_all add: rejects_combinators resume_ranges_rejects)

lemma rejects_resume_attempts [rejects_rules]: "rejects_on_wire (resume_attempts v seen as)"
  by (induction v seen as rule: resume_attempts.induct) (simp_all add: Let_def rejects_rules)

lemma rejects_resume_decision [rejects_rules]: "rejects_on_wire (resume_decision d t seen)"
  unfolding resume_decision_def Let_def by (intro rejects_rules)

lemma rejects_resume_accepted [rejects_rules]: "rejects_on_wire (validateResumeAccepted v)"
  unfolding validateResumeAccepted_def
  by (intro rejects_rules, cases "resume_actions [] (rac_AllowedActions v)")
     (simp_all add: rejects_resume_decision resume_actions_rejects)

lemma rejects_resume_decisions [rejects_rules]: "rejects_on_wire (resume_decisions seen ds)"
  by (induction seen ds rule: resume_decisions.induct) (simp_all add: rejects_rules)

lemma rejects_run [rejects_rules]:
  "rejects_on_wire (validateRunAssigned d)" "rejects_on_wire (validateAssignmentReject e)"
  "rejects_on_wire (validateRunEvent f)" "rejects_on_wire (validateRunResult g)"
  "rejects_on_wire (validateRunResultAck h)" "rejects_on_wire (validateRunCancel i)"
  "rejects_on_wire (validateRunCancelAck j)" "rejects_on_wire (validateLeaseRevoked m)"
  unfolding validateRunAssigned_def validateAssignmentReject_def validateRunEvent_def
    validateRunResult_def validateRunResultAck_def validateRunCancel_def validateRunCancelAck_def
    validateLeaseRevoked_def
  by (intro rejects_rules)+

lemma rejects_session [rejects_rules]:
  "rejects_on_wire (validateRuntimeHello a)" "rejects_on_wire (validateRuntimeReady b)"
  "rejects_on_wire (validateRuntimePreviousReady c)" "rejects_on_wire (validateRuntimeResume k)"
  "rejects_on_wire (validateRuntimeDrain l)" "rejects_on_wire (validateRuntimeErrorBody n)"
  unfolding validateRuntimeHello_def validateRuntimeReady_def validateRuntimePreviousReady_def
    validateRuntimeResume_def validateRuntimeDrain_def validateRuntimeErrorBody_def
  by (intro rejects_rules)+

lemma rejects_browser [rejects_rules]:
  "rejects_on_wire (validateBrowserViewerCommand a)" "rejects_on_wire (validateBrowserViewerFrame b)"
  "rejects_on_wire (validateBrowserViewerFrameAck c)" "rejects_on_wire (Validate_observer_command d)"
  "rejects_on_wire (Validate_observer_event e)" "rejects_on_wire (Validate_observer_ack f)"
  unfolding validateBrowserViewerCommand_def validateBrowserViewerFrame_def
    validateBrowserViewerFrameAck_def Validate_observer_command_def Validate_observer_event_def
    Validate_observer_ack_def validate_observer_identity_def
  by (intro rejects_rules)+

lemma decode_then_rejects:
  "decode_then codec v raw = Inl e \<Longrightarrow> (\<And>p. rejects_on_wire (v p)) \<Longrightarrow> wire_rejection e"
  by (auto simp: decode_then_def decodeRuntimeJSON_def split: if_splits sum.splits option.splits)
     (metis rejects_on_wire_basic(2))

lemma map_sum_Inl: "map_sum f g x = Inl e \<longleftrightarrow> (\<exists>a. x = Inl a \<and> e = f a)"
  by (cases x) auto

lemma DecodePendingCommand_rejects: "DecodePendingCommand decs c = Inl e \<Longrightarrow> wire_rejection e"
  unfolding DecodePendingCommand_def Let_def
  by (auto simp: map_sum_Inl split: if_splits intro: decode_then_rejects rejects_rules)

lemma rejects_pending_command [rejects_rules]: "rejects_on_wire (pending_command_error decs c)"
  unfolding pending_command_error_def
  by (cases "DecodePendingCommand decs c") (simp_all add: DecodePendingCommand_rejects)

lemma rejects_pending_commands [rejects_rules]: "rejects_on_wire (pending_commands_error decs cs)"
  by (induction decs cs rule: pending_commands_error.induct) (simp_all add: rejects_rules)

lemma rejects_payload: "rejects_on_wire (ValidateRuntimePayload decs p)"
  unfolding ValidateRuntimePayload_def
  by (cases p; simp only: RuntimePayload.case) (intro rejects_rules)+

lemma rejects_envelope: "rejects_on_wire (ValidateRuntimeEnvelope env)"
  unfolding ValidateRuntimeEnvelope_def by (intro rejects_rules)

lemma rejection_codes_end_the_connection:
  "code \<in> rejection_codes \<Longrightarrow>
     (RuntimeHTTPStatus code, RuntimeWebSocketCloseCode code) \<in> {(422, Some 1002), (426, Some 4406), (426, Some 4412)}"
  by (auto simp: rejection_codes_def RuntimeHTTPStatus_def RuntimeWebSocketCloseCode_def)

lemma wire_rejection_closes:
  "wire_rejection e \<Longrightarrow> \<exists>body cause. e = TransportError body cause \<and>
     ValidateRuntimePayload decs (PErrorBody body) = None \<and>
     (RuntimeHTTPStatus (eb_Code body), RuntimeWebSocketCloseCode (eb_Code body)) \<in> {(422, Some 1002), (426, Some 4406), (426, Some 4412)}"
  using rejection_codes_end_the_connection by (auto simp: wire_rejection_def ValidateRuntimePayload_def)

text \<open>
  C24: Whatever payload or envelope Core rejects on the wire, the error it answers with is itself
  a valid \<open>runtime.error\<close> body under Core's own validator, and its code blames the client and ends
  the connection: HTTP status 422 goes with close code 1002, and 426 with 4406 or 4412.
\<close>

theorem payload_rejection_is_fatal_wire_error:
  assumes "ValidateRuntimePayload decs payload = Some err \<or> ValidateRuntimeEnvelope envelope = Some err"
  shows "\<exists>body cause. err = TransportError body cause \<and>
           ValidateRuntimePayload decs (PErrorBody body) = None \<and>
           (RuntimeHTTPStatus (eb_Code body), RuntimeWebSocketCloseCode (eb_Code body)) \<in> {(422, Some 1002), (426, Some 4406), (426, Some 4412)}"
proof (rule wire_rejection_closes)
  show "wire_rejection err"
    using assms rejects_payload[of decs payload] rejects_envelope[of envelope] by auto
qed

theorem payload_rejection_is_fatal_wire_error_witness:
  "\<forall>decs. ValidateRuntimePayload decs POther = Some (verr ''unsupported Runtime payload type'') \<and>
     (\<exists>body cause. verr ''unsupported Runtime payload type'' = TransportError body cause \<and>
        ValidateRuntimePayload decs (PErrorBody body) = None \<and>
        (RuntimeHTTPStatus (eb_Code body), RuntimeWebSocketCloseCode (eb_Code body)) \<in> {(422, Some 1002), (426, Some 4406), (426, Some 4412)})"
proof
  fix decs
  have "ValidateRuntimePayload decs POther = Some (verr ''unsupported Runtime payload type'')"
    by (simp add: ValidateRuntimePayload_def)
  then show "ValidateRuntimePayload decs POther = Some (verr ''unsupported Runtime payload type'') \<and>
     (\<exists>body cause. verr ''unsupported Runtime payload type'' = TransportError body cause \<and>
        ValidateRuntimePayload decs (PErrorBody body) = None \<and>
        (RuntimeHTTPStatus (eb_Code body), RuntimeWebSocketCloseCode (eb_Code body)) \<in> {(422, Some 1002), (426, Some 4406), (426, Some 4412)})"
    using payload_rejection_is_fatal_wire_error[of decs POther] by blast
qed

section \<open>Acceptance conditions\<close>

definition valid_identity :: "AttemptIdentity \<Rightarrow> bool" where
  "valid_identity i \<longleftrightarrow>
     ai_RunID i \<noteq> uuid_Nil \<and> ai_AttemptID i \<noteq> uuid_Nil \<and> ai_LeaseID i \<noteq> uuid_Nil \<and>
     1 \<le> ai_FencingToken i \<and> ai_NodeID i \<noteq> uuid_Nil \<and> ai_AgentID i \<noteq> uuid_Nil \<and>
     validRequiredString (ai_WorkerID i) 200 \<and> ai_RuntimeSessionID i \<noteq> uuid_Nil"

lemma validateAttemptIdentity_None [validation_simps]: "validateAttemptIdentity i = None \<longleftrightarrow> valid_identity i"
  by (auto simp: validateAttemptIdentity_def valid_identity_def)

text \<open>Ranges that lie above \<open>acked\<close>, are non-empty, in order and do not overlap.\<close>

definition ordered_ranges :: "int \<Rightarrow> EventRange list \<Rightarrow> bool" where
  "ordered_ranges acked rs \<longleftrightarrow>
     (\<forall>r \<in> set rs. acked < er_Start r \<and> er_Start r \<le> er_End r) \<and>
     sorted_wrt (\<lambda>a b. er_End a < er_Start b) rs"

definition last_range_end :: "int \<Rightarrow> EventRange list \<Rightarrow> int" where
  "last_range_end acked rs = (if rs = [] then acked else er_End (last rs))"

lemma ordered_ranges_Cons:
  "ordered_ranges acked (r # rs) \<longleftrightarrow>
     acked < er_Start r \<and> er_Start r \<le> er_End r \<and> ordered_ranges (er_End r) rs"
  by (force simp: ordered_ranges_def)

lemma resume_ranges_Inr:
  "0 \<le> acked \<Longrightarrow>
     resume_ranges acked rs = Inr e \<longleftrightarrow> ordered_ranges acked rs \<and> e = last_range_end acked rs"
proof (induction acked rs rule: resume_ranges.induct)
  case (1 p)
  then show ?case by (auto simp: ordered_ranges_def last_range_end_def)
next
  case (2 p r rest)
  then show ?case by (auto simp: ordered_ranges_Cons last_range_end_def)
qed

lemma resume_ranges_ordered:
  "0 \<le> acked \<Longrightarrow> ordered_ranges acked rs \<Longrightarrow> resume_ranges acked rs = Inr (last_range_end acked rs)"
  using resume_ranges_Inr[of acked rs "last_range_end acked rs"] by simp

lemma resume_ranges_disordered:
  "0 \<le> acked \<Longrightarrow> \<not> ordered_ranges acked rs \<Longrightarrow> \<exists>e. resume_ranges acked rs = Inl e"
  using resume_ranges_Inr[of acked rs] by (cases "resume_ranges acked rs") auto

definition valid_resume_attempt :: "ResumeAttempt \<Rightarrow> bool" where
  "valid_resume_attempt v \<longleftrightarrow>
     valid_identity (rsm_AttemptIdentity v) \<and> 0 \<le> rsm_LastAckedClientEventSeq v \<and>
     ordered_ranges (rsm_LastAckedClientEventSeq v) (rsm_PendingClientEventRanges v) \<and>
     (case (rsm_PendingResultID v, rsm_FinalClientEventSeq v) of
        (None, None) \<Rightarrow> True
      | (Some result, Some final) \<Rightarrow> result \<noteq> uuid_Nil \<and>
          last_range_end (rsm_LastAckedClientEventSeq v) (rsm_PendingClientEventRanges v) \<le> final
      | _ \<Rightarrow> False)"

lemma last_range_end_ge:
  assumes "ordered_ranges acked rs" shows "acked \<le> last_range_end acked rs"
proof (cases "rs = []")
  case True
  then show ?thesis by (simp add: last_range_end_def)
next
  case False
  then have "last rs \<in> set rs" by simp
  with assms have "acked < er_Start (last rs)" "er_Start (last rs) \<le> er_End (last rs)"
    by (auto simp: ordered_ranges_def)
  with False show ?thesis by (simp add: last_range_end_def)
qed

lemma validateResumeAttempt_None [validation_simps]:
  "validateResumeAttempt v = None \<longleftrightarrow> valid_resume_attempt v"
proof -
  let ?a = "rsm_LastAckedClientEventSeq v" and ?rs = "rsm_PendingClientEventRanges v"
  consider "?a < 0" | "0 \<le> ?a" "\<not> ordered_ranges ?a ?rs" | "0 \<le> ?a" "ordered_ranges ?a ?rs"
    by linarith
  then show ?thesis
  proof cases
    case 1
    then show ?thesis by (simp add: validateResumeAttempt_def valid_resume_attempt_def)
  next
    case 2
    then show ?thesis
      using resume_ranges_disordered[of ?a ?rs]
      by (auto simp: validateResumeAttempt_def valid_resume_attempt_def)
  next
    case 3
    then show ?thesis
      using last_range_end_ge[of ?a ?rs]
      by (auto simp: validateResumeAttempt_def valid_resume_attempt_def resume_ranges_ordered
          validation_simps split: option.split)
  qed
qed

lemma resume_attempts_None:
  "resume_attempts v seen as = None \<longleftrightarrow>
     (\<forall>a \<in> set as. valid_resume_attempt a \<and> ai_NodeID (rsm_AttemptIdentity a) = rsp_NodeID v \<and>
        ai_AgentID (rsm_AttemptIdentity a) = rsp_AgentID v \<and>
        ai_WorkerID (rsm_AttemptIdentity a) = rsp_WorkerID v) \<and>
     distinct (map rsm_AttemptIdentity as) \<and> set (map rsm_AttemptIdentity as) \<inter> set seen = {}"
  by (induction v seen as rule: resume_attempts.induct) (auto simp: Let_def validation_simps)

text \<open>
  C25: Core accepts a \<open>runtime.resume\<close> exactly when the session identity is complete, at most 1024
  attempts are listed, no attempt is listed twice, every attempt belongs to the session's Node,
  Agent and Worker, and each attempt's pending event ranges are non-empty, ordered, disjoint and
  above the acknowledged sequence, with a final sequence no smaller than the last pending event
  whenever, and only when, a result is pending.
\<close>

theorem resume_accepted_iff:
  "ValidateRuntimePayload decs (PResume v) = None \<longleftrightarrow>
     rsp_NodeID v \<noteq> uuid_Nil \<and> rsp_AgentID v \<noteq> uuid_Nil \<and> rsp_RuntimeSessionID v \<noteq> uuid_Nil \<and>
     validRequiredString (rsp_WorkerID v) 200 \<and> length (rsp_Attempts v) \<le> 1024 \<and>
     distinct (map rsm_AttemptIdentity (rsp_Attempts v)) \<and>
     list_all (\<lambda>a. valid_resume_attempt a \<and>
        ai_NodeID (rsm_AttemptIdentity a) = rsp_NodeID v \<and>
        ai_AgentID (rsm_AttemptIdentity a) = rsp_AgentID v \<and>
        ai_WorkerID (rsm_AttemptIdentity a) = rsp_WorkerID v) (rsp_Attempts v)"
  by (auto simp: ValidateRuntimePayload_def validateRuntimeResume_def resume_attempts_None
      RuntimeMaximumResumeAttempts_def list_all_iff)

text \<open>What each resume decision lets a client do, as an exact set of actions.\<close>

definition decision_actions :: "string \<Rightarrow> string set \<Rightarrow> bool" where
  "decision_actions decision actions \<longleftrightarrow>
     decision = RuntimeResumeContinueExecution \<and>
       actions = {RuntimeActionContinueExecution, RuntimeActionUploadEvents, RuntimeActionUploadResult} \<or>
     decision = RuntimeResumeUploadSpoolOnly \<and>
       actions \<noteq> {} \<and> actions \<subseteq> {RuntimeActionUploadEvents, RuntimeActionUploadResult} \<or>
     decision = RuntimeResumeResultAcked \<and> actions = {RuntimeActionClearSpool} \<or>
     decision = RuntimeResumeLeaseRevoked \<and> actions = {RuntimeActionStopExecution, RuntimeActionClearSpool}"

definition resume_action_set :: "string set" where
  "resume_action_set =
     {RuntimeActionContinueExecution, RuntimeActionUploadEvents, RuntimeActionUploadResult,
      RuntimeActionStopExecution, RuntimeActionClearSpool}"

lemma resume_actions_Cons:
  "resume_actions seen (action # rest) =
     (if action \<notin> resume_action_set then Inl (verr ''invalid runtime resume action'')
      else if action \<in> set seen then Inl (verr ''runtime resume actions must be unique'')
      else resume_actions (action # seen) rest)"
  by (simp only: resume_actions.simps(2) resume_action_set_def)

lemma resume_actions_Inr:
  "resume_actions seen as = Inr out \<longleftrightarrow>
     out = rev as @ seen \<and> set as \<subseteq> resume_action_set \<and> distinct as \<and> set as \<inter> set seen = {}"
  by (induction as arbitrary: seen) (auto simp: resume_actions_Cons simp del: resume_actions.simps(2))

lemma distinct_set_eq:
  assumes "distinct xs" "card A = n" "finite A"
  shows "length xs = n \<and> A \<subseteq> set xs \<longleftrightarrow> set xs = A"
proof
  assume "length xs = n \<and> A \<subseteq> set xs"
  then show "set xs = A" using assms by (metis List.finite_set card_subset_eq distinct_card)
next
  assume "set xs = A"
  then show "length xs = n \<and> A \<subseteq> set xs" using assms distinct_card by fastforce
qed

lemma distinct_set_small:
  assumes "distinct xs" "set xs \<subseteq> A" "finite A" "card A \<le> n"
  shows "length xs \<le> n"
  using assms by (metis card_mono distinct_card le_trans)

text \<open>The two tables, one line per decision, before any set reasoning.\<close>

lemma resume_decision_lines:
  "resume_decision RuntimeResumeContinueExecution t seen = None \<longleftrightarrow> t \<noteq> None \<and> length seen = 3 \<and>
     {RuntimeActionContinueExecution, RuntimeActionUploadEvents, RuntimeActionUploadResult} \<subseteq> set seen"
  "resume_decision RuntimeResumeUploadSpoolOnly t seen = None \<longleftrightarrow> t = None \<and> seen \<noteq> [] \<and>
     length seen \<le> 2 \<and> RuntimeActionContinueExecution \<notin> set seen \<and>
     RuntimeActionStopExecution \<notin> set seen \<and> RuntimeActionClearSpool \<notin> set seen"
  "resume_decision RuntimeResumeResultAcked t seen = None \<longleftrightarrow> t = None \<and> length seen = 1 \<and>
     {RuntimeActionClearSpool} \<subseteq> set seen"
  "resume_decision RuntimeResumeLeaseRevoked t seen = None \<longleftrightarrow> t = None \<and> length seen = 2 \<and>
     {RuntimeActionStopExecution, RuntimeActionClearSpool} \<subseteq> set seen"
  by (simp_all add: resume_decision_def not_less conj_ac)

lemma decision_actions_lines:
  "decision_actions RuntimeResumeContinueExecution A \<longleftrightarrow>
     A = {RuntimeActionContinueExecution, RuntimeActionUploadEvents, RuntimeActionUploadResult}"
  "decision_actions RuntimeResumeUploadSpoolOnly A \<longleftrightarrow>
     A \<noteq> {} \<and> A \<subseteq> {RuntimeActionUploadEvents, RuntimeActionUploadResult}"
  "decision_actions RuntimeResumeResultAcked A \<longleftrightarrow> A = {RuntimeActionClearSpool}"
  "decision_actions RuntimeResumeLeaseRevoked A \<longleftrightarrow> A = {RuntimeActionStopExecution, RuntimeActionClearSpool}"
  by (simp_all add: decision_actions_def)

lemma only_two_of_five:
  "distinct xs \<Longrightarrow> set xs \<subseteq> {a, b, c, s, k} \<Longrightarrow> a \<notin> {b, c} \<Longrightarrow> s \<notin> {b, c} \<Longrightarrow> k \<notin> {b, c} \<Longrightarrow>
     xs \<noteq> [] \<and> length xs \<le> 2 \<and> a \<notin> set xs \<and> s \<notin> set xs \<and> k \<notin> set xs \<longleftrightarrow>
     set xs \<noteq> {} \<and> set xs \<subseteq> {b, c}"
  using distinct_set_small[of xs "{b, c}" 2] card_insert_le_m1[of 2 "{c}" b] by auto

lemma sub_of_five: "A = {a, b, c} \<or> A \<subseteq> {b, c} \<or> A = {k} \<or> A = {s, k} \<Longrightarrow> A \<subseteq> {a, b, c, s, k}"
  by blast

definition resume_decision_set :: "string set" where
  "resume_decision_set =
     {RuntimeResumeContinueExecution, RuntimeResumeUploadSpoolOnly, RuntimeResumeResultAcked,
      RuntimeResumeLeaseRevoked}"

lemma decision_actionsD:
  assumes "decision_actions d A"
  shows "d \<in> resume_decision_set" "A \<subseteq> resume_action_set"
proof -
  show "d \<in> resume_decision_set"
    using assms unfolding decision_actions_def resume_decision_set_def
    by (elim disjE conjE) (simp_all only: insert_iff simp_thms)
  show "A \<subseteq> resume_action_set"
    using assms unfolding decision_actions_def resume_action_set_def
    by (intro sub_of_five) (elim disjE conjE, simp_all only: simp_thms)
qed

lemma decision_exact:
  assumes "distinct seen" "set seen \<subseteq> resume_action_set" "decision \<in> resume_decision_set"
  shows "resume_decision decision expiry seen = None \<longleftrightarrow>
    decision_actions decision (set seen) \<and>
    (expiry \<noteq> None \<longleftrightarrow> decision = RuntimeResumeContinueExecution)"
proof -
  note exact = distinct_set_eq[OF assms(1)]
  have upload: "seen \<noteq> [] \<and> length seen \<le> 2 \<and> RuntimeActionContinueExecution \<notin> set seen \<and>
      RuntimeActionStopExecution \<notin> set seen \<and> RuntimeActionClearSpool \<notin> set seen \<longleftrightarrow>
      set seen \<noteq> {} \<and> set seen \<subseteq> {RuntimeActionUploadEvents, RuntimeActionUploadResult}"
    by (rule only_two_of_five[OF assms(1) assms(2)[unfolded resume_action_set_def]]) simp_all
  consider "decision = RuntimeResumeContinueExecution" | "decision = RuntimeResumeUploadSpoolOnly"
    | "decision = RuntimeResumeResultAcked" | "decision = RuntimeResumeLeaseRevoked"
    using assms(3) unfolding resume_decision_set_def by (elim insertE emptyE)
  then show ?thesis
  proof cases
    case 1
    then show ?thesis
      using exact[of "{RuntimeActionContinueExecution, RuntimeActionUploadEvents, RuntimeActionUploadResult}" 3]
      by (simp add: resume_decision_lines decision_actions_lines conj_commute del: insert_subset)
  next
    case 2
    then show ?thesis using upload by (simp add: resume_decision_lines decision_actions_lines) argo
  next
    case 3
    then show ?thesis
      using exact[of "{RuntimeActionClearSpool}" 1]
      by (simp add: resume_decision_lines decision_actions_lines conj_commute del: insert_subset)
  next
    case 4
    then show ?thesis
      using exact[of "{RuntimeActionStopExecution, RuntimeActionClearSpool}" 2]
      by (simp add: resume_decision_lines decision_actions_lines conj_commute del: insert_subset)
  qed
qed

lemma validateResumeAccepted_unfold:
  "validateResumeAccepted v = None \<longleftrightarrow>
     valid_identity (rac_AttemptIdentity v) \<and> rac_Decision v \<in> resume_decision_set \<and>
     rac_LeaseExpiresAt v \<noteq> Some 0 \<and> distinct (rac_AllowedActions v) \<and>
     set (rac_AllowedActions v) \<subseteq> resume_action_set \<and>
     resume_decision (rac_Decision v) (rac_LeaseExpiresAt v) (rev (rac_AllowedActions v)) = None"
proof (cases "distinct (rac_AllowedActions v) \<and> set (rac_AllowedActions v) \<subseteq> resume_action_set")
  case True
  then have "resume_actions [] (rac_AllowedActions v) = Inr (rev (rac_AllowedActions v))"
    by (simp add: resume_actions_Inr)
  with True show ?thesis
    unfolding validateResumeAccepted_def resume_decision_set_def[symmetric]
    by (simp add: validateAttemptIdentity_None)
next
  case False
  then obtain e where "resume_actions [] (rac_AllowedActions v) = Inl e"
    using resume_actions_Inr[of "[]" "rac_AllowedActions v"]
    by (cases "resume_actions [] (rac_AllowedActions v)") auto
  with False show ?thesis
    unfolding validateResumeAccepted_def resume_decision_set_def[symmetric] by auto
qed

text \<open>
  A \<open>run.resume.accepted\<close> decision is valid exactly when the attempt identity is complete, its
  list of actions has no duplicates, and the actions and the lease expiry are those of the decision:
  only a continued execution has a lease expiry and all of execute/upload; a revoked or already
  acknowledged attempt never allows execution or upload.
\<close>

lemma resume_decision_grants_exact_actions:
  "ValidateRuntimePayload decs (PResumeAccepted v) = None \<longleftrightarrow>
     valid_identity (rac_AttemptIdentity v) \<and> distinct (rac_AllowedActions v) \<and>
     decision_actions (rac_Decision v) (set (rac_AllowedActions v)) \<and>
     rac_LeaseExpiresAt v \<noteq> Some 0 \<and>
     (rac_LeaseExpiresAt v \<noteq> None \<longleftrightarrow> rac_Decision v = RuntimeResumeContinueExecution)"
  using decision_exact[of "rev (rac_AllowedActions v)" "rac_Decision v" "rac_LeaseExpiresAt v"]
    decision_actionsD[of "rac_Decision v" "set (rac_AllowedActions v)"]
  by (simp add: ValidateRuntimePayload_def validateResumeAccepted_unfold) blast

lemma hello_features_None:
  "hello_features seen fs = None \<longleftrightarrow>
     list_all (\<lambda>f. validRequiredString f 100) fs \<and> distinct fs \<and> set fs \<inter> set seen = {}"
  by (induction seen fs rule: hello_features.induct) auto

lemma runtimeWireContractSupported_iff:
  "runtimeWireContractSupported d \<longleftrightarrow> d = RuntimeContractDigest \<or> d = runtimePreviousContractDigest"
  by (auto simp: runtimeWireContractSupported_def runtimeWireGenerationForDigest_def
      runtimeSupportedWireGenerations_def)

text \<open>
  A hello is accepted exactly when it names a complete identity, a capacity between 0 and
  1024, one of the two supported wire generations, and a duplicate-free feature list that contains
  all features this generation requires: the previous generation is excused from
  \<open>session_drain\<close> and from nothing else.
\<close>

lemma hello_accepted_iff:
  "ValidateRuntimePayload decs (PHello v) = None \<longleftrightarrow>
     hello_NodeID v \<noteq> uuid_Nil \<and> hello_AgentID v \<noteq> uuid_Nil \<and> hello_RuntimeSessionID v \<noteq> uuid_Nil \<and>
     validRequiredString (hello_WorkerID v) 200 \<and> validRequiredString (hello_NodeVersion v) 100 \<and>
     1 \<le> hello_SessionEpoch v \<and> 0 \<le> hello_Capacity v \<and> hello_Capacity v \<le> 1024 \<and>
     list_all (\<lambda>f. validRequiredString f 100) (hello_Features v) \<and> distinct (hello_Features v) \<and>
     (hello_ContractDigest v = RuntimeContractDigest \<and>
        set RuntimeRequiredFeatures \<subseteq> set (hello_Features v) \<or>
      hello_ContractDigest v = runtimePreviousContractDigest \<and>
        set RuntimeRequiredFeatures - {''session_drain''} \<subseteq> set (hello_Features v))"
proof -
  have "runtimePreviousContractDigest \<noteq> RuntimeContractDigest"
    by (simp add: runtimePreviousContractDigest_def RuntimeContractDigest_def)
  then show ?thesis
    unfolding ValidateRuntimePayload_def RuntimePayload.case validateRuntimeHello_def
    by (auto simp: runtimeWireContractSupported_iff runtimeRequiredFeaturesForDigest_def
        hello_features_None RuntimeMaximumNodeCapacity_def)
qed

section \<open>Replies\<close>

lemma ValidateRuntimeEnvelope_None:
  "ValidateRuntimeEnvelope e = None \<longleftrightarrow>
     env_ProtocolVersion e = RuntimeProtocolVersion \<and> env_RuntimeContractID e = RuntimeContractID \<and>
     env_MessageID e \<noteq> uuid_Nil \<and> env_ReplyToMessageID e \<notin> {Some uuid_Nil, Some (env_MessageID e)} \<and>
     env_SentAt e \<noteq> 0 \<and> knownRuntimeMessageType (env_Type e) \<and>
     (runtimeMessageRequiresReplyTo (env_Type e) \<longrightarrow> env_ReplyToMessageID e \<noteq> None) \<and>
     json_is_object (env_Payload e)"
proof -
  have "\<not> json_is_object []" by (simp add: json_is_object_def)
  then show ?thesis by (auto simp: ValidateRuntimeEnvelope_def)
qed

section \<open>Round trips and bounds\<close>

text \<open>
  The \<open>int32\<close> conversion of a validated Result is lossless: the finalizer sees the same
  duration, identity, status, output, failure and final sequence as the wire carried.
\<close>

lemma FinalizerRequest_lossless:
  assumes "FinalizerRequest p = Inr request"
  shows "sint (rq_DurationMS request) = res_DurationMS p \<and>
         rq_AttemptIdentity request = RuntimeIdentity (res_AttemptIdentity p) \<and>
         rq_ResultID request = res_ResultID p \<and> rq_Status request = res_Status p \<and>
         rq_Output request = res_Output p \<and>
         map_option rf_Message (rq_Error request) = map_option rer_Message (res_Error p) \<and>
         map_option rf_ErrorCode (rq_Error request) = map_option rer_ErrorCode (res_Error p) \<and>
         (res_Status p = ''success'' \<longleftrightarrow> rq_Output request \<noteq> None) \<and>
         (res_Status p = ''failed'' \<longleftrightarrow> rq_Error request \<noteq> None)"
proof -
  from assms have ok: "validateRunResult p = None"
    by (auto simp: FinalizerRequest_def split: option.splits)
  then have bounds: "0 \<le> res_DurationMS p" "res_DurationMS p < 2 ^ 31"
    by (auto simp: validateRunResult_def split: if_splits)
  then have dur: "sint (word_of_int (res_DurationMS p) :: 32 word) = res_DurationMS p"
    by (simp add: sint_sbintrunc' signed_take_bit_int_eq_self)
  have status: "res_Status p = ''success'' \<and> res_Output p \<noteq> None \<and> res_Error p = None \<or>
      res_Status p = ''failed'' \<and> res_Output p = None \<and> res_Error p \<noteq> None"
    using ok unfolding validateRunResult_def by (auto split: if_splits option.splits)
  show ?thesis
    using assms ok dur status
    by (auto simp: FinalizerRequest_def option.map_comp comp_def)
qed

text \<open>
  Control epochs never wrap: an accepted control transition raises the 64-bit epoch by exactly
  one, and an accepted input leaves it unchanged, so accepted epochs only grow.
\<close>

lemma viewer_epoch_advances:
  assumes "ValidateRuntimePayload decs (PViewerCommand c) = None"
  shows "if bvc_Action c = ''input'' then bvc_ControlEpoch c = bvc_PreviousControlEpoch c
         else unat (bvc_ControlEpoch c) = Suc (unat (bvc_PreviousControlEpoch c))"
proof -
  have accepted: "bvc_ControlEpoch c \<noteq> 0"
    "bvc_Action c = ''input'' \<Longrightarrow> bvc_ControlEpoch c = bvc_PreviousControlEpoch c"
    "bvc_Action c \<noteq> ''input'' \<Longrightarrow> bvc_ControlEpoch c = bvc_PreviousControlEpoch c + 1"
    using assms
    by (auto simp: ValidateRuntimePayload_def validateBrowserViewerCommand_def split: if_splits)
  then show ?thesis
    using unatSuc[of "bvc_PreviousControlEpoch c"] by (auto simp: add.commute)
qed

section \<open>Event types\<close>

fun split_dots :: "string \<Rightarrow> string list" where
  "split_dots [] = [[]]"
| "split_dots (c # cs) =
     (if c = CHR ''.'' then [] # split_dots cs
      else (c # hd (split_dots cs)) # tl (split_dots cs))"

definition valid_segment :: "string \<Rightarrow> bool" where
  "valid_segment seg \<longleftrightarrow> (case seg of [] \<Rightarrow> False | c # cs \<Rightarrow> lower_letter c \<and> list_all segment_char cs)"

lemma split_dots_nonempty [simp]: "split_dots s \<noteq> []"
  by (cases s) auto

lemma dot_no_letter: "\<not> lower_letter (CHR ''.'')" "\<not> segment_char (CHR ''.'')"
  by (simp_all add: lower_letter_def segment_char_def is_digit_def Let_def)

lemma event_type_match_segments:
  "(event_type_match d False cs \<longleftrightarrow>
      list_all valid_segment (split_dots cs) \<and> (d \<or> 2 \<le> length (split_dots cs))) \<and>
   (event_type_match d True cs \<longleftrightarrow>
      list_all segment_char (hd (split_dots cs)) \<and>
      list_all valid_segment (tl (split_dots cs)) \<and> (d \<or> 2 \<le> length (split_dots cs)))"
proof (induction cs arbitrary: d)
  case Nil
  then show ?case by (simp add: valid_segment_def)
next
  case (Cons c cs)
  obtain seg segs where sp: "split_dots cs = seg # segs" by (cases "split_dots cs") auto
  show ?case
    using Cons[of True] Cons[of d] by (auto simp: sp valid_segment_def dot_no_letter)
qed

lemmas event_type_match_split = event_type_match_segments[THEN conjunct1]

text \<open>
  C26: A worker event is accepted exactly when its identity is complete, it has an event ID, a
  positive sequence and a payload, its type has at least two dot-separated segments that each start
  with a lower-case letter and go on with letters, digits and underscores, and the type is none of
  the four lifecycle types that Core owns.
\<close>

theorem run_event_accepted_iff:
  "ValidateRuntimePayload decs (PRunEvent e) = None \<longleftrightarrow>
     valid_identity (evt_AttemptIdentity e) \<and> evt_ClientEventID e \<noteq> uuid_Nil \<and>
     1 \<le> evt_ClientEventSeq e \<and> evt_Payload e \<noteq> None \<and>
     2 \<le> length (split_dots (evt_EventType e)) \<and>
     list_all valid_segment (split_dots (evt_EventType e)) \<and>
     evt_EventType e \<notin> {''run.completed'', ''run.failed'', ''run.canceled'', ''run.stream.gap''}"
  unfolding ValidateRuntimePayload_def RuntimePayload.case validateRunEvent_def
    runtimeEventTypePattern_def event_type_match_split coreOwnedRuntimeEventTypes_def
  by (auto simp: validation_simps)

end
