(* ===== verification/Canonical_Laws.thy ===== *)
theory Canonical_Laws
  imports Canonical_Json "HOL-Library.FSet"
begin

text \<open>
  The laws of the canonical form. UTF-8 decoding and UTF-16 encoding lose nothing, so distinct keys of
  a map are strictly ordered and the iteration order of the map does not matter. \<open>meaning\<close> is the JSON
  document a Go value stands for, an object being the finite set of its members; two accepted values
  have the same canonical text exactly if they mean the same document. The proof goes through \<open>normal\<close>,
  which keeps the members of an object in the order of the canonical text. The integer test accepts
  exactly the integers with a 53-bit significand.
\<close>

section \<open>Exactly representable integers\<close>

lemma bit_length_le: "bit_length n \<le> k \<longleftrightarrow> n < 2 ^ k"
proof (induction n arbitrary: k rule: bit_length.induct)
  case (1 n)
  show ?case
  proof (cases "n = 0")
    case False
    then show ?thesis
    proof (cases k)
      case (Suc j)
      with False 1[OF False, of j] show ?thesis
        by (simp add: bit_length.simps[of n] div_less_iff_less_mult mult.commute)
    qed (simp add: bit_length.simps[of n])
  qed (simp add: bit_length.simps)
qed

lemma bit_length_bounds: "n \<noteq> 0 \<Longrightarrow> 2 ^ (bit_length n - 1) \<le> n \<and> n < 2 ^ bit_length n"
  using bit_length_le[of n "bit_length n"] bit_length_le[of n "bit_length n - 1"]
  by (auto simp: bit_length.simps[of n])

text \<open>A 53-bit significand times a power of two.\<close>

definition has_53_bits :: "int \<Rightarrow> bool" where
  "has_53_bits x \<longleftrightarrow> (\<exists>m e. \<bar>m\<bar> < 2 ^ 53 \<and> x = m * 2 ^ e)"

lemma low_bits_clear: "v AND (push_bit shift 1 - 1) = 0 \<longleftrightarrow> 2 ^ shift dvd unat (v :: 64 word)"
  if "shift < 64"
proof -
  have "(push_bit shift 1 - 1 :: 64 word) = mask shift"
    by (simp add: mask_eq_exp_minus_1 push_bit_eq_mult)
  then have "v AND (push_bit shift 1 - 1) = take_bit shift v"
    by (simp add: take_bit_eq_mask)
  moreover have "unat (take_bit shift v) = unat v mod 2 ^ shift"
    by (simp add: unsigned_take_bit_eq flip: take_bit_eq_mod)
  ultimately show ?thesis
    by (simp add: dvd_eq_mod_eq_0 flip: unat_0_iff)
qed

lemma significand_dvd:
  assumes "n = m * 2 ^ e" "m < 2 ^ 53" "2 ^ (s + 52) \<le> n"
  shows "2 ^ s dvd (n :: nat)"
proof -
  have "s \<le> e"
  proof (rule ccontr)
    assume "\<not> s \<le> e"
    then have "(2::nat) ^ (53 + e) \<le> 2 ^ (s + 52)" by (intro power_increasing) simp_all
    moreover have "m * 2 ^ e < 2 ^ 53 * 2 ^ e" using assms(2) by simp
    ultimately have "m * 2 ^ e < 2 ^ (s + 52)" by (simp only: power_add)
    with assms show False by linarith
  qed
  then show ?thesis using assms(1) by (simp add: le_imp_power_dvd)
qed

lemma unsigned_representable: "unsignedIntegerExactlyRepresentable v \<longleftrightarrow> has_53_bits (uint v)"
proof -
  let ?n = "unat v"
  have n64: "?n < 2 ^ 64" using unsigned_less[of v] by simp
  have nat_form: "has_53_bits (uint v) \<longleftrightarrow> (\<exists>m e. m < 2 ^ 53 \<and> ?n = m * 2 ^ e)"
  proof
    assume "has_53_bits (uint v)"
    then obtain m e where m: "\<bar>m\<bar> < 2 ^ 53" "uint v = m * 2 ^ e" by (auto simp: has_53_bits_def)
    then have "0 \<le> m" using uint_ge_0[of v] by (simp add: zero_le_mult_iff)
    then have "nat m < 2 ^ 53" "?n = nat m * 2 ^ e"
      using m by (simp_all add: nat_less_iff nat_mult_distrib nat_power_eq flip: nat_uint_eq)
    then show "\<exists>m e. m < 2 ^ 53 \<and> ?n = m * 2 ^ e" by blast
  next
    assume "\<exists>m e. m < 2 ^ 53 \<and> ?n = m * 2 ^ e"
    then obtain m e where "m < 2 ^ 53" "?n = m * 2 ^ e" by blast
    moreover have "uint v = int (unat v)" by simp
    ultimately have "\<bar>int m\<bar> < 2 ^ 53" "uint v = int m * 2 ^ e"
      by (simp_all del: of_nat_unat)
    then show "has_53_bits (uint v)" unfolding has_53_bits_def by blast
  qed
  show ?thesis
  proof (cases "Len64 v \<le> 53")
    case True
    then have "?n < 2 ^ 53" by (simp add: Len64_def bit_length_le)
    then have "has_53_bits (uint v)" unfolding nat_form by (intro exI[of _ ?n] exI[of _ 0]) simp
    with True show ?thesis by (simp add: unsignedIntegerExactlyRepresentable_def Let_def)
  next
    case False
    let ?s = "Len64 v - 53"
    have len: "Len64 v \<le> 64" using n64 by (simp add: Len64_def bit_length_le)
    have "?n \<noteq> 0" using False bit_length_le[of ?n 53] by (auto simp: Len64_def)
    from bit_length_bounds[OF this] have b: "2 ^ (Len64 v - 1) \<le> ?n" "?n < 2 ^ Len64 v"
      by (simp_all add: Len64_def)
    have "(2 ^ ?s dvd ?n) \<longleftrightarrow> (\<exists>m e. m < 2 ^ 53 \<and> ?n = m * 2 ^ e)"
    proof
      assume "2 ^ ?s dvd ?n"
      then obtain m where m: "?n = m * 2 ^ ?s" by (auto simp: dvd_def mult.commute)
      have "Len64 v = 53 + ?s" using False by simp
      then have "m * 2 ^ ?s < 2 ^ 53 * 2 ^ ?s" using b(2) m by (metis power_add)
      then have "m < 2 ^ 53" by simp
      with m show "\<exists>m e. m < 2 ^ 53 \<and> ?n = m * 2 ^ e" by blast
    next
      have "?s + 52 = Len64 v - 1" using False by simp
      moreover assume "\<exists>m e. m < 2 ^ 53 \<and> ?n = m * 2 ^ e"
      ultimately show "2 ^ ?s dvd ?n" using significand_dvd b(1) by metis
    qed
    with False len show ?thesis
      by (simp only: unsignedIntegerExactlyRepresentable_def Let_def if_False low_bits_clear nat_form)
  qed
qed

lemma has_53_bits_minus: "has_53_bits (- x) \<longleftrightarrow> has_53_bits x"
  unfolding has_53_bits_def by (metis abs_minus_cancel minus_minus mult_minus_left)

lemma uint_of_sint: "uint (v :: 64 word) = take_bit 64 (sint v)"
  using uint_word_of_int_eq[of "sint v", where ?'a = 64] by simp

lemma signed_representable: "signedIntegerExactlyRepresentable v \<longleftrightarrow> has_53_bits (sint v)"
proof (cases "0 \<le> sint v")
  case True
  then have "uint v = sint v"
    using sint_less[of v] by (simp add: uint_of_sint take_bit_int_eq_self)
  with True show ?thesis by (simp add: signedIntegerExactlyRepresentable_def unsigned_representable)
next
  case False
  have "uint (- v) = - sint v"
  proof -
    have "- sint v < 2 ^ 64" "0 \<le> - sint v"
      using False sint_ge[of v] by simp_all
    then have "take_bit 64 (- sint v) = - sint v" by (intro take_bit_int_eq_self) simp_all
    moreover have "- v = word_of_int (- sint v)" by simp
    ultimately show ?thesis by (simp only: uint_word_of_int_eq) simp
  qed
  moreover have "- (v + 1) + 1 = - v" by simp
  ultimately show ?thesis
    using False has_53_bits_minus[of "sint v"]
    by (simp add: signedIntegerExactlyRepresentable_def unsigned_representable)
qed

section \<open>UTF-8 and UTF-16 lose nothing\<close>

definition utf8_rune :: "nat \<Rightarrow> nat list" where
  "utf8_rune r =
     (if r < 128 then [r]
      else if r < 2048 then [192 + r div 64, 128 + r mod 64]
      else if r < 65536 then [224 + r div 4096, 128 + r div 64 mod 64, 128 + r mod 64]
      else [240 + r div 262144, 128 + r div 4096 mod 64, 128 + r div 64 mod 64, 128 + r mod 64])"

text \<open>A code point that is not a surrogate.\<close>

definition scalar_value :: "nat \<Rightarrow> bool" where
  "scalar_value r \<longleftrightarrow> r < 0xD800 \<or> 0xE000 \<le> r \<and> r < 0x110000"

lemma utf8_lead2_rune:
  assumes "utf8_lead2 a" "utf8_cont b"
  shows "utf8_rune ((a - 192) * 64 + (b - 128)) = [a, b]" "scalar_value ((a - 192) * 64 + (b - 128))"
proof -
  from assms obtain x y where "a = 192 + x" "b = 128 + y" "2 \<le> x" "x < 32" "y < 64"
    by (auto simp: utf8_lead2_def utf8_cont_def le_iff_add)
  then show "utf8_rune ((a - 192) * 64 + (b - 128)) = [a, b]" "scalar_value ((a - 192) * 64 + (b - 128))"
    by (auto simp: utf8_rune_def scalar_value_def)
qed

lemma digit_split: "y < m \<Longrightarrow> (x * m + y) div m = x" "y < m \<Longrightarrow> (x * m + y) mod m = (y :: nat)"
  by simp_all

lemma utf8_lead3_rune:
  assumes "utf8_lead3 a b" "utf8_cont c"
  shows "utf8_rune ((a - 224) * 4096 + (b - 128) * 64 + (c - 128)) = [a, b, c]"
    "scalar_value ((a - 224) * 4096 + (b - 128) * 64 + (c - 128))"
proof -
  from assms obtain x y z where v: "a = 224 + x" "b = 128 + y" "c = 128 + z" "x < 16" "y < 64" "z < 64"
    "x = 0 \<longrightarrow> 32 \<le> y" "x = 13 \<longrightarrow> y < 32"
    by (auto simp: utf8_lead3_def utf8_cont_def le_iff_add)
  let ?r = "x * 4096 + y * 64 + z"
  have "2048 \<le> ?r" using v(7) by (cases "x = 0") auto
  moreover have "?r < 65536" using v(4-6) by linarith
  moreover have "scalar_value ?r"
  proof (cases "x < 13")
    case True
    then show ?thesis using v(5,6) by (simp add: scalar_value_def)
  next
    case False
    then show ?thesis using v(4-6,8) by (cases "x = 13") (auto simp: scalar_value_def)
  qed
  moreover have "?r = x * 4096 + (y * 64 + z)" "?r = (x * 64 + y) * 64 + z" "y * 64 + z < 4096"
    using v(5,6) by simp_all
  then have "?r div 4096 = x" "?r div 64 mod 64 = y" "?r mod 64 = z"
    using v(5,6) by (metis digit_split)+
  ultimately show "utf8_rune ((a - 224) * 4096 + (b - 128) * 64 + (c - 128)) = [a, b, c]"
    "scalar_value ((a - 224) * 4096 + (b - 128) * 64 + (c - 128))"
    by (simp_all add: v(1-3) utf8_rune_def)
qed

lemma utf8_lead4_rune:
  assumes "utf8_lead4 a b" "utf8_cont c" "utf8_cont d"
  shows "utf8_rune ((a - 240) * 262144 + (b - 128) * 4096 + (c - 128) * 64 + (d - 128)) = [a, b, c, d]"
    "scalar_value ((a - 240) * 262144 + (b - 128) * 4096 + (c - 128) * 64 + (d - 128))"
proof -
  from assms obtain x y z w where v: "a = 240 + x" "b = 128 + y" "c = 128 + z" "d = 128 + w" "x \<le> 4" "y < 64"
    "z < 64" "w < 64" "x = 0 \<longrightarrow> 16 \<le> y" "x = 4 \<longrightarrow> y < 16"
    by (atomize_elim, intro exI[of _ "a - 240"] exI[of _ "b - 128"] exI[of _ "c - 128"] exI[of _ "d - 128"])
       (auto simp: utf8_lead4_def utf8_cont_def)
  let ?r = "x * 262144 + y * 4096 + z * 64 + w"
  have "65536 \<le> ?r" using v(9) by (cases "x = 0") auto
  moreover have "?r < 0x110000" using v(5-8,10) by (cases "x = 4") auto
  moreover have "?r = x * 262144 + (y * 4096 + z * 64 + w)" "?r = (x * 64 + y) * 4096 + (z * 64 + w)"
      "?r = ((x * 64 + y) * 64 + z) * 64 + w" "y * 4096 + z * 64 + w < 262144" "z * 64 + w < 4096"
    using v(6-8) by simp_all
  then have "?r div 262144 = x" "?r div 4096 mod 64 = y" "?r div 64 mod 64 = z" "?r mod 64 = w"
    using v(6-8) by (metis digit_split)+
  ultimately show "utf8_rune ((a - 240) * 262144 + (b - 128) * 4096 + (c - 128) * 64 + (d - 128)) = [a, b, c, d]"
    "scalar_value ((a - 240) * 262144 + (b - 128) * 4096 + (c - 128) * 64 + (d - 128))"
    by (simp_all add: v(1-4) utf8_rune_def scalar_value_def)
qed

lemma runes_ascii: "a < 128 \<Longrightarrow> runes (a # xs) = a # runes xs"
  by (subst runes.simps(2)) simp

lemma utf8_lead_ge: "utf8_lead2 a \<Longrightarrow> \<not> a < 128" "utf8_lead3 a b \<Longrightarrow> \<not> a < 128 \<and> \<not> utf8_lead2 a"
  "utf8_lead4 a b \<Longrightarrow> \<not> a < 128 \<and> \<not> utf8_lead2 a \<and> \<not> utf8_lead3 a b"
  by (auto simp: utf8_lead2_def utf8_lead3_def utf8_lead4_def)

lemma runes_encoded:
  "utf8_lead2 a \<Longrightarrow> utf8_cont b \<Longrightarrow> runes (a # b # xs) = ((a - 192) * 64 + (b - 128)) # runes xs"
  "utf8_lead3 a b \<Longrightarrow> utf8_cont c \<Longrightarrow>
     runes (a # b # c # xs) = ((a - 224) * 4096 + (b - 128) * 64 + (c - 128)) # runes xs"
  "utf8_lead4 a b \<Longrightarrow> utf8_cont c \<Longrightarrow> utf8_cont d \<Longrightarrow> runes (a # b # c # d # xs) =
     ((a - 240) * 262144 + (b - 128) * 4096 + (c - 128) * 64 + (d - 128)) # runes xs"
  by (subst runes.simps(2), simp add: utf8_lead_ge)+

lemma utf8_scan_bad: "(case utf8_scan xs of (n, _) \<Rightarrow> (Suc n, False)) = (Suc (fst (utf8_scan xs)), False)"
  by (cases "utf8_scan xs") simp

lemma utf8_scan_validE:
  assumes "snd (utf8_scan (a # xs))"
  obtains (one) "a < 128" "snd (utf8_scan xs)"
    | (two) b ys where "xs = b # ys" "utf8_lead2 a" "utf8_cont b" "snd (utf8_scan ys)"
    | (three) b c ys where "xs = b # c # ys" "utf8_lead3 a b" "utf8_cont c" "snd (utf8_scan ys)"
    | (four) b c d ys where "xs = b # c # d # ys" "utf8_lead4 a b" "utf8_cont c" "utf8_cont d" "snd (utf8_scan ys)"
  using assms by (subst (asm) utf8_scan.simps(2)) (auto simp: Let_def utf8_scan_bad split: if_splits list.splits)

lemma runes_valid: "snd (utf8_scan bs) \<Longrightarrow> concat (map utf8_rune (runes bs)) = bs \<and> list_all scalar_value (runes bs)"
proof (induction bs rule: length_induct)
  case (1 bs)
  show ?case
  proof (cases bs)
    case (Cons a xs)
    from "1.prems" have "snd (utf8_scan (a # xs))" by (simp add: Cons)
    then show ?thesis
    proof (cases rule: utf8_scan_validE)
      case one
      with "1.IH" show ?thesis by (simp add: Cons runes_ascii) (simp add: utf8_rune_def scalar_value_def)
    qed (use "1.IH" in \<open>simp_all add: Cons runes_encoded utf8_lead2_rune utf8_lead3_rune utf8_lead4_rune\<close>)
  qed simp
qed

fun utf16_decode :: "nat list \<Rightarrow> nat list" where
  "utf16_decode [] = []"
| "utf16_decode [u] = [u]"
| "utf16_decode (u # v # us) =
     (if 0xD800 \<le> u \<and> u < 0xDC00 then (0x10000 + (u - 0xD800) * 1024 + (v - 0xDC00)) # utf16_decode us
      else u # utf16_decode (v # us))"

lemma utf16_decode_rune: "scalar_value r \<Longrightarrow> utf16_decode (utf16_rune r @ us) = r # utf16_decode us"
  by (cases us) (auto simp: scalar_value_def utf16_rune_def)

lemma utf16_decode_units: "list_all scalar_value rs \<Longrightarrow> utf16_decode (concat (map utf16_rune rs)) = rs"
  by (induction rs) (simp_all add: utf16_decode_rune)

lemma utf16Units_inj: "ValidString s \<Longrightarrow> ValidString t \<Longrightarrow> utf16Units s = utf16Units t \<Longrightarrow> s = t"
proof -
  assume v: "ValidString s" "ValidString t" and eq: "utf16Units s = utf16Units t"
  have "runes (map of_char s) = runes (map of_char t)"
    using eq utf16_decode_units runes_valid v unfolding utf16Units_def ValidString_def by metis
  then have "map (of_char :: char \<Rightarrow> nat) s = map of_char t"
    using runes_valid v unfolding ValidString_def by metis
  moreover have "inj (of_char :: char \<Rightarrow> nat)" by (rule inj_of_char)
  ultimately show "s = t" by (simp add: inj_map_eq_map)
qed

section \<open>Member order\<close>

lemma compareUTF16_less: "compareUTF16 l r < 0 \<longleftrightarrow> l < r"
  by (induction l r rule: compareUTF16.induct) auto

lemma insert_member_insort: "insert_member m ms = insort_key (utf16Units \<circ> fst) m ms"
  by (induction ms) (auto simp: compareUTF16_less)

lemma sort_members_sort: "sort_members ms = sort_key (utf16Units \<circ> fst) ms"
  by (simp add: sort_members_def sort_key_def insert_member_insort[abs_def] fun_eq_iff)

lemma member_key_inj:
  assumes "distinct (map fst ms)" "list_all (\<lambda>m. ValidString (fst m)) ms"
  shows "inj_on (utf16Units \<circ> fst) (set ms)"
proof (rule comp_inj_on)
  show "inj_on fst (set ms)" using assms(1) by (simp add: distinct_map)
  show "inj_on utf16Units (fst ` set ms)" using assms(2) by (auto simp: inj_on_def list_all_iff dest: utf16Units_inj)
qed

lemma sort_members_perm:
  assumes "mset ms = mset ms'" "distinct (map fst ms)" "list_all (\<lambda>m. ValidString (fst m)) ms"
  shows "sort_members ms = sort_members ms'"
proof -
  from member_key_inj[OF assms(2,3)] show ?thesis
    using assms(1) unfolding sort_members_sort by (intro sort_key_inj_key_eq) simp_all
qed

lemma sort_members_map: "sort_members (map (\<lambda>m. (fst m, f (snd m))) ms) = map (\<lambda>m. (fst m, f (snd m))) (sort_members ms)"
proof -
  have "insert_member (fst m, f (snd m)) (map (\<lambda>m. (fst m, f (snd m))) xs) =
      map (\<lambda>m. (fst m, f (snd m))) (insert_member m xs)" for m xs
    by (induction xs) auto
  then show ?thesis by (induction ms) (simp_all add: sort_members_def)
qed

lemma mset_sort_members: "mset (sort_members ms) = mset ms" "set (sort_members ms) = set ms"
  by (simp_all add: sort_members_sort)

section \<open>Normal forms\<close>

datatype nvalue =
    NNull
  | NBool bool
  | NString string
  | NNumber rat
  | NArray "nvalue list"
  | NObject "(string \<times> nvalue) list"

definition finite_number :: "float64 \<Rightarrow> nvalue" where
  "finite_number f = (case f of FFin x \<Rightarrow> NNumber x | _ \<Rightarrow> NNull)"

fun normal :: "float_env \<Rightarrow> gvalue \<Rightarrow> nvalue" where
  "normal fl VNull = NNull"
| "normal fl (VBool b) = NBool b"
| "normal fl (VString s) = NString s"
| "normal fl (VInt n) = NNumber (of_int (sint n))"
| "normal fl (VUint n) = NNumber (of_int (uint n))"
| "normal fl (VFloat f) = finite_number f"
| "normal fl (VNumber raw) = (case fl_ParseFloat fl raw of Some f \<Rightarrow> finite_number f | None \<Rightarrow> NNull)"
| "normal fl (VArray vs) = NArray (map (normal fl) vs)"
| "normal fl (VObject ms) = NObject (sort_members (map (\<lambda>m. (fst m, normal fl (snd m))) ms))"

fun text_of :: "float_env \<Rightarrow> nvalue \<Rightarrow> string" where
  "text_of fl NNull = ''null''"
| "text_of fl (NBool b) = (if b then ''true'' else ''false'')"
| "text_of fl (NString s) = quoted s"
| "text_of fl (NNumber x) = canonical_number fl x"
| "text_of fl (NArray vs) = CHR ''['' # comma_list (map (text_of fl) vs) @ '']''"
| "text_of fl (NObject ms) =
     CHR ''{'' # comma_list (map (\<lambda>m. quoted (fst m) @ CHR '':'' # text_of fl (snd m)) ms) @ ''}''"

fun numbers :: "nvalue \<Rightarrow> rat set" where
  "numbers (NNumber x) = {x}"
| "numbers (NArray vs) = \<Union> (set (map numbers vs))"
| "numbers (NObject ms) = \<Union> (set (map (\<lambda>m. numbers (snd m)) ms))"
| "numbers _ = {}"

section \<open>Documents\<close>

datatype document =
    DNull
  | DBool bool
  | DString string
  | DNumber rat
  | DArray "document list"
  | DObject "(string \<times> document) fset"

definition float_document :: "float64 \<Rightarrow> document" where
  "float_document f = (case f of FFin x \<Rightarrow> DNumber x | _ \<Rightarrow> DNull)"

fun meaning :: "float_env \<Rightarrow> gvalue \<Rightarrow> document" where
  "meaning fl VNull = DNull"
| "meaning fl (VBool b) = DBool b"
| "meaning fl (VString s) = DString s"
| "meaning fl (VInt n) = DNumber (of_int (sint n))"
| "meaning fl (VUint n) = DNumber (of_int (uint n))"
| "meaning fl (VFloat f) = float_document f"
| "meaning fl (VNumber raw) = (case fl_ParseFloat fl raw of Some f \<Rightarrow> float_document f | None \<Rightarrow> DNull)"
| "meaning fl (VArray vs) = DArray (map (meaning fl) vs)"
| "meaning fl (VObject ms) = DObject (fset_of_list (map (\<lambda>m. (fst m, meaning fl (snd m))) ms))"

text \<open>A Go map has no key twice, so the entries a value lists for a map have distinct keys.\<close>

fun map_keys_ok :: "gvalue \<Rightarrow> bool" where
  "map_keys_ok (VArray vs) \<longleftrightarrow> list_all map_keys_ok vs"
| "map_keys_ok (VObject ms) \<longleftrightarrow> distinct (map fst ms) \<and> list_all (\<lambda>m. map_keys_ok (snd m)) ms"
| "map_keys_ok _ \<longleftrightarrow> True"

fun float_numbers :: "float64 \<Rightarrow> rat set" where
  "float_numbers (FFin x) = {x}"
| "float_numbers _ = {}"

fun value_numbers :: "float_env \<Rightarrow> gvalue \<Rightarrow> rat set" where
  "value_numbers fl (VInt n) = {of_int (sint n)}"
| "value_numbers fl (VUint n) = {of_int (uint n)}"
| "value_numbers fl (VFloat f) = float_numbers f"
| "value_numbers fl (VNumber raw) = (case fl_ParseFloat fl raw of Some f \<Rightarrow> float_numbers f | None \<Rightarrow> {})"
| "value_numbers fl (VArray vs) = \<Union> (set (map (value_numbers fl) vs))"
| "value_numbers fl (VObject ms) = \<Union> (set (map (\<lambda>m. value_numbers fl (snd m)) ms))"
| "value_numbers fl _ = {}"

fun document_of :: "nvalue \<Rightarrow> document" where
  "document_of NNull = DNull"
| "document_of (NBool b) = DBool b"
| "document_of (NString s) = DString s"
| "document_of (NNumber x) = DNumber x"
| "document_of (NArray vs) = DArray (map document_of vs)"
| "document_of (NObject ms) = DObject (fset_of_list (map (\<lambda>m. (fst m, document_of (snd m))) ms))"

fun key_ordered :: "nvalue \<Rightarrow> bool" where
  "key_ordered (NArray vs) \<longleftrightarrow> list_all key_ordered vs"
| "key_ordered (NObject ms) \<longleftrightarrow>
     sorted (map (utf16Units \<circ> fst) ms) \<and> distinct (map fst ms) \<and> list_all (\<lambda>m. ValidString (fst m)) ms \<and>
     list_all (\<lambda>m. key_ordered (snd m)) ms"
| "key_ordered _ \<longleftrightarrow> True"

lemma finite_number_document [simp]: "document_of (finite_number f) = float_document f"
  "numbers (finite_number f) = float_numbers f" "key_ordered (finite_number f)"
  by (cases f; simp add: finite_number_def float_document_def)+

lemma fset_of_list_eq_iff: "fset_of_list xs = fset_of_list ys \<longleftrightarrow> set xs = set ys"
  by (simp only: fset_inject[symmetric] fset_of_list.rep_eq)

lemma document_normal: "document_of (normal fl v) = meaning fl v"
proof (induction v)
  case (VObject ms)
  have "(\<lambda>m. (fst m, document_of (normal fl (snd m)))) ` set ms = (\<lambda>m. (fst m, meaning fl (snd m))) ` set ms"
    by (rule image_cong) (use VObject.IH in \<open>auto simp: snds.simps\<close>)
  then have eq: "set (map (\<lambda>m. (fst m, document_of (snd m))) (sort_members (map (\<lambda>m. (fst m, normal fl (snd m))) ms))) =
      set (map (\<lambda>m. (fst m, meaning fl (snd m))) ms)"
    by (simp add: mset_sort_members image_image)
  show ?case unfolding normal.simps document_of.simps meaning.simps by (rule arg_cong[OF fset_of_list_eq_iff[THEN iffD2, OF eq]])
qed (auto split: option.splits)

lemma numbers_normal: "numbers (normal fl v) = value_numbers fl v"
proof (induction v)
  case (VObject ms)
  then show ?case by (force simp: mset_sort_members)
qed (auto split: option.splits)

lemma key_ordered_unique:
  assumes "sorted (map k ms)" "sorted (map k ws)" "distinct ms" "distinct ws" "set ms = set ws" "inj_on k (set ms)"
  shows "ms = ws"
proof -
  have eq: "mset ms = mset ws" using assms(3-5) by (simp add: set_eq_iff_mset_eq_distinct)
  have "sort_key k ms = ms" "sort_key k ws = ws" using assms(1,2) by (simp_all add: sort_key_id_if_sorted)
  moreover have "sort_key k ms = sort_key k ws" by (rule sort_key_inj_key_eq) (simp_all add: eq assms(6))
  ultimately show ?thesis by metis
qed

lemma document_of_inj: "key_ordered n \<Longrightarrow> key_ordered m \<Longrightarrow> document_of n = document_of m \<Longrightarrow> n = m"
proof (induction n arbitrary: m)
  case (NArray vs)
  then obtain ws where m: "m = NArray ws" by (cases m) auto
  have "vs = ws"
  proof (rule nth_equalityI)
    have docs: "map document_of vs = map document_of ws" using NArray.prems(3) by (simp add: m)
    then show len: "length vs = length ws" by (rule map_eq_imp_length_eq)
    show "vs ! i = ws ! i" if i: "i < length vs" for i
    proof (rule NArray.IH)
      show "vs ! i \<in> set vs" "key_ordered (vs ! i)" "key_ordered (ws ! i)"
        using NArray.prems(1,2) i len by (simp_all add: m list_all_length)
      show "document_of (vs ! i) = document_of (ws ! i)" using docs i len by (metis nth_map)
    qed
  qed
  then show ?case by (simp add: m)
next
  case (NObject ms)
  then obtain ws where m: "m = NObject ws" by (cases m) auto
  let ?f = "\<lambda>m. (fst m, document_of (snd m))"
  have img: "?f ` set ms = ?f ` set ws"
    using arg_cong[OF NObject.prems(3)[unfolded m document_of.simps document.inject], of fset]
    by (simp only: fset_of_list.rep_eq set_map)
  have inj: "x = y" if "x \<in> set ms" "y \<in> set ws" "?f x = ?f y" for x y
  proof -
    have "key_ordered (snd x)" "key_ordered (snd y)" "snd x \<in> Basic_BNFs.snds x"
      using NObject.prems(1,2) that(1,2) by (simp_all add: m list_all_iff snds.simps)
    then have "snd x = snd y" using NObject.IH[OF that(1)] that(3) by blast
    then show ?thesis using that(3) by (simp add: prod_eq_iff)
  qed
  have "set ms = set ws"
  proof
    show "set ms \<subseteq> set ws"
    proof
      fix x assume x: "x \<in> set ms"
      then have "?f x \<in> ?f ` set ws" unfolding img[symmetric] by (rule imageI)
      then obtain y where "y \<in> set ws" "?f x = ?f y" by (metis (no_types, lifting) imageE)
      with inj[OF x] show "x \<in> set ws" by blast
    qed
    show "set ws \<subseteq> set ms"
    proof
      fix y assume y: "y \<in> set ws"
      then have "?f y \<in> ?f ` set ms" unfolding img by (rule imageI)
      then obtain x where "x \<in> set ms" "?f x = ?f y" by (metis (no_types, lifting) imageE)
      with inj[OF _ y] show "y \<in> set ms" by blast
    qed
  qed
  moreover have "inj_on (utf16Units \<circ> fst) (set ms)"
    using NObject.prems(1) by (intro member_key_inj) simp_all
  moreover have "distinct ms" "distinct ws" using NObject.prems(1,2) by (auto simp: m distinct_map)
  ultimately have "ms = ws"
    using NObject.prems(1,2) by (intro key_ordered_unique[where k = "utf16Units \<circ> fst"]) (simp_all add: m)
  then show ?case by (simp add: m)
qed (case_tac m; simp)+

lemma first_error_map_Inr: "first_error (map Inr as) = Inr as"
  by (induction as) simp_all

lemma first_error_Inr: "first_error rs = Inr as \<longleftrightarrow> rs = map Inr as"
  by (induction rs arbitrary: as) (auto simp: first_error_map_Inr split: sum.splits)

lemma member_text_Inr: "member_text m = Inr t \<longleftrightarrow> ValidString (fst m) \<and> (\<exists>u. snd m = Inr u \<and> t = quoted (fst m) @ CHR '':'' # u)"
  by (auto simp: member_text_def appendCanonicalJSONString_def split: sum.splits if_splits)

lemma map_Inr_texts:
  "map (\<lambda>m. member_text (fst m, canonical_json fl (snd m))) ms = map Inr ts \<Longrightarrow>
     (\<And>m u. m \<in> set ms \<Longrightarrow> canonical_json fl (snd m) = Inr u \<Longrightarrow> u = text_of fl (normal fl (snd m))) \<Longrightarrow>
     ts = map (\<lambda>m. quoted (fst m) @ CHR '':'' # text_of fl (normal fl (snd m))) ms"
  by (induction ms arbitrary: ts) (auto simp: member_text_Inr Cons_eq_map_conv)

lemma canonical_text: "canonical_json fl v = Inr s \<Longrightarrow> s = text_of fl (normal fl v)"
proof (induction v arbitrary: s)
  case (VArray vs)
  have "map (canonical_json fl) xs = map Inr ts \<Longrightarrow> set xs \<subseteq> set vs \<Longrightarrow> ts = map (text_of fl \<circ> normal fl) xs" for xs ts
    by (induction xs arbitrary: ts) (auto simp: Cons_eq_map_conv VArray.IH)
  with VArray.prems show ?case by (auto simp: map_sum_Inr first_error_Inr)
next
  case (VObject ms)
  let ?sorted = "sort_members ms"
  from VObject.prems obtain ts where
      ts: "map (\<lambda>m. member_text (fst m, canonical_json fl (snd m))) ?sorted = map Inr ts"
      "s = CHR ''{'' # comma_list ts @ ''}''"
    by (auto simp: map_sum_Inr first_error_Inr sort_members_map comp_def split: if_splits)
  have "ts = map (\<lambda>m. quoted (fst m) @ CHR '':'' # text_of fl (normal fl (snd m))) ?sorted"
    using ts(1) by (rule map_Inr_texts) (use VObject.IH in \<open>auto simp: mset_sort_members\<close>)
  then show ?case by (simp add: ts(2) sort_members_map comp_def)
qed (auto simp: appendCanonicalJSONString_def appendCanonicalFloat_def appendCanonicalJSONNumber_def finite_number_def
    split: if_splits float64.splits option.splits)

lemma first_error_all: "first_error rs = Inr as \<Longrightarrow> r \<in> set rs \<Longrightarrow> \<exists>a. r = Inr a"
  by (auto simp: first_error_Inr)

lemma normal_key_ordered: "canonical_json fl v = Inr s \<Longrightarrow> map_keys_ok v \<Longrightarrow> key_ordered (normal fl v)"
proof (induction v arbitrary: s)
  case (VArray vs)
  have "key_ordered (normal fl v)" if v: "v \<in> set vs" for v
  proof -
    from VArray.prems(1) v obtain u where "canonical_json fl v = Inr u"
      by (auto simp: map_sum_Inr dest!: first_error_all[of _ _ "canonical_json fl v"])
    with VArray.IH[OF v] VArray.prems(2) v show ?thesis by (auto simp: list_all_iff)
  qed
  then show ?case by (simp add: list_all_iff)
next
  case (VObject ms)
  have valid: "list_all (\<lambda>m. ValidString (fst m)) ms" using VObject.prems(1) by (auto split: if_splits)
  have "key_ordered (normal fl (snd m))" if m: "m \<in> set ms" for m
  proof -
    from VObject.prems(1) valid m obtain u where "member_text (fst m, canonical_json fl (snd m)) = Inr u"
      by (auto simp: map_sum_Inr mset_sort_members sort_members_map comp_def
          dest!: first_error_all[of _ _ "member_text (fst m, canonical_json fl (snd m))"])
    then obtain t where "canonical_json fl (snd m) = Inr t" by (auto simp: member_text_Inr)
    with VObject.IH[OF m] VObject.prems(2) m show ?thesis by (auto simp: list_all_iff snds.simps)
  qed
  moreover have "distinct (map fst (sort_members xs)) \<longleftrightarrow> distinct (map fst xs)" for xs :: "(string \<times> nvalue) list"
    by (rule mset_eq_imp_distinct_iff) (simp add: mset_sort_members)
  ultimately show ?case
    using valid VObject.prems(2) by (auto simp: list_all_iff mset_sort_members sort_members_sort comp_def)
qed (auto split: option.splits)

section \<open>The text determines the normal form\<close>

definition number_char :: "char \<Rightarrow> bool" where
  "number_char c \<longleftrightarrow> c \<in> set ''0123456789+-.e''"

text \<open>
  What \<open>strconv\<close> documents for the shortest formatting of the finite numbers that occur: the formats
  \<open>f\<close> and \<open>e\<close> can be parsed back, \<open>f\<close> writes digits with an optional sign and point, and \<open>e\<close> writes such a
  mantissa, the letter, a sign and at least two exponent digits.
\<close>

definition mantissa_char :: "char \<Rightarrow> bool" where
  "mantissa_char c \<longleftrightarrow> c \<in> set ''0123456789-.''"

definition decimal_digit :: "char \<Rightarrow> bool" where
  "decimal_digit c \<longleftrightarrow> c \<in> set ''0123456789''"

definition exponent_format :: "string \<Rightarrow> bool" where
  "exponent_format t \<longleftrightarrow>
     (\<exists>m sg ds. t = m @ CHR ''e'' # sg # ds \<and> list_all mantissa_char m \<and> sg \<in> {CHR ''+'', CHR ''-''} \<and>
        2 \<le> length ds \<and> list_all decimal_digit ds)"

definition number_format :: "float_env \<Rightarrow> rat set \<Rightarrow> bool" where
  "number_format fl X \<longleftrightarrow>
     fl_ParseFloat fl ''0'' = Some (FFin 0) \<and>
     (\<forall>x \<in> X - {0}.
        fl_ParseFloat fl (fl_AppendFloat fl (CHR ''f'') x) = Some (FFin x) \<and>
        fl_ParseFloat fl (fl_AppendFloat fl (CHR ''e'') x) = Some (FFin x) \<and>
        fl_AppendFloat fl (CHR ''f'') x \<noteq> [] \<and> list_all mantissa_char (fl_AppendFloat fl (CHR ''f'') x) \<and>
        exponent_format (fl_AppendFloat fl (CHR ''e'') x))"

text \<open>What follows for the texts of the canonical form, the shortened exponents included.\<close>

definition number_texts :: "float_env \<Rightarrow> rat set \<Rightarrow> bool" where
  "number_texts fl X \<longleftrightarrow>
     (\<forall>x \<in> X. canonical_number fl x \<noteq> [] \<and> list_all number_char (canonical_number fl x)) \<and>
     inj_on (canonical_number fl) X"

lemma mantissa_char_e [simp]: "\<not> mantissa_char (CHR ''e'')"
  by (simp add: mantissa_char_def)

lemma digits_no_e: "list_all decimal_digit ds \<Longrightarrow> CHR ''e'' \<notin> set ds"
  by (induction ds) (auto simp: decimal_digit_def)

lemma number_chars: "mantissa_char c \<Longrightarrow> number_char c" "decimal_digit c \<Longrightarrow> number_char c"
  by (auto simp: mantissa_char_def decimal_digit_def number_char_def)

lemma trim_exponent_format:
  assumes t: "t = m @ CHR ''e'' # sg # ds" and sg: "sg \<in> {CHR ''+'', CHR ''-''}" and ds: "2 \<le> length ds" "list_all decimal_digit ds"
  shows "trim_exponent t =
    (if sg = CHR ''-'' \<and> length ds = 2 \<and> hd ds = CHR ''0'' then m @ CHR ''e'' # sg # tl ds else t)"
proof (cases "length ds = 2")
  case True
  then obtain a b where "ds = [a, b]" by (auto simp: length_Suc_conv numeral_2_eq_2)
  then show ?thesis by (auto simp: trim_exponent_def t Let_def nth_append list_update_append)
next
  case False
  then have "3 \<le> length ds" using ds(1) by simp
  then obtain k where k: "length ds = 3 + k" using le_Suc_ex by blast
  have "t ! (length t - 4) = (sg # ds) ! k" by (simp add: t k nth_append)
  moreover have "(sg # ds) ! k \<in> set (sg # ds)" by (rule nth_mem) (simp add: k)
  moreover have "CHR ''e'' \<notin> set (sg # ds)" using sg digits_no_e[OF ds(2)] by auto
  ultimately have "t ! (length t - 4) \<noteq> CHR ''e''" by metis
  then show ?thesis using False by (simp add: trim_exponent_def Let_def)
qed

lemma mantissa_split:
  "list_all mantissa_char m \<Longrightarrow> list_all mantissa_char m' \<Longrightarrow> m @ CHR ''e'' # x = m' @ CHR ''e'' # x' \<Longrightarrow> m = m' \<and> x = x'"
  by (induction m arbitrary: m'; case_tac m') auto

lemma trim_exponent_text:
  assumes "exponent_format t"
  obtains m sg ds where "trim_exponent t = m @ CHR ''e'' # sg # ds" "list_all mantissa_char m"
    "sg \<in> {CHR ''+'', CHR ''-''}" "list_all decimal_digit ds"
    "t = m @ CHR ''e'' # sg # (if length ds = 1 then CHR ''0'' # ds else ds)"
proof -
  from assms obtain m sg ds where f: "t = m @ CHR ''e'' # sg # ds" "list_all mantissa_char m"
    "sg \<in> {CHR ''+'', CHR ''-''}" "2 \<le> length ds" "list_all decimal_digit ds" unfolding exponent_format_def by blast
  note trim = trim_exponent_format[OF f(1,3,4,5)]
  show thesis
  proof (cases "sg = CHR ''-'' \<and> length ds = 2 \<and> hd ds = CHR ''0''")
    case True
    then obtain b where "ds = [CHR ''0'', b]" by (auto simp: length_Suc_conv numeral_2_eq_2)
    with True f trim show thesis by (intro that[of m sg "[b]"]) simp_all
  next
    case False
    with f trim show thesis by (intro that[of m sg ds]) auto
  qed
qed

lemma trim_exponent_inj:
  assumes "exponent_format t" "exponent_format u" "trim_exponent t = trim_exponent u"
  shows "t = u"
proof -
  obtain m sg ds where t: "trim_exponent t = m @ CHR ''e'' # sg # ds" "list_all mantissa_char m"
    "t = m @ CHR ''e'' # sg # (if length ds = 1 then CHR ''0'' # ds else ds)" using trim_exponent_text[OF assms(1)] by metis
  obtain m' sg' ds' where u: "trim_exponent u = m' @ CHR ''e'' # sg' # ds'" "list_all mantissa_char m'"
    "u = m' @ CHR ''e'' # sg' # (if length ds' = 1 then CHR ''0'' # ds' else ds')" using trim_exponent_text[OF assms(2)] by metis
  have "m @ CHR ''e'' # sg # ds = m' @ CHR ''e'' # sg' # ds'" using assms(3) unfolding t(1) u(1) .
  from mantissa_split[OF t(2) u(2) this] have "m = m'" "sg = sg'" "ds = ds'" by simp_all
  with t(3) u(3) show ?thesis by metis
qed

lemma exponent_number_chars:
  assumes "exponent_format t"
  shows "trim_exponent t \<noteq> []" "list_all number_char (trim_exponent t)" "CHR ''e'' \<in> set (trim_exponent t)"
proof -
  obtain m sg ds where t: "trim_exponent t = m @ CHR ''e'' # sg # ds" "list_all mantissa_char m"
    "sg \<in> {CHR ''+'', CHR ''-''}" "list_all decimal_digit ds" using trim_exponent_text[OF assms] by metis
  have "list_all number_char m" "list_all number_char ds"
    using t(2,4) by (auto elim!: list.pred_mono_strong intro: number_chars)
  moreover have "number_char (CHR ''e'')" "number_char sg" using t(3) by (auto simp: number_char_def)
  ultimately show "trim_exponent t \<noteq> []" "list_all number_char (trim_exponent t)" "CHR ''e'' \<in> set (trim_exponent t)"
    by (simp_all add: t(1))
qed

definition exponent_range :: "rat \<Rightarrow> bool" where
  "exponent_range x \<longleftrightarrow> \<bar>x\<bar> < 1 / 10 ^ 6 \<or> 10 ^ 21 \<le> \<bar>x\<bar>"

lemma canonical_number_cases:
  "canonical_number fl x =
     (if x = 0 then ''0'' else if exponent_range x then trim_exponent (fl_AppendFloat fl (CHR ''e'') x)
      else fl_AppendFloat fl (CHR ''f'') x)"
  by (simp add: canonical_number_def exponent_range_def)

lemma canonical_number_texts:
  assumes "number_format fl X" "x \<in> X"
  shows "canonical_number fl x \<noteq> []" "list_all number_char (canonical_number fl x)"
    "CHR ''e'' \<in> set (canonical_number fl x) \<longleftrightarrow> x \<noteq> 0 \<and> exponent_range x"
proof -
  have zero: "number_char (CHR ''0'')" by (simp add: number_char_def)
  consider "x = 0" | "x \<noteq> 0" "exponent_range x" | "x \<noteq> 0" "\<not> exponent_range x" by blast
  then show "canonical_number fl x \<noteq> []" "list_all number_char (canonical_number fl x)"
    "CHR ''e'' \<in> set (canonical_number fl x) \<longleftrightarrow> x \<noteq> 0 \<and> exponent_range x"
  proof (atomize(full), cases)
    case 1
    with zero show "canonical_number fl x \<noteq> [] \<and> list_all number_char (canonical_number fl x) \<and>
      (CHR ''e'' \<in> set (canonical_number fl x)) = (x \<noteq> 0 \<and> exponent_range x)" by (simp add: canonical_number_cases)
  next
    case 2
    then have "exponent_format (fl_AppendFloat fl (CHR ''e'') x)" using assms by (simp add: number_format_def)
    from exponent_number_chars[OF this] 2 show "canonical_number fl x \<noteq> [] \<and> list_all number_char (canonical_number fl x) \<and>
      (CHR ''e'' \<in> set (canonical_number fl x)) = (x \<noteq> 0 \<and> exponent_range x)" by (simp add: canonical_number_cases)
  next
    case 3
    let ?t = "fl_AppendFloat fl (CHR ''f'') x"
    have "?t \<noteq> []" "list_all mantissa_char ?t" using assms 3 by (simp_all add: number_format_def)
    then have "list_all number_char ?t" "CHR ''e'' \<notin> set ?t"
      by (auto elim!: list.pred_mono_strong intro: number_chars simp: list_all_iff)
    with 3 \<open>?t \<noteq> []\<close> show "canonical_number fl x \<noteq> [] \<and> list_all number_char (canonical_number fl x) \<and>
      (CHR ''e'' \<in> set (canonical_number fl x)) = (x \<noteq> 0 \<and> exponent_range x)" by (simp add: canonical_number_cases)
  qed
qed

lemma canonical_number_inj:
  assumes f: "number_format fl X" and x: "x \<in> X" and y: "y \<in> X" and eq: "canonical_number fl x = canonical_number fl y"
  shows "x = y"
proof (cases "x \<noteq> 0 \<and> exponent_range x")
  case True
  then have "y \<noteq> 0 \<and> exponent_range y" using canonical_number_texts(3)[OF f x] canonical_number_texts(3)[OF f y] eq by metis
  with True eq have trim: "trim_exponent (fl_AppendFloat fl (CHR ''e'') x) = trim_exponent (fl_AppendFloat fl (CHR ''e'') y)"
    by (simp add: canonical_number_cases)
  have "fl_AppendFloat fl (CHR ''e'') x = fl_AppendFloat fl (CHR ''e'') y"
    by (rule trim_exponent_inj[OF _ _ trim]) (use f x y True \<open>y \<noteq> 0 \<and> _\<close> in \<open>simp_all add: number_format_def\<close>)
  moreover have "fl_ParseFloat fl (fl_AppendFloat fl (CHR ''e'') z) = Some (FFin z)" if "z \<in> X" "z \<noteq> 0" for z
    using f that by (simp add: number_format_def)
  ultimately show ?thesis using True \<open>y \<noteq> 0 \<and> _\<close> x y by (metis option.inject float64.inject)
next
  case False
  then have "\<not> (y \<noteq> 0 \<and> exponent_range y)" using canonical_number_texts(3)[OF f x] canonical_number_texts(3)[OF f y] eq by metis
  moreover have "fl_ParseFloat fl (canonical_number fl z) = Some (FFin z)" if "z \<in> X" "\<not> (z \<noteq> 0 \<and> exponent_range z)" for z
    using f that by (auto simp: number_format_def canonical_number_cases)
  ultimately show ?thesis using False x y eq by (metis option.inject float64.inject)
qed

lemma number_format_texts: "number_format fl X \<Longrightarrow> number_texts fl X"
  unfolding number_texts_def using canonical_number_texts canonical_number_inj by (meson inj_onI)

definition hex_value :: "char \<Rightarrow> nat" where
  "hex_value c = (let b = of_char c in if b < 58 then b - 48 else b - 87)"

lemma hex_value_char: "n < 16 \<Longrightarrow> hex_value (hex_char n) = n"
proof -
  assume "n < 16"
  then have "n \<in> set [0..<16]" by simp
  then show ?thesis by (auto simp: upt_rec hex_value_def hex_char_def)
qed

definition unescape_u :: "string \<Rightarrow> (char \<times> string) option" where
  "unescape_u s = (case s of _ # _ # h # l # x \<Rightarrow> Some (char_of (hex_value h * 16 + hex_value l), x) | _ \<Rightarrow> None)"

definition unescape :: "string \<Rightarrow> (char \<times> string) option" where
  "unescape s = (case s of
     c # x \<Rightarrow>
       if c = CHR 0x5C then
         (case x of
            e # y \<Rightarrow>
              if e = CHR ''b'' then Some (CHR 0x08, y) else if e = CHR ''t'' then Some (CHR 0x09, y)
              else if e = CHR ''n'' then Some (CHR 0x0A, y) else if e = CHR ''f'' then Some (CHR 0x0C, y)
              else if e = CHR ''r'' then Some (CHR 0x0D, y) else if e = CHR ''u'' then unescape_u y
              else Some (e, y)
          | [] \<Rightarrow> None)
       else Some (c, x)
   | [] \<Rightarrow> None)"

lemma special_bytes:
  "of_char c = (8::nat) \<longleftrightarrow> c = CHR 0x08" "of_char c = (9::nat) \<longleftrightarrow> c = CHR 0x09" "of_char c = (10::nat) \<longleftrightarrow> c = CHR 0x0A"
  "of_char c = (12::nat) \<longleftrightarrow> c = CHR 0x0C" "of_char c = (13::nat) \<longleftrightarrow> c = CHR 0x0D"
  "of_char c = (34::nat) \<longleftrightarrow> c = CHR 0x22" "of_char c = (92::nat) \<longleftrightarrow> c = CHR 0x5C"
  using of_char_eq_iff[of c "CHR 0x08", where ?'a = nat] of_char_eq_iff[of c "CHR 0x09", where ?'a = nat]
    of_char_eq_iff[of c "CHR 0x0A", where ?'a = nat] of_char_eq_iff[of c "CHR 0x0C", where ?'a = nat]
    of_char_eq_iff[of c "CHR 0x0D", where ?'a = nat] of_char_eq_iff[of c "CHR 0x22", where ?'a = nat]
    of_char_eq_iff[of c "CHR 0x5C", where ?'a = nat] by simp_all

lemma unescape_escape: "unescape (escape_byte c @ x) = Some (c, x)"
proof -
  let ?b = "of_char c :: nat"
  consider (special) "?b \<in> {8, 9, 10, 12, 13, 34, 92}" | (control) "?b \<notin> {8, 9, 10, 12, 13}" "?b < 32"
    | (plain) "?b \<noteq> 34" "?b \<noteq> 92" "32 \<le> ?b" by fastforce
  then show ?thesis
  proof cases
    case special
    then show ?thesis
      by (auto simp: escape_byte_def unescape_def special_bytes Let_def)
  next
    case control
    then have "hex_value (hex_char (?b div 16)) * 16 + hex_value (hex_char (?b mod 16)) = ?b"
      by (simp add: hex_value_char div_mult_mod_eq)
    with control show ?thesis
      by (simp add: escape_byte_def unescape_def unescape_u_def Let_def)
  next
    case plain
    then have "c \<noteq> CHR 0x5C" by auto
    with plain show ?thesis by (simp add: escape_byte_def unescape_def Let_def)
  qed
qed

lemma escape_not_quote: "\<exists>d t. escape_byte c = d # t \<and> d \<noteq> CHR 0x22"
  by (auto simp: escape_byte_def Let_def)

lemma escaped_prefix:
  "concat (map escape_byte s) @ CHR 0x22 # r = concat (map escape_byte t) @ CHR 0x22 # r' \<Longrightarrow> s = t \<and> r = r'"
proof (induction s arbitrary: t)
  case Nil
  then show ?case using escape_not_quote by (cases t) (auto, metis append_Cons list.inject)
next
  case (Cons c s)
  show ?case
  proof (cases t)
    case Nil
    with Cons.prems escape_not_quote[of c] show ?thesis by auto
  next
    case (Cons d u)
    have "unescape (escape_byte c @ (concat (map escape_byte s) @ CHR 0x22 # r)) =
        unescape (escape_byte d @ (concat (map escape_byte u) @ CHR 0x22 # r'))"
      using Cons.prems by (simp add: Cons)
    then have "c = d" "concat (map escape_byte s) @ CHR 0x22 # r = concat (map escape_byte u) @ CHR 0x22 # r'"
      by (simp_all add: unescape_escape)
    with Cons.IH show ?thesis by (simp add: Cons)
  qed
qed

text \<open>A text may be followed by anything that does not continue a number.\<close>

definition text_ends :: "string \<Rightarrow> bool" where
  "text_ends r \<longleftrightarrow> (case r of [] \<Rightarrow> True | c # _ \<Rightarrow> \<not> number_char c)"

lemma text_ends_simps [simp]: "text_ends []" "text_ends (c # r) \<longleftrightarrow> \<not> number_char c"
  by (simp_all add: text_ends_def)

lemma punctuation [simp]: "\<not> number_char (CHR '','')" "\<not> number_char (CHR '']'')" "\<not> number_char (CHR ''}'')"
  "\<not> number_char (CHR 0x22)" "\<not> number_char (CHR ''['')" "\<not> number_char (CHR ''{'')" "\<not> number_char (CHR ''n'')"
  "\<not> number_char (CHR ''t'')" "\<not> number_char (CHR ''f'')"
  by (simp_all add: number_char_def)

definition text_head :: "nvalue \<Rightarrow> char \<Rightarrow> bool" where
  "text_head n c \<longleftrightarrow>
     (case n of NNull \<Rightarrow> c = CHR ''n'' | NBool b \<Rightarrow> c = (if b then CHR ''t'' else CHR ''f'')
      | NString _ \<Rightarrow> c = CHR 0x22 | NNumber _ \<Rightarrow> number_char c | NArray _ \<Rightarrow> c = CHR ''['' | NObject _ \<Rightarrow> c = CHR ''{'')"

lemma text_of_head:
  assumes "number_texts fl X" "numbers n \<subseteq> X"
  shows "\<exists>c t. text_of fl n = c # t \<and> text_head n c"
proof (cases n)
  case (NNumber x)
  with assms show ?thesis
    by (cases "canonical_number fl x") (auto simp: number_texts_def text_head_def)
qed (auto simp: text_head_def quoted_def)

lemma text_head_delims: "text_head n c \<Longrightarrow> c \<noteq> CHR '','' \<and> c \<noteq> CHR '']'' \<and> c \<noteq> CHR ''}''"
  by (cases n) (auto simp: text_head_def split: if_splits)

lemma comma_list_Cons: "comma_list (t # ts) = t @ concat (map (Cons (CHR '','')) ts)"
  by (induction ts arbitrary: t) simp_all

lemma comma_tail_prefix:
  assumes "\<And>x y r r'. \<lbrakk> x \<in> set xs; y \<in> set ys; p x @ r = p y @ r'; text_ends r; text_ends r' \<rbrakk> \<Longrightarrow> x = y \<and> r = r'"
    and "q \<noteq> CHR '',''" "\<not> number_char q"
    and "concat (map (\<lambda>x. CHR '','' # p x) xs) @ q # r = concat (map (\<lambda>x. CHR '','' # p x) ys) @ q # r'"
  shows "xs = ys \<and> r = r'"
  using assms(1,4)
proof (induction xs arbitrary: ys)
  case Nil
  with assms(2) show ?case by (cases ys) auto
next
  case (Cons x xs)
  with assms(2) obtain y ys' where ys: "ys = y # ys'" by (cases ys) auto
  let ?rest = "\<lambda>zs r. concat (map (\<lambda>x. CHR '','' # p x) zs) @ q # r"
  have ends: "text_ends (?rest zs r)" for zs r using assms(3) by (cases zs) simp_all
  have "p x @ ?rest xs r = p y @ ?rest ys' r'" using Cons.prems(2) by (simp add: ys)
  with Cons.prems(1)[of x y] ends have "x = y" "?rest xs r = ?rest ys' r'" by (auto simp: ys)
  with Cons.IH[of ys'] Cons.prems(1) show ?case by (auto simp: ys)
qed

lemma comma_list_prefix:
  assumes pre: "\<And>x y r r'. \<lbrakk> x \<in> set xs; y \<in> set ys; p x @ r = p y @ r'; text_ends r; text_ends r' \<rbrakk> \<Longrightarrow> x = y \<and> r = r'"
    and head: "\<And>x. x \<in> set xs \<union> set ys \<Longrightarrow> \<exists>c t. p x = c # t \<and> c \<noteq> q"
    and q: "q \<noteq> CHR '',''" "\<not> number_char q"
    and eq: "comma_list (map p xs) @ q # r = comma_list (map p ys) @ q # r'"
  shows "xs = ys \<and> r = r'"
proof (cases xs)
  case Nil
  with eq show ?thesis
  proof (cases ys)
    case (Cons y ys')
    then show ?thesis using eq Nil head[of y] by (auto simp: comma_list_Cons)
  qed simp
next
  case (Cons x xs')
  with eq head[of x] obtain y ys' where ys: "ys = y # ys'" by (cases ys) (auto simp: comma_list_Cons)
  let ?rest = "\<lambda>zs r. concat (map (\<lambda>x. CHR '','' # p x) zs) @ q # r"
  have ends: "text_ends (?rest zs r)" for zs r using q(2) by (cases zs) simp_all
  have "p x @ ?rest xs' r = p y @ ?rest ys' r'" using eq by (simp add: Cons ys comma_list_Cons comp_def)
  with pre[of x y] ends have eqs: "x = y" "?rest xs' r = ?rest ys' r'" by (auto simp: Cons ys)
  have "xs' = ys' \<and> r = r'"
    by (rule comma_tail_prefix[OF _ q eqs(2)]) (use pre in \<open>auto simp: Cons ys\<close>)
  with eqs(1) show ?thesis by (simp add: Cons ys)
qed

lemma number_prefix:
  "list_all number_char a \<Longrightarrow> list_all number_char b \<Longrightarrow> text_ends r \<Longrightarrow> text_ends r' \<Longrightarrow> a @ r = b @ r' \<Longrightarrow> a = b \<and> r = r'"
  by (induction a arbitrary: b; case_tac b) auto

lemma text_prefix:
  assumes "number_texts fl X"
  shows "\<lbrakk> numbers n \<subseteq> X; numbers m \<subseteq> X; text_of fl n @ r = text_of fl m @ r'; text_ends r; text_ends r' \<rbrakk>
    \<Longrightarrow> n = m \<and> r = r'"
proof (induction n arbitrary: m r r')
  case (NArray vs)
  obtain ws where m: "m = NArray ws"
    using text_of_head[OF assms NArray.prems(2)] NArray.prems(3)
    by (cases m) (auto simp: text_head_def split: if_splits)
  have "vs = ws \<and> r = r'"
  proof (rule comma_list_prefix[where p = "text_of fl" and q = "CHR '']''"])
    show "comma_list (map (text_of fl) vs) @ CHR '']'' # r = comma_list (map (text_of fl) ws) @ CHR '']'' # r'"
      using NArray.prems(3) by (simp add: m)
    show "\<exists>c t. text_of fl x = c # t \<and> c \<noteq> CHR '']''" if "x \<in> set vs \<union> set ws" for x
      using text_of_head[OF assms, of x] that NArray.prems(1,2) by (force simp: m dest: text_head_delims)
    show "x = y \<and> u = u'" if "x \<in> set vs" "y \<in> set ws" "text_of fl x @ u = text_of fl y @ u'" "text_ends u" "text_ends u'"
      for x y u u'
      using NArray.IH[OF that(1) _ _ that(3-5)] that(1,2) NArray.prems(1,2) by (force simp: m)
  qed simp_all
  with m show ?case by simp
next
  case (NObject ms)
  obtain ws where m: "m = NObject ws"
    using text_of_head[OF assms NObject.prems(2)] NObject.prems(3)
    by (cases m) (auto simp: text_head_def split: if_splits)
  let ?p = "\<lambda>m. quoted (fst m) @ CHR '':'' # text_of fl (snd m)"
  have "ms = ws \<and> r = r'"
  proof (rule comma_list_prefix[where p = ?p and q = "CHR ''}''"])
    show "comma_list (map ?p ms) @ CHR ''}'' # r = comma_list (map ?p ws) @ CHR ''}'' # r'"
      using NObject.prems(3) by (simp add: m)
    show "\<exists>c t. ?p x = c # t \<and> c \<noteq> CHR ''}''" if "x \<in> set ms \<union> set ws" for x
      by (simp add: quoted_def)
    show "x = y \<and> u = u'" if "x \<in> set ms" "y \<in> set ws" "?p x @ u = ?p y @ u'" "text_ends u" "text_ends u'" for x y u u'
    proof -
      from that(3) have "fst x = fst y" "text_of fl (snd x) @ u = text_of fl (snd y) @ u'"
        using escaped_prefix[of "fst x" "CHR '':'' # text_of fl (snd x) @ u" "fst y" "CHR '':'' # text_of fl (snd y) @ u'"]
        by (simp_all add: quoted_def)
      moreover have "numbers (snd x) \<subseteq> X" using that(1) NObject.prems(1) by (simp add: UN_subset_iff)
      moreover have "numbers (snd y) \<subseteq> X" using that(2) NObject.prems(2) by (simp add: m UN_subset_iff)
      moreover have "snd x \<in> Basic_BNFs.snds x" by (simp add: snds.simps)
      ultimately have "snd x = snd y \<and> u = u'" "fst x = fst y"
        using NObject.IH[OF that(1)] that(4,5) by blast+
      then show ?thesis by (simp add: prod_eq_iff)
    qed
  qed simp_all
  with m show ?case by simp
next
  case (NString s)
  then obtain t where m: "m = NString t"
    using text_of_head[OF assms NString.prems(2)]
    by (cases m) (auto simp: text_head_def quoted_def split: if_splits)
  with NString.prems(3) escaped_prefix[of s r t r'] show ?case by (simp add: quoted_def)
next
  case (NNumber x)
  from text_of_head[OF assms NNumber.prems(1)] obtain c t where c: "canonical_number fl x = c # t" "number_char c"
    by (auto simp: text_head_def)
  then obtain y where m: "m = NNumber y"
    using text_of_head[OF assms NNumber.prems(2)] NNumber.prems(3)
    by (cases m) (auto simp: text_head_def split: if_splits)
  have "canonical_number fl x = canonical_number fl y \<and> r = r'"
    by (rule number_prefix) (use NNumber.prems assms in \<open>auto simp: m number_texts_def\<close>)
  with NNumber.prems(1,2) assms show ?case by (auto simp: m number_texts_def dest: inj_onD)
next
  case NNull
  then show ?case
    using text_of_head[OF assms NNull.prems(2)] by (cases m) (auto simp: text_head_def split: if_splits)
next
  case (NBool b)
  then show ?case
    using text_of_head[OF assms NBool.prems(2)] by (cases m) (auto simp: text_head_def split: if_splits)
qed

lemma CanonicalizeRFC8785_Inr: "CanonicalizeRFC8785 fl v = Inr s \<longleftrightarrow> canonical_json fl v = Inr s"
  by (auto simp: CanonicalizeRFC8785_def split: sum.splits)

section \<open>The laws\<close>

lemma same_text_same_document:
  assumes "CanonicalizeRFC8785 fl v = Inr s" "CanonicalizeRFC8785 fl w = Inr t" "map_keys_ok v" "map_keys_ok w"
    and "number_format fl (value_numbers fl v \<union> value_numbers fl w)"
  shows "s = t \<longleftrightarrow> meaning fl v = meaning fl w"
proof -
  have texts: "s = text_of fl (normal fl v)" "t = text_of fl (normal fl w)"
    using assms(1,2) by (simp_all add: CanonicalizeRFC8785_Inr canonical_text)
  have ordered: "key_ordered (normal fl v)" "key_ordered (normal fl w)"
    using assms(1-4) by (auto simp: CanonicalizeRFC8785_Inr intro: normal_key_ordered)
  have "s = t \<longleftrightarrow> normal fl v = normal fl w"
    using text_prefix[OF number_format_texts[OF assms(5)], of "normal fl v" "normal fl w" "[]" "[]"]
    by (auto simp: texts numbers_normal)
  also have "\<dots> \<longleftrightarrow> meaning fl v = meaning fl w"
    unfolding document_normal[symmetric] using document_of_inj[OF ordered] by metis
  finally show ?thesis .
qed

text \<open>
  C36: Canonicalisation identifies exactly the values that mean the same JSON document: two accepted
  values have the same canonical bytes if and only if they mean the same document, whose objects are
  finite sets of members without any order. So neither the iteration order of a map nor the Go type of
  a number shows in the bytes, and different documents never share them, whatever their strings contain.
\<close>

theorem canonical_bytes_identify_values:
  assumes "CanonicalizeRFC8785 fl v = Inr s" "CanonicalizeRFC8785 fl w = Inr t" "map_keys_ok v" "map_keys_ok w"
    and "number_format fl (value_numbers fl v \<union> value_numbers fl w)"
  shows "s = t \<longleftrightarrow> meaning fl v = meaning fl w"
  using assms by (rule same_text_same_document)

text \<open>A number formatter that writes 1 in both formats and parses what it wrote.\<close>

definition wit_floats :: float_env where
  "wit_floats = \<lparr>fl_ParseFloat = (\<lambda>raw. if raw = ''0'' then Some (FFin 0) else if raw = ''1'' \<or> raw = ''1e+00'' then Some (FFin 1) else None),
     fl_AppendFloat = (\<lambda>format _. if format = CHR ''e'' then ''1e+00'' else ''1'')\<rparr>"

lemma wit_floats_format: "number_format wit_floats {1}" "number_format wit_floats {}"
proof -
  have "exponent_format ''1e+00''"
    unfolding exponent_format_def
    by (intro exI[of _ "''1''"] exI[of _ "CHR ''+''"] exI[of _ "''00''"]) (simp add: mantissa_char_def decimal_digit_def)
  then show "number_format wit_floats {1}" "number_format wit_floats {}"
    by (simp_all add: number_format_def wit_floats_def mantissa_char_def)
qed

definition wit_object :: "(string \<times> gvalue) list" where
  "wit_object = [(''b'', VString [CHR 0x22]), (''a'', VFloat (FFin 1))]"

lemma wit_keys: "utf16Units ''a'' = [97]" "utf16Units ''b'' = [98]" "ValidString ''a''" "ValidString ''b''"
  "ValidString [CHR 0x22]"
  by (simp_all add: utf16Units_def runes_ascii utf16_rune_def ValidString_def)

lemma wit_object_text:
  assumes "ms = wit_object \<or> ms = rev wit_object"
  shows "CanonicalizeRFC8785 wit_floats (VObject ms) =
      Inr (''{'' @ quoted ''a'' @ '':1,'' @ quoted ''b'' @ '':'' @ quoted [CHR 0x22] @ ''}'')"
    "meaning wit_floats (VObject ms) = DObject {|(''a'', DNumber 1), (''b'', DString [CHR 0x22])|}"
  using assms
  by (auto simp: wit_object_def CanonicalizeRFC8785_def sort_members_def wit_keys member_text_def
      appendCanonicalJSONString_def appendCanonicalFloat_def canonical_number_def wit_floats_def float_document_def)

theorem canonical_bytes_identify_values_witness:
  "meaning wit_floats (VObject wit_object) = meaning wit_floats (VObject (rev wit_object))"
proof -
  have "map_keys_ok (VObject wit_object)" "map_keys_ok (VObject (rev wit_object))"
      "value_numbers wit_floats (VObject wit_object) \<union> value_numbers wit_floats (VObject (rev wit_object)) = {1}"
    by (auto simp: wit_object_def)
  then show ?thesis
    using canonical_bytes_identify_values[OF wit_object_text(1) wit_object_text(1), of wit_object "rev wit_object"]
      wit_floats_format(1) by simp
qed

text \<open>
  The canonical bytes, and the error if there is one, do not depend on the order in which a map is
  iterated: Go's map iteration order is random, so without this a retried request would not match its
  own fingerprint.
\<close>

lemma map_order_is_irrelevant:
  assumes "mset ms = mset ms'" "distinct (map fst ms)"
  shows "CanonicalizeRFC8785 fl (VObject ms) = CanonicalizeRFC8785 fl (VObject ms')"
proof (cases "list_all (\<lambda>m. ValidString (fst m)) ms")
  case True
  let ?f = "\<lambda>m. (fst m, canonical_json fl (snd m))"
  have "sort_members (map ?f ms) = sort_members (map ?f ms')"
    using assms True by (intro sort_members_perm) (simp_all add: list_all_iff comp_def)
  moreover have "list_all (\<lambda>m. ValidString (fst m)) ms'"
    using True mset_eq_setD[OF assms(1)] by (simp add: list_all_iff)
  ultimately show ?thesis using True by (simp add: CanonicalizeRFC8785_def)
next
  case False
  moreover have "\<not> list_all (\<lambda>m. ValidString (fst m)) ms'"
    using False mset_eq_setD[OF assms(1)] by (simp add: list_all_iff)
  ultimately show ?thesis by (simp add: CanonicalizeRFC8785_def)
qed

text \<open>
  An integer is canonicalised exactly when it is a 53-bit significand times a power of two, that is
  when a \<open>float64\<close> holds it without rounding; every other 64-bit integer is refused. The bit test of
  the code is equivalent to this definition for signed integers, the smallest \<open>int64\<close> included.
\<close>

lemma integers_accepted_iff_exact:
  "(\<exists>s. CanonicalizeRFC8785 fl (VInt n) = Inr s) \<longleftrightarrow> has_53_bits (sint n)"
  by (simp add: CanonicalizeRFC8785_Inr signed_representable appendCanonicalFloat_def)

text \<open>What a run creation request means, leaving out how it was transported.\<close>

definition same_delegation :: "float_env \<Rightarrow> RunFingerprintDelegation \<Rightarrow> RunFingerprintDelegation \<Rightarrow> bool" where
  "same_delegation fl x y \<longleftrightarrow>
     fd_Reason x = fd_Reason y \<and> fd_Mode x = fd_Mode y \<and> fd_Depth x = fd_Depth y \<and>
     meaning fl (VMap (fd_Options x)) = meaning fl (VMap (fd_Options y))"

definition same_a2a :: "float_env \<Rightarrow> RunFingerprintA2A \<Rightarrow> RunFingerprintA2A \<Rightarrow> bool" where
  "same_a2a fl x y \<longleftrightarrow>
     fa_MessageID x = fa_MessageID y \<and> fa_ProtocolContextID x = fa_ProtocolContextID y \<and>
     fa_ProtocolTaskID x = fa_ProtocolTaskID y \<and> fa_RootContextID x = fa_RootContextID y \<and>
     fa_ParentContextID x = fa_ParentContextID y \<and> fa_ParentTaskID x = fa_ParentTaskID y \<and>
     fa_ReferenceTaskIDs x = fa_ReferenceTaskIDs y \<and> fa_Source x = fa_Source y \<and>
     fa_Visibility x = fa_Visibility y \<and> fa_AcceptedOutputModes x = fa_AcceptedOutputModes y \<and>
     fa_Extensions x = fa_Extensions y \<and>
     meaning fl (VMap (fa_Options x)) = meaning fl (VMap (fa_Options y))"

definition metadata_entries :: "RunFingerprintInput \<Rightarrow> (string \<times> gvalue) list" where
  "metadata_entries a = (case fi_Metadata a of None \<Rightarrow> [] | Some ms \<Rightarrow> ms)"

definition same_run_request :: "float_env \<Rightarrow> RunFingerprintInput \<Rightarrow> RunFingerprintInput \<Rightarrow> bool" where
  "same_run_request fl a b \<longleftrightarrow>
     fi_Target a = fi_Target b \<and> fi_Source a = fi_Source b \<and> fi_ParentRunID a = fi_ParentRunID b \<and>
     fi_CallerAgentID a = fi_CallerAgentID b \<and> fi_Visibility a = fi_Visibility b \<and>
     meaning fl (VMap (fi_Input a)) = meaning fl (VMap (fi_Input b)) \<and>
     meaning fl (VObject (metadata_entries a)) = meaning fl (VObject (metadata_entries b)) \<and>
     meaning fl (fi_Callback a) = meaning fl (fi_Callback b) \<and>
     meaning fl (fi_Delivery a) = meaning fl (fi_Delivery b) \<and>
     meaning fl (fi_Options a) = meaning fl (fi_Options b) \<and>
     rel_option (same_delegation fl) (fi_Delegation a) (fi_Delegation b) \<and>
     rel_option (same_a2a fl) (fi_A2A a) (fi_A2A b)"

lemma object_fields:
  assumes "distinct (map fst ms)" "map fst ms = map fst ws"
  shows "meaning fl (VObject ms) = meaning fl (VObject ws) \<longleftrightarrow> list_all2 (\<lambda>x y. meaning fl (snd x) = meaning fl (snd y)) ms ws"
proof -
  let ?f = "\<lambda>m. (fst m, meaning fl (snd m))"
  have keys: "map fst (map ?f ms) = map fst ms" "map fst (map ?f ws) = map fst ws" by simp_all
  have "meaning fl (VObject ms) = meaning fl (VObject ws) \<longleftrightarrow> set (map ?f ms) = set (map ?f ws)"
    unfolding meaning.simps document.inject by (rule fset_of_list_eq_iff)
  also have "\<dots> \<longleftrightarrow> map ?f ms = map ?f ws"
  proof
    assume eq: "set (map ?f ms) = set (map ?f ws)"
    have len: "length ms = length ws" using assms(2) by (rule map_eq_imp_length_eq)
    show "map ?f ms = map ?f ws"
    proof (rule nth_equalityI)
      fix i assume "i < length (map ?f ms)"
      then have i: "i < length ms" by simp
      then have "?f (ms ! i) \<in> set (map ?f ws)" unfolding eq[symmetric] by simp
      then obtain j where j: "j < length ws" "?f (ms ! i) = ?f (ws ! j)" by (auto simp: in_set_conv_nth)
      then have "map fst ms ! i = map fst ms ! j" using i len unfolding assms(2) by (simp add: nth_map) (metis assms(2) fst_conv nth_map len)
      then have "i = j" using assms(1) i j(1) len by (simp only: nth_eq_iff_index_eq length_map)
      then show "map ?f ms ! i = map ?f ws ! i" using i j len by simp
    qed (simp add: len)
  qed simp
  also have "\<dots> \<longleftrightarrow> list_all2 (\<lambda>x y. meaning fl (snd x) = meaning fl (snd y)) ms ws"
    using assms(2) by (auto simp: list_eq_iff_nth_eq list_all2_conv_all_nth)
  finally show ?thesis .
qed

lemma meaning_VStrings: "meaning fl (VStrings x) = meaning fl (VStrings y) \<longleftrightarrow> x = y"
  by (cases x; cases y) (auto simp: VStrings_def inj_map_eq_map inj_def comp_def)

lemma meaning_depth: "meaning fl (VInt x) = meaning fl (VInt y) \<longleftrightarrow> x = y"
  unfolding meaning.simps document.inject of_int_eq_iff by (auto intro: signed_word_eqI)

lemma same_delegation_iff:
  "meaning fl (delegation_value x) = meaning fl (delegation_value y) \<longleftrightarrow> rel_option (same_delegation fl) x y"
  by (cases x; cases y)
    (auto simp: delegation_value_def object_fields same_delegation_def meaning_depth simp del: meaning.simps(4,9) | simp)+

lemma same_a2a_iff: "meaning fl (a2a_value x) = meaning fl (a2a_value y) \<longleftrightarrow> rel_option (same_a2a fl) x y"
  by (cases x; cases y) (auto simp: a2a_value_def object_fields same_a2a_def meaning_VStrings simp del: meaning.simps(9) | simp)+

lemma same_run_request_iff:
  "same_run_request fl a b \<longleftrightarrow> meaning fl (runFingerprintValue a) = meaning fl (runFingerprintValue b)"
  by (auto simp: runFingerprintValue_def object_fields same_run_request_def same_delegation_iff same_a2a_iff metadata_entries_def
      intro: RunFingerprintSource.equality RunFingerprintTarget.equality simp del: meaning.simps(9))

text \<open>
  C37: Two run creation requests have the same fingerprint exactly if they ask for the same thing: same
  target, source, lineage, visibility, delegation and A2A fields and the same input, metadata,
  callback, delivery and options documents. Request ids, trace ids, retry counts and the idempotency
  key play no part, so a retry of the same request matches and any other request does not. SHA-256 is
  assumed not to collide on the two canonical texts.
\<close>

theorem run_fingerprint_identifies_request:
  assumes "FingerprintRunCreation sha256 fl a = Inr h" "FingerprintRunCreation sha256 fl b = Inr k"
    and "map_keys_ok (runFingerprintValue a)" "map_keys_ok (runFingerprintValue b)"
    and "number_format fl (value_numbers fl (runFingerprintValue a) \<union> value_numbers fl (runFingerprintValue b))"
    and "inj_on sha256 {s. \<exists>c \<in> {a, b}. CanonicalizeRFC8785 fl (runFingerprintValue c) = Inr s}"
  shows "h = k \<longleftrightarrow> same_run_request fl a b"
proof -
  from assms(1,2) obtain s t where st: "CanonicalizeRFC8785 fl (runFingerprintValue a) = Inr s" "h = sha256 s"
      "CanonicalizeRFC8785 fl (runFingerprintValue b) = Inr t" "k = sha256 t"
    by (auto simp: FingerprintRunCreation_def split: sum.splits)
  have "h = k \<longleftrightarrow> s = t" using assms(6) st by (auto dest: inj_onD)
  also have "\<dots> \<longleftrightarrow> same_run_request fl a b"
    unfolding same_run_request_iff by (rule same_text_same_document[OF st(1,3) assms(3-5)])
  finally show ?thesis .
qed

definition wit_request :: "string \<Rightarrow> string \<Rightarrow> RunFingerprintInput" where
  "wit_request agent key =
     \<lparr>fi_Target = \<lparr>ft_AgentID = agent, ft_ReleaseID = []\<rparr>, fi_Input = Some [], fi_Metadata = None, fi_Callback = VNull,
      fi_Delivery = VNull, fi_Source = \<lparr>fs_Protocol = ''rest'', fs_Method = ''create-run''\<rparr>, fi_ParentRunID = [],
      fi_CallerAgentID = [], fi_Delegation = None, fi_A2A = None, fi_Visibility = [], fi_Options = VNull,
      fi_Transport = \<lparr>tr_RequestID = [], tr_TraceID = [], tr_TraceParent = [], tr_RetryCount = 0, tr_IdempotencyKey = key\<rparr>\<rparr>"

lemma wit_request_accepted:
  "agent = ''a'' \<or> agent = ''b'' \<Longrightarrow> \<exists>s. FingerprintRunCreation sha256 wit_floats (wit_request agent key) = Inr s"
  by (auto simp: FingerprintRunCreation_def wit_request_def runFingerprintValue_def CanonicalizeRFC8785_def sort_members_def
      member_text_def appendCanonicalJSONString_def VMap_def delegation_value_def a2a_value_def ValidString_def
      RunFingerprintSchemaV1_def utf16Units_def runes_ascii utf16_rune_def)

lemma wit_request_value:
  "map_keys_ok (runFingerprintValue (wit_request agent key))" "value_numbers fl (runFingerprintValue (wit_request agent key)) = {}"
  by (simp_all add: wit_request_def runFingerprintValue_def VMap_def delegation_value_def a2a_value_def)

theorem run_fingerprint_identifies_request_witness:
  "\<exists>h k l. FingerprintRunCreation id wit_floats (wit_request ''a'' ''k1'') = Inr h \<and>
     FingerprintRunCreation id wit_floats (wit_request ''b'' ''k1'') = Inr k \<and>
     FingerprintRunCreation id wit_floats (wit_request ''a'' ''k2'') = Inr l \<and> h \<noteq> k \<and> h = l"
proof -
  obtain h k l where
      h: "FingerprintRunCreation id wit_floats (wit_request ''a'' ''k1'') = Inr h"
    and k: "FingerprintRunCreation id wit_floats (wit_request ''b'' ''k1'') = Inr k"
    and l: "FingerprintRunCreation id wit_floats (wit_request ''a'' ''k2'') = Inr l" using wit_request_accepted by metis
  have format: "number_format wit_floats (value_numbers wit_floats (runFingerprintValue (wit_request x y)) \<union>
      value_numbers wit_floats (runFingerprintValue (wit_request x' y')))" for x y x' y'
    using wit_floats_format(2) by (simp add: wit_request_value)
  note law = run_fingerprint_identifies_request[OF _ _ wit_request_value(1) wit_request_value(1) format inj_on_id]
  have "h \<noteq> k" using law[OF h k] by (simp add: same_run_request_def wit_request_def)
  moreover have "h = l" using law[OF h l] by (simp add: same_run_request_def wit_request_def metadata_entries_def)
  ultimately show ?thesis using h k l by blast
qed

end
