(* ===== verification/Runtime_Store.thy ===== *)
theory Runtime_Store
  imports Wire_Errors
begin

text \<open>
  The PostgreSQL tables the Runtime works on, with the row types of \<open>pkg/db/generated/models.go\<close>,
  and the queries of the lease service (\<open>pkg/db/generated/runtime_leases.sql.go\<close>,
  \<open>runtime_nodes.sql.go\<close>, \<open>runtime_signals.sql.go\<close>). The queries of the event store and of the
  Result finalizer stand in their own theories. Columns that no modelled statement reads or writes
  are left out.

  A table is the list of its rows. A query is a function of its parameters, of the clock reading
  \<open>clock_timestamp()\<close> of that statement, and of the database; \<open>None\<close> stands for \<open>pgx.ErrNoRows\<close>.
  Transactions are serialised: the row locks the queries take order the transactions that touch
  the same rows, so \<open>FOR UPDATE\<close> and \<open>SKIP LOCKED\<close> do not appear.
\<close>

section \<open>Rows\<close>

record RunRow =
  r_ID :: uuid
  r_UserID :: uuid
  r_AgentID :: uuid
  r_Input :: bytes
  r_Status :: string
  r_StartedAt :: gotime
  r_RuntimeContractID :: string
  r_RequestMetadata :: jmap
  r_ConnectionModeSnapshot :: "string option"
  r_DispatchState :: string
  r_OfferCount :: int
  r_MaxOfferCount :: int
  r_AttemptCount :: int
  r_MaxAttempts :: int
  r_NextAttemptAt :: "gotime option"
  r_DispatchDeadlineAt :: "gotime option"
  r_RunDeadlineAt :: "gotime option"
  r_LatestAttemptID :: "uuid option"
  r_ActiveAttemptID :: "uuid option"
  r_LeaseID :: "uuid option"
  r_FencingToken :: int
  r_ExecutorType :: "string option"
  r_ActiveCoreInstanceID :: "uuid option"
  r_RuntimeNodeID :: "uuid option"
  r_RuntimeWorkerID :: "string option"
  r_RuntimeSessionID :: "uuid option"
  r_LeaseTokenID :: "uuid option"
  r_LeaseOfferedAt :: "gotime option"
  r_LeaseAcceptedAt :: "gotime option"
  r_LeaseExpiresAt :: "gotime option"
  r_AttemptDeadlineAt :: "gotime option"
  r_CancelRequestID :: "uuid option"
  r_TerminalEventID :: "uuid option"
  r_EndpointIdempotencySnapshot :: "bool option"
  r_Output :: "bytes option"
  r_ErrorCode :: "string option"
  r_ErrorMessage :: "string option"
  r_DurationMs :: "int option"
  r_FinishedAt :: "gotime option"
  r_ResultID :: "uuid option"
  r_ResultFingerprint :: "bytes option"
  r_DeadLetteredAt :: "gotime option"
  r_CreatorRevenueCents :: int
  r_CancelState :: "string option"
  r_CancelRequestedAt :: "gotime option"
  r_CancelAcknowledgedAt :: "gotime option"
  r_CancelReason :: "string option"

record AttemptRow =
  a_ID :: uuid
  a_RunID :: uuid
  a_AgentID :: uuid
  a_OfferNo :: int
  a_AttemptNo :: "int option"
  a_ExecutorType :: string
  a_LeaseID :: uuid
  a_FencingToken :: int
  a_RuntimeTokenID :: "uuid option"
  a_RuntimeWorkerID :: "string option"
  a_RuntimeSessionID :: "uuid option"
  a_NodeID :: "uuid option"
  a_OfferedByCoreInstanceID :: uuid
  a_AttachedCoreInstanceID :: uuid
  a_OfferedAt :: gotime
  a_OfferExpiresAt :: gotime
  a_AcceptedAt :: "gotime option"
  a_LastRenewedAt :: "gotime option"
  a_LeaseExpiresAt :: gotime
  a_AttemptDeadlineAt :: gotime
  a_FinishedAt :: "gotime option"
  a_Outcome :: "string option"
  a_ErrorCode :: "string option"
  a_SlotAcquiredAt :: "gotime option"
  a_SlotReleasedAt :: "gotime option"
  a_ActiveRuntimeSessionID :: "uuid option"
  a_RuntimeAttachmentID :: "uuid option"
  a_ResultID :: "uuid option"
  a_ResultFingerprint :: "bytes option"
  a_ResultClassification :: "string option"
  a_ResultAcknowledgedAt :: "gotime option"
  a_LastClientEventSeq :: int
  a_FinalClientEventSeq :: "int option"
  a_ErrorDetailRedacted :: "string option"

record SessionRow =
  s_ID :: uuid
  s_NodeID :: uuid
  s_AgentID :: uuid
  s_CredentialID :: uuid
  s_WorkerID :: string
  s_SessionEpoch :: int
  s_DeviceCertificateSerial :: string
  s_ProtocolVersion :: int
  s_RuntimeContractID :: string
  s_RuntimeContractDigest :: string
  s_Features :: "string list"
  s_Capacity :: int
  s_Inflight :: int
  s_Status :: string
  s_AttachedCoreInstanceID :: "uuid option"
  s_HeartbeatAt :: gotime
  s_UpdatedAt :: gotime

record NodeRow =
  n_ID :: uuid
  n_DeviceCertificateSerial :: string
  n_DevicePublicKeyThumbprint :: string
  n_ProtocolVersion :: int
  n_RuntimeContractID :: string
  n_RuntimeContractDigest :: string
  n_Capacity :: int
  n_Inflight :: int
  n_Status :: string
  n_LastSeenAt :: "gotime option"
  n_RevokedAt :: "gotime option"
  n_UpdatedAt :: gotime

record TokenRow =
  t_ID :: uuid
  t_AgentID :: "uuid option"
  t_Status :: string
  t_Scopes :: "string list"
  t_ExpiresAt :: "gotime option"
  t_RevokedAt :: "gotime option"

record AttachmentRow =
  at_ID :: uuid
  at_RuntimeSessionID :: uuid
  at_CoreInstanceID :: uuid
  at_DetachedAt :: "gotime option"
  at_Transport :: string
  at_TransportReason :: "string option"

record SignalRow =
  sg_EventType :: string
  sg_AgentID :: uuid
  sg_RunID :: "uuid option"
  sg_Payload :: bytes
  sg_AvailableAt :: gotime

record AgentRow =
  ag_ID :: uuid
  ag_CreatorID :: uuid
  ag_Visibility :: string
  ag_WebhookURL :: "string option"
  ag_TotalCalls :: int
  ag_TotalRevenueCents :: int

text \<open>One bound skill package of a run with the JSON bundle and the providers of its version.\<close>

record SkillSnapshotRow =
  sk_RunID :: uuid
  sk_PackageID :: uuid
  sk_Bundle :: json
  sk_Providers :: "string list"
  sk_BindingID :: uuid
  sk_VersionID :: uuid
  sk_Digest :: string
  sk_CreatedAt :: gotime

record McpSnapshotRow =
  mc_RunID :: uuid
  mc_TargetAgentID :: uuid
  mc_Tool :: json
  mc_AgentID :: uuid
  mc_BindingID :: uuid
  mc_Digest :: string

record SkillBindingRow =
  sb_AgentID :: uuid
  sb_BindingID :: uuid
  sb_Status :: string
  sb_ErrorCode :: string
  sb_LastRunID :: "uuid option"
  sb_LoadedAt :: "gotime option"

record McpBindingRow =
  mb_AgentID :: uuid
  mb_BindingID :: uuid
  mb_Digest :: string
  mb_Status :: string
  mb_LastRunID :: "uuid option"

record EventRow =
  ev_ID :: uuid
  ev_RunID :: uuid
  ev_ParentRunID :: "uuid option"
  ev_Sequence :: int
  ev_EventType :: string
  ev_Payload :: bytes
  ev_CreatedAt :: gotime
  ev_ClientEventID :: "uuid option"
  ev_ClientEventSeq :: "int option"
  ev_PayloadFingerprint :: "bytes option"
  ev_AttemptID :: "uuid option"
  ev_AttemptNo :: "int option"
  ev_FencingToken :: "int option"

record GrantRow =
  g_ID :: uuid
  g_RunID :: uuid
  g_AttemptID :: uuid
  g_LeaseID :: uuid
  g_FencingToken :: int
  g_AgentID :: uuid
  g_NodeID :: uuid
  g_WorkerID :: string
  g_SourceSessionID :: uuid
  g_SourceCredentialID :: uuid
  g_TargetSessionID :: uuid
  g_TargetCredentialID :: uuid
  g_Permission :: string
  g_ExpiresAt :: gotime
  g_FirstUsedAt :: "gotime option"
  g_RevokedAt :: "gotime option"
  g_RevokedByType :: "string option"
  g_RevokeReason :: "string option"

record DelegationRow =
  dl_ChildRunID :: uuid
  dl_ParentRunID :: uuid

record DeadLetterRow =
  dq_RunID :: uuid
  dq_FinalAttemptNo :: int
  dq_ReasonCode :: string
  dq_ReasonRedacted :: "string option"

record LedgerRow =
  ld_RunID :: uuid
  ld_TerminalEventID :: uuid
  ld_AgentID :: uuid
  ld_SuccessDelta :: int
  ld_RevenueDeltaCents :: int

record EffectRow =
  ef_ID :: uuid
  ef_RunID :: uuid
  ef_TerminalEventID :: uuid
  ef_EffectType :: string
  ef_TargetKey :: string
  ef_Metadata :: bytes
  ef_AvailableAt :: gotime
  ef_MaxAttempts :: int

record AvailabilityRow =
  av_AgentID :: uuid
  av_Status :: string
  av_LastSuccessfulRunAt :: "gotime option"
  av_LastFailedRunAt :: "gotime option"
  av_LastCheckedAt :: gotime
  av_ConsecutiveFailures :: int

record DeliveryTargetRow =
  dt_ID :: uuid
  dt_UserID :: uuid
  dt_Config :: bytes
  dt_IsDefault :: bool

record CallbackRow =
  cb_ID :: uuid
  cb_RunID :: uuid
  cb_EventTypes :: "string list"
  cb_Status :: string
  cb_CreatedAt :: gotime

record ArtifactRow =
  ar_RunID :: uuid
  ar_ArtifactType :: string
  ar_Title :: string
  ar_Content :: bytes
  ar_Visibility :: string
  ar_SourceArtifactID :: "string option"
  ar_MimeType :: "string option"
  ar_FileUri :: "string option"
  ar_FileName :: "string option"
  ar_FileSha256 :: "string option"
  ar_FileSizeBytes :: "int option"

record TaskRow =
  tk_ID :: uuid
  tk_UserID :: uuid
  tk_ChosenAgentID :: "uuid option"
  tk_CompletedAt :: "gotime option"
  tk_CompletionRunID :: "uuid option"
  tk_CompletionSummary :: "string option"

record EvidenceRow =
  ed_RunID :: uuid
  ed_TaskID :: uuid
  ed_UserID :: uuid
  ed_AgentID :: uuid

record WireContractRow =
  wc_ID :: string
  wc_Digest :: string
  wc_SupportTier :: string

record CancellationRow =
  cx_ID :: uuid
  cx_RunID :: uuid
  cx_TargetAttemptID :: "uuid option"
  cx_State :: string
  cx_RequestedByType :: string
  cx_RequestedByID :: uuid
  cx_Reason :: "string option"
  cx_RequestedAt :: gotime
  cx_DeliveredAt :: "gotime option"
  cx_StoppingAt :: "gotime option"
  cx_StoppedAt :: "gotime option"
  cx_AcknowledgedAt :: "gotime option"
  cx_ErrorCode :: "string option"
  cx_UpdatedAt :: gotime

record runtime_db =
  db_cluster_mode :: "string option"
  db_wire_contracts :: "WireContractRow list"
  db_agents :: "AgentRow list"
  db_sessions :: "SessionRow list"
  db_nodes :: "NodeRow list"
  db_tokens :: "TokenRow list"
  db_attachments :: "AttachmentRow list"
  db_runs :: "RunRow list"
  db_attempts :: "AttemptRow list"
  db_signals :: "SignalRow list"
  db_skills :: "SkillSnapshotRow list"
  db_mcps :: "McpSnapshotRow list"
  db_skill_bindings :: "SkillBindingRow list"
  db_mcp_bindings :: "McpBindingRow list"
  db_events :: "EventRow list"
  db_grants :: "GrantRow list"
  db_delegations :: "DelegationRow list"
  db_dead_letters :: "DeadLetterRow list"
  db_ledger :: "LedgerRow list"
  db_effects :: "EffectRow list"
  db_availability :: "AvailabilityRow list"
  db_delivery_targets :: "DeliveryTargetRow list"
  db_callbacks :: "CallbackRow list"
  db_artifacts :: "ArtifactRow list"
  db_tasks :: "TaskRow list"
  db_evidence :: "EvidenceRow list"
  db_cancellations :: "CancellationRow list"

section \<open>Shared conditions\<close>

abbreviation find_session :: "uuid \<Rightarrow> runtime_db \<Rightarrow> SessionRow option" where
  "find_session k d \<equiv> find_row s_ID k (db_sessions d)"

abbreviation find_node :: "uuid \<Rightarrow> runtime_db \<Rightarrow> NodeRow option" where
  "find_node k d \<equiv> find_row n_ID k (db_nodes d)"

abbreviation find_token :: "uuid \<Rightarrow> runtime_db \<Rightarrow> TokenRow option" where
  "find_token k d \<equiv> find_row t_ID k (db_tokens d)"

abbreviation find_attachment :: "uuid \<Rightarrow> runtime_db \<Rightarrow> AttachmentRow option" where
  "find_attachment k d \<equiv> find_row at_ID k (db_attachments d)"

abbreviation find_run :: "uuid \<Rightarrow> runtime_db \<Rightarrow> RunRow option" where
  "find_run k d \<equiv> find_row r_ID k (db_runs d)"

abbreviation find_attempt :: "uuid \<Rightarrow> runtime_db \<Rightarrow> AttemptRow option" where
  "find_attempt k d \<equiv> find_row a_ID k (db_attempts d)"

abbreviation set_attempt :: "uuid \<Rightarrow> AttemptRow \<Rightarrow> runtime_db \<Rightarrow> runtime_db" where
  "set_attempt k a d \<equiv> d\<lparr>db_attempts := update_row a_ID k (\<lambda>_. a) (db_attempts d)\<rparr>"

abbreviation set_run :: "uuid \<Rightarrow> RunRow \<Rightarrow> runtime_db \<Rightarrow> runtime_db" where
  "set_run k r d \<equiv> d\<lparr>db_runs := update_row r_ID k (\<lambda>_. r) (db_runs d)\<rparr>"

abbreviation set_session :: "uuid \<Rightarrow> SessionRow \<Rightarrow> runtime_db \<Rightarrow> runtime_db" where
  "set_session k s d \<equiv> d\<lparr>db_sessions := update_row s_ID k (\<lambda>_. s) (db_sessions d)\<rparr>"

abbreviation set_node :: "uuid \<Rightarrow> NodeRow \<Rightarrow> runtime_db \<Rightarrow> runtime_db" where
  "set_node k n d \<equiv> d\<lparr>db_nodes := update_row n_ID k (\<lambda>_. n) (db_nodes d)\<rparr>"

definition wire_supported :: "runtime_db \<Rightarrow> string \<Rightarrow> string \<Rightarrow> bool" where
  "wire_supported d contract digest \<longleftrightarrow>
     (\<exists>w \<in> set (db_wire_contracts d). wc_ID w = contract \<and> wc_Digest w = digest \<and>
        (wc_SupportTier w = ''current'' \<or> wc_SupportTier w = ''previous''))"

definition token_active :: "TokenRow \<Rightarrow> gotime \<Rightarrow> bool" where
  "token_active t now \<longleftrightarrow>
     t_Status t = ''active_runtime'' \<and> t_RevokedAt t = None \<and>
     (t_ExpiresAt t = None \<or> sql_gt (t_ExpiresAt t) now) \<and> ''agent:pull'' \<in> set (t_Scopes t)"

definition live_status :: "string \<Rightarrow> bool" where
  "live_status v \<longleftrightarrow> v = ''active'' \<or> v = ''draining''"

section \<open>Principal locks\<close>

definition LockRuntimeSessionForPrincipalValidation ::
    "uuid \<Rightarrow> uuid \<Rightarrow> uuid \<Rightarrow> uuid \<Rightarrow> string \<Rightarrow> uuid \<Rightarrow> (runtime_db, SessionRow) query" where
  "LockRuntimeSessionForPrincipalValidation sessionID nodeID agentID credentialID workerID core d =
     (case find_session sessionID d of
        None \<Rightarrow> None
      | Some s \<Rightarrow>
          if s_NodeID s = nodeID \<and> s_AgentID s = agentID \<and> s_CredentialID s = credentialID \<and>
             s_WorkerID s = workerID \<and> s_AttachedCoreInstanceID s = Some core \<and> live_status (s_Status s) \<and>
             s_ProtocolVersion s = 2 \<and> s_RuntimeContractID s = RuntimeContractID \<and>
             wire_supported d (s_RuntimeContractID s) (s_RuntimeContractDigest s)
          then Some (s, d) else None)"

definition LockRuntimeNodeForPrincipalValidation ::
    "uuid \<Rightarrow> string \<Rightarrow> string \<Rightarrow> (runtime_db, NodeRow) query" where
  "LockRuntimeNodeForPrincipalValidation nodeID serial thumbprint d =
     (case find_node nodeID d of
        None \<Rightarrow> None
      | Some n \<Rightarrow>
          if n_DeviceCertificateSerial n = serial \<and> n_DevicePublicKeyThumbprint n = thumbprint \<and>
             live_status (n_Status n) \<and> n_ProtocolVersion n = 2 \<and>
             n_RuntimeContractID n = RuntimeContractID \<and> n_RevokedAt n = None \<and>
             wire_supported d (n_RuntimeContractID n) (n_RuntimeContractDigest n)
          then Some (n, d) else None)"

definition LockRuntimeCredentialForPrincipalValidation ::
    "uuid \<Rightarrow> uuid \<Rightarrow> gotime \<Rightarrow> (runtime_db, TokenRow) query" where
  "LockRuntimeCredentialForPrincipalValidation credentialID agentID now d =
     (case find_token credentialID d of
        None \<Rightarrow> None
      | Some t \<Rightarrow> if t_AgentID t = Some agentID \<and> token_active t now then Some (t, d) else None)"

definition LockRuntimeSessionAttachmentForPrincipalValidation ::
    "uuid \<Rightarrow> uuid \<Rightarrow> uuid \<Rightarrow> (runtime_db, AttachmentRow) query" where
  "LockRuntimeSessionAttachmentForPrincipalValidation attachmentID sessionID core d =
     (case find_attachment attachmentID d of
        None \<Rightarrow> None
      | Some x \<Rightarrow>
          if at_RuntimeSessionID x = sessionID \<and> at_CoreInstanceID x = core \<and> at_DetachedAt x = None
          then Some (x, d) else None)"

definition LockRuntimeSessionForOfferRelease ::
    "uuid \<Rightarrow> uuid \<Rightarrow> uuid \<Rightarrow> uuid \<Rightarrow> string \<Rightarrow> uuid \<Rightarrow> (runtime_db, SessionRow) query" where
  "LockRuntimeSessionForOfferRelease sessionID nodeID agentID credentialID workerID core d =
     (case find_session sessionID d of
        None \<Rightarrow> None
      | Some s \<Rightarrow>
          if s_NodeID s = nodeID \<and> s_AgentID s = agentID \<and> s_CredentialID s = credentialID \<and>
             s_WorkerID s = workerID \<and> s_ProtocolVersion s = 2 \<and>
             s_RuntimeContractID s = RuntimeContractID \<and>
             (live_status (s_Status s) \<and> s_AttachedCoreInstanceID s = Some core \<or>
              (s_Status s = ''offline'' \<or> s_Status s = ''closed'') \<and> s_AttachedCoreInstanceID s = None)
          then Some (s, d) else None)"

definition LockRuntimeSessionAttachmentForOfferRelease ::
    "uuid \<Rightarrow> uuid \<Rightarrow> uuid \<Rightarrow> bool \<Rightarrow> (runtime_db, AttachmentRow) query" where
  "LockRuntimeSessionAttachmentForOfferRelease attachmentID sessionID core detached d =
     (case find_attachment attachmentID d of
        None \<Rightarrow> None
      | Some x \<Rightarrow>
          if at_RuntimeSessionID x = sessionID \<and> at_CoreInstanceID x = core \<and>
             (at_DetachedAt x \<noteq> None \<longleftrightarrow> detached)
          then Some (x, d) else None)"

section \<open>Capacity counters\<close>

definition ClaimRuntimeSessionSlot :: "uuid \<Rightarrow> uuid \<Rightarrow> uuid \<Rightarrow> gotime \<Rightarrow> (runtime_db, SessionRow) query" where
  "ClaimRuntimeSessionSlot sessionID agentID core now d =
     (case find_session sessionID d of
        None \<Rightarrow> None
      | Some s \<Rightarrow>
         (case (find_node (s_NodeID s) d, find_token (s_CredentialID s) d) of
            (Some n, Some t) \<Rightarrow>
              if s_AgentID s = agentID \<and> s_AttachedCoreInstanceID s = Some core \<and>
                 s_Status s = ''active'' \<and> s_Inflight s < s_Capacity s \<and> n_Status n = ''active'' \<and>
                 n_ProtocolVersion n = s_ProtocolVersion s \<and>
                 n_RuntimeContractID n = s_RuntimeContractID s \<and>
                 n_RuntimeContractDigest n = s_RuntimeContractDigest s \<and>
                 wire_supported d (s_RuntimeContractID s) (s_RuntimeContractDigest s) \<and>
                 t_AgentID t = Some (s_AgentID s) \<and> token_active t now
              then (let s' = s\<lparr>s_Inflight := s_Inflight s + 1, s_HeartbeatAt := now, s_UpdatedAt := now\<rparr>
                    in Some (s', set_session sessionID s' d))
              else None
          | _ \<Rightarrow> None))"

definition ReleaseRuntimeSessionSlot :: "uuid \<Rightarrow> gotime \<Rightarrow> (runtime_db, SessionRow) query" where
  "ReleaseRuntimeSessionSlot sessionID now d =
     (case find_session sessionID d of
        None \<Rightarrow> None
      | Some s \<Rightarrow>
          if 0 < s_Inflight s
          then (let s' = s\<lparr>s_Inflight := s_Inflight s - 1, s_UpdatedAt := now\<rparr>
                in Some (s', set_session sessionID s' d))
          else None)"

definition ClaimRuntimeNodeSlot :: "uuid \<Rightarrow> gotime \<Rightarrow> (runtime_db, NodeRow) query" where
  "ClaimRuntimeNodeSlot nodeID now d =
     (case find_node nodeID d of
        None \<Rightarrow> None
      | Some n \<Rightarrow>
          if n_Status n = ''active'' \<and> n_Inflight n < n_Capacity n
          then (let n' = n\<lparr>n_Inflight := n_Inflight n + 1, n_LastSeenAt := Some now, n_UpdatedAt := now\<rparr>
                in Some (n', set_node nodeID n' d))
          else None)"

definition ReleaseRuntimeNodeSlot :: "uuid \<Rightarrow> gotime \<Rightarrow> (runtime_db, NodeRow) query" where
  "ReleaseRuntimeNodeSlot nodeID now d =
     (case find_node nodeID d of
        None \<Rightarrow> None
      | Some n \<Rightarrow>
          if 0 < n_Inflight n
          then (let n' = n\<lparr>n_Inflight := n_Inflight n - 1, n_UpdatedAt := now\<rparr>
                in Some (n', set_node nodeID n' d))
          else None)"

text \<open>The released row with the capacity owner that the common table expression returns.\<close>

record CapacityRow =
  cap_RuntimeSessionID :: uuid
  cap_NodeID :: uuid
  cap_SlotAcquiredAt :: gotime
  cap_SlotReleasedAt :: gotime

definition attempt_key :: "uuid \<Rightarrow> uuid \<Rightarrow> uuid \<Rightarrow> int \<Rightarrow> AttemptRow \<Rightarrow> bool" where
  "attempt_key runID attemptID leaseID fencingToken a \<longleftrightarrow>
     a_RunID a = runID \<and> a_ID a = attemptID \<and> a_LeaseID a = leaseID \<and> a_FencingToken a = fencingToken"

definition MarkRunAttemptCapacityReleased ::
    "uuid \<Rightarrow> uuid \<Rightarrow> uuid \<Rightarrow> int \<Rightarrow> gotime \<Rightarrow> (runtime_db, CapacityRow) query" where
  "MarkRunAttemptCapacityReleased runID attemptID leaseID fencingToken now d =
     (case find_attempt attemptID d of
        None \<Rightarrow> None
      | Some a \<Rightarrow>
          if attempt_key runID attemptID leaseID fencingToken a \<and> a_ExecutorType a = ''runtime'' \<and>
             a_SlotReleasedAt a = None
          then (case (a_SlotAcquiredAt a, a_ActiveRuntimeSessionID a, a_NodeID a) of
                  (Some acquired, Some session, Some node) \<Rightarrow>
                    Some (\<lparr>cap_RuntimeSessionID = session, cap_NodeID = node,
                           cap_SlotAcquiredAt = acquired, cap_SlotReleasedAt = now\<rparr>,
                          set_attempt attemptID
                            (a\<lparr>a_SlotReleasedAt := Some now, a_ActiveRuntimeSessionID := None\<rparr>) d)
                | _ \<Rightarrow> None)
          else None)"

section \<open>Claiming\<close>

text \<open>
  \<open>#>>\<close> on the stored metadata, compared with a word. A JSON value that is not a string never
  renders as one of the words compared with; an absent or null value takes the default.
\<close>

definition json_member :: "string \<Rightarrow> json \<Rightarrow> json option" where
  "json_member key j = (case j of JObject ms \<Rightarrow> map_of (rev ms) key | _ \<Rightarrow> None)"

definition authority_word :: "jmap \<Rightarrow> string \<Rightarrow> string \<Rightarrow> string \<Rightarrow> bool" where
  "authority_word metadata member fallback word \<longleftrightarrow>
     (case Option.bind (json_member ''_openlinker_runtime_authority'' (JObject metadata)) (json_member member) of
        None \<Rightarrow> fallback = word
      | Some JNull \<Rightarrow> fallback = word
      | Some (JString s) \<Rightarrow> s = word
      | Some _ \<Rightarrow> False)"

definition run_dispatchable :: "RunRow \<Rightarrow> gotime \<Rightarrow> bool" where
  "run_dispatchable r now \<longleftrightarrow>
     r_Status r = ''running'' \<and> r_RuntimeContractID r = RuntimeContractID \<and>
     r_ConnectionModeSnapshot r = Some ''runtime'' \<and>
     (r_DispatchState r = ''pending'' \<or>
      r_DispatchState r = ''retry_wait'' \<and> sql_le (r_NextAttemptAt r) now) \<and>
     r_ActiveAttemptID r = None \<and> r_OfferCount r < r_MaxOfferCount r \<and>
     r_AttemptCount r < r_MaxAttempts r \<and> sql_gt (r_DispatchDeadlineAt r) now \<and>
     sql_gt (r_RunDeadlineAt r) now"

definition run_claimable ::
    "uuid \<Rightarrow> bool \<Rightarrow> bool \<Rightarrow> string list \<Rightarrow> bool \<Rightarrow> gotime \<Rightarrow> runtime_db \<Rightarrow> RunRow \<Rightarrow> bool" where
  "run_claimable agentID browserProfile fullInteraction providers mcpBindings now d r \<longleftrightarrow>
     r_AgentID r = agentID \<and>
     authority_word (r_RequestMetadata r) ''execution_profile'' ''standard''
       (if browserProfile then ''browser'' else ''standard'') \<and>
     (\<not> browserProfile \<or>
        authority_word (r_RequestMetadata r) ''browser_interaction_policy'' []
          (if fullInteraction then ''full'' else ''restricted'')) \<and>
     (\<not> browserProfile \<or>
        (\<exists>a \<in> set (db_agents d). ag_ID a = r_AgentID r \<and> ag_Visibility a = ''private'' \<and>
           ag_CreatorID a = r_UserID r)) \<and>
     (mcpBindings \<or> \<not> (\<exists>m \<in> set (db_mcps d). mc_RunID m = r_ID r)) \<and>
     \<not> (\<exists>k \<in> set (db_skills d). sk_RunID k = r_ID r \<and> set (sk_Providers k) \<inter> set providers = {}) \<and>
     run_dispatchable r now"

text \<open>The \<open>ORDER BY\<close> of the claim: due time, then start time, then id.\<close>

definition claim_time :: "RunRow \<Rightarrow> gotime" where
  "claim_time r =
     (if r_DispatchState r = ''retry_wait''
      then (case r_NextAttemptAt r of Some t \<Rightarrow> t | None \<Rightarrow> r_StartedAt r) else r_StartedAt r)"

definition claim_before :: "RunRow \<Rightarrow> RunRow \<Rightarrow> bool" where
  "claim_before x y \<longleftrightarrow>
     claim_time x < claim_time y \<or> claim_time x = claim_time y \<and>
       (r_StartedAt x < r_StartedAt y \<or> r_StartedAt x = r_StartedAt y \<and> r_ID x \<le> r_ID y)"

fun claim_first :: "RunRow list \<Rightarrow> RunRow option" where
  "claim_first [] = None"
| "claim_first (r # rs) =
     (case claim_first rs of None \<Rightarrow> Some r | Some m \<Rightarrow> if claim_before r m then Some r else Some m)"

text \<open>\<open>SKIP LOCKED\<close>: \<open>held\<close> tells which rows other transactions have locked; the claim passes over them.\<close>

definition LockNextClaimableRuntimeRunForAgent ::
    "uuid \<Rightarrow> bool \<Rightarrow> bool \<Rightarrow> string list \<Rightarrow> bool \<Rightarrow> (uuid \<Rightarrow> bool) \<Rightarrow> gotime \<Rightarrow> (runtime_db, RunRow) query" where
  "LockNextClaimableRuntimeRunForAgent agentID browserProfile fullInteraction providers mcpBindings held now d =
     map_option (\<lambda>r. (r, d))
       (claim_first (filter (\<lambda>r. run_claimable agentID browserProfile fullInteraction providers mcpBindings now d r \<and>
            \<not> held (r_ID r))
          (db_runs d)))"

text \<open>The metadata column of a claim: the snapshots replace whatever the request carried under their keys.\<close>

definition assignment_metadata :: "runtime_db \<Rightarrow> RunRow \<Rightarrow> jmap" where
  "assignment_metadata d r =
     filter (\<lambda>(k, _). k \<notin> {''_openlinker_skill_packages'', ''_openlinker_mcp_bindings'', ''_openlinker_mcp_binding''})
       (r_RequestMetadata r) @
     [(''_openlinker_skill_packages'', JObject [(''schema_version'', JNumber ''1''),
         (''bundles'', JArray (map sk_Bundle
            (sort_key sk_PackageID (filter (\<lambda>k. sk_RunID k = r_ID r) (db_skills d)))))]),
      (''_openlinker_mcp_bindings'', JObject [(''schema_version'', JNumber ''1''),
         (''tools'', JArray (map mc_Tool
            (sort_key mc_TargetAgentID (filter (\<lambda>m. mc_RunID m = r_ID r) (db_mcps d)))))])]"

text \<open>Ownership columns of an attempt that several statements compare with the caller's identity.\<close>

definition attempt_owner :: "uuid \<Rightarrow> uuid \<Rightarrow> uuid \<Rightarrow> string \<Rightarrow> AttemptRow \<Rightarrow> bool" where
  "attempt_owner sessionID nodeID credentialID workerID a \<longleftrightarrow>
     a_RuntimeSessionID a = Some sessionID \<and> a_NodeID a = Some nodeID \<and>
     a_RuntimeTokenID a = Some credentialID \<and> a_RuntimeWorkerID a = Some workerID"

definition run_leads :: "RunRow \<Rightarrow> AttemptRow \<Rightarrow> bool" where
  "run_leads r a \<longleftrightarrow>
     r_ActiveAttemptID r = Some (a_ID a) \<and> r_LeaseID r = Some (a_LeaseID a) \<and>
     r_FencingToken r = a_FencingToken a"

definition run_mirrors_owner :: "RunRow \<Rightarrow> AttemptRow \<Rightarrow> bool" where
  "run_mirrors_owner r a \<longleftrightarrow>
     sql_eq (r_RuntimeSessionID r) (a_RuntimeSessionID a) \<and>
     sql_eq (r_RuntimeNodeID r) (a_NodeID a) \<and>
     sql_eq (r_LeaseTokenID r) (a_RuntimeTokenID a) \<and>
     sql_eq (r_RuntimeWorkerID r) (a_RuntimeWorkerID a)"

record ExistingOfferRow =
  xo_attempt :: AttemptRow
  xo_run :: RunRow
  xo_metadata :: jmap
  xo_DatabaseNow :: gotime

definition open_offer :: "uuid \<Rightarrow> uuid \<Rightarrow> uuid \<Rightarrow> uuid \<Rightarrow> string \<Rightarrow> gotime \<Rightarrow> runtime_db \<Rightarrow> AttemptRow \<Rightarrow> bool" where
  "open_offer sessionID nodeID agentID credentialID workerID now d a \<longleftrightarrow>
     attempt_owner sessionID nodeID credentialID workerID a \<and> a_AgentID a = agentID \<and>
     a_AcceptedAt a = None \<and> a_FinishedAt a = None \<and> now < a_OfferExpiresAt a \<and>
     (case find_run (a_RunID a) d of
        None \<Rightarrow> False
      | Some r \<Rightarrow> r_ActiveAttemptID r = Some (a_ID a) \<and> r_Status r = ''running'' \<and>
          r_RuntimeContractID r = RuntimeContractID \<and> r_DispatchState r = ''offered'')"

text \<open>
  The statement reads the clock in its common table expression, in its final condition and in its
  select list.
\<close>

definition GetExistingUnacceptedRunOfferForSession ::
    "uuid \<Rightarrow> uuid \<Rightarrow> uuid \<Rightarrow> uuid \<Rightarrow> string \<Rightarrow> gotime \<Rightarrow> gotime \<Rightarrow> gotime
       \<Rightarrow> (runtime_db, ExistingOfferRow) query" where
  "GetExistingUnacceptedRunOfferForSession sessionID nodeID agentID credentialID workerID now1 now2 now3 d =
     (case List.find (open_offer sessionID nodeID agentID credentialID workerID now1 d) (db_attempts d) of
        None \<Rightarrow> None
      | Some a \<Rightarrow>
         (case find_run (a_RunID a) d of
            None \<Rightarrow> None
          | Some r \<Rightarrow>
              if run_leads r a \<and> sql_eq (r_RuntimeSessionID r) (a_RuntimeSessionID a) \<and>
                 r_Status r = ''running'' \<and> r_DispatchState r = ''offered'' \<and> a_AcceptedAt a = None \<and>
                 a_FinishedAt a = None \<and> now2 < a_OfferExpiresAt a \<and>
                 sql_gt (r_DispatchDeadlineAt r) now2 \<and> sql_gt (r_RunDeadlineAt r) now2
              then Some (\<lparr>xo_attempt = a, xo_run = r, xo_metadata = assignment_metadata d r,
                          xo_DatabaseNow = now3\<rparr>, d)
              else None))"

definition outstanding_offer :: "uuid \<Rightarrow> AttemptRow \<Rightarrow> bool" where
  "outstanding_offer sessionID a \<longleftrightarrow>
     a_RuntimeSessionID a = Some sessionID \<and> a_AcceptedAt a = None \<and> a_FinishedAt a = None"

definition LEAST_opt :: "gotime list \<Rightarrow> gotime option list \<Rightarrow> gotime" where
  "LEAST_opt ts opts = Min (set ts \<union> set (List.map_filter id opts))"

record offer_ttls =
  ttl_OfferMs :: int
  ttl_LeaseMs :: int
  ttl_AttemptMs :: int

definition ttls_in_range :: "offer_ttls \<Rightarrow> bool" where
  "ttls_in_range ttl \<longleftrightarrow>
     1 \<le> ttl_OfferMs ttl \<and> ttl_OfferMs ttl \<le> 300000 \<and>
     1 \<le> ttl_LeaseMs ttl \<and> ttl_LeaseMs ttl \<le> 3600000 \<and>
     1 \<le> ttl_AttemptMs ttl \<and> ttl_AttemptMs ttl \<le> 86400000"

definition after_ms :: "gotime \<Rightarrow> int \<Rightarrow> gotime" where
  "after_ms now ms = now + ms * millisecond"

text \<open>The row the \<open>INSERT ... SELECT\<close> writes for a run and a session.\<close>

definition offer_row ::
    "uuid \<Rightarrow> uuid \<Rightarrow> uuid \<Rightarrow> offer_ttls \<Rightarrow> gotime \<Rightarrow> RunRow \<Rightarrow> SessionRow \<Rightarrow> AttemptRow" where
  "offer_row attemptID leaseID core ttl now r s =
     \<lparr>a_ID = attemptID, a_RunID = r_ID r, a_AgentID = r_AgentID r, a_OfferNo = r_OfferCount r + 1,
      a_AttemptNo = None, a_ExecutorType = ''runtime'', a_LeaseID = leaseID,
      a_FencingToken = r_FencingToken r + 1, a_RuntimeTokenID = Some (s_CredentialID s),
      a_RuntimeWorkerID = Some (s_WorkerID s), a_RuntimeSessionID = Some (s_ID s),
      a_NodeID = Some (s_NodeID s), a_OfferedByCoreInstanceID = core, a_AttachedCoreInstanceID = core,
      a_OfferedAt = now,
      a_OfferExpiresAt = LEAST_opt [after_ms now (ttl_OfferMs ttl), after_ms now (ttl_LeaseMs ttl),
         after_ms now (ttl_AttemptMs ttl)] [r_DispatchDeadlineAt r, r_RunDeadlineAt r],
      a_AcceptedAt = None, a_LastRenewedAt = None,
      a_LeaseExpiresAt = LEAST_opt [after_ms now (ttl_LeaseMs ttl), after_ms now (ttl_AttemptMs ttl)]
         [r_RunDeadlineAt r],
      a_AttemptDeadlineAt = LEAST_opt [after_ms now (ttl_AttemptMs ttl)] [r_RunDeadlineAt r],
      a_FinishedAt = None, a_Outcome = None, a_ErrorCode = None, a_SlotAcquiredAt = Some now,
      a_SlotReleasedAt = None, a_ActiveRuntimeSessionID = Some (s_ID s), a_RuntimeAttachmentID = None,
      a_ResultID = None, a_ResultFingerprint = None, a_ResultClassification = None, a_ResultAcknowledgedAt = None,
      a_LastClientEventSeq = 0, a_FinalClientEventSeq = None, a_ErrorDetailRedacted = None\<rparr>"

definition offer_selected ::
    "uuid \<Rightarrow> offer_ttls \<Rightarrow> uuid \<Rightarrow> uuid \<Rightarrow> string \<Rightarrow> gotime \<Rightarrow> runtime_db \<Rightarrow> RunRow \<Rightarrow> SessionRow \<Rightarrow> bool" where
  "offer_selected core ttl nodeID credentialID workerID now d r s \<longleftrightarrow>
     s_AgentID s = r_AgentID r \<and> run_dispatchable r now \<and> s_NodeID s = nodeID \<and>
     s_CredentialID s = credentialID \<and> s_WorkerID s = workerID \<and>
     s_AttachedCoreInstanceID s = Some core \<and> s_Status s = ''active'' \<and>
     (case find_node (s_NodeID s) d of
        None \<Rightarrow> False | Some n \<Rightarrow> n_Status n = ''active'' \<and> n_RevokedAt n = None) \<and>
     (case find_token (s_CredentialID s) d of
        None \<Rightarrow> False | Some t \<Rightarrow> t_AgentID t = Some (s_AgentID s) \<and> token_active t now) \<and>
     ttls_in_range ttl \<and> \<not> (\<exists>a \<in> set (db_attempts d). outstanding_offer (s_ID s) a)"

definition CreateRuntimeRunOffer ::
    "uuid \<Rightarrow> uuid \<Rightarrow> uuid \<Rightarrow> offer_ttls \<Rightarrow> uuid \<Rightarrow> uuid \<Rightarrow> uuid \<Rightarrow> uuid \<Rightarrow> string \<Rightarrow> gotime
       \<Rightarrow> (runtime_db, AttemptRow) query" where
  "CreateRuntimeRunOffer attemptID leaseID core ttl sessionID runID nodeID credentialID workerID now d =
     (case (find_run runID d, find_session sessionID d) of
        (Some r, Some s) \<Rightarrow>
          if offer_selected core ttl nodeID credentialID workerID now d r s
          then (let a = offer_row attemptID leaseID core ttl now r s
                in Some (a, d\<lparr>db_attempts := insert_row a (db_attempts d)\<rparr>))
          else None
      | _ \<Rightarrow> None)"

text \<open>
  What the unique indexes of \<open>run_attempts\<close> refuse: the primary key, the lease id, the fence of a
  run and a second unfinished attempt of a run. PostgreSQL then reports a constraint violation.
\<close>

definition attempt_conflict :: "runtime_db \<Rightarrow> AttemptRow \<Rightarrow> bool" where
  "attempt_conflict d a \<longleftrightarrow>
     (\<exists>b \<in> set (db_attempts d).
        a_ID b = a_ID a \<or> a_LeaseID b = a_LeaseID a \<or>
        a_RunID b = a_RunID a \<and> (a_FencingToken b = a_FencingToken a \<or> a_FinishedAt b = None))"

text \<open>
  What the insertion of an offer raises: a constraint violation, or \<open>bigint out of range\<close> when the
  fencing token cannot grow. The offer number cannot leave its range, as it stays within \<open>max_offer_count\<close>.
\<close>

definition offer_refused :: "runtime_db \<Rightarrow> AttemptRow \<Rightarrow> bool" where
  "offer_refused d a \<longleftrightarrow> attempt_conflict d a \<or> max_int64 < a_FencingToken a"

definition MirrorRuntimeRunOffer ::
    "uuid \<Rightarrow> uuid \<Rightarrow> uuid \<Rightarrow> int \<Rightarrow> uuid \<Rightarrow> uuid \<Rightarrow> uuid \<Rightarrow> string \<Rightarrow> uuid \<Rightarrow> gotime
       \<Rightarrow> (runtime_db, RunRow) query" where
  "MirrorRuntimeRunOffer runID attemptID leaseID fencingToken sessionID nodeID credentialID workerID core now d =
     (case (find_run runID d, find_attempt attemptID d) of
        (Some r, Some a) \<Rightarrow>
          if attempt_key runID attemptID leaseID fencingToken a \<and>
             attempt_owner sessionID nodeID credentialID workerID a \<and>
             a_AttachedCoreInstanceID a = core \<and> a_ExecutorType a = ''runtime'' \<and>
             a_AcceptedAt a = None \<and> a_FinishedAt a = None \<and> r_Status r = ''running'' \<and>
             r_RuntimeContractID r = RuntimeContractID \<and>
             (r_DispatchState r = ''pending'' \<or>
              r_DispatchState r = ''retry_wait'' \<and> sql_le (r_NextAttemptAt r) now) \<and>
             r_ActiveAttemptID r = None \<and> r_OfferCount r + 1 = a_OfferNo a \<and>
             r_FencingToken r + 1 = a_FencingToken a
          then (let r' = r\<lparr>r_DispatchState := ''offered'', r_NextAttemptAt := None,
                  r_OfferCount := a_OfferNo a, r_LatestAttemptID := Some (a_ID a),
                  r_ActiveAttemptID := Some (a_ID a), r_LeaseID := Some (a_LeaseID a),
                  r_FencingToken := a_FencingToken a, r_ExecutorType := Some (a_ExecutorType a),
                  r_ActiveCoreInstanceID := Some (a_AttachedCoreInstanceID a),
                  r_RuntimeNodeID := a_NodeID a, r_RuntimeWorkerID := a_RuntimeWorkerID a,
                  r_RuntimeSessionID := a_RuntimeSessionID a, r_LeaseTokenID := a_RuntimeTokenID a,
                  r_LeaseOfferedAt := Some (a_OfferedAt a), r_LeaseAcceptedAt := a_AcceptedAt a,
                  r_LeaseExpiresAt := Some (a_LeaseExpiresAt a),
                  r_AttemptDeadlineAt := Some (a_AttemptDeadlineAt a)\<rparr>
                in Some (r', set_run runID r' d))
          else None
      | _ \<Rightarrow> None)"

section \<open>Leases\<close>

text \<open>The locked run is returned with the clock reading of the lock statement.\<close>

definition LockRunForLeaseMutation :: "uuid \<Rightarrow> (runtime_db, RunRow) query" where
  "LockRunForLeaseMutation runID d =
     (case find_run runID d of
        None \<Rightarrow> None
      | Some r \<Rightarrow> if r_RuntimeContractID r = RuntimeContractID then Some (r, d) else None)"

definition LockRuntimeRunAttemptForLeaseMutation ::
    "uuid \<Rightarrow> uuid \<Rightarrow> uuid \<Rightarrow> int \<Rightarrow> uuid \<Rightarrow> uuid \<Rightarrow> uuid \<Rightarrow> string \<Rightarrow> (runtime_db, AttemptRow) query" where
  "LockRuntimeRunAttemptForLeaseMutation runID attemptID leaseID fencingToken sessionID nodeID credentialID workerID d =
     (case find_attempt attemptID d of
        None \<Rightarrow> None
      | Some a \<Rightarrow>
          if attempt_key runID attemptID leaseID fencingToken a \<and>
             attempt_owner sessionID nodeID credentialID workerID a \<and> a_ExecutorType a = ''runtime''
          then Some (a, d) else None)"

text \<open>The session, node and credential conditions that confirmation and renewal share.\<close>

definition live_principal ::
    "uuid \<Rightarrow> uuid \<Rightarrow> uuid \<Rightarrow> uuid \<Rightarrow> string \<Rightarrow> uuid \<Rightarrow> gotime \<Rightarrow> runtime_db \<Rightarrow> bool" where
  "live_principal agentID sessionID nodeID credentialID workerID core now d \<longleftrightarrow>
     (case find_session sessionID d of
        None \<Rightarrow> False
      | Some s \<Rightarrow> s_NodeID s = nodeID \<and> s_AgentID s = agentID \<and> s_CredentialID s = credentialID \<and>
          s_WorkerID s = workerID \<and> s_AttachedCoreInstanceID s = Some core \<and> live_status (s_Status s) \<and>
          (case find_node (s_NodeID s) d of
             None \<Rightarrow> False | Some n \<Rightarrow> live_status (n_Status n) \<and> n_RevokedAt n = None) \<and>
          (case find_token (s_CredentialID s) d of
             None \<Rightarrow> False | Some t \<Rightarrow> t_AgentID t = Some (s_AgentID s) \<and> token_active t now))"

definition ConfirmRunAssignment ::
    "int \<Rightarrow> uuid \<Rightarrow> uuid \<Rightarrow> uuid \<Rightarrow> uuid \<Rightarrow> int \<Rightarrow> uuid \<Rightarrow> uuid \<Rightarrow> uuid \<Rightarrow> string \<Rightarrow> uuid \<Rightarrow> gotime
       \<Rightarrow> (runtime_db, AttemptRow) query" where
  "ConfirmRunAssignment leaseTtlMs core runID attemptID leaseID fencingToken sessionID nodeID credentialID
       workerID attachmentID now d =
     (case (find_attempt attemptID d, find_run runID d, find_attachment attachmentID d) of
        (Some a, Some r, Some x) \<Rightarrow>
          if attempt_key runID attemptID leaseID fencingToken a \<and>
             attempt_owner sessionID nodeID credentialID workerID a \<and> a_ExecutorType a = ''runtime'' \<and>
             a_AcceptedAt a = None \<and> a_FinishedAt a = None \<and> now < a_OfferExpiresAt a \<and>
             now < a_AttemptDeadlineAt a \<and> r_AgentID r = a_AgentID a \<and> r_Status r = ''running'' \<and>
             r_RuntimeContractID r = RuntimeContractID \<and> r_DispatchState r = ''offered'' \<and>
             run_leads r a \<and> run_mirrors_owner r a \<and> r_AttemptCount r < r_MaxAttempts r \<and>
             sql_gt (r_RunDeadlineAt r) now \<and>
             live_principal (r_AgentID r) sessionID nodeID credentialID workerID core now d \<and>
             at_RuntimeSessionID x = sessionID \<and> at_CoreInstanceID x = core \<and> at_DetachedAt x = None \<and>
             (at_Transport x = ''websocket'' \<or> at_Transport x = ''long_poll'') \<and>
             at_TransportReason x \<noteq> None \<and> 1 \<le> leaseTtlMs \<and> leaseTtlMs \<le> 3600000
          then (let a' = a\<lparr>a_AttemptNo := Some (r_AttemptCount r + 1), a_AcceptedAt := Some now,
                  a_LastRenewedAt := Some now,
                  a_LeaseExpiresAt := LEAST_opt [after_ms now leaseTtlMs, a_AttemptDeadlineAt a] [r_RunDeadlineAt r],
                  a_AttachedCoreInstanceID := core, a_RuntimeAttachmentID := Some (at_ID x)\<rparr>
                in Some (a', set_attempt attemptID a' d))
          else None
      | _ \<Rightarrow> None)"

definition MirrorRunConfirmedAssignment ::
    "uuid \<Rightarrow> uuid \<Rightarrow> uuid \<Rightarrow> int \<Rightarrow> uuid \<Rightarrow> uuid \<Rightarrow> uuid \<Rightarrow> string \<Rightarrow> uuid \<Rightarrow> (runtime_db, RunRow) query" where
  "MirrorRunConfirmedAssignment runID attemptID leaseID fencingToken sessionID nodeID credentialID workerID core d =
     (case (find_run runID d, find_attempt attemptID d) of
        (Some r, Some a) \<Rightarrow>
          if attempt_key runID attemptID leaseID fencingToken a \<and>
             attempt_owner sessionID nodeID credentialID workerID a \<and>
             a_AttachedCoreInstanceID a = core \<and> a_AcceptedAt a \<noteq> None \<and> a_FinishedAt a = None \<and>
             r_Status r = ''running'' \<and> r_DispatchState r = ''offered'' \<and> run_leads r a \<and>
             a_AttemptNo a = Some (r_AttemptCount r + 1)
          then (let r' = r\<lparr>r_DispatchState := ''executing'', r_AttemptCount := r_AttemptCount r + 1,
                  r_ActiveCoreInstanceID := Some (a_AttachedCoreInstanceID a),
                  r_LeaseAcceptedAt := a_AcceptedAt a, r_LeaseExpiresAt := Some (a_LeaseExpiresAt a)\<rparr>
                in Some (r', set_run runID r' d))
          else None
      | _ \<Rightarrow> None)"

definition RenewRuntimeRunAttempt ::
    "int \<Rightarrow> uuid \<Rightarrow> uuid \<Rightarrow> uuid \<Rightarrow> uuid \<Rightarrow> int \<Rightarrow> uuid \<Rightarrow> uuid \<Rightarrow> uuid \<Rightarrow> string \<Rightarrow> gotime
       \<Rightarrow> (runtime_db, AttemptRow) query" where
  "RenewRuntimeRunAttempt leaseTtlMs core runID attemptID leaseID fencingToken sessionID nodeID credentialID
       workerID now d =
     (case (find_attempt attemptID d, find_run runID d) of
        (Some a, Some r) \<Rightarrow>
          if attempt_key runID attemptID leaseID fencingToken a \<and>
             attempt_owner sessionID nodeID credentialID workerID a \<and> a_ExecutorType a = ''runtime'' \<and>
             a_AcceptedAt a \<noteq> None \<and> a_FinishedAt a = None \<and> now < a_LeaseExpiresAt a \<and>
             now < a_AttemptDeadlineAt a \<and> r_Status r = ''running'' \<and>
             r_RuntimeContractID r = RuntimeContractID \<and> r_DispatchState r = ''executing'' \<and>
             run_leads r a \<and> run_mirrors_owner r a \<and> sql_gt (r_LeaseExpiresAt r) now \<and>
             sql_gt (r_RunDeadlineAt r) now \<and> r_CancelRequestID r = None \<and>
             live_principal (r_AgentID r) sessionID nodeID credentialID workerID core now d \<and>
             1 \<le> leaseTtlMs \<and> leaseTtlMs \<le> 3600000
          then (let a' = a\<lparr>a_LastRenewedAt := Some now,
                  a_LeaseExpiresAt := max (a_LeaseExpiresAt a)
                    (LEAST_opt [after_ms now leaseTtlMs, a_AttemptDeadlineAt a] [r_RunDeadlineAt r]),
                  a_AttachedCoreInstanceID := core\<rparr>
                in Some (a', set_attempt attemptID a' d))
          else None
      | _ \<Rightarrow> None)"

definition MirrorRunLeaseRenewal :: "uuid \<Rightarrow> uuid \<Rightarrow> uuid \<Rightarrow> int \<Rightarrow> uuid \<Rightarrow> (runtime_db, RunRow) query" where
  "MirrorRunLeaseRenewal runID attemptID leaseID fencingToken core d =
     (case (find_run runID d, find_attempt attemptID d) of
        (Some r, Some a) \<Rightarrow>
          if attempt_key runID attemptID leaseID fencingToken a \<and> a_AttachedCoreInstanceID a = core \<and>
             a_AcceptedAt a \<noteq> None \<and> a_FinishedAt a = None \<and> r_Status r = ''running'' \<and>
             r_DispatchState r = ''executing'' \<and> run_leads r a
          then (let r' = r\<lparr>r_ActiveCoreInstanceID := Some (a_AttachedCoreInstanceID a),
                  r_LeaseExpiresAt := Some (a_LeaseExpiresAt a)\<rparr>
                in Some (r', set_run runID r' d))
          else None
      | _ \<Rightarrow> None)"

section \<open>Giving an offer back\<close>

definition release_owner :: "uuid \<Rightarrow> runtime_db \<Rightarrow> AttemptRow \<Rightarrow> SessionRow \<Rightarrow> bool" where
  "release_owner core d a s \<longleftrightarrow>
     Some (s_ID s) = a_RuntimeSessionID a \<and> Some (s_NodeID s) = a_NodeID a \<and>
     s_AgentID s = a_AgentID a \<and> Some (s_CredentialID s) = a_RuntimeTokenID a \<and>
     Some (s_WorkerID s) = a_RuntimeWorkerID a \<and>
     (s_AttachedCoreInstanceID s = Some core \<and> live_status (s_Status s) \<or>
      s_AttachedCoreInstanceID s = None \<and> (s_Status s = ''offline'' \<or> s_Status s = ''closed'') \<and>
      a_AttachedCoreInstanceID a = core \<and>
      (\<exists>x \<in> set (db_attachments d). at_RuntimeSessionID x = s_ID s \<and> at_CoreInstanceID x = core \<and>
         at_DetachedAt x \<noteq> None))"

definition FinishUnacceptedRunOffer ::
    "string \<Rightarrow> string \<Rightarrow> uuid \<Rightarrow> uuid \<Rightarrow> uuid \<Rightarrow> int \<Rightarrow> uuid \<Rightarrow> uuid \<Rightarrow> uuid \<Rightarrow> string \<Rightarrow> uuid \<Rightarrow> gotime
       \<Rightarrow> (runtime_db, AttemptRow) query" where
  "FinishUnacceptedRunOffer outcome errorCode runID attemptID leaseID fencingToken sessionID nodeID
       credentialID workerID core now d =
     (case (find_attempt attemptID d, find_run runID d) of
        (Some a, Some r) \<Rightarrow>
          if attempt_key runID attemptID leaseID fencingToken a \<and>
             attempt_owner sessionID nodeID credentialID workerID a \<and> a_ExecutorType a = ''runtime'' \<and>
             a_AcceptedAt a = None \<and> a_AttemptNo a = None \<and> a_FinishedAt a = None \<and>
             (outcome = ''offer_rejected'' \<or> outcome = ''offer_expired'') \<and>
             r_Status r = ''running'' \<and> r_DispatchState r = ''offered'' \<and> run_leads r a \<and>
             run_mirrors_owner r a \<and> (\<exists>s \<in> set (db_sessions d). release_owner core d a s)
          then (let a' = a\<lparr>a_FinishedAt := Some now, a_Outcome := Some outcome, a_ErrorCode := Some errorCode,
                          a_ErrorDetailRedacted := None\<rparr>
                in Some (a', set_attempt attemptID a' d))
          else None
      | _ \<Rightarrow> None)"

definition ResetRunAfterUnacceptedOffer :: "uuid \<Rightarrow> uuid \<Rightarrow> uuid \<Rightarrow> int \<Rightarrow> (runtime_db, RunRow) query" where
  "ResetRunAfterUnacceptedOffer runID attemptID leaseID fencingToken d =
     (case (find_run runID d, find_attempt attemptID d) of
        (Some r, Some a) \<Rightarrow>
          if attempt_key runID attemptID leaseID fencingToken a \<and> a_FinishedAt a \<noteq> None \<and>
             (a_Outcome a = Some ''offer_rejected'' \<or> a_Outcome a = Some ''offer_expired'') \<and>
             a_AcceptedAt a = None \<and> a_AttemptNo a = None \<and> r_Status r = ''running'' \<and>
             r_DispatchState r = ''offered'' \<and> run_leads r a \<and> r_LatestAttemptID r = Some (a_ID a)
          then (let r' = r\<lparr>r_DispatchState := ''pending'', r_NextAttemptAt := None,
                  r_ActiveAttemptID := None, r_LeaseID := None, r_ExecutorType := None,
                  r_ActiveCoreInstanceID := None, r_RuntimeNodeID := None, r_RuntimeWorkerID := None,
                  r_RuntimeSessionID := None, r_LeaseTokenID := None, r_LeaseOfferedAt := None,
                  r_LeaseAcceptedAt := None, r_LeaseExpiresAt := None, r_AttemptDeadlineAt := None\<rparr>
                in Some (r', set_run runID r' d))
          else None
      | _ \<Rightarrow> None)"

definition CreateRuntimeSignal ::
    "string \<Rightarrow> uuid \<Rightarrow> uuid option \<Rightarrow> bytes \<Rightarrow> gotime \<Rightarrow> (runtime_db, SignalRow) query" where
  "CreateRuntimeSignal eventType agentID runID payload now d =
     (let g = \<lparr>sg_EventType = eventType, sg_AgentID = agentID, sg_RunID = runID, sg_Payload = payload,
               sg_AvailableAt = now\<rparr>
      in Some (g, d\<lparr>db_signals := insert_row g (db_signals d)\<rparr>))"

end
