(* ===== verification/Lease_Service.thy ===== *)
theory Lease_Service
  imports Runtime_Store Wire_Validation
begin

text \<open>
  The lease service of \<open>pkg/runtime/lease.go\<close>: offering a run to a session, confirming, rejecting,
  renewing and giving back, each as one transaction over \<open>runtime_db\<close>. An operation takes a clock
  \<open>clk\<close> whose \<open>n\<close>-th reading is the one its \<open>n\<close>-th statement makes; \<open>uuid.New\<close> is a pair of
  arguments. What the assignment takes from other packages is the record \<open>lease_env\<close>: the JSON
  decoder, RFC 8785 canonicalisation, SHA-256, the strict decoder of the run authority, the browser
  policy digest, the assignment checks of the skill-package and MCP-binding packages, and which runs
  other transactions hold locked while the claim searches.
\<close>

section \<open>Configuration\<close>

record RuntimeLeaseConfig =
  cfg_OfferTTL :: gotime
  cfg_LeaseTTL :: gotime
  cfg_AttemptTTL :: gotime
  cfg_HeartbeatTTL :: gotime

definition DefaultRuntimeLeaseConfig :: RuntimeLeaseConfig where
  "DefaultRuntimeLeaseConfig =
     \<lparr>cfg_OfferTTL = RuntimeOfferTTLSeconds * second, cfg_LeaseTTL = RuntimeLeaseTTLSeconds * second,
      cfg_AttemptTTL = 30 * 60 * second, cfg_HeartbeatTTL = 2 * 60 * second\<rparr>"

definition normalizeRuntimeLeaseConfig :: "RuntimeLeaseConfig \<Rightarrow> RuntimeLeaseConfig" where
  "normalizeRuntimeLeaseConfig c =
     (let d = DefaultRuntimeLeaseConfig in
      \<lparr>cfg_OfferTTL = (if cfg_OfferTTL c = 0 then cfg_OfferTTL d else cfg_OfferTTL c),
       cfg_LeaseTTL = (if cfg_LeaseTTL c = 0 then cfg_LeaseTTL d else cfg_LeaseTTL c),
       cfg_AttemptTTL = (if cfg_AttemptTTL c = 0 then cfg_AttemptTTL d else cfg_AttemptTTL c),
       cfg_HeartbeatTTL = (if cfg_HeartbeatTTL c = 0 then cfg_HeartbeatTTL d else cfg_HeartbeatTTL c)\<rparr>)"

definition validRuntimeLeaseDuration :: "gotime \<Rightarrow> gotime \<Rightarrow> bool" where
  "validRuntimeLeaseDuration value maximum \<longleftrightarrow>
     millisecond \<le> value \<and> value \<le> maximum \<and> value mod millisecond = 0"

definition validRuntimeLeaseConfig :: "RuntimeLeaseConfig \<Rightarrow> bool" where
  "validRuntimeLeaseConfig c \<longleftrightarrow>
     validRuntimeLeaseDuration (cfg_OfferTTL c) (5 * 60 * second) \<and>
     validRuntimeLeaseDuration (cfg_LeaseTTL c) (60 * 60 * second) \<and>
     validRuntimeLeaseDuration (cfg_AttemptTTL c) (24 * 60 * 60 * second) \<and>
     validRuntimeLeaseDuration (cfg_HeartbeatTTL c) (60 * 60 * second)"

definition Milliseconds :: "gotime \<Rightarrow> int" where
  "Milliseconds d = d div millisecond"

definition config_ttls :: "RuntimeLeaseConfig \<Rightarrow> offer_ttls" where
  "config_ttls c =
     \<lparr>ttl_OfferMs = Milliseconds (cfg_OfferTTL c), ttl_LeaseMs = Milliseconds (cfg_LeaseTTL c),
      ttl_AttemptMs = Milliseconds (cfg_AttemptTTL c)\<rparr>"

section \<open>Principals and capabilities\<close>

record RuntimeSessionPrincipal =
  pr_RuntimeSessionID :: uuid
  pr_NodeID :: uuid
  pr_AgentID :: uuid
  pr_CredentialID :: uuid
  pr_WorkerID :: string
  pr_SessionEpoch :: int
  pr_RuntimeContractDigest :: string
  pr_Features :: "string list"
  pr_CoreInstanceID :: uuid
  pr_AttachmentID :: uuid
  pr_DeviceCertificateSerial :: string
  pr_DevicePublicKeyThumbprintSHA256 :: string

record RuntimeInvocationCapability =
  ic_Audience :: string
  ic_RunID :: uuid
  ic_AttemptID :: uuid
  ic_LeaseID :: uuid
  ic_FencingToken :: int
  ic_AgentID :: uuid
  ic_CredentialID :: uuid
  ic_NodeID :: uuid
  ic_WorkerID :: string
  ic_RuntimeSessionID :: uuid
  ic_InputSHA256 :: bytes
  ic_IssuedAt :: gotime
  ic_ExpiresAt :: gotime

record RuntimeRunAuthorityWire =
  au_PrincipalScopeID :: string
  au_Source :: string
  au_ExecutionProfile :: string
  au_BrowserInteractionPolicy :: string
  au_BrowserInteractionPolicyGeneration :: int
  au_BrowserMutationOrigins :: "string list option"
  au_BrowserMutationOriginsSHA256 :: string

record lease_env =
  le_render :: "jmap \<Rightarrow> bytes"
  le_decode_object :: "bytes \<Rightarrow> (jmap option \<times> bytes) option"
  le_canonicalize :: "jmap \<Rightarrow> go_error + bytes"
  le_sha256 :: "bytes \<Rightarrow> bytes"
  le_decode_authority :: "json \<Rightarrow> go_error + RuntimeRunAuthorityWire"
  le_validate_policy :: "string \<Rightarrow> string list option \<Rightarrow> go_error + string"
  le_skill_assignment :: "json option \<Rightarrow> string list \<Rightarrow> go_error option"
  le_mcp_assignment :: "json option \<Rightarrow> string list \<Rightarrow> go_error option"
  le_compatible_providers :: "string list \<Rightarrow> string list"
  le_held :: "uuid \<Rightarrow> bool"

record RuntimeLeaseService =
  svc_repository :: bool
  svc_coreInstanceID :: uuid
  svc_issuer :: "(RuntimeInvocationCapability \<Rightarrow> go_error + string \<times> string) option"
  svc_config :: RuntimeLeaseConfig

type_synonym 'a lease_tx = "(runtime_db, go_error, 'a) tx"

abbreviation "RuntimeLeaseErrorValidationFailed \<equiv> ''VALIDATION_FAILED''"
abbreviation "RuntimeLeaseErrorIdentityMismatch \<equiv> ''LEASE_IDENTITY_MISMATCH''"
abbreviation "RuntimeLeaseErrorStaleLease \<equiv> ''STALE_LEASE''"
abbreviation "RuntimeLeaseErrorLeaseExpired \<equiv> ''LEASE_EXPIRED''"
abbreviation "RuntimeLeaseErrorNodeAtCapacity \<equiv> ''NODE_AT_CAPACITY''"
abbreviation "RuntimeLeaseErrorRunTerminal \<equiv> ''RUN_ALREADY_TERMINAL''"
abbreviation "RuntimeLeaseErrorCancelRequested \<equiv> ''RUN_CANCEL_REQUESTED''"

abbreviation lease_one :: "RuntimeErrorCode \<Rightarrow> (runtime_db, 'a) query \<Rightarrow> 'a lease_tx" where
  "lease_one code q \<equiv> tx_one (LeaseError code (Some ErrNoRows)) q"

abbreviation lease_guard :: "bool \<Rightarrow> RuntimeErrorCode \<Rightarrow> unit lease_tx" where
  "lease_guard b code \<equiv> tx_guard b (LeaseError code None)"

definition tx_err :: "'e option \<Rightarrow> ('s, 'e, unit) tx" where
  "tx_err r = (case r of None \<Rightarrow> tx_return () | Some e \<Rightarrow> tx_fail e)"

lemma tx_err_Inr [tx_simps]: "tx_err r s = Inr v \<longleftrightarrow> r = None \<and> v = ((), s)"
  by (auto simp: tx_err_def tx_return_def tx_fail_def split: option.splits)

section \<open>Guards\<close>

definition validRuntimeIdentityText :: "string \<Rightarrow> nat \<Rightarrow> nat \<Rightarrow> bool" where
  "validRuntimeIdentityText value minRunes maxRunes \<longleftrightarrow>
     ValidString value \<and> value = TrimSpace value \<and> minRunes \<le> RuneCount value \<and> RuneCount value \<le> maxRunes"

text \<open>An odd number of digits is accepted too, because a zero is put in front for the second try.\<close>

definition validCertificateSerial :: "string \<Rightarrow> bool" where
  "validCertificateSerial value \<longleftrightarrow>
     1 \<le> length value \<and> length value \<le> 128 \<and> list_all is_lower_hex value"

definition validateOperation :: "RuntimeLeaseService \<Rightarrow> RuntimeSessionPrincipal \<Rightarrow> go_error option" where
  "validateOperation s p =
     err_if (\<not> svc_repository s \<or> svc_coreInstanceID s = uuid_Nil \<or> pr_RuntimeSessionID p = uuid_Nil \<or>
         pr_NodeID p = uuid_Nil \<or> pr_AgentID p = uuid_Nil \<or> pr_CredentialID p = uuid_Nil \<or>
         pr_AttachmentID p = uuid_Nil \<or> \<not> runtimeWireContractSupported (pr_RuntimeContractDigest p) \<or>
         pr_SessionEpoch p < 1 \<or> pr_CoreInstanceID p \<noteq> svc_coreInstanceID s \<or>
         \<not> validRuntimeIdentityText (pr_WorkerID p) 1 200 \<or>
         \<not> validCertificateSerial (pr_DeviceCertificateSerial p) \<or>
         \<not> validSHA256Hex (pr_DevicePublicKeyThumbprintSHA256 p) \<or> \<not> validRuntimeLeaseConfig (svc_config s))
       (LeaseError RuntimeLeaseErrorValidationFailed None)"

definition validRuntimeCapacityReport :: "int \<Rightarrow> int \<Rightarrow> bool" where
  "validRuntimeCapacityReport capacity inflight \<longleftrightarrow>
     0 \<le> capacity \<and> capacity \<le> RuntimeMaximumNodeCapacity \<and>
     0 \<le> inflight \<and> inflight \<le> RuntimeMaximumNodeCapacity"

definition validatePrincipalAttemptIdentity :: "RuntimeSessionPrincipal \<Rightarrow> AttemptIdentity \<Rightarrow> go_error option" where
  "validatePrincipalAttemptIdentity p i =
     err_if (ai_AgentID i \<noteq> pr_AgentID p \<or> ai_NodeID i \<noteq> pr_NodeID p \<or>
         ai_RuntimeSessionID i \<noteq> pr_RuntimeSessionID p \<or> ai_WorkerID i \<noteq> pr_WorkerID p)
       (LeaseError RuntimeLeaseErrorIdentityMismatch None)"

definition rejectCanceledOrTerminalRun :: "RunRow \<Rightarrow> go_error option" where
  "rejectCanceledOrTerminalRun run =
     (if r_CancelRequestID run \<noteq> None then Some (LeaseError RuntimeLeaseErrorCancelRequested None)
      else err_if (r_Status run \<noteq> RuntimeRunRunning \<or> r_TerminalEventID run \<noteq> None \<or>
               r_DispatchState run = RuntimeDispatchTerminal \<or> r_DispatchState run = RuntimeDispatchDeadLetter)
             (LeaseError RuntimeLeaseErrorRunTerminal None))"

definition runOwnsAttempt :: "RunRow \<Rightarrow> AttemptIdentity \<Rightarrow> uuid \<Rightarrow> bool" where
  "runOwnsAttempt run i credentialID \<longleftrightarrow>
     ptr_eq (r_ActiveAttemptID run) (ai_AttemptID i) \<and> ptr_eq (r_LeaseID run) (ai_LeaseID i) \<and>
     r_FencingToken run = ai_FencingToken i \<and> ptr_eq (r_RuntimeNodeID run) (ai_NodeID i) \<and>
     ptr_eq (r_RuntimeSessionID run) (ai_RuntimeSessionID i) \<and> ptr_eq (r_LeaseTokenID run) credentialID \<and>
     ptr_eq (r_RuntimeWorkerID run) (ai_WorkerID i)"

definition attemptMatchesLeaseIdentity :: "AttemptRow \<Rightarrow> RuntimeSessionPrincipal \<Rightarrow> AttemptIdentity \<Rightarrow> bool" where
  "attemptMatchesLeaseIdentity a p i \<longleftrightarrow>
     a_ID a = ai_AttemptID i \<and> a_RunID a = ai_RunID i \<and> a_AgentID a = ai_AgentID i \<and>
     a_ExecutorType a = ''runtime'' \<and> a_LeaseID a = ai_LeaseID i \<and> a_FencingToken a = ai_FencingToken i \<and>
     ptr_eq (a_RuntimeTokenID a) (pr_CredentialID p) \<and> ptr_eq (a_NodeID a) (ai_NodeID i) \<and>
     ptr_eq (a_RuntimeSessionID a) (ai_RuntimeSessionID i) \<and> ptr_eq (a_RuntimeWorkerID a) (ai_WorkerID i)"

definition leaseOfferExpired :: "gotime \<Rightarrow> RunRow \<Rightarrow> AttemptRow \<Rightarrow> bool" where
  "leaseOfferExpired now run a \<longleftrightarrow>
     \<not> now < a_OfferExpiresAt a \<or> \<not> now < a_AttemptDeadlineAt a \<or> \<not> sql_gt (r_RunDeadlineAt run) now"

definition executionLeaseExpired :: "gotime \<Rightarrow> RunRow \<Rightarrow> AttemptRow \<Rightarrow> bool" where
  "executionLeaseExpired now run a \<longleftrightarrow>
     \<not> now < a_LeaseExpiresAt a \<or> \<not> now < a_AttemptDeadlineAt a \<or>
     \<not> sql_gt (r_LeaseExpiresAt run) now \<or> \<not> sql_gt (r_RunDeadlineAt run) now"

definition confirmedPayload :: "AttemptIdentity \<Rightarrow> AttemptRow \<Rightarrow> RunAssignmentConfirmedPayload" where
  "confirmedPayload i a =
     \<lparr>cnf_AttemptIdentity = i, cnf_AttemptNo = (case a_AttemptNo a of None \<Rightarrow> 0 | Some n \<Rightarrow> n),
      cnf_LeaseExpiresAt = a_LeaseExpiresAt a\<rparr>"

definition isFinishedUnacceptedOffer :: "AttemptRow \<Rightarrow> bool" where
  "isFinishedUnacceptedOffer a \<longleftrightarrow>
     a_FinishedAt a \<noteq> None \<and> a_AcceptedAt a = None \<and> a_AttemptNo a = None \<and>
     (a_Outcome a = Some ''offer_rejected'' \<or> a_Outcome a = Some ''offer_expired'')"

definition runtimeLeaseDispatchState :: "string \<Rightarrow> go_error + string" where
  "runtimeLeaseDispatchState v =
     (if validRuntimeDispatchState v then Inr v else Inl (LeaseError RuntimeLeaseErrorStaleLease None))"

section \<open>Cluster gate\<close>

abbreviation "RuntimeClusterNewRun \<equiv> ''new_run''"
abbreviation "RuntimeClusterNewSession \<equiv> ''new_session''"
abbreviation "RuntimeClusterClaim \<equiv> ''claim''"

definition RequireRuntimeClusterOperation :: "string \<Rightarrow> unit lease_tx" where
  "RequireRuntimeClusterOperation operation = (\<lambda>d.
     case db_cluster_mode d of
       None \<Rightarrow> Inl (HTTPError 503 ''SERVICE_UNAVAILABLE'' ''runtime cluster is unavailable'')
     | Some mode \<Rightarrow>
         (let allowed = ((mode = ''normal'' \<or> mode = ''draining'' \<and> operation \<noteq> RuntimeClusterNewRun) \<and>
                mode \<noteq> ''hard_maintenance'' \<and>
                (operation = RuntimeClusterNewRun \<or> operation = RuntimeClusterNewSession \<or>
                 operation = RuntimeClusterClaim))
          in if allowed then Inr ((), d)
             else Inl (HTTPError 503 ''SERVICE_UNAVAILABLE''
                         ''runtime is temporarily unavailable during maintenance'')))"

section \<open>Principal locks\<close>

definition lockPrincipal ::
    "RuntimeLeaseService \<Rightarrow> RuntimeSessionPrincipal \<Rightarrow> gotime \<Rightarrow> AttachmentRow lease_tx" where
  "lockPrincipal s p now =
     tx_bind (lease_one RuntimeLeaseErrorIdentityMismatch
        (LockRuntimeSessionForPrincipalValidation (pr_RuntimeSessionID p) (pr_NodeID p) (pr_AgentID p)
           (pr_CredentialID p) (pr_WorkerID p) (svc_coreInstanceID s))) (\<lambda>session.
     tx_bind (lease_guard (s_SessionEpoch session = pr_SessionEpoch p \<and>
         s_DeviceCertificateSerial session = pr_DeviceCertificateSerial p \<and>
         s_RuntimeContractDigest session = pr_RuntimeContractDigest p) RuntimeLeaseErrorIdentityMismatch) (\<lambda>_.
     tx_bind (lease_one RuntimeLeaseErrorIdentityMismatch
        (LockRuntimeNodeForPrincipalValidation (pr_NodeID p) (pr_DeviceCertificateSerial p)
           (pr_DevicePublicKeyThumbprintSHA256 p))) (\<lambda>node.
     tx_bind (lease_one RuntimeLeaseErrorIdentityMismatch
        (LockRuntimeCredentialForPrincipalValidation (pr_CredentialID p) (pr_AgentID p) now)) (\<lambda>credential.
     tx_bind (lease_guard (ptr_eq (t_AgentID credential) (pr_AgentID p) \<and> n_ID node = pr_NodeID p \<and>
         n_RuntimeContractDigest node = pr_RuntimeContractDigest p) RuntimeLeaseErrorIdentityMismatch) (\<lambda>_.
     lease_one RuntimeLeaseErrorIdentityMismatch
       (LockRuntimeSessionAttachmentForPrincipalValidation (pr_AttachmentID p) (pr_RuntimeSessionID p)
          (svc_coreInstanceID s)))))))"

definition lockOfferReleasePrincipal ::
    "RuntimeLeaseService \<Rightarrow> RuntimeSessionPrincipal \<Rightarrow> gotime \<Rightarrow> unit lease_tx" where
  "lockOfferReleasePrincipal s p now =
     tx_bind (lease_one RuntimeLeaseErrorIdentityMismatch
        (LockRuntimeSessionForOfferRelease (pr_RuntimeSessionID p) (pr_NodeID p) (pr_AgentID p)
           (pr_CredentialID p) (pr_WorkerID p) (svc_coreInstanceID s))) (\<lambda>session.
     tx_bind (lease_guard (s_SessionEpoch session = pr_SessionEpoch p \<and>
         s_DeviceCertificateSerial session = pr_DeviceCertificateSerial p \<and>
         s_Status session \<in> {''active'', ''draining'', ''offline'', ''closed''})
         RuntimeLeaseErrorIdentityMismatch) (\<lambda>_.
     tx_bind (lease_one RuntimeLeaseErrorIdentityMismatch
        (LockRuntimeNodeForPrincipalValidation (pr_NodeID p) (pr_DeviceCertificateSerial p)
           (pr_DevicePublicKeyThumbprintSHA256 p))) (\<lambda>node.
     tx_bind (lease_one RuntimeLeaseErrorIdentityMismatch
        (LockRuntimeCredentialForPrincipalValidation (pr_CredentialID p) (pr_AgentID p) now)) (\<lambda>credential.
     tx_bind (lease_guard (n_ID node = pr_NodeID p \<and> ptr_eq (t_AgentID credential) (pr_AgentID p))
         RuntimeLeaseErrorIdentityMismatch) (\<lambda>_.
     tx_bind (lease_one RuntimeLeaseErrorIdentityMismatch
        (LockRuntimeSessionAttachmentForOfferRelease (pr_AttachmentID p) (pr_RuntimeSessionID p)
           (svc_coreInstanceID s) (s_Status session = ''offline'' \<or> s_Status session = ''closed''))) (\<lambda>_.
     tx_return ()))))))"

definition lockLeaseMutation ::
    "RuntimeSessionPrincipal \<Rightarrow> AttemptIdentity \<Rightarrow> (RunRow \<times> AttemptRow) lease_tx" where
  "lockLeaseMutation p i =
     tx_bind (lease_one RuntimeLeaseErrorStaleLease (LockRunForLeaseMutation (ai_RunID i))) (\<lambda>run.
     tx_bind (lease_guard (r_AgentID run = pr_AgentID p \<and> ai_AgentID i = r_AgentID run)
         RuntimeLeaseErrorIdentityMismatch) (\<lambda>_.
     tx_bind (lease_one RuntimeLeaseErrorStaleLease
        (LockRuntimeRunAttemptForLeaseMutation (ai_RunID i) (ai_AttemptID i) (ai_LeaseID i)
           (ai_FencingToken i) (pr_RuntimeSessionID p) (pr_NodeID p) (pr_CredentialID p) (pr_WorkerID p))) (\<lambda>attempt.
     tx_bind (lease_guard (a_AgentID attempt = pr_AgentID p) RuntimeLeaseErrorIdentityMismatch) (\<lambda>_.
     tx_bind (lease_guard (attemptMatchesLeaseIdentity attempt p i) RuntimeLeaseErrorStaleLease) (\<lambda>_.
     tx_return (run, attempt))))))"

section \<open>Giving an offer back\<close>

record runtimeOfferEvidence =
  oe_RunID :: uuid
  oe_AttemptID :: uuid
  oe_LeaseID :: uuid
  oe_FencingToken :: int

definition offerEvidenceFromAttempt :: "AttemptRow \<Rightarrow> runtimeOfferEvidence" where
  "offerEvidenceFromAttempt a =
     \<lparr>oe_RunID = a_RunID a, oe_AttemptID = a_ID a, oe_LeaseID = a_LeaseID a, oe_FencingToken = a_FencingToken a\<rparr>"

definition hex_digit :: "nat \<Rightarrow> char" where
  "hex_digit n = char_of (if n < 10 then 48 + n else 87 + n)"

definition uuid_hex :: "uuid \<Rightarrow> string" where
  "uuid_hex u = map (\<lambda>i. hex_digit (unat u div 16 ^ (31 - i) mod 16)) [0..<32]"

definition uuid_String :: "uuid \<Rightarrow> string" where
  "uuid_String u =
     (let h = uuid_hex u in
      take 8 h @ ''-'' @ take 4 (drop 8 h) @ ''-'' @ take 4 (drop 12 h) @ ''-'' @ take 4 (drop 16 h) @ ''-'' @
      drop 20 h)"

text \<open>The RFC 8785 form of an object with one member whose value is a UUID string.\<close>

definition signal_payload :: "string \<Rightarrow> uuid \<Rightarrow> bytes" where
  "signal_payload key u =
     ''{'' @ [CHR 0x22] @ key @ [CHR 0x22] @ '':'' @ [CHR 0x22] @ uuid_String u @ [CHR 0x22] @ ''}''"

definition createRuntimeNodeCapacityAvailableSignal ::
    "uuid \<Rightarrow> uuid \<Rightarrow> uuid \<Rightarrow> gotime \<Rightarrow> unit lease_tx" where
  "createRuntimeNodeCapacityAvailableSignal agentID nodeID runID now =
     tx_bind (tx_one ErrNoRows
        (CreateRuntimeSignal ''node.capacity.available'' agentID (Some runID) (signal_payload ''node_id'' nodeID) now))
       (\<lambda>_. tx_return ())"

text \<open>\<open>clk\<close> numbers the readings of the seven statements from 0.\<close>

definition finishAndReleaseOffer ::
    "RuntimeLeaseService \<Rightarrow> RuntimeSessionPrincipal \<Rightarrow> runtimeOfferEvidence \<Rightarrow> string \<Rightarrow> string
       \<Rightarrow> (nat \<Rightarrow> gotime) \<Rightarrow> unit lease_tx" where
  "finishAndReleaseOffer s p e outcome reasonCode clk =
     tx_bind (lease_one RuntimeLeaseErrorStaleLease
        (FinishUnacceptedRunOffer outcome reasonCode (oe_RunID e) (oe_AttemptID e) (oe_LeaseID e)
           (oe_FencingToken e) (pr_RuntimeSessionID p) (pr_NodeID p) (pr_CredentialID p) (pr_WorkerID p)
           (svc_coreInstanceID s) (clk 0))) (\<lambda>_.
     tx_bind (tx_opt (MarkRunAttemptCapacityReleased (oe_RunID e) (oe_AttemptID e) (oe_LeaseID e)
        (oe_FencingToken e) (clk 1))) (\<lambda>released.
     case released of
       None \<Rightarrow> tx_return ()
     | Some capacity \<Rightarrow>
         tx_bind (lease_guard (cap_RuntimeSessionID capacity = pr_RuntimeSessionID p \<and>
             cap_NodeID capacity = pr_NodeID p \<and> \<not> IsZero (cap_SlotAcquiredAt capacity) \<and>
             \<not> IsZero (cap_SlotReleasedAt capacity) \<and>
             \<not> cap_SlotReleasedAt capacity < cap_SlotAcquiredAt capacity) RuntimeLeaseErrorStaleLease) (\<lambda>_.
         tx_bind (lease_one RuntimeLeaseErrorStaleLease
            (ReleaseRuntimeSessionSlot (cap_RuntimeSessionID capacity) (clk 2))) (\<lambda>_.
         tx_bind (lease_one RuntimeLeaseErrorStaleLease
            (ReleaseRuntimeNodeSlot (cap_NodeID capacity) (clk 3))) (\<lambda>_.
         tx_bind (createRuntimeNodeCapacityAvailableSignal (pr_AgentID p) (cap_NodeID capacity)
            (oe_RunID e) (clk 4)) (\<lambda>_.
         tx_bind (lease_one RuntimeLeaseErrorStaleLease
            (ResetRunAfterUnacceptedOffer (oe_RunID e) (oe_AttemptID e) (oe_LeaseID e) (oe_FencingToken e))) (\<lambda>_.
         tx_bind (lease_one RuntimeLeaseErrorStaleLease
            (CreateRuntimeSignal ''run.available'' (pr_AgentID p) (Some (oe_RunID e))
               (signal_payload ''run_id'' (oe_RunID e)) (clk 5))) (\<lambda>_.
         tx_return ()))))))))"

section \<open>Assignments\<close>

definition runtimeSessionUsesBrowserProfile :: "string list \<Rightarrow> bool" where
  "runtimeSessionUsesBrowserProfile features \<longleftrightarrow> ''browser_execution_profile.v1'' \<in> set features"

definition runtimeSessionUsesFullBrowserInteraction :: "string list \<Rightarrow> bool" where
  "runtimeSessionUsesFullBrowserInteraction features \<longleftrightarrow> ''browser_full_interaction.v1'' \<in> set features"

definition runtimeSessionInvocationAudience :: "string list \<Rightarrow> string" where
  "runtimeSessionInvocationAudience features =
     (if ''delegated_run_read.v1'' \<in> set features then ''openlinker.runtime.v2/delegation'' else [])"

definition decodeRuntimeJSONObject :: "lease_env \<Rightarrow> bytes \<Rightarrow> go_error + jmap \<times> bytes" where
  "decodeRuntimeJSONObject le raw =
     (if raw = [] \<or> MaxRuntimeMessageBytes < length raw
      then Inl (OtherError ''runtime JSON object is empty or too large'' None)
      else case le_decode_object le raw of
        Some (Some object, rest) \<Rightarrow>
          if \<not> list_all is_json_space rest
          then Inl (OtherError ''runtime JSON object has trailing data'' None)
          else (case le_canonicalize le object of
                  Inl err \<Rightarrow> Inl err
                | Inr canonical \<Rightarrow> Inr (object, canonical))
      | _ \<Rightarrow> Inl (OtherError ''runtime JSON value must be an object'' None))"

definition consumeRuntimeExecutionProfile :: "lease_env \<Rightarrow> jmap \<Rightarrow> string list \<Rightarrow> go_error option" where
  "consumeRuntimeExecutionProfile le metadata features =
     (let browserProfile = runtimeSessionUsesBrowserProfile features;
          fullInteraction = runtimeSessionUsesFullBrowserInteraction features;
          mismatch = LeaseError RuntimeLeaseErrorIdentityMismatch in
      if fullInteraction \<and> \<not> browserProfile then Some (mismatch None)
      else case json_member ''_openlinker_runtime_authority'' (JObject metadata) of
        None \<Rightarrow> err_if browserProfile (mismatch None)
      | Some rawAuthority \<Rightarrow>
         (case le_decode_authority le rawAuthority of
            Inl err \<Rightarrow> Some (mismatch (Some err))
          | Inr authority \<Rightarrow>
              if au_Source authority \<noteq> ''core'' \<or> au_PrincipalScopeID authority = [] \<or>
                 au_ExecutionProfile authority \<noteq> (if browserProfile then ''browser'' else ''standard'')
              then Some (mismatch None)
              else if \<not> browserProfile
              then err_if (au_BrowserInteractionPolicy authority \<noteq> [] \<or>
                       au_BrowserInteractionPolicyGeneration authority \<noteq> 0 \<or>
                       au_BrowserMutationOrigins authority \<noteq> None \<or>
                       au_BrowserMutationOriginsSHA256 authority \<noteq> [])
                     (mismatch None)
              else (case le_validate_policy le (au_BrowserInteractionPolicy authority)
                           (au_BrowserMutationOrigins authority) of
                      Inl policyErr \<Rightarrow> Some (mismatch (Some policyErr))
                    | Inr digest \<Rightarrow>
                        err_if (au_BrowserInteractionPolicyGeneration authority < 1 \<or>
                            digest \<noteq> au_BrowserMutationOriginsSHA256 authority \<or>
                            fullInteraction \<noteq> (au_BrowserInteractionPolicy authority = ''full''))
                          (mismatch None))))"

definition attemptIdentityFromRow :: "AttemptRow \<Rightarrow> go_error + AttemptIdentity" where
  "attemptIdentityFromRow a =
     (case (a_RuntimeWorkerID a, a_RuntimeSessionID a, a_NodeID a, a_RuntimeTokenID a) of
        (Some worker, Some session, Some node, Some _) \<Rightarrow>
          (let identity = \<lparr>ai_RunID = a_RunID a, ai_AttemptID = a_ID a, ai_LeaseID = a_LeaseID a,
                 ai_FencingToken = a_FencingToken a, ai_NodeID = node, ai_AgentID = a_AgentID a,
                 ai_WorkerID = worker, ai_RuntimeSessionID = session\<rparr> in
           case validateAttemptIdentity identity of
             Some err \<Rightarrow> Inl (LeaseError RuntimeLeaseErrorValidationFailed (Some err))
           | None \<Rightarrow> Inr identity)
      | _ \<Rightarrow> Inl (LeaseError RuntimeLeaseErrorStaleLease None))"

definition issue_assignment ::
    "RuntimeLeaseService \<Rightarrow> lease_env \<Rightarrow> RuntimeSessionPrincipal \<Rightarrow> AttemptRow \<Rightarrow> AttemptIdentity \<Rightarrow> jmap \<Rightarrow> bytes
       \<Rightarrow> jmap \<Rightarrow> gotime \<Rightarrow> go_error + RunAssignedPayload" where
  "issue_assignment s le p a identity input canonicalInput metadata runDeadlineAt =
     (case svc_issuer s of
        None \<Rightarrow> Inl (LeaseError RuntimeLeaseErrorValidationFailed None)
      | Some issue \<Rightarrow>
         (case issue \<lparr>ic_Audience = runtimeSessionInvocationAudience (pr_Features p), ic_RunID = a_RunID a,
              ic_AttemptID = a_ID a, ic_LeaseID = a_LeaseID a, ic_FencingToken = a_FencingToken a,
              ic_AgentID = a_AgentID a, ic_CredentialID = pr_CredentialID p, ic_NodeID = pr_NodeID p,
              ic_WorkerID = pr_WorkerID p, ic_RuntimeSessionID = pr_RuntimeSessionID p,
              ic_InputSHA256 = le_sha256 le canonicalInput, ic_IssuedAt = a_OfferedAt a,
              ic_ExpiresAt = a_AttemptDeadlineAt a\<rparr> of
            Inl err \<Rightarrow> Inl err
          | Inr (nodeEnvelope, invocationToken) \<Rightarrow>
              if TrimSpace nodeEnvelope = [] \<or> TrimSpace invocationToken = [] \<or> IsZero runDeadlineAt
              then Inl (LeaseError RuntimeLeaseErrorValidationFailed None)
              else (let payload = \<lparr>asg_AttemptIdentity = identity, asg_OfferNo = a_OfferNo a,
                      asg_OfferExpiresAt = a_OfferExpiresAt a, asg_AttemptDeadlineAt = a_AttemptDeadlineAt a,
                      asg_RunDeadlineAt = runDeadlineAt, asg_Input = Some input, asg_Metadata = Some metadata,
                      asg_NodeEnvelope = nodeEnvelope, asg_AgentInvocationToken = invocationToken\<rparr> in
                    case validateRunAssigned payload of
                      Some err \<Rightarrow> Inl (LeaseError RuntimeLeaseErrorValidationFailed (Some err))
                    | None \<Rightarrow> Inr payload)))"

definition assignmentFromAttempt ::
    "RuntimeLeaseService \<Rightarrow> lease_env \<Rightarrow> RuntimeSessionPrincipal \<Rightarrow> AttemptRow \<Rightarrow> bytes \<Rightarrow> bytes \<Rightarrow> gotime
       \<Rightarrow> go_error + RunAssignedPayload" where
  "assignmentFromAttempt s le p a rawInput rawMetadata runDeadlineAt =
     (case attemptIdentityFromRow a of
        Inl err \<Rightarrow> Inl err
      | Inr identity \<Rightarrow>
     (case validatePrincipalAttemptIdentity p identity of
        Some err \<Rightarrow> Inl err
      | None \<Rightarrow>
      if \<not> attemptMatchesLeaseIdentity a p identity
      then Inl (LeaseError RuntimeLeaseErrorIdentityMismatch None)
      else
     (case decodeRuntimeJSONObject le rawInput of
        Inl err \<Rightarrow> Inl (LeaseError RuntimeLeaseErrorValidationFailed (Some err))
      | Inr (input, canonicalInput) \<Rightarrow>
     (case decodeRuntimeJSONObject le rawMetadata of
        Inl err \<Rightarrow> Inl (LeaseError RuntimeLeaseErrorValidationFailed (Some err))
      | Inr (metadata, _) \<Rightarrow>
     (case consumeRuntimeExecutionProfile le metadata (pr_Features p) of
        Some err \<Rightarrow> Inl err
      | None \<Rightarrow>
     (case le_skill_assignment le (json_member ''_openlinker_skill_packages'' (JObject metadata)) (pr_Features p) of
        Some err \<Rightarrow> Inl (LeaseError RuntimeLeaseErrorValidationFailed (Some err))
      | None \<Rightarrow>
     (case le_mcp_assignment le (json_member ''_openlinker_mcp_bindings'' (JObject metadata)) (pr_Features p) of
        Some err \<Rightarrow> Inl (LeaseError RuntimeLeaseErrorValidationFailed (Some err))
      | None \<Rightarrow> issue_assignment s le p a identity input canonicalInput metadata runDeadlineAt)))))))"

definition assignmentFromExisting ::
    "RuntimeLeaseService \<Rightarrow> lease_env \<Rightarrow> RuntimeSessionPrincipal \<Rightarrow> ExistingOfferRow \<Rightarrow> go_error + RunAssignedPayload" where
  "assignmentFromExisting s le p x =
     (let a = xo_attempt x in
      case r_RunDeadlineAt (xo_run x) of
        None \<Rightarrow> Inl (LeaseError RuntimeLeaseErrorStaleLease None)
      | Some deadline \<Rightarrow>
          if \<not> ptr_eq (a_RuntimeTokenID a) (pr_CredentialID p) \<or> a_RuntimeWorkerID a = None \<or>
             a_RuntimeSessionID a = None \<or> a_NodeID a = None
          then Inl (LeaseError RuntimeLeaseErrorStaleLease None)
          else assignmentFromAttempt s le p
                 (a\<lparr>a_ExecutorType := ''runtime'', a_AttemptNo := None, a_AcceptedAt := None,
                    a_LastRenewedAt := None, a_FinishedAt := None, a_Outcome := None, a_ErrorCode := None,
                    a_SlotAcquiredAt := None, a_SlotReleasedAt := None, a_ActiveRuntimeSessionID := None,
                    a_RuntimeAttachmentID := None\<rparr>)
                 (r_Input (xo_run x)) (le_render le (xo_metadata x)) deadline)"

section \<open>Operations\<close>

text \<open>
  The transaction of \<open>ClaimOffer\<close>. The readings are: 0 credential lock, 1 to 3 existing offer, 4
  claim, 5 session slot, 6 node slot, 7 offer, 8 mirror; giving an expired offer back reads 9 onwards.
\<close>

definition claim_new_offer ::
    "RuntimeLeaseService \<Rightarrow> lease_env \<Rightarrow> RuntimeSessionPrincipal \<Rightarrow> uuid \<Rightarrow> uuid \<Rightarrow> (nat \<Rightarrow> gotime)
       \<Rightarrow> RunRow \<Rightarrow> RunAssignedPayload option lease_tx" where
  "claim_new_offer s le p attemptID leaseID clk candidate =
     tx_bind (lease_guard (r_AgentID candidate = pr_AgentID p \<and> r_RunDeadlineAt candidate \<noteq> None)
        RuntimeLeaseErrorIdentityMismatch) (\<lambda>_.
     tx_bind (\<lambda>d. Inr (assignment_metadata d candidate, d)) (\<lambda>metadata.
     tx_bind (lease_one RuntimeLeaseErrorNodeAtCapacity
        (ClaimRuntimeSessionSlot (pr_RuntimeSessionID p) (pr_AgentID p) (svc_coreInstanceID s) (clk 5))) (\<lambda>_.
     tx_bind (lease_one RuntimeLeaseErrorNodeAtCapacity (ClaimRuntimeNodeSlot (pr_NodeID p) (clk 6))) (\<lambda>_.
     tx_bind (lease_one RuntimeLeaseErrorStaleLease
        (\<lambda>d. case CreateRuntimeRunOffer attemptID leaseID (svc_coreInstanceID s) (config_ttls (svc_config s))
                  (pr_RuntimeSessionID p) (r_ID candidate) (pr_NodeID p) (pr_CredentialID p) (pr_WorkerID p)
                  (clk 7) d of
                None \<Rightarrow> None
              | Some (a, d') \<Rightarrow> Some ((a, offer_refused d a), d'))) (\<lambda>(attempt, refused).
     tx_bind (tx_guard (\<not> refused) (OtherError ''the database refused the offer'' None)) (\<lambda>_.
     tx_bind (lease_guard (a_ID attempt = attemptID \<and> a_LeaseID attempt = leaseID \<and>
         a_RunID attempt = r_ID candidate) RuntimeLeaseErrorStaleLease) (\<lambda>_.
     tx_bind (lease_one RuntimeLeaseErrorStaleLease
        (MirrorRuntimeRunOffer (a_RunID attempt) (a_ID attempt) (a_LeaseID attempt) (a_FencingToken attempt)
           (pr_RuntimeSessionID p) (pr_NodeID p) (pr_CredentialID p) (pr_WorkerID p) (pr_CoreInstanceID p)
           (clk 8))) (\<lambda>mirrored.
     tx_bind (lease_guard (r_ID mirrored = a_RunID attempt \<and> r_DispatchState mirrored = RuntimeDispatchOffered \<and>
         ptr_eq (r_ActiveAttemptID mirrored) (a_ID attempt) \<and> ptr_eq (r_LeaseID mirrored) (a_LeaseID attempt) \<and>
         r_FencingToken mirrored = a_FencingToken attempt) RuntimeLeaseErrorStaleLease) (\<lambda>_.
     tx_bind (tx_lift (assignmentFromAttempt s le p attempt (r_Input candidate) (le_render le metadata)
         (case r_RunDeadlineAt candidate of Some t \<Rightarrow> t | None \<Rightarrow> 0))) (\<lambda>payload.
     tx_return (Some payload)))))))))))"

definition claim_next_offer ::
    "RuntimeLeaseService \<Rightarrow> lease_env \<Rightarrow> RuntimeSessionPrincipal \<Rightarrow> uuid \<Rightarrow> uuid \<Rightarrow> (nat \<Rightarrow> gotime)
       \<Rightarrow> RunAssignedPayload option lease_tx" where
  "claim_next_offer s le p attemptID leaseID clk =
     tx_bind (tx_opt (LockNextClaimableRuntimeRunForAgent (pr_AgentID p)
        (runtimeSessionUsesBrowserProfile (pr_Features p))
        (runtimeSessionUsesFullBrowserInteraction (pr_Features p))
        (le_compatible_providers le (pr_Features p)) (''mcp_bindings.v1'' \<in> set (pr_Features p)) (le_held le) (clk 4))) (\<lambda>next.
     case next of
       None \<Rightarrow> tx_return None
     | Some candidate \<Rightarrow> claim_new_offer s le p attemptID leaseID clk candidate)"

definition claim_offer_tx ::
    "RuntimeLeaseService \<Rightarrow> lease_env \<Rightarrow> RuntimeSessionPrincipal \<Rightarrow> uuid \<Rightarrow> uuid \<Rightarrow> (nat \<Rightarrow> gotime)
       \<Rightarrow> RunAssignedPayload option lease_tx" where
  "claim_offer_tx s le p attemptID leaseID clk =
     tx_bind (RequireRuntimeClusterOperation RuntimeClusterClaim) (\<lambda>_.
     tx_bind (lockPrincipal s p (clk 0)) (\<lambda>_.
     tx_bind (tx_opt (GetExistingUnacceptedRunOfferForSession (pr_RuntimeSessionID p) (pr_NodeID p)
        (pr_AgentID p) (pr_CredentialID p) (pr_WorkerID p) (clk 1) (clk 2) (clk 3))) (\<lambda>found.
     case found of
       Some existing \<Rightarrow>
         if xo_DatabaseNow existing < a_OfferExpiresAt (xo_attempt existing)
         then tx_bind (tx_lift (assignmentFromExisting s le p existing)) (\<lambda>payload. tx_return (Some payload))
         else tx_bind (finishAndReleaseOffer s p (offerEvidenceFromAttempt (xo_attempt existing))
                ''offer_expired'' ''RUNTIME_OFFER_EXPIRED'' (\<lambda>n. clk (9 + n))) (\<lambda>_.
              claim_next_offer s le p attemptID leaseID clk)
     | None \<Rightarrow> claim_next_offer s le p attemptID leaseID clk)))"

definition run_checked :: "go_error option \<Rightarrow> 'a lease_tx \<Rightarrow> runtime_db \<Rightarrow> (go_error + 'a) \<times> runtime_db" where
  "run_checked err tx d = (case err of Some e \<Rightarrow> (Inl e, d) | None \<Rightarrow> WithTransaction tx d)"

definition ClaimOffer ::
    "RuntimeLeaseService \<Rightarrow> lease_env \<Rightarrow> uuid \<Rightarrow> uuid \<Rightarrow> (nat \<Rightarrow> gotime) \<Rightarrow> RuntimeSessionPrincipal
       \<Rightarrow> runtime_db \<Rightarrow> (go_error + RunAssignedPayload option) \<times> runtime_db" where
  "ClaimOffer s le attemptID leaseID clk p =
     run_checked
       (err_then (validateOperation s p)
          (err_if (svc_issuer s = None) (LeaseError RuntimeLeaseErrorValidationFailed None)))
       (claim_offer_tx s le p attemptID leaseID clk)"

text \<open>Readings of \<open>AckAssignment\<close>: 0 credential lock, 1 run lock, 2 confirmation.\<close>

definition ack_tx ::
    "RuntimeLeaseService \<Rightarrow> RuntimeSessionPrincipal \<Rightarrow> AttemptIdentity \<Rightarrow> (nat \<Rightarrow> gotime)
       \<Rightarrow> RunAssignmentConfirmedPayload lease_tx" where
  "ack_tx s p i clk =
     tx_bind (lockPrincipal s p (clk 0)) (\<lambda>attachment.
     tx_bind (lockLeaseMutation p i) (\<lambda>(run, attempt).
     tx_bind (tx_err (rejectCanceledOrTerminalRun run)) (\<lambda>_.
     if a_AcceptedAt attempt \<noteq> None
     then tx_bind (lease_guard (a_FinishedAt attempt = None \<and>
            (case a_AttemptNo attempt of None \<Rightarrow> False | Some n \<Rightarrow> 1 \<le> n) \<and>
            \<not> IsZero (a_LeaseExpiresAt attempt) \<and> r_DispatchState run = RuntimeDispatchExecuting \<and>
            runOwnsAttempt run i (pr_CredentialID p)) RuntimeLeaseErrorStaleLease) (\<lambda>_.
          tx_return (confirmedPayload i attempt))
     else
     tx_bind (lease_guard (a_FinishedAt attempt = None \<and> r_DispatchState run = RuntimeDispatchOffered \<and>
         runOwnsAttempt run i (pr_CredentialID p)) RuntimeLeaseErrorStaleLease) (\<lambda>_.
     tx_bind (lease_guard (\<not> leaseOfferExpired (clk 1) run attempt) RuntimeLeaseErrorLeaseExpired) (\<lambda>_.
     tx_bind (lease_one RuntimeLeaseErrorLeaseExpired
        (ConfirmRunAssignment (Milliseconds (cfg_LeaseTTL (svc_config s))) (svc_coreInstanceID s)
           (ai_RunID i) (ai_AttemptID i) (ai_LeaseID i) (ai_FencingToken i) (pr_RuntimeSessionID p)
           (pr_NodeID p) (pr_CredentialID p) (pr_WorkerID p) (at_ID attachment) (clk 2))) (\<lambda>accepted.
     tx_bind (lease_guard (attemptMatchesLeaseIdentity accepted p i \<and>
         (case a_AttemptNo accepted of None \<Rightarrow> False | Some n \<Rightarrow> 1 \<le> n) \<and> a_AcceptedAt accepted \<noteq> None \<and>
         \<not> IsZero (a_LeaseExpiresAt accepted) \<and> ptr_eq (a_RuntimeAttachmentID accepted) (at_ID attachment))
         RuntimeLeaseErrorStaleLease) (\<lambda>_.
     tx_bind (lease_one RuntimeLeaseErrorStaleLease
        (MirrorRunConfirmedAssignment (ai_RunID i) (ai_AttemptID i) (ai_LeaseID i) (ai_FencingToken i)
           (pr_RuntimeSessionID p) (pr_NodeID p) (pr_CredentialID p) (pr_WorkerID p) (svc_coreInstanceID s))) (\<lambda>mirrored.
     tx_bind (lease_guard (r_ID mirrored = ai_RunID i \<and> r_DispatchState mirrored = RuntimeDispatchExecuting \<and>
         Some (r_AttemptCount mirrored) = a_AttemptNo accepted) RuntimeLeaseErrorStaleLease) (\<lambda>_.
     tx_return (confirmedPayload i accepted))))))))))"

definition AckAssignment ::
    "RuntimeLeaseService \<Rightarrow> (nat \<Rightarrow> gotime) \<Rightarrow> RuntimeSessionPrincipal \<Rightarrow> RunAssignmentAckPayload
       \<Rightarrow> runtime_db \<Rightarrow> (go_error + RunAssignmentConfirmedPayload) \<times> runtime_db" where
  "AckAssignment s clk p request =
     run_checked
       (err_then (validateOperation s p)
       (err_then (map_option (\<lambda>err. LeaseError RuntimeLeaseErrorValidationFailed (Some err))
            (validateAttemptIdentity (ack_AttemptIdentity request)))
          (validatePrincipalAttemptIdentity p (ack_AttemptIdentity request))))
       (ack_tx s p (ack_AttemptIdentity request) clk)"

text \<open>Readings of \<open>RejectAssignment\<close>: 0 credential lock, 1 onwards giving back.\<close>

definition reject_tx ::
    "RuntimeLeaseService \<Rightarrow> RuntimeSessionPrincipal \<Rightarrow> AttemptIdentity \<Rightarrow> string \<Rightarrow> (nat \<Rightarrow> gotime)
       \<Rightarrow> RunAssignmentRejectedPayload lease_tx" where
  "reject_tx s p i reasonCode clk =
     tx_bind (lockPrincipal s p (clk 0)) (\<lambda>_.
     tx_bind (lockLeaseMutation p i) (\<lambda>(run, attempt).
     if isFinishedUnacceptedOffer attempt
     then tx_bind (tx_lift (runtimeLeaseDispatchState (r_DispatchState run))) (\<lambda>state.
          tx_return \<lparr>rjd_AttemptIdentity = i, rjd_Outcome = ''offer_rejected'', rjd_DispatchState = state\<rparr>)
     else
     tx_bind (tx_err (rejectCanceledOrTerminalRun run)) (\<lambda>_.
     tx_bind (lease_guard (a_AcceptedAt attempt = None \<and> a_FinishedAt attempt = None \<and>
         r_DispatchState run = RuntimeDispatchOffered \<and> runOwnsAttempt run i (pr_CredentialID p))
         RuntimeLeaseErrorStaleLease) (\<lambda>_.
     tx_bind (finishAndReleaseOffer s p (offerEvidenceFromAttempt attempt) ''offer_rejected'' reasonCode
        (\<lambda>n. clk (1 + n))) (\<lambda>_.
     tx_return \<lparr>rjd_AttemptIdentity = i, rjd_Outcome = ''offer_rejected'',
                rjd_DispatchState = RuntimeDispatchPending\<rparr>)))))"

definition RejectAssignment ::
    "RuntimeLeaseService \<Rightarrow> (nat \<Rightarrow> gotime) \<Rightarrow> RuntimeSessionPrincipal \<Rightarrow> RunAssignmentRejectPayload
       \<Rightarrow> runtime_db \<Rightarrow> (go_error + RunAssignmentRejectedPayload) \<times> runtime_db" where
  "RejectAssignment s clk p request =
     run_checked
       (err_then (validateOperation s p)
       (err_then (map_option (\<lambda>err. LeaseError RuntimeLeaseErrorValidationFailed (Some err))
            (validateAssignmentReject request))
       (err_then (err_if (\<not> validRuntimeCapacityReport (rej_Capacity request) (rej_Inflight request))
            (LeaseError RuntimeLeaseErrorValidationFailed None))
          (validatePrincipalAttemptIdentity p (rej_AttemptIdentity request)))))
       (reject_tx s p (rej_AttemptIdentity request) (rej_ReasonCode request) clk)"

text \<open>Readings of \<open>RenewLease\<close>: 0 credential lock, 1 run lock, 2 renewal.\<close>

definition renew_tx ::
    "RuntimeLeaseService \<Rightarrow> RuntimeSessionPrincipal \<Rightarrow> AttemptIdentity \<Rightarrow> (nat \<Rightarrow> gotime)
       \<Rightarrow> RunLeaseRenewedPayload lease_tx" where
  "renew_tx s p i clk =
     tx_bind (lockPrincipal s p (clk 0)) (\<lambda>_.
     tx_bind (lockLeaseMutation p i) (\<lambda>(run, attempt).
     tx_bind (tx_err (rejectCanceledOrTerminalRun run)) (\<lambda>_.
     tx_bind (lease_guard (a_AcceptedAt attempt \<noteq> None \<and> a_AttemptNo attempt \<noteq> None \<and>
         a_FinishedAt attempt = None \<and> r_DispatchState run = RuntimeDispatchExecuting \<and>
         runOwnsAttempt run i (pr_CredentialID p)) RuntimeLeaseErrorStaleLease) (\<lambda>_.
     tx_bind (lease_guard (\<not> executionLeaseExpired (clk 1) run attempt) RuntimeLeaseErrorLeaseExpired) (\<lambda>_.
     tx_bind (lease_one RuntimeLeaseErrorLeaseExpired
        (RenewRuntimeRunAttempt (Milliseconds (cfg_LeaseTTL (svc_config s))) (svc_coreInstanceID s)
           (ai_RunID i) (ai_AttemptID i) (ai_LeaseID i) (ai_FencingToken i) (pr_RuntimeSessionID p)
           (pr_NodeID p) (pr_CredentialID p) (pr_WorkerID p) (clk 2))) (\<lambda>updated.
     tx_bind (lease_guard (attemptMatchesLeaseIdentity updated p i \<and> a_AttemptNo updated \<noteq> None \<and>
         a_AcceptedAt updated \<noteq> None \<and> a_FinishedAt updated = None \<and> \<not> IsZero (a_LeaseExpiresAt updated))
         RuntimeLeaseErrorStaleLease) (\<lambda>_.
     tx_bind (lease_one RuntimeLeaseErrorStaleLease
        (MirrorRunLeaseRenewal (ai_RunID i) (ai_AttemptID i) (ai_LeaseID i) (ai_FencingToken i)
           (svc_coreInstanceID s))) (\<lambda>mirrored.
     tx_bind (lease_guard (r_ID mirrored = ai_RunID i \<and> r_DispatchState mirrored = RuntimeDispatchExecuting \<and>
         r_LeaseExpiresAt mirrored = Some (a_LeaseExpiresAt updated)) RuntimeLeaseErrorStaleLease) (\<lambda>_.
     tx_return \<lparr>rnd_AttemptIdentity = i, rnd_LeaseExpiresAt = a_LeaseExpiresAt updated,
                rnd_PendingCommand = None\<rparr>)))))))))"

definition RenewLease ::
    "RuntimeLeaseService \<Rightarrow> (nat \<Rightarrow> gotime) \<Rightarrow> RuntimeSessionPrincipal \<Rightarrow> RunLeaseRenewPayload
       \<Rightarrow> runtime_db \<Rightarrow> (go_error + RunLeaseRenewedPayload) \<times> runtime_db" where
  "RenewLease s clk p request =
     run_checked
       (err_then (validateOperation s p)
       (err_then (map_option (\<lambda>err. LeaseError RuntimeLeaseErrorValidationFailed (Some err))
            (err_then (validateAttemptIdentity (rnw_AttemptIdentity request))
               (err_if (rnw_LastClientEventSeq request < 0 \<or>
                        \<not> validRuntimeCapacitySnapshot (rnw_Capacity request) (rnw_Inflight request))
                 (verr ''invalid lease renewal''))))
       (err_then (err_if (\<not> validRuntimeCapacityReport (rnw_Capacity request) (rnw_Inflight request))
            (LeaseError RuntimeLeaseErrorValidationFailed None))
          (validatePrincipalAttemptIdentity p (rnw_AttemptIdentity request)))))
       (renew_tx s p (rnw_AttemptIdentity request) clk)"

text \<open>Readings of \<open>ReleaseUnackedOffer\<close>: 0 credential lock, 1 to 3 existing offer, 4 onwards giving back.\<close>

definition release_tx ::
    "RuntimeLeaseService \<Rightarrow> RuntimeSessionPrincipal \<Rightarrow> string \<Rightarrow> (nat \<Rightarrow> gotime) \<Rightarrow> unit lease_tx" where
  "release_tx s p reasonCode clk =
     tx_bind (lockOfferReleasePrincipal s p (clk 0)) (\<lambda>_.
     tx_bind (tx_opt (GetExistingUnacceptedRunOfferForSession (pr_RuntimeSessionID p) (pr_NodeID p)
        (pr_AgentID p) (pr_CredentialID p) (pr_WorkerID p) (clk 1) (clk 2) (clk 3))) (\<lambda>found.
     case found of
       None \<Rightarrow> tx_return ()
     | Some existing \<Rightarrow>
         finishAndReleaseOffer s p (offerEvidenceFromAttempt (xo_attempt existing)) ''offer_rejected'' reasonCode
           (\<lambda>n. clk (4 + n))))"

definition release_reason :: "string list \<Rightarrow> string" where
  "release_reason reason =
     (case reason of [] \<Rightarrow> ''RUNTIME_OFFER_RELEASED''
      | x # _ \<Rightarrow> if TrimSpace x \<noteq> [] then TrimSpace x else ''RUNTIME_OFFER_RELEASED'')"

definition ReleaseUnackedOffer ::
    "RuntimeLeaseService \<Rightarrow> (nat \<Rightarrow> gotime) \<Rightarrow> RuntimeSessionPrincipal \<Rightarrow> string list
       \<Rightarrow> runtime_db \<Rightarrow> (go_error + unit) \<times> runtime_db" where
  "ReleaseUnackedOffer s clk p reason =
     run_checked
       (err_then (validateOperation s p)
       (err_then (err_if (1 < length reason) (LeaseError RuntimeLeaseErrorValidationFailed None))
          (err_if (120 < length (release_reason reason)) (LeaseError RuntimeLeaseErrorValidationFailed None))))
       (release_tx s p (release_reason reason) clk)"

end
