(* ===== verification/Lease_Steps.thy ===== *)
theory Lease_Steps
  imports Lease_Service
begin

text \<open>
  The abstract life of a lease. \<open>lease_step\<close> lists the only ways the lease service changes the
  database: an offer is made and takes one slot of its session and node, an offer is confirmed, a
  confirmed lease is renewed, or an unconfirmed offer is given back together with its slots.
  The refinement lemmas show that every committed transaction of the service is a sequence of these
  steps; the invariants are proved for the steps.
\<close>

section \<open>Abstract steps\<close>

definition offered_run :: "RunRow \<Rightarrow> AttemptRow \<Rightarrow> RunRow" where
  "offered_run r a =
     r\<lparr>r_DispatchState := ''offered'', r_NextAttemptAt := None, r_OfferCount := a_OfferNo a,
       r_LatestAttemptID := Some (a_ID a), r_ActiveAttemptID := Some (a_ID a), r_LeaseID := Some (a_LeaseID a),
       r_FencingToken := a_FencingToken a, r_ExecutorType := Some (a_ExecutorType a),
       r_ActiveCoreInstanceID := Some (a_AttachedCoreInstanceID a), r_RuntimeNodeID := a_NodeID a,
       r_RuntimeWorkerID := a_RuntimeWorkerID a, r_RuntimeSessionID := a_RuntimeSessionID a,
       r_LeaseTokenID := a_RuntimeTokenID a, r_LeaseOfferedAt := Some (a_OfferedAt a),
       r_LeaseAcceptedAt := a_AcceptedAt a, r_LeaseExpiresAt := Some (a_LeaseExpiresAt a),
       r_AttemptDeadlineAt := Some (a_AttemptDeadlineAt a)\<rparr>"

definition confirmed_attempt :: "AttemptRow \<Rightarrow> RunRow \<Rightarrow> int \<Rightarrow> uuid \<Rightarrow> uuid \<Rightarrow> gotime \<Rightarrow> AttemptRow" where
  "confirmed_attempt a r leaseTtlMs core attachmentID now =
     a\<lparr>a_AttemptNo := Some (r_AttemptCount r + 1), a_AcceptedAt := Some now, a_LastRenewedAt := Some now,
       a_LeaseExpiresAt := LEAST_opt [after_ms now leaseTtlMs, a_AttemptDeadlineAt a] [r_RunDeadlineAt r],
       a_AttachedCoreInstanceID := core, a_RuntimeAttachmentID := Some attachmentID\<rparr>"

definition executing_run :: "RunRow \<Rightarrow> AttemptRow \<Rightarrow> RunRow" where
  "executing_run r a =
     r\<lparr>r_DispatchState := ''executing'', r_AttemptCount := r_AttemptCount r + 1,
       r_ActiveCoreInstanceID := Some (a_AttachedCoreInstanceID a), r_LeaseAcceptedAt := a_AcceptedAt a,
       r_LeaseExpiresAt := Some (a_LeaseExpiresAt a)\<rparr>"

definition renewed_attempt :: "AttemptRow \<Rightarrow> RunRow \<Rightarrow> int \<Rightarrow> uuid \<Rightarrow> gotime \<Rightarrow> AttemptRow" where
  "renewed_attempt a r leaseTtlMs core now =
     a\<lparr>a_LastRenewedAt := Some now,
       a_LeaseExpiresAt := max (a_LeaseExpiresAt a)
         (LEAST_opt [after_ms now leaseTtlMs, a_AttemptDeadlineAt a] [r_RunDeadlineAt r]),
       a_AttachedCoreInstanceID := core\<rparr>"

definition renewed_run :: "RunRow \<Rightarrow> AttemptRow \<Rightarrow> RunRow" where
  "renewed_run r a =
     r\<lparr>r_ActiveCoreInstanceID := Some (a_AttachedCoreInstanceID a), r_LeaseExpiresAt := Some (a_LeaseExpiresAt a)\<rparr>"

definition released_attempt :: "AttemptRow \<Rightarrow> string \<Rightarrow> string \<Rightarrow> gotime \<Rightarrow> gotime \<Rightarrow> AttemptRow" where
  "released_attempt a outcome errorCode finished released =
     a\<lparr>a_FinishedAt := Some finished, a_Outcome := Some outcome, a_ErrorCode := Some errorCode, a_ErrorDetailRedacted := None,
       a_SlotReleasedAt := Some released, a_ActiveRuntimeSessionID := None\<rparr>"

definition reset_run :: "RunRow \<Rightarrow> RunRow" where
  "reset_run r =
     r\<lparr>r_DispatchState := ''pending'', r_NextAttemptAt := None, r_ActiveAttemptID := None, r_LeaseID := None,
       r_ExecutorType := None, r_ActiveCoreInstanceID := None, r_RuntimeNodeID := None,
       r_RuntimeWorkerID := None, r_RuntimeSessionID := None, r_LeaseTokenID := None,
       r_LeaseOfferedAt := None, r_LeaseAcceptedAt := None, r_LeaseExpiresAt := None,
       r_AttemptDeadlineAt := None\<rparr>"

definition open_lease :: "RunRow \<Rightarrow> AttemptRow \<Rightarrow> bool" where
  "open_lease r a \<longleftrightarrow>
     a_RunID a = r_ID r \<and> a_ExecutorType a = ''runtime'' \<and> a_FinishedAt a = None \<and>
     r_Status r = ''running'' \<and> run_leads r a \<and> run_mirrors_owner r a"

inductive lease_step :: "runtime_db \<Rightarrow> runtime_db \<Rightarrow> bool" where
  Offer: "\<lbrakk> find_run runID d = Some r; find_session sessionID d = Some s;
      find_node (s_NodeID s) d = Some n; s_Inflight s < s_Capacity s; n_Inflight n < n_Capacity n;
      s_Status s = ''active''; n_Status n = ''active''; run_dispatchable r now; ttls_in_range ttl;
      \<not> (\<exists>b \<in> set (db_attempts d). outstanding_offer sessionID b);
      a = offer_row attemptID leaseID core ttl now r s; \<not> attempt_conflict d a;
      s' = s\<lparr>s_Inflight := s_Inflight s + 1, s_HeartbeatAt := t1, s_UpdatedAt := t1\<rparr>;
      n' = n\<lparr>n_Inflight := n_Inflight n + 1, n_LastSeenAt := Some t2, n_UpdatedAt := t2\<rparr> \<rbrakk> \<Longrightarrow>
    lease_step d (d\<lparr>db_sessions := update_row s_ID sessionID (\<lambda>_. s') (db_sessions d),
                    db_nodes := update_row n_ID (s_NodeID s) (\<lambda>_. n') (db_nodes d),
                    db_attempts := insert_row a (db_attempts d),
                    db_runs := update_row r_ID runID (\<lambda>_. offered_run r a) (db_runs d)\<rparr>)"
| Confirm: "\<lbrakk> find_run runID d = Some r; find_attempt attemptID d = Some a; a_RunID a = runID;
      open_lease r a; r_DispatchState r = ''offered''; a_AcceptedAt a = None;
      now < a_OfferExpiresAt a; now < a_AttemptDeadlineAt a; sql_gt (r_RunDeadlineAt r) now;
      r_AttemptCount r < r_MaxAttempts r; 1 \<le> leaseTtlMs;
      a' = confirmed_attempt a r leaseTtlMs core attachmentID now \<rbrakk> \<Longrightarrow>
    lease_step d (d\<lparr>db_attempts := update_row a_ID attemptID (\<lambda>_. a') (db_attempts d),
                    db_runs := update_row r_ID runID (\<lambda>_. executing_run r a') (db_runs d)\<rparr>)"
| Renew: "\<lbrakk> find_run runID d = Some r; find_attempt attemptID d = Some a; a_RunID a = runID;
      open_lease r a; r_DispatchState r = ''executing''; a_AcceptedAt a \<noteq> None;
      now < a_LeaseExpiresAt a; now < a_AttemptDeadlineAt a; sql_gt (r_RunDeadlineAt r) now;
      1 \<le> leaseTtlMs; a' = renewed_attempt a r leaseTtlMs core now \<rbrakk> \<Longrightarrow>
    lease_step d (d\<lparr>db_attempts := update_row a_ID attemptID (\<lambda>_. a') (db_attempts d),
                    db_runs := update_row r_ID runID (\<lambda>_. renewed_run r a') (db_runs d)\<rparr>)"
| GiveBack: "\<lbrakk> find_run runID d = Some r; find_attempt attemptID d = Some a; a_RunID a = runID;
      open_lease r a; r_DispatchState r = ''offered''; a_AcceptedAt a = None; a_AttemptNo a = None;
      r_LatestAttemptID r = Some attemptID;
      a_SlotReleasedAt a = None; a_ActiveRuntimeSessionID a = Some sessionID; a_NodeID a = Some nodeID;
      find_session sessionID d = Some s; find_node nodeID d = Some n; 0 < s_Inflight s; 0 < n_Inflight n;
      outcome = ''offer_rejected'' \<or> outcome = ''offer_expired'';
      a' = released_attempt a outcome errorCode t1 t2;
      s' = s\<lparr>s_Inflight := s_Inflight s - 1, s_UpdatedAt := t3\<rparr>;
      n' = n\<lparr>n_Inflight := n_Inflight n - 1, n_UpdatedAt := t4\<rparr> \<rbrakk> \<Longrightarrow>
    lease_step d (d\<lparr>db_sessions := update_row s_ID sessionID (\<lambda>_. s') (db_sessions d),
                    db_nodes := update_row n_ID nodeID (\<lambda>_. n') (db_nodes d),
                    db_attempts := update_row a_ID attemptID (\<lambda>_. a') (db_attempts d),
                    db_runs := update_row r_ID runID (\<lambda>_. reset_run r) (db_runs d),
                    db_signals := db_signals d @ signals\<rparr>)"

section \<open>Statements that only lock\<close>

lemma lock_statements_keep:
  "LockRuntimeSessionForPrincipalValidation a b c e f g d = Some (x1, d') \<Longrightarrow> d' = d"
  "LockRuntimeNodeForPrincipalValidation a2 b2 c2 d = Some (x2, d') \<Longrightarrow> d' = d"
  "LockRuntimeCredentialForPrincipalValidation a3 b3 c3 d = Some (x3, d') \<Longrightarrow> d' = d"
  "LockRuntimeSessionAttachmentForPrincipalValidation a4 b4 c4 d = Some (x4, d') \<Longrightarrow> d' = d"
  "LockRuntimeSessionForOfferRelease a b c e f g d = Some (x5, d') \<Longrightarrow> d' = d"
  "LockRuntimeSessionAttachmentForOfferRelease a6 b6 c6 e6 d = Some (x6, d') \<Longrightarrow> d' = d"
  "LockRunForLeaseMutation a7 d = Some (x7, d') \<Longrightarrow> d' = d"
  "LockRuntimeRunAttemptForLeaseMutation a8 b8 c8 e8 f8 g8 h8 i8 d = Some (x8, d') \<Longrightarrow> d' = d"
  "LockNextClaimableRuntimeRunForAgent a9 b9 c9 e9 f9 h9 g9 d = Some (x9, d') \<Longrightarrow> d' = d"
  by (auto simp: LockRuntimeSessionForPrincipalValidation_def LockRuntimeNodeForPrincipalValidation_def
      LockRuntimeCredentialForPrincipalValidation_def LockRuntimeSessionAttachmentForPrincipalValidation_def
      LockRuntimeSessionForOfferRelease_def LockRuntimeSessionAttachmentForOfferRelease_def
      LockRunForLeaseMutation_def LockRuntimeRunAttemptForLeaseMutation_def
      LockNextClaimableRuntimeRunForAgent_def split: option.splits if_splits)

lemma GetExisting_SomeD:
  assumes "GetExistingUnacceptedRunOfferForSession sid nid ag cid w n1 n2 n3 d = Some (x, d')"
  shows "d' = d" "xo_attempt x \<in> set (db_attempts d)" "find_run (a_RunID (xo_attempt x)) d = Some (xo_run x)"
    "a_AcceptedAt (xo_attempt x) = None" "a_FinishedAt (xo_attempt x) = None"
    "xo_DatabaseNow x = n3" "n2 < a_OfferExpiresAt (xo_attempt x)"
  using assms
  by (auto simp: GetExistingUnacceptedRunOfferForSession_def find_Some_iff split: option.splits if_splits)

lemma lockPrincipal_keeps: "lockPrincipal s p now d = Inr (x, d') \<Longrightarrow> d' = d"
  unfolding lockPrincipal_def
  by (auto simp: tx_simps dest!: lock_statements_keep)

lemma lockOfferReleasePrincipal_keeps: "lockOfferReleasePrincipal s p now d = Inr (x, d') \<Longrightarrow> d' = d"
  unfolding lockOfferReleasePrincipal_def
  by (auto simp: tx_simps dest!: lock_statements_keep)

lemma RequireRuntimeClusterOperation_keeps: "RequireRuntimeClusterOperation operation d = Inr (x, d') \<Longrightarrow> d' = d"
  by (auto simp: RequireRuntimeClusterOperation_def Let_def split: option.splits if_splits)

lemma lockLeaseMutation_SomeD:
  assumes "lockLeaseMutation p i d = Inr ((run, attempt), d')"
  shows "d' = d" "find_run (ai_RunID i) d = Some run" "find_attempt (ai_AttemptID i) d = Some attempt"
    "attemptMatchesLeaseIdentity attempt p i"
  using assms unfolding lockLeaseMutation_def
  by (auto simp: tx_simps LockRunForLeaseMutation_def LockRuntimeRunAttemptForLeaseMutation_def
      split: option.splits if_splits)

section \<open>Statements that write\<close>

lemma ConfirmRunAssignment_SomeD:
  assumes "ConfirmRunAssignment ttl core runID attemptID leaseID fence sid nid cid w xid now d = Some (a', d')"
  obtains a r where "find_attempt attemptID d = Some a" "find_run runID d = Some r" "a_RunID a = runID"
    "open_lease r a" "r_DispatchState r = ''offered''" "a_AcceptedAt a = None" "now < a_OfferExpiresAt a"
    "now < a_AttemptDeadlineAt a" "sql_gt (r_RunDeadlineAt r) now" "r_AttemptCount r < r_MaxAttempts r"
    "1 \<le> ttl" "attempt_key runID attemptID leaseID fence a" "attempt_owner sid nid cid w a"
    "live_principal (r_AgentID r) sid nid cid w core now d"
    "a' = confirmed_attempt a r ttl core xid now" "d' = set_attempt attemptID a' d"
proof -
  from assms obtain a r x where rows: "find_attempt attemptID d = Some a" "find_run runID d = Some r"
    "find_attachment xid d = Some x"
    by (auto simp: ConfirmRunAssignment_def split: option.splits)
  then have keys: "r_ID r = runID" "at_ID x = xid" by (auto dest: find_row_key)
  show ?thesis
    by (rule that[OF rows(1,2)])
       (use assms keys in \<open>auto simp: ConfirmRunAssignment_def rows open_lease_def confirmed_attempt_def
          attempt_key_def Let_def split: if_splits\<close>)
qed

lemma RenewRuntimeRunAttempt_SomeD:
  assumes "RenewRuntimeRunAttempt ttl core runID attemptID leaseID fence sid nid cid w now d = Some (a', d')"
  obtains a r where "find_attempt attemptID d = Some a" "find_run runID d = Some r" "a_RunID a = runID"
    "open_lease r a" "r_DispatchState r = ''executing''" "a_AcceptedAt a \<noteq> None" "now < a_LeaseExpiresAt a"
    "now < a_AttemptDeadlineAt a" "sql_gt (r_RunDeadlineAt r) now" "1 \<le> ttl"
    "r_CancelRequestID r = None" "attempt_key runID attemptID leaseID fence a" "attempt_owner sid nid cid w a"
    "live_principal (r_AgentID r) sid nid cid w core now d"
    "a' = renewed_attempt a r ttl core now" "d' = set_attempt attemptID a' d"
proof -
  from assms obtain a r where rows: "find_attempt attemptID d = Some a" "find_run runID d = Some r"
    by (auto simp: RenewRuntimeRunAttempt_def split: option.splits)
  then have keys: "r_ID r = runID" by (auto dest: find_row_key)
  show ?thesis
    by (rule that[OF rows])
       (use assms keys in \<open>auto simp: RenewRuntimeRunAttempt_def rows open_lease_def renewed_attempt_def
          attempt_key_def Let_def split: if_splits\<close>)
qed

lemma MirrorRunConfirmedAssignment_SomeD:
  assumes "MirrorRunConfirmedAssignment runID attemptID leaseID fence sid nid cid w core d = Some (r', d')"
    "find_run runID d = Some r" "find_attempt attemptID d = Some a"
  shows "r' = executing_run r a" "d' = set_run runID r' d" "a_AttemptNo a = Some (r_AttemptCount r + 1)"
  using assms by (auto simp: MirrorRunConfirmedAssignment_def executing_run_def Let_def split: if_splits)

lemma MirrorRunLeaseRenewal_SomeD:
  assumes "MirrorRunLeaseRenewal runID attemptID leaseID fence core d = Some (r', d')"
    "find_run runID d = Some r" "find_attempt attemptID d = Some a"
  shows "r' = renewed_run r a" "d' = set_run runID r' d"
  using assms by (auto simp: MirrorRunLeaseRenewal_def renewed_run_def Let_def split: if_splits)

lemma confirmed_attempt_simps [simp]:
  "a_ID (confirmed_attempt a r ttl core xid now) = a_ID a"
  "a_RunID (confirmed_attempt a r ttl core xid now) = a_RunID a"
  "a_FencingToken (confirmed_attempt a r ttl core xid now) = a_FencingToken a"
  "a_LeaseID (confirmed_attempt a r ttl core xid now) = a_LeaseID a"
  "a_FinishedAt (confirmed_attempt a r ttl core xid now) = a_FinishedAt a"
  "a_AcceptedAt (confirmed_attempt a r ttl core xid now) = Some now"
  "a_AttemptNo (confirmed_attempt a r ttl core xid now) = Some (r_AttemptCount r + 1)"
  "a_AttemptDeadlineAt (confirmed_attempt a r ttl core xid now) = a_AttemptDeadlineAt a"
  by (simp_all add: confirmed_attempt_def)

lemma renewed_attempt_simps [simp]:
  "a_ID (renewed_attempt a r ttl core now) = a_ID a"
  "a_RunID (renewed_attempt a r ttl core now) = a_RunID a"
  "a_FencingToken (renewed_attempt a r ttl core now) = a_FencingToken a"
  "a_LeaseID (renewed_attempt a r ttl core now) = a_LeaseID a"
  "a_FinishedAt (renewed_attempt a r ttl core now) = a_FinishedAt a"
  "a_AcceptedAt (renewed_attempt a r ttl core now) = a_AcceptedAt a"
  "a_AttemptNo (renewed_attempt a r ttl core now) = a_AttemptNo a"
  "a_AttemptDeadlineAt (renewed_attempt a r ttl core now) = a_AttemptDeadlineAt a"
  by (simp_all add: renewed_attempt_def)

section \<open>Refinement\<close>

text \<open>An acknowledgement either replays a confirmation that is already stored or is one confirmation step.\<close>

lemma ack_tx_InrE:
  assumes "ack_tx s p i clk d = Inr (c, d')"
  obtains (replay) run attempt where
      "d' = d" "find_run (ai_RunID i) d = Some run" "find_attempt (ai_AttemptID i) d = Some attempt"
      "attemptMatchesLeaseIdentity attempt p i" "rejectCanceledOrTerminalRun run = None"
      "a_AcceptedAt attempt \<noteq> None" "a_FinishedAt attempt = None" "r_DispatchState run = ''executing''"
      "runOwnsAttempt run i (pr_CredentialID p)" "c = confirmedPayload i attempt"
    | (confirm) attachmentID run attempt accepted mirrored d1 where
      "find_run (ai_RunID i) d = Some run" "find_attempt (ai_AttemptID i) d = Some attempt"
      "attemptMatchesLeaseIdentity attempt p i" "rejectCanceledOrTerminalRun run = None"
      "runOwnsAttempt run i (pr_CredentialID p)" "c = confirmedPayload i accepted"
      "ConfirmRunAssignment (Milliseconds (cfg_LeaseTTL (svc_config s))) (svc_coreInstanceID s)
           (ai_RunID i) (ai_AttemptID i) (ai_LeaseID i) (ai_FencingToken i) (pr_RuntimeSessionID p)
           (pr_NodeID p) (pr_CredentialID p) (pr_WorkerID p) attachmentID (clk 2) d = Some (accepted, d1)"
      "MirrorRunConfirmedAssignment (ai_RunID i) (ai_AttemptID i) (ai_LeaseID i) (ai_FencingToken i)
           (pr_RuntimeSessionID p) (pr_NodeID p) (pr_CredentialID p) (pr_WorkerID p) (svc_coreInstanceID s) d1
           = Some (mirrored, d')"
proof -
  from assms obtain x d0 where lock: "lockPrincipal s p (clk 0) d = Inr (x, d0)"
    by (auto simp: ack_tx_def tx_bind_Inr)
  then have [simp]: "d0 = d" by (rule lockPrincipal_keeps)
  from assms lock obtain run attempt d2 where mut: "lockLeaseMutation p i d = Inr ((run, attempt), d2)"
    by (auto simp: ack_tx_def tx_bind_Inr)
  then have [simp]: "d2 = d" by (rule lockLeaseMutation_SomeD(1))
  note rows = lockLeaseMutation_SomeD(2-)[OF mut]
  show ?thesis
  proof (cases "a_AcceptedAt attempt = None")
    case False
    with assms lock mut show ?thesis
      by (intro replay[OF _ rows]) (auto simp: ack_tx_def tx_simps)
  next
    case True
    with assms lock mut obtain accepted d1 mirrored where
      "rejectCanceledOrTerminalRun run = None" "runOwnsAttempt run i (pr_CredentialID p)"
      "c = confirmedPayload i accepted"
      "ConfirmRunAssignment (Milliseconds (cfg_LeaseTTL (svc_config s))) (svc_coreInstanceID s)
           (ai_RunID i) (ai_AttemptID i) (ai_LeaseID i) (ai_FencingToken i) (pr_RuntimeSessionID p)
           (pr_NodeID p) (pr_CredentialID p) (pr_WorkerID p) (at_ID x) (clk 2) d = Some (accepted, d1)"
      "MirrorRunConfirmedAssignment (ai_RunID i) (ai_AttemptID i) (ai_LeaseID i) (ai_FencingToken i)
           (pr_RuntimeSessionID p) (pr_NodeID p) (pr_CredentialID p) (pr_WorkerID p) (svc_coreInstanceID s) d1
           = Some (mirrored, d')"
      by (auto simp: ack_tx_def tx_simps)
    with rows show ?thesis by (intro confirm[where attachmentID = "at_ID x"])
  qed
qed

lemma confirm_statements_step:
  assumes conf: "ConfirmRunAssignment ttl core runID attemptID leaseID fence sid nid cid w xid now d = Some (accepted, d1)"
    and mir: "MirrorRunConfirmedAssignment runID attemptID leaseID fence sid nid cid w core d1 = Some (mirrored, d')"
  shows "lease_step d d'"
  using conf
proof (rule ConfirmRunAssignment_SomeD)
  fix a r
  assume a: "find_attempt attemptID d = Some a" and r: "find_run runID d = Some r"
    and acc: "accepted = confirmed_attempt a r ttl core xid now" and d1: "d1 = set_attempt attemptID accepted d"
    and g: "a_RunID a = runID" "open_lease r a" "r_DispatchState r = ''offered''" "a_AcceptedAt a = None"
      "now < a_OfferExpiresAt a" "now < a_AttemptDeadlineAt a" "sql_gt (r_RunDeadlineAt r) now"
      "r_AttemptCount r < r_MaxAttempts r" "1 \<le> ttl"
  have rows: "find_run runID d1 = Some r" "find_attempt attemptID d1 = Some accepted"
    using a r acc d1 by (auto simp: find_row_replace[OF a] find_row_key[OF a])
  from MirrorRunConfirmedAssignment_SomeD[OF mir rows] d1
  have "d' = d\<lparr>db_attempts := update_row a_ID attemptID (\<lambda>_. accepted) (db_attempts d),
      db_runs := update_row r_ID runID (\<lambda>_. executing_run r accepted) (db_runs d)\<rparr>" by simp
  with lease_step.Confirm[OF r a g acc] show ?thesis by simp
qed

lemma ack_tx_step: "ack_tx s p i clk d = Inr (c, d') \<Longrightarrow> d' = d \<or> lease_step d d'"
  by (erule ack_tx_InrE) (auto intro: confirm_statements_step)

lemma renew_tx_InrE:
  assumes "renew_tx s p i clk d = Inr (c, d')"
  obtains run attempt updated mirrored d1 where
      "find_run (ai_RunID i) d = Some run" "find_attempt (ai_AttemptID i) d = Some attempt"
      "attemptMatchesLeaseIdentity attempt p i" "rejectCanceledOrTerminalRun run = None"
      "runOwnsAttempt run i (pr_CredentialID p)" "\<not> executionLeaseExpired (clk 1) run attempt"
      "c = \<lparr>rnd_AttemptIdentity = i, rnd_LeaseExpiresAt = a_LeaseExpiresAt updated, rnd_PendingCommand = None\<rparr>"
      "RenewRuntimeRunAttempt (Milliseconds (cfg_LeaseTTL (svc_config s))) (svc_coreInstanceID s)
           (ai_RunID i) (ai_AttemptID i) (ai_LeaseID i) (ai_FencingToken i) (pr_RuntimeSessionID p)
           (pr_NodeID p) (pr_CredentialID p) (pr_WorkerID p) (clk 2) d = Some (updated, d1)"
      "MirrorRunLeaseRenewal (ai_RunID i) (ai_AttemptID i) (ai_LeaseID i) (ai_FencingToken i)
           (svc_coreInstanceID s) d1 = Some (mirrored, d')"
proof -
  from assms obtain x d0 where lock: "lockPrincipal s p (clk 0) d = Inr (x, d0)"
    by (auto simp: renew_tx_def tx_bind_Inr)
  then have [simp]: "d0 = d" by (rule lockPrincipal_keeps)
  from assms lock obtain run attempt d2 where mut: "lockLeaseMutation p i d = Inr ((run, attempt), d2)"
    by (auto simp: renew_tx_def tx_bind_Inr)
  then have [simp]: "d2 = d" by (rule lockLeaseMutation_SomeD(1))
  from assms lock mut obtain updated d1 mirrored where
    "rejectCanceledOrTerminalRun run = None"
    "runOwnsAttempt run i (pr_CredentialID p)" "\<not> executionLeaseExpired (clk 1) run attempt"
    "c = \<lparr>rnd_AttemptIdentity = i, rnd_LeaseExpiresAt = a_LeaseExpiresAt updated, rnd_PendingCommand = None\<rparr>"
    "RenewRuntimeRunAttempt (Milliseconds (cfg_LeaseTTL (svc_config s))) (svc_coreInstanceID s)
         (ai_RunID i) (ai_AttemptID i) (ai_LeaseID i) (ai_FencingToken i) (pr_RuntimeSessionID p)
         (pr_NodeID p) (pr_CredentialID p) (pr_WorkerID p) (clk 2) d = Some (updated, d1)"
    "MirrorRunLeaseRenewal (ai_RunID i) (ai_AttemptID i) (ai_LeaseID i) (ai_FencingToken i)
         (svc_coreInstanceID s) d1 = Some (mirrored, d')"
    by (auto simp: renew_tx_def tx_simps)
  with lockLeaseMutation_SomeD(2-)[OF mut] show ?thesis by (intro that)
qed

lemma renew_statements_step:
  assumes ren: "RenewRuntimeRunAttempt ttl core runID attemptID leaseID fence sid nid cid w now d = Some (updated, d1)"
    and mir: "MirrorRunLeaseRenewal runID attemptID leaseID fence core d1 = Some (mirrored, d')"
  shows "lease_step d d'"
  using ren
proof (rule RenewRuntimeRunAttempt_SomeD)
  fix a r
  assume a: "find_attempt attemptID d = Some a" and r: "find_run runID d = Some r"
    and upd: "updated = renewed_attempt a r ttl core now" and d1: "d1 = set_attempt attemptID updated d"
    and g: "a_RunID a = runID" "open_lease r a" "r_DispatchState r = ''executing''" "a_AcceptedAt a \<noteq> None"
      "now < a_LeaseExpiresAt a" "now < a_AttemptDeadlineAt a" "sql_gt (r_RunDeadlineAt r) now" "1 \<le> ttl"
  have rows: "find_run runID d1 = Some r" "find_attempt attemptID d1 = Some updated"
    using a r upd d1 by (auto simp: find_row_replace[OF a] find_row_key[OF a])
  from MirrorRunLeaseRenewal_SomeD[OF mir rows] d1
  have "d' = d\<lparr>db_attempts := update_row a_ID attemptID (\<lambda>_. updated) (db_attempts d),
      db_runs := update_row r_ID runID (\<lambda>_. renewed_run r updated) (db_runs d)\<rparr>" by simp
  with lease_step.Renew[OF r a g upd] show ?thesis by simp
qed

lemma renew_tx_step: "renew_tx s p i clk d = Inr (c, d') \<Longrightarrow> lease_step d d'"
  by (erule renew_tx_InrE) (rule renew_statements_step)

text \<open>
  What an attempt must carry for its slot to be returned: an unfinished runtime attempt still holds
  the slot it took. This is the part of the invariant that giving back relies on.
\<close>

definition slot_shape :: "AttemptRow \<Rightarrow> bool" where
  "slot_shape a \<longleftrightarrow>
     (if a_ExecutorType a = ''runtime''
      then a_SlotAcquiredAt a \<noteq> None \<and> a_NodeID a \<noteq> None \<and>
           (a_SlotReleasedAt a = None \<longleftrightarrow> a_ActiveRuntimeSessionID a \<noteq> None) \<and>
           (a_FinishedAt a = None \<longrightarrow> a_SlotReleasedAt a = None)
      else a_SlotAcquiredAt a = None \<and> a_SlotReleasedAt a = None \<and> a_ActiveRuntimeSessionID a = None)"

lemma FinishUnacceptedRunOffer_SomeD:
  assumes "FinishUnacceptedRunOffer outcome code runID attemptID leaseID fence sid nid cid w core now d = Some (a', d')"
  obtains a r where "find_attempt attemptID d = Some a" "find_run runID d = Some r" "a_RunID a = runID"
    "open_lease r a" "r_DispatchState r = ''offered''" "a_AcceptedAt a = None" "a_AttemptNo a = None"
    "attempt_key runID attemptID leaseID fence a" "attempt_owner sid nid cid w a"
    "outcome = ''offer_rejected'' \<or> outcome = ''offer_expired''"
    "a' = a\<lparr>a_FinishedAt := Some now, a_Outcome := Some outcome, a_ErrorCode := Some code, a_ErrorDetailRedacted := None\<rparr>"
    "d' = set_attempt attemptID a' d"
proof -
  from assms obtain a r where rows: "find_attempt attemptID d = Some a" "find_run runID d = Some r"
    by (auto simp: FinishUnacceptedRunOffer_def split: option.splits)
  then have keys: "r_ID r = runID" by (auto dest: find_row_key)
  show ?thesis
    by (rule that[OF rows])
       (use assms keys in \<open>auto simp: FinishUnacceptedRunOffer_def rows open_lease_def
          attempt_key_def Let_def split: if_splits\<close>)
qed

lemma Mark_Some:
  assumes "find_attempt attemptID d = Some a" "attempt_key runID attemptID leaseID fence a"
    "a_ExecutorType a = ''runtime''" "a_SlotReleasedAt a = None" "a_SlotAcquiredAt a = Some t"
    "a_ActiveRuntimeSessionID a = Some sid" "a_NodeID a = Some nid"
  shows "MarkRunAttemptCapacityReleased runID attemptID leaseID fence now d =
    Some (\<lparr>cap_RuntimeSessionID = sid, cap_NodeID = nid, cap_SlotAcquiredAt = t, cap_SlotReleasedAt = now\<rparr>,
      set_attempt attemptID (a\<lparr>a_SlotReleasedAt := Some now, a_ActiveRuntimeSessionID := None\<rparr>) d)"
  using assms by (simp add: MarkRunAttemptCapacityReleased_def)

lemma ReleaseRuntimeSessionSlot_SomeD:
  assumes "ReleaseRuntimeSessionSlot sid now d = Some (s', d')"
  obtains s where "find_session sid d = Some s" "0 < s_Inflight s"
    "s' = s\<lparr>s_Inflight := s_Inflight s - 1, s_UpdatedAt := now\<rparr>" "d' = set_session sid s' d"
  using assms by (auto simp: ReleaseRuntimeSessionSlot_def Let_def split: option.splits if_splits)

lemma ReleaseRuntimeNodeSlot_SomeD:
  assumes "ReleaseRuntimeNodeSlot nid now d = Some (n', d')"
  obtains n where "find_node nid d = Some n" "0 < n_Inflight n"
    "n' = n\<lparr>n_Inflight := n_Inflight n - 1, n_UpdatedAt := now\<rparr>" "d' = set_node nid n' d"
  using assms by (auto simp: ReleaseRuntimeNodeSlot_def Let_def split: option.splits if_splits)

lemma ResetRun_SomeD:
  assumes "ResetRunAfterUnacceptedOffer runID attemptID leaseID fence d = Some (r', d')"
    "find_run runID d = Some r" "find_attempt attemptID d = Some a"
  shows "r' = reset_run r" "d' = set_run runID r' d" "r_LatestAttemptID r = Some attemptID"
  using assms
  by (auto simp: ResetRunAfterUnacceptedOffer_def reset_run_def attempt_key_def Let_def split: if_splits)

lemma update_row_twice: "key r = k \<Longrightarrow> update_row key k (\<lambda>_. r') (update_row key k (\<lambda>_. r) t) = update_row key k (\<lambda>_. r') t"
  by (simp add: update_row_def)

lemma slot_shape_open:
  assumes "slot_shape a" "a_ExecutorType a = ''runtime''" "a_FinishedAt a = None"
  obtains t sid nid where "a_SlotReleasedAt a = None" "a_SlotAcquiredAt a = Some t"
    "a_ActiveRuntimeSessionID a = Some sid" "a_NodeID a = Some nid"
  using assms by (auto simp: slot_shape_def)

lemma give_back_statements_step:
  assumes fin: "FinishUnacceptedRunOffer outcome code runID attemptID leaseID fence sid nid cid w core now d = Some (a1, d1)"
    and mark: "MarkRunAttemptCapacityReleased runID attemptID leaseID fence t2 d1 = Some (cap, d2)"
    and ses: "ReleaseRuntimeSessionSlot (cap_RuntimeSessionID cap) t3 d2 = Some (s', d3)"
    and nod: "ReleaseRuntimeNodeSlot (cap_NodeID cap) t4 d3 = Some (n', d4)"
    and rst: "ResetRunAfterUnacceptedOffer runID attemptID leaseID fence (d4\<lparr>db_signals := g\<rparr>) = Some (r', d5)"
    and g: "g @ h = db_signals d @ signals"
  shows "lease_step d (d5\<lparr>db_signals := g @ h\<rparr>)"
  using fin
proof (rule FinishUnacceptedRunOffer_SomeD)
  fix a r
  assume a: "find_attempt attemptID d = Some a" and r: "find_run runID d = Some r"
    and a1: "a1 = a\<lparr>a_FinishedAt := Some now, a_Outcome := Some outcome, a_ErrorCode := Some code, a_ErrorDetailRedacted := None\<rparr>"
    and d1: "d1 = set_attempt attemptID a1 d"
    and guards: "a_RunID a = runID" "open_lease r a" "r_DispatchState r = ''offered''" "a_AcceptedAt a = None"
      "a_AttemptNo a = None"
    and out: "outcome = ''offer_rejected'' \<or> outcome = ''offer_expired''"
  have key: "a_ID a = attemptID" using a by (rule find_row_key)
  have fa1: "find_attempt attemptID d1 = Some a1"
    using d1 a1 key by (simp add: find_row_replace[OF a])
  from mark fa1 obtain acq where slot: "a_SlotReleasedAt a = None" "a_SlotAcquiredAt a = Some acq"
      "a_ActiveRuntimeSessionID a = Some (cap_RuntimeSessionID cap)" "a_NodeID a = Some (cap_NodeID cap)"
    and d2: "d2 = set_attempt attemptID (released_attempt a outcome code now t2) d"
    using a1 d1 key
    by (auto simp: MarkRunAttemptCapacityReleased_def released_attempt_def update_row_twice
        split: if_splits option.splits)
  from ses obtain sr where sr: "find_session (cap_RuntimeSessionID cap) d = Some sr" "0 < s_Inflight sr"
      "s' = sr\<lparr>s_Inflight := s_Inflight sr - 1, s_UpdatedAt := t3\<rparr>"
      "d3 = set_session (cap_RuntimeSessionID cap) s' d2"
    by (rule ReleaseRuntimeSessionSlot_SomeD) (simp add: d2)
  from nod obtain nr where nr: "find_node (cap_NodeID cap) d = Some nr" "0 < n_Inflight nr"
      "n' = nr\<lparr>n_Inflight := n_Inflight nr - 1, n_UpdatedAt := t4\<rparr>"
      "d4 = set_node (cap_NodeID cap) n' d3"
    by (rule ReleaseRuntimeNodeSlot_SomeD) (simp add: d2 sr(4))
  let ?d4 = "d4\<lparr>db_signals := g\<rparr>"
  have "find_run runID ?d4 = Some r" "find_attempt attemptID ?d4 = Some (released_attempt a outcome code now t2)"
    using r key by (simp_all add: nr(4) sr(4) d2 find_row_replace[OF a] released_attempt_def)
  from ResetRun_SomeD[OF rst this]
  have d5: "d5 = set_run runID (reset_run r) ?d4" and latest: "r_LatestAttemptID r = Some attemptID" by simp_all
  have "d5\<lparr>db_signals := g @ h\<rparr> =
      d\<lparr>db_sessions := update_row s_ID (cap_RuntimeSessionID cap) (\<lambda>_. s') (db_sessions d),
        db_nodes := update_row n_ID (cap_NodeID cap) (\<lambda>_. n') (db_nodes d),
        db_attempts := update_row a_ID attemptID (\<lambda>_. released_attempt a outcome code now t2) (db_attempts d),
        db_runs := update_row r_ID runID (\<lambda>_. reset_run r) (db_runs d),
        db_signals := db_signals d @ signals\<rparr>"
    using g by (simp add: d5 nr(4) sr(4) d2)
  with lease_step.GiveBack[OF r a guards latest slot(1,3,4) sr(1) nr(1) sr(2) nr(2) out refl sr(3) nr(3)]
  show ?thesis by simp
qed

lemma signal_statements:
  "CreateRuntimeSignal ev ag run payload now d = Some (g, d') \<longleftrightarrow>
     g = \<lparr>sg_EventType = ev, sg_AgentID = ag, sg_RunID = run, sg_Payload = payload, sg_AvailableAt = now\<rparr> \<and>
     d' = d\<lparr>db_signals := db_signals d @ [g]\<rparr>"
  "createRuntimeNodeCapacityAvailableSignal ag node runID now d = Inr (u, d') \<longleftrightarrow>
     d' = d\<lparr>db_signals := db_signals d @ [\<lparr>sg_EventType = ''node.capacity.available'', sg_AgentID = ag,
        sg_RunID = Some runID, sg_Payload = signal_payload ''node_id'' node, sg_AvailableAt = now\<rparr>]\<rparr>"
  by (auto simp: CreateRuntimeSignal_def createRuntimeNodeCapacityAvailableSignal_def insert_row_def Let_def tx_simps)

lemma finishAndReleaseOffer_step:
  assumes tx: "finishAndReleaseOffer s p e outcome code clk d = Inr (u, d')"
    and shapes: "\<forall>a \<in> set (db_attempts d). slot_shape a"
  shows "lease_step d d'"
proof -
  from tx obtain a1 d1 where fin: "FinishUnacceptedRunOffer outcome code (oe_RunID e) (oe_AttemptID e) (oe_LeaseID e)
      (oe_FencingToken e) (pr_RuntimeSessionID p) (pr_NodeID p) (pr_CredentialID p) (pr_WorkerID p)
      (svc_coreInstanceID s) (clk 0) d = Some (a1, d1)"
    by (auto simp: finishAndReleaseOffer_def tx_simps)
  from fin obtain cap d2 where mark: "MarkRunAttemptCapacityReleased (oe_RunID e) (oe_AttemptID e) (oe_LeaseID e)
      (oe_FencingToken e) (clk 1) d1 = Some (cap, d2)"
  proof (rule FinishUnacceptedRunOffer_SomeD)
    fix a r
    assume a: "find_attempt (oe_AttemptID e) d = Some a" and "open_lease r a"
      and key: "attempt_key (oe_RunID e) (oe_AttemptID e) (oe_LeaseID e) (oe_FencingToken e) a"
      and a1: "a1 = a\<lparr>a_FinishedAt := Some (clk 0), a_Outcome := Some outcome, a_ErrorCode := Some code, a_ErrorDetailRedacted := None\<rparr>"
        "d1 = set_attempt (oe_AttemptID e) a1 d"
    then have rt: "a_ExecutorType a = ''runtime''" "a_FinishedAt a = None" "slot_shape a"
      using shapes by (auto simp: open_lease_def dest: find_row_SomeD)
    have fa1: "find_attempt (oe_AttemptID e) d1 = Some a1"
      using a1 find_row_key[OF a] by (simp add: find_row_replace[OF a])
    have key1: "attempt_key (oe_RunID e) (oe_AttemptID e) (oe_LeaseID e) (oe_FencingToken e) a1"
      using key a1 by (simp add: attempt_key_def)
    from rt show thesis
      by (rule_tac slot_shape_open) (use Mark_Some[OF fa1 key1] a1 rt in \<open>auto intro: that\<close>)
  qed
  from tx fin mark obtain s' d3 n' d4 r' d5 g h where
      ses: "ReleaseRuntimeSessionSlot (cap_RuntimeSessionID cap) (clk 2) d2 = Some (s', d3)"
      and nod: "ReleaseRuntimeNodeSlot (cap_NodeID cap) (clk 3) d3 = Some (n', d4)"
      and rst: "ResetRunAfterUnacceptedOffer (oe_RunID e) (oe_AttemptID e) (oe_LeaseID e) (oe_FencingToken e)
         (d4\<lparr>db_signals := db_signals d4 @ [g]\<rparr>) = Some (r', d5)"
      and d': "d' = d5\<lparr>db_signals := db_signals d5 @ [h]\<rparr>"
    by (auto simp: finishAndReleaseOffer_def tx_simps signal_statements)
  have "db_signals d4 = db_signals d"
    using fin mark ses nod
    by (auto simp: FinishUnacceptedRunOffer_def MarkRunAttemptCapacityReleased_def ReleaseRuntimeSessionSlot_def
        ReleaseRuntimeNodeSlot_def Let_def split: option.splits if_splits)
  moreover have "db_signals d5 = db_signals d4 @ [g]"
    using rst by (auto simp: ResetRunAfterUnacceptedOffer_def Let_def split: option.splits if_splits)
  ultimately show ?thesis
    using give_back_statements_step[OF fin mark ses nod rst, of "[h]" "[g, h]"] d' by simp
qed

lemma reject_tx_step:
  assumes "reject_tx s p i reasonCode clk d = Inr (c, d')" "\<forall>a \<in> set (db_attempts d). slot_shape a"
  shows "d' = d \<or> lease_step d d'"
  using assms unfolding reject_tx_def
  by (auto simp: tx_simps split: if_splits
      dest!: lockPrincipal_keeps lockLeaseMutation_SomeD(1) intro: finishAndReleaseOffer_step)

lemma release_tx_step:
  assumes "release_tx s p reasonCode clk d = Inr (c, d')" "\<forall>a \<in> set (db_attempts d). slot_shape a"
  shows "d' = d \<or> lease_step d d'"
  using assms unfolding release_tx_def
  by (auto simp: tx_simps split: option.splits
      dest!: lockOfferReleasePrincipal_keeps GetExisting_SomeD(1) intro: finishAndReleaseOffer_step)

lemma ClaimRuntimeSessionSlot_SomeD:
  assumes "ClaimRuntimeSessionSlot sid ag core now d = Some (s', d')"
  obtains s where "find_session sid d = Some s" "s_Inflight s < s_Capacity s" "s_Status s = ''active''"
    "s' = s\<lparr>s_Inflight := s_Inflight s + 1, s_HeartbeatAt := now, s_UpdatedAt := now\<rparr>"
    "d' = set_session sid s' d"
  using assms by (auto simp: ClaimRuntimeSessionSlot_def Let_def split: option.splits if_splits)

lemma ClaimRuntimeNodeSlot_SomeD:
  assumes "ClaimRuntimeNodeSlot nid now d = Some (n', d')"
  obtains n where "find_node nid d = Some n" "n_Inflight n < n_Capacity n" "n_Status n = ''active''"
    "n' = n\<lparr>n_Inflight := n_Inflight n + 1, n_LastSeenAt := Some now, n_UpdatedAt := now\<rparr>"
    "d' = set_node nid n' d"
  using assms by (auto simp: ClaimRuntimeNodeSlot_def Let_def split: option.splits if_splits)

lemma CreateRuntimeRunOffer_SomeD:
  assumes "CreateRuntimeRunOffer attemptID leaseID core ttl sid runID nid cid w now d = Some (a, d')"
  obtains r s where "find_run runID d = Some r" "find_session sid d = Some s"
    "offer_selected core ttl nid cid w now d r s" "a = offer_row attemptID leaseID core ttl now r s"
    "d' = d\<lparr>db_attempts := insert_row a (db_attempts d)\<rparr>"
  using assms by (auto simp: CreateRuntimeRunOffer_def Let_def split: option.splits if_splits)

lemma MirrorRuntimeRunOffer_SomeD:
  assumes "MirrorRuntimeRunOffer runID attemptID leaseID fence sid nid cid w core now d = Some (r', d')"
    "find_run runID d = Some r" "find_attempt attemptID d = Some a"
  shows "r' = offered_run r a" "d' = set_run runID r' d"
  using assms by (auto simp: MirrorRuntimeRunOffer_def offered_run_def Let_def split: if_splits)

lemma offer_row_session: "offer_row attemptID leaseID core ttl now r (s\<lparr>s_Inflight := x, s_HeartbeatAt := y, s_UpdatedAt := z\<rparr>)
    = offer_row attemptID leaseID core ttl now r s"
  by (simp add: offer_row_def)

lemma attempt_conflict_find: "\<not> attempt_conflict d a \<Longrightarrow> find_attempt (a_ID a) d = None"
  by (auto simp: attempt_conflict_def find_row_None)

lemma offer_statements_step:
  assumes ses: "ClaimRuntimeSessionSlot sid ag core t5 d = Some (s', d1)"
    and nod: "ClaimRuntimeNodeSlot nid t6 d1 = Some (n', d2)"
    and crt: "CreateRuntimeRunOffer attemptID leaseID core ttl sid runID nid cid w t7 d2 = Some (a, d3)"
    and fresh: "\<not> attempt_conflict d2 a"
    and mir: "MirrorRuntimeRunOffer runID attemptID leaseID (a_FencingToken a) sid nid cid w core2 t8 d3 = Some (r', d4)"
  shows "lease_step d d4"
proof -
  from ses obtain s where s: "find_session sid d = Some s" "s_Inflight s < s_Capacity s" "s_Status s = ''active''"
      "s' = s\<lparr>s_Inflight := s_Inflight s + 1, s_HeartbeatAt := t5, s_UpdatedAt := t5\<rparr>"
      "d1 = set_session sid s' d" by (rule ClaimRuntimeSessionSlot_SomeD)
  from nod obtain n where n: "find_node nid d = Some n" "n_Inflight n < n_Capacity n" "n_Status n = ''active''"
      "n' = n\<lparr>n_Inflight := n_Inflight n + 1, n_LastSeenAt := Some t6, n_UpdatedAt := t6\<rparr>"
      "d2 = set_node nid n' d1" by (rule ClaimRuntimeNodeSlot_SomeD) (simp add: s(5))
  have key: "s_ID s = sid" using s(1) by (rule find_row_key)
  from crt obtain r where r: "find_run runID d = Some r" "offer_selected core ttl nid cid w t7 d2 r s'"
      "a = offer_row attemptID leaseID core ttl t7 r s'" "d3 = d2\<lparr>db_attempts := insert_row a (db_attempts d2)\<rparr>"
    by (rule CreateRuntimeRunOffer_SomeD) (use key in \<open>simp add: n(5) s(4,5) find_row_replace[OF s(1)]\<close>)
  have a: "a = offer_row attemptID leaseID core ttl t7 r s" using r(3) by (simp add: s(4) offer_row_session)
  then have ids: "a_ID a = attemptID" by (simp add: offer_row_def)
  have sel: "s_NodeID s = nid" "run_dispatchable r t7" "ttls_in_range ttl"
      "\<not> (\<exists>b \<in> set (db_attempts d). outstanding_offer sid b)"
    using r(2) key by (auto simp: offer_selected_def s(4,5) n(5))
  have free: "\<not> attempt_conflict d a" using fresh by (simp add: attempt_conflict_def s(5) n(5))
  have "find_run runID d3 = Some r" "find_attempt attemptID d3 = Some a"
    using r(1) attempt_conflict_find[OF fresh] ids by (simp_all add: r(4) n(5) s(5) find_row_insert)
  from MirrorRuntimeRunOffer_SomeD[OF mir this]
  have "d4 = d\<lparr>db_sessions := update_row s_ID sid (\<lambda>_. s') (db_sessions d),
      db_nodes := update_row n_ID (s_NodeID s) (\<lambda>_. n') (db_nodes d),
      db_attempts := insert_row a (db_attempts d),
      db_runs := update_row r_ID runID (\<lambda>_. offered_run r a) (db_runs d)\<rparr>"
    by (simp add: r(4) n(5) s(5) sel(1))
  with lease_step.Offer[OF r(1) s(1) n(1)[folded sel(1)] s(2) n(2) s(3) n(3) sel(2,3,4) a free s(4) n(4)]
  show ?thesis by simp
qed

lemma claim_new_offer_step:
  assumes "claim_new_offer s le p attemptID leaseID clk candidate d = Inr (c, d')"
  shows "lease_step d d'"
  using assms unfolding claim_new_offer_def
  by (auto simp: tx_simps offer_refused_def split: option.splits prod.splits intro: offer_statements_step)

lemma claim_next_offer_step:
  assumes "claim_next_offer s le p attemptID leaseID clk d = Inr (c, d')"
  shows "d' = d \<or> lease_step d d'"
  using assms unfolding claim_next_offer_def
  by (auto simp: tx_simps split: option.splits dest: lock_statements_keep(9) claim_new_offer_step)

lemma claim_offer_tx_steps:
  assumes "claim_offer_tx s le p attemptID leaseID clk d = Inr (c, d')" "\<forall>a \<in> set (db_attempts d). slot_shape a"
  shows "lease_step\<^sup>*\<^sup>* d d'"
  using assms unfolding claim_offer_tx_def
  by (auto simp: tx_simps split: option.splits if_splits
      dest!: RequireRuntimeClusterOperation_keeps lockPrincipal_keeps GetExisting_SomeD(1) claim_next_offer_step
        finishAndReleaseOffer_step)

end
