(* ===== verification/Lease_Invariants.thy ===== *)
theory Lease_Invariants
  imports Lease_Steps
begin

text \<open>
  What the lease service keeps true of the database, and with it the guarantees the rest of the
  system relies on: capacity counters are exact, fencing tokens name one attempt of a run and only
  grow, a run has at most one unfinished attempt and mirrors its lease, and leases end before the
  deadlines. Each part is proved for the steps of \<open>lease_step\<close> and carried to the service through
  the interfaces \<open>service_inv\<close> and \<open>service_mono\<close>.
\<close>

section \<open>Slot counters\<close>

text \<open>
  Sessions and nodes keep the same kind of counter: \<open>inflight\<close> is the number of attempts that hold
  one of the owner's slots, and stays within \<open>capacity\<close>.
\<close>

definition counters_exact ::
    "('o \<Rightarrow> uuid) \<Rightarrow> ('o \<Rightarrow> int) \<Rightarrow> ('o \<Rightarrow> int) \<Rightarrow> (uuid \<Rightarrow> AttemptRow \<Rightarrow> bool) \<Rightarrow> 'o list \<Rightarrow> AttemptRow list \<Rightarrow> bool" where
  "counters_exact key inflight capacity holds owners attempts \<longleftrightarrow>
     (\<forall>x \<in> set owners. inflight x = int (count_rows (holds (key x)) attempts) \<and> inflight x \<le> capacity x)"

lemma in_update_row:
  "x \<in> set (update_row key k (\<lambda>_. r') t) \<Longrightarrow> x = r' \<or> x \<in> set t \<and> key x \<noteq> k"
  by (auto simp: set_update_row split: if_splits)

locale slot_counter =
  fixes key :: "'o \<Rightarrow> uuid" and inflight capacity :: "'o \<Rightarrow> int" and holds :: "uuid \<Rightarrow> AttemptRow \<Rightarrow> bool"
  assumes one_owner: "holds k a \<Longrightarrow> holds j a \<Longrightarrow> k = j"
begin

lemma reserve_slot:
  assumes ok: "counters_exact key inflight capacity holds owners attempts"
    and x: "find_row key k owners = Some x" "inflight x < capacity x"
    and x': "key x' = k" "inflight x' = inflight x + 1" "capacity x' = capacity x"
    and a: "holds k a"
  shows "counters_exact key inflight capacity holds (update_row key k (\<lambda>_. x') owners) (insert_row a attempts)"
  unfolding counters_exact_def
proof
  fix y assume "y \<in> set (update_row key k (\<lambda>_. x') owners)"
  then consider "y = x'" | "y \<in> set owners" "key y \<noteq> k" by (blast dest: in_update_row)
  then show "inflight y = int (count_rows (holds (key y)) (insert_row a attempts)) \<and> inflight y \<le> capacity y"
  proof cases
    case 1
    with ok x x' a show ?thesis by (auto simp: counters_exact_def row_simps dest: find_row_SomeD)
  next
    case 2
    with ok a one_owner[of k a "key y"] show ?thesis by (auto simp: counters_exact_def row_simps)
  qed
qed

lemma release_slot:
  assumes ok: "counters_exact key inflight capacity holds owners attempts"
    and x: "find_row key k owners = Some x"
    and x': "key x' = k" "inflight x' = inflight x - 1" "capacity x' = capacity x"
    and a: "unique_keys a_ID attempts" "find_row a_ID i attempts = Some a" "holds k a" "\<And>j. \<not> holds j a'"
  shows "counters_exact key inflight capacity holds (update_row key k (\<lambda>_. x') owners)
           (update_row a_ID i (\<lambda>_. a') attempts)"
  unfolding counters_exact_def
proof
  fix y assume "y \<in> set (update_row key k (\<lambda>_. x') owners)"
  then consider "y = x'" | "y \<in> set owners" "key y \<noteq> k" by (blast dest: in_update_row)
  then show "inflight y = int (count_rows (holds (key y)) (update_row a_ID i (\<lambda>_. a') attempts)) \<and>
      inflight y \<le> capacity y"
  proof cases
    case 1
    with ok x x' a show ?thesis
      by (auto simp: counters_exact_def count_rows_update[OF a(1,2)] dest!: find_row_SomeD)
  next
    case 2
    with ok a one_owner[of k a "key y"] show ?thesis
      by (auto simp: counters_exact_def count_rows_update[OF a(1,2)])
  qed
qed

lemma keep_slots:
  assumes "counters_exact key inflight capacity holds owners attempts"
    and "unique_keys a_ID attempts" "find_row a_ID i attempts = Some a" "\<And>j. holds j a' = holds j a"
  shows "counters_exact key inflight capacity holds owners (update_row a_ID i (\<lambda>_. a') attempts)"
  using assms by (auto simp: counters_exact_def count_rows_update[OF assms(2,3)])

end

definition holds_session_slot :: "uuid \<Rightarrow> AttemptRow \<Rightarrow> bool" where
  "holds_session_slot sessionID a \<longleftrightarrow> a_ActiveRuntimeSessionID a = Some sessionID"

definition holds_node_slot :: "uuid \<Rightarrow> AttemptRow \<Rightarrow> bool" where
  "holds_node_slot nodeID a \<longleftrightarrow> a_NodeID a = Some nodeID \<and> a_SlotAcquiredAt a \<noteq> None \<and> a_SlotReleasedAt a = None"

interpretation session_slots: slot_counter s_ID s_Inflight s_Capacity holds_session_slot
  by unfold_locales (simp add: holds_session_slot_def)

interpretation node_slots: slot_counter n_ID n_Inflight n_Capacity holds_node_slot
  by unfold_locales (simp add: holds_node_slot_def)

section \<open>The invariant\<close>

definition keys_ok :: "runtime_db \<Rightarrow> bool" where
  "keys_ok d \<longleftrightarrow> unique_keys s_ID (db_sessions d) \<and> unique_keys n_ID (db_nodes d) \<and>
     unique_keys r_ID (db_runs d) \<and> unique_keys a_ID (db_attempts d)"

definition slots_ok :: "runtime_db \<Rightarrow> bool" where
  "slots_ok d \<longleftrightarrow> (\<forall>a \<in> set (db_attempts d). slot_shape a)"

definition capacity_exact :: "runtime_db \<Rightarrow> bool" where
  "capacity_exact d \<longleftrightarrow>
     counters_exact s_ID s_Inflight s_Capacity holds_session_slot (db_sessions d) (db_attempts d) \<and>
     counters_exact n_ID n_Inflight n_Capacity holds_node_slot (db_nodes d) (db_attempts d)"

text \<open>
  Fences of a run are at most the run's fence and name one attempt. An unfinished attempt carries the
  fence of its run and, while the run is running, is its active attempt under its lease. The attempt
  of a canceled run stays open until it is known to have stopped.
\<close>

definition live_attempt :: "RunRow \<Rightarrow> AttemptRow \<Rightarrow> bool" where
  "live_attempt r a \<longleftrightarrow> a_FencingToken a = r_FencingToken r \<and> (r_Status r = ''running'' \<longrightarrow> run_leads r a)"

lemma run_leads_live: "run_leads r a \<Longrightarrow> live_attempt r a"
  by (simp add: live_attempt_def run_leads_def)

definition fences_ok :: "runtime_db \<Rightarrow> bool" where
  "fences_ok d \<longleftrightarrow>
     (\<forall>a \<in> set (db_attempts d).
        (case find_run (a_RunID a) d of
           None \<Rightarrow> False
         | Some r \<Rightarrow> a_FencingToken a \<le> r_FencingToken r \<and> (a_FinishedAt a = None \<longrightarrow> live_attempt r a)) \<and>
        (\<forall>b \<in> set (db_attempts d). a_RunID a = a_RunID b \<and> a_FencingToken a = a_FencingToken b \<longrightarrow> a_ID a = a_ID b))"

text \<open>
  The active attempt of a run exists, belongs to the run, is unfinished, and the run's lease columns
  are those of the attempt.
\<close>

definition mirror_of :: "RunRow \<Rightarrow> AttemptRow \<Rightarrow> bool" where
  "mirror_of r a \<longleftrightarrow>
     a_RunID a = r_ID r \<and> a_FinishedAt a = None \<and> r_LeaseExpiresAt r = Some (a_LeaseExpiresAt a) \<and>
     r_LeaseAcceptedAt r = a_AcceptedAt a \<and> r_AttemptDeadlineAt r = Some (a_AttemptDeadlineAt a) \<and>
     r_DispatchState r = (if a_AcceptedAt a = None then ''offered'' else ''executing'')"

definition active_ok :: "runtime_db \<Rightarrow> bool" where
  "active_ok d \<longleftrightarrow>
     (\<forall>r \<in> set (db_runs d). \<forall>k. r_ActiveAttemptID r = Some k \<longrightarrow>
        (\<exists>a. find_attempt k d = Some a \<and> mirror_of r a))"

definition expiry_ok :: "runtime_db \<Rightarrow> bool" where
  "expiry_ok d \<longleftrightarrow>
     (\<forall>a \<in> set (db_attempts d). a_ExecutorType a = ''runtime'' \<longrightarrow>
        a_LeaseExpiresAt a \<le> a_AttemptDeadlineAt a \<and>
        (\<forall>r t. find_run (a_RunID a) d = Some r \<and> r_RunDeadlineAt r = Some t \<longrightarrow> a_AttemptDeadlineAt a \<le> t))"

definition budget_ok :: "runtime_db \<Rightarrow> bool" where
  "budget_ok d \<longleftrightarrow>
     (\<forall>r \<in> set (db_runs d). r_OfferCount r \<le> r_MaxOfferCount r \<and> r_AttemptCount r \<le> r_MaxAttempts r)"

definition lease_inv :: "runtime_db \<Rightarrow> bool" where
  "lease_inv d \<longleftrightarrow> keys_ok d \<and> slots_ok d \<and> capacity_exact d \<and> fences_ok d \<and> active_ok d \<and> expiry_ok d \<and> budget_ok d"

section \<open>Every step keeps it\<close>

lemma transformed_keys [simp]:
  "r_ID (offered_run r a) = r_ID r" "r_ID (executing_run r a) = r_ID r" "r_ID (renewed_run r a) = r_ID r"
  "r_ID (reset_run r) = r_ID r" "a_ID (released_attempt a outcome code t1 t2) = a_ID a"
  by (simp_all add: offered_run_def executing_run_def renewed_run_def reset_run_def released_attempt_def)

lemma step_keys:
  assumes "lease_step d d'" "keys_ok d"
  shows "keys_ok d'"
  using assms
  by cases (auto simp: keys_ok_def row_simps attempt_conflict_find dest: find_row_key)

lemma slot_shape_transformed:
  "slot_shape (offer_row attemptID leaseID core ttl now r s)"
  "slot_shape a \<Longrightarrow> slot_shape (confirmed_attempt a r t core x now)"
  "slot_shape a \<Longrightarrow> slot_shape (renewed_attempt a r t core now)"
  "slot_shape a \<Longrightarrow> a_ExecutorType a = ''runtime'' \<Longrightarrow> slot_shape (released_attempt a outcome code t1 t2)"
  by (auto simp: slot_shape_def offer_row_def confirmed_attempt_def renewed_attempt_def released_attempt_def)

lemma step_slots:
  assumes "lease_step d d'" "slots_ok d"
  shows "slots_ok d'"
  using assms
  by cases (auto simp: slots_ok_def set_update_row set_insert_row open_lease_def
      intro!: slot_shape_transformed dest: find_row_SomeD split: if_splits)

lemma holds_transformed [simp]:
  "holds_session_slot j (confirmed_attempt a r t core x now) = holds_session_slot j a"
  "holds_session_slot j (renewed_attempt a r t core now) = holds_session_slot j a"
  "\<not> holds_session_slot j (released_attempt a outcome code t1 t2)"
  "holds_session_slot j (offer_row attemptID leaseID core ttl now r s) \<longleftrightarrow> j = s_ID s"
  "holds_node_slot j (confirmed_attempt a r t core x now) = holds_node_slot j a"
  "holds_node_slot j (renewed_attempt a r t core now) = holds_node_slot j a"
  "\<not> holds_node_slot j (released_attempt a outcome code t1 t2)"
  "holds_node_slot j (offer_row attemptID leaseID core ttl now r s) \<longleftrightarrow> j = s_NodeID s"
  by (auto simp: holds_session_slot_def holds_node_slot_def confirmed_attempt_def renewed_attempt_def
      released_attempt_def offer_row_def)

lemma step_capacity:
  assumes "lease_step d d'" "keys_ok d" "slots_ok d" "capacity_exact d"
  shows "capacity_exact d'"
  using assms(1)
proof cases
  case (Offer runID r sessionID s n now ttl a attemptID leaseID core s' t1 n' t2)
  with assms(4) find_row_key[OF Offer(3)] find_row_key[OF Offer(4)] show ?thesis
    by (auto simp: capacity_exact_def intro!: session_slots.reserve_slot node_slots.reserve_slot)
next
  case (Confirm runID r attemptID a now leaseTtlMs a' core attachmentID)
  with assms(2,4) show ?thesis
    by (auto simp: capacity_exact_def keys_ok_def intro!: session_slots.keep_slots node_slots.keep_slots)
next
  case (Renew runID r attemptID a now leaseTtlMs a' core)
  with assms(2,4) show ?thesis
    by (auto simp: capacity_exact_def keys_ok_def intro!: session_slots.keep_slots node_slots.keep_slots)
next
  case (GiveBack runID r attemptID a sessionID nodeID s n outcome a' errorCode t1 t2 s' t3 n' t4 signals)
  have "slot_shape a" using GiveBack(3) assms(3) by (auto simp: slots_ok_def dest: find_row_SomeD)
  then have holds: "holds_session_slot sessionID a" "holds_node_slot nodeID a"
    using GiveBack by (auto simp: slot_shape_def holds_session_slot_def holds_node_slot_def open_lease_def)
  show ?thesis
    using assms(2,4) holds GiveBack find_row_key[OF GiveBack(13)] find_row_key[OF GiveBack(14)]
    by (auto simp: capacity_exact_def keys_ok_def intro!: session_slots.release_slot node_slots.release_slot)
qed

text \<open>
  Confirmation, renewal, giving back and the later ends of an attempt all rewrite one unfinished
  attempt together with its run and keep the identity, the fence and the deadlines of both.
\<close>

definition lease_update :: "runtime_db \<Rightarrow> runtime_db \<Rightarrow> RunRow \<Rightarrow> RunRow \<Rightarrow> AttemptRow \<Rightarrow> AttemptRow \<Rightarrow> bool" where
  "lease_update d d' r r' a a' \<longleftrightarrow>
     find_run (r_ID r) d = Some r \<and> find_attempt (a_ID a) d = Some a \<and>
     a_RunID a = r_ID r \<and> a_FinishedAt a = None \<and> run_leads r a \<and>
     a_ID a' = a_ID a \<and> a_RunID a' = a_RunID a \<and> a_FencingToken a' = a_FencingToken a \<and>
     a_AttemptDeadlineAt a' = a_AttemptDeadlineAt a \<and> a_ExecutorType a' = a_ExecutorType a \<and>
     r_ID r' = r_ID r \<and> r_FencingToken r' = r_FencingToken r \<and> r_RunDeadlineAt r' = r_RunDeadlineAt r \<and>
     r_OfferCount r' = r_OfferCount r \<and> r_MaxOfferCount r' = r_MaxOfferCount r \<and>
     r_MaxAttempts r' = r_MaxAttempts r \<and> r_AttemptCount r' \<le> max (r_AttemptCount r) (r_MaxAttempts r) \<and>
     db_attempts d' = update_row a_ID (a_ID a) (\<lambda>_. a') (db_attempts d) \<and>
     db_runs d' = update_row r_ID (r_ID r) (\<lambda>_. r') (db_runs d)"

lemma LEAST_opt_le: "t \<in> set ts \<Longrightarrow> LEAST_opt ts opts \<le> t"
  by (auto simp: LEAST_opt_def intro!: Min_le)

lemma LEAST_opt_le_opt: "Some t \<in> set opts \<Longrightarrow> LEAST_opt ts opts \<le> t"
  by (force simp: LEAST_opt_def map_filter_def intro!: Min_le)

lemma LEAST_opt_mono: "ts' \<noteq> [] \<Longrightarrow> set ts' \<subseteq> set ts \<Longrightarrow> LEAST_opt ts opts \<le> LEAST_opt ts' opts"
  unfolding LEAST_opt_def by (intro Min_antimono) auto

lemma active_mirror:
  assumes "active_ok d" "find_run runID d = Some r" "find_attempt k d = Some a" "open_lease r a"
  shows "mirror_of r a"
proof -
  have "r \<in> set (db_runs d)" "r_ActiveAttemptID r = Some k"
    using assms(2-4) find_row_key[OF assms(3)] by (auto simp: open_lease_def run_leads_def dest: find_row_SomeD)
  with assms(1,3) show ?thesis by (force simp: active_ok_def)
qed

lemma lease_before_deadline:
  "expiry_ok d \<Longrightarrow> find_attempt k d = Some a \<Longrightarrow> open_lease r a \<Longrightarrow> a_LeaseExpiresAt a \<le> a_AttemptDeadlineAt a"
  by (auto simp: expiry_ok_def open_lease_def dest!: find_row_SomeD)

lemma step_update_cases:
  assumes "lease_step d d'" "active_ok d" "expiry_ok d"
  obtains (offer) runID r s now ttl a attemptID leaseID core where
      "find_run runID d = Some r" "a = offer_row attemptID leaseID core ttl now r s" "\<not> attempt_conflict d a"
      "run_dispatchable r now" "db_attempts d' = insert_row a (db_attempts d)"
      "db_runs d' = update_row r_ID runID (\<lambda>_. offered_run r a) (db_runs d)"
    | (keep) r r' a a' where "lease_update d d' r r' a a'" "run_leads r' a'" "mirror_of r' a'"
      "a_LeaseExpiresAt a' \<le> a_AttemptDeadlineAt a'"
    | (close) r r' a a' where "lease_update d d' r r' a a'" "r_ActiveAttemptID r' = None" "a_FinishedAt a' \<noteq> None"
      "a_LeaseExpiresAt a' \<le> a_AttemptDeadlineAt a'"
  using assms(1)
proof cases
  case Offer
  then show ?thesis by (intro offer) auto
next
  case (Confirm runID r attemptID a now leaseTtlMs a' core attachmentID)
  have "a_LeaseExpiresAt a' \<le> a_AttemptDeadlineAt a'"
    by (simp add: Confirm(13) confirmed_attempt_def LEAST_opt_le)
  moreover have "mirror_of r a"
    by (rule active_mirror[OF assms(2) Confirm(2,3,5)])
  ultimately show ?thesis
    using Confirm find_row_key[OF Confirm(2)] find_row_key[OF Confirm(3)]
    by (intro keep[of r "executing_run r a'" a a'])
       (auto simp: lease_update_def executing_run_def confirmed_attempt_def run_leads_def open_lease_def mirror_of_def)
next
  case (Renew runID r attemptID a now leaseTtlMs a' core)
  have "mirror_of r a"
    by (rule active_mirror[OF assms(2) Renew(2,3,5)])
  moreover have "a_LeaseExpiresAt a \<le> a_AttemptDeadlineAt a"
    by (rule lease_before_deadline[OF assms(3) Renew(3,5)])
  ultimately show ?thesis
    using Renew find_row_key[OF Renew(2)] find_row_key[OF Renew(3)]
    by (intro keep[of r "renewed_run r a'" a a'])
       (auto simp: lease_update_def renewed_run_def renewed_attempt_def run_leads_def open_lease_def mirror_of_def
          LEAST_opt_le)
next
  case (GiveBack runID r attemptID a sessionID nodeID s n outcome a' errorCode t1 t2 s' t3 n' t4 signals)
  have "a_LeaseExpiresAt a \<le> a_AttemptDeadlineAt a"
    by (rule lease_before_deadline[OF assms(3) GiveBack(3,5)])
  then show ?thesis
    using GiveBack find_row_key[OF GiveBack(2)] find_row_key[OF GiveBack(3)]
    by (intro close[of r "reset_run r" a a'])
       (auto simp: lease_update_def reset_run_def released_attempt_def open_lease_def)
qed

lemma update_find_run:
  assumes "lease_update d d' r r' a a'"
  shows "find_run k d' = (if k = r_ID r then Some r' else find_run k d)"
    and "find_attempt j d' = (if j = a_ID a then Some a' else find_attempt j d)"
proof -
  from assms have "find_run (r_ID r) d = Some r" "find_attempt (a_ID a) d = Some a"
    "r_ID r' = r_ID r" "a_ID a' = a_ID a"
    "db_attempts d' = update_row a_ID (a_ID a) (\<lambda>_. a') (db_attempts d)"
    "db_runs d' = update_row r_ID (r_ID r) (\<lambda>_. r') (db_runs d)" by (simp_all add: lease_update_def)
  then show "find_run k d' = (if k = r_ID r then Some r' else find_run k d)"
    "find_attempt j d' = (if j = a_ID a then Some a' else find_attempt j d)"
    by (simp_all add: find_row_replace)
qed

text \<open>What an unchanged attempt looks like after an update: it is another attempt, and not of the active kind.\<close>

lemma update_attemptD:
  assumes "lease_update d d' r r' a a'" "b \<in> set (db_attempts d')"
  shows "b = a' \<or> b \<in> set (db_attempts d) \<and> a_ID b \<noteq> a_ID a"
  using assms by (auto simp: lease_update_def dest: in_update_row)

lemma fences_ok_runD:
  assumes "fences_ok d" "b \<in> set (db_attempts d)"
  shows "\<exists>r. find_run (a_RunID b) d = Some r \<and> a_FencingToken b \<le> r_FencingToken r \<and>
           (a_FinishedAt b = None \<longrightarrow> live_attempt r b)"
proof -
  from assms have "case find_run (a_RunID b) d of None \<Rightarrow> False
    | Some r \<Rightarrow> a_FencingToken b \<le> r_FencingToken r \<and> (a_FinishedAt b = None \<longrightarrow> live_attempt r b)"
    unfolding fences_ok_def by blast
  then show ?thesis by (cases "find_run (a_RunID b) d") auto
qed

lemma fences_ok_uniqueD:
  "fences_ok d \<Longrightarrow> a \<in> set (db_attempts d) \<Longrightarrow> b \<in> set (db_attempts d) \<Longrightarrow> a_RunID a = a_RunID b \<Longrightarrow>
     a_FencingToken a = a_FencingToken b \<Longrightarrow> a_ID a = a_ID b"
  unfolding fences_ok_def by blast

lemma fences_okI:
  assumes "\<And>b. b \<in> set (db_attempts d) \<Longrightarrow> \<exists>r. find_run (a_RunID b) d = Some r \<and>
      a_FencingToken b \<le> r_FencingToken r \<and> (a_FinishedAt b = None \<longrightarrow> live_attempt r b)"
    and "\<And>a b. \<lbrakk> a \<in> set (db_attempts d); b \<in> set (db_attempts d); a_RunID a = a_RunID b;
      a_FencingToken a = a_FencingToken b \<rbrakk> \<Longrightarrow> a_ID a = a_ID b"
  shows "fences_ok d"
  unfolding fences_ok_def
proof (intro ballI conjI impI)
  fix a assume "a \<in> set (db_attempts d)"
  from assms(1)[OF this] show "case find_run (a_RunID a) d of None \<Rightarrow> False
    | Some r \<Rightarrow> a_FencingToken a \<le> r_FencingToken r \<and> (a_FinishedAt a = None \<longrightarrow> live_attempt r a)" by auto
qed (blast intro: assms(2))

lemma fences_update:
  assumes upd: "lease_update d d' r r' a a'" and ok: "fences_ok d"
    and live: "run_leads r' a' \<or> a_FinishedAt a' \<noteq> None"
  shows "fences_ok d'"
proof -
  have a: "a \<in> set (db_attempts d)" "run_leads r a" "a_RunID a = r_ID r"
    and same: "a_ID a' = a_ID a" "a_RunID a' = a_RunID a" "a_FencingToken a' = a_FencingToken a"
      "r_FencingToken r' = r_FencingToken r" "find_run (r_ID r) d = Some r"
    using upd by (auto simp: lease_update_def open_lease_def dest: find_row_SomeD)
  have lead: "\<exists>x. find_run (a_RunID b) d' = Some x \<and> a_FencingToken b \<le> r_FencingToken x \<and>
      (a_FinishedAt b = None \<longrightarrow> live_attempt x b)"
    if "b \<in> set (db_attempts d')" for b
  proof -
    from update_attemptD[OF upd that] consider "b = a'" | "b \<in> set (db_attempts d)" "a_ID b \<noteq> a_ID a" by blast
    then show ?thesis
    proof cases
      case 1
      have "a_FencingToken a \<le> r_FencingToken r" using a(2) by (simp add: run_leads_def)
      moreover have "a_FinishedAt a' = None \<longrightarrow> live_attempt r' a'" using live run_leads_live by blast
      moreover have "find_run (a_RunID b) d' = Some r'" using 1 a(3) same(2) update_find_run(1)[OF upd, of "r_ID r"] by simp
      ultimately show ?thesis using 1 same(3,4) by auto
    next
      case 2
      obtain x where x: "find_run (a_RunID b) d = Some x" "a_FencingToken b \<le> r_FencingToken x"
        "a_FinishedAt b = None \<longrightarrow> live_attempt x b"
        using fences_ok_runD[OF ok 2(1)] by (elim exE conjE) (rule that)
      show ?thesis
      proof (cases "a_RunID b = r_ID r")
        case True
        with x(1) same(5) have "x = r" by simp
        have "a_FencingToken b = a_FencingToken a" if "a_FinishedAt b = None"
          using that x(3) \<open>x = r\<close> a(2) by (simp add: live_attempt_def run_leads_def)
        with fences_ok_uniqueD[OF ok 2(1) a(1)] 2(2) True a(3) have "a_FinishedAt b \<noteq> None" by auto
        with True x(2) \<open>x = r\<close> same(4) show ?thesis by (auto simp: update_find_run[OF upd])
      qed (use x in \<open>simp add: update_find_run[OF upd]\<close>)
    qed
  qed
  have "a_ID b = a_ID c"
    if "b \<in> set (db_attempts d')" "c \<in> set (db_attempts d')" "a_RunID b = a_RunID c" "a_FencingToken b = a_FencingToken c" for b c
    using update_attemptD[OF upd that(1)] update_attemptD[OF upd that(2)] that(3,4)
      fences_ok_uniqueD[OF ok] a(1) same by metis
  with lead show ?thesis by (intro fences_okI) blast+
qed

lemma active_update:
  assumes upd: "lease_update d d' r r' a a'" and ok: "active_ok d"
    and live: "r_ActiveAttemptID r' = None \<or> r_ActiveAttemptID r' = Some (a_ID a) \<and> mirror_of r' a'"
  shows "active_ok d'"
  unfolding active_ok_def
proof (intro ballI allI impI)
  fix x k assume x: "x \<in> set (db_runs d')" "r_ActiveAttemptID x = Some k"
  then consider "x = r'" | "x \<in> set (db_runs d)" "r_ID x \<noteq> r_ID r"
    using upd by (auto simp: lease_update_def dest: in_update_row)
  then show "\<exists>a. find_attempt k d' = Some a \<and> mirror_of x a"
  proof cases
    case 1
    with x live show ?thesis by (auto simp: update_find_run[OF upd])
  next
    case 2
    with x ok obtain b where b: "find_attempt k d = Some b" "mirror_of x b" by (auto simp: active_ok_def)
    with 2 upd have "k \<noteq> a_ID a" by (auto simp: lease_update_def open_lease_def mirror_of_def)
    with b show ?thesis by (simp add: update_find_run[OF upd])
  qed
qed

lemma expiry_update:
  assumes upd: "lease_update d d' r r' a a'" and ok: "expiry_ok d"
    and le: "a_ExecutorType a = ''runtime'' \<Longrightarrow> a_LeaseExpiresAt a' \<le> a_AttemptDeadlineAt a'"
  shows "expiry_ok d'"
proof -
  have same: "a_RunID a' = r_ID r" "a_RunID a = r_ID r" "a_AttemptDeadlineAt a' = a_AttemptDeadlineAt a"
      "a_ExecutorType a' = a_ExecutorType a" "find_run (r_ID r) d = Some r" "r_RunDeadlineAt r' = r_RunDeadlineAt r"
      "a \<in> set (db_attempts d)"
    using upd by (auto simp: lease_update_def open_lease_def dest: find_row_SomeD)
  have "a_AttemptDeadlineAt a \<le> t" if "a_ExecutorType a = ''runtime''" "r_RunDeadlineAt r = Some t" for t
    using ok same that by (auto simp: expiry_ok_def)
  with ok same le show ?thesis
    unfolding expiry_ok_def
    by (auto simp: update_find_run[OF upd] dest!: update_attemptD[OF upd])
qed

lemma offer_attemptD: "\<lbrakk> a = offer_row attemptID leaseID core ttl now r s; \<not> attempt_conflict d a; b \<in> set (db_attempts d);
    a_RunID b = r_ID r \<rbrakk> \<Longrightarrow> a_FinishedAt b \<noteq> None \<and> a_FencingToken b \<noteq> r_FencingToken r + 1"
  by (auto simp: attempt_conflict_def offer_row_def)

lemma step_fences:
  assumes "lease_step d d'" "fences_ok d" "active_ok d" "expiry_ok d"
  shows "fences_ok d'"
  using assms(1,3,4)
proof (cases rule: step_update_cases)
  case (offer runID r s now ttl a attemptID leaseID core)
  have key: "r_ID r = runID" using offer(1) by (rule find_row_key)
  have a: "a_RunID a = runID" "a_FencingToken a = r_FencingToken r + 1" "run_leads (offered_run r a) a"
      "r_FencingToken (offered_run r a) = a_FencingToken a"
    using offer(2) key by (simp_all add: offer_row_def offered_run_def run_leads_def)
  have run: "find_run k d' = (if k = runID then Some (offered_run r a) else find_run k d)" for k
    using offer(1,6) key by (simp add: find_row_replace)
  have old: "a_FinishedAt b \<noteq> None \<and> a_FencingToken b \<le> r_FencingToken r"
    if "b \<in> set (db_attempts d)" "a_RunID b = runID" for b
    using offer_attemptD[OF offer(2,3) that(1)] that assms(2) offer(1) key by (auto simp: fences_ok_def)
  show ?thesis
  proof (rule fences_okI)
    fix b assume "b \<in> set (db_attempts d')"
    then consider "b = a" | "b \<in> set (db_attempts d)" by (auto simp: offer(5) set_insert_row)
    then show "\<exists>x. find_run (a_RunID b) d' = Some x \<and> a_FencingToken b \<le> r_FencingToken x \<and>
        (a_FinishedAt b = None \<longrightarrow> live_attempt x b)"
    proof cases
      case 1
      with a run_leads_live[OF a(3)] show ?thesis by (simp add: run)
    next
      case 2
      with fences_ok_runD[OF assms(2) 2] old[OF 2] a show ?thesis
        by (cases "a_RunID b = runID") (auto simp: run)
    qed
  next
    fix b c assume "b \<in> set (db_attempts d')" "c \<in> set (db_attempts d')" "a_RunID b = a_RunID c"
      "a_FencingToken b = a_FencingToken c"
    then show "a_ID b = a_ID c"
      using old[of b] old[of c] a fences_ok_uniqueD[OF assms(2), of b c]
      by (auto simp: offer(5) set_insert_row)
  qed
next
  case keep
  then show ?thesis using fences_update assms(2) by blast
next
  case close
  then show ?thesis using fences_update assms(2) by blast
qed

lemma step_active:
  assumes "lease_step d d'" "active_ok d" "expiry_ok d"
  shows "active_ok d'"
  using assms
proof (cases rule: step_update_cases)
  case (offer runID r s now ttl a attemptID leaseID core)
  have key: "r_ID r = runID" using offer(1) by (rule find_row_key)
  have mir: "mirror_of (offered_run r a) a" "r_ActiveAttemptID (offered_run r a) = Some (a_ID a)"
    using offer(2) by (simp_all add: mirror_of_def offered_run_def offer_row_def)
  show ?thesis unfolding active_ok_def
  proof (intro ballI allI impI)
    fix x k assume x: "x \<in> set (db_runs d')" "r_ActiveAttemptID x = Some k"
    then consider "x = offered_run r a" | "x \<in> set (db_runs d)"
      using offer(6) by (auto dest: in_update_row)
    then show "\<exists>a. find_attempt k d' = Some a \<and> mirror_of x a"
    proof cases
      case 1
      with x mir attempt_conflict_find[OF offer(3)] show ?thesis
        by (auto simp: offer(5) find_row_insert)
    next
      case 2
      with x assms(2) show ?thesis
        by (force simp: active_ok_def offer(5) find_row_insert)
    qed
  qed
next
  case (keep r r' a a')
  then show ?thesis
    using active_update[OF keep(1) assms(2)] by (auto simp: run_leads_def lease_update_def)
next
  case (close r r' a a')
  then show ?thesis using active_update[OF close(1) assms(2)] by simp
qed

lemma step_expiry:
  assumes "lease_step d d'" "active_ok d" "expiry_ok d"
  shows "expiry_ok d'"
  using assms
proof (cases rule: step_update_cases)
  case (offer runID r s now ttl a attemptID leaseID core)
  have key: "r_ID r = runID" using offer(1) by (rule find_row_key)
  have run: "find_run k d' = (if k = runID then Some (offered_run r a) else find_run k d)" for k
    using offer(1,6) key by (simp add: find_row_replace)
  have "a_LeaseExpiresAt a \<le> a_AttemptDeadlineAt a"
    using offer(2) by (simp add: offer_row_def LEAST_opt_mono)
  moreover have "a_AttemptDeadlineAt a \<le> t" if "r_RunDeadlineAt r = Some t" for t
    using offer(2) that by (simp add: offer_row_def LEAST_opt_le_opt)
  moreover have "a_RunID a = runID" "r_RunDeadlineAt (offered_run r a) = r_RunDeadlineAt r"
    using offer(2) key by (simp_all add: offer_row_def offered_run_def)
  ultimately show ?thesis
    using assms(3) offer(1) by (auto simp: expiry_ok_def offer(5) set_insert_row run)
next
  case keep
  then show ?thesis using expiry_update assms(3) by blast
next
  case close
  then show ?thesis using expiry_update assms(3) by blast
qed

lemma step_budget:
  assumes "lease_step d d'" "active_ok d" "expiry_ok d" "budget_ok d"
  shows "budget_ok d'"
  using assms(1,2,3)
proof (cases rule: step_update_cases)
  case (offer runID r s now ttl a attemptID leaseID core)
  then show ?thesis using assms(4)
    by (auto simp: budget_ok_def run_dispatchable_def offered_run_def offer_row_def dest!: in_update_row)
next
  case (keep r r' a a')
  then show ?thesis using assms(4)
    by (auto simp: budget_ok_def lease_update_def dest!: in_update_row find_row_SomeD)
next
  case (close r r' a a')
  then show ?thesis using assms(4)
    by (auto simp: budget_ok_def lease_update_def dest!: in_update_row find_row_SomeD)
qed

theorem step_lease_inv: "lease_step d d' \<Longrightarrow> lease_inv d \<Longrightarrow> lease_inv d'"
  unfolding lease_inv_def
  by (blast intro: step_keys step_slots step_capacity step_fences step_active step_expiry step_budget)

lemma steps_lease_inv: "lease_step\<^sup>*\<^sup>* d d' \<Longrightarrow> lease_inv d \<Longrightarrow> lease_inv d'"
  by (induction rule: rtranclp_induct) (auto intro: step_lease_inv)

end
