(* ===== verification/Lease_Example.thy ===== *)
theory Lease_Example
  imports Lease_Invariants
begin

text \<open>
  One small world in which every operation of the lease service commits: a run waiting for agent 3,
  a session of that agent with two slots on a node with two slots, its credential and its
  attachment. The worlds below follow the run through an offer, its confirmation, a renewal, and
  its rejection. They show that the hypotheses of the laws can hold.
\<close>

section \<open>The world\<close>

definition wit_service :: RuntimeLeaseService where
  "wit_service = \<lparr>svc_repository = True, svc_coreInstanceID = 9, svc_issuer = Some (\<lambda>_. Inr (''envelope'', ''token'')),
     svc_config = DefaultRuntimeLeaseConfig\<rparr>"

definition wit_env :: lease_env where
  "wit_env = \<lparr>le_render = (\<lambda>_. ''{}''), le_decode_object = (\<lambda>_. Some (Some [], [])), le_canonicalize = (\<lambda>_. Inr ''{}''),
     le_sha256 = (\<lambda>_. replicate 32 (CHR ''h'')), le_decode_authority = (\<lambda>_. Inl ErrNoRows),
     le_validate_policy = (\<lambda>_ _. Inl ErrNoRows), le_skill_assignment = (\<lambda>_ _. None),
     le_mcp_assignment = (\<lambda>_ _. None), le_compatible_providers = (\<lambda>_. []),
     le_held = (\<lambda>_. False)\<rparr>"

definition wit_hex :: string where "wit_hex = replicate 64 (CHR ''a'')"

definition wit_principal :: RuntimeSessionPrincipal where
  "wit_principal = \<lparr>pr_RuntimeSessionID = 1, pr_NodeID = 2, pr_AgentID = 3, pr_CredentialID = 4, pr_WorkerID = ''w'',
     pr_SessionEpoch = 1, pr_RuntimeContractDigest = RuntimeContractDigest, pr_Features = [], pr_CoreInstanceID = 9,
     pr_AttachmentID = 5, pr_DeviceCertificateSerial = ''0a'', pr_DevicePublicKeyThumbprintSHA256 = wit_hex\<rparr>"

definition wit_run :: RunRow where
  "wit_run = \<lparr>r_ID = 6, r_UserID = 7, r_AgentID = 3, r_Input = ''{}'', r_Status = ''running'', r_StartedAt = 1,
     r_RuntimeContractID = RuntimeContractID, r_RequestMetadata = [], r_ConnectionModeSnapshot = Some ''runtime'',
     r_DispatchState = ''pending'', r_OfferCount = 0, r_MaxOfferCount = 5, r_AttemptCount = 0, r_MaxAttempts = 3,
     r_NextAttemptAt = None, r_DispatchDeadlineAt = Some 1000000000000, r_RunDeadlineAt = Some 2000000000000,
     r_LatestAttemptID = None, r_ActiveAttemptID = None, r_LeaseID = None, r_FencingToken = 0, r_ExecutorType = None,
     r_ActiveCoreInstanceID = None, r_RuntimeNodeID = None, r_RuntimeWorkerID = None, r_RuntimeSessionID = None,
     r_LeaseTokenID = None, r_LeaseOfferedAt = None, r_LeaseAcceptedAt = None, r_LeaseExpiresAt = None,
     r_AttemptDeadlineAt = None, r_CancelRequestID = None, r_TerminalEventID = None,
     r_EndpointIdempotencySnapshot = None, r_Output = None, r_ErrorCode = None, r_ErrorMessage = None,
     r_DurationMs = None, r_FinishedAt = None, r_ResultID = None, r_ResultFingerprint = None,
     r_DeadLetteredAt = None, r_CreatorRevenueCents = 0, r_CancelState = None,
     r_CancelRequestedAt = None, r_CancelAcknowledgedAt = None, r_CancelReason = None\<rparr>"

definition wit_session :: "int \<Rightarrow> gotime \<Rightarrow> gotime \<Rightarrow> SessionRow" where
  "wit_session inflight heartbeat updated =
     \<lparr>s_ID = 1, s_NodeID = 2, s_AgentID = 3, s_CredentialID = 4, s_WorkerID = ''w'', s_SessionEpoch = 1,
      s_DeviceCertificateSerial = ''0a'', s_ProtocolVersion = 2, s_RuntimeContractID = RuntimeContractID,
      s_RuntimeContractDigest = RuntimeContractDigest, s_Features = [], s_Capacity = 2, s_Inflight = inflight,
      s_Status = ''active'', s_AttachedCoreInstanceID = Some 9, s_HeartbeatAt = heartbeat, s_UpdatedAt = updated\<rparr>"

definition wit_node :: "int \<Rightarrow> gotime option \<Rightarrow> gotime \<Rightarrow> NodeRow" where
  "wit_node inflight seen updated =
     \<lparr>n_ID = 2, n_DeviceCertificateSerial = ''0a'', n_DevicePublicKeyThumbprint = wit_hex,
      n_ProtocolVersion = 2, n_RuntimeContractID = RuntimeContractID, n_RuntimeContractDigest = RuntimeContractDigest,
      n_Capacity = 2, n_Inflight = inflight, n_Status = ''active'', n_LastSeenAt = seen, n_RevokedAt = None,
      n_UpdatedAt = updated\<rparr>"

definition wit_world :: "SessionRow \<Rightarrow> NodeRow \<Rightarrow> RunRow \<Rightarrow> AttemptRow list \<Rightarrow> SignalRow list \<Rightarrow> runtime_db" where
  "wit_world session node run attempts signals =
     \<lparr>db_cluster_mode = Some ''normal'',
      db_wire_contracts = [\<lparr>wc_ID = RuntimeContractID, wc_Digest = RuntimeContractDigest, wc_SupportTier = ''current''\<rparr>],
      db_agents = [], db_sessions = [session], db_nodes = [node],
      db_tokens = [\<lparr>t_ID = 4, t_AgentID = Some 3, t_Status = ''active_runtime'', t_Scopes = [''agent:pull''],
         t_ExpiresAt = None, t_RevokedAt = None\<rparr>],
      db_attachments = [\<lparr>at_ID = 5, at_RuntimeSessionID = 1, at_CoreInstanceID = 9, at_DetachedAt = None,
         at_Transport = ''websocket'', at_TransportReason = Some ''primary''\<rparr>],
      db_runs = [run], db_attempts = attempts, db_signals = signals, db_skills = [], db_mcps = [],
      db_skill_bindings = [], db_mcp_bindings = [], db_events = [], db_grants = [], db_delegations = [],
      db_dead_letters = [], db_ledger = [], db_effects = [], db_availability = [], db_delivery_targets = [],
      db_callbacks = [], db_artifacts = [], db_tasks = [], db_evidence = [], db_cancellations = []\<rparr>"

definition wit_clock :: "nat \<Rightarrow> gotime" where
  "wit_clock n = 1000 + int n"

definition wit_db :: runtime_db where
  "wit_db = wit_world (wit_session 0 1 1) (wit_node 0 None 1) wit_run [] []"

definition wit_attempt :: AttemptRow where
  "wit_attempt =
     \<lparr>a_ID = 10, a_RunID = 6, a_AgentID = 3, a_OfferNo = 1, a_AttemptNo = None, a_ExecutorType = ''runtime'',
      a_LeaseID = 11, a_FencingToken = 1, a_RuntimeTokenID = Some 4, a_RuntimeWorkerID = Some ''w'',
      a_RuntimeSessionID = Some 1, a_NodeID = Some 2, a_OfferedByCoreInstanceID = 9, a_AttachedCoreInstanceID = 9,
      a_OfferedAt = 1007, a_OfferExpiresAt = 30000001007, a_AcceptedAt = None, a_LastRenewedAt = None,
      a_LeaseExpiresAt = 60000001007, a_AttemptDeadlineAt = 1800000001007, a_FinishedAt = None, a_Outcome = None,
      a_ErrorCode = None, a_SlotAcquiredAt = Some 1007, a_SlotReleasedAt = None, a_ActiveRuntimeSessionID = Some 1,
      a_RuntimeAttachmentID = None, a_ResultID = None, a_ResultFingerprint = None, a_ResultClassification = None,
      a_ResultAcknowledgedAt = None, a_LastClientEventSeq = 0, a_FinalClientEventSeq = None,
      a_ErrorDetailRedacted = None\<rparr>"

definition wit_identity :: AttemptIdentity where
  "wit_identity =
     \<lparr>ai_RunID = 6, ai_AttemptID = 10, ai_LeaseID = 11, ai_FencingToken = 1, ai_NodeID = 2, ai_AgentID = 3,
      ai_WorkerID = ''w'', ai_RuntimeSessionID = 1\<rparr>"

definition wit_offered :: runtime_db where
  "wit_offered =
     wit_world (wit_session 1 1005 1005) (wit_node 1 (Some 1006) 1006) (offered_run wit_run wit_attempt) [wit_attempt] []"

lemmas wit_worlds = wit_db_def wit_offered_def wit_world_def wit_session_def wit_node_def wit_run_def wit_attempt_def
lemmas wit_actors = wit_service_def wit_env_def wit_principal_def wit_identity_def wit_clock_def

section \<open>An offer\<close>

lemma wit_validateOperation: "validateOperation wit_service wit_principal = None"
  by code_simp

lemma wit_lockPrincipal:
  "lockPrincipal wit_service wit_principal t (wit_world (wit_session i h u) (wit_node j v w) r as gs) =
     Inr (hd (db_attachments wit_db), wit_world (wit_session i h u) (wit_node j v w) r as gs)"
  by (simp add: lockPrincipal_def tx_defs LockRuntimeSessionForPrincipalValidation_def
      LockRuntimeNodeForPrincipalValidation_def LockRuntimeCredentialForPrincipalValidation_def
      LockRuntimeSessionAttachmentForPrincipalValidation_def wit_worlds wit_actors find_row_def live_status_def
      wire_supported_def token_active_def)

lemma wit_nextRun: "LockNextClaimableRuntimeRunForAgent 3 False False [] False (\<lambda>_. False) 1004 wit_db = Some (wit_run, wit_db)"
  by (simp add: LockNextClaimableRuntimeRunForAgent_def run_claimable_def run_dispatchable_def wit_worlds
      authority_word_def json_member_def)

lemma wit_ttls: "config_ttls (svc_config wit_service) = \<lparr>ttl_OfferMs = 30000, ttl_LeaseMs = 60000, ttl_AttemptMs = 1800000\<rparr>"
  by code_simp

lemma wit_offer_row: "offer_row 10 11 9 \<lparr>ttl_OfferMs = 30000, ttl_LeaseMs = 60000, ttl_AttemptMs = 1800000\<rparr> 1007 wit_run
    (wit_session 1 1005 1005) = wit_attempt"
  by (simp add: offer_row_def wit_worlds LEAST_opt_def map_filter_def after_ms_def millisecond_def)

definition wit_assignment :: RunAssignedPayload where
  "wit_assignment =
     \<lparr>asg_AttemptIdentity = wit_identity, asg_OfferNo = 1, asg_OfferExpiresAt = 30000001007,
      asg_AttemptDeadlineAt = 1800000001007, asg_RunDeadlineAt = 2000000000000, asg_Input = Some [],
      asg_Metadata = Some [], asg_NodeEnvelope = ''envelope'', asg_AgentInvocationToken = ''token''\<rparr>"

lemma wit_identity_valid: "validateAttemptIdentity wit_identity = None"
  by (simp add: validateAttemptIdentity_def wit_identity_def err_if_def validRequiredString_def ascii_string)

lemma wit_json_object: "decodeRuntimeJSONObject wit_env ''{}'' = Inr ([], ''{}'')"
  by (simp add: decodeRuntimeJSONObject_def wit_env_def MaxRuntimeMessageBytes_def)

lemma wit_assignmentFromAttempt:
  "assignmentFromAttempt wit_service wit_env wit_principal wit_attempt ''{}'' ''{}'' 2000000000000 = Inr wit_assignment"
proof -
  have id: "attemptIdentityFromRow wit_attempt = Inr wit_identity"
    using wit_identity_valid by (simp add: attemptIdentityFromRow_def wit_attempt_def wit_identity_def)
  have "validatePrincipalAttemptIdentity wit_principal wit_identity = None"
    by (simp add: validatePrincipalAttemptIdentity_def wit_actors err_if_def)
  moreover have "attemptMatchesLeaseIdentity wit_attempt wit_principal wit_identity"
    by (simp add: attemptMatchesLeaseIdentity_def wit_attempt_def wit_actors)
  moreover have "consumeRuntimeExecutionProfile wit_env [] (pr_Features wit_principal) = None"
    by (simp add: consumeRuntimeExecutionProfile_def Let_def json_member_def wit_actors runtimeSessionUsesBrowserProfile_def
        runtimeSessionUsesFullBrowserInteraction_def err_if_def)
  moreover have "TrimSpace ''envelope'' \<noteq> []" "TrimSpace ''token'' \<noteq> []" by code_simp+
  moreover have "le_skill_assignment wit_env x y = None" "le_mcp_assignment wit_env x y = None" for x y
    by (simp_all add: wit_env_def)
  ultimately show ?thesis
    using wit_identity_valid
    by (simp add: assignmentFromAttempt_def id wit_json_object)
       (simp add: issue_assignment_def Let_def validateRunAssigned_def wit_assignment_def err_then_def err_if_def
          wit_attempt_def wit_service_def)
qed

lemma wit_claim_new_offer:
  "claim_new_offer wit_service wit_env wit_principal 10 11 wit_clock wit_run wit_db = Inr (Some wit_assignment, wit_offered)"
proof -
  have ses: "ClaimRuntimeSessionSlot 1 3 9 1005 wit_db =
      Some (wit_session 1 1005 1005, wit_world (wit_session 1 1005 1005) (wit_node 0 None 1) wit_run [] [])"
    by (simp add: ClaimRuntimeSessionSlot_def Let_def wit_worlds find_row_def wire_supported_def token_active_def update_row_def)
  have nod: "ClaimRuntimeNodeSlot 2 1006 (wit_world (wit_session 1 1005 1005) (wit_node 0 None 1) wit_run [] []) =
      Some (wit_node 1 (Some 1006) 1006, wit_world (wit_session 1 1005 1005) (wit_node 1 (Some 1006) 1006) wit_run [] [])"
    by (simp add: ClaimRuntimeNodeSlot_def Let_def wit_worlds find_row_def update_row_def)
  have crt: "CreateRuntimeRunOffer 10 11 9 (config_ttls (svc_config wit_service)) 1 6 2 4 ''w'' 1007
        (wit_world (wit_session 1 1005 1005) (wit_node 1 (Some 1006) 1006) wit_run [] []) =
      Some (wit_attempt, wit_world (wit_session 1 1005 1005) (wit_node 1 (Some 1006) 1006) wit_run [wit_attempt] [])"
    unfolding wit_ttls
    by (simp add: CreateRuntimeRunOffer_def Let_def offer_selected_def run_dispatchable_def wit_world_def wit_session_def
        wit_node_def wit_run_def find_row_def token_active_def ttls_in_range_def insert_row_def
        wit_offer_row[unfolded wit_session_def wit_run_def])
  have mir: "MirrorRuntimeRunOffer 6 10 11 1 1 2 4 ''w'' 9 1008
        (wit_world (wit_session 1 1005 1005) (wit_node 1 (Some 1006) 1006) wit_run [wit_attempt] []) =
      Some (offered_run wit_run wit_attempt, wit_offered)"
    by (simp add: MirrorRuntimeRunOffer_def Let_def wit_worlds offered_run_def find_row_def attempt_key_def attempt_owner_def
        update_row_def)
  have free: "\<not> offer_refused (wit_world s n r [] g) wit_attempt" for s n r g
    by (simp add: offer_refused_def attempt_conflict_def wit_world_def wit_attempt_def max_int64_def)
  have run: "r_AgentID wit_run = 3" "r_ID wit_run = 6" "r_RunDeadlineAt wit_run = Some 2000000000000"
      "r_Input wit_run = ''{}''" by (simp_all add: wit_run_def)
  have att: "a_ID wit_attempt = 10" "a_LeaseID wit_attempt = 11" "a_RunID wit_attempt = 6" "a_FencingToken wit_attempt = 1"
    by (simp_all add: wit_attempt_def)
  have act: "pr_RuntimeSessionID wit_principal = 1" "pr_AgentID wit_principal = 3" "pr_NodeID wit_principal = 2"
      "pr_CredentialID wit_principal = 4" "pr_WorkerID wit_principal = ''w''" "pr_CoreInstanceID wit_principal = 9"
      "svc_coreInstanceID wit_service = 9" "le_render wit_env m = ''{}''"
      "wit_clock 5 = 1005" "wit_clock 6 = 1006" "wit_clock 7 = 1007" "wit_clock 8 = 1008" for m
    by (simp_all add: wit_actors)
  show ?thesis
    by (simp add: claim_new_offer_def tx_defs run att act ses nod crt mir free wit_assignmentFromAttempt)
       (simp add: offered_run_def wit_run_def wit_attempt_def)
qed

lemma wit_claim:
  "ClaimOffer wit_service wit_env 10 11 wit_clock wit_principal wit_db = (Inr (Some wit_assignment), wit_offered)"
proof -
  have "GetExistingUnacceptedRunOfferForSession a b c e f g h i wit_db = None" for a b c e f g h i
    by (simp add: GetExistingUnacceptedRunOfferForSession_def wit_db_def wit_world_def)
  moreover have "RequireRuntimeClusterOperation ''claim'' wit_db = Inr ((), wit_db)"
    by (simp add: RequireRuntimeClusterOperation_def Let_def wit_db_def wit_world_def)
  moreover have "claim_next_offer wit_service wit_env wit_principal 10 11 wit_clock wit_db = Inr (Some wit_assignment, wit_offered)"
    using wit_nextRun wit_claim_new_offer
    by (simp add: claim_next_offer_def tx_defs wit_actors runtimeSessionUsesBrowserProfile_def
        runtimeSessionUsesFullBrowserInteraction_def)
  ultimately have "claim_offer_tx wit_service wit_env wit_principal 10 11 wit_clock wit_db = Inr (Some wit_assignment, wit_offered)"
    using wit_lockPrincipal[of "wit_clock 0" 0 1 1 0 None 1 wit_run "[]" "[]"]
    by (simp add: claim_offer_tx_def tx_defs flip: wit_db_def)
  moreover have "svc_issuer wit_service \<noteq> None" by (simp add: wit_service_def)
  ultimately show ?thesis
    using wit_validateOperation
    by (simp add: ClaimOffer_def run_checked_def WithTransaction_def err_then_def err_if_def)
qed

section \<open>Confirmation, renewal and rejection\<close>

definition wit_later :: "nat \<Rightarrow> gotime" where
  "wit_later n = 2000 + int n"

definition wit_accepted :: AttemptRow where
  "wit_accepted =
     wit_attempt\<lparr>a_AttemptNo := Some 1, a_AcceptedAt := Some 2002, a_LastRenewedAt := Some 2002,
       a_LeaseExpiresAt := 60000002002, a_RuntimeAttachmentID := Some 5\<rparr>"

definition wit_executing :: runtime_db where
  "wit_executing =
     wit_world (wit_session 1 1005 1005) (wit_node 1 (Some 1006) 1006)
       (executing_run (offered_run wit_run wit_attempt) wit_accepted) [wit_accepted] []"

definition wit_confirmed :: RunAssignmentConfirmedPayload where
  "wit_confirmed = \<lparr>cnf_AttemptIdentity = wit_identity, cnf_AttemptNo = 1, cnf_LeaseExpiresAt = 60000002002\<rparr>"

definition wit_ack :: RunAssignmentAckPayload where
  "wit_ack = \<lparr>ack_AttemptIdentity = wit_identity\<rparr>"

lemmas wit_rows = find_row_def update_row_def attempt_key_def attempt_owner_def run_leads_def run_mirrors_owner_def
  sql_eq_def live_principal_def live_status_def token_active_def Let_def

lemma wit_attempt_id: "attemptMatchesLeaseIdentity wit_attempt wit_principal wit_identity"
  "attemptMatchesLeaseIdentity wit_accepted wit_principal wit_identity"
  by (simp_all add: attemptMatchesLeaseIdentity_def wit_attempt_def wit_accepted_def wit_actors)

lemma wit_lockLeaseMutation:
  assumes "r_ID r = 6" "r_AgentID r = 3" "r_RuntimeContractID r = RuntimeContractID"
    "attemptMatchesLeaseIdentity a wit_principal wit_identity"
  shows "lockLeaseMutation wit_principal wit_identity (wit_world s n r [a] g) = Inr ((r, a), wit_world s n r [a] g)"
proof -
  have "a_ID a = 10" "a_RunID a = 6" "a_AgentID a = 3" "a_ExecutorType a = ''runtime''" "a_LeaseID a = 11"
    "a_FencingToken a = 1" "a_RuntimeTokenID a = Some 4" "a_NodeID a = Some 2" "a_RuntimeSessionID a = Some 1"
    "a_RuntimeWorkerID a = Some ''w''"
    using assms(4) by (simp_all add: attemptMatchesLeaseIdentity_def wit_actors)
  moreover have "pr_AgentID wit_principal = 3" "pr_RuntimeSessionID wit_principal = 1" "pr_NodeID wit_principal = 2"
    "pr_CredentialID wit_principal = 4" "pr_WorkerID wit_principal = ''w''" "ai_RunID wit_identity = 6"
    "ai_AttemptID wit_identity = 10" "ai_AgentID wit_identity = 3" "ai_LeaseID wit_identity = 11"
    "ai_FencingToken wit_identity = 1"
    by (simp_all add: wit_actors)
  ultimately show ?thesis
    using assms
    by (simp add: lockLeaseMutation_def tx_defs LockRunForLeaseMutation_def LockRuntimeRunAttemptForLeaseMutation_def
        wit_world_def find_row_def attempt_key_def attempt_owner_def)
qed

lemma wit_ack_commits:
  "AckAssignment wit_service wit_later wit_principal wit_ack wit_offered = (Inr wit_confirmed, wit_executing)"
proof -
  let ?w = "\<lambda>a. wit_world (wit_session 1 1005 1005) (wit_node 1 (Some 1006) 1006) (offered_run wit_run wit_attempt) [a] []"
  have run: "r_ID (offered_run wit_run wit_attempt) = 6" "r_AgentID (offered_run wit_run wit_attempt) = 3"
      "r_RuntimeContractID (offered_run wit_run wit_attempt) = RuntimeContractID"
    by (simp_all add: offered_run_def wit_run_def)
  have live: "rejectCanceledOrTerminalRun (offered_run wit_run wit_attempt) = None"
    by (simp add: rejectCanceledOrTerminalRun_def offered_run_def wit_run_def err_if_def)
  have own: "runOwnsAttempt (offered_run wit_run wit_attempt) wit_identity (pr_CredentialID wit_principal)"
    by (simp add: runOwnsAttempt_def offered_run_def wit_attempt_def wit_actors)
  have unexpired: "\<not> leaseOfferExpired 2001 (offered_run wit_run wit_attempt) wit_attempt"
    by (simp add: leaseOfferExpired_def offered_run_def wit_attempt_def wit_run_def)
  have ttl: "Milliseconds (cfg_LeaseTTL (svc_config wit_service)) = 60000" by code_simp
  have conf: "ConfirmRunAssignment 60000 9 6 10 11 1 1 2 4 ''w'' 5 2002 (?w wit_attempt) = Some (wit_accepted, ?w wit_accepted)"
    by (simp add: ConfirmRunAssignment_def wit_world_def wit_session_def wit_node_def offered_run_def wit_run_def
        wit_attempt_def wit_accepted_def wit_rows LEAST_opt_def map_filter_def after_ms_def millisecond_def)
  have mir: "MirrorRunConfirmedAssignment 6 10 11 1 1 2 4 ''w'' 9 (?w wit_accepted) =
      Some (executing_run (offered_run wit_run wit_attempt) wit_accepted, wit_executing)"
    by (simp add: MirrorRunConfirmedAssignment_def wit_executing_def wit_world_def offered_run_def executing_run_def
        wit_run_def wit_attempt_def wit_accepted_def wit_rows)
  have att: "a_AcceptedAt wit_attempt = None" "a_FinishedAt wit_attempt = None" "a_AttemptNo wit_accepted = Some 1"
      "a_AcceptedAt wit_accepted = Some 2002" "a_LeaseExpiresAt wit_accepted = 60000002002"
      "a_RuntimeAttachmentID wit_accepted = Some 5" "r_DispatchState (offered_run wit_run wit_attempt) = ''offered''"
      "r_ID wit_run = 6"
      "r_DispatchState (executing_run (offered_run wit_run wit_attempt) wit_accepted) = ''executing''"
      "r_AttemptCount (executing_run (offered_run wit_run wit_attempt) wit_accepted) = 1"
    by (simp_all add: wit_attempt_def wit_accepted_def offered_run_def executing_run_def wit_run_def)
  have act: "ai_RunID wit_identity = 6" "ai_AttemptID wit_identity = 10" "ai_LeaseID wit_identity = 11"
      "ai_FencingToken wit_identity = 1" "pr_RuntimeSessionID wit_principal = 1" "pr_NodeID wit_principal = 2"
      "pr_CredentialID wit_principal = 4" "pr_WorkerID wit_principal = ''w''" "svc_coreInstanceID wit_service = 9"
      "at_ID (hd (db_attachments wit_db)) = 5"
    by (simp_all add: wit_actors wit_db_def wit_world_def)
  have "ack_tx wit_service wit_principal wit_identity wit_later wit_offered = Inr (wit_confirmed, wit_executing)"
    using own
    by (simp add: ack_tx_def tx_defs wit_offered_def wit_lockPrincipal wit_lockLeaseMutation[OF run wit_attempt_id(1)]
        tx_err_def live att act unexpired ttl conf mir wit_later_def wit_attempt_id confirmedPayload_def wit_confirmed_def)
  moreover have "validatePrincipalAttemptIdentity wit_principal wit_identity = None"
    by (simp add: validatePrincipalAttemptIdentity_def wit_actors err_if_def)
  ultimately show ?thesis
    using wit_validateOperation wit_identity_valid
    by (simp add: AckAssignment_def run_checked_def WithTransaction_def err_then_def wit_ack_def)
qed

text \<open>The lease of the accepted attempt is renewed a second later.\<close>

definition wit_second :: "nat \<Rightarrow> gotime" where
  "wit_second n = 1000000000 + int n"

definition wit_renewed_attempt :: AttemptRow where
  "wit_renewed_attempt = wit_accepted\<lparr>a_LastRenewedAt := Some 1000000002, a_LeaseExpiresAt := 61000000002\<rparr>"

definition wit_renewal :: RunLeaseRenewPayload where
  "wit_renewal = \<lparr>rnw_AttemptIdentity = wit_identity, rnw_LastClientEventSeq = 0, rnw_Capacity = 2, rnw_Inflight = 1\<rparr>"

definition wit_renewed :: runtime_db where
  "wit_renewed =
     wit_world (wit_session 1 1005 1005) (wit_node 1 (Some 1006) 1006)
       (renewed_run (executing_run (offered_run wit_run wit_attempt) wit_accepted) wit_renewed_attempt)
       [wit_renewed_attempt] []"

lemma wit_renew_commits:
  "RenewLease wit_service wit_second wit_principal wit_renewal wit_executing =
     (Inr \<lparr>rnd_AttemptIdentity = wit_identity, rnd_LeaseExpiresAt = 61000000002, rnd_PendingCommand = None\<rparr>, wit_renewed)"
proof -
  let ?r = "executing_run (offered_run wit_run wit_attempt) wit_accepted"
  let ?w = "\<lambda>a. wit_world (wit_session 1 1005 1005) (wit_node 1 (Some 1006) 1006) ?r [a] []"
  have run: "r_ID ?r = 6" "r_AgentID ?r = 3" "r_RuntimeContractID ?r = RuntimeContractID"
    by (simp_all add: offered_run_def executing_run_def wit_run_def)
  have live: "rejectCanceledOrTerminalRun ?r = None"
    by (simp add: rejectCanceledOrTerminalRun_def offered_run_def executing_run_def wit_run_def err_if_def)
  have own: "runOwnsAttempt ?r wit_identity 4"
    by (simp add: runOwnsAttempt_def offered_run_def executing_run_def wit_attempt_def wit_actors)
  have unexpired: "\<not> executionLeaseExpired 1000000001 ?r wit_accepted"
    by (simp add: executionLeaseExpired_def offered_run_def executing_run_def wit_accepted_def wit_attempt_def wit_run_def)
  have ttl: "Milliseconds (cfg_LeaseTTL (svc_config wit_service)) = 60000" by code_simp
  have ren: "RenewRuntimeRunAttempt 60000 9 6 10 11 1 1 2 4 ''w'' 1000000002 (?w wit_accepted) =
      Some (wit_renewed_attempt, ?w wit_renewed_attempt)"
    by (simp add: RenewRuntimeRunAttempt_def wit_world_def wit_session_def wit_node_def offered_run_def executing_run_def
        wit_run_def wit_attempt_def wit_accepted_def wit_renewed_attempt_def wit_rows LEAST_opt_def map_filter_def
        after_ms_def millisecond_def)
  have mir: "MirrorRunLeaseRenewal 6 10 11 1 9 (?w wit_renewed_attempt) = Some (renewed_run ?r wit_renewed_attempt, wit_renewed)"
    by (simp add: MirrorRunLeaseRenewal_def wit_renewed_def wit_world_def offered_run_def executing_run_def renewed_run_def
        wit_run_def wit_attempt_def wit_accepted_def wit_renewed_attempt_def wit_rows)
  have att: "a_AttemptNo wit_accepted = Some 1" "a_AcceptedAt wit_accepted = Some 2002" "a_FinishedAt wit_accepted = None"
      "a_AttemptNo wit_renewed_attempt = Some 1" "a_AcceptedAt wit_renewed_attempt = Some 2002"
      "a_FinishedAt wit_renewed_attempt = None" "a_LeaseExpiresAt wit_renewed_attempt = 61000000002"
      "attemptMatchesLeaseIdentity wit_renewed_attempt wit_principal wit_identity"
      "r_DispatchState ?r = ''executing''" "r_ID wit_run = 6" "r_DispatchState (renewed_run ?r wit_renewed_attempt) = ''executing''"
      "r_LeaseExpiresAt (renewed_run ?r wit_renewed_attempt) = Some 61000000002"
    using wit_attempt_id(2)
    by (simp_all add: wit_attempt_def wit_accepted_def wit_renewed_attempt_def offered_run_def executing_run_def
        renewed_run_def wit_run_def attemptMatchesLeaseIdentity_def)
  have act: "ai_RunID wit_identity = 6" "ai_AttemptID wit_identity = 10" "ai_LeaseID wit_identity = 11"
      "ai_FencingToken wit_identity = 1" "pr_RuntimeSessionID wit_principal = 1" "pr_NodeID wit_principal = 2"
      "pr_CredentialID wit_principal = 4" "pr_WorkerID wit_principal = ''w''" "svc_coreInstanceID wit_service = 9"
    by (simp_all add: wit_actors)
  have "renew_tx wit_service wit_principal wit_identity wit_second wit_executing =
      Inr (\<lparr>rnd_AttemptIdentity = wit_identity, rnd_LeaseExpiresAt = 61000000002, rnd_PendingCommand = None\<rparr>, wit_renewed)"
    using own
    by (simp add: renew_tx_def tx_defs wit_executing_def wit_lockPrincipal wit_lockLeaseMutation[OF run wit_attempt_id(2)]
        tx_err_def live att act unexpired ttl ren mir wit_second_def)
  moreover have "validatePrincipalAttemptIdentity wit_principal wit_identity = None"
    by (simp add: validatePrincipalAttemptIdentity_def wit_actors err_if_def)
  ultimately show ?thesis
    using wit_validateOperation wit_identity_valid
    by (simp add: RenewLease_def run_checked_def WithTransaction_def err_then_def err_if_def wit_renewal_def
        validRuntimeCapacitySnapshot_def validRuntimeCapacityReport_def RuntimeMaximumNodeCapacity_def)
qed

text \<open>The same offer rejected: both slots come back and the run waits again.\<close>

definition wit_rejection :: RunAssignmentRejectPayload where
  "wit_rejection = \<lparr>rej_AttemptIdentity = wit_identity, rej_ReasonCode = ''NODE_DRAINING'', rej_Capacity = 2, rej_Inflight = 1\<rparr>"

definition wit_returned :: runtime_db where
  "wit_returned =
     wit_world (wit_session 0 1005 2003) (wit_node 0 (Some 1006) 2004) (reset_run (offered_run wit_run wit_attempt))
       [released_attempt wit_attempt ''offer_rejected'' ''NODE_DRAINING'' 2001 2002]
       [\<lparr>sg_EventType = ''node.capacity.available'', sg_AgentID = 3, sg_RunID = Some 6,
         sg_Payload = signal_payload ''node_id'' 2, sg_AvailableAt = 2005\<rparr>,
        \<lparr>sg_EventType = ''run.available'', sg_AgentID = 3, sg_RunID = Some 6,
         sg_Payload = signal_payload ''run_id'' 6, sg_AvailableAt = 2006\<rparr>]"

lemma wit_give_back:
  "finishAndReleaseOffer wit_service wit_principal (offerEvidenceFromAttempt wit_attempt) ''offer_rejected'' ''NODE_DRAINING''
     (\<lambda>n. wit_later (1 + n)) wit_offered = Inr ((), wit_returned)"
  by (simp add: finishAndReleaseOffer_def tx_defs offerEvidenceFromAttempt_def FinishUnacceptedRunOffer_def
      release_owner_def MarkRunAttemptCapacityReleased_def ReleaseRuntimeSessionSlot_def ReleaseRuntimeNodeSlot_def
      createRuntimeNodeCapacityAvailableSignal_def CreateRuntimeSignal_def ResetRunAfterUnacceptedOffer_def insert_row_def
      wit_returned_def wit_worlds wit_actors wit_later_def offered_run_def released_attempt_def reset_run_def wit_rows)

lemma wit_reject_commits:
  "RejectAssignment wit_service wit_later wit_principal wit_rejection wit_offered =
     (Inr \<lparr>rjd_AttemptIdentity = wit_identity, rjd_Outcome = ''offer_rejected'', rjd_DispatchState = ''pending''\<rparr>, wit_returned)"
proof -
  have run: "r_ID (offered_run wit_run wit_attempt) = 6" "r_AgentID (offered_run wit_run wit_attempt) = 3"
      "r_RuntimeContractID (offered_run wit_run wit_attempt) = RuntimeContractID"
    by (simp_all add: offered_run_def wit_run_def)
  have guards: "rejectCanceledOrTerminalRun (offered_run wit_run wit_attempt) = None"
    "runOwnsAttempt (offered_run wit_run wit_attempt) wit_identity (pr_CredentialID wit_principal)"
    "a_AcceptedAt wit_attempt = None" "a_FinishedAt wit_attempt = None"
    "r_DispatchState (offered_run wit_run wit_attempt) = ''offered''"
    by (simp_all add: rejectCanceledOrTerminalRun_def offered_run_def wit_run_def err_if_def runOwnsAttempt_def
        wit_attempt_def wit_actors)
  have "reject_tx wit_service wit_principal wit_identity ''NODE_DRAINING'' wit_later wit_offered =
      Inr (\<lparr>rjd_AttemptIdentity = wit_identity, rjd_Outcome = ''offer_rejected'', rjd_DispatchState = ''pending''\<rparr>, wit_returned)"
    using wit_give_back[unfolded wit_offered_def] guards
    by (simp add: reject_tx_def tx_defs wit_offered_def wit_lockPrincipal wit_lockLeaseMutation[OF run wit_attempt_id(1)]
        isFinishedUnacceptedOffer_def tx_err_def)
  moreover have "validatePrincipalAttemptIdentity wit_principal wit_identity = None"
    by (simp add: validatePrincipalAttemptIdentity_def wit_actors err_if_def)
  ultimately show ?thesis
    using wit_validateOperation wit_identity_valid
    by (simp add: RejectAssignment_def run_checked_def WithTransaction_def err_then_def err_if_def wit_rejection_def
        validateAssignmentReject_def validRuntimeCapacitySnapshot_def validRuntimeCapacityReport_def
        RuntimeMaximumNodeCapacity_def)
qed

section \<open>The invariant holds in it\<close>

lemma wit_lease_inv: "lease_inv wit_db"
  by (simp add: lease_inv_def keys_ok_def slots_ok_def capacity_exact_def counters_exact_def fences_ok_def active_ok_def
      expiry_ok_def budget_ok_def unique_keys_def count_rows_def wit_worlds)

end
