(* ===== verification/Lease_Laws.thy ===== *)
theory Lease_Laws
  imports Lease_Example
begin

text \<open>
  The guarantees of the lease service. Requests of any number of Core instances, each with its own
  configuration, capability issuer and clock, act on one database in the order in which their
  transactions commit; \<open>lease_request_step\<close> is one such request. The service interfaces of
  \<open>Core_Prelude\<close> are interpreted on it, and the properties are read off the interpretation.
\<close>

section \<open>Requests\<close>

datatype lease_request =
    ClaimRequest RuntimeLeaseService lease_env uuid uuid "nat \<Rightarrow> gotime" RuntimeSessionPrincipal
  | AckRequest RuntimeLeaseService "nat \<Rightarrow> gotime" RuntimeSessionPrincipal RunAssignmentAckPayload
  | RejectRequest RuntimeLeaseService "nat \<Rightarrow> gotime" RuntimeSessionPrincipal RunAssignmentRejectPayload
  | RenewRequest RuntimeLeaseService "nat \<Rightarrow> gotime" RuntimeSessionPrincipal RunLeaseRenewPayload
  | ReleaseRequest RuntimeLeaseService "nat \<Rightarrow> gotime" RuntimeSessionPrincipal "string list"

datatype lease_reply =
    Assigned "RunAssignedPayload option"
  | Confirmed RunAssignmentConfirmedPayload
  | Rejected RunAssignmentRejectedPayload
  | Renewed RunLeaseRenewedPayload
  | Released

definition reply_with :: "('a \<Rightarrow> lease_reply) \<Rightarrow> (go_error + 'a) \<times> runtime_db \<Rightarrow> (go_error + lease_reply) \<times> runtime_db" where
  "reply_with f r = (map_sum id f (fst r), snd r)"

fun lease_request_step :: "lease_request \<Rightarrow> runtime_db \<Rightarrow> (go_error + lease_reply) \<times> runtime_db" where
  "lease_request_step (ClaimRequest s le attemptID leaseID clk p) d = reply_with Assigned (ClaimOffer s le attemptID leaseID clk p d)"
| "lease_request_step (AckRequest s clk p request) d = reply_with Confirmed (AckAssignment s clk p request d)"
| "lease_request_step (RejectRequest s clk p request) d = reply_with Rejected (RejectAssignment s clk p request d)"
| "lease_request_step (RenewRequest s clk p request) d = reply_with Renewed (RenewLease s clk p request d)"
| "lease_request_step (ReleaseRequest s clk p reason) d = reply_with (\<lambda>_. Released) (ReleaseUnackedOffer s clk p reason d)"

lemma run_checked_commit: "run_checked err tx d = (Inr x, d') \<longleftrightarrow> err = None \<and> tx d = Inr (x, d')"
  by (auto simp: run_checked_def WithTransaction_commit split: option.splits)

lemma run_checked_error: "run_checked err tx d = (Inl e, d') \<Longrightarrow> d' = d"
  by (auto simp: run_checked_def dest: WithTransaction_error split: option.splits)

lemma run_checked_refused: "(\<And>x d'. tx d \<noteq> Inr (x, d')) \<Longrightarrow> \<exists>e. run_checked err tx d = (Inl e, d)"
  by (cases "tx d") (auto simp: run_checked_def WithTransaction_def split: option.splits)

lemma run_checked_cases:
  obtains (refused) e where "run_checked err tx d = (Inl e, d)"
    | (committed) x d' where "run_checked err tx d = (Inr x, d')" "err = None" "tx d = Inr (x, d')"
proof (cases "run_checked err tx d")
  case (Pair r d')
  then show thesis
  proof (cases r)
    case (Inl e)
    with Pair run_checked_error[of err tx d e d'] show thesis by (auto intro: refused)
  next
    case (Inr x)
    with Pair run_checked_commit[of err tx d x d'] show thesis by (auto intro: committed)
  qed
qed

lemma reply_with_simps [simp]: "reply_with f (Inl e, d) = (Inl e, d)" "reply_with f (Inr x, d) = (Inr (f x), d)"
  by (simp_all add: reply_with_def)

lemma reply_with_Inl [simp]: "reply_with f r = (Inl e, d) \<longleftrightarrow> r = (Inl e, d)"
  by (cases r; cases "fst r") (auto simp: reply_with_def)

lemma snd_reply_with [simp]: "snd (reply_with f r) = snd r"
  by (simp add: reply_with_def)

text \<open>A transaction that moves the database along \<open>lease_step\<close> moves it so as a checked request.\<close>

lemma run_checked_steps:
  assumes "\<And>x d'. tx d = Inr (x, d') \<Longrightarrow> lease_step\<^sup>*\<^sup>* d d'"
  shows "lease_step\<^sup>*\<^sup>* d (snd (run_checked err tx d))"
  by (rule run_checked_cases[of err tx d]) (use assms in auto)

lemma request_steps:
  assumes "lease_inv d"
  shows "lease_step\<^sup>*\<^sup>* d (snd (lease_request_step q d))"
proof -
  have shapes: "\<forall>a \<in> set (db_attempts d). slot_shape a" using assms by (simp add: lease_inv_def slots_ok_def)
  show ?thesis
  proof (cases q)
    case ClaimRequest
    then show ?thesis
      by (auto simp: ClaimOffer_def intro!: run_checked_steps dest: claim_offer_tx_steps[OF _ shapes])
  next
    case AckRequest
    then show ?thesis by (auto simp: AckAssignment_def intro!: run_checked_steps dest!: ack_tx_step)
  next
    case RejectRequest
    then show ?thesis
      by (auto simp: RejectAssignment_def intro!: run_checked_steps dest!: reject_tx_step[OF _ shapes])
  next
    case RenewRequest
    then show ?thesis by (auto simp: RenewLease_def intro!: run_checked_steps dest!: renew_tx_step)
  next
    case ReleaseRequest
    then show ?thesis
      by (auto simp: ReleaseUnackedOffer_def intro!: run_checked_steps dest!: release_tx_step[OF _ shapes])
  qed
qed

section \<open>Interfaces\<close>

definition run_fence :: "runtime_db \<Rightarrow> uuid \<Rightarrow> int option" where
  "run_fence d runID = map_option r_FencingToken (find_run runID d)"

definition fence_rank :: "runtime_db \<Rightarrow> uuid \<Rightarrow> int" where
  "fence_rank d runID = (case run_fence d runID of None \<Rightarrow> 0 | Some f \<Rightarrow> f)"

lemma step_run_fence:
  assumes "lease_step d d'"
  shows "run_fence d' k = run_fence d k \<or> (\<exists>f. run_fence d k = Some f \<and> run_fence d' k = Some (f + 1))"
  using assms
proof cases
  case Offer
  then show ?thesis using find_row_key[OF Offer(2)]
    by (auto simp: run_fence_def find_row_replace offered_run_def offer_row_def)
next
  case Confirm
  then show ?thesis using find_row_key[OF Confirm(2)]
    by (auto simp: run_fence_def find_row_replace executing_run_def)
next
  case Renew
  then show ?thesis using find_row_key[OF Renew(2)]
    by (auto simp: run_fence_def find_row_replace renewed_run_def)
next
  case GiveBack
  then show ?thesis using find_row_key[OF GiveBack(2)]
    by (auto simp: run_fence_def find_row_replace reset_run_def)
qed

lemma step_fence_rank: "lease_step d d' \<Longrightarrow> fence_rank d \<le> fence_rank d'"
  unfolding fence_rank_def le_fun_def
  by (metis (no_types, lifting) step_run_fence option.case(2) zle_add1_eq_le less_add_one order_refl less_imp_le)

lemma steps_fence_rank: "lease_step\<^sup>*\<^sup>* d d' \<Longrightarrow> fence_rank d \<le> fence_rank d'"
  by (induction rule: rtranclp_induct) (auto intro: order_trans step_fence_rank)

interpretation lease_service: service_mono lease_request_step lease_inv fence_rank
  by unfold_locales (auto intro: steps_lease_inv steps_fence_rank request_steps)

section \<open>Single operations\<close>

lemma attemptIdentityFromRow_fields:
  assumes "attemptIdentityFromRow a = Inr i"
  shows "ai_RunID i = a_RunID a" "ai_AttemptID i = a_ID a" "ai_LeaseID i = a_LeaseID a"
    "ai_FencingToken i = a_FencingToken a" "a_RuntimeSessionID a = Some (ai_RuntimeSessionID i)"
    "a_NodeID a = Some (ai_NodeID i)" "a_RuntimeWorkerID a = Some (ai_WorkerID i)" "ai_AgentID i = a_AgentID a"
  using assms by (auto simp: attemptIdentityFromRow_def Let_def split: option.splits)

lemma assignmentFromAttempt_identity:
  assumes "assignmentFromAttempt s le p a input metadata deadline = Inr payload"
  shows "attemptIdentityFromRow a = Inr (asg_AttemptIdentity payload)"
    and "validatePrincipalAttemptIdentity p (asg_AttemptIdentity payload) = None"
  using assms
  by (auto simp: assignmentFromAttempt_def issue_assignment_def Let_def split: sum.splits option.splits if_splits prod.splits)

text \<open>The assignment names one stored attempt, not yet accepted and not finished.\<close>

definition stored_offer :: "RunAssignedPayload \<Rightarrow> AttemptRow \<Rightarrow> bool" where
  "stored_offer payload a \<longleftrightarrow>
     attemptIdentityFromRow a = Inr (asg_AttemptIdentity payload) \<and> a_AcceptedAt a = None \<and> a_FinishedAt a = None"

lemma attemptIdentityFromRow_cleared:
  "attemptIdentityFromRow (a\<lparr>a_ExecutorType := e, a_AttemptNo := None, a_AcceptedAt := None, a_LastRenewedAt := None,
     a_FinishedAt := None, a_Outcome := None, a_ErrorCode := None, a_SlotAcquiredAt := None, a_SlotReleasedAt := None,
     a_ActiveRuntimeSessionID := None, a_RuntimeAttachmentID := None\<rparr>) = attemptIdentityFromRow a"
  by (simp add: attemptIdentityFromRow_def split: option.split)

lemma assignmentFromExisting_stored:
  assumes "assignmentFromExisting s le p x = Inr payload" "a_AcceptedAt (xo_attempt x) = None" "a_FinishedAt (xo_attempt x) = None"
  shows "stored_offer payload (xo_attempt x)" "validatePrincipalAttemptIdentity p (asg_AttemptIdentity payload) = None"
  using assms
  by (auto simp: assignmentFromExisting_def stored_offer_def attemptIdentityFromRow_cleared Let_def
      split: option.splits if_splits dest: assignmentFromAttempt_identity)

lemma claim_new_offer_stored:
  assumes "claim_new_offer s le p attemptID leaseID clk candidate d = Inr (c, d')"
  obtains payload a where "c = Some payload" "find_attempt (a_ID a) d' = Some a" "stored_offer payload a"
    "validatePrincipalAttemptIdentity p (asg_AttemptIdentity payload) = None"
proof -
  from assms obtain a d2 d3 mirrored payload deadline where
      crt: "CreateRuntimeRunOffer attemptID leaseID (svc_coreInstanceID s) (config_ttls (svc_config s))
        (pr_RuntimeSessionID p) (r_ID candidate) (pr_NodeID p) (pr_CredentialID p) (pr_WorkerID p) (clk 7) d2 = Some (a, d3)"
      and fresh: "\<not> attempt_conflict d2 a"
      and mir: "MirrorRuntimeRunOffer (r_ID candidate) (a_ID a) (a_LeaseID a) (a_FencingToken a) (pr_RuntimeSessionID p)
        (pr_NodeID p) (pr_CredentialID p) (pr_WorkerID p) (pr_CoreInstanceID p) (clk 8) d3 = Some (mirrored, d')"
      and asg: "\<exists>x y. assignmentFromAttempt s le p a x y deadline = Inr payload" and c: "c = Some payload"
    unfolding claim_new_offer_def by (fastforce simp: tx_simps offer_refused_def split: option.splits prod.splits)
  from crt have d3: "d3 = d2\<lparr>db_attempts := insert_row a (db_attempts d2)\<rparr>" and a: "a_AcceptedAt a = None" "a_FinishedAt a = None"
    by (auto elim!: CreateRuntimeRunOffer_SomeD simp: offer_row_def)
  have "db_attempts d' = db_attempts d3"
    using mir by (auto simp: MirrorRuntimeRunOffer_def Let_def split: option.splits if_splits)
  then have "find_attempt (a_ID a) d' = Some a"
    using attempt_conflict_find[OF fresh] by (simp add: d3 find_row_insert)
  moreover obtain x y where asg: "assignmentFromAttempt s le p a x y deadline = Inr payload" using asg by blast
  ultimately show thesis
    using that[OF c] a assignmentFromAttempt_identity[OF asg] by (simp add: stored_offer_def)
qed

lemma claim_offer_tx_stored:
  assumes "claim_offer_tx s le p attemptID leaseID clk d = Inr (Some payload, d')" "unique_keys a_ID (db_attempts d)"
  obtains a where "find_attempt (a_ID a) d' = Some a" "stored_offer payload a"
    "validatePrincipalAttemptIdentity p (asg_AttemptIdentity payload) = None"
proof -
  note stored = that
  have new: thesis if "claim_next_offer s le p attemptID leaseID clk d2 = Inr (Some payload, d')" for d2
    using that unfolding claim_next_offer_def
    by (auto simp: tx_simps split: option.splits elim!: claim_new_offer_stored intro: stored)
  have old: thesis
    if x: "GetExistingUnacceptedRunOfferForSession sid nid ag cid w n1 n2 n3 d = Some (x, d2)"
      and asg: "assignmentFromExisting s le p x = Inr payload" and d': "d' = d2" for x d2 sid nid ag cid w n1 n2 n3
  proof (rule stored)
    show "find_attempt (a_ID (xo_attempt x)) d' = Some (xo_attempt x)"
      using GetExisting_SomeD(1,2)[OF x] d' by (simp add: find_row_in_set[OF assms(2)])
  qed (use assignmentFromExisting_stored[OF asg GetExisting_SomeD(4,5)[OF x]] in auto)
  from assms(1) show thesis
    unfolding claim_offer_tx_def
    by (auto simp: tx_simps split: option.splits if_splits dest!: RequireRuntimeClusterOperation_keeps lockPrincipal_keeps
        intro: new old)
qed

lemma commit_inv: "lease_inv d \<Longrightarrow> lease_request_step q d = (r, d') \<Longrightarrow> lease_inv d'"
  using lease_service.step_inv[of d q] by simp

text \<open>
  C16: A claim that answers with an assignment names one stored attempt of the claiming session that
  is neither accepted nor finished, and its fencing token is larger than that of every other
  attempt of the run.
\<close>

theorem claim_grants_highest_fence:
  assumes "lease_inv d" "ClaimOffer s le attemptID leaseID clk p d = (Inr (Some payload), d')"
    and "i = asg_AttemptIdentity payload"
  shows "\<exists>a. find_attempt (ai_AttemptID i) d' = Some a \<and> attemptIdentityFromRow a = Inr i \<and>
           a_RuntimeSessionID a = Some (pr_RuntimeSessionID p) \<and> a_AcceptedAt a = None \<and> a_FinishedAt a = None \<and>
           (\<forall>b \<in> set (db_attempts d'). a_RunID b = a_RunID a \<and> b \<noteq> a \<longrightarrow> a_FencingToken b < ai_FencingToken i)"
proof -
  have inv: "lease_inv d'"
    by (rule commit_inv[OF assms(1), of "ClaimRequest s le attemptID leaseID clk p"]) (simp add: assms(2))
  have tx: "claim_offer_tx s le p attemptID leaseID clk d = Inr (Some payload, d')"
    using assms(2) by (simp add: ClaimOffer_def run_checked_commit)
  have "unique_keys a_ID (db_attempts d)" using assms(1) by (simp add: lease_inv_def keys_ok_def)
  with tx obtain a where a: "find_attempt (a_ID a) d' = Some a" "stored_offer payload a"
    "validatePrincipalAttemptIdentity p (asg_AttemptIdentity payload) = None" by (rule claim_offer_tx_stored)
  then have id: "attemptIdentityFromRow a = Inr i" and fin: "a_FinishedAt a = None" "a_AcceptedAt a = None"
    and ses: "ai_RuntimeSessionID i = pr_RuntimeSessionID p"
    using assms(3) by (auto simp: stored_offer_def validatePrincipalAttemptIdentity_def err_if_def split: if_splits)
  have ok: "fences_ok d'" "unique_keys a_ID (db_attempts d')" using inv by (simp_all add: lease_inv_def keys_ok_def)
  have mem: "a \<in> set (db_attempts d')" using find_row_SomeD[OF a(1)] by simp
  from fences_ok_runD[OF ok(1) mem] fin obtain r where r: "find_run (a_RunID a) d' = Some r" "r_FencingToken r = a_FencingToken a"
    by (auto simp: live_attempt_def)
  have "a_FencingToken b < a_FencingToken a" if b: "b \<in> set (db_attempts d')" "a_RunID b = a_RunID a" "b \<noteq> a" for b
  proof -
    have "a_FencingToken b \<le> a_FencingToken a"
      using fences_ok_runD[OF ok(1) b(1)] r b(2) by auto
    moreover have "a_FencingToken b \<noteq> a_FencingToken a"
      using fences_ok_uniqueD[OF ok(1) b(1) mem b(2)] find_row_in_set[OF ok(2) b(1)] a(1) b(3) by (metis option.inject)
    ultimately show ?thesis by simp
  qed
  then show ?thesis
    using a(1) id fin ses attemptIdentityFromRow_fields[OF id] by auto
qed

theorem claim_grants_highest_fence_witness:
  "ClaimOffer wit_service wit_env 10 11 wit_clock wit_principal wit_db = (Inr (Some wit_assignment), wit_offered) \<and>
   (\<exists>a. find_attempt 10 wit_offered = Some a \<and> attemptIdentityFromRow a = Inr wit_identity \<and> a_RuntimeSessionID a = Some 1)"
  using claim_grants_highest_fence[OF wit_lease_inv wit_claim refl] wit_claim
  by (auto simp: wit_assignment_def wit_identity_def wit_principal_def)

text \<open>
  C17: A stale holder is fenced off. When the run carries another fencing token than the request,
  neither a confirmation nor a renewal commits, and the database does not change.
\<close>

theorem stale_fence_is_refused:
  assumes "find_run (ai_RunID i) d = Some r" "r_FencingToken r \<noteq> ai_FencingToken i"
  shows "\<exists>e1 e2. AckAssignment s clk p \<lparr>ack_AttemptIdentity = i\<rparr> d = (Inl e1, d) \<and>
           RenewLease s clk p \<lparr>rnw_AttemptIdentity = i, rnw_LastClientEventSeq = seq, rnw_Capacity = cap,
             rnw_Inflight = inflight\<rparr> d = (Inl e2, d)"
proof -
  have "ack_tx s p i clk d \<noteq> Inr (c, d')" for c d'
    using assms by (auto elim!: ack_tx_InrE simp: runOwnsAttempt_def)
  moreover have "renew_tx s p i clk d \<noteq> Inr (c, d')" for c d'
    using assms by (auto elim!: renew_tx_InrE simp: runOwnsAttempt_def)
  ultimately have "\<exists>e. AckAssignment s clk p \<lparr>ack_AttemptIdentity = i\<rparr> d = (Inl e, d)"
    "\<exists>e. RenewLease s clk p \<lparr>rnw_AttemptIdentity = i, rnw_LastClientEventSeq = seq, rnw_Capacity = cap,
       rnw_Inflight = inflight\<rparr> d = (Inl e, d)"
    unfolding AckAssignment_def RenewLease_def by (simp_all add: run_checked_refused)
  then show ?thesis by blast
qed

theorem stale_fence_is_refused_witness:
  "\<exists>e1 e2. AckAssignment wit_service wit_later wit_principal \<lparr>ack_AttemptIdentity = wit_identity\<lparr>ai_FencingToken := 7\<rparr>\<rparr>
       wit_offered = (Inl e1, wit_offered) \<and>
     RenewLease wit_service wit_later wit_principal \<lparr>rnw_AttemptIdentity = wit_identity\<lparr>ai_FencingToken := 7\<rparr>,
       rnw_LastClientEventSeq = 0, rnw_Capacity = 2, rnw_Inflight = 1\<rparr> wit_offered = (Inl e2, wit_offered)"
  by (rule stale_fence_is_refused[where r = "offered_run wit_run wit_attempt"])
     (simp_all add: wit_worlds wit_identity_def offered_run_def find_row_def)

text \<open>
  C18: A renewal never shortens a lease and never carries it past a deadline. The lease was still
  running when it was renewed, the answer is the stored expiry, and it lies between the old expiry
  and both the deadline of the attempt and the deadline of the run.
\<close>

theorem renewal_extends_within_deadlines:
  assumes "lease_inv d" "RenewLease s clk p request d = (Inr reply, d')" "i = rnw_AttemptIdentity request"
  shows "\<exists>a r t a'. find_attempt (ai_AttemptID i) d = Some a \<and> find_run (ai_RunID i) d = Some r \<and>
           r_RunDeadlineAt r = Some t \<and> find_attempt (ai_AttemptID i) d' = Some a' \<and>
           rnd_LeaseExpiresAt reply = a_LeaseExpiresAt a' \<and> clk 2 < a_LeaseExpiresAt a \<and>
           a_LeaseExpiresAt a \<le> a_LeaseExpiresAt a' \<and> a_LeaseExpiresAt a' \<le> a_AttemptDeadlineAt a \<and>
           a_LeaseExpiresAt a' \<le> t \<and> r_CancelRequestID r = None"
proof -
  have "renew_tx s p i clk d = Inr (reply, d')" using assms(2,3) by (simp add: RenewLease_def run_checked_commit)
  then show ?thesis
  proof (rule renew_tx_InrE)
    fix updated mirrored d1
    assume reply: "reply = \<lparr>rnd_AttemptIdentity = i, rnd_LeaseExpiresAt = a_LeaseExpiresAt updated, rnd_PendingCommand = None\<rparr>"
      and ren: "RenewRuntimeRunAttempt (Milliseconds (cfg_LeaseTTL (svc_config s))) (svc_coreInstanceID s)
           (ai_RunID i) (ai_AttemptID i) (ai_LeaseID i) (ai_FencingToken i) (pr_RuntimeSessionID p)
           (pr_NodeID p) (pr_CredentialID p) (pr_WorkerID p) (clk 2) d = Some (updated, d1)"
      and mir: "MirrorRunLeaseRenewal (ai_RunID i) (ai_AttemptID i) (ai_LeaseID i) (ai_FencingToken i)
           (svc_coreInstanceID s) d1 = Some (mirrored, d')"
    from ren show ?thesis
    proof (rule RenewRuntimeRunAttempt_SomeD)
      fix a r
      assume a: "find_attempt (ai_AttemptID i) d = Some a" and r: "find_run (ai_RunID i) d = Some r"
        and g: "a_RunID a = ai_RunID i" "open_lease r a" "clk 2 < a_LeaseExpiresAt a" "sql_gt (r_RunDeadlineAt r) (clk 2)"
          "r_CancelRequestID r = None"
        and upd: "updated = renewed_attempt a r (Milliseconds (cfg_LeaseTTL (svc_config s))) (svc_coreInstanceID s) (clk 2)"
        and d1: "d1 = set_attempt (ai_AttemptID i) updated d"
      obtain t where t: "r_RunDeadlineAt r = Some t" using g(4) by (auto dest: sql_gt_Some)
      have "db_attempts d' = db_attempts d1"
        using mir by (auto simp: MirrorRunLeaseRenewal_def Let_def split: option.splits if_splits)
      then have a': "find_attempt (ai_AttemptID i) d' = Some updated"
        using find_row_key[OF a] by (simp add: d1 upd find_row_replace[OF a])
      have exp: "expiry_ok d" using assms(1) by (simp add: lease_inv_def)
      have old: "a_LeaseExpiresAt a \<le> a_AttemptDeadlineAt a" by (rule lease_before_deadline[OF exp a g(2)])
      have dead: "a_AttemptDeadlineAt a \<le> t"
        using exp find_row_SomeD[OF a] g(1,2) r t by (auto simp: expiry_ok_def open_lease_def)
      have "a_LeaseExpiresAt a \<le> a_LeaseExpiresAt updated" "a_LeaseExpiresAt updated \<le> a_AttemptDeadlineAt a"
        using old by (simp_all add: upd renewed_attempt_def LEAST_opt_le)
      with dead a r t a' g(3,5) reply show ?thesis by auto
    qed
  qed
qed

theorem renewal_extends_within_deadlines_witness:
  "lease_inv wit_executing \<and> (\<exists>a. find_attempt 10 wit_executing = Some a \<and> a_LeaseExpiresAt a \<le> 61000000002)"
proof -
  have inv: "lease_inv wit_executing"
    using lease_service.run_inv[OF wit_lease_inv, of "[ClaimRequest wit_service wit_env 10 11 wit_clock wit_principal,
      AckRequest wit_service wit_later wit_principal wit_ack]"] by (simp add: wit_claim wit_ack_commits)
  show ?thesis
    using inv renewal_extends_within_deadlines[OF inv wit_renew_commits refl]
    by (auto simp: wit_renewal_def wit_identity_def)
qed

lemma lockLeaseMutation_iff:
  "lockLeaseMutation p i d = Inr ((r, a), d') \<longleftrightarrow>
     d' = d \<and> find_run (ai_RunID i) d = Some r \<and> find_attempt (ai_AttemptID i) d = Some a \<and>
     r_RuntimeContractID r = RuntimeContractID \<and> r_AgentID r = pr_AgentID p \<and> ai_AgentID i = r_AgentID r \<and>
     attempt_key (ai_RunID i) (ai_AttemptID i) (ai_LeaseID i) (ai_FencingToken i) a \<and>
     attempt_owner (pr_RuntimeSessionID p) (pr_NodeID p) (pr_CredentialID p) (pr_WorkerID p) a \<and>
     a_ExecutorType a = ''runtime'' \<and> a_AgentID a = pr_AgentID p \<and> attemptMatchesLeaseIdentity a p i"
  unfolding lockLeaseMutation_def
  by (auto simp: tx_simps LockRunForLeaseMutation_def LockRuntimeRunAttemptForLeaseMutation_def split: option.splits if_splits)

lemma lockLeaseMutation_confirmed:
  assumes lock: "lockLeaseMutation p i d = Inr ((r, a), d)"
    and "find_run (ai_RunID i) d' = Some (executing_run r a')" "find_attempt (ai_AttemptID i) d' = Some a'"
    and "a' = confirmed_attempt a r ttl core xid now"
  shows "lockLeaseMutation p i d' = Inr ((executing_run r a', a'), d')"
proof -
  have "attempt_key (ai_RunID i) (ai_AttemptID i) (ai_LeaseID i) (ai_FencingToken i) a'"
    "attempt_owner (pr_RuntimeSessionID p) (pr_NodeID p) (pr_CredentialID p) (pr_WorkerID p) a'"
    "attemptMatchesLeaseIdentity a' p i"
    using lock assms(4)
    unfolding lockLeaseMutation_iff attempt_key_def attempt_owner_def attemptMatchesLeaseIdentity_def
    by (auto simp: confirmed_attempt_def)
  with assms show ?thesis
    unfolding lockLeaseMutation_iff by (simp add: executing_run_def confirmed_attempt_def)
qed

definition settled :: "AttemptIdentity \<Rightarrow> uuid \<Rightarrow> RunRow \<Rightarrow> AttemptRow \<Rightarrow> bool" where
  "settled i credentialID r a \<longleftrightarrow>
     rejectCanceledOrTerminalRun r = None \<and> a_AcceptedAt a \<noteq> None \<and> a_FinishedAt a = None \<and>
     (case a_AttemptNo a of None \<Rightarrow> False | Some n \<Rightarrow> 1 \<le> n) \<and> \<not> IsZero (a_LeaseExpiresAt a) \<and>
     r_DispatchState r = ''executing'' \<and> runOwnsAttempt r i credentialID"

lemma ack_tx_settled:
  assumes "lockPrincipal s p (clk 0) d = Inr (x, d)" "lockLeaseMutation p i d = Inr ((r, a), d)"
    and "settled i (pr_CredentialID p) r a"
  shows "ack_tx s p i clk d = Inr (confirmedPayload i a, d)"
  using assms by (auto simp: ack_tx_def tx_defs tx_err_def settled_def)

lemma ack_tx_settles:
  assumes "ack_tx s p i clk d = Inr (c, d')"
  obtains r a where "lockLeaseMutation p i d' = Inr ((r, a), d')" "settled i (pr_CredentialID p) r a" "c = confirmedPayload i a"
proof -
  from assms obtain x d0 where lock: "lockPrincipal s p (clk 0) d = Inr (x, d0)"
    by (auto simp: ack_tx_def tx_bind_Inr)
  then have [simp]: "d0 = d" by (rule lockPrincipal_keeps)
  from assms lock obtain r a d2 where mut: "lockLeaseMutation p i d = Inr ((r, a), d2)"
    by (auto simp: ack_tx_def tx_bind_Inr)
  then have [simp]: "d2 = d" by (rule lockLeaseMutation_SomeD(1))
  note mut = mut[simplified]
  show thesis
  proof (cases "a_AcceptedAt a = None")
    case False
    with assms lock mut have "settled i (pr_CredentialID p) r a" "c = confirmedPayload i a" "d' = d"
      by (auto simp: ack_tx_def tx_simps settled_def)
    with mut show thesis by (auto intro: that)
  next
    case True
    with assms lock mut obtain a' d1 r' where
      guards: "rejectCanceledOrTerminalRun r = None" "runOwnsAttempt r i (pr_CredentialID p)"
        "case a_AttemptNo a' of None \<Rightarrow> False | Some n \<Rightarrow> 1 \<le> n" "\<not> IsZero (a_LeaseExpiresAt a')"
        "r_DispatchState r' = ''executing''" and c: "c = confirmedPayload i a'"
      and conf: "ConfirmRunAssignment (Milliseconds (cfg_LeaseTTL (svc_config s))) (svc_coreInstanceID s)
           (ai_RunID i) (ai_AttemptID i) (ai_LeaseID i) (ai_FencingToken i) (pr_RuntimeSessionID p)
           (pr_NodeID p) (pr_CredentialID p) (pr_WorkerID p) (at_ID x) (clk 2) d = Some (a', d1)"
      and mir: "MirrorRunConfirmedAssignment (ai_RunID i) (ai_AttemptID i) (ai_LeaseID i) (ai_FencingToken i)
           (pr_RuntimeSessionID p) (pr_NodeID p) (pr_CredentialID p) (pr_WorkerID p) (svc_coreInstanceID s) d1
           = Some (r', d')"
      by (auto simp: ack_tx_def tx_simps)
    from mut have rows: "find_run (ai_RunID i) d = Some r" "find_attempt (ai_AttemptID i) d = Some a"
      by (auto simp: lockLeaseMutation_iff)
    from conf obtain a': "a' = confirmed_attempt a r (Milliseconds (cfg_LeaseTTL (svc_config s))) (svc_coreInstanceID s) (at_ID x) (clk 2)"
      and d1: "d1 = set_attempt (ai_AttemptID i) a' d" and fin: "a_FinishedAt a = None"
      by (rule ConfirmRunAssignment_SomeD) (use rows in \<open>auto simp: open_lease_def\<close>)
    have "find_run (ai_RunID i) d1 = Some r" "find_attempt (ai_AttemptID i) d1 = Some a'"
      using rows find_row_key[OF rows(2)] by (simp_all add: d1 a' find_row_replace[OF rows(2)])
    from MirrorRunConfirmedAssignment_SomeD[OF mir this]
    have r': "r' = executing_run r a'" and d': "d' = set_run (ai_RunID i) r' d1" by simp_all
    have "find_run (ai_RunID i) d' = Some (executing_run r a')" "find_attempt (ai_AttemptID i) d' = Some a'"
      using rows find_row_key[OF rows(1)] find_row_key[OF rows(2)]
      by (simp_all add: d' d1 r' a' find_row_replace[OF rows(1)] find_row_replace[OF rows(2)] executing_run_def)
    from lockLeaseMutation_confirmed[OF mut this a'] show thesis
    proof (rule that)
      show "settled i (pr_CredentialID p) (executing_run r a') a'"
        using guards r' fin a'
        by (auto simp: settled_def rejectCanceledOrTerminalRun_def runOwnsAttempt_def executing_run_def
            confirmed_attempt_def err_if_def split: if_splits)
    qed (rule c)
  qed
qed

text \<open>
  C19: A confirmation may be repeated. Once an acknowledgement committed, the same acknowledgement,
  sent again at any later time while the principal is still valid, gives the same answer and leaves
  the database as it is.
\<close>

theorem ack_replay:
  assumes "AckAssignment s clk p request d = (Inr c, d')"
    and "lockPrincipal s p (clk' 0) d' = Inr (x, d')"
  shows "AckAssignment s clk' p request d' = (Inr c, d')"
proof -
  define i where "i = ack_AttemptIdentity request"
  have tx: "ack_tx s p i clk d = Inr (c, d')"
    and ok: "err_then (validateOperation s p) (err_then (map_option (\<lambda>err. LeaseError RuntimeLeaseErrorValidationFailed (Some err))
      (validateAttemptIdentity i)) (validatePrincipalAttemptIdentity p i)) = None"
    using assms(1) by (simp_all add: AckAssignment_def run_checked_commit i_def)
  from tx obtain r a where "lockLeaseMutation p i d' = Inr ((r, a), d')" "settled i (pr_CredentialID p) r a" "c = confirmedPayload i a"
    by (rule ack_tx_settles)
  with ack_tx_settled[where clk = clk', OF assms(2)] have "ack_tx s p i clk' d' = Inr (c, d')" by blast
  with ok show ?thesis by (simp add: AckAssignment_def run_checked_commit i_def)
qed

theorem ack_replay_witness:
  "AckAssignment wit_service wit_second wit_principal wit_ack wit_executing = (Inr wit_confirmed, wit_executing)"
  by (rule ack_replay[OF wit_ack_commits]) (simp add: wit_executing_def wit_lockPrincipal)

lemma find_row_replaced:
  "find_row key k t = Some r \<Longrightarrow> key r' = key r \<Longrightarrow> find_row key k (update_row key k (\<lambda>_. r') t) = Some r'"
  using find_row_key by (fastforce simp: find_row_update)

lemma finishAndReleaseOffer_finishes:
  assumes "finishAndReleaseOffer s p e outcome code clk d = Inr (u, d')"
  shows "\<exists>a a'. find_attempt (oe_AttemptID e) d = Some a \<and> a_FinishedAt a = None \<and>
           find_attempt (oe_AttemptID e) d' = Some a' \<and> a_FinishedAt a' \<noteq> None"
proof -
  let ?k = "oe_AttemptID e"
  from assms obtain a1 d1 where fin: "FinishUnacceptedRunOffer outcome code (oe_RunID e) ?k (oe_LeaseID e)
      (oe_FencingToken e) (pr_RuntimeSessionID p) (pr_NodeID p) (pr_CredentialID p) (pr_WorkerID p)
      (svc_coreInstanceID s) (clk 0) d = Some (a1, d1)"
    by (auto simp: finishAndReleaseOffer_def tx_simps)
  then obtain a where a: "find_attempt ?k d = Some a" "a_FinishedAt a = None" "a_FinishedAt a1 \<noteq> None"
      and d1: "find_attempt ?k d1 = Some a1"
    by (rule FinishUnacceptedRunOffer_SomeD) (auto simp: open_lease_def find_row_replaced)
  have mark: "\<exists>a2. find_attempt ?k d2 = Some a2 \<and> a_FinishedAt a2 \<noteq> None"
    if "MarkRunAttemptCapacityReleased runID ?k leaseID f t d1 = Some (cap, d2)" for runID leaseID f t cap d2
    using that d1 a(3)
    by (auto simp: MarkRunAttemptCapacityReleased_def find_row_replaced split: option.splits if_splits)
  from assms fin consider (none) "d' = d1"
    | (some) cap d2 s3 d3 n4 d4 g r5 d5 h where
      "MarkRunAttemptCapacityReleased (oe_RunID e) ?k (oe_LeaseID e) (oe_FencingToken e) (clk 1) d1 = Some (cap, d2)"
      "ReleaseRuntimeSessionSlot (cap_RuntimeSessionID cap) (clk 2) d2 = Some (s3, d3)"
      "ReleaseRuntimeNodeSlot (cap_NodeID cap) (clk 3) d3 = Some (n4, d4)"
      "ResetRunAfterUnacceptedOffer (oe_RunID e) ?k (oe_LeaseID e) (oe_FencingToken e)
         (d4\<lparr>db_signals := db_signals d4 @ [g]\<rparr>) = Some (r5, d5)"
      "d' = d5\<lparr>db_signals := db_signals d5 @ [h]\<rparr>"
    by (auto simp: finishAndReleaseOffer_def tx_simps signal_statements split: option.splits)
  then have "\<exists>a'. find_attempt ?k d' = Some a' \<and> a_FinishedAt a' \<noteq> None"
  proof cases
    case none
    with d1 a(3) show ?thesis by simp
  next
    case some
    then have "db_attempts d' = db_attempts d2"
      by (auto simp: ReleaseRuntimeSessionSlot_def ReleaseRuntimeNodeSlot_def ResetRunAfterUnacceptedOffer_def Let_def
          split: option.splits if_splits)
    with mark[OF some(1)] show ?thesis by simp
  qed
  with a show ?thesis by blast
qed

lemma finishAndReleaseOffer_session:
  assumes "finishAndReleaseOffer s p e outcome code clk d = Inr (u, d')" "\<forall>a \<in> set (db_attempts d). slot_shape a"
    and "find_attempt (oe_AttemptID e) d = Some a"
  shows "a_ActiveRuntimeSessionID a = Some (pr_RuntimeSessionID p)"
proof -
  from assms(1) obtain a1 d1 where fin: "FinishUnacceptedRunOffer outcome code (oe_RunID e) (oe_AttemptID e) (oe_LeaseID e)
      (oe_FencingToken e) (pr_RuntimeSessionID p) (pr_NodeID p) (pr_CredentialID p) (pr_WorkerID p)
      (svc_coreInstanceID s) (clk 0) d = Some (a1, d1)"
    by (auto simp: finishAndReleaseOffer_def tx_simps)
  have a: "a_ExecutorType a = ''runtime''" "a_FinishedAt a = None" "slot_shape a"
    and key: "attempt_key (oe_RunID e) (oe_AttemptID e) (oe_LeaseID e) (oe_FencingToken e) a"
    and a1: "a1 = a\<lparr>a_FinishedAt := Some (clk 0), a_Outcome := Some outcome, a_ErrorCode := Some code, a_ErrorDetailRedacted := None\<rparr>"
      "find_attempt (oe_AttemptID e) d1 = Some a1"
    using fin assms(2,3) find_row_SomeD[OF assms(3)]
    by (auto elim!: FinishUnacceptedRunOffer_SomeD simp: open_lease_def find_row_replaced)
  from a obtain t sid nid where slot: "a_SlotReleasedAt a = None" "a_SlotAcquiredAt a = Some t"
    "a_ActiveRuntimeSessionID a = Some sid" "a_NodeID a = Some nid" by (auto elim: slot_shape_open)
  have "attempt_key (oe_RunID e) (oe_AttemptID e) (oe_LeaseID e) (oe_FencingToken e) a1"
    using key a1(1) by (simp add: attempt_key_def)
  from Mark_Some[OF a1(2) this, of t sid nid "clk 1"] slot a(1) a1(1) fin assms(1) show ?thesis
    by (auto simp: finishAndReleaseOffer_def tx_simps)
qed

lemma finishing_step_gives_back:
  assumes "lease_step d d'" "find_attempt k d = Some a" "a_FinishedAt a = None"
    "find_attempt k d' = Some a'" "a_FinishedAt a' \<noteq> None"
  obtains r s s' n n' where "find_run (a_RunID a) d = Some r" "find_run (a_RunID a) d' = Some (reset_run r)"
    "find_session (the (a_ActiveRuntimeSessionID a)) d = Some s" "find_session (the (a_ActiveRuntimeSessionID a)) d' = Some s'"
    "s_Inflight s' = s_Inflight s - 1" "find_node (the (a_NodeID a)) d = Some n" "find_node (the (a_NodeID a)) d' = Some n'"
    "n_Inflight n' = n_Inflight n - 1" "a_SlotReleasedAt a' \<noteq> None" "a_ActiveRuntimeSessionID a' = None"
  using assms(1)
proof cases
  case (Offer runID r sessionID s n now ttl b attemptID leaseID core s' t1 n' t2)
  with assms have False by (auto simp: find_row_insert)
  then show ?thesis by simp
next
  case (Confirm runID r attemptID b now leaseTtlMs b' core attachmentID)
  with assms have False
    using find_row_key[OF Confirm(3)] by (auto simp: find_row_replace[OF Confirm(3)] split: if_splits)
  then show ?thesis by simp
next
  case (Renew runID r attemptID b now leaseTtlMs b' core)
  with assms have False
    using find_row_key[OF Renew(3)] by (auto simp: find_row_replace[OF Renew(3)] split: if_splits)
  then show ?thesis by simp
next
  case (GiveBack runID r attemptID b sessionID nodeID s n outcome b' errorCode t1 t2 s' t3 n' t4 signals)
  have key: "r_ID r = runID" "a_ID b = attemptID" "s_ID s = sessionID" "n_ID n = nodeID"
    using GiveBack(2,3,13,14) by (auto dest: find_row_key)
  have "k = attemptID" "a = b"
    using assms(2-5) GiveBack(3) key by (auto simp: GiveBack(1) GiveBack(18) find_row_replace[OF GiveBack(3)] split: if_splits)
  moreover from this have "a' = b'"
    using assms(4) key by (simp add: GiveBack(1) GiveBack(18) find_row_replace[OF GiveBack(3)])
  ultimately show ?thesis
    using GiveBack key
    by (intro that[of r s s' n n'])
       (auto simp: find_row_replace[OF GiveBack(2)] find_row_replace[OF GiveBack(13)] find_row_replace[OF GiveBack(14)]
          released_attempt_def)
qed

text \<open>
  C20: Rejecting an open offer gives everything back at once: the session and the node have one slot
  more, the attempt is finished and holds no slot, and the run waits for the next claim with no
  active attempt and its fencing token kept.
\<close>

theorem rejection_returns_slots:
  assumes "lease_inv d" "RejectAssignment s clk p request d = (Inr reply, d')" "i = rej_AttemptIdentity request"
    and "find_attempt (ai_AttemptID i) d = Some a" "a_FinishedAt a = None"
  shows "\<exists>r ses ses' n n' a'. find_run (ai_RunID i) d = Some r \<and> find_run (ai_RunID i) d' = Some (reset_run r) \<and>
           find_session (pr_RuntimeSessionID p) d = Some ses \<and> find_session (pr_RuntimeSessionID p) d' = Some ses' \<and>
           s_Inflight ses' = s_Inflight ses - 1 \<and>
           find_node (pr_NodeID p) d = Some n \<and> find_node (pr_NodeID p) d' = Some n' \<and> n_Inflight n' = n_Inflight n - 1 \<and>
           find_attempt (ai_AttemptID i) d' = Some a' \<and> a_FinishedAt a' \<noteq> None \<and> a_ActiveRuntimeSessionID a' = None"
proof -
  have shapes: "\<forall>a \<in> set (db_attempts d). slot_shape a" using assms(1) by (simp add: lease_inv_def slots_ok_def)
  have tx: "reject_tx s p i (rej_ReasonCode request) clk d = Inr (reply, d')"
    using assms(2,3) by (simp add: RejectAssignment_def run_checked_commit)
  from tx obtain x d0 where lock: "lockPrincipal s p (clk 0) d = Inr (x, d0)" by (auto simp: reject_tx_def tx_bind_Inr)
  then have [simp]: "d0 = d" by (rule lockPrincipal_keeps)
  from tx lock obtain r b d2 where mut: "lockLeaseMutation p i d = Inr ((r, b), d2)" by (auto simp: reject_tx_def tx_bind_Inr)
  then have [simp]: "d2 = d" and b: "b = a" and owner: "a_RunID a = ai_RunID i" "a_NodeID a = Some (pr_NodeID p)"
      "a_ID a = ai_AttemptID i"
    using assms(4) by (auto simp: lockLeaseMutation_iff attempt_key_def attempt_owner_def)
  from tx lock mut assms(5) have give: "finishAndReleaseOffer s p (offerEvidenceFromAttempt a) ''offer_rejected''
      (rej_ReasonCode request) (\<lambda>n. clk (1 + n)) d = Inr ((), d')"
    by (auto simp: reject_tx_def tx_simps b isFinishedUnacceptedOffer_def)
  then have ses: "a_ActiveRuntimeSessionID a = Some (pr_RuntimeSessionID p)"
    by (rule finishAndReleaseOffer_session[OF _ shapes]) (use owner assms(4) in \<open>simp add: offerEvidenceFromAttempt_def\<close>)
  from finishAndReleaseOffer_finishes[OF give] owner(3) assms(4,5) obtain a' where
      a': "find_attempt (ai_AttemptID i) d' = Some a'" "a_FinishedAt a' \<noteq> None"
    by (auto simp: offerEvidenceFromAttempt_def)
  show ?thesis
    by (rule finishing_step_gives_back[OF finishAndReleaseOffer_step[OF give shapes] assms(4,5) a'])
       (use ses owner a' in auto)
qed

theorem rejection_returns_slots_witness:
  "\<exists>ses'. find_session 1 wit_returned = Some ses' \<and> s_Inflight ses' = s_Inflight (wit_session 1 1005 1005) - 1"
proof -
  have inv: "lease_inv wit_offered"
    using lease_service.run_inv[OF wit_lease_inv, of "[ClaimRequest wit_service wit_env 10 11 wit_clock wit_principal]"]
    by (simp add: wit_claim)
  have "find_attempt (ai_AttemptID (rej_AttemptIdentity wit_rejection)) wit_offered = Some wit_attempt" "a_FinishedAt wit_attempt = None"
    by (simp_all add: wit_rejection_def wit_identity_def wit_offered_def wit_world_def find_row_def wit_attempt_def)
  from rejection_returns_slots[OF inv wit_reject_commits refl this] show ?thesis
    by (auto simp: wit_principal_def wit_offered_def wit_world_def find_row_def wit_session_def)
qed

text \<open>
  C22: During hard maintenance, or when the cluster state is missing, no run is offered: a claim
  that passes its own validation answers 503 and leaves the database as it is.
\<close>

theorem maintenance_blocks_claims:
  assumes "validateOperation s p = None" "svc_issuer s \<noteq> None"
    and "db_cluster_mode d = None \<or> db_cluster_mode d = Some ''hard_maintenance''"
  shows "\<exists>message. ClaimOffer s le attemptID leaseID clk p d =
           (Inl (HTTPError 503 ''SERVICE_UNAVAILABLE'' message), d)"
  using assms
  by (auto simp: ClaimOffer_def run_checked_def WithTransaction_def claim_offer_tx_def tx_defs err_then_def err_if_def
      RequireRuntimeClusterOperation_def)

theorem maintenance_blocks_claims_witness:
  "\<exists>message. ClaimOffer wit_service wit_env 10 11 wit_clock wit_principal (wit_db\<lparr>db_cluster_mode := Some ''hard_maintenance''\<rparr>) =
     (Inl (HTTPError 503 ''SERVICE_UNAVAILABLE'' message), wit_db\<lparr>db_cluster_mode := Some ''hard_maintenance''\<rparr>)"
  by (rule maintenance_blocks_claims) (simp_all add: wit_validateOperation, simp add: wit_service_def)

lemma claim_next_offer_blocked:
  assumes "b \<in> set (db_attempts d)" "outstanding_offer (pr_RuntimeSessionID p) b"
    and "claim_next_offer s le p attemptID leaseID clk d = Inr (c, d')"
  shows "c = None \<and> d' = d"
proof -
  have "claim_new_offer s le p attemptID leaseID clk r d \<noteq> Inr (c, d')" for r
  proof
    assume "claim_new_offer s le p attemptID leaseID clk r d = Inr (c, d')"
    then obtain s5 d5 n6 d6 a d7 where
        "ClaimRuntimeSessionSlot (pr_RuntimeSessionID p) (pr_AgentID p) (svc_coreInstanceID s) (clk 5) d = Some (s5, d5)"
        "ClaimRuntimeNodeSlot (pr_NodeID p) (clk 6) d5 = Some (n6, d6)"
        and crt: "CreateRuntimeRunOffer attemptID leaseID (svc_coreInstanceID s) (config_ttls (svc_config s))
          (pr_RuntimeSessionID p) (r_ID r) (pr_NodeID p) (pr_CredentialID p) (pr_WorkerID p) (clk 7) d6 = Some (a, d7)"
      unfolding claim_new_offer_def by (auto simp: tx_simps split: option.splits prod.splits)
    then have "b \<in> set (db_attempts d6)"
      using assms(1) by (auto elim!: ClaimRuntimeSessionSlot_SomeD ClaimRuntimeNodeSlot_SomeD)
    with crt assms(2) show False
      by (auto elim!: CreateRuntimeRunOffer_SomeD simp: offer_selected_def dest: find_row_key)
  qed
  with assms(3) show ?thesis
    unfolding claim_next_offer_def
    by (auto simp: tx_simps split: option.splits dest: lock_statements_keep(9))
qed

text \<open>
  C21: An offer that expired without an answer is not released by the next claim of its session: the
  statement that looks for an outstanding offer skips expired ones, and the statement that creates
  an offer refuses while one is outstanding. Such a claim never returns an assignment and never
  changes the database.
\<close>

theorem expired_offer_blocks_session:
  assumes "b \<in> set (db_attempts d)" "outstanding_offer (pr_RuntimeSessionID p) b"
    and "\<forall>a \<in> set (db_attempts d). outstanding_offer (pr_RuntimeSessionID p) a \<longrightarrow> a_OfferExpiresAt a \<le> clk 1"
  shows "\<exists>r. ClaimOffer s le attemptID leaseID clk p d = (r, d) \<and> (\<forall>payload. r \<noteq> Inr (Some payload))"
proof -
  have none: "GetExistingUnacceptedRunOfferForSession (pr_RuntimeSessionID p) nid ag cid w (clk 1) n2 n3 d = None" for nid ag cid w n2 n3
    using assms(3)
    by (force simp: GetExistingUnacceptedRunOfferForSession_def open_offer_def attempt_owner_def outstanding_offer_def
        find_Some_iff find_None_iff split: option.splits if_splits)
  have "c = None \<and> d' = d" if "claim_offer_tx s le p attemptID leaseID clk d = Inr (c, d')" for c d'
    using that claim_next_offer_blocked[OF assms(1,2)] unfolding claim_offer_tx_def
    by (auto simp: tx_simps none[unfolded One_nat_def] split: option.splits dest!: RequireRuntimeClusterOperation_keeps lockPrincipal_keeps)
  then show ?thesis
    unfolding ClaimOffer_def by (rule_tac run_checked_cases) auto
qed

theorem expired_offer_blocks_session_witness:
  "\<exists>r. ClaimOffer wit_service wit_env 12 13 (\<lambda>n. 40000000000 + int n) wit_principal wit_offered = (r, wit_offered) \<and>
       (\<forall>payload. r \<noteq> Inr (Some payload))"
  by (rule expired_offer_blocks_session[where b = wit_attempt])
     (simp_all add: wit_offered_def wit_world_def wit_attempt_def wit_principal_def outstanding_offer_def)

text \<open>
  A configuration the service accepts never trips the range guards of the SQL statements: the
  durations it sends are at least one millisecond and within the limits of offer, lease and attempt.
  The default configuration is accepted, and normalisation only fills in what is zero.
\<close>

lemma Milliseconds_range:
  assumes "validRuntimeLeaseDuration v (m * millisecond)"
  shows "1 \<le> Milliseconds v \<and> Milliseconds v \<le> m \<and> Milliseconds v * millisecond = v"
proof -
  from assms have v: "millisecond \<le> v" "v \<le> m * millisecond" "v mod millisecond = 0"
    by (simp_all add: validRuntimeLeaseDuration_def)
  have eq: "Milliseconds v * millisecond = v" using v(3) by (simp add: Milliseconds_def mod_eq_0_iff_dvd)
  then have "Milliseconds v * millisecond \<le> m * millisecond" "1 * millisecond \<le> Milliseconds v * millisecond"
    using v by simp_all
  then show ?thesis using eq by (simp add: millisecond_def)
qed

lemma valid_config_passes_sql_guards:
  "validRuntimeLeaseConfig c \<Longrightarrow>
     ttls_in_range (config_ttls c) \<and> Milliseconds (cfg_OfferTTL c) * millisecond = cfg_OfferTTL c \<and>
     normalizeRuntimeLeaseConfig c = c"
proof -
  assume "validRuntimeLeaseConfig c"
  then have v: "validRuntimeLeaseDuration (cfg_OfferTTL c) (300000 * millisecond)"
      "validRuntimeLeaseDuration (cfg_LeaseTTL c) (3600000 * millisecond)"
      "validRuntimeLeaseDuration (cfg_AttemptTTL c) (86400000 * millisecond)"
      "validRuntimeLeaseDuration (cfg_HeartbeatTTL c) (3600000 * millisecond)"
    by (simp_all add: validRuntimeLeaseConfig_def second_def)
  have "normalizeRuntimeLeaseConfig c = c"
    using v by (simp add: normalizeRuntimeLeaseConfig_def validRuntimeLeaseDuration_def millisecond_def)
  with v[THEN Milliseconds_range] show ?thesis by (simp add: ttls_in_range_def config_ttls_def)
qed



lemma claim_before_refl [simp]: "claim_before x x"
  by (simp add: claim_before_def)




end
