(* ===== verification/Event_Store.thy ===== *)
theory Event_Store
  imports Lease_Service Canonical_Json
begin

text \<open>
  The event store of \<open>pkg/runtime/event_store.go\<close> with the principal locks of \<open>principal.go\<close>, the resume
  authorisation of \<open>resume_authorization.go\<close> and the receipts that \<open>pkg/skillpackage\<close> and
  \<open>pkg/mcpbinding\<close> record in the same transaction. \<open>Append\<close> is one transaction over \<open>runtime_db\<close>.
  SHA-256, the number formatting of the canonicaliser and the JSON decoding of receipts are the
  record \<open>event_env\<close>; \<open>uuid\<close> defaults of the database are arguments. The clock readings of one
  statement are taken as one reading; \<open>created_at\<close> is the time the transaction began.
\<close>

section \<open>Requests\<close>

record RuntimeEventPrincipal =
  pe_AgentID :: uuid
  pe_RuntimeContractDigest :: string
  pe_CredentialID :: "uuid option"
  pe_NodeID :: "uuid option"
  pe_WorkerID :: "string option"
  pe_RuntimeSessionID :: "uuid option"
  pe_CoreInstanceID :: "uuid option"
  pe_AttachmentID :: "uuid option"
  pe_DeviceCertificateSerial :: "string option"
  pe_DevicePublicKeyThumbprintSHA256 :: "string option"

record RuntimeEventRequest =
  eq_ClientEventID :: uuid
  eq_ClientEventSeq :: int
  eq_EventType :: string
  eq_Payload :: "jmap option"

record RuntimeEventAck =
  ek_ClientEventID :: uuid
  ek_ClientEventSeq :: int
  ek_Sequence :: int
  ek_Replayed :: bool
  ek_Inserted :: bool
  ek_EventID :: uuid
  ek_CreatedAt :: gotime

record ReceiptBinding =
  rb_BindingID :: uuid
  rb_VersionID :: uuid
  rb_Digest :: string

record Receipt =
  rc_Bindings :: "ReceiptBinding list"
  rc_ErrorCode :: string

record Reference =
  rr_BindingID :: uuid
  rr_Digest :: string

record event_env =
  ee_floats :: float_env
  ee_sha256 :: "bytes \<Rightarrow> bytes"
  ee_decode_skill_receipt :: "bytes \<Rightarrow> Receipt option"
  ee_decode_mcp_receipt :: "bytes \<Rightarrow> Reference list option"

abbreviation "RuntimeEventErrorIDConflict \<equiv> ''EVENT_ID_CONFLICT''"
abbreviation "RuntimeEventErrorStaleLease \<equiv> ''STALE_LEASE''"
abbreviation "RuntimeEventErrorLeaseExpired \<equiv> ''LEASE_EXPIRED''"
abbreviation "RuntimeEventErrorLeaseIdentityMismatch \<equiv> ''LEASE_IDENTITY_MISMATCH''"
abbreviation "RuntimeEventErrorRunAlreadyTerminal \<equiv> ''RUN_ALREADY_TERMINAL''"
abbreviation "RuntimeEventErrorEventsMissing \<equiv> ''EVENTS_MISSING''"

definition newRuntimeEventError :: "RuntimeErrorCode \<Rightarrow> go_error option \<Rightarrow> go_error" where
  "newRuntimeEventError code cause = EventError code [] cause"

definition runtimeEventFingerprintVersion :: string where
  "runtimeEventFingerprintVersion = ''openlinker.runtime-event.v1''"

definition MaxRuntimeEventPayloadBytes :: nat where
  "MaxRuntimeEventPayloadBytes = 4 * 1024 * 1024"

section \<open>Validation\<close>

definition optionalRuntimeExecutorIdentityValid :: "uuid option \<Rightarrow> uuid option \<Rightarrow> string option \<Rightarrow> bool" where
  "optionalRuntimeExecutorIdentityValid nodeID sessionID workerID \<longleftrightarrow>
     (case (nodeID, sessionID, workerID) of
        (None, None, None) \<Rightarrow> True
      | (Some node, Some session, Some worker) \<Rightarrow>
          node \<noteq> uuid_Nil \<and> session \<noteq> uuid_Nil \<and> worker \<noteq> [] \<and> ValidString worker \<and> RuneCount worker \<le> 200
      | _ \<Rightarrow> False)"

definition validateRuntimeAttemptIdentity :: "RuntimeAttemptIdentity \<Rightarrow> go_error option" where
  "validateRuntimeAttemptIdentity i =
     (if ra_RunID i = uuid_Nil \<or> ra_AttemptID i = uuid_Nil \<or> ra_LeaseID i = uuid_Nil \<or>
         ra_AgentID i = uuid_Nil \<or> ra_FencingToken i < 1
      then Some InvalidRuntimeEvent
      else err_if (\<not> optionalRuntimeExecutorIdentityValid (ra_NodeID i) (ra_RuntimeSessionID i) (ra_WorkerID i))
             InvalidRuntimeEvent)"

definition runtimeEventPrincipalShapeValid :: "RuntimeEventPrincipal \<Rightarrow> bool" where
  "runtimeEventPrincipalShapeValid p \<longleftrightarrow>
     pe_CredentialID p = None \<and> pe_NodeID p = None \<and> pe_WorkerID p = None \<and> pe_RuntimeSessionID p = None \<and>
     pe_CoreInstanceID p = None \<and> pe_AttachmentID p = None \<and> pe_DeviceCertificateSerial p = None \<and>
     pe_DevicePublicKeyThumbprintSHA256 p = None \<and> pe_RuntimeContractDigest p = [] \<or>
     (case (pe_CredentialID p, pe_NodeID p, pe_RuntimeSessionID p, pe_CoreInstanceID p, pe_AttachmentID p,
            pe_WorkerID p, pe_DeviceCertificateSerial p, pe_DevicePublicKeyThumbprintSHA256 p) of
        (Some credential, Some node, Some session, Some core, Some attachment, Some worker, Some serial, Some thumb) \<Rightarrow>
          credential \<noteq> uuid_Nil \<and> node \<noteq> uuid_Nil \<and> session \<noteq> uuid_Nil \<and> core \<noteq> uuid_Nil \<and>
          attachment \<noteq> uuid_Nil \<and> runtimeWireContractSupported (pe_RuntimeContractDigest p) \<and>
          worker \<noteq> [] \<and> ValidString worker \<and> RuneCount worker \<le> 200 \<and> validCertificateSerial serial \<and>
          validSHA256Hex thumb
      | _ \<Rightarrow> False)"

definition validateRuntimeEventPrincipal :: "RuntimeEventPrincipal \<Rightarrow> go_error option" where
  "validateRuntimeEventPrincipal p =
     err_if (pe_AgentID p = uuid_Nil \<or> \<not> runtimeEventPrincipalShapeValid p) InvalidRuntimeEvent"

definition validateRuntimeEventRequest :: "RuntimeEventRequest \<Rightarrow> go_error option" where
  "validateRuntimeEventRequest request =
     (if eq_ClientEventID request = uuid_Nil \<or> eq_ClientEventSeq request < 1 \<or>
         \<not> runtimeEventTypePattern (eq_EventType request) \<or> eq_Payload request = None
      then Some InvalidRuntimeEvent
      else err_if (eq_EventType request \<in> set coreOwnedRuntimeEventTypes) InvalidRuntimeEvent)"

text \<open>\<open>fmt.Errorf("%w: ...", ErrInvalidRuntimeEvent, ...)\<close>\<close>

definition invalid_event :: "string \<Rightarrow> go_error" where
  "invalid_event message = OtherError message (Some InvalidRuntimeEvent)"

definition canonicalRuntimeEventPayload :: "event_env \<Rightarrow> RuntimeEventRequest \<Rightarrow> go_error + bytes" where
  "canonicalRuntimeEventPayload ee request =
     (case validateRuntimeEventRequest request of
        Some err \<Rightarrow> Inl err
      | None \<Rightarrow>
         (case CanonicalizeRFC8785 (ee_floats ee) (of_jmap_opt (ee_floats ee) (eq_Payload request)) of
            Inl _ \<Rightarrow> Inl (invalid_event ''canonical payload'')
          | Inr payload \<Rightarrow>
              if MaxRuntimeEventPayloadBytes < length payload
              then Inl (invalid_event ''canonical payload exceeds the limit'') else Inr payload))"

definition event_fingerprint_value :: "float_env \<Rightarrow> RuntimeEventRequest \<Rightarrow> gvalue" where
  "event_fingerprint_value fl request =
     VObject [(''version'', VString runtimeEventFingerprintVersion),
       (''client_event_seq'', VInt (word_of_int (eq_ClientEventSeq request))),
       (''event_type'', VString (eq_EventType request)),
       (''payload'', of_jmap_opt fl (eq_Payload request))]"

definition RuntimeEventFingerprint :: "event_env \<Rightarrow> RuntimeEventRequest \<Rightarrow> go_error + bytes" where
  "RuntimeEventFingerprint ee request =
     (case canonicalRuntimeEventPayload ee request of
        Inl err \<Rightarrow> Inl err
      | Inr _ \<Rightarrow>
         (case CanonicalizeRFC8785 (ee_floats ee) (event_fingerprint_value (ee_floats ee) request) of
            Inl _ \<Rightarrow> Inl (invalid_event ''canonical payload'')
          | Inr canonical \<Rightarrow> Inr (ee_sha256 ee canonical)))"

section \<open>Missing events\<close>

text \<open>The loop carries the last sequence it accepted and the ranges it has found.\<close>

fun missing_loop :: "int \<Rightarrow> int \<Rightarrow> EventRange list \<Rightarrow> int list \<Rightarrow> int \<times> EventRange list" where
  "missing_loop final previous ranges [] = (previous, ranges)"
| "missing_loop final previous ranges (sequence # rest) =
     (if sequence \<le> previous \<or> sequence > final then missing_loop final previous ranges rest
      else if sequence > int64 (previous + 1)
      then missing_loop final sequence
             (ranges @ [\<lparr>er_Start = int64 (previous + 1), er_End = int64 (sequence - 1)\<rparr>]) rest
      else missing_loop final sequence ranges rest)"

definition missingRuntimeEventRanges :: "int list \<Rightarrow> int \<Rightarrow> EventRange list" where
  "missingRuntimeEventRanges sequences finalClientEventSeq =
     (case missing_loop finalClientEventSeq 0 [] sequences of
        (previous, ranges) \<Rightarrow>
          (let sentinel = int64 (finalClientEventSeq + 1) in
           if sentinel > int64 (previous + 1)
           then ranges @ [\<lparr>er_Start = int64 (previous + 1), er_End = int64 (sentinel - 1)\<rparr>]
           else ranges))"

section \<open>Queries\<close>

abbreviation find_grant :: "uuid \<Rightarrow> runtime_db \<Rightarrow> GrantRow option" where
  "find_grant k d \<equiv> find_row g_ID k (db_grants d)"

abbreviation max_int32 :: int where
  "max_int32 \<equiv> 2 ^ 31 - 1"

definition LockRunForEventAppend :: "uuid \<Rightarrow> (runtime_db, RunRow) query" where
  "LockRunForEventAppend runID d =
     (case find_run runID d of
        None \<Rightarrow> None
      | Some r \<Rightarrow> if r_RuntimeContractID r = RuntimeContractID then Some (r, d) else None)"

definition GetRunAttemptByID :: "uuid \<Rightarrow> (runtime_db, AttemptRow) query" where
  "GetRunAttemptByID attemptID d = map_option (\<lambda>a. (a, d)) (find_attempt attemptID d)"

definition GetRunEventByClientID :: "uuid \<Rightarrow> uuid \<Rightarrow> (runtime_db, EventRow) query" where
  "GetRunEventByClientID runID clientEventID d =
     map_option (\<lambda>e. (e, d))
       (List.find (\<lambda>e. ev_RunID e = runID \<and> ev_ClientEventID e = Some clientEventID) (db_events d))"

definition GetRunEventByAttemptSequence :: "uuid \<Rightarrow> uuid \<Rightarrow> int \<Rightarrow> int \<Rightarrow> (runtime_db, EventRow) query" where
  "GetRunEventByAttemptSequence runID attemptID attemptNo clientEventSeq d =
     map_option (\<lambda>e. (e, d))
       (List.find (\<lambda>e. ev_RunID e = runID \<and> ev_AttemptID e = Some attemptID \<and> ev_AttemptNo e = Some attemptNo \<and>
          ev_ClientEventSeq e = Some clientEventSeq) (db_events d))"

definition GetRunDelegationByChild :: "uuid \<Rightarrow> (runtime_db, DelegationRow) query" where
  "GetRunDelegationByChild childRunID d =
     map_option (\<lambda>x. (x, d)) (find_row dl_ChildRunID childRunID (db_delegations d))"

definition ListClientEventSequencesThrough :: "uuid \<Rightarrow> uuid \<Rightarrow> int \<Rightarrow> int \<Rightarrow> runtime_db \<Rightarrow> int list" where
  "ListClientEventSequencesThrough runID attemptID attemptNo through d =
     sort (List.map_filter (\<lambda>e.
       case ev_ClientEventSeq e of
         None \<Rightarrow> None
       | Some n \<Rightarrow>
           if ev_RunID e = runID \<and> ev_AttemptID e = Some attemptID \<and> ev_AttemptNo e = Some attemptNo \<and>
              1 \<le> n \<and> n \<le> through
           then Some n else None) (db_events d))"

definition last_sequence :: "uuid \<Rightarrow> runtime_db \<Rightarrow> int" where
  "last_sequence runID d = Max (insert 0 (ev_Sequence ` {e \<in> set (db_events d). ev_RunID e = runID}))"

text \<open>
  What the primary key and the unique indexes of \<open>run_events\<close> refuse: the id, the sequence of a run,
  the client event id of a run, and the client sequence of an attempt number of a run.
\<close>

definition event_conflict :: "runtime_db \<Rightarrow> EventRow \<Rightarrow> bool" where
  "event_conflict d e \<longleftrightarrow>
     (\<exists>f \<in> set (db_events d).
        ev_ID f = ev_ID e \<or>
        ev_RunID f = ev_RunID e \<and>
          (ev_Sequence f = ev_Sequence e \<or> sql_eq (ev_ClientEventID f) (ev_ClientEventID e) \<or>
           sql_eq (ev_AttemptNo f) (ev_AttemptNo e) \<and> sql_eq (ev_ClientEventSeq f) (ev_ClientEventSeq e)))"

text \<open>
  Both inserts allocate the next sequence of the run. \<open>insert_event\<close> is what PostgreSQL does with the
  row: the sequence must fit an \<open>integer\<close> and the unique indexes must hold.
\<close>

definition insert_event :: "EventRow \<Rightarrow> EventRow lease_tx" where
  "insert_event e = (\<lambda>d.
     if max_int32 < ev_Sequence e then Inl (OtherError ''integer out of range'' None)
     else if event_conflict d e then Inl (OtherError ''unique constraint violation'' None)
     else Inr (e, d\<lparr>db_events := insert_row e (db_events d)\<rparr>))"

definition CreateRuntimeRunEvent ::
    "uuid \<Rightarrow> gotime \<Rightarrow> uuid \<Rightarrow> uuid option \<Rightarrow> string \<Rightarrow> bytes \<Rightarrow> uuid \<Rightarrow> int \<Rightarrow> bytes \<Rightarrow> uuid \<Rightarrow> int \<Rightarrow> int
       \<Rightarrow> EventRow lease_tx" where
  "CreateRuntimeRunEvent eventID now runID parentRunID eventType payload clientEventID clientEventSeq
       fingerprint attemptID attemptNo fencingToken = (\<lambda>d.
     case LockRunForEventAppend runID d of
       None \<Rightarrow> Inl ErrNoRows
     | Some _ \<Rightarrow>
         insert_event \<lparr>ev_ID = eventID, ev_RunID = runID, ev_ParentRunID = parentRunID,
           ev_Sequence = last_sequence runID d + 1, ev_EventType = eventType, ev_Payload = payload,
           ev_CreatedAt = now, ev_ClientEventID = Some clientEventID, ev_ClientEventSeq = Some clientEventSeq,
           ev_PayloadFingerprint = Some fingerprint, ev_AttemptID = Some attemptID,
           ev_AttemptNo = Some attemptNo, ev_FencingToken = Some fencingToken\<rparr> d)"

definition AdvanceRunAttemptEventSequence :: "uuid \<Rightarrow> uuid \<Rightarrow> uuid \<Rightarrow> int \<Rightarrow> int \<Rightarrow> (runtime_db, AttemptRow) query" where
  "AdvanceRunAttemptEventSequence runID attemptID leaseID fencingToken clientEventSeq d =
     (case find_attempt attemptID d of
        None \<Rightarrow> None
      | Some a \<Rightarrow>
          if attempt_key runID attemptID leaseID fencingToken a \<and> a_AcceptedAt a \<noteq> None \<and>
             a_FinishedAt a = None \<and> a_ResultID a = None
          then (let a' = a\<lparr>a_LastClientEventSeq := max (a_LastClientEventSeq a) clientEventSeq\<rparr>
                in Some (a', set_attempt attemptID a' d))
          else None)"

definition grant_names ::
    "uuid \<Rightarrow> uuid \<Rightarrow> uuid \<Rightarrow> int \<Rightarrow> uuid \<Rightarrow> uuid \<Rightarrow> string \<Rightarrow> uuid \<Rightarrow> uuid \<Rightarrow> GrantRow \<Rightarrow> bool" where
  "grant_names runID attemptID leaseID fencingToken agentID nodeID workerID targetSessionID targetCredentialID g \<longleftrightarrow>
     g_RunID g = runID \<and> g_AttemptID g = attemptID \<and> g_LeaseID g = leaseID \<and> g_FencingToken g = fencingToken \<and>
     g_AgentID g = agentID \<and> g_NodeID g = nodeID \<and> g_WorkerID g = workerID \<and>
     g_TargetSessionID g = targetSessionID \<and> g_TargetCredentialID g = targetCredentialID"

definition grant_attempt_active :: "gotime \<Rightarrow> runtime_db \<Rightarrow> GrantRow \<Rightarrow> bool" where
  "grant_attempt_active now d g \<longleftrightarrow>
     (case (find_run (g_RunID g) d, find_attempt (g_AttemptID g) d) of
        (Some r, Some a) \<Rightarrow>
          a_RunID a = r_ID r \<and> r_ActiveAttemptID r = Some (a_ID a) \<and> a_LeaseID a = g_LeaseID g \<and>
          a_FencingToken a = g_FencingToken g \<and> r_Status r = ''running'' \<and> r_DispatchState r = ''executing'' \<and>
          sql_gt (r_LeaseExpiresAt r) now \<and> sql_gt (r_RunDeadlineAt r) now \<and> a_FinishedAt a = None \<and>
          now < a_LeaseExpiresAt a \<and> now < a_AttemptDeadlineAt a
      | _ \<Rightarrow> False)"

definition grant_target_live :: "uuid option \<Rightarrow> gotime \<Rightarrow> runtime_db \<Rightarrow> GrantRow \<Rightarrow> bool" where
  "grant_target_live core now d g \<longleftrightarrow>
     (case find_session (g_TargetSessionID g) d of
        None \<Rightarrow> False
      | Some s \<Rightarrow>
          (case (find_node (s_NodeID s) d, find_token (s_CredentialID s) d) of
             (Some n, Some t) \<Rightarrow>
               t_AgentID t = Some (s_AgentID s) \<and> s_NodeID s = g_NodeID g \<and> s_AgentID s = g_AgentID g \<and>
               s_CredentialID s = g_TargetCredentialID g \<and> s_WorkerID s = g_WorkerID g \<and>
               sql_eq (s_AttachedCoreInstanceID s) core \<and> live_status (s_Status s) \<and> live_status (n_Status n) \<and>
               n_RevokedAt n = None \<and> t_Status t = ''active_runtime'' \<and> t_RevokedAt t = None \<and>
               (t_ExpiresAt t = None \<or> sql_gt (t_ExpiresAt t) now)
           | _ \<Rightarrow> False))"

definition LockActiveRuntimeResumeGrantForAttemptTarget ::
    "uuid \<Rightarrow> uuid \<Rightarrow> uuid \<Rightarrow> int \<Rightarrow> uuid \<Rightarrow> uuid \<Rightarrow> string \<Rightarrow> uuid \<Rightarrow> uuid \<Rightarrow> string \<Rightarrow> uuid option \<Rightarrow> gotime
       \<Rightarrow> (runtime_db, GrantRow) query" where
  "LockActiveRuntimeResumeGrantForAttemptTarget runID attemptID leaseID fencingToken agentID nodeID workerID
       targetSessionID targetCredentialID allowed core now d =
     map_option (\<lambda>g. (g, d))
       (List.find (\<lambda>g.
          grant_names runID attemptID leaseID fencingToken agentID nodeID workerID targetSessionID targetCredentialID g \<and>
          (g_Permission g = allowed \<or> allowed = ''upload_spool_only'' \<and> g_Permission g = ''continue_execution'') \<and>
          g_RevokedAt g = None \<and> now < g_ExpiresAt g \<and>
          (g_Permission g = ''upload_spool_only'' \<or> grant_attempt_active now d g) \<and>
          grant_target_live core now d g) (db_grants d))"

definition LockConsumedRuntimeResumeGrantForStoredReplay ::
    "uuid \<Rightarrow> uuid \<Rightarrow> uuid \<Rightarrow> int \<Rightarrow> uuid \<Rightarrow> uuid \<Rightarrow> string \<Rightarrow> uuid \<Rightarrow> uuid \<Rightarrow> (runtime_db, GrantRow) query" where
  "LockConsumedRuntimeResumeGrantForStoredReplay runID attemptID leaseID fencingToken agentID nodeID workerID
       targetSessionID targetCredentialID d =
     map_option (\<lambda>g. (g, d))
       (List.find (\<lambda>g.
          grant_names runID attemptID leaseID fencingToken agentID nodeID workerID targetSessionID targetCredentialID g \<and>
          g_FirstUsedAt g \<noteq> None \<and>
          (g_RevokedAt g = None \<or>
           g_RevokeReason g = Some ''expired'' \<and> g_RevokedByType g = Some ''system'' \<and>
           (case g_RevokedAt g of None \<Rightarrow> False | Some t \<Rightarrow> g_ExpiresAt g \<le> t))) (db_grants d))"

definition ConsumeRuntimeResumeGrant ::
    "uuid \<Rightarrow> uuid \<Rightarrow> uuid \<Rightarrow> uuid \<Rightarrow> int \<Rightarrow> uuid \<Rightarrow> uuid \<Rightarrow> string \<Rightarrow> gotime \<Rightarrow> (runtime_db, GrantRow) query" where
  "ConsumeRuntimeResumeGrant grantID runID attemptID leaseID fencingToken targetSessionID targetCredentialID
       permission now d =
     (case find_grant grantID d of
        None \<Rightarrow> None
      | Some g \<Rightarrow>
          if g_RunID g = runID \<and> g_AttemptID g = attemptID \<and> g_LeaseID g = leaseID \<and>
             g_FencingToken g = fencingToken \<and> g_TargetSessionID g = targetSessionID \<and>
             g_TargetCredentialID g = targetCredentialID \<and> g_Permission g = permission \<and>
             g_RevokedAt g = None \<and> now < g_ExpiresAt g
          then (let g' = g\<lparr>g_FirstUsedAt := (case g_FirstUsedAt g of None \<Rightarrow> Some now | Some t \<Rightarrow> Some t)\<rparr>
                in Some (g', d\<lparr>db_grants := update_row g_ID grantID (\<lambda>_. g') (db_grants d)\<rparr>))
          else None)"

section \<open>Principals\<close>

text \<open>
  The locked rows of a Runtime principal; a Core-owned executor has none. Several rows are only
  compared with the principal, so the credential's expiry is what later checks need.
\<close>

record lockedRuntimePrincipal =
  lp_session :: SessionRow
  lp_node :: NodeRow
  lp_credential :: TokenRow
  lp_attachment :: AttachmentRow

definition event_one :: "RuntimeErrorCode \<Rightarrow> (runtime_db, 'a) query \<Rightarrow> 'a lease_tx" where
  "event_one code q = tx_one (newRuntimeEventError code (Some ErrNoRows)) q"

definition event_guard :: "bool \<Rightarrow> RuntimeErrorCode \<Rightarrow> unit lease_tx" where
  "event_guard b code = tx_guard b (newRuntimeEventError code None)"

definition locked_matches :: "lockedRuntimePrincipal \<Rightarrow> RuntimeEventPrincipal \<Rightarrow> bool" where
  "locked_matches l p \<longleftrightarrow>
     ptr_eq (pe_RuntimeSessionID p) (s_ID (lp_session l)) \<and> ptr_eq (pe_NodeID p) (s_NodeID (lp_session l)) \<and>
     s_AgentID (lp_session l) = pe_AgentID p \<and> ptr_eq (pe_CredentialID p) (s_CredentialID (lp_session l)) \<and>
     ptr_eq (pe_WorkerID p) (s_WorkerID (lp_session l)) \<and>
     s_RuntimeContractDigest (lp_session l) = pe_RuntimeContractDigest p \<and>
     s_AttachedCoreInstanceID (lp_session l) \<noteq> None \<and> s_AttachedCoreInstanceID (lp_session l) = pe_CoreInstanceID p \<and>
     ptr_eq (pe_AttachmentID p) (at_ID (lp_attachment l)) \<and>
     ptr_eq (pe_RuntimeSessionID p) (at_RuntimeSessionID (lp_attachment l)) \<and>
     ptr_eq (pe_CoreInstanceID p) (at_CoreInstanceID (lp_attachment l)) \<and> at_DetachedAt (lp_attachment l) = None \<and>
     ptr_eq (pe_NodeID p) (n_ID (lp_node l)) \<and> n_RuntimeContractDigest (lp_node l) = pe_RuntimeContractDigest p \<and>
     ptr_eq (pe_DeviceCertificateSerial p) (n_DeviceCertificateSerial (lp_node l)) \<and>
     ptr_eq (pe_DevicePublicKeyThumbprintSHA256 p) (n_DevicePublicKeyThumbprint (lp_node l)) \<and>
     ptr_eq (pe_CredentialID p) (t_ID (lp_credential l)) \<and> ptr_eq (t_AgentID (lp_credential l)) (pe_AgentID p)"

definition lockRuntimePrincipal :: "RuntimeEventPrincipal \<Rightarrow> gotime \<Rightarrow> lockedRuntimePrincipal option lease_tx" where
  "lockRuntimePrincipal p now =
     tx_bind (tx_guard (runtimeEventPrincipalShapeValid p) InvalidRuntimeEvent) (\<lambda>_.
     case (pe_RuntimeSessionID p, pe_NodeID p, pe_CredentialID p, pe_WorkerID p, pe_CoreInstanceID p,
           pe_AttachmentID p, pe_DeviceCertificateSerial p, pe_DevicePublicKeyThumbprintSHA256 p) of
       (Some session, Some node, Some credential, Some worker, Some core, Some attachment, Some serial, Some thumb) \<Rightarrow>
         tx_bind (event_one RuntimeEventErrorLeaseIdentityMismatch
            (LockRuntimeSessionForPrincipalValidation session node (pe_AgentID p) credential worker core)) (\<lambda>s.
         tx_bind (event_one RuntimeEventErrorLeaseIdentityMismatch
            (LockRuntimeNodeForPrincipalValidation node serial thumb)) (\<lambda>n.
         tx_bind (event_one RuntimeEventErrorLeaseIdentityMismatch
            (LockRuntimeCredentialForPrincipalValidation credential (pe_AgentID p) now)) (\<lambda>t.
         tx_bind (event_one RuntimeEventErrorLeaseIdentityMismatch
            (LockRuntimeSessionAttachmentForPrincipalValidation attachment session core)) (\<lambda>x.
         let locked = \<lparr>lp_session = s, lp_node = n, lp_credential = t, lp_attachment = x\<rparr> in
         tx_bind (event_guard (locked_matches locked p) RuntimeEventErrorLeaseIdentityMismatch) (\<lambda>_.
         tx_return (Some locked))))))
     | _ \<Rightarrow> tx_return None)"

definition validAt :: "lockedRuntimePrincipal option \<Rightarrow> gotime \<Rightarrow> bool" where
  "validAt locked databaseNow \<longleftrightarrow>
     (case locked of
        None \<Rightarrow> True
      | Some l \<Rightarrow> \<not> IsZero databaseNow \<and>
          (t_ExpiresAt (lp_credential l) = None \<or> sql_gt (t_ExpiresAt (lp_credential l)) databaseNow))"

section \<open>Attempt identity\<close>

definition runtimeExecutorIdentityShapeValid :: "string \<Rightarrow> uuid option \<Rightarrow> uuid option \<Rightarrow> string option \<Rightarrow> bool" where
  "runtimeExecutorIdentityShapeValid executorType nodeID sessionID workerID \<longleftrightarrow>
     (if executorType = ''runtime''
      then nodeID \<noteq> None \<and> nodeID \<noteq> Some uuid_Nil \<and> sessionID \<noteq> None \<and> sessionID \<noteq> Some uuid_Nil \<and>
           workerID \<noteq> None \<and> workerID \<noteq> Some []
      else if executorType = ''core_http'' \<or> executorType = ''core_mcp''
      then nodeID = None \<and> sessionID = None \<and> workerID = None
      else False)"

definition runtimeIdentityMatchesAttempt :: "RuntimeAttemptIdentity \<Rightarrow> AttemptRow \<Rightarrow> bool" where
  "runtimeIdentityMatchesAttempt i a \<longleftrightarrow>
     ra_RunID i = a_RunID a \<and> ra_AttemptID i = a_ID a \<and> ra_LeaseID i = a_LeaseID a \<and>
     ra_FencingToken i = a_FencingToken a \<and> ra_AgentID i = a_AgentID a \<and> ra_NodeID i = a_NodeID a \<and>
     ra_RuntimeSessionID i = a_RuntimeSessionID a \<and> ra_WorkerID i = a_RuntimeWorkerID a \<and>
     runtimeExecutorIdentityShapeValid (a_ExecutorType a) (ra_NodeID i) (ra_RuntimeSessionID i) (ra_WorkerID i)"

definition runtimePrincipalMatchesAttempt :: "RuntimeEventPrincipal \<Rightarrow> AttemptRow \<Rightarrow> bool" where
  "runtimePrincipalMatchesAttempt p a \<longleftrightarrow>
     pe_AgentID p = a_AgentID a \<and> pe_NodeID p = a_NodeID a \<and> pe_CredentialID p = a_RuntimeTokenID a \<and>
     pe_RuntimeSessionID p = a_RuntimeSessionID a \<and> pe_WorkerID p = a_RuntimeWorkerID a \<and>
     runtimeExecutorIdentityShapeValid (a_ExecutorType a) (pe_NodeID p) (pe_RuntimeSessionID p) (pe_WorkerID p)"

definition opt_member :: "string \<Rightarrow> string option \<Rightarrow> (string \<times> gvalue) list" where
  "opt_member key v = (case v of None \<Rightarrow> [] | Some s \<Rightarrow> [(key, VString s)])"

definition identity_value :: "RuntimeAttemptIdentity \<Rightarrow> gvalue" where
  "identity_value i =
     VObject ([(''run_id'', VString (uuid_String (ra_RunID i))), (''attempt_id'', VString (uuid_String (ra_AttemptID i))),
        (''lease_id'', VString (uuid_String (ra_LeaseID i))), (''fencing_token'', VInt (word_of_int (ra_FencingToken i))),
        (''agent_id'', VString (uuid_String (ra_AgentID i)))] @
       opt_member ''node_id'' (map_option uuid_String (ra_NodeID i)) @
       opt_member ''worker_id'' (ra_WorkerID i) @
       opt_member ''runtime_session_id'' (map_option uuid_String (ra_RuntimeSessionID i)))"

definition runtimeAttemptIdentityDigest :: "event_env \<Rightarrow> RuntimeAttemptIdentity \<Rightarrow> bytes" where
  "runtimeAttemptIdentityDigest ee i =
     (case CanonicalizeRFC8785 (ee_floats ee) (identity_value i) of
        Inl _ \<Rightarrow> replicate 32 (CHR 0x00)
      | Inr canonical \<Rightarrow> ee_sha256 ee canonical)"

definition stored_identity :: "AttemptRow \<Rightarrow> RuntimeAttemptIdentity" where
  "stored_identity a =
     \<lparr>ra_RunID = a_RunID a, ra_AttemptID = a_ID a, ra_LeaseID = a_LeaseID a, ra_FencingToken = a_FencingToken a,
      ra_NodeID = a_NodeID a, ra_AgentID = a_AgentID a, ra_WorkerID = a_RuntimeWorkerID a,
      ra_RuntimeSessionID = a_RuntimeSessionID a\<rparr>"

record runtimeStoredEvent =
  se_id :: uuid
  se_sequence :: int
  se_clientEventSeq :: int
  se_payloadFingerprint :: bytes
  se_attemptID :: uuid
  se_attemptNo :: int
  se_fencingToken :: int
  se_createdAt :: gotime
  se_attempt :: AttemptRow

definition storedRuntimeEventMatches ::
    "event_env \<Rightarrow> runtimeStoredEvent \<Rightarrow> RuntimeAttemptIdentity \<Rightarrow> int \<Rightarrow> bytes \<Rightarrow> bool" where
  "storedRuntimeEventMatches ee stored i clientEventSeq fingerprint \<longleftrightarrow>
     se_clientEventSeq stored = clientEventSeq \<and> se_attemptID stored = ra_AttemptID i \<and>
     se_fencingToken stored = ra_FencingToken i \<and> a_AttemptNo (se_attempt stored) = Some (se_attemptNo stored) \<and>
     se_payloadFingerprint stored = fingerprint \<and>
     runtimeAttemptIdentityDigest ee i = runtimeAttemptIdentityDigest ee (stored_identity (se_attempt stored))"

definition runtimeEventDeadlinesValid :: "gotime \<Rightarrow> gotime \<Rightarrow> gotime \<Rightarrow> gotime \<Rightarrow> bool" where
  "runtimeEventDeadlinesValid databaseNow runDeadlineAt leaseExpiresAt attemptDeadlineAt \<longleftrightarrow>
     databaseNow < leaseExpiresAt \<and> databaseNow < attemptDeadlineAt \<and> databaseNow < runDeadlineAt"

section \<open>Resume authorisation\<close>

record runtimeAttemptAuthorization =
  az_resumed :: bool
  az_permission :: string
  az_grantID :: uuid

definition resume_target :: "RuntimeEventPrincipal \<Rightarrow> RuntimeAttemptIdentity \<Rightarrow> AttemptRow \<Rightarrow> bool" where
  "resume_target p i a \<longleftrightarrow>
     pe_NodeID p \<noteq> None \<and> pe_CredentialID p \<noteq> None \<and> pe_RuntimeSessionID p \<noteq> None \<and>
     pe_CoreInstanceID p \<noteq> None \<and> pe_WorkerID p \<noteq> None \<and> a_NodeID a \<noteq> None \<and> a_RuntimeTokenID a \<noteq> None \<and>
     a_RuntimeSessionID a \<noteq> None \<and> a_RuntimeWorkerID a \<noteq> None \<and> pe_AgentID p = a_AgentID a \<and>
     pe_NodeID p = a_NodeID a \<and> pe_WorkerID p = a_RuntimeWorkerID a \<and> ra_RunID i = a_RunID a \<and>
     ra_AttemptID i = a_ID a \<and> ra_LeaseID i = a_LeaseID a \<and> ra_FencingToken i = a_FencingToken a"

text \<open>Readings: 0 the lock of the grant, 1 its consumption.\<close>

definition authorizeRuntimeAttemptPrincipal ::
    "RuntimeEventPrincipal \<Rightarrow> RuntimeAttemptIdentity \<Rightarrow> AttemptRow \<Rightarrow> bool \<Rightarrow> (nat \<Rightarrow> gotime)
       \<Rightarrow> runtimeAttemptAuthorization lease_tx" where
  "authorizeRuntimeAttemptPrincipal p i a storedReplay clk =
     (if runtimePrincipalMatchesAttempt p a
      then tx_return \<lparr>az_resumed = False, az_permission = [], az_grantID = uuid_Nil\<rparr>
      else
        tx_bind (event_guard (resume_target p i a) RuntimeEventErrorLeaseIdentityMismatch) (\<lambda>_.
        let node = the (a_NodeID a); worker = the (a_RuntimeWorkerID a); session = the (pe_RuntimeSessionID p);
            credential = the (pe_CredentialID p) in
        if storedReplay
        then
          tx_bind (event_one RuntimeEventErrorLeaseIdentityMismatch
             (LockConsumedRuntimeResumeGrantForStoredReplay (a_RunID a) (a_ID a) (a_LeaseID a) (a_FencingToken a)
                (a_AgentID a) node worker session credential)) (\<lambda>g.
          tx_bind (event_guard (Some (g_SourceSessionID g) = a_RuntimeSessionID a \<and>
              Some (g_SourceCredentialID g) = a_RuntimeTokenID a) RuntimeEventErrorLeaseIdentityMismatch) (\<lambda>_.
          tx_return \<lparr>az_resumed = True, az_permission = g_Permission g, az_grantID = g_ID g\<rparr>))
        else
          tx_bind (event_one RuntimeEventErrorLeaseIdentityMismatch
             (LockActiveRuntimeResumeGrantForAttemptTarget (a_RunID a) (a_ID a) (a_LeaseID a) (a_FencingToken a)
                (a_AgentID a) node worker session credential ''upload_spool_only'' (pe_CoreInstanceID p) (clk 0))) (\<lambda>g.
          tx_bind (event_guard (Some (g_SourceSessionID g) = a_RuntimeSessionID a \<and>
              Some (g_SourceCredentialID g) = a_RuntimeTokenID a) RuntimeEventErrorLeaseIdentityMismatch) (\<lambda>_.
          tx_bind (event_one RuntimeEventErrorLeaseIdentityMismatch
             (ConsumeRuntimeResumeGrant (g_ID g) (a_RunID a) (a_ID a) (a_LeaseID a) (a_FencingToken a)
                session credential (g_Permission g) (clk 1))) (\<lambda>consumed.
          tx_return \<lparr>az_resumed = True, az_permission = g_Permission consumed, az_grantID = g_ID consumed\<rparr>)))))"

section \<open>Receipts\<close>

definition invalid_receipt :: go_error where
  "invalid_receipt = OtherError ''invalid receipt'' None"

fun skill_receipt_matches :: "(uuid \<Rightarrow> ReceiptBinding option) \<Rightarrow> ReceiptBinding list \<Rightarrow> bool" where
  "skill_receipt_matches want [] = True"
| "skill_receipt_matches want (item # rest) \<longleftrightarrow>
     want (rb_BindingID item) = Some item \<and> skill_receipt_matches (want(rb_BindingID item := None)) rest"

definition snapshot_since :: "uuid \<Rightarrow> runtime_db \<Rightarrow> gotime option" where
  "snapshot_since runID d =
     (case filter (\<lambda>k. sk_RunID k = runID) (db_skills d) of
        [] \<Rightarrow> None | ks \<Rightarrow> Some (Min (set (map sk_CreatedAt ks))))"

definition not_after :: "gotime option \<Rightarrow> gotime option \<Rightarrow> bool" where
  "not_after x y \<longleftrightarrow> (case (x, y) of (Some a, Some b) \<Rightarrow> a \<le> b | _ \<Rightarrow> False)"

text \<open>A binding that a later run has already reported is left alone.\<close>

definition mark_skill_binding :: "uuid \<Rightarrow> uuid \<Rightarrow> string \<Rightarrow> string \<Rightarrow> gotime \<Rightarrow> runtime_db \<Rightarrow> ReceiptBinding \<Rightarrow> runtime_db" where
  "mark_skill_binding runID agentID status errorCode now d item =
     d\<lparr>db_skill_bindings := map (\<lambda>b.
         if sb_AgentID b = agentID \<and> sb_BindingID b = rb_BindingID item \<and>
            (case sb_LastRunID b of
               None \<Rightarrow> True
             | Some l \<Rightarrow> l = runID \<or> not_after (snapshot_since l d) (snapshot_since runID d))
         then b\<lparr>sb_Status := status, sb_ErrorCode := errorCode, sb_LastRunID := Some runID,
                sb_LoadedAt := (if status = ''loaded'' then Some now else None)\<rparr>
         else b) (db_skill_bindings d)\<rparr>"

definition skill_RecordReceipt :: "event_env \<Rightarrow> uuid \<Rightarrow> uuid \<Rightarrow> string \<Rightarrow> bytes \<Rightarrow> gotime \<Rightarrow> runtime_db \<Rightarrow> go_error + runtime_db" where
  "skill_RecordReceipt ee runID agentID event payload now d =
     (if event \<noteq> ''run.skill_packages.loaded'' \<and> event \<noteq> ''run.skill_packages.failed'' then Inr d
      else case ee_decode_skill_receipt ee payload of
        None \<Rightarrow> Inl invalid_receipt
      | Some receipt \<Rightarrow>
          (let bindings = rc_Bindings receipt;
               bundles = map (\<lambda>k. \<lparr>rb_BindingID = sk_BindingID k, rb_VersionID = sk_VersionID k, rb_Digest = sk_Digest k\<rparr>)
                 (filter (\<lambda>k. sk_RunID k = runID) (db_skills d));
               want = map_of (rev (map (\<lambda>b. (rb_BindingID b, b)) bundles));
               failed = (event = ''run.skill_packages.failed'');
               code = rc_ErrorCode receipt in
           if length bindings < 1 \<or> 5 < length bindings then Inl invalid_receipt
           else if length bundles \<noteq> length bindings then Inl invalid_receipt
           else if failed \<and> code \<noteq> ''package_invalid'' \<and> code \<noteq> ''package_materialization_failed'' \<and>
                   code \<noteq> ''dependency_missing'' then Inl invalid_receipt
           else if \<not> failed \<and> code \<noteq> [] then Inl invalid_receipt
           else if \<not> skill_receipt_matches want bindings then Inl invalid_receipt
           else Inr (foldl (mark_skill_binding runID agentID (if failed then ''failed'' else ''loaded'') code now) d bindings)))"

definition mcp_receipt_status :: "string \<Rightarrow> string option" where
  "mcp_receipt_status event =
     (if event = ''run.mcp_bindings.ready'' then Some ''ready''
      else if event = ''run.mcp_bindings.used'' then Some ''used''
      else if event = ''run.mcp_bindings.failed'' then Some ''failed'' else None)"

fun mcp_receipt_matches :: "runtime_db \<Rightarrow> uuid \<Rightarrow> uuid \<Rightarrow> uuid list \<Rightarrow> Reference list \<Rightarrow> bool" where
  "mcp_receipt_matches d run agent seen [] = True"
| "mcp_receipt_matches d run agent seen (ref # rest) \<longleftrightarrow>
     rr_BindingID ref \<notin> set seen \<and>
     (\<exists>m \<in> set (db_mcps d). mc_RunID m = run \<and> mc_AgentID m = agent \<and> mc_BindingID m = rr_BindingID ref \<and>
        mc_Digest m = rr_Digest ref) \<and>
     mcp_receipt_matches d run agent (rr_BindingID ref # seen) rest"

definition mark_mcp_binding :: "uuid \<Rightarrow> uuid \<Rightarrow> string \<Rightarrow> runtime_db \<Rightarrow> Reference \<Rightarrow> runtime_db" where
  "mark_mcp_binding run agent status d ref =
     d\<lparr>db_mcp_bindings := map (\<lambda>b.
         if mb_AgentID b = agent \<and> mb_BindingID b = rr_BindingID ref \<and> mb_Digest b = rr_Digest ref \<and>
            (case mb_LastRunID b of
               None \<Rightarrow> True
             | Some l \<Rightarrow> l = run \<or>
                 not_after (map_option r_StartedAt (find_run l d)) (map_option r_StartedAt (find_run run d)))
         then b\<lparr>mb_Status := (if mb_LastRunID b = Some run \<and> mb_Status b = ''used'' \<and> status = ''ready''
                              then mb_Status b else status),
                mb_LastRunID := Some run\<rparr>
         else b) (db_mcp_bindings d)\<rparr>"

definition mcp_RecordReceipt :: "event_env \<Rightarrow> uuid \<Rightarrow> uuid \<Rightarrow> string \<Rightarrow> bytes \<Rightarrow> runtime_db \<Rightarrow> go_error + runtime_db" where
  "mcp_RecordReceipt ee run agent event payload d =
     (case mcp_receipt_status event of
        None \<Rightarrow> Inr d
      | Some status \<Rightarrow>
         (case ee_decode_mcp_receipt ee payload of
            None \<Rightarrow> Inl invalid_receipt
          | Some refs \<Rightarrow>
              if length refs = 0 \<or> 16 < length refs then Inl invalid_receipt
              else if \<not> mcp_receipt_matches d run agent [] refs then Inl invalid_receipt
              else Inr (foldl (mark_mcp_binding run agent status) d refs)))"

text \<open>An invalid receipt is kept as a plain event; it changes no binding and does not fail the append.\<close>

definition record_receipts :: "event_env \<Rightarrow> uuid \<Rightarrow> uuid \<Rightarrow> string \<Rightarrow> bytes \<Rightarrow> gotime \<Rightarrow> unit lease_tx" where
  "record_receipts ee run agent event payload now = (\<lambda>d.
     let d1 = (case mcp_RecordReceipt ee run agent event payload d of Inl _ \<Rightarrow> d | Inr d' \<Rightarrow> d')
     in Inr ((), case skill_RecordReceipt ee run agent event payload now d1 of Inl _ \<Rightarrow> d1 | Inr d' \<Rightarrow> d'))"

section \<open>Appending\<close>

definition findStoredRuntimeEvent :: "uuid \<Rightarrow> uuid \<Rightarrow> runtimeStoredEvent option lease_tx" where
  "findStoredRuntimeEvent runID clientEventID =
     tx_bind (tx_opt (GetRunEventByClientID runID clientEventID)) (\<lambda>found.
     case found of
       None \<Rightarrow> tx_return None
     | Some e \<Rightarrow>
        (case (ev_ClientEventSeq e, ev_AttemptID e, ev_AttemptNo e, ev_FencingToken e) of
           (Some seq, Some attemptID, Some no, Some fence) \<Rightarrow>
             tx_bind (tx_one ErrNoRows (GetRunAttemptByID attemptID)) (\<lambda>a.
             tx_bind (tx_guard (a_RunID a = runID)
                (OtherError ''stored runtime event attempt belongs to another Run'' None)) (\<lambda>_.
             tx_return (Some \<lparr>se_id = ev_ID e, se_sequence = ev_Sequence e, se_clientEventSeq = seq,
               se_payloadFingerprint = (case ev_PayloadFingerprint e of None \<Rightarrow> [] | Some f \<Rightarrow> f),
               se_attemptID = attemptID, se_attemptNo = no, se_fencingToken = fence,
               se_createdAt = ev_CreatedAt e, se_attempt = a\<rparr>)))
         | _ \<Rightarrow> tx_fail (OtherError ''stored runtime event is missing client identity'' None)))"

definition getRuntimeEventAttempt :: "uuid \<Rightarrow> uuid \<Rightarrow> (runtime_db, AttemptRow) query" where
  "getRuntimeEventAttempt runID attemptID d =
     (case GetRunAttemptByID attemptID d of
        None \<Rightarrow> None
      | Some (a, d') \<Rightarrow> if a_RunID a \<noteq> runID then None else Some (a, d'))"

definition lockRuntimeEventRun :: "uuid \<Rightarrow> (RunRow \<times> gotime) lease_tx" where
  "lockRuntimeEventRun runID =
     tx_bind (tx_one ErrNoRows (LockRunForEventAppend runID)) (\<lambda>run.
     case r_RunDeadlineAt run of
       None \<Rightarrow> tx_fail (OtherError ''Runtime Run is missing run deadline'' None)
     | Some deadline \<Rightarrow> tx_return (run, deadline))"

text \<open>
  The checks on a stored event are \<open>replay_tx\<close>, those on a new one \<open>append_new_tx\<close>. Readings: 0
  credential lock, 1 run lock, 2 and 3 resume grant; \<open>began\<close> is the start of the transaction.
\<close>

definition replay_tx ::
    "event_env \<Rightarrow> RuntimeEventPrincipal \<Rightarrow> RuntimeAttemptIdentity \<Rightarrow> RuntimeEventRequest \<Rightarrow> bytes
       \<Rightarrow> runtimeStoredEvent \<Rightarrow> (nat \<Rightarrow> gotime) \<Rightarrow> RuntimeEventAck lease_tx" where
  "replay_tx ee p i request fingerprint stored clk =
     tx_bind (event_guard (storedRuntimeEventMatches ee stored i (eq_ClientEventSeq request) fingerprint)
        RuntimeEventErrorIDConflict) (\<lambda>_.
     tx_bind (authorizeRuntimeAttemptPrincipal p i (se_attempt stored) True (\<lambda>n. clk (2 + n))) (\<lambda>_.
     tx_return \<lparr>ek_ClientEventID = eq_ClientEventID request, ek_ClientEventSeq = eq_ClientEventSeq request,
       ek_Sequence = se_sequence stored, ek_Replayed = True, ek_Inserted = False, ek_EventID = se_id stored,
       ek_CreatedAt = se_createdAt stored\<rparr>))"

definition append_checks ::
    "RuntimeEventPrincipal \<Rightarrow> RuntimeAttemptIdentity \<Rightarrow> RunRow \<Rightarrow> gotime \<Rightarrow> (nat \<Rightarrow> gotime) \<Rightarrow> AttemptRow lease_tx" where
  "append_checks p i run deadline clk =
     tx_bind (event_guard (\<not> (r_Status run \<noteq> ''running'' \<or> r_DispatchState run = ''terminal'' \<or>
         r_DispatchState run = ''dead_letter'')) RuntimeEventErrorRunAlreadyTerminal) (\<lambda>_.
     tx_bind (event_guard (r_DispatchState run = ''executing'' \<and> ptr_eq (r_ActiveAttemptID run) (ra_AttemptID i))
         RuntimeEventErrorStaleLease) (\<lambda>_.
     tx_bind (event_one RuntimeEventErrorStaleLease (getRuntimeEventAttempt (ra_RunID i) (ra_AttemptID i))) (\<lambda>attempt.
     tx_bind (event_guard (a_AttemptNo attempt \<noteq> None \<and> a_AcceptedAt attempt \<noteq> None \<and>
         a_FinishedAt attempt = None \<and> a_ResultID attempt = None) RuntimeEventErrorStaleLease) (\<lambda>_.
     tx_bind (event_guard (a_LeaseID attempt = ra_LeaseID i \<and> a_FencingToken attempt = ra_FencingToken i \<and>
         ptr_eq (r_LeaseID run) (ra_LeaseID i) \<and> r_FencingToken run = ra_FencingToken i)
         RuntimeEventErrorStaleLease) (\<lambda>_.
     tx_bind (event_guard (runtimeIdentityMatchesAttempt i attempt) RuntimeEventErrorLeaseIdentityMismatch) (\<lambda>_.
     tx_bind (authorizeRuntimeAttemptPrincipal p i attempt False (\<lambda>n. clk (2 + n))) (\<lambda>authorization.
     tx_bind (event_guard
        (if az_resumed authorization then clk 1 < a_AttemptDeadlineAt attempt \<and> clk 1 < deadline
         else runtimeEventDeadlinesValid (clk 1) deadline (a_LeaseExpiresAt attempt) (a_AttemptDeadlineAt attempt))
        RuntimeEventErrorLeaseExpired) (\<lambda>_.
     tx_return attempt))))))))"

definition append_new_tx ::
    "event_env \<Rightarrow> uuid \<Rightarrow> gotime \<Rightarrow> RuntimeEventPrincipal \<Rightarrow> RuntimeAttemptIdentity \<Rightarrow> RuntimeEventRequest
       \<Rightarrow> bytes \<Rightarrow> bytes \<Rightarrow> RunRow \<Rightarrow> gotime \<Rightarrow> (nat \<Rightarrow> gotime) \<Rightarrow> RuntimeEventAck lease_tx" where
  "append_new_tx ee eventID began p i request fingerprint payload run deadline clk =
     tx_bind (append_checks p i run deadline clk) (\<lambda>attempt.
     let attemptNo = the (a_AttemptNo attempt) in
     tx_bind (tx_opt (GetRunEventByAttemptSequence (ra_RunID i) (ra_AttemptID i) attemptNo
        (eq_ClientEventSeq request))) (\<lambda>existing.
     tx_bind (event_guard (existing = None) RuntimeEventErrorIDConflict) (\<lambda>_.
     tx_bind (tx_opt (GetRunDelegationByChild (ra_RunID i))) (\<lambda>delegation.
     tx_bind (CreateRuntimeRunEvent eventID began (ra_RunID i) (map_option dl_ParentRunID delegation)
        (eq_EventType request) payload (eq_ClientEventID request) (eq_ClientEventSeq request) fingerprint
        (ra_AttemptID i) attemptNo (ra_FencingToken i)) (\<lambda>inserted.
     tx_bind (record_receipts ee (ra_RunID i) (pe_AgentID p) (eq_EventType request) payload began) (\<lambda>_.
     tx_bind (event_one RuntimeEventErrorStaleLease
        (AdvanceRunAttemptEventSequence (ra_RunID i) (ra_AttemptID i) (ra_LeaseID i) (ra_FencingToken i)
           (eq_ClientEventSeq request))) (\<lambda>_.
     tx_return \<lparr>ek_ClientEventID = eq_ClientEventID request, ek_ClientEventSeq = eq_ClientEventSeq request,
       ek_Sequence = ev_Sequence inserted, ek_Replayed = False, ek_Inserted = True, ek_EventID = ev_ID inserted,
       ek_CreatedAt = ev_CreatedAt inserted\<rparr>)))))))"

definition append_tx ::
    "event_env \<Rightarrow> uuid \<Rightarrow> gotime \<Rightarrow> RuntimeEventPrincipal \<Rightarrow> RuntimeAttemptIdentity \<Rightarrow> RuntimeEventRequest
       \<Rightarrow> bytes \<Rightarrow> bytes \<Rightarrow> (nat \<Rightarrow> gotime) \<Rightarrow> RuntimeEventAck lease_tx" where
  "append_tx ee eventID began p i request fingerprint payload clk =
     tx_bind (lockRuntimePrincipal p (clk 0)) (\<lambda>locked.
     tx_bind (lockRuntimeEventRun (ra_RunID i)) (\<lambda>(run, deadline).
     tx_bind (event_guard (validAt locked (clk 1)) RuntimeEventErrorLeaseIdentityMismatch) (\<lambda>_.
     tx_bind (event_guard (pe_AgentID p = r_AgentID run \<and> ra_AgentID i = r_AgentID run)
        RuntimeEventErrorLeaseIdentityMismatch) (\<lambda>_.
     tx_bind (event_guard (r_RuntimeContractID run = RuntimeContractID) RuntimeEventErrorStaleLease) (\<lambda>_.
     tx_bind (findStoredRuntimeEvent (ra_RunID i) (eq_ClientEventID request)) (\<lambda>stored.
     case stored of
       Some s \<Rightarrow> replay_tx ee p i request fingerprint s clk
     | None \<Rightarrow> append_new_tx ee eventID began p i request fingerprint payload run deadline clk))))))"

definition Append ::
    "event_env \<Rightarrow> uuid \<Rightarrow> gotime \<Rightarrow> (nat \<Rightarrow> gotime) \<Rightarrow> RuntimeEventPrincipal \<Rightarrow> RuntimeAttemptIdentity
       \<Rightarrow> RuntimeEventRequest \<Rightarrow> runtime_db \<Rightarrow> (go_error + RuntimeEventAck) \<times> runtime_db" where
  "Append ee eventID began clk p i request d =
     (case err_then (validateRuntimeAttemptIdentity i) (validateRuntimeEventPrincipal p) of
        Some err \<Rightarrow> (Inl err, d)
      | None \<Rightarrow>
         (case (RuntimeEventFingerprint ee request, canonicalRuntimeEventPayload ee request) of
            (Inl err, _) \<Rightarrow> (Inl err, d)
          | (Inr _, Inl err) \<Rightarrow> (Inl err, d)
          | (Inr fingerprint, Inr payload) \<Rightarrow>
              WithTransaction (append_tx ee eventID began p i request fingerprint payload clk) d))"

definition MissingClientEventRanges :: "uuid \<Rightarrow> uuid \<Rightarrow> int \<Rightarrow> runtime_db \<Rightarrow> go_error + EventRange list" where
  "MissingClientEventRanges runID attemptID finalClientEventSeq d =
     (if runID = uuid_Nil \<or> attemptID = uuid_Nil \<or> finalClientEventSeq < 0 \<or> finalClientEventSeq = max_int64
      then Inl InvalidRuntimeEvent
      else if finalClientEventSeq = 0 then Inr []
      else case GetRunAttemptByID attemptID d of
        None \<Rightarrow> Inl ErrNoRows
      | Some (attempt, _) \<Rightarrow>
         (case a_AttemptNo attempt of
            None \<Rightarrow> Inl InvalidRuntimeEvent
          | Some no \<Rightarrow>
              if a_RunID attempt \<noteq> runID then Inl InvalidRuntimeEvent
              else Inr (missingRuntimeEventRanges
                     (ListClientEventSequencesThrough runID attemptID no finalClientEventSeq d) finalClientEventSeq)))"

definition RequireCompleteClientEvents :: "uuid \<Rightarrow> uuid \<Rightarrow> int \<Rightarrow> runtime_db \<Rightarrow> go_error option" where
  "RequireCompleteClientEvents runID attemptID finalClientEventSeq d =
     (case MissingClientEventRanges runID attemptID finalClientEventSeq d of
        Inl err \<Rightarrow> Some err
      | Inr ranges \<Rightarrow> if length ranges = 0 then None else Some (EventError RuntimeEventErrorEventsMissing ranges None))"

end
