(* ===== verification/Run_Steps.thy ===== *)
theory Run_Steps
  imports Lease_Invariants Event_Store
begin

text \<open>
  The life of a run beyond its lease. \<open>run_step\<close> adds to the lease steps the two ways the other
  services change an attempt: an event of the active attempt is recorded, and the active attempt is
  closed together with its run. Each step says what happens to the rows that leases and events depend
  on; the other tables are free. The lease invariant and the order of the event log are proved for
  these steps.
\<close>

section \<open>Steps\<close>

text \<open>
  Closing an attempt keeps its identity, and gives back the slot it holds when a runtime node
  executes it. The attempts of Core's own executors hold no slot.
\<close>

definition same_identity :: "AttemptRow \<Rightarrow> AttemptRow \<Rightarrow> bool" where
  "same_identity a a' \<longleftrightarrow>
     stored_identity a' = stored_identity a \<and> a_ExecutorType a' = a_ExecutorType a \<and>
     a_RuntimeTokenID a' = a_RuntimeTokenID a \<and> (a_AttemptNo a \<noteq> None \<longrightarrow> a_AttemptNo a' = a_AttemptNo a)"

definition same_request :: "RunRow \<Rightarrow> RunRow \<Rightarrow> bool" where
  "same_request r r' \<longleftrightarrow> r_ID r' = r_ID r \<and> r_AgentID r' = r_AgentID r \<and> r_UserID r' = r_UserID r \<and>
     r_RuntimeContractID r' = r_RuntimeContractID r \<and> r_RunDeadlineAt r' = r_RunDeadlineAt r"

definition closes_attempt :: "AttemptRow \<Rightarrow> AttemptRow \<Rightarrow> bool" where
  "closes_attempt a a' \<longleftrightarrow>
     same_identity a a' \<and> a_ID a' = a_ID a \<and> a_RunID a' = a_RunID a \<and> a_FencingToken a' = a_FencingToken a \<and>
     a_AttemptNo a' = a_AttemptNo a \<and> a_AcceptedAt a' = a_AcceptedAt a \<and>
     a_ExecutorType a' = a_ExecutorType a \<and> a_NodeID a' = a_NodeID a \<and>
     a_AttemptDeadlineAt a' = a_AttemptDeadlineAt a \<and> a_LeaseExpiresAt a' = a_LeaseExpiresAt a \<and>
     a_LastClientEventSeq a' = a_LastClientEventSeq a \<and> a_SlotAcquiredAt a' = a_SlotAcquiredAt a \<and>
     a_FinishedAt a' \<noteq> None \<and> a_ActiveRuntimeSessionID a' = None \<and>
     (a_ExecutorType a = ''runtime'' \<longleftrightarrow> a_SlotReleasedAt a' \<noteq> None)"

definition closes_run :: "RunRow \<Rightarrow> RunRow \<Rightarrow> bool" where
  "closes_run r r' \<longleftrightarrow>
     same_request r r' \<and> r_ID r' = r_ID r \<and> r_FencingToken r' = r_FencingToken r \<and> r_RunDeadlineAt r' = r_RunDeadlineAt r \<and>
     r_OfferCount r' = r_OfferCount r \<and> r_MaxOfferCount r' = r_MaxOfferCount r \<and>
     r_AttemptCount r' = r_AttemptCount r \<and> r_MaxAttempts r' = r_MaxAttempts r \<and>
     r_ActiveAttemptID r' = None \<and> r_LeaseID r' = None"

definition gives_back_slot :: "AttemptRow \<Rightarrow> runtime_db \<Rightarrow> runtime_db \<Rightarrow> bool" where
  "gives_back_slot a d d' \<longleftrightarrow>
     (if a_ExecutorType a = ''runtime''
      then (\<exists>sessionID nodeID s n t1 t2.
          a_SlotReleasedAt a = None \<and> a_ActiveRuntimeSessionID a = Some sessionID \<and> a_NodeID a = Some nodeID \<and>
          find_session sessionID d = Some s \<and> find_node nodeID d = Some n \<and> 0 < s_Inflight s \<and> 0 < n_Inflight n \<and>
          db_sessions d' = update_row s_ID sessionID (\<lambda>_. s\<lparr>s_Inflight := s_Inflight s - 1, s_UpdatedAt := t1\<rparr>) (db_sessions d) \<and>
          db_nodes d' = update_row n_ID nodeID (\<lambda>_. n\<lparr>n_Inflight := n_Inflight n - 1, n_UpdatedAt := t2\<rparr>) (db_nodes d))
      else db_sessions d' = db_sessions d \<and> db_nodes d' = db_nodes d)"

text \<open>Core's own entries in the event log carry no client identity.\<close>

definition core_event :: "EventRow \<Rightarrow> bool" where
  "core_event e \<longleftrightarrow> ev_ClientEventID e = None \<and> ev_ClientEventSeq e = None \<and> ev_AttemptID e = None \<and>
     ev_AttemptNo e = None"

definition next_event :: "runtime_db \<Rightarrow> EventRow \<Rightarrow> bool" where
  "next_event d e \<longleftrightarrow> ev_Sequence e = last_sequence (ev_RunID e) d + 1 \<and> \<not> event_conflict d e"

lemma next_event_cong: "db_events d' = db_events d \<Longrightarrow> next_event d' e \<longleftrightarrow> next_event d e"
  by (simp only: next_event_def event_conflict_def last_sequence_def)

text \<open>
  What a cancellation still writes to a run that has ended: how far the stop of its attempt got.
\<close>

definition cancel_noted :: "RunRow \<Rightarrow> RunRow \<Rightarrow> bool" where
  "cancel_noted r r' \<longleftrightarrow>
     r' = r\<lparr>r_CancelState := r_CancelState r', r_CancelAcknowledgedAt := r_CancelAcknowledgedAt r',
            r_CancelReason := r_CancelReason r'\<rparr>"

lemma cancel_noted_fields:
  assumes "cancel_noted r r'"
  shows "r_ID r' = r_ID r" "r_Status r' = r_Status r" "r_FencingToken r' = r_FencingToken r"
    "r_RunDeadlineAt r' = r_RunDeadlineAt r" "r_OfferCount r' = r_OfferCount r" "r_MaxOfferCount r' = r_MaxOfferCount r"
    "r_AttemptCount r' = r_AttemptCount r" "r_MaxAttempts r' = r_MaxAttempts r" "same_request r r'"
    "r_ActiveAttemptID r' = r_ActiveAttemptID r" "mirror_of r' a = mirror_of r a"
  by (subst assms[unfolded cancel_noted_def], simp add: same_request_def mirror_of_def)+

lemma cancel_noted_refl: "cancel_noted r r"
  by (simp add: cancel_noted_def)

lemma cancel_noted_trans: "cancel_noted r r' \<Longrightarrow> cancel_noted r' r'' \<Longrightarrow> cancel_noted r r''"
  unfolding cancel_noted_def by (cases r; cases r'; cases r'') simp

text \<open>
  \<open>Close\<close> ends an attempt together with its run or sends the run back to the queue. \<open>Settle\<close> ends a run and leaves its
  attempts alone: a run that waits too long, or one that is canceled. \<open>Stop\<close> closes the attempt that
  a canceled run left behind, and \<open>Note\<close> records the progress of the cancellation.
\<close>

inductive run_step :: "runtime_db \<Rightarrow> runtime_db \<Rightarrow> bool" where
  Lease: "lease_step d d' \<Longrightarrow> run_step d d'"
| Record: "\<lbrakk> find_run runID d = Some r; find_attempt attemptID d = Some a; a_RunID a = runID;
      a_FinishedAt a = None; a_ResultID a = None; r_Status r = ''running''; r_DispatchState r = ''executing'';
      r_ActiveAttemptID r = Some attemptID; r_FencingToken r = a_FencingToken a;
      a_AttemptNo a = Some no; next_event d e; ev_RunID e = runID; ev_AttemptID e = Some attemptID;
      ev_AttemptNo e = Some no; ev_ClientEventID e = Some clientEventID; ev_ClientEventSeq e = Some n; 1 \<le> n;
      ev_FencingToken e = Some (a_FencingToken a) \<rbrakk> \<Longrightarrow>
    run_step d (d\<lparr>db_grants := grants, db_events := insert_row e (db_events d), db_mcp_bindings := mcps,
                  db_skill_bindings := skills,
                  db_attempts := update_row a_ID attemptID
                    (\<lambda>_. a\<lparr>a_LastClientEventSeq := max (a_LastClientEventSeq a) n\<rparr>) (db_attempts d)\<rparr>)"
| Close: "\<lbrakk> find_run runID d = Some r; find_attempt attemptID d = Some a; a_RunID a = runID;
      a_FinishedAt a = None; run_leads r a; r_Status r = ''running'';
      closes_attempt a a'; closes_run r r'; gives_back_slot a d d';
      db_attempts d' = update_row a_ID attemptID (\<lambda>_. a') (db_attempts d);
      db_runs d' = update_row r_ID runID (\<lambda>_. r') (db_runs d);
      db_events d' = db_events d \<or>
        (\<exists>e. core_event e \<and> next_event d e \<and> ev_RunID e = runID \<and> db_events d' = insert_row e (db_events d)) \<rbrakk> \<Longrightarrow>
    run_step d d'"
| Settle: "\<lbrakk> find_run runID d = Some r; r_Status r = ''running''; r_Status r' \<noteq> ''running''; closes_run r r';
      db_sessions d' = db_sessions d; db_nodes d' = db_nodes d; db_attempts d' = db_attempts d;
      db_runs d' = update_row r_ID runID (\<lambda>_. r') (db_runs d);
      db_events d' = db_events d \<or>
        (\<exists>e. core_event e \<and> next_event d e \<and> ev_RunID e = runID \<and> db_events d' = insert_row e (db_events d)) \<rbrakk> \<Longrightarrow>
    run_step d d'"
| Stop: "\<lbrakk> find_run runID d = Some r; find_attempt attemptID d = Some a; a_RunID a = runID; a_FinishedAt a = None;
      r_Status r \<noteq> ''running''; r_ActiveAttemptID r = None; closes_attempt a a'; gives_back_slot a d d';
      db_attempts d' = update_row a_ID attemptID (\<lambda>_. a') (db_attempts d); db_runs d' = db_runs d;
      db_events d' = db_events d \<rbrakk> \<Longrightarrow>
    run_step d d'"
| Note: "\<lbrakk> find_run runID d = Some r; r_Status r \<noteq> ''running''; cancel_noted r r';
      db_sessions d' = db_sessions d; db_nodes d' = db_nodes d; db_attempts d' = db_attempts d;
      db_runs d' = update_row r_ID runID (\<lambda>_. r') (db_runs d); db_events d' = db_events d \<rbrakk> \<Longrightarrow>
    run_step d d'"

section \<open>The lease invariant\<close>

lemma update_row_id: "unique_keys key t \<Longrightarrow> r \<in> set t \<Longrightarrow> update_row key (key r) (\<lambda>_. r) t = t"
  unfolding unique_keys_def distinct_map inj_on_def update_row_def by (rule map_idI) auto

lemma record_keeps_lease_inv:
  assumes inv: "lease_inv d" and r: "find_run runID d = Some r" and a: "find_attempt attemptID d = Some a"
    and open_: "a_RunID a = runID" "a_FinishedAt a = None" "r_Status r = ''running''"
    and d': "db_sessions d' = db_sessions d" "db_nodes d' = db_nodes d" "db_runs d' = db_runs d"
      "db_attempts d' = update_row a_ID attemptID (\<lambda>_. a\<lparr>a_LastClientEventSeq := n\<rparr>) (db_attempts d)"
  shows "lease_inv d'"
proof -
  let ?a = "a\<lparr>a_LastClientEventSeq := n\<rparr>"
  have keys: "r_ID r = runID" "a_ID a = attemptID" using r a by (auto dest: find_row_key)
  have ok: "keys_ok d" "slots_ok d" "capacity_exact d" "fences_ok d" "active_ok d" "expiry_ok d" "budget_ok d"
    using inv by (simp_all add: lease_inv_def)
  have aset: "a \<in> set (db_attempts d)" using a by (blast dest: find_row_SomeD)
  have lead: "run_leads r a" using fences_ok_runD[OF ok(4) aset] r open_ by (auto simp: live_attempt_def)
  have mirror: "mirror_of r a"
  proof -
    have "r \<in> set (db_runs d)" "r_ActiveAttemptID r = Some attemptID"
      using r lead keys by (auto simp: run_leads_def dest: find_row_SomeD)
    with ok(5) a show ?thesis by (force simp: active_ok_def)
  qed
  have runs: "update_row r_ID (r_ID r) (\<lambda>_. r) (db_runs d) = db_runs d"
    using ok(1) find_row_SomeD[OF r] keys by (auto simp: keys_ok_def update_row_id)
  have upd: "lease_update d d' r r a ?a"
    using r a keys open_ lead d' runs by (simp add: lease_update_def)
  have le: "a_ExecutorType a = ''runtime'' \<Longrightarrow> a_LeaseExpiresAt ?a \<le> a_AttemptDeadlineAt ?a"
    using ok(6) aset by (auto simp: expiry_ok_def)
  have shape: "slot_shape ?a = slot_shape a" by (simp add: slot_shape_def)
  have "keys_ok d'" using ok(1) d' keys by (simp add: keys_ok_def row_simps)
  moreover have "slots_ok d'" using ok(2) aset
    unfolding slots_ok_def d'(4) by (auto dest!: in_update_row simp: shape)
  moreover have "capacity_exact d'" using ok(1,3) d' a
    by (auto simp: capacity_exact_def keys_ok_def holds_session_slot_def holds_node_slot_def
        intro!: session_slots.keep_slots node_slots.keep_slots)
  moreover have "fences_ok d'" using fences_update[OF upd ok(4)] lead by (simp add: run_leads_def)
  moreover have "active_ok d'" using active_update[OF upd ok(5)] lead mirror by (simp add: run_leads_def mirror_of_def)
  moreover have "expiry_ok d'" using expiry_update[OF upd ok(6) le] .
  moreover have "budget_ok d'" using ok(7) d' by (simp add: budget_ok_def)
  ultimately show ?thesis by (simp add: lease_inv_def)
qed


lemma close_capacity:
  assumes ok: "keys_ok d" "slots_ok d" "capacity_exact d"
    and a: "find_attempt attemptID d = Some a" "a_FinishedAt a = None" "closes_attempt a a'" "gives_back_slot a d d'"
    and d': "db_attempts d' = update_row a_ID attemptID (\<lambda>_. a') (db_attempts d)"
  shows "capacity_exact d'"
proof -
  have shape: "slot_shape a" using ok(2) a(1) by (auto simp: slots_ok_def dest: find_row_SomeD)
  have uniq: "unique_keys a_ID (db_attempts d)" using ok(1) by (simp add: keys_ok_def)
  have cnt: "counters_exact s_ID s_Inflight s_Capacity holds_session_slot (db_sessions d) (db_attempts d)"
      "counters_exact n_ID n_Inflight n_Capacity holds_node_slot (db_nodes d) (db_attempts d)"
    using ok(3) by (simp_all add: capacity_exact_def)
  show ?thesis
  proof (cases "a_ExecutorType a = ''runtime''")
    case True
    with a(4) obtain sessionID nodeID s n t1 t2 where
      slot: "a_SlotReleasedAt a = None" "a_ActiveRuntimeSessionID a = Some sessionID" "a_NodeID a = Some nodeID"
      and rows: "find_session sessionID d = Some s" "find_node nodeID d = Some n"
      and upd: "db_sessions d' = update_row s_ID sessionID (\<lambda>_. s\<lparr>s_Inflight := s_Inflight s - 1, s_UpdatedAt := t1\<rparr>) (db_sessions d)"
        "db_nodes d' = update_row n_ID nodeID (\<lambda>_. n\<lparr>n_Inflight := n_Inflight n - 1, n_UpdatedAt := t2\<rparr>) (db_nodes d)"
      by (auto simp: gives_back_slot_def)
    have holds: "holds_session_slot sessionID a" "holds_node_slot nodeID a"
      using slot shape True by (auto simp: slot_shape_def holds_session_slot_def holds_node_slot_def)
    have gone: "\<not> holds_session_slot j a'" "\<not> holds_node_slot j a'" for j
      using a(3) True by (auto simp: closes_attempt_def holds_session_slot_def holds_node_slot_def)
    show ?thesis
      unfolding capacity_exact_def upd d'
      using find_row_key[OF rows(1)] find_row_key[OF rows(2)]
      by (intro conjI session_slots.release_slot[OF cnt(1) rows(1) _ _ _ uniq a(1) holds(1) gone(1)]
          node_slots.release_slot[OF cnt(2) rows(2) _ _ _ uniq a(1) holds(2) gone(2)]) simp_all
  next
    case False
    have none: "\<not> holds_session_slot j a" "\<not> holds_node_slot j a" "\<not> holds_session_slot j a'" "\<not> holds_node_slot j a'" for j
      using shape a(3) False
      by (auto simp: slot_shape_def closes_attempt_def holds_session_slot_def holds_node_slot_def)
    have same: "db_sessions d' = db_sessions d" "db_nodes d' = db_nodes d"
      using a(4) False by (simp_all add: gives_back_slot_def)
    show ?thesis
      unfolding capacity_exact_def same d'
      by (intro conjI session_slots.keep_slots[OF cnt(1) uniq a(1)] node_slots.keep_slots[OF cnt(2) uniq a(1)])
        (simp_all add: none)
  qed
qed

lemma close_keeps_lease_inv:
  assumes inv: "lease_inv d" and r: "find_run runID d = Some r" and a: "find_attempt attemptID d = Some a"
    and open_: "a_RunID a = runID" "a_FinishedAt a = None" "run_leads r a"
    and cl: "closes_attempt a a'" "closes_run r r'" "gives_back_slot a d d'"
    and d': "db_attempts d' = update_row a_ID attemptID (\<lambda>_. a') (db_attempts d)"
      "db_runs d' = update_row r_ID runID (\<lambda>_. r') (db_runs d)"
  shows "lease_inv d'"
proof -
  have keys: "r_ID r = runID" "a_ID a = attemptID" using r a by (auto dest: find_row_key)
  have ids: "r_ID r' = runID" "a_ID a' = attemptID"
    using cl keys by (simp_all add: closes_attempt_def closes_run_def)
  have ok: "keys_ok d" "slots_ok d" "capacity_exact d" "fences_ok d" "active_ok d" "expiry_ok d" "budget_ok d"
    using inv by (simp_all add: lease_inv_def)
  have aset: "a \<in> set (db_attempts d)" using a by (blast dest: find_row_SomeD)
  have upd: "lease_update d d' r r' a a'"
    using r a keys open_ d' cl(1,2) by (simp add: lease_update_def closes_attempt_def closes_run_def)
  have le: "a_ExecutorType a = ''runtime'' \<Longrightarrow> a_LeaseExpiresAt a' \<le> a_AttemptDeadlineAt a'"
    using ok(6) aset cl(1) by (auto simp: expiry_ok_def closes_attempt_def)
  have fin: "a_FinishedAt a' \<noteq> None" "r_ActiveAttemptID r' = None"
    using cl by (auto simp: closes_attempt_def closes_run_def)
  have shape: "slot_shape a'"
    using ok(2) aset cl(1) by (auto simp: slots_ok_def slot_shape_def closes_attempt_def)
  have "keys_ok d'"
    using ok(1) cl(3) ids d'
    by (auto simp: keys_ok_def row_simps gives_back_slot_def dest: find_row_key split: if_splits)
  moreover have "slots_ok d'"
    using ok(2) shape unfolding slots_ok_def d' by (auto dest!: in_update_row)
  moreover have "capacity_exact d'"
    by (rule close_capacity[OF ok(1-3) a open_(2) cl(1,3) d'(1)])
  moreover have "fences_ok d'" using fences_update[OF upd ok(4)] fin by simp
  moreover have "active_ok d'" using active_update[OF upd ok(5)] fin by simp
  moreover have "expiry_ok d'" using expiry_update[OF upd ok(6) le] .
  moreover have "budget_ok d'"
  proof -
    have "r_OfferCount r \<le> r_MaxOfferCount r" "r_AttemptCount r \<le> r_MaxAttempts r"
      using ok(7) find_row_SomeD[OF r] by (auto simp: budget_ok_def)
    then show ?thesis
      using ok(7) cl(2) unfolding budget_ok_def d' by (auto simp: closes_run_def dest!: in_update_row)
  qed
  ultimately show ?thesis by (simp add: lease_inv_def)
qed

lemma settle_keeps_lease_inv:
  assumes inv: "lease_inv d" and r: "find_run runID d = Some r" and over: "r_Status r' \<noteq> ''running''"
    and same: "r_ID r' = r_ID r" "r_FencingToken r' = r_FencingToken r" "r_RunDeadlineAt r' = r_RunDeadlineAt r"
      "r_OfferCount r' = r_OfferCount r" "r_MaxOfferCount r' = r_MaxOfferCount r"
      "r_AttemptCount r' = r_AttemptCount r" "r_MaxAttempts r' = r_MaxAttempts r"
    and active: "\<And>k a. r_ActiveAttemptID r' = Some k \<Longrightarrow> r_ActiveAttemptID r = Some k \<and> mirror_of r' a = mirror_of r a"
    and d': "db_sessions d' = db_sessions d" "db_nodes d' = db_nodes d" "db_attempts d' = db_attempts d"
      "db_runs d' = update_row r_ID runID (\<lambda>_. r') (db_runs d)"
  shows "lease_inv d'"
proof -
  have ok: "keys_ok d" "slots_ok d" "capacity_exact d" "fences_ok d" "active_ok d" "expiry_ok d" "budget_ok d"
    using inv by (simp_all add: lease_inv_def)
  have key: "r_ID r = runID" and rset: "r \<in> set (db_runs d)" using r by (auto dest: find_row_SomeD)
  have run: "find_run k d' = (if k = runID then Some r' else find_run k d)" for k
    unfolding d'(4) by (rule find_row_replace[OF r]) (simp add: same key)
  have "keys_ok d'" using ok(1) same key d' by (simp add: keys_ok_def row_simps)
  moreover have "slots_ok d'" "capacity_exact d'" using ok d' by (simp_all add: slots_ok_def capacity_exact_def)
  moreover have "fences_ok d'"
  proof (rule fences_okI)
    fix b assume "b \<in> set (db_attempts d')"
    with d'(3) fences_ok_runD[OF ok(4), of b] show "\<exists>x. find_run (a_RunID b) d' = Some x \<and>
        a_FencingToken b \<le> r_FencingToken x \<and> (a_FinishedAt b = None \<longrightarrow> live_attempt x b)"
      using r over same(2) by (cases "a_RunID b = runID") (auto simp: run live_attempt_def)
  next
    fix b c assume "b \<in> set (db_attempts d')" "c \<in> set (db_attempts d')" "a_RunID b = a_RunID c"
      "a_FencingToken b = a_FencingToken c"
    then show "a_ID b = a_ID c" unfolding d'(3) by (rule fences_ok_uniqueD[OF ok(4)])
  qed
  moreover have "active_ok d'"
    unfolding active_ok_def
  proof (intro ballI allI impI)
    fix x k assume x: "x \<in> set (db_runs d')" "r_ActiveAttemptID x = Some k"
    then consider "x = r'" | "x \<in> set (db_runs d)" unfolding d' by (auto dest: in_update_row)
    then show "\<exists>a. find_attempt k d' = Some a \<and> mirror_of x a"
      using ok(5) x(2) rset active d'(3) by cases (force simp: active_ok_def)+
  qed
  moreover have "expiry_ok d'"
    using ok(6) r same(3) unfolding expiry_ok_def d'(3) run by auto
  moreover have "budget_ok d'"
    using ok(7) rset same unfolding budget_ok_def d' by (auto dest!: in_update_row)
  ultimately show ?thesis by (simp add: lease_inv_def)
qed

lemma stop_keeps_lease_inv:
  assumes inv: "lease_inv d" and r: "find_run runID d = Some r" "r_ActiveAttemptID r = None"
    and a: "find_attempt attemptID d = Some a" "a_RunID a = runID" "a_FinishedAt a = None"
    and cl: "closes_attempt a a'" "gives_back_slot a d d'"
    and d': "db_attempts d' = update_row a_ID attemptID (\<lambda>_. a') (db_attempts d)" "db_runs d' = db_runs d"
  shows "lease_inv d'"
proof -
  have ok: "keys_ok d" "slots_ok d" "capacity_exact d" "fences_ok d" "active_ok d" "expiry_ok d" "budget_ok d"
    using inv by (simp_all add: lease_inv_def)
  have ids: "r_ID r = runID" "a_ID a' = attemptID" "a_RunID a' = a_RunID a" "a_FencingToken a' = a_FencingToken a"
      "a_FinishedAt a' \<noteq> None"
    using r a(1) cl(1) by (auto simp: closes_attempt_def dest: find_row_key)
  have aset: "a \<in> set (db_attempts d)" "a_ID a = attemptID" using a(1) by (auto dest: find_row_SomeD)
  have at: "b = a' \<or> b \<in> set (db_attempts d) \<and> a_ID b \<noteq> attemptID" if "b \<in> set (db_attempts d')" for b
    using that unfolding d' by (auto dest: in_update_row)
  have "keys_ok d'"
    using ok(1) cl(2) ids(2) d'
    by (auto simp: keys_ok_def row_simps gives_back_slot_def dest: find_row_key split: if_splits)
  moreover have "slots_ok d'"
  proof -
    have "slot_shape a'" using ok(2) aset(1) cl(1) by (auto simp: slots_ok_def slot_shape_def closes_attempt_def)
    then show ?thesis using ok(2) at unfolding slots_ok_def by blast
  qed
  moreover have "capacity_exact d'"
    by (rule close_capacity[OF ok(1-3) a(1,3) cl d'(1)])
  moreover have "fences_ok d'"
  proof (rule fences_okI)
    fix b assume "b \<in> set (db_attempts d')"
    with at[of b] fences_ok_runD[OF ok(4), of b] fences_ok_runD[OF ok(4) aset(1)] ids
    show "\<exists>x. find_run (a_RunID b) d' = Some x \<and> a_FencingToken b \<le> r_FencingToken x \<and>
        (a_FinishedAt b = None \<longrightarrow> live_attempt x b)" unfolding d' by fastforce
  next
    fix b c assume "b \<in> set (db_attempts d')" "c \<in> set (db_attempts d')" "a_RunID b = a_RunID c"
      "a_FencingToken b = a_FencingToken c"
    with at[of b] at[of c] fences_ok_uniqueD[OF ok(4)] ids aset show "a_ID b = a_ID c" by metis
  qed
  moreover have "active_ok d'"
    unfolding active_ok_def
  proof (intro ballI allI impI)
    fix x k assume x: "x \<in> set (db_runs d')" "r_ActiveAttemptID x = Some k"
    with ok(5) d'(2) obtain b where b: "find_attempt k d = Some b" "mirror_of x b" by (auto simp: active_ok_def)
    have "k \<noteq> attemptID"
    proof
      assume "k = attemptID"
      with b a(1,2) have "r_ID x = runID" by (simp add: mirror_of_def)
      with x(1) d'(2) r ok(1) have "x = r" by (auto simp: keys_ok_def dest: find_row_in_set)
      with x(2) r(2) show False by simp
    qed
    with b find_row_replace[OF a(1) ids(2), of k] show "\<exists>a. find_attempt k d' = Some a \<and> mirror_of x a"
      unfolding d' by simp
  qed
  moreover have "expiry_ok d'"
  proof -
    have "a_AttemptDeadlineAt a' = a_AttemptDeadlineAt a" "a_LeaseExpiresAt a' = a_LeaseExpiresAt a"
      "a_ExecutorType a' = a_ExecutorType a" using cl(1) by (simp_all add: closes_attempt_def)
    with ok(6) aset ids at show ?thesis unfolding expiry_ok_def d'(2) by metis
  qed
  moreover have "budget_ok d'" using ok(7) d' by (simp add: budget_ok_def)
  ultimately show ?thesis by (simp add: lease_inv_def)
qed

lemma run_step_lease_inv: "run_step d d' \<Longrightarrow> lease_inv d \<Longrightarrow> lease_inv d'"
proof (induction rule: run_step.induct)
  case (Lease d d')
  then show ?case by (rule step_lease_inv)
next
  case (Record runID d r attemptID a no e clientEventID n skills mcps grants)
  show ?case
    by (rule record_keeps_lease_inv[OF Record(19,1,2,3,4,6)]) simp_all
next
  case (Close runID d r attemptID a a' r' d')
  then show ?case by (blast intro: close_keeps_lease_inv)
next
  case (Settle runID d r r' d')
  then show ?case by (intro settle_keeps_lease_inv[of d runID r r' d']) (simp_all add: closes_run_def)
next
  case (Stop runID d r attemptID a a' d')
  then show ?case by (blast intro: stop_keeps_lease_inv)
next
  case (Note runID d r r' d')
  then show ?case by (intro settle_keeps_lease_inv[of d runID r r' d']) (simp_all add: cancel_noted_fields)
qed

section \<open>The event log\<close>

text \<open>
  The events of a run carry the sequences \<open>1, 2, 3, \<dots>\<close> in the order they were stored. Events of
  runtimes belong to an attempt that was confirmed, under its number and fence, and the attempt
  carries the highest client sequence stored for it. Ids are unique.
\<close>

definition run_events :: "uuid \<Rightarrow> runtime_db \<Rightarrow> EventRow list" where
  "run_events runID d = filter (\<lambda>e. ev_RunID e = runID) (db_events d)"

definition log_ordered :: "runtime_db \<Rightarrow> bool" where
  "log_ordered d \<longleftrightarrow> (\<forall>runID. map ev_Sequence (run_events runID d) = [1..int (length (run_events runID d))])"

definition log_unique :: "runtime_db \<Rightarrow> bool" where
  "log_unique d \<longleftrightarrow> unique_keys ev_ID (db_events d) \<and>
     (\<forall>e \<in> set (db_events d). \<forall>f \<in> set (db_events d). ev_RunID e = ev_RunID f \<and>
        (sql_eq (ev_ClientEventID e) (ev_ClientEventID f) \<or>
         sql_eq (ev_AttemptNo e) (ev_AttemptNo f) \<and> sql_eq (ev_ClientEventSeq e) (ev_ClientEventSeq f)) \<longrightarrow> e = f)"

definition client_sequences :: "uuid \<Rightarrow> runtime_db \<Rightarrow> int set" where
  "client_sequences attemptID d =
     {n. \<exists>e \<in> set (db_events d). ev_AttemptID e = Some attemptID \<and> ev_ClientEventSeq e = Some n}"

definition event_of_attempt :: "runtime_db \<Rightarrow> EventRow \<Rightarrow> bool" where
  "event_of_attempt d e \<longleftrightarrow>
     (case ev_AttemptID e of
        None \<Rightarrow> core_event e
      | Some k \<Rightarrow>
         (case find_attempt k d of
            None \<Rightarrow> False
          | Some a \<Rightarrow> a_RunID a = ev_RunID e \<and> a_AttemptNo a \<noteq> None \<and> ev_AttemptNo e = a_AttemptNo a \<and>
              ev_FencingToken e = Some (a_FencingToken a) \<and> ev_ClientEventID e \<noteq> None \<and>
              (\<exists>n. ev_ClientEventSeq e = Some n \<and> 1 \<le> n)))"

definition log_owned :: "runtime_db \<Rightarrow> bool" where
  "log_owned d \<longleftrightarrow> (\<forall>e \<in> set (db_events d). event_of_attempt d e) \<and>
     (\<forall>a \<in> set (db_attempts d). a_LastClientEventSeq a = Max (insert 0 (client_sequences (a_ID a) d)))"

text \<open>An attempt gets its number when it is confirmed.\<close>

definition numbered :: "runtime_db \<Rightarrow> bool" where
  "numbered d \<longleftrightarrow> (\<forall>a \<in> set (db_attempts d). a_AttemptNo a = None \<longleftrightarrow> a_AcceptedAt a = None)"

definition event_inv :: "runtime_db \<Rightarrow> bool" where
  "event_inv d \<longleftrightarrow> log_ordered d \<and> log_unique d \<and> log_owned d \<and> numbered d"

lemma run_events_insert:
  "db_events d' = insert_row e (db_events d) \<Longrightarrow>
     run_events runID d' = run_events runID d @ (if ev_RunID e = runID then [e] else [])"
  by (simp add: run_events_def insert_row_def)

lemma last_sequence_length:
  assumes "log_ordered d"
  shows "last_sequence runID d = int (length (run_events runID d))"
proof -
  have "ev_Sequence ` {e \<in> set (db_events d). ev_RunID e = runID} = set (map ev_Sequence (run_events runID d))"
    by (simp add: run_events_def)
  also have "\<dots> = {1..int (length (run_events runID d))}"
    using assms unfolding log_ordered_def by (metis set_upto)
  finally have seqs: "ev_Sequence ` {e \<in> set (db_events d). ev_RunID e = runID} = {1..int (length (run_events runID d))}" .
  show ?thesis unfolding last_sequence_def seqs
    by (rule Max_eqI) (auto simp: Suc_le_eq)
qed

lemma log_ordered_insert:
  assumes "log_ordered d" "next_event d e" "db_events d' = insert_row e (db_events d)"
  shows "log_ordered d'"
  unfolding log_ordered_def
proof
  fix runID
  let ?n = "int (length (run_events runID d))"
  have old: "map ev_Sequence (run_events runID d) = [1..?n]" using assms(1) by (simp add: log_ordered_def)
  show "map ev_Sequence (run_events runID d') = [1..int (length (run_events runID d'))]"
  proof (cases "ev_RunID e = runID")
    case True
    then have "ev_Sequence e = ?n + 1"
      using assms(2) last_sequence_length[OF assms(1)] by (simp add: next_event_def)
    with old True show ?thesis
      by (simp add: run_events_insert[OF assms(3)] upto_rec2[of 1 "1 + ?n"] add.commute)
  next
    case False
    with old show ?thesis by (simp add: run_events_insert[OF assms(3)])
  qed
qed

lemma log_unique_insert:
  assumes "log_unique d" "next_event d e" "db_events d' = insert_row e (db_events d)"
  shows "log_unique d'"
proof -
  have fresh: "ev_ID f \<noteq> ev_ID e"
    "ev_RunID f = ev_RunID e \<Longrightarrow> \<not> sql_eq (ev_ClientEventID f) (ev_ClientEventID e)"
    "ev_RunID f = ev_RunID e \<Longrightarrow> \<not> (sql_eq (ev_AttemptNo f) (ev_AttemptNo e) \<and> sql_eq (ev_ClientEventSeq f) (ev_ClientEventSeq e))"
    if "f \<in> set (db_events d)" for f
    using assms(2) that by (auto simp: next_event_def event_conflict_def)
  have sym: "sql_eq x y = sql_eq y x" for x y :: "'b option" by (auto simp: sql_eq_def)
  have "unique_keys ev_ID (db_events d')"
    using assms(1) fresh(1) unfolding assms(3) unique_keys_insert find_row_None log_unique_def
    by (metis image_iff)
  moreover have "f = g" if "f \<in> set (db_events d')" "g \<in> set (db_events d')" "ev_RunID f = ev_RunID g"
      "sql_eq (ev_ClientEventID f) (ev_ClientEventID g) \<or>
       sql_eq (ev_AttemptNo f) (ev_AttemptNo g) \<and> sql_eq (ev_ClientEventSeq f) (ev_ClientEventSeq g)" for f g
  proof -
    from that(1,2) consider "f = e" "g = e" | "f = e" "g \<in> set (db_events d)" | "f \<in> set (db_events d)" "g = e"
      | "f \<in> set (db_events d)" "g \<in> set (db_events d)"
      by (auto simp: assms(3) set_insert_row)
    then show ?thesis
    proof cases
      case 2
      with fresh(2,3)[of g] that show ?thesis by (metis sym)
    next
      case 3
      with fresh(2,3)[of f] that show ?thesis by metis
    next
      case 4
      with assms(1) that show ?thesis unfolding log_unique_def by blast
    qed simp
  qed
  ultimately show ?thesis unfolding log_unique_def by blast
qed

lemma finite_client_sequences [simp]: "finite (client_sequences k d)"
proof -
  have "client_sequences k d \<subseteq> (\<lambda>e. the (ev_ClientEventSeq e)) ` set (db_events d)"
    by (force simp: client_sequences_def)
  then show ?thesis by (rule finite_subset) simp
qed

text \<open>A change of an attempt that its events do not see.\<close>

definition keeps_events :: "AttemptRow \<Rightarrow> AttemptRow \<Rightarrow> bool" where
  "keeps_events a a' \<longleftrightarrow> a_ID a' = a_ID a \<and> a_RunID a' = a_RunID a \<and> a_FencingToken a' = a_FencingToken a \<and>
     (a_AttemptNo a \<noteq> None \<longrightarrow> a_AttemptNo a' = a_AttemptNo a)"

lemma event_of_attempt_update:
  assumes "event_of_attempt d e" "find_attempt k d = Some a" "keeps_events a a'"
    and "db_attempts d' = update_row a_ID k (\<lambda>_. a') (db_attempts d)"
  shows "event_of_attempt d' e"
proof -
  have "a_ID a' = k" using find_row_key[OF assms(2)] assms(3) by (simp add: keeps_events_def)
  then have find: "find_attempt j d' = (if j = k then Some a' else find_attempt j d)" for j
    using assms(2,4) by (simp add: find_row_replace)
  show ?thesis
  proof (cases "ev_AttemptID e = Some k")
    case True
    from assms(1,2) True have old: "a_RunID a = ev_RunID e \<and> a_AttemptNo a \<noteq> None \<and> ev_AttemptNo e = a_AttemptNo a \<and>
        ev_FencingToken e = Some (a_FencingToken a) \<and> ev_ClientEventID e \<noteq> None \<and>
        (\<exists>n. ev_ClientEventSeq e = Some n \<and> 1 \<le> n)"
      unfolding event_of_attempt_def by simp
    have same: "a_RunID a' = a_RunID a" "a_FencingToken a' = a_FencingToken a" "a_AttemptNo a' = a_AttemptNo a"
      using assms(3) old by (simp_all add: keeps_events_def)
    show ?thesis unfolding event_of_attempt_def True find using old by (simp add: same)
  next
    case False
    with assms(1) show ?thesis by (cases "ev_AttemptID e") (simp_all add: event_of_attempt_def find)
  qed
qed

lemma log_owned_update:
  assumes own: "log_owned d" and a: "find_attempt k d = Some a" "keeps_events a a'"
      "a_LastClientEventSeq a' = a_LastClientEventSeq a"
    and d': "db_attempts d' = update_row a_ID k (\<lambda>_. a') (db_attempts d)" "db_events d' = db_events d"
  shows "log_owned d'"
proof -
  have cs: "client_sequences j d' = client_sequences j d" for j by (simp add: client_sequences_def d'(2))
  have "a \<in> set (db_attempts d)" "a_ID a' = a_ID a" using a by (auto simp: keeps_events_def dest: find_row_SomeD)
  with own a(3) have "b \<in> set (db_attempts d') \<Longrightarrow> a_LastClientEventSeq b = Max (insert 0 (client_sequences (a_ID b) d'))" for b
    by (auto simp: log_owned_def cs d'(1) dest!: in_update_row)
  with own event_of_attempt_update[OF _ a(1,2) d'(1)] show ?thesis by (auto simp: log_owned_def d'(2))
qed

lemma log_owned_core_event:
  assumes "log_owned d" "core_event e" "db_attempts d' = db_attempts d" "db_events d' = insert_row e (db_events d)"
  shows "log_owned d'"
proof -
  have "client_sequences j d' = client_sequences j d" for j
    using assms(2,4) by (auto simp: client_sequences_def set_insert_row core_event_def)
  moreover have "event_of_attempt d' f = event_of_attempt d f" for f unfolding event_of_attempt_def assms(3) ..
  moreover have "event_of_attempt d e" using assms(2) by (simp add: event_of_attempt_def core_event_def)
  ultimately show ?thesis using assms(1) by (auto simp: log_owned_def assms(3,4) set_insert_row)
qed

lemma log_owned_record:
  assumes own: "log_owned d" and a: "find_attempt k d = Some a" "a_AttemptNo a = Some no"
    and e: "ev_RunID e = a_RunID a" "ev_AttemptID e = Some k" "ev_AttemptNo e = Some no"
      "ev_ClientEventID e = Some c" "ev_ClientEventSeq e = Some n" "1 \<le> n" "ev_FencingToken e = Some (a_FencingToken a)"
    and d': "db_attempts d' = update_row a_ID k (\<lambda>_. a\<lparr>a_LastClientEventSeq := max (a_LastClientEventSeq a) n\<rparr>) (db_attempts d)"
      "db_events d' = insert_row e (db_events d)"
  shows "log_owned d'"
proof -
  let ?a = "a\<lparr>a_LastClientEventSeq := max (a_LastClientEventSeq a) n\<rparr>"
  have key: "a_ID a = k" and aset: "a \<in> set (db_attempts d)" using a(1) by (auto dest: find_row_SomeD)
  have keep: "keeps_events a ?a" by (simp add: keeps_events_def)
  have cs: "client_sequences j d' = (if j = k then insert n (client_sequences j d) else client_sequences j d)" for j
    using e by (auto simp: client_sequences_def d'(2) set_insert_row)
  have last: "a_LastClientEventSeq b = Max (insert 0 (client_sequences (a_ID b) d'))"
    if "b \<in> set (db_attempts d')" for b
  proof (cases "b = ?a")
    case True
    have "a_LastClientEventSeq a = Max (insert 0 (client_sequences k d))"
      using own aset key by (simp add: log_owned_def)
    then have "a_LastClientEventSeq ?a = Max (insert n (insert 0 (client_sequences k d)))"
      by (simp add: max.commute)
    then show ?thesis using True key by (simp add: cs insert_commute)
  next
    case False
    with that have "b \<in> set (db_attempts d)" "a_ID b \<noteq> k" by (auto simp: d'(1) dest!: in_update_row)
    with own show ?thesis by (simp add: log_owned_def cs)
  qed
  have "event_of_attempt d e"
    using a key e by (simp add: event_of_attempt_def)
  with own have "f \<in> set (db_events d') \<Longrightarrow> event_of_attempt d' f" for f
    using event_of_attempt_update[OF _ a(1) keep d'(1)] by (auto simp: log_owned_def d'(2) set_insert_row)
  with last show ?thesis by (simp add: log_owned_def)
qed


lemma event_inv_lease:
  assumes step: "lease_step d d'" and inv: "event_inv d"
  shows "event_inv d'"
proof -
  have ev: "db_events d' = db_events d" using step by cases simp_all
  then have log: "log_ordered d'" "log_unique d'"
    using inv by (simp_all add: event_inv_def log_ordered_def log_unique_def run_events_def)
  have own: "log_owned d" and num: "numbered d" using inv by (simp_all add: event_inv_def)
  have number: "a_AttemptNo a = None \<longleftrightarrow> a_AcceptedAt a = None" if "find_attempt k d = Some a" for k a
    using num find_row_SomeD[OF that] by (auto simp: numbered_def)
  have rewrite: "log_owned d' \<and> numbered d'"
    if "find_attempt k d = Some a" "keeps_events a a'" "a_LastClientEventSeq a' = a_LastClientEventSeq a"
      "a_AttemptNo a' = None \<longleftrightarrow> a_AcceptedAt a' = None"
      "db_attempts d' = update_row a_ID k (\<lambda>_. a') (db_attempts d)" for k a a'
    using log_owned_update[OF own that(1-3) that(5) ev] num that(4)
    unfolding numbered_def that(5) by (auto dest!: in_update_row)
  from step have "log_owned d' \<and> numbered d'"
  proof cases
    case (Offer runID r sessionID s n now ttl a attemptID leaseID core s' t1 n' t2)
    have a: "a_LastClientEventSeq a = 0" "a_AttemptNo a = None" "a_AcceptedAt a = None"
      using Offer by (simp_all add: offer_row_def)
    have att: "db_attempts d' = insert_row a (db_attempts d)" using Offer by simp
    have new: "find_attempt (a_ID a) d = None" by (rule attempt_conflict_find) (use Offer in simp)
    have "client_sequences (a_ID a) d' = {}"
    proof -
      have "ev_AttemptID e \<noteq> Some (a_ID a)" if "e \<in> set (db_events d)" for e
        using own that new by (auto simp: log_owned_def event_of_attempt_def)
      then show ?thesis by (auto simp: client_sequences_def ev)
    qed
    moreover have "client_sequences j d' = client_sequences j d" for j by (simp add: client_sequences_def ev)
    moreover have "event_of_attempt d' e" if "event_of_attempt d e" for e
      using that by (auto simp: event_of_attempt_def att find_row_insert split: option.splits)
    ultimately show ?thesis
      using own num a by (auto simp: log_owned_def numbered_def att ev set_insert_row)
  next
    case (Confirm runID r attemptID a now leaseTtlMs a' core attachmentID)
    with number[OF Confirm(3)] show ?thesis
      by (intro rewrite[OF Confirm(3), of a'])
         (auto simp: keeps_events_def confirmed_attempt_def)
  next
    case (Renew runID r attemptID a now leaseTtlMs a' core)
    with number[OF Renew(3)] show ?thesis
      by (intro rewrite[OF Renew(3), of a']) (auto simp: keeps_events_def renewed_attempt_def)
  next
    case (GiveBack runID r attemptID a sessionID nodeID s n outcome a' errorCode t1 t2 s' t3 n' t4 signals)
    with number[OF GiveBack(3)] show ?thesis
      by (intro rewrite[OF GiveBack(3), of a']) (auto simp: keeps_events_def released_attempt_def)
  qed
  with log show ?thesis by (simp add: event_inv_def)
qed

text \<open>An attempt is closed, or not touched, and Core may have added its own entry to the log.\<close>

lemma event_inv_extended:
  assumes inv: "event_inv d" and own: "log_owned (d\<lparr>db_attempts := db_attempts d'\<rparr>)" and num: "numbered d'"
    and ev: "db_events d' = db_events d \<or>
        (\<exists>e. core_event e \<and> next_event d e \<and> ev_RunID e = runID \<and> db_events d' = insert_row e (db_events d))"
  shows "event_inv d'"
proof -
  let ?d = "d\<lparr>db_attempts := db_attempts d'\<rparr>"
  have log: "log_ordered d" "log_unique d" using inv by (simp_all add: event_inv_def)
  from ev have "log_ordered d' \<and> log_unique d' \<and> log_owned d'"
  proof (elim disjE exE conjE)
    assume ev: "db_events d' = db_events d"
    have "log_owned d' = log_owned ?d"
      by (simp add: log_owned_def event_of_attempt_def client_sequences_def ev cong: option.case_cong)
    with own log show ?thesis by (simp add: log_ordered_def log_unique_def run_events_def ev)
  next
    fix e assume e: "core_event e" "next_event d e" "db_events d' = insert_row e (db_events d)"
    show ?thesis
      using log_ordered_insert[OF log(1) e(2,3)] log_unique_insert[OF log(2) e(2,3)]
        log_owned_core_event[OF own e(1), of d'] e(3) by simp
  qed
  with num show ?thesis by (simp add: event_inv_def)
qed

lemma event_inv_closed:
  assumes inv: "event_inv d" and a: "find_attempt attemptID d = Some a" "closes_attempt a a'"
    and d': "db_attempts d' = update_row a_ID attemptID (\<lambda>_. a') (db_attempts d)"
    and ev: "db_events d' = db_events d \<or>
        (\<exists>e. core_event e \<and> next_event d e \<and> ev_RunID e = runID \<and> db_events d' = insert_row e (db_events d))"
  shows "event_inv d'"
proof (rule event_inv_extended[OF inv _ _ ev])
  have keep: "keeps_events a a'" "a_LastClientEventSeq a' = a_LastClientEventSeq a"
    "a_AttemptNo a' = None \<longleftrightarrow> a_AttemptNo a = None" "a_AcceptedAt a' = a_AcceptedAt a"
    using a(2) by (simp_all add: closes_attempt_def keeps_events_def)
  have parts: "log_owned d" "numbered d" using inv by (simp_all add: event_inv_def)
  show "log_owned (d\<lparr>db_attempts := db_attempts d'\<rparr>)"
    by (rule log_owned_update[OF parts(1) a(1) keep(1,2)]) (simp_all add: d')
  show "numbered d'"
    using parts(2) find_row_SomeD[OF a(1)] keep(3,4) by (auto simp: numbered_def d' dest!: in_update_row)
qed

lemma run_step_event_inv: "run_step d d' \<Longrightarrow> event_inv d \<Longrightarrow> event_inv d'"
proof (induction rule: run_step.induct)
  case (Lease d d')
  then show ?case by (rule event_inv_lease)
next
  case (Record runID d r attemptID a no e clientEventID n skills mcps grants)
  let ?d = "d\<lparr>db_grants := grants, db_events := insert_row e (db_events d), db_mcp_bindings := mcps,
     db_skill_bindings := skills, db_attempts := update_row a_ID attemptID
       (\<lambda>_. a\<lparr>a_LastClientEventSeq := max (a_LastClientEventSeq a) n\<rparr>) (db_attempts d)\<rparr>"
  have inv: "log_ordered d" "log_unique d" "log_owned d" "numbered d"
    using Record.prems by (simp_all add: event_inv_def)
  have "log_ordered ?d" by (rule log_ordered_insert[OF inv(1) \<open>next_event d e\<close>]) simp
  moreover have "log_unique ?d" by (rule log_unique_insert[OF inv(2) \<open>next_event d e\<close>]) simp
  moreover have "log_owned ?d"
    using Record.hyps by (intro log_owned_record[OF inv(3) \<open>find_attempt attemptID d = Some a\<close>]) simp_all
  moreover have "numbered ?d"
    using inv(4) find_row_SomeD[OF \<open>find_attempt attemptID d = Some a\<close>]
    by (auto simp: numbered_def dest!: in_update_row)
  ultimately show ?case by (simp add: event_inv_def)
next
  case (Close runID d r attemptID a a' r' d')
  show ?case by (rule event_inv_closed[OF Close.prems Close(2,7,10,12)])
next
  case (Settle runID d r r' d')
  have "log_owned (d\<lparr>db_attempts := db_attempts d'\<rparr>)" "numbered d'"
    using Settle.prems by (simp_all add: event_inv_def Settle(7) numbered_def)
  then show ?case by (rule event_inv_extended[OF Settle.prems _ _ Settle(9)])
next
  case (Stop runID d r attemptID a a' d')
  show ?case by (rule event_inv_closed[OF Stop.prems Stop(2,7,9)]) (simp add: Stop(11))
next
  case (Note runID d r r' d')
  have "log_owned (d\<lparr>db_attempts := db_attempts d'\<rparr>)" "numbered d'"
    using Note.prems by (simp_all add: event_inv_def Note(6) numbered_def)
  then show ?case by (rule event_inv_extended[OF Note.prems]) (simp add: Note(8))
qed

section \<open>What never changes\<close>

text \<open>Requests, identities and stored events survive every step, and a settled run is never touched again.\<close>

lemma attempt_identity_update:
  assumes "find_attempt k d = Some a" "a_ID a' = k" "same_identity a a'"
    "db_attempts d' = update_row a_ID k (\<lambda>_. a') (db_attempts d)" "find_attempt j d = Some b"
  shows "\<exists>b'. find_attempt j d' = Some b' \<and> same_identity b b'"
  using assms by (cases "j = k") (auto simp: find_row_replace same_identity_def)

lemma run_request_update:
  assumes "find_run k d = Some r" "r_ID r' = k" "same_request r r'"
    "db_runs d' = update_row r_ID k (\<lambda>_. r') (db_runs d)" "find_run j d = Some x"
  shows "\<exists>x'. find_run j d' = Some x' \<and> same_request x x'"
  using assms by (cases "j = k") (auto simp: find_row_replace same_request_def)

lemma same_identity_transformed:
  "same_identity a (confirmed_attempt a r t core x now) \<longleftrightarrow> a_AttemptNo a = None \<or> a_AttemptNo a = Some (r_AttemptCount r + 1)"
  "same_identity a (renewed_attempt a r t core now)"
  "same_identity a (released_attempt a outcome code t1 t2)"
  "same_identity a (a\<lparr>a_LastClientEventSeq := n\<rparr>)"
  by (auto simp: same_identity_def stored_identity_def confirmed_attempt_def renewed_attempt_def released_attempt_def)

lemma same_request_transformed:
  "same_request r (offered_run r a)" "same_request r (executing_run r a)" "same_request r (renewed_run r a)"
  "same_request r (reset_run r)" "same_request r r"
  by (simp_all add: same_request_def offered_run_def executing_run_def renewed_run_def reset_run_def)

lemma same_request_key: "same_request r r' \<Longrightarrow> r_ID r' = r_ID r"
  by (simp add: same_request_def)

lemma lease_step_identity:
  assumes "lease_step d d'" "numbered d" "find_attempt j d = Some b"
  shows "\<exists>b'. find_attempt j d' = Some b' \<and> same_identity b b'"
  using assms(1)
proof cases
  case Offer
  with assms(3) show ?thesis by (auto simp: find_row_insert same_identity_def)
next
  case (Confirm runID r attemptID a now leaseTtlMs a' core attachmentID)
  have "a_AttemptNo a = None" using assms(2) find_row_SomeD[OF Confirm(3)] Confirm(7) by (auto simp: numbered_def)
  with Confirm find_row_key[OF Confirm(3)] show ?thesis
    by (intro attempt_identity_update[OF Confirm(3) _ _ _ assms(3), of a']) (auto simp: same_identity_transformed)
next
  case (Renew runID r attemptID a now leaseTtlMs a' core)
  with find_row_key[OF Renew(3)] show ?thesis
    by (intro attempt_identity_update[OF Renew(3) _ _ _ assms(3), of a']) (auto simp: same_identity_transformed)
next
  case (GiveBack runID r attemptID a sessionID nodeID s n outcome a' errorCode t1 t2 s' t3 n' t4 signals)
  with find_row_key[OF GiveBack(3)] show ?thesis
    by (intro attempt_identity_update[OF GiveBack(3) _ _ _ assms(3), of a']) (auto simp: same_identity_transformed)
qed

lemma run_step_identity:
  assumes "run_step d d'" "numbered d" "find_attempt j d = Some b"
  shows "\<exists>b'. find_attempt j d' = Some b' \<and> same_identity b b'"
  using assms(1)
proof cases
  case Lease
  with assms show ?thesis by (blast intro: lease_step_identity)
next
  case (Record runID r attemptID a no e clientEventID n skills mcps grants)
  with find_row_key[OF Record(3)] show ?thesis
    by (intro attempt_identity_update[OF Record(3) _ _ _ assms(3), of "a\<lparr>a_LastClientEventSeq := max (a_LastClientEventSeq a) n\<rparr>"])
       (auto simp: same_identity_transformed)
next
  case (Close runID r attemptID a a' r')
  with find_row_key[OF Close(2)] show ?thesis
    by (intro attempt_identity_update[OF Close(2) _ _ _ assms(3), of a']) (auto simp: closes_attempt_def)
next
  case Settle
  with assms(3) show ?thesis by (auto simp: same_identity_def)
next
  case (Stop runID r attemptID a a')
  with find_row_key[OF Stop(2)] show ?thesis
    by (intro attempt_identity_update[OF Stop(2) _ _ _ assms(3), of a']) (auto simp: closes_attempt_def)
next
  case Note
  with assms(3) show ?thesis by (auto simp: same_identity_def)
qed

lemma run_step_runs:
  assumes "run_step d d'"
  obtains (same) "db_runs d' = db_runs d"
    | (change) k r r' where "find_run k d = Some r" "r_Status r = ''running''" "same_request r r'"
        "db_runs d' = update_row r_ID k (\<lambda>_. r') (db_runs d)"
    | (noted) k r r' where "find_run k d = Some r" "r_Status r \<noteq> ''running''" "cancel_noted r r'"
        "db_runs d' = update_row r_ID k (\<lambda>_. r') (db_runs d)"
  using assms
proof cases
  case Lease
  then show ?thesis
  proof cases
    case (Offer runID r sessionID s n now ttl a attemptID leaseID core s' t1 n' t2)
    then show ?thesis by (intro change[of runID r "offered_run r a"])
        (auto simp: run_dispatchable_def same_request_transformed)
  next
    case (Confirm runID r attemptID a now leaseTtlMs a' core attachmentID)
    then show ?thesis by (intro change[of runID r "executing_run r a'"])
        (auto simp: open_lease_def same_request_transformed)
  next
    case (Renew runID r attemptID a now leaseTtlMs a' core)
    then show ?thesis by (intro change[of runID r "renewed_run r a'"])
        (auto simp: open_lease_def same_request_transformed)
  next
    case (GiveBack runID r attemptID a sessionID nodeID s n outcome a' errorCode t1 t2 s' t3 n' t4 signals)
    then show ?thesis by (intro change[of runID r "reset_run r"])
        (auto simp: open_lease_def same_request_transformed)
  qed
next
  case Record
  then show ?thesis by (intro same) simp
next
  case (Close runID r attemptID a a' r')
  then show ?thesis by (intro change[of runID r r']) (auto simp: closes_run_def)
next
  case (Settle runID r r')
  then show ?thesis by (intro change[of runID r r']) (auto simp: closes_run_def)
next
  case Stop
  then show ?thesis by (intro same) simp
next
  case (Note runID r r')
  then show ?thesis by (intro noted[of runID r r']) auto
qed

lemma run_step_request:
  assumes "run_step d d'" "find_run j d = Some x"
  shows "\<exists>x'. find_run j d' = Some x' \<and> same_request x x'"
  using assms(1)
proof (cases rule: run_step_runs)
  case same
  with assms(2) show ?thesis by (auto simp: same_request_transformed)
next
  case (change k r r')
  with find_row_key[OF change(1)] same_request_key[OF change(3)] show ?thesis
    by (intro run_request_update[OF change(1) _ _ _ assms(2), of r']) auto
next
  case (noted k r r')
  with find_row_key[OF noted(1)] cancel_noted_fields[OF noted(3)] show ?thesis
    by (intro run_request_update[OF noted(1) _ _ _ assms(2), of r']) auto
qed

lemma run_step_settled:
  assumes "run_step d d'" "find_run j d = Some x" "r_Status x \<noteq> ''running''"
  shows "\<exists>x'. find_run j d' = Some x' \<and> cancel_noted x x'"
  using assms(1)
proof (cases rule: run_step_runs)
  case same
  with assms(2) show ?thesis by (simp add: cancel_noted_refl)
next
  case (change k r r')
  have "j \<noteq> k" using change(1,2) assms(2,3) by auto
  moreover have "r_ID r' = k" using find_row_key[OF change(1)] same_request_key[OF change(3)] by simp
  ultimately show ?thesis
    using change(4) assms(2) find_row_replace[OF change(1), of r' j] by (simp add: cancel_noted_refl)
next
  case (noted k r r')
  have "r_ID r' = k" using find_row_key[OF noted(1)] cancel_noted_fields(1)[OF noted(3)] by simp
  then have find: "find_run j d' = (if j = k then Some r' else find_run j d)"
    unfolding noted(4) by (rule find_row_replace[OF noted(1)])
  show ?thesis
  proof (cases "j = k")
    case True
    with noted(1,3) assms(2) find show ?thesis by simp
  next
    case False
    with assms(2) find show ?thesis by (simp add: cancel_noted_refl)
  qed
qed

lemma lease_step_events: "lease_step d d' \<Longrightarrow> db_events d' = db_events d"
  by (auto elim!: lease_step.cases)

lemma run_step_events: "run_step d d' \<Longrightarrow> \<exists>es. db_events d' = db_events d @ es"
  by (auto elim!: run_step.cases dest: lease_step_events simp: insert_row_def)

end
