(* ===== verification/Event_Laws.thy ===== *)
theory Event_Laws
  imports Run_Steps Lease_Example
begin

text \<open>
  What the event store does to the database. The missing ranges are exactly the gaps in what is
  stored, and each statement of an append changes only its own table, so that a committed append is
  a \<open>Record\<close> step of the run.
\<close>

section \<open>Missing ranges\<close>

definition range_set :: "EventRange list \<Rightarrow> int set" where
  "range_set rs = (\<Union>r \<in> set rs. {er_Start r..er_End r})"

text \<open>Maximal ranges in increasing order: no range is empty and at least one number separates two ranges.\<close>

definition separated :: "EventRange list \<Rightarrow> bool" where
  "separated rs \<longleftrightarrow> (\<forall>r \<in> set rs. er_Start r \<le> er_End r) \<and> sorted_wrt (\<lambda>r q. er_End r + 1 < er_Start q) rs"

lemma range_set_simps [simp]:
  "range_set [] = {}" "range_set (rs @ [r]) = range_set rs \<union> {er_Start r..er_End r}"
  by (auto simp: range_set_def)

lemma separated_Nil [simp]: "separated []"
  by (simp add: separated_def)

lemma separated_snoc:
  "separated rs \<Longrightarrow> er_Start r \<le> er_End r \<Longrightarrow> (\<And>q. q \<in> set rs \<Longrightarrow> er_End q + 1 < er_Start r) \<Longrightarrow>
     separated (rs @ [r])"
  by (auto simp: separated_def sorted_wrt_append)

lemma range_below:
  "separated rs \<Longrightarrow> r \<in> set rs \<Longrightarrow> range_set rs \<subseteq> {..<k} \<Longrightarrow> er_End r < k"
  by (force simp: separated_def range_set_def)

lemma int64_next: "0 \<le> n \<Longrightarrow> n < max_int64 \<Longrightarrow> int64 (n + 1) = n + 1"
  "1 \<le> n \<Longrightarrow> n \<le> max_int64 \<Longrightarrow> int64 (n - 1) = n - 1"
  by (simp_all add: int64_id max_int64_def)

text \<open>The gaps found so far are the numbers up to \<open>previous\<close> that were not seen.\<close>

lemma missing_loop_gaps:
  assumes "missing_loop final previous ranges xs = (previous', ranges')" "final < max_int64"
    "0 \<le> previous" "previous \<le> final" "sorted xs" "\<forall>x \<in> set xs. previous \<le> x \<and> 1 \<le> x \<and> x \<le> final"
    "separated ranges" "range_set ranges = {1..previous} - seen" "previous = 0 \<or> previous \<in> seen"
    "seen \<subseteq> {..previous}"
  shows "separated ranges' \<and> range_set ranges' = {1..previous'} - (seen \<union> set xs) \<and>
     0 \<le> previous' \<and> previous' \<le> final \<and> (previous' = 0 \<or> previous' \<in> seen \<union> set xs) \<and>
     seen \<union> set xs \<subseteq> {..previous'}"
  using assms
proof (induction xs arbitrary: previous ranges seen)
  case Nil
  then show ?case by simp
next
  case (Cons x xs)
  have x: "1 \<le> x" "x \<le> final" "previous \<le> x" and xs: "sorted xs" "\<forall>y \<in> set xs. x \<le> y \<and> 1 \<le> y \<and> y \<le> final"
    using Cons.prems by auto
  have seen: "seen \<union> set (x # xs) = insert x seen \<union> set xs" by simp
  have next_: "int64 (previous + 1) = previous + 1" "int64 (x - 1) = x - 1"
    using Cons.prems(2-4) x by (auto intro: int64_next)
  have below: "er_End q < previous" if "q \<in> set ranges" for q
    by (rule range_below[OF Cons.prems(7) that]) (use Cons.prems(8,9) in force)
  have upto: "{1..x} - insert x seen = ({1..previous} - seen) \<union> {previous + 1..x - 1}" if "previous < x"
    using that Cons.prems(3,10) by auto
  consider "x = previous" | "x = previous + 1" | "previous + 1 < x" using x by linarith
  then show ?case
  proof cases
    case 1
    then have loop: "missing_loop final x ranges xs = (previous', ranges')"
      and same: "insert x seen = seen" "{1..x} = {1..previous}"
      using Cons.prems(1,9) x by auto
    show ?thesis unfolding seen
      by (rule Cons.IH[OF loop Cons.prems(2) _ x(2) xs Cons.prems(7)]) (use 1 same x Cons.prems(8-10) in auto)
  next
    case 2
    then have loop: "missing_loop final x ranges xs = (previous', ranges')"
      using Cons.prems(1) x next_ by simp
    have rs: "range_set ranges = {1..x} - insert x seen" using 2 upto Cons.prems(8) by simp
    show ?thesis unfolding seen
      by (rule Cons.IH[OF loop Cons.prems(2) _ x(2) xs Cons.prems(7) rs]) (use 2 x Cons.prems(10) in auto)
  next
    case 3
    let ?r = "\<lparr>er_Start = previous + 1, er_End = x - 1\<rparr>"
    have loop: "missing_loop final x (ranges @ [?r]) xs = (previous', ranges')"
      using 3 Cons.prems(1) x next_ by simp
    have sep: "separated (ranges @ [?r])"
      using 3 below by (intro separated_snoc Cons.prems(7)) force+
    have rs: "range_set (ranges @ [?r]) = {1..x} - insert x seen"
      using 3 upto Cons.prems(8) by simp
    show ?thesis unfolding seen
      by (rule Cons.IH[OF loop Cons.prems(2) _ x(2) xs sep rs]) (use 3 x Cons.prems(10) in auto)
  qed
qed

lemma missingRuntimeEventRanges_gaps:
  assumes "0 \<le> final" "final < max_int64" "sorted xs" "\<forall>x \<in> set xs. 1 \<le> x \<and> x \<le> final"
  shows "separated (missingRuntimeEventRanges xs final)"
    and "range_set (missingRuntimeEventRanges xs final) = {1..final} - set xs"
proof -
  obtain p rs where loop: "missing_loop final 0 [] xs = (p, rs)" by force
  have "\<forall>x \<in> set xs. 0 \<le> x \<and> 1 \<le> x \<and> x \<le> final" using assms(4) by force
  from missing_loop_gaps[OF loop assms(2) _ assms(1,3) this, of "{}"]
  have rs: "separated rs" "range_set rs = {1..p} - set xs" "0 \<le> p" "p \<le> final" "p = 0 \<or> p \<in> set xs" "set xs \<subseteq> {..p}"
    by auto
  have ints: "int64 (p + 1) = p + 1" "int64 (final + 1) = final + 1" "int64 final = final"
    using rs(3,4) assms(1,2) by (auto intro: int64_next simp: int64_id max_int64_def)
  let ?r = "\<lparr>er_Start = p + 1, er_End = final\<rparr>"
  have result: "missingRuntimeEventRanges xs final = (if p < final then rs @ [?r] else rs)"
    by (simp add: missingRuntimeEventRanges_def loop ints)
  have "er_End q < p" if "q \<in> set rs" for q
    by (rule range_below[OF rs(1) that]) (use rs(2,5) in force)
  then have "p < final \<Longrightarrow> separated (rs @ [?r])"
    by (intro separated_snoc rs(1)) force+
  then show "separated (missingRuntimeEventRanges xs final)" using rs(1) by (simp add: result)
  show "range_set (missingRuntimeEventRanges xs final) = {1..final} - set xs"
    using rs by (auto simp: result)
qed

lemma set_map_filter: "set (List.map_filter f xs) = {y. \<exists>x \<in> set xs. f x = Some y}"
  by (induction xs) (auto simp: List.map_filter_def split: option.splits)

definition stored_client_sequences :: "uuid \<Rightarrow> AttemptRow \<Rightarrow> runtime_db \<Rightarrow> int set" where
  "stored_client_sequences runID a d =
     {n. \<exists>e \<in> set (db_events d). ev_RunID e = runID \<and> ev_AttemptID e = Some (a_ID a) \<and>
        ev_AttemptNo e = a_AttemptNo a \<and> ev_ClientEventSeq e = Some n}"

lemma ListClientEventSequencesThrough_set:
  assumes "a_AttemptNo a = Some no"
  shows "set (ListClientEventSequencesThrough runID (a_ID a) no final d) =
           stored_client_sequences runID a d \<inter> {1..final}"
proof -
  let ?f = "\<lambda>e. case ev_ClientEventSeq e of None \<Rightarrow> None
      | Some n \<Rightarrow> if ev_RunID e = runID \<and> ev_AttemptID e = Some (a_ID a) \<and> ev_AttemptNo e = Some no \<and>
          1 \<le> n \<and> n \<le> final then Some n else None"
  have f: "?f e = Some n \<longleftrightarrow> ev_RunID e = runID \<and> ev_AttemptID e = Some (a_ID a) \<and> ev_AttemptNo e = a_AttemptNo a \<and>
      ev_ClientEventSeq e = Some n \<and> 1 \<le> n \<and> n \<le> final" for e n
    unfolding assms by (cases "ev_ClientEventSeq e") auto
  have "set (ListClientEventSequencesThrough runID (a_ID a) no final d) =
      {n. \<exists>e \<in> set (db_events d). ev_RunID e = runID \<and> ev_AttemptID e = Some (a_ID a) \<and>
        ev_AttemptNo e = a_AttemptNo a \<and> ev_ClientEventSeq e = Some n \<and> 1 \<le> n \<and> n \<le> final}"
    unfolding ListClientEventSequencesThrough_def set_sort set_map_filter by (simp only: f)
  then show ?thesis
    unfolding stored_client_sequences_def by auto
qed

text \<open>
  C34: For a stored attempt and a final sequence in range, \<open>MissingClientEventRanges\<close> answers with
  non-empty ranges in increasing order, separated by stored events, that cover exactly the sequences
  from 1 to the final one that the store lacks; a result is complete exactly when none is missing.
\<close>

theorem missing_ranges_are_the_gaps:
  assumes "find_attempt attemptID d = Some a" "a_RunID a = runID" "a_AttemptNo a = Some no"
    and "runID \<noteq> uuid_Nil" "attemptID \<noteq> uuid_Nil" "0 \<le> final" "final < max_int64"
  shows "\<exists>ranges. MissingClientEventRanges runID attemptID final d = Inr ranges \<and> separated ranges \<and>
      range_set ranges = {1..final} - stored_client_sequences runID a d \<and>
      (RequireCompleteClientEvents runID attemptID final d = None \<longleftrightarrow>
         {1..final} \<subseteq> stored_client_sequences runID a d)"
proof -
  let ?xs = "ListClientEventSequencesThrough runID attemptID no final d"
  have key: "a_ID a = attemptID" using assms(1) by (rule find_row_key)
  have xs: "set ?xs = stored_client_sequences runID a d \<inter> {1..final}"
    using ListClientEventSequencesThrough_set[OF assms(3)] key by simp
  then have "\<forall>x \<in> set ?xs. 1 \<le> x \<and> x \<le> final" by simp
  moreover have "sorted ?xs" by (simp add: ListClientEventSequencesThrough_def)
  ultimately have gaps: "separated (missingRuntimeEventRanges ?xs final)"
      "range_set (missingRuntimeEventRanges ?xs final) = {1..final} - stored_client_sequences runID a d"
    using missingRuntimeEventRanges_gaps[OF assms(6,7)] xs by auto
  obtain ranges where ranges: "MissingClientEventRanges runID attemptID final d = Inr ranges"
      "separated ranges" "range_set ranges = {1..final} - stored_client_sequences runID a d"
    using assms gaps by (cases "final = 0") (auto simp: MissingClientEventRanges_def GetRunAttemptByID_def)
  moreover have "ranges = [] \<longleftrightarrow> range_set ranges = {}"
    using ranges(2) by (force simp: range_set_def separated_def)
  ultimately show ?thesis
    by (auto simp: RequireCompleteClientEvents_def)
qed

theorem missing_ranges_are_the_gaps_witness:
  "\<exists>ranges. MissingClientEventRanges 6 10 3 wit_executing = Inr ranges \<and> separated ranges \<and>
      range_set ranges = {1..3} - stored_client_sequences 6 wit_accepted wit_executing \<and>
      (RequireCompleteClientEvents 6 10 3 wit_executing = None \<longleftrightarrow>
         {1..3} \<subseteq> stored_client_sequences 6 wit_accepted wit_executing)"
proof (rule missing_ranges_are_the_gaps)
  show "find_attempt 10 wit_executing = Some wit_accepted" "a_RunID wit_accepted = 6" "a_AttemptNo wit_accepted = Some 1"
    by (simp_all add: wit_executing_def wit_worlds wit_accepted_def find_row_def)
qed (simp_all add: max_int64_def)

section \<open>What an append does\<close>

lemma lockRuntimePrincipal_keeps: "lockRuntimePrincipal p now d = Inr (x, d') \<Longrightarrow> d' = d"
  unfolding lockRuntimePrincipal_def
  by (auto simp: tx_simps event_one_def event_guard_def Let_def split: option.splits dest!: lock_statements_keep)

lemma authorize_stored_keeps:
  "authorizeRuntimeAttemptPrincipal p i a True clk d = Inr (x, d') \<Longrightarrow> d' = d"
  unfolding authorizeRuntimeAttemptPrincipal_def
  by (auto simp: tx_simps event_one_def event_guard_def Let_def LockConsumedRuntimeResumeGrantForStoredReplay_def
      split: if_splits)

lemma grant_statements_frame:
  "LockActiveRuntimeResumeGrantForAttemptTarget r1 a1 l1 f1 g1 n1 w1 s1 c1 p1 k1 t1 d = Some (g, d') \<Longrightarrow> d' = d"
  "ConsumeRuntimeResumeGrant i2 r2 a2 l2 f2 s2 c2 p2 t2 d = Some (h, d'') \<Longrightarrow> \<exists>gs. d'' = d\<lparr>db_grants := gs\<rparr>"
  by (auto simp: LockActiveRuntimeResumeGrantForAttemptTarget_def ConsumeRuntimeResumeGrant_def Let_def
      split: option.split_asm if_split_asm)

lemma authorize_frame:
  assumes "authorizeRuntimeAttemptPrincipal p i a stored clk d = Inr (x, d')"
  shows "\<exists>gs. d' = d\<lparr>db_grants := gs\<rparr>"
proof (cases stored)
  case True
  with assms have "d' = d" by (auto dest: authorize_stored_keeps)
  then show ?thesis by (auto intro: exI[of _ "db_grants d"])
next
  case False
  have same: "\<exists>gs. d = d\<lparr>db_grants := gs\<rparr>" by (auto intro: exI[of _ "db_grants d"])
  show ?thesis
    using assms False same unfolding authorizeRuntimeAttemptPrincipal_def
    by (auto simp: tx_simps event_one_def event_guard_def Let_def split: if_split_asm
        dest!: grant_statements_frame)
qed

lemma mark_skill_bindings_frame:
  "\<exists>bs. foldl (mark_skill_binding run agent status code now) d items = d\<lparr>db_skill_bindings := bs\<rparr>"
proof (induction items arbitrary: d)
  case Nil
  then show ?case by (auto intro: exI[of _ "db_skill_bindings d"])
next
  case (Cons x xs)
  obtain bs where "mark_skill_binding run agent status code now d x = d\<lparr>db_skill_bindings := bs\<rparr>"
    by (simp add: mark_skill_binding_def)
  with Cons[of "mark_skill_binding run agent status code now d x"] show ?case by auto
qed

lemma mark_mcp_bindings_frame:
  "\<exists>bs. foldl (mark_mcp_binding run agent status) d items = d\<lparr>db_mcp_bindings := bs\<rparr>"
proof (induction items arbitrary: d)
  case Nil
  then show ?case by (auto intro: exI[of _ "db_mcp_bindings d"])
next
  case (Cons x xs)
  obtain bs where "mark_mcp_binding run agent status d x = d\<lparr>db_mcp_bindings := bs\<rparr>"
    by (simp add: mark_mcp_binding_def)
  with Cons[of "mark_mcp_binding run agent status d x"] show ?case by auto
qed

lemma skill_RecordReceipt_frame:
  assumes "skill_RecordReceipt ee run agent event payload now d = Inr d'"
  shows "\<exists>bs. d' = d\<lparr>db_skill_bindings := bs\<rparr>"
proof -
  have same: "\<exists>bs. d = d\<lparr>db_skill_bindings := bs\<rparr>" by (auto intro: exI[of _ "db_skill_bindings d"])
  from assms same show ?thesis
    unfolding skill_RecordReceipt_def Let_def
    by (auto split: if_splits option.splits intro: mark_skill_bindings_frame)
qed

lemma mcp_RecordReceipt_frame:
  assumes "mcp_RecordReceipt ee run agent event payload d = Inr d'"
  shows "\<exists>bs. d' = d\<lparr>db_mcp_bindings := bs\<rparr>"
proof -
  have same: "\<exists>bs. d = d\<lparr>db_mcp_bindings := bs\<rparr>" by (auto intro: exI[of _ "db_mcp_bindings d"])
  from assms same show ?thesis
    unfolding mcp_RecordReceipt_def
    by (auto split: if_splits option.splits intro: mark_mcp_bindings_frame)
qed

lemma record_receipts_frame:
  assumes "record_receipts ee run agent event payload now d = Inr (u, d')"
  shows "\<exists>mb sb. d' = d\<lparr>db_mcp_bindings := mb, db_skill_bindings := sb\<rparr>"
proof -
  let ?d1 = "case mcp_RecordReceipt ee run agent event payload d of Inl _ \<Rightarrow> d | Inr x \<Rightarrow> x"
  obtain mb where d1: "?d1 = d\<lparr>db_mcp_bindings := mb\<rparr>"
  proof (cases "mcp_RecordReceipt ee run agent event payload d")
    case (Inl a)
    then show ?thesis by (intro that[of "db_mcp_bindings d"]) simp
  next
    case (Inr x)
    from mcp_RecordReceipt_frame[OF this] Inr that show ?thesis by auto
  qed
  show ?thesis
  proof (cases "skill_RecordReceipt ee run agent event payload now ?d1")
    case (Inl a)
    with assms d1 have "d' = d\<lparr>db_mcp_bindings := mb\<rparr>" by (simp add: record_receipts_def Let_def)
    then have "d' = d\<lparr>db_mcp_bindings := mb, db_skill_bindings := db_skill_bindings d\<rparr>" by simp
    then show ?thesis by blast
  next
    case (Inr x)
    from skill_RecordReceipt_frame[OF this] obtain sb where "x = ?d1\<lparr>db_skill_bindings := sb\<rparr>" by blast
    with assms d1 Inr have "d' = d\<lparr>db_mcp_bindings := mb, db_skill_bindings := sb\<rparr>"
      by (simp add: record_receipts_def Let_def)
    then show ?thesis by blast
  qed
qed

lemma append_checks_InrD:
  assumes "append_checks p i run deadline clk d = Inr (a, d')"
  shows "\<exists>gs. d' = d\<lparr>db_grants := gs\<rparr>" "find_attempt (ra_AttemptID i) d = Some a" "a_RunID a = ra_RunID i"
    "r_Status run = ''running''" "r_DispatchState run = ''executing''" "r_ActiveAttemptID run = Some (ra_AttemptID i)"
    "a_AttemptNo a \<noteq> None" "a_FinishedAt a = None" "a_ResultID a = None" "a_FencingToken a = ra_FencingToken i"
    "r_FencingToken run = ra_FencingToken i" "runtimeIdentityMatchesAttempt i a" "clk 1 < a_AttemptDeadlineAt a"
    "clk 1 < deadline"
proof -
  from assms obtain az d1 where az: "authorizeRuntimeAttemptPrincipal p i a False (\<lambda>n. clk (2 + n)) d = Inr (az, d1)" "d' = d1"
    and facts: "getRuntimeEventAttempt (ra_RunID i) (ra_AttemptID i) d = Some (a, d)"
      "r_Status run = ''running''" "r_DispatchState run = ''executing''" "r_ActiveAttemptID run = Some (ra_AttemptID i)"
      "a_AttemptNo a \<noteq> None" "a_FinishedAt a = None" "a_ResultID a = None" "a_FencingToken a = ra_FencingToken i"
      "r_FencingToken run = ra_FencingToken i" "runtimeIdentityMatchesAttempt i a"
      "if az_resumed az then clk 1 < a_AttemptDeadlineAt a \<and> clk 1 < deadline
       else runtimeEventDeadlinesValid (clk 1) deadline (a_LeaseExpiresAt a) (a_AttemptDeadlineAt a)"
    unfolding append_checks_def tx_simps event_guard_def event_one_def
    by (auto simp: getRuntimeEventAttempt_def GetRunAttemptByID_def split: option.split_asm if_split_asm)
  show "\<exists>gs. d' = d\<lparr>db_grants := gs\<rparr>" using authorize_frame az by blast
  show "find_attempt (ra_AttemptID i) d = Some a" "a_RunID a = ra_RunID i"
    using facts(1) by (auto simp: getRuntimeEventAttempt_def GetRunAttemptByID_def split: option.split_asm if_split_asm)
  show "clk 1 < a_AttemptDeadlineAt a" "clk 1 < deadline"
    using facts(11) by (auto simp: runtimeEventDeadlinesValid_def split: if_split_asm)
  show "r_Status run = ''running''" "r_DispatchState run = ''executing''" "r_ActiveAttemptID run = Some (ra_AttemptID i)"
    "a_AttemptNo a \<noteq> None" "a_FinishedAt a = None" "a_ResultID a = None" "a_FencingToken a = ra_FencingToken i"
    "r_FencingToken run = ra_FencingToken i" "runtimeIdentityMatchesAttempt i a"
    using facts by simp_all
qed

lemma CreateRuntimeRunEvent_InrD:
  assumes "CreateRuntimeRunEvent eventID now runID parent eventType payload clientID seq fp attemptID no fence d = Inr (e, d')"
  shows "d' = d\<lparr>db_events := insert_row e (db_events d)\<rparr>" "next_event d e" "ev_RunID e = runID" "ev_ID e = eventID"
    "ev_AttemptID e = Some attemptID" "ev_AttemptNo e = Some no" "ev_ClientEventID e = Some clientID"
    "ev_ClientEventSeq e = Some seq" "ev_FencingToken e = Some fence" "ev_PayloadFingerprint e = Some fp"
    "ev_CreatedAt e = now" "ev_Sequence e = last_sequence runID d + 1"
  using assms
  by (auto simp: CreateRuntimeRunEvent_def insert_event_def next_event_def split: option.split_asm if_split_asm)

lemma append_new_tx_InrE:
  assumes tx: "append_new_tx ee eventID began p i request fp payload run deadline clk d = Inr (ack, d')"
    and run: "find_run (ra_RunID i) d = Some run" and seq: "1 \<le> eq_ClientEventSeq request"
  obtains a no e gs mb sb where
    "find_attempt (ra_AttemptID i) d = Some a" "a_RunID a = ra_RunID i" "runtimeIdentityMatchesAttempt i a"
    "a_AttemptNo a = Some no" "a_FinishedAt a = None" "a_ResultID a = None"
    "clk 1 < a_AttemptDeadlineAt a" "clk 1 < deadline" "r_FencingToken run = ra_FencingToken i"
    "next_event d e" "ev_RunID e = ra_RunID i" "ev_AttemptID e = Some (ra_AttemptID i)" "ev_AttemptNo e = Some no"
    "ev_ClientEventID e = Some (eq_ClientEventID request)" "ev_ClientEventSeq e = Some (eq_ClientEventSeq request)"
    "ev_FencingToken e = Some (ra_FencingToken i)" "ev_PayloadFingerprint e = Some fp"
    "d' = d\<lparr>db_grants := gs, db_events := insert_row e (db_events d), db_mcp_bindings := mb, db_skill_bindings := sb,
       db_attempts := update_row a_ID (ra_AttemptID i)
         (\<lambda>_. a\<lparr>a_LastClientEventSeq := max (a_LastClientEventSeq a) (eq_ClientEventSeq request)\<rparr>) (db_attempts d)\<rparr>"
    "ack = \<lparr>ek_ClientEventID = eq_ClientEventID request, ek_ClientEventSeq = eq_ClientEventSeq request,
       ek_Sequence = ev_Sequence e, ek_Replayed = False, ek_Inserted = True, ek_EventID = ev_ID e,
       ek_CreatedAt = ev_CreatedAt e\<rparr>"
    "run_step d d'"
proof -
  from tx obtain a d1 parent e d2 u d3 b where
      chk: "append_checks p i run deadline clk d = Inr (a, d1)"
    and crt: "CreateRuntimeRunEvent eventID began (ra_RunID i) parent (eq_EventType request)
        payload (eq_ClientEventID request) (eq_ClientEventSeq request) fp (ra_AttemptID i) (the (a_AttemptNo a))
        (ra_FencingToken i) d1 = Inr (e, d2)"
    and rec: "record_receipts ee (ra_RunID i) (pe_AgentID p) (eq_EventType request) payload began d2 = Inr (u, d3)"
    and adv: "AdvanceRunAttemptEventSequence (ra_RunID i) (ra_AttemptID i) (ra_LeaseID i) (ra_FencingToken i)
        (eq_ClientEventSeq request) d3 = Some (b, d')"
    and ack: "ack = \<lparr>ek_ClientEventID = eq_ClientEventID request, ek_ClientEventSeq = eq_ClientEventSeq request,
       ek_Sequence = ev_Sequence e, ek_Replayed = False, ek_Inserted = True, ek_EventID = ev_ID e,
       ek_CreatedAt = ev_CreatedAt e\<rparr>"
    unfolding append_new_tx_def Let_def tx_simps event_guard_def event_one_def
    by (auto simp: tx_opt_Inr GetRunEventByAttemptSequence_def GetRunDelegationByChild_def)
  note a = append_checks_InrD[OF chk]
  note e = CreateRuntimeRunEvent_InrD[OF crt]
  from a(1) obtain gs where d1: "d1 = d\<lparr>db_grants := gs\<rparr>" by blast
  from record_receipts_frame[OF rec] obtain mb sb where d3: "d3 = d2\<lparr>db_mcp_bindings := mb, db_skill_bindings := sb\<rparr>"
    by blast
  from a(7) obtain no where no: "a_AttemptNo a = Some no" by blast
  have "find_attempt (ra_AttemptID i) d3 = Some a" using a(2) by (simp add: d3 e(1) d1)
  with adv have d': "d' = d\<lparr>db_grants := gs, db_events := insert_row e (db_events d), db_mcp_bindings := mb,
       db_skill_bindings := sb, db_attempts := update_row a_ID (ra_AttemptID i)
         (\<lambda>_. a\<lparr>a_LastClientEventSeq := max (a_LastClientEventSeq a) (eq_ClientEventSeq request)\<rparr>) (db_attempts d)\<rparr>"
    by (auto simp: AdvanceRunAttemptEventSequence_def Let_def d3 e(1) d1 split: if_split_asm)
  have next_: "next_event d e" using e(2) next_event_cong[of d1 d] d1 by simp
  have step: "run_step d d'"
    unfolding d' using a e no seq next_ run
    by (intro run_step.Record[of "ra_RunID i" d run "ra_AttemptID i" a no e "eq_ClientEventID request"]) auto
  show ?thesis
    by (rule that[OF a(2,3,12) no a(8,9,13,14,11) next_ e(3,5) _ e(7,8,9,10) d' ack step]) (use e(6) no in simp)
qed

end
