(* ===== verification/Event_Example.thy ===== *)
theory Event_Example
  imports Event_Laws
begin

text \<open>
  The concrete world of \<open>Lease_Example\<close> after its assignment was confirmed, with a runtime that
  stores one event.
\<close>

definition wit_event_env :: event_env where
  "wit_event_env = \<lparr>ee_floats = \<lparr>fl_ParseFloat = (\<lambda>_. None), fl_AppendFloat = (\<lambda>_ _. ''1'')\<rparr>,
     ee_sha256 = (\<lambda>_. replicate 32 (CHR ''h'')), ee_decode_skill_receipt = (\<lambda>_. None),
     ee_decode_mcp_receipt = (\<lambda>_. None)\<rparr>"

definition wit_event_principal :: RuntimeEventPrincipal where
  "wit_event_principal = \<lparr>pe_AgentID = 3, pe_RuntimeContractDigest = RuntimeContractDigest, pe_CredentialID = Some 4,
     pe_NodeID = Some 2, pe_WorkerID = Some ''w'', pe_RuntimeSessionID = Some 1, pe_CoreInstanceID = Some 9,
     pe_AttachmentID = Some 5, pe_DeviceCertificateSerial = Some ''0a'',
     pe_DevicePublicKeyThumbprintSHA256 = Some wit_hex\<rparr>"

definition wit_event_identity :: RuntimeAttemptIdentity where
  "wit_event_identity = \<lparr>ra_RunID = 6, ra_AttemptID = 10, ra_LeaseID = 11, ra_FencingToken = 1, ra_NodeID = Some 2,
     ra_AgentID = 3, ra_WorkerID = Some ''w'', ra_RuntimeSessionID = Some 1\<rparr>"

definition wit_event_request :: RuntimeEventRequest where
  "wit_event_request = \<lparr>eq_ClientEventID = 20, eq_ClientEventSeq = 1, eq_EventType = ''run.progress'', eq_Payload = Some []\<rparr>"

definition wit_event :: EventRow where
  "wit_event = \<lparr>ev_ID = 21, ev_RunID = 6, ev_ParentRunID = None, ev_Sequence = 1, ev_EventType = ''run.progress'',
     ev_Payload = ''{}'', ev_CreatedAt = 2500, ev_ClientEventID = Some 20, ev_ClientEventSeq = Some 1,
     ev_PayloadFingerprint = Some (replicate 32 (CHR ''h'')), ev_AttemptID = Some 10, ev_AttemptNo = Some 1,
     ev_FencingToken = Some 1\<rparr>"

definition wit_reported :: runtime_db where
  "wit_reported = wit_executing\<lparr>db_events := [wit_event],
     db_attempts := [wit_accepted\<lparr>a_LastClientEventSeq := 1\<rparr>]\<rparr>"

definition wit_event_ack :: RuntimeEventAck where
  "wit_event_ack = \<lparr>ek_ClientEventID = 20, ek_ClientEventSeq = 1, ek_Sequence = 1, ek_Replayed = False,
     ek_Inserted = True, ek_EventID = 21, ek_CreatedAt = 2500\<rparr>"

definition wit_event_clock :: "nat \<Rightarrow> gotime" where
  "wit_event_clock n = 2500 + int n"

lemma wit_event_identity_valid: "validateRuntimeAttemptIdentity wit_event_identity = None"
  by code_simp

lemma wit_event_principal_shape: "runtimeEventPrincipalShapeValid wit_event_principal"
  by code_simp

lemma wit_event_principal_valid: "validateRuntimeEventPrincipal wit_event_principal = None"
  using wit_event_principal_shape by (simp add: validateRuntimeEventPrincipal_def err_if_def wit_event_principal_def)

lemma wit_event_type: "runtimeEventTypePattern ''run.progress''"
  by code_simp

lemma wit_event_request_valid: "validateRuntimeEventRequest wit_event_request = None"
  using wit_event_type
  by (simp add: validateRuntimeEventRequest_def wit_event_request_def coreOwnedRuntimeEventTypes_def err_if_def)

lemma wit_event_payload: "canonicalRuntimeEventPayload wit_event_env wit_event_request = Inr ''{}''"
  by (simp add: canonicalRuntimeEventPayload_def wit_event_request_valid)
     (simp add: wit_event_request_def of_jmap_opt_def CanonicalizeRFC8785_def sort_members_def MaxRuntimeEventPayloadBytes_def)


lemma first_error_ok: "(\<And>r. r \<in> set rs \<Longrightarrow> \<exists>x. r = Inr x) \<Longrightarrow> \<exists>xs. first_error rs = Inr xs"
proof (induction rs)
  case (Cons r rs)
  then obtain x xs where "r = Inr x" "first_error rs = Inr xs" by force
  then show ?case by simp
qed simp

lemma members_insert: "set (insert_member m ms) = insert m (set ms)"
  by (induction ms) auto

lemma members_sort: "set (sort_members ms) = set ms"
  by (induction ms) (auto simp: sort_members_def members_insert)

lemma canonical_object_ok:
  assumes "\<And>k v. (k, v) \<in> set ms \<Longrightarrow> ValidString k \<and> (\<exists>t. canonical_json fl v = Inr t)"
  shows "\<exists>s. CanonicalizeRFC8785 fl (VObject ms) = Inr s"
proof -
  let ?ts = "sort_members (map (\<lambda>m. (fst m, canonical_json fl (snd m))) ms)"
  have "\<exists>t. r = Inr t" if "r \<in> set (map member_text ?ts)" for r
  proof -
    from that obtain k v where kv: "(k, v) \<in> set ms" "r = member_text (k, canonical_json fl v)"
      by (auto simp: members_sort)
    with assms[OF kv(1)] show ?thesis by (auto simp: member_text_def appendCanonicalJSONString_def)
  qed
  from first_error_ok[OF this] obtain xs where "first_error (map member_text ?ts) = Inr xs" by blast
  moreover have "list_all (\<lambda>m. ValidString (fst m)) ms" using assms by (auto simp: list_all_iff)
  ultimately show ?thesis by (simp add: CanonicalizeRFC8785_def)
qed

lemma wit_one_representable: "signedIntegerExactlyRepresentable 1"
  by code_simp

lemma wit_event_fingerprint:
  "RuntimeEventFingerprint wit_event_env wit_event_request = Inr (replicate 32 (CHR ''h''))"
proof -
  have "\<exists>s. CanonicalizeRFC8785 (ee_floats wit_event_env) (event_fingerprint_value (ee_floats wit_event_env) wit_event_request) = Inr s"
    unfolding event_fingerprint_value_def
  proof (rule canonical_object_ok, goal_cases)
    case (1 k v)
    then consider "k = ''version''" "v = VString runtimeEventFingerprintVersion"
      | "k = ''client_event_seq''" "v = VInt 1" | "k = ''event_type''" "v = VString ''run.progress''"
      | "k = ''payload''" "v = VObject []"
      by (auto simp: wit_event_request_def of_jmap_opt_def)
    then show ?case
      by cases (simp_all add: ValidString_def appendCanonicalJSONString_def runtimeEventFingerprintVersion_def
          wit_one_representable appendCanonicalFloat_def sort_members_def)
  qed
  then show ?thesis by (auto simp: RuntimeEventFingerprint_def wit_event_payload) (simp add: wit_event_env_def)
qed


lemma wit_event_lock:
  assumes "db_sessions d = [wit_session i h u]" "db_nodes d = [wit_node j v w]" "db_tokens d = db_tokens wit_db"
    "db_attachments d = db_attachments wit_db" "db_wire_contracts d = db_wire_contracts wit_db"
  obtains l where "lockRuntimePrincipal wit_event_principal t d = Inr (Some l, d)" "t_ExpiresAt (lp_credential l) = None"
proof
  let ?l = "\<lparr>lp_session = wit_session i h u, lp_node = wit_node j v w, lp_credential = hd (db_tokens wit_db),
     lp_attachment = hd (db_attachments wit_db)\<rparr>"
  show "lockRuntimePrincipal wit_event_principal t d = Inr (Some ?l, d)"
    using assms wit_event_principal_shape
    by (simp add: lockRuntimePrincipal_def tx_defs event_guard_def event_one_def wit_event_principal_def
        LockRuntimeSessionForPrincipalValidation_def LockRuntimeNodeForPrincipalValidation_def
        LockRuntimeCredentialForPrincipalValidation_def LockRuntimeSessionAttachmentForPrincipalValidation_def
        wit_worlds find_row_def live_status_def locked_matches_def wire_supported_def token_active_def)
  show "t_ExpiresAt (lp_credential ?l) = None" by (simp add: wit_worlds)
qed

lemma wit_event_owner: "runtimePrincipalMatchesAttempt wit_event_principal wit_accepted"
  by (simp add: runtimePrincipalMatchesAttempt_def wit_event_principal_def wit_accepted_def wit_attempt_def
      runtimeExecutorIdentityShapeValid_def)

lemma wit_event_matches: "runtimeIdentityMatchesAttempt wit_event_identity wit_accepted"
  by (simp add: runtimeIdentityMatchesAttempt_def wit_event_identity_def wit_accepted_def wit_attempt_def
      runtimeExecutorIdentityShapeValid_def)


lemma wit_event_rows:
  "find_run 6 wit_executing = Some (executing_run (offered_run wit_run wit_attempt) wit_accepted)"
  "find_attempt 10 wit_executing = Some wit_accepted" "db_events wit_executing = []" "db_delegations wit_executing = []"
  by (simp_all add: wit_executing_def wit_worlds wit_accepted_def find_row_def executing_run_def offered_run_def)

lemma wit_event_new:
  "append_new_tx wit_event_env 21 2500 wit_event_principal wit_event_identity wit_event_request (replicate 32 (CHR ''h''))
     ''{}'' (executing_run (offered_run wit_run wit_attempt) wit_accepted) 2000000000000 wit_event_clock wit_executing =
   Inr (wit_event_ack, wit_reported)"
proof -
  let ?run = "executing_run (offered_run wit_run wit_attempt) wit_accepted"
  have checks: "append_checks wit_event_principal wit_event_identity ?run 2000000000000 wit_event_clock wit_executing =
      Inr (wit_accepted, wit_executing)"
  proof -
    have run: "r_Status ?run = ''running''" "r_DispatchState ?run = ''executing''" "r_ActiveAttemptID ?run = Some 10"
        "r_LeaseID ?run = Some 11" "r_FencingToken ?run = 1"
      by (simp_all add: executing_run_def offered_run_def wit_run_def wit_attempt_def)
    have attempt: "a_RunID wit_accepted = 6" "a_AttemptNo wit_accepted = Some 1" "a_AcceptedAt wit_accepted = Some 2002"
        "a_FinishedAt wit_accepted = None" "a_ResultID wit_accepted = None" "a_LeaseID wit_accepted = 11"
        "a_FencingToken wit_accepted = 1" "a_LeaseExpiresAt wit_accepted = 60000002002"
        "a_AttemptDeadlineAt wit_accepted = 1800000001007"
      by (simp_all add: wit_accepted_def wit_attempt_def)
    have ids: "ra_RunID wit_event_identity = 6" "ra_AttemptID wit_event_identity = 10" "ra_LeaseID wit_event_identity = 11"
        "ra_FencingToken wit_event_identity = 1"
      by (simp_all add: wit_event_identity_def)
    show ?thesis
      using wit_event_owner wit_event_matches wit_event_rows(2)
      by (simp add: append_checks_def tx_defs event_guard_def event_one_def authorizeRuntimeAttemptPrincipal_def
          getRuntimeEventAttempt_def GetRunAttemptByID_def runtimeEventDeadlinesValid_def wit_event_clock_def run attempt ids)
  qed
  have create: "CreateRuntimeRunEvent 21 2500 6 None ''run.progress'' ''{}'' 20 1 (replicate 32 (CHR ''h'')) 10 1 1 wit_executing =
      Inr (wit_event, wit_executing\<lparr>db_events := [wit_event]\<rparr>)"
    by (simp add: CreateRuntimeRunEvent_def LockRunForEventAppend_def wit_event_rows insert_event_def event_conflict_def
        last_sequence_def insert_row_def wit_event_def) (simp add: executing_run_def offered_run_def wit_run_def)
  have receipts: "record_receipts wit_event_env 6 3 ''run.progress'' ''{}'' 2500 d = Inr ((), d)" for d
    by (simp add: record_receipts_def mcp_RecordReceipt_def mcp_receipt_status_def skill_RecordReceipt_def)
  have advance: "AdvanceRunAttemptEventSequence 6 10 11 1 1 (wit_executing\<lparr>db_events := [wit_event]\<rparr>) =
      Some (wit_accepted\<lparr>a_LastClientEventSeq := 1\<rparr>, wit_reported)"
    by (simp add: AdvanceRunAttemptEventSequence_def wit_event_rows wit_reported_def attempt_key_def)
       (simp add: Let_def wit_accepted_def wit_attempt_def wit_executing_def wit_world_def update_row_def)
  have no: "a_AttemptNo wit_accepted = Some 1" by (simp add: wit_accepted_def)
  show ?thesis
    using checks create receipts advance no wit_event_rows(3,4)
    by (simp add: append_new_tx_def tx_defs event_guard_def event_one_def GetRunEventByAttemptSequence_def
        GetRunDelegationByChild_def find_row_def wit_event_identity_def wit_event_request_def wit_event_principal_def)
       (simp add: wit_event_ack_def wit_event_def)
qed

lemma wit_append_commits:
  "Append wit_event_env 21 2500 wit_event_clock wit_event_principal wit_event_identity wit_event_request wit_executing =
     (Inr wit_event_ack, wit_reported)"
proof -
  let ?run = "executing_run (offered_run wit_run wit_attempt) wit_accepted"
  obtain l where lock: "lockRuntimePrincipal wit_event_principal (wit_event_clock 0) wit_executing = Inr (Some l, wit_executing)"
      "t_ExpiresAt (lp_credential l) = None"
    by (rule wit_event_lock[of wit_executing 1 1005 1005 1 "Some 1006" 1006]) (simp_all add: wit_executing_def wit_worlds)
  have run: "lockRuntimeEventRun 6 wit_executing = Inr ((?run, 2000000000000), wit_executing)"
    by (simp add: lockRuntimeEventRun_def LockRunForEventAppend_def tx_defs wit_event_rows)
       (simp add: tx_defs executing_run_def offered_run_def wit_run_def)
  have agent: "r_AgentID ?run = 3" "r_RuntimeContractID ?run = RuntimeContractID"
    by (simp_all add: executing_run_def offered_run_def wit_run_def)
  have stored: "findStoredRuntimeEvent 6 20 wit_executing = Inr (None, wit_executing)"
    by (simp add: findStoredRuntimeEvent_def tx_defs GetRunEventByClientID_def wit_event_rows)
  have ids: "ra_RunID wit_event_identity = 6" "ra_AgentID wit_event_identity = 3" "eq_ClientEventID wit_event_request = 20"
      "pe_AgentID wit_event_principal = 3"
    by (simp_all add: wit_event_identity_def wit_event_request_def wit_event_principal_def)
  have valid: "validAt (Some l) (wit_event_clock 1)"
    using lock(2) by (simp add: validAt_def wit_event_clock_def IsZero_def)
  have "append_tx wit_event_env 21 2500 wit_event_principal wit_event_identity wit_event_request (replicate 32 (CHR ''h''))
      ''{}'' wit_event_clock wit_executing = Inr (wit_event_ack, wit_reported)"
    by (simp only: append_tx_def tx_defs event_guard_def lock(1) run agent stored ids valid wit_event_new
        sum.case prod.case option.case if_True simp_thms Let_def)
  then show ?thesis
    by (simp add: Append_def err_then_def WithTransaction_def wit_event_identity_valid wit_event_principal_valid
        wit_event_fingerprint wit_event_payload)
qed

lemma wit_event_inv: "event_inv wit_executing"
  by (simp add: event_inv_def log_ordered_def log_unique_def log_owned_def numbered_def run_events_def unique_keys_def
      client_sequences_def wit_event_rows) (simp add: wit_executing_def wit_world_def wit_accepted_def wit_attempt_def)

end
