(* ===== verification/Append_Laws.thy ===== *)
theory Append_Laws
  imports Event_Example
begin

text \<open>
  What the event store guarantees: a stored event answers its repetition from the store whatever has
  happened to the run since, and an event is stored only under the current fence of a running
  attempt.
\<close>

section \<open>A committed append\<close>

lemma RuntimeEventFingerprint_seq:
  "RuntimeEventFingerprint ee request = Inr fp \<Longrightarrow> 1 \<le> eq_ClientEventSeq request"
  by (auto simp: RuntimeEventFingerprint_def canonicalRuntimeEventPayload_def validateRuntimeEventRequest_def
      split: sum.split_asm option.split_asm if_split_asm)

lemma findStoredRuntimeEvent_keeps: "findStoredRuntimeEvent runID clientID d = Inr (x, d') \<Longrightarrow> d' = d"
  unfolding findStoredRuntimeEvent_def
  by (cases "List.find (\<lambda>e. ev_RunID e = runID \<and> ev_ClientEventID e = Some clientID) (db_events d)")
     (auto simp: tx_simps GetRunEventByClientID_def GetRunAttemptByID_def split: option.split_asm)

lemma replay_tx_keeps:
  "replay_tx ee p i request fp stored clk d = Inr (ack, d') \<Longrightarrow> d' = d \<and> ek_Replayed ack \<and> \<not> ek_Inserted ack"
  unfolding replay_tx_def by (auto simp: tx_simps event_guard_def dest: authorize_stored_keeps)

lemma append_tx_InrE:
  assumes "append_tx ee eventID began p i request fp payload clk d = Inr (ack, d')"
  obtains (replay) locked run stored where
      "lockRuntimePrincipal p (clk 0) d = Inr (locked, d)" "validAt locked (clk 1)" "find_run (ra_RunID i) d = Some run"
      "findStoredRuntimeEvent (ra_RunID i) (eq_ClientEventID request) d = Inr (Some stored, d)"
      "replay_tx ee p i request fp stored clk d = Inr (ack, d')"
  | (new) locked run deadline where
      "lockRuntimePrincipal p (clk 0) d = Inr (locked, d)" "validAt locked (clk 1)" "find_run (ra_RunID i) d = Some run"
      "r_RunDeadlineAt run = Some deadline" "pe_AgentID p = r_AgentID run" "ra_AgentID i = r_AgentID run"
      "r_RuntimeContractID run = RuntimeContractID"
      "findStoredRuntimeEvent (ra_RunID i) (eq_ClientEventID request) d = Inr (None, d)"
      "append_new_tx ee eventID began p i request fp payload run deadline clk d = Inr (ack, d')"
proof -
  from assms obtain locked d1 run deadline d2 stored d3 where
      lock: "lockRuntimePrincipal p (clk 0) d = Inr (locked, d1)"
    and run: "lockRuntimeEventRun (ra_RunID i) d1 = Inr ((run, deadline), d2)"
    and ok: "validAt locked (clk 1)" "pe_AgentID p = r_AgentID run" "ra_AgentID i = r_AgentID run"
      "r_RuntimeContractID run = RuntimeContractID"
    and find: "findStoredRuntimeEvent (ra_RunID i) (eq_ClientEventID request) d2 = Inr (stored, d3)"
    and rest: "(case stored of Some s \<Rightarrow> replay_tx ee p i request fp s clk
         | None \<Rightarrow> append_new_tx ee eventID began p i request fp payload run deadline clk) d3 = Inr (ack, d')"
    unfolding append_tx_def tx_simps event_guard_def by (auto simp: tx_simps)
  have d1: "d1 = d" using lock by (rule lockRuntimePrincipal_keeps)
  have r: "d2 = d1" "find_run (ra_RunID i) d1 = Some run" "r_RunDeadlineAt run = Some deadline"
    using run unfolding lockRuntimeEventRun_def
    by (auto simp: tx_simps LockRunForEventAppend_def split: option.splits if_splits)
  have d3: "d3 = d2" using find by (rule findStoredRuntimeEvent_keeps)
  show ?thesis
  proof (cases stored)
    case None
    with lock ok r find rest d1 d3 show ?thesis by (intro new) simp_all
  next
    case (Some s)
    with lock ok r find rest d1 d3 show ?thesis by (intro replay) simp_all
  qed
qed

lemma Append_InrE:
  assumes "Append ee eventID began clk p i request d = (Inr ack, d')"
  obtains fp payload where "validateRuntimeAttemptIdentity i = None" "validateRuntimeEventPrincipal p = None"
    "RuntimeEventFingerprint ee request = Inr fp" "canonicalRuntimeEventPayload ee request = Inr payload"
    "append_tx ee eventID began p i request fp payload clk d = Inr (ack, d')"
  using assms unfolding Append_def
  by (auto simp: err_then_def WithTransaction_commit split: option.split_asm sum.split_asm)


section \<open>Histories\<close>

lemma steps_event_inv: "run_step\<^sup>*\<^sup>* d d' \<Longrightarrow> event_inv d \<Longrightarrow> event_inv d'"
  by (induction rule: rtranclp_induct) (auto dest: run_step_event_inv)

lemma steps_request:
  "run_step\<^sup>*\<^sup>* d d' \<Longrightarrow> find_run j d = Some x \<Longrightarrow> \<exists>x'. find_run j d' = Some x' \<and> same_request x x'"
proof (induction rule: rtranclp_induct)
  case base
  then show ?case by (simp add: same_request_transformed)
next
  case (step y z)
  then obtain x' where x': "find_run j y = Some x'" "same_request x x'" by blast
  from run_step_request[OF step(2) x'(1)] x'(2) show ?case by (auto simp: same_request_def)
qed

lemma steps_identity:
  "run_step\<^sup>*\<^sup>* d d' \<Longrightarrow> event_inv d \<Longrightarrow> find_attempt j d = Some b \<Longrightarrow>
     \<exists>b'. find_attempt j d' = Some b' \<and> same_identity b b'"
proof (induction rule: rtranclp_induct)
  case base
  then show ?case by (simp add: same_identity_def)
next
  case (step y z)
  then obtain b' where b': "find_attempt j y = Some b'" "same_identity b b'" by blast
  have "numbered y" using steps_event_inv[OF step(1,4)] by (simp add: event_inv_def)
  from run_step_identity[OF step(2) this b'(1)] b'(2) show ?case by (auto simp: same_identity_def)
qed

lemma steps_settled:
  "run_step\<^sup>*\<^sup>* d d' \<Longrightarrow> find_run j d = Some x \<Longrightarrow> r_Status x \<noteq> ''running'' \<Longrightarrow>
     \<exists>x'. find_run j d' = Some x' \<and> cancel_noted x x'"
proof (induction rule: rtranclp_induct)
  case base
  then show ?case by (simp add: cancel_noted_refl)
next
  case (step y z)
  then obtain x' where x': "find_run j y = Some x'" "cancel_noted x x'" by blast
  with step.prems(2) have "r_Status x' \<noteq> ''running''" by (simp add: cancel_noted_fields)
  from run_step_settled[OF step(2) x'(1) this] x'(2) show ?case by (blast intro: cancel_noted_trans)
qed

lemma steps_events: "run_step\<^sup>*\<^sup>* d d' \<Longrightarrow> set (db_events d) \<subseteq> set (db_events d')"
proof (induction rule: rtranclp_induct)
  case (step y z)
  then show ?case using run_step_events[OF step(2)] by auto
qed simp

section \<open>Replay\<close>

lemma find_unique:
  assumes "x \<in> set xs" "P x" "\<And>y. y \<in> set xs \<Longrightarrow> P y \<Longrightarrow> y = x"
  shows "List.find P xs = Some x"
proof (cases "List.find P xs")
  case None
  with assms(1,2) show ?thesis by (auto simp: find_None_iff)
next
  case (Some y)
  then have "y \<in> set xs" "P y" by (auto simp: find_Some_iff)
  with assms(3) Some show ?thesis by simp
qed

lemma stored_event_found:
  assumes inv: "log_unique d" and e: "e \<in> set (db_events d)" "ev_RunID e = runID" "ev_ClientEventID e = Some clientID"
    "ev_ClientEventSeq e = Some seq" "ev_AttemptID e = Some k" "ev_AttemptNo e = Some no" "ev_FencingToken e = Some fence"
    "ev_PayloadFingerprint e = Some fp" and a: "find_attempt k d = Some a" "a_RunID a = runID"
  shows "findStoredRuntimeEvent runID clientID d =
    Inr (Some \<lparr>se_id = ev_ID e, se_sequence = ev_Sequence e, se_clientEventSeq = seq, se_payloadFingerprint = fp,
      se_attemptID = k, se_attemptNo = no, se_fencingToken = fence, se_createdAt = ev_CreatedAt e, se_attempt = a\<rparr>, d)"
proof -
  have "List.find (\<lambda>e. ev_RunID e = runID \<and> ev_ClientEventID e = Some clientID) (db_events d) = Some e"
    using inv e(1-3) by (intro find_unique) (auto simp: log_unique_def sql_eq_def)
  with e a show ?thesis
    by (simp add: findStoredRuntimeEvent_def tx_defs GetRunEventByClientID_def GetRunAttemptByID_def)
qed

lemma replay_of_own_event:
  assumes p: "runtimePrincipalMatchesAttempt p a" and i: "stored_identity a = i"
    and s: "se_attempt s = a" "se_clientEventSeq s = eq_ClientEventSeq request" "se_attemptID s = ra_AttemptID i"
      "se_fencingToken s = ra_FencingToken i" "a_AttemptNo a = Some (se_attemptNo s)" "se_payloadFingerprint s = fp"
  shows "replay_tx ee p i request fp s clk d =
    Inr (\<lparr>ek_ClientEventID = eq_ClientEventID request, ek_ClientEventSeq = eq_ClientEventSeq request,
       ek_Sequence = se_sequence s, ek_Replayed = True, ek_Inserted = False, ek_EventID = se_id s,
       ek_CreatedAt = se_createdAt s\<rparr>, d)"
  using assms
  by (simp add: replay_tx_def event_guard_def tx_defs storedRuntimeEventMatches_def authorizeRuntimeAttemptPrincipal_def)

lemma principal_same_identity:
  "same_identity a a' \<Longrightarrow> runtimePrincipalMatchesAttempt p a \<Longrightarrow> runtimePrincipalMatchesAttempt p a'"
  by (auto simp: same_identity_def stored_identity_def runtimePrincipalMatchesAttempt_def)

lemma identity_of_match: "runtimeIdentityMatchesAttempt i a \<Longrightarrow> stored_identity a = i"
  by (cases i) (simp add: runtimeIdentityMatchesAttempt_def stored_identity_def)

text \<open>
  C32: A runtime whose principal is still valid may repeat an append that was committed for its own
  attempt at any later time, after any number of lease, event and closing steps, also when the run is already over: it gets the
  sequence, event id and time of the first call, marked as a replay, and nothing is stored again.
\<close>

theorem append_replay_is_idempotent:
  assumes inv: "event_inv d" and first: "Append ee eventID began clk p i request d = (Inr ack, d1)" "ek_Inserted ack"
    and own: "find_attempt (ra_AttemptID i) d = Some a" "runtimePrincipalMatchesAttempt p a"
    and later: "run_step\<^sup>*\<^sup>* d1 d2"
    and live: "lockRuntimePrincipal p (clk' 0) d2 = Inr (locked, d2)" "validAt locked (clk' 1)"
  shows "Append ee eventID' began' clk' p i request d2 = (Inr (ack\<lparr>ek_Replayed := True, ek_Inserted := False\<rparr>), d2)"
proof -
  from first(1) obtain fp payload where valid: "validateRuntimeAttemptIdentity i = None" "validateRuntimeEventPrincipal p = None"
      "RuntimeEventFingerprint ee request = Inr fp" "canonicalRuntimeEventPayload ee request = Inr payload"
    and tx: "append_tx ee eventID began p i request fp payload clk d = Inr (ack, d1)"
    by (rule Append_InrE)
  have seq: "1 \<le> eq_ClientEventSeq request" by (rule RuntimeEventFingerprint_seq[OF valid(3)])
  from tx obtain run deadline where run: "find_run (ra_RunID i) d = Some run" "r_RunDeadlineAt run = Some deadline"
      "pe_AgentID p = r_AgentID run" "ra_AgentID i = r_AgentID run" "r_RuntimeContractID run = RuntimeContractID"
    and new: "append_new_tx ee eventID began p i request fp payload run deadline clk d = Inr (ack, d1)"
    by (rule append_tx_InrE) (use first(2) replay_tx_keeps in blast)+
  obtain b no e gs mb sb where b: "find_attempt (ra_AttemptID i) d = Some b" "a_RunID b = ra_RunID i"
      "runtimeIdentityMatchesAttempt i b" "a_AttemptNo b = Some no"
    and e: "ev_RunID e = ra_RunID i" "ev_AttemptID e = Some (ra_AttemptID i)" "ev_AttemptNo e = Some no"
      "ev_ClientEventID e = Some (eq_ClientEventID request)" "ev_ClientEventSeq e = Some (eq_ClientEventSeq request)"
      "ev_FencingToken e = Some (ra_FencingToken i)" "ev_PayloadFingerprint e = Some fp"
    and d1: "d1 = d\<lparr>db_grants := gs, db_events := insert_row e (db_events d), db_mcp_bindings := mb, db_skill_bindings := sb,
       db_attempts := update_row a_ID (ra_AttemptID i)
         (\<lambda>_. b\<lparr>a_LastClientEventSeq := max (a_LastClientEventSeq b) (eq_ClientEventSeq request)\<rparr>) (db_attempts d)\<rparr>"
    and ack: "ack = \<lparr>ek_ClientEventID = eq_ClientEventID request, ek_ClientEventSeq = eq_ClientEventSeq request,
       ek_Sequence = ev_Sequence e, ek_Replayed = False, ek_Inserted = True, ek_EventID = ev_ID e,
       ek_CreatedAt = ev_CreatedAt e\<rparr>"
    and step: "run_step d d1"
    by (rule append_new_tx_InrE[OF new run(1) seq])
  have steps: "run_step\<^sup>*\<^sup>* d d2" using step later by (rule converse_rtranclp_into_rtranclp)
  obtain c where c: "find_attempt (ra_AttemptID i) d2 = Some c" "same_identity b c"
    using steps_identity[OF steps inv b(1)] by blast
  obtain run' where run': "find_run (ra_RunID i) d2 = Some run'" "same_request run run'"
    using steps_request[OF steps run(1)] by blast
  have owner: "a = b" using own(1) b(1) by simp
  have c_ok: "runtimePrincipalMatchesAttempt p c" "stored_identity c = i" "a_AttemptNo c = Some no" "a_RunID c = ra_RunID i"
    using principal_same_identity[OF c(2)] own(2) owner identity_of_match[OF b(3)] c(2) b(2,4)
    by (auto simp: same_identity_def stored_identity_def)
  have "e \<in> set (db_events d2)" using steps_events[OF later] by (auto simp: d1 insert_row_def)
  moreover have "log_unique d2" using steps_event_inv[OF steps inv] by (simp add: event_inv_def)
  ultimately have stored: "findStoredRuntimeEvent (ra_RunID i) (eq_ClientEventID request) d2 =
      Inr (Some \<lparr>se_id = ev_ID e, se_sequence = ev_Sequence e, se_clientEventSeq = eq_ClientEventSeq request,
        se_payloadFingerprint = fp, se_attemptID = ra_AttemptID i, se_attemptNo = no, se_fencingToken = ra_FencingToken i,
        se_createdAt = ev_CreatedAt e, se_attempt = c\<rparr>, d2)"
    using e c(1) c_ok(4) by (intro stored_event_found) auto
  have "append_tx ee eventID' began' p i request fp payload clk' d2 = Inr (ack\<lparr>ek_Replayed := True, ek_Inserted := False\<rparr>, d2)"
    using live run run' c_ok stored
    by (simp add: append_tx_def lockRuntimeEventRun_def LockRunForEventAppend_def event_guard_def tx_defs same_request_def
        replay_of_own_event ack)
  then show ?thesis using valid by (simp add: Append_def err_then_def WithTransaction_def)
qed


theorem append_replay_is_idempotent_witness:
  "Append wit_event_env 99 5000 wit_event_clock wit_event_principal wit_event_identity wit_event_request wit_reported =
     (Inr (wit_event_ack\<lparr>ek_Replayed := True, ek_Inserted := False\<rparr>), wit_reported)"
proof -
  obtain l where lock: "lockRuntimePrincipal wit_event_principal (wit_event_clock 0) wit_reported = Inr (Some l, wit_reported)"
      "t_ExpiresAt (lp_credential l) = None"
    by (rule wit_event_lock[of wit_reported 1 1005 1005 1 "Some 1006" 1006])
       (simp_all add: wit_reported_def wit_executing_def wit_worlds)
  show ?thesis
    by (rule append_replay_is_idempotent[where clk' = wit_event_clock,
          OF wit_event_inv wit_append_commits _ _ wit_event_owner rtranclp.rtrancl_refl lock(1)])
       (use lock(2) in \<open>simp_all add: wit_event_ack_def wit_event_rows wit_event_identity_def validAt_def wit_event_clock_def IsZero_def\<close>)
qed

section \<open>What an append needs\<close>

lemma append_new_tx_checks:
  assumes "append_new_tx ee eventID began p i request fp payload run deadline clk d = Inr (ack, d')"
  obtains a d1 where "append_checks p i run deadline clk d = Inr (a, d1)"
  using assms unfolding append_new_tx_def tx_simps by blast

text \<open>
  C33: An event is stored only for the attempt that holds the run: the run is running and executing, its
  active attempt, lease and fence are the ones the caller names, the caller's whole identity is the stored one, the
  attempt is neither finished nor settled, and neither the attempt nor the run is past its deadline. The
  event takes the next sequence of its run and is appended at the end of the log; no run and no
  slot counter changes.
\<close>

theorem append_only_under_the_current_fence:
  assumes "Append ee eventID began clk p i request d = (Inr ack, d')" "ek_Inserted ack"
  shows "\<exists>run a deadline e. find_run (ra_RunID i) d = Some run \<and> find_attempt (ra_AttemptID i) d = Some a \<and>
      r_Status run = ''running'' \<and> r_DispatchState run = ''executing'' \<and> r_ActiveAttemptID run = Some (ra_AttemptID i) \<and>
      r_FencingToken run = ra_FencingToken i \<and> stored_identity a = i \<and> a_FinishedAt a = None \<and> a_ResultID a = None \<and>
      r_RunDeadlineAt run = Some deadline \<and> clk 1 < deadline \<and> clk 1 < a_AttemptDeadlineAt a \<and>
      db_events d' = db_events d @ [e] \<and> ev_RunID e = ra_RunID i \<and> ev_AttemptID e = Some (ra_AttemptID i) \<and>
      ev_Sequence e = last_sequence (ra_RunID i) d + 1 \<and> ek_Sequence ack = ev_Sequence e \<and> ek_EventID ack = ev_ID e \<and>
      db_runs d' = db_runs d \<and> db_sessions d' = db_sessions d \<and> db_nodes d' = db_nodes d"
proof -
  from assms(1) obtain fp payload where fp: "RuntimeEventFingerprint ee request = Inr fp"
    and tx: "append_tx ee eventID began p i request fp payload clk d = Inr (ack, d')"
    by (rule Append_InrE)
  have seq: "1 \<le> eq_ClientEventSeq request" by (rule RuntimeEventFingerprint_seq[OF fp])
  from tx obtain run deadline where run: "find_run (ra_RunID i) d = Some run" "r_RunDeadlineAt run = Some deadline"
    and new: "append_new_tx ee eventID began p i request fp payload run deadline clk d = Inr (ack, d')"
    by (rule append_tx_InrE) (use assms(2) replay_tx_keeps in blast)+
  obtain a d1 where chk: "append_checks p i run deadline clk d = Inr (a, d1)" by (rule append_new_tx_checks[OF new])
  note a = append_checks_InrD[OF chk]
  obtain e gs mb sb as where e: "next_event d e" "ev_RunID e = ra_RunID i" "ev_AttemptID e = Some (ra_AttemptID i)"
    and d': "d' = d\<lparr>db_grants := gs, db_events := insert_row e (db_events d), db_mcp_bindings := mb, db_skill_bindings := sb,
       db_attempts := as\<rparr>" and ack: "ek_Sequence ack = ev_Sequence e" "ek_EventID ack = ev_ID e"
    by (rule append_new_tx_InrE[OF new run(1) seq]) auto
  show ?thesis
    using run a e d' ack identity_of_match[OF a(12)]
    by (intro exI[of _ run] exI[of _ a] exI[of _ deadline] exI[of _ e]) (simp add: next_event_def insert_row_def)
qed

theorem append_only_under_the_current_fence_witness:
  "\<exists>run a deadline e. find_run 6 wit_executing = Some run \<and> find_attempt 10 wit_executing = Some a \<and>
      r_Status run = ''running'' \<and> r_DispatchState run = ''executing'' \<and> r_ActiveAttemptID run = Some 10 \<and>
      r_FencingToken run = 1 \<and> stored_identity a = wit_event_identity \<and> a_FinishedAt a = None \<and> a_ResultID a = None \<and>
      r_RunDeadlineAt run = Some deadline \<and> wit_event_clock 1 < deadline \<and> wit_event_clock 1 < a_AttemptDeadlineAt a \<and>
      db_events wit_reported = db_events wit_executing @ [e] \<and> ev_RunID e = 6 \<and> ev_AttemptID e = Some 10 \<and>
      ev_Sequence e = last_sequence 6 wit_executing + 1 \<and> ek_Sequence wit_event_ack = ev_Sequence e \<and>
      ek_EventID wit_event_ack = ev_ID e \<and> db_runs wit_reported = db_runs wit_executing \<and>
      db_sessions wit_reported = db_sessions wit_executing \<and> db_nodes wit_reported = db_nodes wit_executing"
proof -
  have ids: "ra_RunID wit_event_identity = 6" "ra_AttemptID wit_event_identity = 10" "ra_FencingToken wit_event_identity = 1"
    by (simp_all add: wit_event_identity_def)
  have "ek_Inserted wit_event_ack" by (simp add: wit_event_ack_def)
  from append_only_under_the_current_fence[OF wit_append_commits this, unfolded ids] show ?thesis .
qed

section \<open>Identities that cannot be encoded\<close>

lemma in_insert_member: "set (insert_member m ms) = insert m (set ms)"
  by (induction ms) auto

lemma in_sort_members: "set (sort_members ms) = set ms"
  by (induction ms) (auto simp: sort_members_def in_insert_member)

lemma first_error_Inl: "Inl e \<in> set rs \<Longrightarrow> \<exists>e'. first_error rs = Inl e'"
  by (induction rs) (auto split: sum.split)

lemma canonical_object_fails:
  assumes "(key, v) \<in> set ms" "canonical_json fl v = Inl e"
  shows "\<exists>e'. CanonicalizeRFC8785 fl (VObject ms) = Inl e'"
proof -
  let ?ts = "sort_members (map (\<lambda>m. (fst m, canonical_json fl (snd m))) ms)"
  obtain e1 where e1: "member_text (key, Inl e) = Inl e1"
    by (cases "appendCanonicalJSONString key") (simp_all add: member_text_def)
  have "(key, Inl e) \<in> set ?ts" using assms by (force simp: in_sort_members)
  then have "Inl e1 \<in> set (map member_text ?ts)" unfolding set_map e1[symmetric] by (rule imageI)
  then obtain e2 where "first_error (map member_text ?ts) = Inl e2" by (rule first_error_Inl[THEN exE])
  then show ?thesis by (simp add: CanonicalizeRFC8785_def)
qed

lemma digest_without_encoding:
  assumes "\<not> signedIntegerExactlyRepresentable (word_of_int (ra_FencingToken i))"
  shows "runtimeAttemptIdentityDigest ee i = replicate 32 (CHR 0x00)"
proof -
  have "canonical_json (ee_floats ee) (VInt (word_of_int (ra_FencingToken i))) =
      Inl (canonical_error ''integer is not exactly representable as IEEE-754 binary64'')"
    using assms by simp
  then have "\<exists>e'. CanonicalizeRFC8785 (ee_floats ee) (identity_value i) = Inl e'"
    unfolding identity_value_def by (rule canonical_object_fails[rotated])
      (unfold append_Cons append_Nil, rule list.set_intros(2)[OF list.set_intros(2)[OF list.set_intros(2)[OF list.set_intros(1)]]])
  then show ?thesis by (auto simp: runtimeAttemptIdentityDigest_def)
qed

text \<open>
  C35: The digest of an identity whose fencing token needs more than 53 significant bits is all zero,
  on both sides of the comparison: the comparison then accepts every identity that agrees on
  the attempt and its fence, whatever lease, agent, node, worker or session it names. The comment in
  the code expects an encoding failure to reject.
\<close>

theorem unencodable_identities_compare_equal:
  assumes "\<not> signedIntegerExactlyRepresentable (word_of_int (a_FencingToken (se_attempt stored)))"
    and "a_FencingToken (se_attempt stored) = se_fencingToken stored"
  shows "storedRuntimeEventMatches ee stored i seq fp \<longleftrightarrow>
     se_clientEventSeq stored = seq \<and> se_attemptID stored = ra_AttemptID i \<and> se_fencingToken stored = ra_FencingToken i \<and>
     a_AttemptNo (se_attempt stored) = Some (se_attemptNo stored) \<and> se_payloadFingerprint stored = fp"
  using assms digest_without_encoding[of i] digest_without_encoding[of "stored_identity (se_attempt stored)"]
  by (auto simp: storedRuntimeEventMatches_def stored_identity_def)


definition wit_wide_fence :: int where
  "wit_wide_fence = 2 ^ 53 + 1"

definition wit_wide_event :: runtimeStoredEvent where
  "wit_wide_event = \<lparr>se_id = 21, se_sequence = 1, se_clientEventSeq = 1, se_payloadFingerprint = ''f'', se_attemptID = 10,
     se_attemptNo = 1, se_fencingToken = wit_wide_fence, se_createdAt = 2500,
     se_attempt = wit_accepted\<lparr>a_FencingToken := wit_wide_fence\<rparr>\<rparr>"

lemma wit_wide: "\<not> signedIntegerExactlyRepresentable (word_of_int wit_wide_fence)"
proof -
  have w: "(word_of_int wit_wide_fence :: 64 word) = 9007199254740993" by (simp add: wit_wide_fence_def)
  have s: "sint (9007199254740993 :: 64 word) = 9007199254740993" by simp
  have l: "Len64 9007199254740993 = 54" by (simp add: Len64_def bit_length.simps)
  show ?thesis
    unfolding w signedIntegerExactlyRepresentable_def s unsignedIntegerExactlyRepresentable_def l by simp
qed

text \<open>An identity with another lease, agent, node and session than the stored one passes.\<close>

theorem unencodable_identities_compare_equal_witness:
  "storedRuntimeEventMatches wit_event_env wit_wide_event
     \<lparr>ra_RunID = 7, ra_AttemptID = 10, ra_LeaseID = 12, ra_FencingToken = wit_wide_fence, ra_NodeID = Some 13, ra_AgentID = 14,
       ra_WorkerID = None, ra_RuntimeSessionID = None\<rparr> 1 ''f''"
  by (rule unencodable_identities_compare_equal[THEN iffD2])
     (use wit_wide in \<open>simp_all add: wit_wide_event_def wit_accepted_def\<close>)

end
