(* ===== verification/Run_Artifacts.thy ===== *)
theory Run_Artifacts
  imports Event_Store "HOL-Library.AList"
begin

text \<open>
  What \<open>pkg/runtime/service.go\<close> makes of the output of a successful run: the artifact drafts, their
  file metadata and the rows of \<open>run_artifacts\<close>, and the one-line summary that completes a private
  task. A decoded JSON object is the list of its members. \<open>json.Marshal\<close> and the conversion of a
  \<open>float64\<close> beyond the range of \<open>int64\<close> are the record \<open>artifact_env\<close>.

  \<open>artifactDraftFromMap\<close> writes the file metadata into the map it found under \<open>content\<close> or \<open>data\<close>,
  which is part of the output itself; the model returns the output after these writes.
\<close>

section \<open>Strings\<close>

record artifact_env =
  ae_floats :: float_env
  ae_int64 :: "rat \<Rightarrow> int"
  ae_Marshal :: "jmap \<Rightarrow> go_error + bytes"

definition utf8_encode :: "nat \<Rightarrow> nat list" where
  "utf8_encode r =
     (if r < 0x80 then [r]
      else if r < 0x800 then [0xC0 + r div 64, 0x80 + r mod 64]
      else if r < 0x10000 then [0xE0 + r div 4096, 0x80 + r div 64 mod 64, 0x80 + r mod 64]
      else [0xF0 + r div 262144, 0x80 + r div 4096 mod 64, 0x80 + r div 64 mod 64, 0x80 + r mod 64])"

text \<open>\<open>runes := []rune(value); if len(runes) > max { return string(runes[:max]) }; return value\<close>\<close>

definition limit_runes :: "nat \<Rightarrow> string \<Rightarrow> string" where
  "limit_runes limit value =
     (let rs = runes (map of_char value) in
      if limit < length rs then map char_of (concat (map utf8_encode (take limit rs))) else value)"

fun decimal :: "nat \<Rightarrow> string" where
  "decimal n = (if n < 10 then [char_of (48 + n)] else decimal (n div 10) @ [char_of (48 + n mod 10)])"

declare decimal.simps [simp del]

definition decimal_int :: "int \<Rightarrow> string" where
  "decimal_int n = (if n < 0 then CHR ''-'' # decimal (nat (- n)) else decimal (nat n))"

definition cn_artifact :: string where
  "cn_artifact = ''Agent '' @ map char_of [0xE4, 0xBA, 0xA7, 0xE7, 0x89, 0xA9 :: nat]"

definition cn_output :: string where
  "cn_output = ''Agent '' @ map char_of [0xE8, 0xBE, 0x93, 0xE5, 0x87, 0xBA :: nat]"

definition cn_success :: string where
  "cn_success = map char_of [0xE8, 0xBF, 0x90, 0xE8, 0xA1, 0x8C, 0xE6, 0x88, 0x90, 0xE5, 0x8A, 0x9F :: nat]"

definition normalizeArtifactMetadataString :: "string \<Rightarrow> nat \<Rightarrow> string" where
  "normalizeArtifactMetadataString value limit = limit_runes limit (TrimSpace value)"

definition normalizeArtifactSourceID :: "string \<Rightarrow> string" where
  "normalizeArtifactSourceID value =
     (let v = TrimSpace value in limit_runes 200 (if v = [] then ''default'' else v))"

definition normalizeArtifactTitle :: "string \<Rightarrow> string" where
  "normalizeArtifactTitle title =
     (let t = TrimSpace title in limit_runes 200 (if t = [] then cn_artifact else t))"

definition ascii_lower :: "char \<Rightarrow> char" where
  "ascii_lower c = (let b = of_char c :: nat in if 65 \<le> b \<and> b \<le> 90 then char_of (b + 32) else c)"

definition artifact_hex :: "char \<Rightarrow> bool" where
  "artifact_hex c \<longleftrightarrow> is_lower_hex (ascii_lower c)"

definition normalizeSHA256 :: "string \<Rightarrow> string" where
  "normalizeSHA256 value =
     (let v = TrimSpace value in
      if length v \<noteq> 64 then [] else if \<not> list_all artifact_hex v then [] else map ascii_lower v)"

definition validArtifactType :: "string \<Rightarrow> bool" where
  "validArtifactType v \<longleftrightarrow> v \<in> {''json'', ''text'', ''file'', ''data''}"

definition validArtifactVisibility :: "string \<Rightarrow> bool" where
  "validArtifactVisibility v \<longleftrightarrow> v \<in> {''private'', ''shared'', ''public_example''}"

definition stringPtrOrNil :: "string \<Rightarrow> string option" where
  "stringPtrOrNil value = (let v = TrimSpace value in if v = [] then None else Some v)"

section \<open>Members\<close>

definition string_member :: "jmap \<Rightarrow> string \<Rightarrow> string option" where
  "string_member m key = (case map_of m key of Some (JString v) \<Rightarrow> Some v | _ \<Rightarrow> None)"

definition object_member :: "jmap \<Rightarrow> string \<Rightarrow> jmap option" where
  "object_member m key = (case map_of m key of Some (JObject v) \<Rightarrow> Some v | _ \<Rightarrow> None)"

definition coalesceArtifactString :: "jmap \<Rightarrow> string \<Rightarrow> string \<Rightarrow> string" where
  "coalesceArtifactString m key fallback =
     (case string_member m key of
        Some v \<Rightarrow> if TrimSpace v \<noteq> [] then TrimSpace v else fallback
      | None \<Rightarrow> fallback)"

fun firstArtifactString :: "jmap \<Rightarrow> string list \<Rightarrow> string" where
  "firstArtifactString raw [] = []"
| "firstArtifactString raw (key # keys) =
     (case string_member raw key of
        Some v \<Rightarrow> if TrimSpace v \<noteq> [] then normalizeArtifactMetadataString v 2000 else firstArtifactString raw keys
      | None \<Rightarrow> firstArtifactString raw keys)"

text \<open>The decoder gives every number as a \<open>float64\<close>, so the integer cases of the type switch do not arise.\<close>

definition size_member :: "artifact_env \<Rightarrow> jmap \<Rightarrow> string \<Rightarrow> int option" where
  "size_member ae raw key =
     (case map_of raw key of
        Some (JNumber n) \<Rightarrow>
         (case fl_ParseFloat (ae_floats ae) n of
            Some (FFin q) \<Rightarrow>
              if q < 0 then None
              else Some (if q < 2 ^ 63 then \<lfloor>q\<rfloor> else ae_int64 ae q)
          | _ \<Rightarrow> None)
      | _ \<Rightarrow> None)"

fun firstArtifactInt64 :: "artifact_env \<Rightarrow> jmap \<Rightarrow> string list \<Rightarrow> int option" where
  "firstArtifactInt64 ae raw [] = None"
| "firstArtifactInt64 ae raw (key # keys) =
     (case size_member ae raw key of Some n \<Rightarrow> Some n | None \<Rightarrow> firstArtifactInt64 ae raw keys)"

section \<open>File metadata\<close>

record artifactFileMetadata =
  fm_MimeType :: string
  fm_FileURI :: string
  fm_FileName :: string
  fm_FileSHA256 :: string
  fm_FileSizeBytes :: "int option"

definition mergeArtifactFileMetadata :: "artifactFileMetadata \<Rightarrow> artifactFileMetadata \<Rightarrow> artifactFileMetadata" where
  "mergeArtifactFileMetadata base other =
     \<lparr>fm_MimeType = (if fm_MimeType base = [] then fm_MimeType other else fm_MimeType base),
      fm_FileURI = (if fm_FileURI base = [] then fm_FileURI other else fm_FileURI base),
      fm_FileName = (if fm_FileName base = [] then fm_FileName other else fm_FileName base),
      fm_FileSHA256 = (if fm_FileSHA256 base = [] then fm_FileSHA256 other else fm_FileSHA256 base),
      fm_FileSizeBytes = (if fm_FileSizeBytes base = None then fm_FileSizeBytes other else fm_FileSizeBytes base)\<rparr>"

lemma object_member_size: "object_member m key = Some v \<Longrightarrow> size (JObject v) < size (JObject m)"
proof -
  assume "object_member m key = Some v"
  then have "(key, JObject v) \<in> set m"
    by (auto simp: object_member_def split: option.splits json.splits dest: map_of_SomeD)
  then show ?thesis
    by (induction m) auto
qed

definition own_metadata :: "artifact_env \<Rightarrow> jmap \<Rightarrow> artifactFileMetadata" where
  "own_metadata ae raw =
     \<lparr>fm_MimeType = normalizeArtifactMetadataString
        (firstArtifactString raw [''mime_type'', ''mimeType'', ''content_type'', ''contentType'']) 200,
      fm_FileURI = normalizeArtifactMetadataString
        (firstArtifactString raw [''file_uri'', ''fileUri'', ''uri'', ''url'']) 2000,
      fm_FileName = normalizeArtifactMetadataString
        (firstArtifactString raw [''file_name'', ''fileName'', ''name'', ''filename'']) 500,
      fm_FileSHA256 = normalizeSHA256
        (firstArtifactString raw [''file_sha256'', ''fileSha256'', ''sha256'', ''checksum'']),
      fm_FileSizeBytes = firstArtifactInt64 ae raw
        [''file_size_bytes'', ''fileSizeBytes'', ''size_bytes'', ''sizeBytes'', ''size'']\<rparr>"

function artifactFileMetadataFromMap :: "artifact_env \<Rightarrow> jmap \<Rightarrow> artifactFileMetadata" where
  "artifactFileMetadataFromMap ae raw =
     foldl (\<lambda>meta key.
         case object_member raw key of
           Some nested \<Rightarrow> mergeArtifactFileMetadata meta (artifactFileMetadataFromMap ae nested)
         | None \<Rightarrow> meta)
       (own_metadata ae raw) [''file'', ''file_ref'', ''fileRef'', ''binary'', ''bytes'']"
  by pat_completeness auto

termination
  by (relation "measure (\<lambda>(ae, raw). size (JObject raw))") (simp_all only: in_measure wf_measure prod.case object_member_size)

declare artifactFileMetadataFromMap.simps [simp del]

section \<open>Drafts\<close>

record runArtifactDraft =
  rd_SourceArtifactID :: string
  rd_ArtifactType :: string
  rd_Title :: string
  rd_Content :: jmap
  rd_Visibility :: string
  rd_MimeType :: string
  rd_FileURI :: string
  rd_FileName :: string
  rd_FileSHA256 :: string
  rd_FileSizeBytes :: "int option"
  rd_Fallback :: bool

definition put_nonempty :: "string \<Rightarrow> string \<Rightarrow> jmap \<Rightarrow> jmap" where
  "put_nonempty key v m = (if v \<noteq> [] then AList.update key (JString v) m else m)"

definition file_content :: "artifactFileMetadata \<Rightarrow> jmap \<Rightarrow> jmap" where
  "file_content meta m =
     (let m1 = put_nonempty ''file_sha256'' (fm_FileSHA256 meta)
            (put_nonempty ''mime_type'' (fm_MimeType meta)
            (put_nonempty ''file_name'' (fm_FileName meta)
            (put_nonempty ''file_uri'' (fm_FileURI meta) m)))
      in case fm_FileSizeBytes meta of
           Some n \<Rightarrow> AList.update ''file_size_bytes'' (JNumber (decimal_int n)) m1
         | None \<Rightarrow> m1)"

text \<open>The draft, and the map after the metadata was written into its \<open>content\<close> or \<open>data\<close> member.\<close>

definition artifactDraftFromMap :: "artifact_env \<Rightarrow> jmap \<Rightarrow> string \<Rightarrow> runArtifactDraft \<times> jmap" where
  "artifactDraftFromMap ae raw fallbackTitle =
     (let id1 = coalesceArtifactString raw ''artifact_id'' [];
          id2 = (if id1 = [] then coalesceArtifactString raw ''source_artifact_id'' [] else id1);
          id3 = (if id2 = [] then coalesceArtifactString raw ''id'' [] else id2);
          sourceID = (if id3 \<noteq> [] then normalizeArtifactSourceID id3 else id3);
          title = normalizeArtifactTitle (coalesceArtifactString raw ''title'' fallbackTitle);
          type1 = coalesceArtifactString raw ''artifact_type'' [];
          type2 = (if type1 = [] then coalesceArtifactString raw ''type'' ''json'' else type1);
          artifactType = (if validArtifactType type2 then type2 else ''json'');
          vis = coalesceArtifactString raw ''visibility'' ''private'';
          visibility = (if validArtifactVisibility vis then vis else ''private'');
          member = (if object_member raw ''content'' \<noteq> None then Some ''content''
                    else if object_member raw ''data'' \<noteq> None then Some ''data'' else None);
          content = (case member of Some key \<Rightarrow> the (object_member raw key) | None \<Rightarrow> raw);
          meta1 = artifactFileMetadataFromMap ae raw;
          meta = (if fm_FileURI meta1 = []
                  then mergeArtifactFileMetadata meta1 (artifactFileMetadataFromMap ae content) else meta1);
          written = (if artifactType = ''file'' then file_content meta content else content)
      in (\<lparr>rd_SourceArtifactID = sourceID, rd_ArtifactType = artifactType, rd_Title = title,
           rd_Content = written, rd_Visibility = visibility, rd_MimeType = fm_MimeType meta,
           rd_FileURI = fm_FileURI meta, rd_FileName = fm_FileName meta, rd_FileSHA256 = fm_FileSHA256 meta,
           rd_FileSizeBytes = fm_FileSizeBytes meta, rd_Fallback = False\<rparr>,
          case member of Some key \<Rightarrow> AList.update key (JObject written) raw | None \<Rightarrow> raw))"

definition artifact_title :: "nat \<Rightarrow> string" where
  "artifact_title i = ''Artifact '' @ decimal (i + 1)"

definition plain_draft :: "string \<Rightarrow> string \<Rightarrow> jmap \<Rightarrow> bool \<Rightarrow> runArtifactDraft" where
  "plain_draft artifactType title content fallback =
     \<lparr>rd_SourceArtifactID = [], rd_ArtifactType = artifactType, rd_Title = title, rd_Content = content,
      rd_Visibility = ''private'', rd_MimeType = [], rd_FileURI = [], rd_FileName = [], rd_FileSHA256 = [],
      rd_FileSizeBytes = None, rd_Fallback = fallback\<rparr>"

fun artifact_items :: "artifact_env \<Rightarrow> nat \<Rightarrow> json list \<Rightarrow> runArtifactDraft list \<times> json list" where
  "artifact_items ae i [] = ([], [])"
| "artifact_items ae i (item # rest) =
     (case artifact_items ae (Suc i) rest of
        (drafts, items) \<Rightarrow>
         (case item of
            JObject m \<Rightarrow> (case artifactDraftFromMap ae m (artifact_title i) of
                           (draft, m') \<Rightarrow> (draft # drafts, JObject m' # items))
          | _ \<Rightarrow> (plain_draft ''data'' (artifact_title i) [(''value'', item)] False # drafts, item # items)))"

definition runArtifactsFromOutput :: "artifact_env \<Rightarrow> jmap \<Rightarrow> runArtifactDraft list \<times> jmap" where
  "runArtifactsFromOutput ae output =
     (case map_of output ''artifacts'' of
        Some (JArray (item # rest)) \<Rightarrow>
         (case artifact_items ae 0 (item # rest) of
            (drafts, items) \<Rightarrow> (drafts, AList.update ''artifacts'' (JArray items) output))
      | _ \<Rightarrow>
         (case object_member output ''artifact'' of
            Some m \<Rightarrow> (case artifactDraftFromMap ae m cn_artifact of
                        (draft, m') \<Rightarrow> ([draft], AList.update ''artifact'' (JObject m') output))
          | None \<Rightarrow> ([plain_draft ''json'' cn_output output True], output)))"

section \<open>Rows\<close>

definition HasRunArtifactsByRun :: "uuid \<Rightarrow> runtime_db \<Rightarrow> bool" where
  "HasRunArtifactsByRun runID d \<longleftrightarrow> (\<exists>x \<in> set (db_artifacts d). ar_RunID x = runID)"

text \<open>The upsert on \<open>(run_id, source_artifact_id)\<close>, for artifacts that name a source.\<close>

definition CreateRunArtifact :: "ArtifactRow \<Rightarrow> runtime_db \<Rightarrow> runtime_db" where
  "CreateRunArtifact row d =
     (let same = (\<lambda>x. ar_RunID x = ar_RunID row \<and> sql_eq (ar_SourceArtifactID x) (ar_SourceArtifactID row)) in
      if \<exists>x \<in> set (db_artifacts d). same x
      then d\<lparr>db_artifacts := map (\<lambda>x. if same x then row else x) (db_artifacts d)\<rparr>
      else d\<lparr>db_artifacts := insert_row row (db_artifacts d)\<rparr>)"

fun source_ids_distinct :: "string set \<Rightarrow> runArtifactDraft list \<Rightarrow> bool" where
  "source_ids_distinct seen [] = True"
| "source_ids_distinct seen (x # xs) =
     (if rd_SourceArtifactID x = [] then source_ids_distinct seen xs
      else rd_SourceArtifactID x \<notin> seen \<and> source_ids_distinct (insert (rd_SourceArtifactID x) seen) xs)"

definition artifact_row :: "uuid \<Rightarrow> bytes \<Rightarrow> runArtifactDraft \<Rightarrow> ArtifactRow" where
  "artifact_row runID raw x =
     \<lparr>ar_RunID = runID, ar_ArtifactType = rd_ArtifactType x, ar_Title = rd_Title x, ar_Content = raw,
      ar_Visibility = rd_Visibility x,
      ar_SourceArtifactID = (if rd_SourceArtifactID x \<noteq> [] then Some (rd_SourceArtifactID x) else None),
      ar_MimeType = stringPtrOrNil (rd_MimeType x), ar_FileUri = stringPtrOrNil (rd_FileURI x),
      ar_FileName = stringPtrOrNil (rd_FileName x), ar_FileSha256 = stringPtrOrNil (rd_FileSHA256 x),
      ar_FileSizeBytes = rd_FileSizeBytes x\<rparr>"

fun store_artifacts :: "artifact_env \<Rightarrow> uuid \<Rightarrow> runArtifactDraft list \<Rightarrow> unit lease_tx" where
  "store_artifacts ae runID [] = tx_return ()"
| "store_artifacts ae runID (x # xs) = (\<lambda>d.
     if rd_Fallback x \<and> HasRunArtifactsByRun runID d then store_artifacts ae runID xs d
     else case ae_Marshal ae (rd_Content x) of
            Inl err \<Rightarrow> Inl err
          | Inr raw \<Rightarrow> store_artifacts ae runID xs (CreateRunArtifact (artifact_row runID raw x) d))"

text \<open>The result is the output after the drafts were made.\<close>

definition createRunArtifacts :: "artifact_env \<Rightarrow> uuid \<Rightarrow> jmap \<Rightarrow> jmap lease_tx" where
  "createRunArtifacts ae runID output =
     (case runArtifactsFromOutput ae output of
        (drafts, output') \<Rightarrow>
          tx_bind (tx_guard (source_ids_distinct {} drafts) (OtherError ''duplicate result artifact_id'' None)) (\<lambda>_.
          tx_bind (store_artifacts ae runID drafts) (\<lambda>_. tx_return output')))"

section \<open>Task summaries\<close>

text \<open>\<open>strings.Fields\<close>: \<open>skip\<close> counts the remaining bytes of the space that ended the last field.\<close>

fun split_fields :: "nat \<Rightarrow> string \<Rightarrow> string \<Rightarrow> string list" where
  "split_fields skip word [] = (if word = [] then [] else [word])"
| "split_fields (Suc skip) word (c # cs) = split_fields skip word cs"
| "split_fields 0 word (c # cs) =
     (case strip_first (map (map char_of) space_runes) (c # cs) of
        Some rest \<Rightarrow> (if word = [] then [] else [word]) @ split_fields (length cs - length rest) [] cs
      | None \<Rightarrow> split_fields 0 (word @ [c]) cs)"

definition Fields :: "string \<Rightarrow> string list" where
  "Fields s = split_fields 0 [] s"

fun join_spaces :: "string list \<Rightarrow> string" where
  "join_spaces [] = []"
| "join_spaces [w] = w"
| "join_spaces (w # ws) = w @ CHR '' '' # join_spaces ws"

definition maxPrivateTaskSummaryLen :: nat where
  "maxPrivateTaskSummaryLen = 2000"

definition compactRuntimeTaskSummary :: "string \<Rightarrow> string" where
  "compactRuntimeTaskSummary value = limit_runes maxPrivateTaskSummaryLen (join_spaces (Fields (TrimSpace value)))"

fun first_summary :: "jmap \<Rightarrow> string list \<Rightarrow> string" where
  "first_summary output [] = []"
| "first_summary output (key # keys) =
     (case string_member output key of
        Some v \<Rightarrow> (let summary = compactRuntimeTaskSummary v in
                  if summary \<noteq> [] then summary else first_summary output keys)
      | None \<Rightarrow> first_summary output keys)"

definition privateTaskCompletionSummary :: "artifact_env \<Rightarrow> jmap \<Rightarrow> string" where
  "privateTaskCompletionSummary ae output =
     (let found = first_summary output [''summary'', ''text'', ''message'', ''answer''] in
      if found \<noteq> [] then found
      else case ae_Marshal ae output of
             Inr encoded \<Rightarrow>
               (let summary = compactRuntimeTaskSummary encoded in
                if summary \<noteq> [] \<and> summary \<noteq> ''{}'' then summary else cn_success)
           | Inl _ \<Rightarrow> cn_success)"

definition task_completed_by :: "RunRow \<Rightarrow> runtime_db \<Rightarrow> TaskRow \<Rightarrow> bool" where
  "task_completed_by r d t \<longleftrightarrow>
     (\<exists>e \<in> set (db_evidence d). ed_RunID e = r_ID r \<and> tk_ID t = ed_TaskID e \<and> tk_UserID t = r_UserID r \<and>
        ed_UserID e = r_UserID r \<and> tk_ChosenAgentID t = Some (r_AgentID r) \<and> ed_AgentID e = r_AgentID r)"

text \<open>No row is not an error for the caller, so the statement is a map on the tasks.\<close>

definition CompletePrivateTaskFromSuccessfulRun :: "uuid \<Rightarrow> string \<Rightarrow> runtime_db \<Rightarrow> runtime_db" where
  "CompletePrivateTaskFromSuccessfulRun runID summary d =
     (case find_run runID d of
        None \<Rightarrow> d
      | Some r \<Rightarrow>
          if r_Status r = ''success''
          then d\<lparr>db_tasks := map (\<lambda>t. if task_completed_by r d t
                 then t\<lparr>tk_CompletedAt := r_FinishedAt r, tk_CompletionRunID := Some runID,
                        tk_CompletionSummary := Some summary\<rparr> else t) (db_tasks d)\<rparr>
          else d)"

text \<open>What the statements here leave alone.\<close>

lemma CreateRunArtifact_frame: "\<exists>xs. CreateRunArtifact row d = d\<lparr>db_artifacts := xs\<rparr>"
  by (auto simp: CreateRunArtifact_def Let_def)

lemma store_artifacts_frame:
  "store_artifacts ae runID xs d = Inr (u, d') \<Longrightarrow> \<exists>as. d' = d\<lparr>db_artifacts := as\<rparr>"
proof (induction xs arbitrary: d)
  case Nil
  then show ?case by (auto simp: tx_return_def intro: exI[of _ "db_artifacts d"])
next
  case (Cons x xs)
  show ?case
  proof (cases "rd_Fallback x \<and> HasRunArtifactsByRun runID d")
    case True
    with Cons show ?thesis by auto
  next
    case False
    with Cons.prems obtain raw where
      "store_artifacts ae runID xs (CreateRunArtifact (artifact_row runID raw x) d) = Inr (u, d')"
      by (auto split: sum.splits)
    from Cons.IH[OF this] obtain as where "d' = CreateRunArtifact (artifact_row runID raw x) d\<lparr>db_artifacts := as\<rparr>"
      by blast
    moreover obtain ys where "CreateRunArtifact (artifact_row runID raw x) d = d\<lparr>db_artifacts := ys\<rparr>"
      using CreateRunArtifact_frame by blast
    ultimately show ?thesis by auto
  qed
qed

lemma createRunArtifacts_frame:
  "createRunArtifacts ae runID output d = Inr (out, d') \<Longrightarrow> \<exists>as. d' = d\<lparr>db_artifacts := as\<rparr>"
  by (auto simp: createRunArtifacts_def tx_simps split: prod.splits dest: store_artifacts_frame)

lemma CompletePrivateTask_frame: "\<exists>ts. CompletePrivateTaskFromSuccessfulRun runID summary d = d\<lparr>db_tasks := ts\<rparr>"
  by (auto simp: CompletePrivateTaskFromSuccessfulRun_def split: option.split intro: exI[of _ "db_tasks d"])

end
