(* ===== verification/Result_Finalizer.thy ===== *)
theory Result_Finalizer
  imports Run_Artifacts
begin

text \<open>
  The result finalizer of \<open>pkg/runtime/finalizer.go\<close>: validation and fingerprint of a result, the
  classification and retry policies, and \<open>finalizeTx\<close>, the one transaction that finishes an attempt,
  returns its slot, moves its run to \<open>retry_wait\<close> or to a terminal state, and writes the terminal
  event, the dead letter, the artifacts, the ledger, the statistics and the effects of the run.

  \<open>uuid.NewSHA1\<close>, \<open>json.Marshal\<close> and \<open>json.Unmarshal\<close> are the record \<open>result_env\<close>. The CHECK constraints
  of \<open>run_attempts\<close> and \<open>runs\<close> on what the two \<open>UPDATE\<close> statements write are part of them; those that
  compare clock readings are left out, as readings need not increase here. Counters of statistics are
  unbounded.
\<close>

section \<open>Requests and policies\<close>

record RuntimeResultAck =
  rk_ResultID :: uuid
  rk_Classification :: string
  rk_RunStatus :: string
  rk_DispatchState :: string
  rk_Replayed :: bool
  rk_NextAttemptAt :: "gotime option"

record result_env =
  fe_events :: event_env
  fe_artifacts :: artifact_env
  fe_NewSHA1 :: "uuid \<Rightarrow> bytes \<Rightarrow> uuid"
  fe_Marshal :: "gvalue \<Rightarrow> go_error + bytes"
  fe_Unmarshal :: "bytes \<Rightarrow> gvalue option"
  fe_event_types :: "bytes \<Rightarrow> string list option"

abbreviation "fe_floats fe \<equiv> ee_floats (fe_events fe)"

abbreviation "RuntimeResultErrorValidationFailed \<equiv> ''VALIDATION_FAILED''"
abbreviation "RuntimeResultErrorResultIDConflict \<equiv> ''RESULT_ID_CONFLICT''"
abbreviation "RuntimeResultErrorRunAlreadyTerminal \<equiv> ''RUN_ALREADY_TERMINAL''"
abbreviation "RuntimeResultErrorStaleLease \<equiv> ''STALE_LEASE''"
abbreviation "RuntimeResultErrorLeaseExpired \<equiv> ''LEASE_EXPIRED''"
abbreviation "RuntimeResultErrorLeaseIdentityMismatch \<equiv> ''LEASE_IDENTITY_MISMATCH''"
abbreviation "RuntimeResultErrorEventsMissing \<equiv> ''EVENTS_MISSING''"
abbreviation "RuntimeResultErrorRunCancelRequested \<equiv> ''RUN_CANCEL_REQUESTED''"

abbreviation "ClassificationSuccess \<equiv> ''success''"
abbreviation "ClassificationRetryable \<equiv> ''retryable_failure''"
abbreviation "ClassificationNonRetryable \<equiv> ''non_retryable_failure''"
abbreviation "ClassificationTimeout \<equiv> ''timeout''"
abbreviation "ClassificationCanceled \<equiv> ''canceled''"
abbreviation "ClassificationDeadLetter \<equiv> ''dead_letter''"

definition newRuntimeResultError :: "RuntimeErrorCode \<Rightarrow> go_error option \<Rightarrow> go_error" where
  "newRuntimeResultError code cause = ResultError code [] cause"

definition missingRuntimeResultEvents :: "EventRange list \<Rightarrow> go_error" where
  "missingRuntimeResultEvents ranges = ResultError RuntimeResultErrorEventsMissing ranges None"

definition validRuntimeResultFailure :: "RuntimeResultFailure \<Rightarrow> bool" where
  "validRuntimeResultFailure failure \<longleftrightarrow>
     ValidString (rf_ErrorCode failure) \<and> ValidString (rf_Message failure) \<and>
     TrimSpace (rf_ErrorCode failure) \<noteq> [] \<and> TrimSpace (rf_Message failure) \<noteq> [] \<and>
     RuneCount (rf_ErrorCode failure) \<le> 120 \<and> RuneCount (rf_Message failure) \<le> 500"

definition validateRuntimeResultRequest :: "RuntimeResultRequest \<Rightarrow> go_error option" where
  "validateRuntimeResultRequest request =
     (if rq_ResultID request = uuid_Nil \<or> sint (rq_DurationMS request) < 0 \<or>
         rq_FinalClientEventSeq request < 0 \<or> rq_FinalClientEventSeq request = max_int64
      then Some (newRuntimeResultError RuntimeResultErrorValidationFailed None)
      else case validateRuntimeAttemptIdentity (rq_AttemptIdentity request) of
        Some err \<Rightarrow> Some (newRuntimeResultError RuntimeResultErrorValidationFailed (Some err))
      | None \<Rightarrow>
          err_if
            (if rq_Status request = ''success'' then rq_Output request = None \<or> rq_Error request \<noteq> None
             else if rq_Status request = ''failed''
             then rq_Output request \<noteq> None \<or>
                  (case rq_Error request of None \<Rightarrow> True | Some failure \<Rightarrow> \<not> validRuntimeResultFailure failure)
             else True)
            (newRuntimeResultError RuntimeResultErrorValidationFailed None))"

definition canonicalRuntimeResultValue :: "float_env \<Rightarrow> RuntimeResultRequest \<Rightarrow> go_error + gvalue" where
  "canonicalRuntimeResultValue fl request =
     (case validateRuntimeResultRequest request of
        Some err \<Rightarrow> Inl err
      | None \<Rightarrow> Inr (VObject
          ([(''duration_ms'', VInt (word_of_int (sint (rq_DurationMS request)))),
            (''final_client_event_seq'', VInt (word_of_int (rq_FinalClientEventSeq request))),
            (''schema'', VString ''openlinker.runtime-result.v1''), (''status'', VString (rq_Status request))] @
           (if rq_Status request = ''success'' then [(''output'', of_jmap_opt fl (rq_Output request))]
            else case rq_Error request of
              None \<Rightarrow> []
            | Some f \<Rightarrow> [(''error'', VObject [(''error_code'', VString (rf_ErrorCode f)),
                  (''message'', VString (rf_Message f)), (''retryable_hint'', VBool (rf_RetryableHint f))])]))))"

definition maxRuntimeResultPayloadBytes :: nat where
  "maxRuntimeResultPayloadBytes = 4 * 1024 * 1024"

definition RuntimeResultFingerprint :: "result_env \<Rightarrow> RuntimeResultRequest \<Rightarrow> go_error + bytes" where
  "RuntimeResultFingerprint fe request =
     (case canonicalRuntimeResultValue (fe_floats fe) request of
        Inl err \<Rightarrow> Inl err
      | Inr body \<Rightarrow>
         (case CanonicalizeRFC8785 (fe_floats fe) body of
            Inl err \<Rightarrow> Inl (newRuntimeResultError RuntimeResultErrorValidationFailed (Some err))
          | Inr canonical \<Rightarrow>
              if maxRuntimeResultPayloadBytes < length canonical
              then Inl (newRuntimeResultError RuntimeResultErrorValidationFailed
                     (Some (OtherError ''result exceeds runtime message limit'' None)))
              else Inr (ee_sha256 (fe_events fe) canonical)))"

record ResultClassificationInput =
  ci_ExecutorType :: string
  ci_EndpointIdempotency :: bool
  ci_Request :: RuntimeResultRequest

definition defaultResultClassifier :: "ResultClassificationInput \<Rightarrow> string" where
  "defaultResultClassifier input =
     (if rq_Status (ci_Request input) = ''success'' then ClassificationSuccess
      else case rq_Error (ci_Request input) of
        None \<Rightarrow> ClassificationNonRetryable
      | Some f \<Rightarrow>
          if \<not> rf_RetryableHint f then ClassificationNonRetryable
          else if ci_ExecutorType input = ''runtime'' then ClassificationRetryable
          else if (ci_ExecutorType input = ''core_http'' \<or> ci_ExecutorType input = ''core_mcp'') \<and>
                  ci_EndpointIdempotency input then ClassificationRetryable
          else ClassificationNonRetryable)"

definition fixedResultRetryPlanner :: "int \<Rightarrow> gotime" where
  "fixedResultRetryPlanner attemptNo =
     (let no = (if attemptNo < 1 then 1 else attemptNo);
          shift = (if no - 1 > 6 then 6 else no - 1);
          delay = second * 2 ^ nat shift
      in if delay > 60 * second then 60 * second else delay)"

record ResultFinalizer =
  fz_classifier :: "ResultClassificationInput \<Rightarrow> string"
  fz_retryPlanner :: "int \<Rightarrow> gotime"

definition NewResultFinalizer ::
    "(ResultClassificationInput \<Rightarrow> string) option \<Rightarrow> (int \<Rightarrow> gotime) option \<Rightarrow> ResultFinalizer" where
  "NewResultFinalizer classifier retryPlanner =
     \<lparr>fz_classifier = (case classifier of None \<Rightarrow> defaultResultClassifier | Some c \<Rightarrow> c),
      fz_retryPlanner = (case retryPlanner of None \<Rightarrow> fixedResultRetryPlanner | Some p \<Rightarrow> p)\<rparr>"

definition validateRuntimeResultClassification :: "RuntimeResultRequest \<Rightarrow> string \<Rightarrow> bool" where
  "validateRuntimeResultClassification request classification \<longleftrightarrow>
     rq_Status request = ''success'' \<and> classification = ClassificationSuccess \<or>
     rq_Status request = ''failed'' \<and>
       (classification = ClassificationRetryable \<or> classification = ClassificationNonRetryable)"

text \<open>Status of the run, dispatch state, outcome of the attempt, event type, public error code, acknowledged classification.\<close>

definition runtimeResultTerminalSemantics ::
    "RuntimeResultRequest \<Rightarrow> string \<Rightarrow> bool \<Rightarrow> bool \<Rightarrow> string \<times> string \<times> string \<times> string \<times> string \<times> string" where
  "runtimeResultTerminalSemantics request classification deadlineExceeded retryExhausted =
     (if deadlineExceeded
      then (''timeout'', ''terminal'', ''timeout'', ''run.failed'', ''RUN_DEADLINE_EXCEEDED'', ClassificationTimeout)
      else if retryExhausted
      then (''failed'', ''dead_letter'', ''retryable_failure'', ''run.failed'', ''RUNTIME_RETRY_EXHAUSTED'',
            ClassificationDeadLetter)
      else if classification = ClassificationSuccess
      then (''success'', ''terminal'', ''success'', ''run.completed'', [], ClassificationSuccess)
      else if classification = ClassificationRetryable
      then (''running'', ''retry_wait'', ''retryable_failure'', [], [], ClassificationRetryable)
      else (''failed'', ''terminal'', ''non_retryable_failure'', ''run.failed'',
            rf_ErrorCode (the (rq_Error request)), ClassificationNonRetryable))"

definition terminalRuntimeResultPayload :: "float_env \<Rightarrow> RuntimeResultRequest \<Rightarrow> string \<Rightarrow> string \<Rightarrow> string \<Rightarrow> gvalue" where
  "terminalRuntimeResultPayload fl request runStatus classification publicErrorCode =
     VObject ([(''classification'', VString classification),
         (''duration_ms'', VInt (word_of_int (sint (rq_DurationMS request)))), (''status'', VString runStatus),
         (''terminal'', VBool True)] @
       (if classification \<noteq> ClassificationTimeout then [(''result_id'', VString (uuid_String (rq_ResultID request)))] else []) @
       (if runStatus = ''success'' then [(''output'', of_jmap_opt fl (rq_Output request))]
        else if runStatus = ''timeout'' then [(''error_message'', VString ''Run deadline exceeded'')]
        else case rq_Error request of None \<Rightarrow> [] | Some f \<Rightarrow> [(''error_message'', VString (rf_Message f))]) @
       (if publicErrorCode \<noteq> [] then [(''error_code'', VString publicErrorCode)] else []))"

section \<open>Constraints\<close>

text \<open>
  \<open>run_attempts_result_consistent\<close>, \<open>run_attempts_outcome_result_consistent\<close> and
  \<open>run_attempts_outcome_attempt_consistent\<close> for an attempt with a result.
\<close>

definition attempt_result_checks :: "AttemptRow \<Rightarrow> bool" where
  "attempt_result_checks a \<longleftrightarrow>
     (case (a_ResultFingerprint a, a_ResultClassification a, a_FinalClientEventSeq a, a_Outcome a) of
        (Some fingerprint, Some classification, Some final, Some outcome) \<Rightarrow>
          length fingerprint = 32 \<and>
          (if outcome = ''timeout'' then a_LastClientEventSeq a \<le> final else final = a_LastClientEventSeq a) \<and>
          classification \<in> {''success'', ''retryable_failure'', ''non_retryable_failure''} \<and>
          (if outcome \<in> {''success'', ''retryable_failure'', ''non_retryable_failure''} then classification = outcome
           else outcome = ''timeout'') \<and>
          a_AttemptNo a \<noteq> None
      | _ \<Rightarrow> False)"

text \<open>
  \<open>runs_dead_letter_consistent\<close>, \<open>runs_status_dispatch_consistent\<close>, \<open>runs_result_consistent\<close>,
  \<open>runs_nonresult_terminal_output_consistent\<close>, \<open>runs_retry_state_consistent\<close> and
  \<open>runs_terminal_event_consistent\<close>, for runs of the current contract.
\<close>

definition run_state_checks :: "RunRow \<Rightarrow> bool" where
  "run_state_checks r \<longleftrightarrow>
     (if r_DispatchState r = ''dead_letter''
      then r_DeadLetteredAt r \<noteq> None \<and> r_ErrorCode r = Some ''RUNTIME_RETRY_EXHAUSTED''
      else r_DeadLetteredAt r = None \<and> r_ErrorCode r \<noteq> Some ''RUNTIME_RETRY_EXHAUSTED'') \<and>
     (r_Status r = ''running'' \<and> r_DispatchState r \<in> {''pending'', ''offered'', ''executing'', ''retry_wait''} \<or>
      r_Status r \<in> {''success'', ''failed'', ''timeout'', ''canceled''} \<and> r_DispatchState r = ''terminal'' \<or>
      r_Status r = ''failed'' \<and> r_DispatchState r = ''dead_letter'') \<and>
     (r_ResultID r = None \<and> r_ResultFingerprint r = None \<or>
      r_Status r \<in> {''success'', ''failed''} \<and> r_ResultID r \<noteq> None \<and>
        (case r_ResultFingerprint r of None \<Rightarrow> False | Some f \<Rightarrow> length f = 32)) \<and>
     (r_Status r \<in> {''timeout'', ''canceled''} \<longrightarrow> r_Output r = None) \<and>
     (r_DispatchState r = ''retry_wait'' \<longleftrightarrow> r_NextAttemptAt r \<noteq> None) \<and>
     (r_DispatchState r \<in> {''terminal'', ''dead_letter''} \<longleftrightarrow> r_TerminalEventID r \<noteq> None)"

definition check_violation :: go_error where
  "check_violation = OtherError ''check constraint violation'' None"

section \<open>Queries\<close>

definition LockRunForResultFinalization :: "uuid \<Rightarrow> (runtime_db, RunRow) query" where
  "LockRunForResultFinalization runID d =
     (case find_run runID d of
        None \<Rightarrow> None
      | Some r \<Rightarrow> if r_RuntimeContractID r = RuntimeContractID then Some (r, d) else None)"

definition LockRunAttemptForResult :: "uuid \<Rightarrow> uuid \<Rightarrow> (runtime_db, AttemptRow) query" where
  "LockRunAttemptForResult runID attemptID d =
     (case find_attempt attemptID d of
        None \<Rightarrow> None
      | Some a \<Rightarrow> if a_RunID a = runID then Some (a, d) else None)"

definition GetRunAttemptByResultID :: "uuid \<Rightarrow> uuid \<Rightarrow> (runtime_db, AttemptRow) query" where
  "GetRunAttemptByResultID runID resultID d =
     map_option (\<lambda>a. (a, d)) (List.find (\<lambda>a. a_RunID a = runID \<and> a_ResultID a = Some resultID) (db_attempts d))"

definition finished_attempt ::
    "AttemptRow \<Rightarrow> string \<Rightarrow> uuid \<Rightarrow> bytes \<Rightarrow> string \<Rightarrow> int \<Rightarrow> string option \<Rightarrow> string option \<Rightarrow> gotime \<Rightarrow> AttemptRow" where
  "finished_attempt a outcome resultID fingerprint classification finalSeq errorCode errorDetail now =
     a\<lparr>a_FinishedAt := Some now, a_Outcome := Some outcome, a_ResultID := Some resultID,
       a_ResultFingerprint := Some fingerprint, a_ResultClassification := Some classification,
       a_FinalClientEventSeq := Some finalSeq, a_ErrorCode := errorCode, a_ErrorDetailRedacted := errorDetail,
       a_ResultAcknowledgedAt := Some now\<rparr>"

definition FinishRunAttempt ::
    "uuid \<Rightarrow> uuid \<Rightarrow> uuid \<Rightarrow> int \<Rightarrow> string \<Rightarrow> uuid \<Rightarrow> bytes \<Rightarrow> string \<Rightarrow> int \<Rightarrow> string option \<Rightarrow> string option \<Rightarrow> gotime
       \<Rightarrow> AttemptRow option lease_tx" where
  "FinishRunAttempt runID attemptID leaseID fencingToken outcome resultID fingerprint classification finalSeq
       errorCode errorDetail now = (\<lambda>d.
     case find_attempt attemptID d of
       None \<Rightarrow> Inr (None, d)
     | Some a \<Rightarrow>
         if attempt_key runID attemptID leaseID fencingToken a \<and> a_AcceptedAt a \<noteq> None \<and>
            a_FinishedAt a = None \<and> a_ResultID a = None
         then (let a' = finished_attempt a outcome resultID fingerprint classification finalSeq errorCode errorDetail now
               in if attempt_result_checks a' then Inr (Some a', set_attempt attemptID a' d) else Inl check_violation)
         else Inr (None, d))"

definition clear_lease :: "RunRow \<Rightarrow> RunRow" where
  "clear_lease r =
     r\<lparr>r_ActiveAttemptID := None, r_LeaseID := None, r_ExecutorType := None, r_ActiveCoreInstanceID := None,
       r_RuntimeNodeID := None, r_RuntimeWorkerID := None, r_RuntimeSessionID := None, r_LeaseTokenID := None,
       r_LeaseOfferedAt := None, r_LeaseAcceptedAt := None, r_LeaseExpiresAt := None, r_AttemptDeadlineAt := None\<rparr>"

definition TransitionRunToRetryWait :: "uuid \<Rightarrow> uuid \<Rightarrow> int \<Rightarrow> gotime \<Rightarrow> RunRow option lease_tx" where
  "TransitionRunToRetryWait runID attemptID retryAfterMs now = (\<lambda>d.
     case (find_run runID d, find_attempt attemptID d) of
       (Some r, Some a) \<Rightarrow>
         if r_Status r = ''running'' \<and> r_DispatchState r = ''executing'' \<and> r_ActiveAttemptID r = Some attemptID \<and>
            a_RunID a = runID \<and> a_FinishedAt a \<noteq> None \<and> a_Outcome a = Some ''retryable_failure'' \<and>
            a_ResultID a \<noteq> None \<and> a_ResultAcknowledgedAt a \<noteq> None \<and> r_AttemptCount r < r_MaxAttempts r \<and>
            0 \<le> retryAfterMs
         then (let r' = (clear_lease r)\<lparr>r_Status := ''running'', r_DispatchState := ''retry_wait'',
                        r_NextAttemptAt := Some (after_ms now retryAfterMs), r_ErrorCode := None,
                        r_ErrorMessage := None\<rparr>
               in if run_state_checks r' then Inr (Some r', set_run runID r' d) else Inl check_violation)
         else Inr (None, d)
     | _ \<Rightarrow> Inr (None, d))"

definition finalize_allowed :: "string \<Rightarrow> string \<Rightarrow> bytes option \<Rightarrow> string option \<Rightarrow> uuid option \<Rightarrow> bytes option \<Rightarrow> AttemptRow \<Rightarrow> bool" where
  "finalize_allowed status state output errorCode resultID fingerprint a \<longleftrightarrow>
     status = ''success'' \<and> state = ''terminal'' \<and> a_Outcome a = Some ''success'' \<and> output \<noteq> None \<and>
       errorCode = None \<and> resultID = a_ResultID a \<and> fingerprint = a_ResultFingerprint a \<or>
     status = ''failed'' \<and> state = ''terminal'' \<and> a_Outcome a = Some ''non_retryable_failure'' \<and> output = None \<and>
       errorCode \<noteq> None \<and> resultID = a_ResultID a \<and> fingerprint = a_ResultFingerprint a \<or>
     status = ''failed'' \<and> state = ''dead_letter'' \<and> a_Outcome a = Some ''retryable_failure'' \<and> output = None \<and>
       errorCode = Some ''RUNTIME_RETRY_EXHAUSTED'' \<and> resultID = a_ResultID a \<and> fingerprint = a_ResultFingerprint a \<or>
     status = ''timeout'' \<and> state = ''terminal'' \<and> a_Outcome a = Some ''timeout'' \<and> output = None \<and>
       errorCode \<noteq> None \<and> resultID = None \<and> fingerprint = None"

definition FinalizeRunFromResult ::
    "uuid \<Rightarrow> uuid \<Rightarrow> string \<Rightarrow> string \<Rightarrow> bytes option \<Rightarrow> string option \<Rightarrow> string option \<Rightarrow> uuid option \<Rightarrow> bytes option
       \<Rightarrow> int \<Rightarrow> uuid \<Rightarrow> gotime \<Rightarrow> RunRow option lease_tx" where
  "FinalizeRunFromResult runID attemptID status state output errorCode errorMessage resultID fingerprint
       durationMs terminalEventID now = (\<lambda>d.
     case (find_run runID d, find_attempt attemptID d) of
       (Some r, Some a) \<Rightarrow>
         if r_RuntimeContractID r = RuntimeContractID \<and> r_Status r = ''running'' \<and> r_DispatchState r = ''executing'' \<and>
            r_ActiveAttemptID r = Some attemptID \<and> a_RunID a = runID \<and> a_FinishedAt a \<noteq> None \<and>
            a_ResultID a \<noteq> None \<and> a_ResultAcknowledgedAt a \<noteq> None \<and> 0 \<le> durationMs \<and>
            finalize_allowed status state output errorCode resultID fingerprint a
         then (let r' = (clear_lease r)\<lparr>r_Status := status, r_DispatchState := state, r_Output := output,
                        r_ErrorCode := errorCode, r_ErrorMessage := errorMessage, r_DurationMs := Some durationMs,
                        r_FinishedAt := Some now, r_NextAttemptAt := None, r_ResultID := resultID,
                        r_ResultFingerprint := fingerprint, r_TerminalEventID := Some terminalEventID,
                        r_DeadLetteredAt := (if state = ''dead_letter'' then Some now else None)\<rparr>
               in if run_state_checks r' then Inr (Some r', set_run runID r' d) else Inl check_violation)
         else Inr (None, d)
     | _ \<Rightarrow> Inr (None, d))"

definition InsertTerminalRunEvent :: "uuid \<Rightarrow> gotime \<Rightarrow> uuid \<Rightarrow> uuid option \<Rightarrow> string \<Rightarrow> bytes \<Rightarrow> EventRow lease_tx" where
  "InsertTerminalRunEvent eventID now runID parentRunID eventType payload = (\<lambda>d.
     case LockRunForResultFinalization runID d of
       None \<Rightarrow> Inl ErrNoRows
     | Some _ \<Rightarrow>
         insert_event \<lparr>ev_ID = eventID, ev_RunID = runID, ev_ParentRunID = parentRunID,
           ev_Sequence = last_sequence runID d + 1, ev_EventType = eventType, ev_Payload = payload,
           ev_CreatedAt = now, ev_ClientEventID = None, ev_ClientEventSeq = None, ev_PayloadFingerprint = None,
           ev_AttemptID = None, ev_AttemptNo = None, ev_FencingToken = None\<rparr> d)"

definition CreateRunDeadLetter :: "uuid \<Rightarrow> int \<Rightarrow> string \<Rightarrow> string option \<Rightarrow> (runtime_db, DeadLetterRow) query" where
  "CreateRunDeadLetter runID finalAttemptNo reasonCode reasonRedacted d =
     (case find_row dq_RunID runID (db_dead_letters d) of
        Some _ \<Rightarrow> None
      | None \<Rightarrow>
         (let q = \<lparr>dq_RunID = runID, dq_FinalAttemptNo = finalAttemptNo, dq_ReasonCode = reasonCode,
                   dq_ReasonRedacted = reasonRedacted\<rparr>
          in Some (q, d\<lparr>db_dead_letters := insert_row q (db_dead_letters d)\<rparr>)))"

definition GetRunDeadLetterByRun :: "uuid \<Rightarrow> (runtime_db, DeadLetterRow) query" where
  "GetRunDeadLetterByRun runID d = map_option (\<lambda>q. (q, d)) (find_row dq_RunID runID (db_dead_letters d))"

definition InsertRunAccountingLedger :: "uuid \<Rightarrow> uuid \<Rightarrow> uuid \<Rightarrow> int \<Rightarrow> int \<Rightarrow> (runtime_db, LedgerRow) query" where
  "InsertRunAccountingLedger runID terminalEventID agentID successDelta revenueDelta d =
     (case find_row ld_RunID runID (db_ledger d) of
        Some _ \<Rightarrow> None
      | None \<Rightarrow>
         (let l = \<lparr>ld_RunID = runID, ld_TerminalEventID = terminalEventID, ld_AgentID = agentID,
                   ld_SuccessDelta = successDelta, ld_RevenueDeltaCents = revenueDelta\<rparr>
          in Some (l, d\<lparr>db_ledger := insert_row l (db_ledger d)\<rparr>)))"

definition GetRunAccountingLedger :: "uuid \<Rightarrow> (runtime_db, LedgerRow) query" where
  "GetRunAccountingLedger runID d = map_option (\<lambda>l. (l, d)) (find_row ld_RunID runID (db_ledger d))"

definition IncrementAgentStats :: "uuid \<Rightarrow> int \<Rightarrow> runtime_db \<Rightarrow> runtime_db" where
  "IncrementAgentStats agentID revenue d =
     d\<lparr>db_agents := update_row ag_ID agentID
         (\<lambda>a. a\<lparr>ag_TotalCalls := ag_TotalCalls a + 1, ag_TotalRevenueCents := ag_TotalRevenueCents a + revenue\<rparr>)
         (db_agents d)\<rparr>"

definition MarkAgentAvailabilitySuccess :: "uuid \<Rightarrow> gotime \<Rightarrow> runtime_db \<Rightarrow> runtime_db" where
  "MarkAgentAvailabilitySuccess agentID now d =
     d\<lparr>db_availability :=
        (case find_row av_AgentID agentID (db_availability d) of
           None \<Rightarrow> insert_row \<lparr>av_AgentID = agentID, av_Status = ''healthy'', av_LastSuccessfulRunAt = Some now,
                     av_LastFailedRunAt = None, av_LastCheckedAt = now, av_ConsecutiveFailures = 0\<rparr> (db_availability d)
         | Some _ \<Rightarrow> update_row av_AgentID agentID
             (\<lambda>v. v\<lparr>av_Status := ''healthy'', av_LastSuccessfulRunAt := Some now, av_LastCheckedAt := now,
                    av_ConsecutiveFailures := 0\<rparr>) (db_availability d))\<rparr>"

definition MarkAgentAvailabilityFailure :: "uuid \<Rightarrow> gotime \<Rightarrow> runtime_db \<Rightarrow> runtime_db" where
  "MarkAgentAvailabilityFailure agentID now d =
     d\<lparr>db_availability :=
        (case find_row av_AgentID agentID (db_availability d) of
           None \<Rightarrow> insert_row \<lparr>av_AgentID = agentID, av_Status = ''degraded'', av_LastSuccessfulRunAt = None,
                     av_LastFailedRunAt = Some now, av_LastCheckedAt = now, av_ConsecutiveFailures = 1\<rparr> (db_availability d)
         | Some _ \<Rightarrow> update_row av_AgentID agentID
             (\<lambda>v. v\<lparr>av_ConsecutiveFailures := av_ConsecutiveFailures v + 1,
                    av_Status := (if av_ConsecutiveFailures v + 1 \<ge> 3 then ''unreachable'' else ''degraded''),
                    av_LastFailedRunAt := Some now, av_LastCheckedAt := now\<rparr>) (db_availability d))\<rparr>"

definition effect_key :: "uuid \<Rightarrow> string \<Rightarrow> string \<Rightarrow> EffectRow \<Rightarrow> bool" where
  "effect_key runID effectType targetKey e \<longleftrightarrow>
     ef_RunID e = runID \<and> ef_EffectType e = effectType \<and> ef_TargetKey e = targetKey"

definition CreateRunEffect :: "EffectRow \<Rightarrow> EffectRow option lease_tx" where
  "CreateRunEffect e = (\<lambda>d.
     if \<exists>x \<in> set (db_effects d). effect_key (ef_RunID e) (ef_EffectType e) (ef_TargetKey e) x then Inr (None, d)
     else if \<exists>x \<in> set (db_effects d). ef_ID x = ef_ID e then Inl (OtherError ''unique constraint violation'' None)
     else Inr (Some e, d\<lparr>db_effects := insert_row e (db_effects d)\<rparr>))"

definition GetRunEffectByBusinessKey :: "uuid \<Rightarrow> string \<Rightarrow> string \<Rightarrow> (runtime_db, EffectRow) query" where
  "GetRunEffectByBusinessKey runID effectType targetKey d =
     map_option (\<lambda>e. (e, d)) (List.find (effect_key runID effectType targetKey) (db_effects d))"

definition GetAgentWebhookConfig :: "uuid \<Rightarrow> (runtime_db, AgentRow) query" where
  "GetAgentWebhookConfig agentID d = map_option (\<lambda>a. (a, d)) (find_row ag_ID agentID (db_agents d))"

definition GetDefaultDeliveryTarget :: "uuid \<Rightarrow> (runtime_db, DeliveryTargetRow) query" where
  "GetDefaultDeliveryTarget userID d =
     map_option (\<lambda>t. (t, d)) (List.find (\<lambda>t. dt_UserID t = userID \<and> dt_IsDefault t) (db_delivery_targets d))"

definition ListActiveTaskCallbackSubscriptionsForEvent :: "uuid \<Rightarrow> string \<Rightarrow> runtime_db \<Rightarrow> CallbackRow list" where
  "ListActiveTaskCallbackSubscriptionsForEvent runID eventType d =
     sort_key cb_CreatedAt (filter (\<lambda>c. cb_RunID c = runID \<and> cb_Status c = ''active'' \<and> eventType \<in> set (cb_EventTypes c))
       (db_callbacks d))"

section \<open>Guards\<close>

definition result_guard :: "bool \<Rightarrow> RuntimeErrorCode \<Rightarrow> unit lease_tx" where
  "result_guard b code = tx_guard b (newRuntimeResultError code None)"

definition result_one :: "RuntimeErrorCode \<Rightarrow> (runtime_db, 'a) query \<Rightarrow> 'a lease_tx" where
  "result_one code q = tx_one (newRuntimeResultError code (Some ErrNoRows)) q"

text \<open>A statement that may hit a constraint and otherwise returns a row or none.\<close>

definition result_row :: "'a option lease_tx \<Rightarrow> 'a lease_tx" where
  "result_row m = tx_bind m (\<lambda>v. case v of
       None \<Rightarrow> tx_fail (newRuntimeResultError RuntimeResultErrorStaleLease (Some ErrNoRows))
     | Some row \<Rightarrow> tx_return row)"

definition mapRuntimePrincipalErrorToResult :: "go_error \<Rightarrow> go_error" where
  "mapRuntimePrincipalErrorToResult err =
     (if InvalidRuntimeEvent \<in> set (error_chain err)
      then newRuntimeResultError RuntimeResultErrorValidationFailed (Some err)
      else case errors_As is_EventError err of
        Some e \<Rightarrow>
          (let code = fst (typed_error e) in
           if code \<in> {''LEASE_IDENTITY_MISMATCH'', ''LEASE_EXPIRED'', ''STALE_LEASE''}
           then newRuntimeResultError code (Some err) else err)
      | None \<Rightarrow> err)"

definition map_principal_error :: "'a lease_tx \<Rightarrow> 'a lease_tx" where
  "map_principal_error m = (\<lambda>d. map_sum mapRuntimePrincipalErrorToResult id (m d))"

definition runtimeResultIdentityMatchesAttempt :: "event_env \<Rightarrow> RuntimeAttemptIdentity \<Rightarrow> AttemptRow \<Rightarrow> bool" where
  "runtimeResultIdentityMatchesAttempt ee i a \<longleftrightarrow>
     runtimeAttemptIdentityDigest ee i = runtimeAttemptIdentityDigest ee (stored_identity a)"

definition runtimeResultFingerprintsEqual :: "bytes \<Rightarrow> bytes \<Rightarrow> bool" where
  "runtimeResultFingerprintsEqual left right \<longleftrightarrow> length left = 32 \<and> length right = 32 \<and> left = right"

definition runtimeResultConnectionMatchesExecutor :: "string option \<Rightarrow> string \<Rightarrow> bool" where
  "runtimeResultConnectionMatchesExecutor connectionMode executorType \<longleftrightarrow>
     (case connectionMode of
        None \<Rightarrow> False
      | Some mode \<Rightarrow>
          if executorType = ''runtime'' then mode = ''runtime''
          else if executorType = ''core_http'' then mode = ''direct_http''
          else if executorType = ''core_mcp'' then mode = ''mcp_server'' else False)"

definition runtimeResultActiveAttemptMatches :: "RunRow \<Rightarrow> RuntimeAttemptIdentity \<Rightarrow> AttemptRow \<Rightarrow> bool" where
  "runtimeResultActiveAttemptMatches r i a \<longleftrightarrow>
     r_Status r = ''running'' \<and> r_DispatchState r = ''executing'' \<and> r_ActiveAttemptID r = Some (a_ID a) \<and>
     r_LatestAttemptID r = Some (a_ID a) \<and> r_LeaseID r = Some (ra_LeaseID i) \<and>
     r_FencingToken r = ra_FencingToken i \<and> a_RunID a = r_ID r \<and> a_AcceptedAt a \<noteq> None \<and> a_AttemptNo a \<noteq> None \<and>
     a_FinishedAt a = None \<and> a_ResultID a = None \<and> a_LeaseID a = ra_LeaseID i \<and>
     a_FencingToken a = ra_FencingToken i \<and> r_RuntimeNodeID r = ra_NodeID i \<and>
     r_RuntimeWorkerID r = ra_WorkerID i \<and> r_RuntimeSessionID r = ra_RuntimeSessionID i \<and>
     runtimeResultConnectionMatchesExecutor (r_ConnectionModeSnapshot r) (a_ExecutorType a)"

definition runtimeResultAckFromStored :: "RunRow \<Rightarrow> AttemptRow \<Rightarrow> bool \<Rightarrow> go_error + RuntimeResultAck" where
  "runtimeResultAckFromStored r a replayed =
     (case (a_ResultID a, a_ResultClassification a) of
        (Some resultID, Some stored) \<Rightarrow> Inr
          \<lparr>rk_ResultID = resultID,
           rk_Classification =
             (if r_DispatchState r = ''dead_letter'' \<and> r_LatestAttemptID r = Some (a_ID a) then ClassificationDeadLetter
              else if r_Status r = ''success'' then ClassificationSuccess
              else if r_Status r = ''failed'' then ClassificationNonRetryable
              else if r_Status r = ''timeout'' then ClassificationTimeout
              else if r_Status r = ''canceled'' then ClassificationCanceled
              else if a_Outcome a = Some ''timeout'' then ClassificationTimeout
              else stored),
           rk_RunStatus = r_Status r, rk_DispatchState = r_DispatchState r, rk_Replayed = replayed,
           rk_NextAttemptAt = r_NextAttemptAt r\<rparr>
      | _ \<Rightarrow> Inl (OtherError ''stored runtime result is incomplete'' None))"

section \<open>Effects\<close>

record runtimeResultEffect =
  re_id :: uuid
  re_effectType :: string
  re_targetKey :: string
  re_metadata :: bytes
  re_maxAttempts :: int

definition terminalEventNamespace :: uuid where
  "terminalEventNamespace = 0xb61ef95897985f8f998b9d9f5de7c2e8"

definition runEffectNamespace :: uuid where
  "runEffectNamespace = 0x27a4451dc6f6563687eba020f9d44a63"

definition deterministicTerminalEventID :: "result_env \<Rightarrow> uuid \<Rightarrow> string \<Rightarrow> uuid" where
  "deterministicTerminalEventID fe runID status =
     fe_NewSHA1 fe terminalEventNamespace (uuid_String runID @ ''/'' @ status)"

definition deterministicRunEffectID :: "result_env \<Rightarrow> uuid \<Rightarrow> string \<Rightarrow> string \<Rightarrow> uuid" where
  "deterministicRunEffectID fe runID effectType targetKey =
     fe_NewSHA1 fe runEffectNamespace (uuid_String runID @ ''/'' @ effectType @ ''/'' @ targetKey)"

definition newRuntimeResultEffect :: "result_env \<Rightarrow> uuid \<Rightarrow> string \<Rightarrow> string \<Rightarrow> bytes \<Rightarrow> runtimeResultEffect" where
  "newRuntimeResultEffect fe runID effectType targetKey metadata =
     \<lparr>re_id = deterministicRunEffectID fe runID effectType targetKey, re_effectType = effectType,
      re_targetKey = targetKey, re_metadata = metadata,
      re_maxAttempts = (if effectType = ''run.parent_completion'' then 12 else 3)\<rparr>"

definition marshalRuntimeResultJSON :: "result_env \<Rightarrow> gvalue \<Rightarrow> bytes lease_tx" where
  "marshalRuntimeResultJSON fe v =
     (case fe_Marshal fe v of
        Inl err \<Rightarrow> tx_fail (OtherError ''marshal runtime result data'' (Some err))
      | Inr raw \<Rightarrow> tx_return raw)"

definition runtimeDeliveryTargetAllowsEvent :: "result_env \<Rightarrow> bytes \<Rightarrow> string \<Rightarrow> bool" where
  "runtimeDeliveryTargetAllowsEvent fe raw eventType \<longleftrightarrow>
     (case (if raw = [] then Some [] else fe_event_types fe raw) of
        None \<Rightarrow> False
      | Some types \<Rightarrow> types = [] \<or> eventType \<in> set types)"

definition effect_tx :: "result_env \<Rightarrow> uuid \<Rightarrow> string \<Rightarrow> string \<Rightarrow> (string \<times> gvalue) list \<Rightarrow> runtimeResultEffect lease_tx" where
  "effect_tx fe runID effectType targetKey metadata =
     tx_bind (marshalRuntimeResultJSON fe (VObject metadata)) (\<lambda>raw.
     tx_return (newRuntimeResultEffect fe runID effectType targetKey raw))"

definition webhook_effects :: "result_env \<Rightarrow> RunRow \<Rightarrow> runtimeResultEffect list lease_tx" where
  "webhook_effects fe r =
     tx_bind (tx_one ErrNoRows (GetAgentWebhookConfig (r_AgentID r))) (\<lambda>agent.
     if (case ag_WebhookURL agent of None \<Rightarrow> True | Some url \<Rightarrow> TrimSpace url = []) then tx_return []
     else tx_bind (effect_tx fe (r_ID r) ''run.agent_webhook'' (''agent:'' @ uuid_String (r_AgentID r))
            [(''agent_id'', VString (uuid_String (r_AgentID r)))]) (\<lambda>e. tx_return [e]))"

definition delivery_effects :: "result_env \<Rightarrow> RunRow \<Rightarrow> string \<Rightarrow> runtimeResultEffect list lease_tx" where
  "delivery_effects fe r eventType =
     tx_bind (tx_opt (GetDefaultDeliveryTarget (r_UserID r))) (\<lambda>target.
     case target of
       None \<Rightarrow> tx_return []
     | Some t \<Rightarrow>
         if \<not> runtimeDeliveryTargetAllowsEvent fe (dt_Config t) eventType then tx_return []
         else tx_bind (effect_tx fe (r_ID r) ''run.default_delivery'' (''delivery_target:'' @ uuid_String (dt_ID t))
                [(''delivery_target_id'', VString (uuid_String (dt_ID t)))]) (\<lambda>e. tx_return [e]))"

fun callback_effects :: "result_env \<Rightarrow> uuid \<Rightarrow> uuid \<Rightarrow> CallbackRow list \<Rightarrow> runtimeResultEffect list lease_tx" where
  "callback_effects fe runID terminalEventID [] = tx_return []"
| "callback_effects fe runID terminalEventID (c # cs) =
     tx_bind (effect_tx fe runID ''run.task_callback'' (''subscription:'' @ uuid_String (cb_ID c))
        [(''run_event_id'', VString (uuid_String terminalEventID)), (''subscription_id'', VString (uuid_String (cb_ID c)))]) (\<lambda>e.
     tx_bind (callback_effects fe runID terminalEventID cs) (\<lambda>es. tx_return (e # es)))"

definition sort_effects :: "runtimeResultEffect list \<Rightarrow> runtimeResultEffect list" where
  "sort_effects es = sort_key (\<lambda>e. map of_char (re_effectType e) :: nat list)
     (sort_key (\<lambda>e. map of_char (re_targetKey e) :: nat list) es)"

text \<open>The plan is the parent run, when the run was delegated, and the effects in their order.\<close>

definition discoverRuntimeResultEffects ::
    "result_env \<Rightarrow> RunRow \<Rightarrow> uuid \<Rightarrow> string \<Rightarrow> (uuid option \<times> runtimeResultEffect list) lease_tx" where
  "discoverRuntimeResultEffects fe r terminalEventID eventType =
     tx_bind (tx_opt (GetRunDelegationByChild (r_ID r))) (\<lambda>delegation.
     tx_bind (case delegation of
         Some dl \<Rightarrow>
           tx_bind (effect_tx fe (r_ID r) ''run.parent_completion'' (''parent_run:'' @ uuid_String (dl_ParentRunID dl))
              [(''child_run_id'', VString (uuid_String (r_ID r))),
               (''parent_run_id'', VString (uuid_String (dl_ParentRunID dl)))]) (\<lambda>e. tx_return [e])
       | None \<Rightarrow>
           tx_bind (webhook_effects fe r) (\<lambda>webhook.
           tx_bind (delivery_effects fe r eventType) (\<lambda>delivery. tx_return (webhook @ delivery)))) (\<lambda>first.
     tx_bind (\<lambda>d. callback_effects fe (r_ID r) terminalEventID
                    (ListActiveTaskCallbackSubscriptionsForEvent (r_ID r) eventType d) d) (\<lambda>callbacks.
     tx_return (map_option dl_ParentRunID delegation, sort_effects (first @ callbacks)))))"

definition runtimeResultJSONEqual :: "result_env \<Rightarrow> bytes \<Rightarrow> bytes \<Rightarrow> bool" where
  "runtimeResultJSONEqual fe left right \<longleftrightarrow>
     (case (fe_Unmarshal fe left, fe_Unmarshal fe right) of
        (Some l, Some r) \<Rightarrow>
         (case (CanonicalizeRFC8785 (fe_floats fe) l, CanonicalizeRFC8785 (fe_floats fe) r) of
            (Inr lc, Inr rc) \<Rightarrow> lc = rc
          | _ \<Rightarrow> False)
      | _ \<Rightarrow> False)"

definition runtimeResultEffectMatches :: "result_env \<Rightarrow> EffectRow \<Rightarrow> uuid \<Rightarrow> uuid \<Rightarrow> runtimeResultEffect \<Rightarrow> bool" where
  "runtimeResultEffectMatches fe stored runID terminalEventID e \<longleftrightarrow>
     ef_ID stored = re_id e \<and> ef_RunID stored = runID \<and> ef_TerminalEventID stored = terminalEventID \<and>
     ef_EffectType stored = re_effectType e \<and> ef_TargetKey stored = re_targetKey e \<and>
     ef_MaxAttempts stored = re_maxAttempts e \<and> runtimeResultJSONEqual fe (ef_Metadata stored) (re_metadata e)"

definition ensureRuntimeResultEffect ::
    "result_env \<Rightarrow> uuid \<Rightarrow> uuid \<Rightarrow> gotime \<Rightarrow> runtimeResultEffect \<Rightarrow> unit lease_tx" where
  "ensureRuntimeResultEffect fe runID terminalEventID now e =
     tx_bind (CreateRunEffect \<lparr>ef_ID = re_id e, ef_RunID = runID, ef_TerminalEventID = terminalEventID,
        ef_EffectType = re_effectType e, ef_TargetKey = re_targetKey e, ef_Metadata = re_metadata e,
        ef_AvailableAt = now, ef_MaxAttempts = re_maxAttempts e\<rparr>) (\<lambda>created.
     case created of
       Some row \<Rightarrow> tx_guard (runtimeResultEffectMatches fe row runID terminalEventID e)
                     (OtherError ''created runtime effect is inconsistent'' None)
     | None \<Rightarrow>
         tx_bind (tx_one ErrNoRows (GetRunEffectByBusinessKey runID (re_effectType e) (re_targetKey e))) (\<lambda>existing.
         tx_guard (runtimeResultEffectMatches fe existing runID terminalEventID e)
           (OtherError ''runtime effect identity conflict'' None)))"

fun ensure_effects :: "result_env \<Rightarrow> uuid \<Rightarrow> uuid \<Rightarrow> gotime \<Rightarrow> runtimeResultEffect list \<Rightarrow> unit lease_tx" where
  "ensure_effects fe runID terminalEventID now [] = tx_return ()"
| "ensure_effects fe runID terminalEventID now (e # es) =
     tx_bind (ensureRuntimeResultEffect fe runID terminalEventID now e) (\<lambda>_. ensure_effects fe runID terminalEventID now es)"

section \<open>Dead letters, ledger and capacity\<close>

definition ensureRuntimeResultDeadLetter :: "uuid \<Rightarrow> int \<Rightarrow> string option \<Rightarrow> unit lease_tx" where
  "ensureRuntimeResultDeadLetter runID finalAttemptNo attemptErrorCode =
     tx_bind (tx_opt (CreateRunDeadLetter runID finalAttemptNo ''RUNTIME_RETRY_EXHAUSTED'' attemptErrorCode)) (\<lambda>created.
     case created of
       Some q \<Rightarrow> tx_guard (dq_RunID q = runID \<and> dq_FinalAttemptNo q = finalAttemptNo \<and>
                     dq_ReasonCode q = ''RUNTIME_RETRY_EXHAUSTED'')
                   (OtherError ''created runtime dead letter is inconsistent'' None)
     | None \<Rightarrow>
         tx_bind (tx_one ErrNoRows (GetRunDeadLetterByRun runID)) (\<lambda>q.
         tx_guard (dq_FinalAttemptNo q = finalAttemptNo \<and> dq_ReasonCode q = ''RUNTIME_RETRY_EXHAUSTED'' \<and>
             dq_ReasonRedacted q = attemptErrorCode) (OtherError ''runtime dead letter identity conflict'' None)))"

definition insertRuntimeResultLedgerAndStats :: "RunRow \<Rightarrow> uuid \<Rightarrow> int \<Rightarrow> int \<Rightarrow> gotime \<Rightarrow> unit lease_tx" where
  "insertRuntimeResultLedgerAndStats r terminalEventID successDelta revenueDelta now =
     tx_bind (tx_opt (InsertRunAccountingLedger (r_ID r) terminalEventID (r_AgentID r) successDelta revenueDelta)) (\<lambda>created.
     case created of
       None \<Rightarrow>
         tx_bind (tx_one ErrNoRows (GetRunAccountingLedger (r_ID r))) (\<lambda>l.
         tx_guard (ld_TerminalEventID l = terminalEventID \<and> ld_AgentID l = r_AgentID r \<and>
             ld_SuccessDelta l = successDelta \<and> ld_RevenueDeltaCents l = revenueDelta)
           (OtherError ''runtime accounting ledger identity conflict'' None))
     | Some l \<Rightarrow>
         tx_bind (tx_guard (ld_RunID l = r_ID r \<and> ld_TerminalEventID l = terminalEventID)
            (OtherError ''created runtime accounting ledger is inconsistent'' None)) (\<lambda>_.
         if successDelta = 1
         then (\<lambda>d. Inr ((), MarkAgentAvailabilitySuccess (r_AgentID r) now (IncrementAgentStats (r_AgentID r) revenueDelta d)))
         else (\<lambda>d. Inr ((), MarkAgentAvailabilityFailure (r_AgentID r) now d))))"

text \<open>Readings: 0 the release mark, 1 session, 2 node, 3 signal.\<close>

definition releaseRuntimeAttemptCapacity :: "AttemptRow \<Rightarrow> (nat \<Rightarrow> gotime) \<Rightarrow> unit lease_tx" where
  "releaseRuntimeAttemptCapacity a clk =
     (if a_ExecutorType a \<noteq> ''runtime'' then tx_return ()
      else
        tx_bind (tx_guard (a_SlotAcquiredAt a \<noteq> None \<and> a_ActiveRuntimeSessionID a \<noteq> None \<and> a_NodeID a \<noteq> None)
           (OtherError ''runtime Attempt is missing capacity identity'' None)) (\<lambda>_.
        tx_bind (tx_one (OtherError ''runtime Attempt capacity was already released or changed'' None)
           (MarkRunAttemptCapacityReleased (a_RunID a) (a_ID a) (a_LeaseID a) (a_FencingToken a) (clk 0))) (\<lambda>capacity.
        tx_bind (tx_guard (Some (cap_RuntimeSessionID capacity) = a_ActiveRuntimeSessionID a \<and>
            Some (cap_NodeID capacity) = a_NodeID a) (OtherError ''runtime Attempt capacity owner changed'' None)) (\<lambda>_.
        tx_bind (tx_one ErrNoRows (ReleaseRuntimeSessionSlot (cap_RuntimeSessionID capacity) (clk 1))) (\<lambda>_.
        tx_bind (tx_one ErrNoRows (ReleaseRuntimeNodeSlot (cap_NodeID capacity) (clk 2))) (\<lambda>_.
        createRuntimeNodeCapacityAvailableSignal (a_AgentID a) (cap_NodeID capacity) (a_RunID a) (clk 3)))))))"

section \<open>The transaction\<close>

text \<open>
  Readings: 0 credential lock, 1 run lock, 2 and 3 resume grant, 4 finish, 5 to 8 capacity, 9 run
  update, 10 effects; \<open>began\<close> is the start of the transaction, which \<open>NOW()\<close> reads.
\<close>

definition result_replay ::
    "result_env \<Rightarrow> RuntimeEventPrincipal \<Rightarrow> RuntimeResultRequest \<Rightarrow> bytes \<Rightarrow> RunRow \<Rightarrow> AttemptRow \<Rightarrow> (nat \<Rightarrow> gotime)
       \<Rightarrow> RuntimeResultAck lease_tx" where
  "result_replay fe p request fingerprint run attempt clk =
     tx_bind (result_guard (a_ResultID attempt = Some (rq_ResultID request) \<and>
        runtimeResultFingerprintsEqual (case a_ResultFingerprint attempt of None \<Rightarrow> [] | Some f \<Rightarrow> f) fingerprint)
        RuntimeResultErrorResultIDConflict) (\<lambda>_.
     tx_bind (map_principal_error
        (authorizeRuntimeAttemptPrincipal p (rq_AttemptIdentity request) attempt True (\<lambda>n. clk (2 + n)))) (\<lambda>_.
     tx_lift (runtimeResultAckFromStored run attempt True)))"

text \<open>The checks on a new result; the value says whether the run's deadline has passed.\<close>

definition result_checks ::
    "RuntimeEventPrincipal \<Rightarrow> RuntimeResultRequest \<Rightarrow> RunRow \<Rightarrow> gotime \<Rightarrow> AttemptRow \<Rightarrow> (nat \<Rightarrow> gotime) \<Rightarrow> bool lease_tx" where
  "result_checks p request run deadline attempt clk =
     tx_bind (tx_opt (GetRunAttemptByResultID (r_ID run) (rq_ResultID request))) (\<lambda>other.
     tx_bind (result_guard (other = None) RuntimeResultErrorResultIDConflict) (\<lambda>_.
     tx_bind (result_guard (\<not> (r_Status run \<noteq> ''running'' \<or> r_DispatchState run = ''terminal'' \<or>
         r_DispatchState run = ''dead_letter'')) RuntimeResultErrorRunAlreadyTerminal) (\<lambda>_.
     tx_bind (result_guard (r_CancelRequestID run = None) RuntimeResultErrorRunCancelRequested) (\<lambda>_.
     tx_bind (result_guard (runtimeResultActiveAttemptMatches run (rq_AttemptIdentity request) attempt)
         RuntimeResultErrorStaleLease) (\<lambda>_.
     tx_bind (map_principal_error
        (authorizeRuntimeAttemptPrincipal p (rq_AttemptIdentity request) attempt False (\<lambda>n. clk (2 + n)))) (\<lambda>authorization.
     let deadlineExceeded = \<not> clk 1 < deadline in
     tx_bind (result_guard (\<not> rq_FinalClientEventSeq request < a_LastClientEventSeq attempt)
         RuntimeResultErrorValidationFailed) (\<lambda>_.
     if deadlineExceeded then tx_return True
     else
       tx_bind (result_guard (\<not> ((\<not> az_resumed authorization \<and> \<not> clk 1 < a_LeaseExpiresAt attempt) \<or>
           \<not> clk 1 < a_AttemptDeadlineAt attempt)) RuntimeResultErrorLeaseExpired) (\<lambda>_.
       tx_bind (\<lambda>d. let ranges = missingRuntimeEventRanges
                     (ListClientEventSequencesThrough (r_ID run) (a_ID attempt) (the (a_AttemptNo attempt))
                        (rq_FinalClientEventSeq request) d) (rq_FinalClientEventSeq request)
              in if ranges = [] then Inr ((), d) else Inl (missingRuntimeResultEvents ranges)) (\<lambda>_.
       tx_return False)))))))))"

definition result_retry ::
    "ResultFinalizer \<Rightarrow> RuntimeResultRequest \<Rightarrow> RunRow \<Rightarrow> AttemptRow \<Rightarrow> (nat \<Rightarrow> gotime) \<Rightarrow> RuntimeResultAck lease_tx" where
  "result_retry f request run attempt clk =
     (let delay = fz_retryPlanner f (r_AttemptCount run) in
      tx_bind (tx_guard (0 < delay \<and> delay \<le> 60 * second)
         (OtherError ''result retry planner returned invalid delay'' None)) (\<lambda>_.
      tx_bind (result_row (TransitionRunToRetryWait (r_ID run) (a_ID attempt) (Milliseconds delay) (clk 9))) (\<lambda>t.
      tx_return \<lparr>rk_ResultID = rq_ResultID request, rk_Classification = ClassificationRetryable,
        rk_RunStatus = r_Status t, rk_DispatchState = r_DispatchState t, rk_Replayed = False,
        rk_NextAttemptAt = r_NextAttemptAt t\<rparr>)))"

definition result_artifacts :: "result_env \<Rightarrow> uuid \<Rightarrow> RuntimeResultRequest \<Rightarrow> unit lease_tx" where
  "result_artifacts fe runID request =
     tx_bind (createRunArtifacts (fe_artifacts fe) runID (case rq_Output request of None \<Rightarrow> [] | Some m \<Rightarrow> m)) (\<lambda>output.
     (\<lambda>d. Inr ((), CompletePrivateTaskFromSuccessfulRun runID
        (privateTaskCompletionSummary (fe_artifacts fe) output) d)))"

definition result_terminal ::
    "result_env \<Rightarrow> gotime \<Rightarrow> RuntimeResultRequest \<Rightarrow> bytes \<Rightarrow> RunRow \<Rightarrow> AttemptRow \<Rightarrow> AttemptRow \<Rightarrow> string option
       \<Rightarrow> string \<Rightarrow> bool \<Rightarrow> bool \<Rightarrow> (nat \<Rightarrow> gotime) \<Rightarrow> RuntimeResultAck lease_tx" where
  "result_terminal fe began request fingerprint run attempt finished attemptErrorCode classification
       deadlineExceeded retryExhausted clk =
     (case runtimeResultTerminalSemantics request classification deadlineExceeded retryExhausted of
        (runStatus, dispatchState, _, eventType, publicErrorCode, ackClassification) \<Rightarrow>
      let terminalEventID = deterministicTerminalEventID fe (r_ID run) runStatus in
      tx_bind (discoverRuntimeResultEffects fe run terminalEventID eventType) (\<lambda>(parentRunID, effects).
      tx_bind (marshalRuntimeResultJSON fe (terminalRuntimeResultPayload (fe_floats fe) request runStatus
         ackClassification publicErrorCode)) (\<lambda>terminalPayload.
      tx_bind (InsertTerminalRunEvent terminalEventID began (r_ID run) parentRunID eventType terminalPayload) (\<lambda>terminalEvent.
      tx_bind (if retryExhausted \<and> \<not> deadlineExceeded
         then tx_bind (tx_guard (a_AttemptNo finished \<noteq> None)
                (OtherError ''finished retryable attempt has no attempt number'' None)) (\<lambda>_.
              ensureRuntimeResultDeadLetter (r_ID run) (the (a_AttemptNo finished)) attemptErrorCode)
         else tx_return ()) (\<lambda>_.
      tx_bind (if runStatus = ''success''
         then tx_bind (marshalRuntimeResultJSON fe (of_jmap_opt (fe_floats fe) (rq_Output request))) (\<lambda>raw. tx_return (Some raw))
         else tx_return None) (\<lambda>output.
      let publicErrorMessage = (if runStatus = ''success'' then None
             else if runStatus = ''timeout'' then Some ''Run deadline exceeded''
             else if retryExhausted then Some ''Runtime retry budget exhausted''
             else Some (rf_Message (the (rq_Error request))));
          stored = (runStatus \<noteq> ''timeout'') in
      tx_bind (result_row (FinalizeRunFromResult (r_ID run) (a_ID attempt) runStatus dispatchState output
         (if publicErrorCode \<noteq> [] then Some publicErrorCode else None) publicErrorMessage
         (if stored then Some (rq_ResultID request) else None) (if stored then Some fingerprint else None)
         (sint (rq_DurationMS request)) (ev_ID terminalEvent) (clk 9))) (\<lambda>finalized.
      tx_bind (if runStatus = ''success'' then result_artifacts fe (r_ID run) request else tx_return ()) (\<lambda>_.
      tx_bind (insertRuntimeResultLedgerAndStats run (ev_ID terminalEvent)
         (if runStatus = ''success'' then 1 else 0)
         (if runStatus = ''success'' then r_CreatorRevenueCents run else 0) began) (\<lambda>_.
      tx_bind (ensure_effects fe (r_ID run) (ev_ID terminalEvent) (clk 10) effects) (\<lambda>_.
      tx_return \<lparr>rk_ResultID = rq_ResultID request, rk_Classification = ackClassification,
        rk_RunStatus = r_Status finalized, rk_DispatchState = r_DispatchState finalized, rk_Replayed = False,
        rk_NextAttemptAt = r_NextAttemptAt finalized\<rparr>))))))))))"

definition result_new ::
    "result_env \<Rightarrow> ResultFinalizer \<Rightarrow> gotime \<Rightarrow> RuntimeEventPrincipal \<Rightarrow> RuntimeResultRequest \<Rightarrow> bytes \<Rightarrow> RunRow \<Rightarrow> gotime
       \<Rightarrow> AttemptRow \<Rightarrow> (nat \<Rightarrow> gotime) \<Rightarrow> RuntimeResultAck lease_tx" where
  "result_new fe f began p request fingerprint run deadline attempt clk =
     tx_bind (result_checks p request run deadline attempt clk) (\<lambda>deadlineExceeded.
     let classification = fz_classifier f \<lparr>ci_ExecutorType = a_ExecutorType attempt,
           ci_EndpointIdempotency = (r_EndpointIdempotencySnapshot run = Some True), ci_Request = request\<rparr> in
     tx_bind (tx_guard (validateRuntimeResultClassification request classification)
        (OtherError ''result classifier returned invalid classification'' None)) (\<lambda>_.
     let retryExhausted = (classification = ClassificationRetryable \<and> r_AttemptCount run \<ge> r_MaxAttempts run);
         outcome = (case runtimeResultTerminalSemantics request classification deadlineExceeded retryExhausted of
                      (_, _, attemptOutcome, _) \<Rightarrow> attemptOutcome);
         errorCode = (case rq_Error request of
            Some e \<Rightarrow> Some (rf_ErrorCode e)
          | None \<Rightarrow> if deadlineExceeded then Some ''RUN_DEADLINE_EXCEEDED'' else None);
         errorDetail = map_option rf_Message (rq_Error request) in
     tx_bind (result_row (FinishRunAttempt (r_ID run) (a_ID attempt) (a_LeaseID attempt) (a_FencingToken attempt)
        outcome (rq_ResultID request) fingerprint classification (rq_FinalClientEventSeq request) errorCode
        errorDetail (clk 4))) (\<lambda>finished.
     tx_bind (releaseRuntimeAttemptCapacity attempt (\<lambda>n. clk (5 + n))) (\<lambda>_.
     if classification = ClassificationRetryable \<and> \<not> deadlineExceeded \<and> \<not> retryExhausted
     then result_retry f request run attempt clk
     else result_terminal fe began request fingerprint run attempt finished errorCode classification
            deadlineExceeded retryExhausted clk))))"

definition runtimeResultRunFromLocked :: "RunRow \<Rightarrow> gotime lease_tx" where
  "runtimeResultRunFromLocked r =
     (case r_RunDeadlineAt r of
        None \<Rightarrow> tx_fail (OtherError ''Runtime Run is missing run deadline'' None)
      | Some t \<Rightarrow> tx_return t)"

definition finalizeTx ::
    "result_env \<Rightarrow> ResultFinalizer \<Rightarrow> gotime \<Rightarrow> (nat \<Rightarrow> gotime) \<Rightarrow> RuntimeEventPrincipal \<Rightarrow> RuntimeResultRequest \<Rightarrow> bytes
       \<Rightarrow> RuntimeResultAck lease_tx" where
  "finalizeTx fe f began clk p request fingerprint =
     (let i = rq_AttemptIdentity request in
      tx_bind (map_principal_error (lockRuntimePrincipal p (clk 0))) (\<lambda>locked.
      tx_bind (result_one RuntimeResultErrorStaleLease (LockRunForResultFinalization (ra_RunID i))) (\<lambda>run.
      tx_bind (runtimeResultRunFromLocked run) (\<lambda>deadline.
      tx_bind (result_guard (pe_AgentID p = r_AgentID run \<and> ra_AgentID i = r_AgentID run)
         RuntimeResultErrorLeaseIdentityMismatch) (\<lambda>_.
      tx_bind (result_guard (validAt locked (clk 1)) RuntimeResultErrorLeaseIdentityMismatch) (\<lambda>_.
      tx_bind (result_one RuntimeResultErrorStaleLease (LockRunAttemptForResult (r_ID run) (ra_AttemptID i))) (\<lambda>attempt.
      tx_bind (result_guard (runtimeResultIdentityMatchesAttempt (fe_events fe) i attempt)
         RuntimeResultErrorLeaseIdentityMismatch) (\<lambda>_.
      if a_ResultID attempt \<noteq> None
      then result_replay fe p request fingerprint run attempt clk
      else result_new fe f began p request fingerprint run deadline attempt clk))))))))"

definition Finalize ::
    "result_env \<Rightarrow> ResultFinalizer \<Rightarrow> gotime \<Rightarrow> (nat \<Rightarrow> gotime) \<Rightarrow> RuntimeEventPrincipal \<Rightarrow> RuntimeResultRequest
       \<Rightarrow> runtime_db \<Rightarrow> (go_error + RuntimeResultAck) \<times> runtime_db" where
  "Finalize fe f began clk p request d =
     (case validateRuntimeEventPrincipal p of
        Some err \<Rightarrow> (Inl (newRuntimeResultError RuntimeResultErrorValidationFailed (Some err)), d)
      | None \<Rightarrow>
         (case RuntimeResultFingerprint fe request of
            Inl err \<Rightarrow> (Inl err, d)
          | Inr fingerprint \<Rightarrow> WithTransaction (finalizeTx fe f began clk p request fingerprint) d))"

end
