(* ===== verification/Result_Steps.thy ===== *)
theory Result_Steps
  imports Run_Steps Result_Finalizer Event_Laws
begin

text \<open>
  A committed result is a \<open>Close\<close> step: the statements of the finalizer finish the active attempt,
  give its slot back and move its run on. What the finalizer writes to the other tables is framed away.
\<close>

section \<open>Frames\<close>

text \<open>The tables the steps of a run speak about.\<close>

definition same_core :: "runtime_db \<Rightarrow> runtime_db \<Rightarrow> bool" where
  "same_core d d' \<longleftrightarrow> db_runs d' = db_runs d \<and> db_attempts d' = db_attempts d \<and> db_sessions d' = db_sessions d \<and>
     db_nodes d' = db_nodes d \<and> db_events d' = db_events d"

lemma same_core_refl [simp]: "same_core d d"
  by (simp add: same_core_def)

lemma same_core_trans: "same_core d d1 \<Longrightarrow> same_core d1 d2 \<Longrightarrow> same_core d d2"
  by (simp add: same_core_def)

lemma same_core_inv:
  assumes "same_core d d'"
  shows "lease_inv d' \<longleftrightarrow> lease_inv d" "event_inv d' \<longleftrightarrow> event_inv d"
proof -
  have eqs: "db_runs d' = db_runs d" "db_attempts d' = db_attempts d" "db_sessions d' = db_sessions d"
     "db_nodes d' = db_nodes d" "db_events d' = db_events d" using assms by (simp_all add: same_core_def)
  show "lease_inv d' \<longleftrightarrow> lease_inv d"
    by (simp only: lease_inv_def keys_ok_def slots_ok_def capacity_exact_def fences_ok_def active_ok_def expiry_ok_def
        budget_ok_def eqs)
  show "event_inv d' \<longleftrightarrow> event_inv d"
    by (simp only: event_inv_def log_ordered_def log_unique_def log_owned_def numbered_def run_events_def event_of_attempt_def
        client_sequences_def eqs)
qed

lemma map_principal_error_Inr [tx_simps]: "map_principal_error m d = Inr x \<longleftrightarrow> m d = Inr x"
  by (cases "m d") (simp_all add: map_principal_error_def)

lemma result_guard_Inr [tx_simps]: "result_guard b code d = Inr x \<longleftrightarrow> b \<and> x = ((), d)"
  by (simp add: result_guard_def tx_simps)

lemma result_one_Inr [tx_simps]: "result_one code q d = Inr x \<longleftrightarrow> q d = Some x"
  by (simp add: result_one_def tx_simps)

lemma result_row_Inr [tx_simps]: "result_row m d = Inr (row, d') \<longleftrightarrow> m d = Inr (Some row, d')"
  by (auto simp: result_row_def tx_simps split: option.splits)

lemma marshal_keeps: "marshalRuntimeResultJSON fe v d = Inr (raw, d') \<Longrightarrow> d' = d"
  by (auto simp: marshalRuntimeResultJSON_def tx_simps split: sum.splits)

lemma effect_tx_keeps: "effect_tx fe runID t k ms d = Inr (e, d') \<Longrightarrow> d' = d"
  by (auto simp: effect_tx_def tx_simps dest: marshal_keeps)

lemma callback_effects_keep: "callback_effects fe runID ev cs d = Inr (es, d') \<Longrightarrow> d' = d"
  by (induction cs arbitrary: es d) (auto simp: tx_simps dest!: effect_tx_keeps)

lemma webhook_effects_keep: "webhook_effects fe r d = Inr (es, d') \<Longrightarrow> d' = d"
  by (auto simp: webhook_effects_def tx_simps GetAgentWebhookConfig_def dest: effect_tx_keeps split: if_split_asm)

lemma delivery_effects_keep: "delivery_effects fe r t d = Inr (es, d') \<Longrightarrow> d' = d"
  by (auto simp: delivery_effects_def tx_simps GetDefaultDeliveryTarget_def dest: effect_tx_keeps
      split: option.split_asm if_split_asm)

lemma discover_keeps: "discoverRuntimeResultEffects fe r ev t d = Inr (plan, d') \<Longrightarrow> d' = d"
  unfolding discoverRuntimeResultEffects_def
  by (auto simp: tx_simps GetRunDelegationByChild_def split: option.split_asm
      dest!: effect_tx_keeps callback_effects_keep webhook_effects_keep delivery_effects_keep)

lemma ensure_effect_core: "ensureRuntimeResultEffect fe runID ev now e d = Inr (u, d') \<Longrightarrow> same_core d d'"
  by (auto simp: ensureRuntimeResultEffect_def tx_simps CreateRunEffect_def GetRunEffectByBusinessKey_def same_core_def
      split: if_split_asm option.split_asm)

lemma ensure_effects_core: "ensure_effects fe runID ev now es d = Inr (u, d') \<Longrightarrow> same_core d d'"
  by (induction es arbitrary: d) (auto simp: tx_simps dest!: ensure_effect_core intro: same_core_trans)

lemma dead_letter_core: "ensureRuntimeResultDeadLetter runID n code d = Inr (u, d') \<Longrightarrow> same_core d d'"
  by (auto simp: ensureRuntimeResultDeadLetter_def tx_simps CreateRunDeadLetter_def GetRunDeadLetterByRun_def same_core_def
      Let_def split: option.split_asm)

lemma ledger_core: "insertRuntimeResultLedgerAndStats r ev s v now d = Inr (u, d') \<Longrightarrow> same_core d d'"
  by (auto simp: insertRuntimeResultLedgerAndStats_def tx_simps InsertRunAccountingLedger_def GetRunAccountingLedger_def
      MarkAgentAvailabilitySuccess_def MarkAgentAvailabilityFailure_def IncrementAgentStats_def same_core_def Let_def
      split: option.split_asm if_split_asm)

lemma artifacts_core: "result_artifacts fe runID request d = Inr (u, d') \<Longrightarrow> same_core d d'"
proof -
  assume "result_artifacts fe runID request d = Inr (u, d')"
  then obtain out d1 where 1: "createRunArtifacts (fe_artifacts fe) runID (case rq_Output request of None \<Rightarrow> [] | Some m \<Rightarrow> m) d = Inr (out, d1)"
    and 2: "d' = CompletePrivateTaskFromSuccessfulRun runID (privateTaskCompletionSummary (fe_artifacts fe) out) d1"
    by (auto simp: result_artifacts_def tx_simps)
  from createRunArtifacts_frame[OF 1] CompletePrivateTask_frame[of runID "privateTaskCompletionSummary (fe_artifacts fe) out" d1] 2
  show ?thesis by (auto simp: same_core_def)
qed


section \<open>Closing the attempt\<close>

lemma FinishRunAttempt_InrD:
  assumes "FinishRunAttempt runID attemptID leaseID fence outcome resultID fp cls final code detail now d = Inr (Some a', d')"
    and "find_attempt attemptID d = Some a"
  shows "a' = finished_attempt a outcome resultID fp cls final code detail now" "d' = set_attempt attemptID a' d"
    "attempt_result_checks a'" "a_FinishedAt a = None" "a_AcceptedAt a \<noteq> None" "a_ResultID a = None"
  using assms by (auto simp: FinishRunAttempt_def Let_def split: if_split_asm)

text \<open>The attempt after its slot was given back, when it has one.\<close>

definition closed_attempt :: "AttemptRow \<Rightarrow> gotime \<Rightarrow> AttemptRow" where
  "closed_attempt a now =
     (if a_ExecutorType a = ''runtime'' then a\<lparr>a_SlotReleasedAt := Some now, a_ActiveRuntimeSessionID := None\<rparr> else a)"

lemma finished_fields [simp]:
  "a_ID (finished_attempt a o1 r1 f1 c1 n1 e1 t1 now) = a_ID a"
  "a_RunID (finished_attempt a o1 r1 f1 c1 n1 e1 t1 now) = a_RunID a"
  "a_ExecutorType (finished_attempt a o1 r1 f1 c1 n1 e1 t1 now) = a_ExecutorType a"
  "a_SlotReleasedAt (finished_attempt a o1 r1 f1 c1 n1 e1 t1 now) = a_SlotReleasedAt a"
  "a_SlotAcquiredAt (finished_attempt a o1 r1 f1 c1 n1 e1 t1 now) = a_SlotAcquiredAt a"
  "a_ActiveRuntimeSessionID (finished_attempt a o1 r1 f1 c1 n1 e1 t1 now) = a_ActiveRuntimeSessionID a"
  "a_NodeID (finished_attempt a o1 r1 f1 c1 n1 e1 t1 now) = a_NodeID a"
  "a_AttemptNo (finished_attempt a o1 r1 f1 c1 n1 e1 t1 now) = a_AttemptNo a"
  by (simp_all add: finished_attempt_def)

lemma closed_attempt_ID [simp]: "a_ID (closed_attempt a now) = a_ID a" "a_RunID (closed_attempt a now) = a_RunID a"
  by (simp_all add: closed_attempt_def)

text \<open>An attempt is finished by whatever statement: its identity, its lease and its slot stay.\<close>

definition finishes :: "AttemptRow \<Rightarrow> AttemptRow \<Rightarrow> bool" where
  "finishes a a' \<longleftrightarrow>
     same_identity a a' \<and> a_ID a' = a_ID a \<and> a_RunID a' = a_RunID a \<and> a_LeaseID a' = a_LeaseID a \<and>
     a_FencingToken a' = a_FencingToken a \<and> a_AttemptNo a' = a_AttemptNo a \<and> a_AcceptedAt a' = a_AcceptedAt a \<and>
     a_ExecutorType a' = a_ExecutorType a \<and> a_NodeID a' = a_NodeID a \<and>
     a_AttemptDeadlineAt a' = a_AttemptDeadlineAt a \<and> a_LeaseExpiresAt a' = a_LeaseExpiresAt a \<and>
     a_LastClientEventSeq a' = a_LastClientEventSeq a \<and> a_SlotAcquiredAt a' = a_SlotAcquiredAt a \<and>
     a_SlotReleasedAt a' = a_SlotReleasedAt a \<and> a_ActiveRuntimeSessionID a' = a_ActiveRuntimeSessionID a \<and>
     a_FinishedAt a' \<noteq> None"

lemma finishes_finished: "finishes a (finished_attempt a o1 r1 f1 c1 n1 e1 t1 now)"
  by (simp add: finishes_def finished_attempt_def same_identity_def stored_identity_def)

lemma closes_finished:
  assumes "slot_shape a" "a_FinishedAt a = None" "finishes a a'"
  shows "closes_attempt a (closed_attempt a' t)"
  using assms
  by (auto simp: closes_attempt_def finishes_def same_identity_def stored_identity_def closed_attempt_def slot_shape_def)

lemma release_statements:
  assumes rel: "releaseRuntimeAttemptCapacity a clk d1 = Inr (u, d2)"
    and d1: "d1 = set_attempt attemptID a' d" and a: "find_attempt attemptID d = Some a"
    and fin: "finishes a a'" and open_: "slot_shape a" "a_FinishedAt a = None"
  shows "gives_back_slot a d d2"
    "db_attempts d2 = update_row a_ID attemptID (\<lambda>_. closed_attempt a' (clk 0)) (db_attempts d)"
    "db_runs d2 = db_runs d" "db_events d2 = db_events d"
proof -
  have key: "a_ID a = attemptID" using a by (rule find_row_key)
  note a' = fin[unfolded finishes_def]
  have a1: "find_attempt attemptID d1 = Some a'" using a a' d1 key by (simp add: find_row_replace)
  have "gives_back_slot a d d2 \<and> db_attempts d2 = update_row a_ID attemptID (\<lambda>_. closed_attempt a' (clk 0)) (db_attempts d) \<and>
    db_runs d2 = db_runs d \<and> db_events d2 = db_events d"
  proof (cases "a_ExecutorType a = ''runtime''")
    case False
    with rel d1 a' show ?thesis
      by (simp add: releaseRuntimeAttemptCapacity_def tx_simps gives_back_slot_def closed_attempt_def)
  next
    case True
    obtain t sid nid where slot: "a_SlotReleasedAt a = None" "a_SlotAcquiredAt a = Some t"
        "a_ActiveRuntimeSessionID a = Some sid" "a_NodeID a = Some nid"
      by (rule slot_shape_open[OF open_(1) True open_(2)])
    from rel True obtain cap d3 s' d4 n' d5 where mark: "MarkRunAttemptCapacityReleased (a_RunID a) (a_ID a) (a_LeaseID a)
          (a_FencingToken a) (clk 0) d1 = Some (cap, d3)"
      and ses: "ReleaseRuntimeSessionSlot (cap_RuntimeSessionID cap) (clk 1) d3 = Some (s', d4)"
      and nod: "ReleaseRuntimeNodeSlot (cap_NodeID cap) (clk 2) d4 = Some (n', d5)"
      and sig: "createRuntimeNodeCapacityAvailableSignal (a_AgentID a) (cap_NodeID cap) (a_RunID a) (clk 3) d5 = Inr (u, d2)"
      by (auto simp: releaseRuntimeAttemptCapacity_def tx_simps)
    have cap: "cap_RuntimeSessionID cap = sid" "cap_NodeID cap = nid"
      and d3: "d3 = set_attempt attemptID (closed_attempt a' (clk 0)) d"
      using mark a1 slot a' True key d1
      by (auto simp: MarkRunAttemptCapacityReleased_def closed_attempt_def update_row_twice split: if_split_asm)
    from ses obtain sr where sr: "find_session sid d = Some sr" "0 < s_Inflight sr"
        "s' = sr\<lparr>s_Inflight := s_Inflight sr - 1, s_UpdatedAt := clk 1\<rparr>" "d4 = set_session sid s' d3"
      unfolding cap by (rule ReleaseRuntimeSessionSlot_SomeD) (simp add: d3)
    from nod obtain nr where nr: "find_node nid d = Some nr" "0 < n_Inflight nr"
        "n' = nr\<lparr>n_Inflight := n_Inflight nr - 1, n_UpdatedAt := clk 2\<rparr>" "d5 = set_node nid n' d4"
      unfolding cap by (rule ReleaseRuntimeNodeSlot_SomeD) (simp add: d3 sr(4))
    have d2: "d2 = d5\<lparr>db_signals := db_signals d2\<rparr>" using sig by (simp add: signal_statements)
    have "gives_back_slot a d d2"
      unfolding gives_back_slot_def if_P[OF True]
      by (rule exI[of _ sid], rule exI[of _ nid], rule exI[of _ sr], rule exI[of _ nr], rule exI[of _ "clk 1"], rule exI[of _ "clk 2"])
         (subst d2, subst d2, simp add: slot sr nr d3)
    then show ?thesis by (subst (2 3 4) d2, simp add: sr(4) nr(4) d3)
  qed
  then show "gives_back_slot a d d2"
    "db_attempts d2 = update_row a_ID attemptID (\<lambda>_. closed_attempt a' (clk 0)) (db_attempts d)"
    "db_runs d2 = db_runs d" "db_events d2 = db_events d" by simp_all
qed


section \<open>Moving the run on\<close>

lemma closes_clear_lease:
  "closes_run r ((clear_lease r)\<lparr>r_Status := s, r_DispatchState := t, r_NextAttemptAt := n, r_ErrorCode := c, r_ErrorMessage := m\<rparr>)"
  "closes_run r ((clear_lease r)\<lparr>r_Status := s, r_DispatchState := t, r_Output := x, r_ErrorCode := c, r_ErrorMessage := m,
     r_DurationMs := v, r_FinishedAt := w, r_NextAttemptAt := n, r_ResultID := i, r_ResultFingerprint := f,
     r_TerminalEventID := e, r_DeadLetteredAt := l\<rparr>)"
  by (simp_all add: closes_run_def same_request_def clear_lease_def)

lemma TransitionRunToRetryWait_InrD:
  assumes "TransitionRunToRetryWait runID attemptID ms now d = Inr (Some r', d')" "find_run runID d = Some r"
  shows "d' = set_run runID r' d" "closes_run r r'" "r_Status r' = ''running''" "r_DispatchState r' = ''retry_wait''"
    "r_NextAttemptAt r' = Some (after_ms now ms)" "r_AttemptCount r < r_MaxAttempts r" "run_state_checks r'"
proof -
  from assms obtain a where checks: "run_state_checks r'"
    and r': "r' = (clear_lease r)\<lparr>r_Status := ''running'', r_DispatchState := ''retry_wait'',
          r_NextAttemptAt := Some (after_ms now ms), r_ErrorCode := None, r_ErrorMessage := None\<rparr>"
    and rest: "d' = set_run runID r' d" "r_AttemptCount r < r_MaxAttempts r"
    by (auto simp: TransitionRunToRetryWait_def Let_def split: option.split_asm if_split_asm)
  show "closes_run r r'" unfolding r' by (rule closes_clear_lease)
  show "r_Status r' = ''running''" "r_DispatchState r' = ''retry_wait''" "r_NextAttemptAt r' = Some (after_ms now ms)"
    by (simp_all add: r')
qed (use assms in \<open>auto simp: TransitionRunToRetryWait_def Let_def split: option.split_asm if_split_asm\<close>)

lemma FinalizeRunFromResult_InrE:
  assumes "FinalizeRunFromResult runID attemptID status state output code message resultID fp ms eventID now d = Inr (Some r', d')"
    and r: "find_run runID d = Some r" and a: "find_attempt attemptID d = Some a"
  shows "d' = set_run runID r' d" "closes_run r r'" "r_Status r' = status" "r_DispatchState r' = state"
    "finalize_allowed status state output code resultID fp a" "r_ResultID r' = resultID" "run_state_checks r'"
    "r_FinishedAt r' = Some now" "r_TerminalEventID r' = Some eventID" "r_NextAttemptAt r' = None" "r_ErrorCode r' = code"
    "r_LatestAttemptID r' = r_LatestAttemptID r"
proof -
  from assms(1) r a have
    r': "r' = (clear_lease r)\<lparr>r_Status := status, r_DispatchState := state, r_Output := output,
                        r_ErrorCode := code, r_ErrorMessage := message, r_DurationMs := Some ms,
                        r_FinishedAt := Some now, r_NextAttemptAt := None, r_ResultID := resultID,
                        r_ResultFingerprint := fp, r_TerminalEventID := Some eventID,
                        r_DeadLetteredAt := (if state = ''dead_letter'' then Some now else None)\<rparr>"
    and facts: "d' = set_run runID r' d" "finalize_allowed status state output code resultID fp a" "run_state_checks r'"
    by (auto simp: FinalizeRunFromResult_def Let_def split: if_split_asm)
  show "closes_run r r'" unfolding r' by (rule closes_clear_lease)
  show "r_Status r' = status" "r_DispatchState r' = state" "r_ResultID r' = resultID" "r_FinishedAt r' = Some now"
    "r_TerminalEventID r' = Some eventID" "r_NextAttemptAt r' = None" "r_ErrorCode r' = code"
    "r_LatestAttemptID r' = r_LatestAttemptID r" by (simp_all add: r' clear_lease_def)
  show "d' = set_run runID r' d" "finalize_allowed status state output code resultID fp a" "run_state_checks r'"
    by (fact facts)+
qed

lemma InsertTerminalRunEvent_InrD:
  assumes "InsertTerminalRunEvent eventID now runID parent t payload d = Inr (e, d')"
  shows "d' = d\<lparr>db_events := insert_row e (db_events d)\<rparr>" "next_event d e" "core_event e" "ev_RunID e = runID" "ev_ID e = eventID"
  using assms
  by (auto simp: InsertTerminalRunEvent_def insert_event_def next_event_def core_event_def split: option.split_asm if_split_asm)

lemma result_retry_InrE:
  assumes "result_retry f request run attempt clk d = Inr (ack, d')" "find_run (r_ID run) d = Some r"
  obtains r' where "d' = set_run (r_ID run) r' d" "closes_run r r'" "r_Status r' = ''running''" "r_DispatchState r' = ''retry_wait''"
    "r_NextAttemptAt r' = Some (after_ms (clk 9) (Milliseconds (fz_retryPlanner f (r_AttemptCount run))))"
    "r_AttemptCount r < r_MaxAttempts r" "0 < fz_retryPlanner f (r_AttemptCount run)"
    "fz_retryPlanner f (r_AttemptCount run) \<le> 60 * second"
    "ack = \<lparr>rk_ResultID = rq_ResultID request, rk_Classification = ClassificationRetryable, rk_RunStatus = r_Status r',
       rk_DispatchState = r_DispatchState r', rk_Replayed = False, rk_NextAttemptAt = r_NextAttemptAt r'\<rparr>"
proof -
  from assms(1) obtain r' where t: "TransitionRunToRetryWait (r_ID run) (a_ID attempt)
        (Milliseconds (fz_retryPlanner f (r_AttemptCount run))) (clk 9) d = Inr (Some r', d')"
    and delay: "0 < fz_retryPlanner f (r_AttemptCount run)" "fz_retryPlanner f (r_AttemptCount run) \<le> 60 * second"
    and ack: "ack = \<lparr>rk_ResultID = rq_ResultID request, rk_Classification = ClassificationRetryable, rk_RunStatus = r_Status r',
       rk_DispatchState = r_DispatchState r', rk_Replayed = False, rk_NextAttemptAt = r_NextAttemptAt r'\<rparr>"
    by (auto simp: result_retry_def tx_simps Let_def)
  show ?thesis
    by (rule that[OF TransitionRunToRetryWait_InrD(1-6)[OF t assms(2)] delay ack])
qed


text \<open>The statements of the terminal branch, with the state each one leaves.\<close>

lemma result_terminal_statementsE:
  assumes tx: "result_terminal fe began request fp run attempt finished errorCode classification exceeded exhausted clk d = Inr (ack, d')"
    and sem: "runtimeResultTerminalSemantics request classification exceeded exhausted =
      (status, state, outcome, eventType, code, ackClass)"
  obtains parent payload e d3 d4 out r' d6 d7 d8 effects resultID fp' message where
    "InsertTerminalRunEvent (deterministicTerminalEventID fe (r_ID run) status) began (r_ID run) parent eventType payload d = Inr (e, d3)"
    "(if exhausted \<and> \<not> exceeded
         then tx_bind (tx_guard (a_AttemptNo finished \<noteq> None)
                (OtherError ''finished retryable attempt has no attempt number'' None)) (\<lambda>_.
              ensureRuntimeResultDeadLetter (r_ID run) (the (a_AttemptNo finished)) errorCode)
         else tx_return ()) d3 = Inr ((), d4)"
    "FinalizeRunFromResult (r_ID run) (a_ID attempt) status state out (if code \<noteq> [] then Some code else None) message
         resultID fp' (sint (rq_DurationMS request)) (ev_ID e) (clk 9) d4 = Inr (Some r', d6)"
    "(if status = ''success'' then result_artifacts fe (r_ID run) request else tx_return ()) d6 = Inr ((), d7)"
    "insertRuntimeResultLedgerAndStats run (ev_ID e) (if status = ''success'' then 1 else 0)
         (if status = ''success'' then r_CreatorRevenueCents run else 0) began d7 = Inr ((), d8)"
    "ensure_effects fe (r_ID run) (ev_ID e) (clk 10) effects d8 = Inr ((), d')"
    "ack = \<lparr>rk_ResultID = rq_ResultID request, rk_Classification = ackClass, rk_RunStatus = r_Status r',
        rk_DispatchState = r_DispatchState r', rk_Replayed = False, rk_NextAttemptAt = r_NextAttemptAt r'\<rparr>"
proof -
  let ?ev = "deterministicTerminalEventID fe (r_ID run) status"
  from tx obtain parent effects d1 payload d2 e d3 d4 out d5 r' d6 d7 d8 resultID fp' message where
      1: "discoverRuntimeResultEffects fe run ?ev eventType d = Inr ((parent, effects), d1)"
    and 2: "marshalRuntimeResultJSON fe (terminalRuntimeResultPayload (fe_floats fe) request status ackClass code) d1 = Inr (payload, d2)"
    and 3: "InsertTerminalRunEvent ?ev began (r_ID run) parent eventType payload d2 = Inr (e, d3)"
    and 4: "(if exhausted \<and> \<not> exceeded
         then tx_bind (tx_guard (a_AttemptNo finished \<noteq> None)
                (OtherError ''finished retryable attempt has no attempt number'' None)) (\<lambda>_.
              ensureRuntimeResultDeadLetter (r_ID run) (the (a_AttemptNo finished)) errorCode)
         else tx_return ()) d3 = Inr ((), d4)"
    and 5: "(if status = ''success''
         then tx_bind (marshalRuntimeResultJSON fe (of_jmap_opt (fe_floats fe) (rq_Output request))) (\<lambda>raw. tx_return (Some raw))
         else tx_return None) d4 = Inr (out, d5)"
    and 6: "FinalizeRunFromResult (r_ID run) (a_ID attempt) status state out (if code \<noteq> [] then Some code else None) message
         resultID fp' (sint (rq_DurationMS request)) (ev_ID e) (clk 9) d5 = Inr (Some r', d6)"
    and 7: "(if status = ''success'' then result_artifacts fe (r_ID run) request else tx_return ()) d6 = Inr ((), d7)"
    and 8: "insertRuntimeResultLedgerAndStats run (ev_ID e) (if status = ''success'' then 1 else 0)
         (if status = ''success'' then r_CreatorRevenueCents run else 0) began d7 = Inr ((), d8)"
    and 9: "ensure_effects fe (r_ID run) (ev_ID e) (clk 10) effects d8 = Inr ((), d')"
    and ack: "ack = \<lparr>rk_ResultID = rq_ResultID request, rk_Classification = ackClass, rk_RunStatus = r_Status r',
        rk_DispatchState = r_DispatchState r', rk_Replayed = False, rk_NextAttemptAt = r_NextAttemptAt r'\<rparr>"
    unfolding result_terminal_def sem prod.case Let_def tx_simps by (auto simp: tx_simps)
  have pre: "d1 = d" "d2 = d" using discover_keeps[OF 1] marshal_keeps[OF 2] by simp_all
  have d5: "d5 = d4" using 5 by (auto simp: tx_simps split: if_split_asm dest: marshal_keeps)
  show ?thesis by (rule that[OF 3[unfolded pre] 4 6[unfolded d5] 7 8 9 ack])
qed

text \<open>The terminal branch; \<open>sem\<close> is what the classification means for run and attempt.\<close>

lemma result_terminal_InrE:
  assumes tx: "result_terminal fe began request fp run attempt finished errorCode classification exceeded exhausted clk d = Inr (ack, d')"
    and sem: "runtimeResultTerminalSemantics request classification exceeded exhausted =
      (status, state, outcome, eventType, code, ackClass)"
    and r: "find_run (r_ID run) d = Some r" and a: "find_attempt (a_ID attempt) d = Some a"
  obtains e r' where "core_event e" "next_event d e" "ev_RunID e = r_ID run" "db_events d' = insert_row e (db_events d)"
    "ev_ID e = deterministicTerminalEventID fe (r_ID run) status"
    "db_runs d' = update_row r_ID (r_ID run) (\<lambda>_. r') (db_runs d)" "closes_run r r'" "r_Status r' = status" "r_DispatchState r' = state"
    "run_state_checks r'" "r_TerminalEventID r' = Some (ev_ID e)" "r_FinishedAt r' = Some (clk 9)" "r_NextAttemptAt r' = None"
    "r_ErrorCode r' = (if code \<noteq> [] then Some code else None)" "r_LatestAttemptID r' = r_LatestAttemptID r"
    "db_attempts d' = db_attempts d" "db_sessions d' = db_sessions d" "db_nodes d' = db_nodes d"
    "ack = \<lparr>rk_ResultID = rq_ResultID request, rk_Classification = ackClass, rk_RunStatus = status,
        rk_DispatchState = state, rk_Replayed = False, rk_NextAttemptAt = None\<rparr>"
  using tx sem
proof (rule result_terminal_statementsE)
  fix parent payload e d3 d4 out r' d6 d7 d8 effects resultID fp' message
  assume 3: "InsertTerminalRunEvent (deterministicTerminalEventID fe (r_ID run) status) began (r_ID run) parent eventType payload d = Inr (e, d3)"
    and 4: "(if exhausted \<and> \<not> exceeded
         then tx_bind (tx_guard (a_AttemptNo finished \<noteq> None)
                (OtherError ''finished retryable attempt has no attempt number'' None)) (\<lambda>_.
              ensureRuntimeResultDeadLetter (r_ID run) (the (a_AttemptNo finished)) errorCode)
         else tx_return ()) d3 = Inr ((), d4)"
    and 6: "FinalizeRunFromResult (r_ID run) (a_ID attempt) status state out (if code \<noteq> [] then Some code else None) message
         resultID fp' (sint (rq_DurationMS request)) (ev_ID e) (clk 9) d4 = Inr (Some r', d6)"
    and 7: "(if status = ''success'' then result_artifacts fe (r_ID run) request else tx_return ()) d6 = Inr ((), d7)"
    and 8: "insertRuntimeResultLedgerAndStats run (ev_ID e) (if status = ''success'' then 1 else 0)
         (if status = ''success'' then r_CreatorRevenueCents run else 0) began d7 = Inr ((), d8)"
    and 9: "ensure_effects fe (r_ID run) (ev_ID e) (clk 10) effects d8 = Inr ((), d')"
    and ack: "ack = \<lparr>rk_ResultID = rq_ResultID request, rk_Classification = ackClass, rk_RunStatus = r_Status r',
        rk_DispatchState = r_DispatchState r', rk_Replayed = False, rk_NextAttemptAt = r_NextAttemptAt r'\<rparr>"
  note e = InsertTerminalRunEvent_InrD[OF 3]
  have d4: "same_core d3 d4" using 4 by (auto simp: tx_simps split: if_split_asm dest: dead_letter_core)
  have rows: "find_run (r_ID run) d4 = Some r" "find_attempt (a_ID attempt) d4 = Some a"
    using r a d4 by (simp_all add: same_core_def e(1))
  note fin = FinalizeRunFromResult_InrE[OF 6 rows]
  have d7: "same_core d6 d7" using 7 by (auto simp: tx_simps split: if_split_asm dest: artifacts_core)
  have rest: "same_core d6 d'"
    by (intro same_core_trans[OF d7] same_core_trans[OF ledger_core[OF 8]] ensure_effects_core[OF 9])
  show thesis
    by (rule that[of e r'])
       (use e d4 rest fin ack in \<open>simp_all add: same_core_def\<close>)
qed

section \<open>Accounts and dead letters\<close>

definition same_books :: "runtime_db \<Rightarrow> runtime_db \<Rightarrow> bool" where
  "same_books d d' \<longleftrightarrow> db_ledger d' = db_ledger d \<and> db_dead_letters d' = db_dead_letters d"

lemma same_books_trans: "same_books d d1 \<Longrightarrow> same_books d1 d2 \<Longrightarrow> same_books d d2"
  by (simp add: same_books_def)

lemma ensure_effects_books: "ensure_effects fe runID ev now es d = Inr (u, d') \<Longrightarrow> same_books d d'"
proof (induction es arbitrary: d)
  case (Cons e es)
  from Cons.prems obtain d1 where "ensureRuntimeResultEffect fe runID ev now e d = Inr ((), d1)"
      and rest: "ensure_effects fe runID ev now es d1 = Inr (u, d')" by (auto simp: tx_simps)
  then have "same_books d d1"
    by (auto simp: ensureRuntimeResultEffect_def tx_simps CreateRunEffect_def GetRunEffectByBusinessKey_def same_books_def
        split: if_split_asm option.split_asm)
  then show ?case using Cons.IH[OF rest] by (rule same_books_trans)
qed (simp add: tx_simps same_books_def)

lemma artifacts_books: "result_artifacts fe runID request d = Inr (u, d') \<Longrightarrow> same_books d d'"
proof -
  assume "result_artifacts fe runID request d = Inr (u, d')"
  then obtain out d1 where 1: "createRunArtifacts (fe_artifacts fe) runID (case rq_Output request of None \<Rightarrow> [] | Some m \<Rightarrow> m) d = Inr (out, d1)"
    and 2: "d' = CompletePrivateTaskFromSuccessfulRun runID (privateTaskCompletionSummary (fe_artifacts fe) out) d1"
    by (auto simp: result_artifacts_def tx_simps)
  from createRunArtifacts_frame[OF 1] CompletePrivateTask_frame[of runID "privateTaskCompletionSummary (fe_artifacts fe) out" d1] 2
  show ?thesis by (auto simp: same_books_def)
qed

lemma dead_letter_stored:
  assumes "ensureRuntimeResultDeadLetter runID n code d = Inr (u, d')"
  obtains q where "find_row dq_RunID runID (db_dead_letters d') = Some q" "dq_FinalAttemptNo q = n"
    "dq_ReasonCode q = ''RUNTIME_RETRY_EXHAUSTED''" "db_ledger d' = db_ledger d"
  using assms
  by (auto simp: ensureRuntimeResultDeadLetter_def tx_simps CreateRunDeadLetter_def GetRunDeadLetterByRun_def Let_def
      find_row_insert split: option.split_asm)

lemma ledger_stored:
  assumes "insertRuntimeResultLedgerAndStats r ev s v now d = Inr (u, d')"
  obtains l where "find_row ld_RunID (r_ID r) (db_ledger d') = Some l" "ld_TerminalEventID l = ev" "ld_AgentID l = r_AgentID r"
    "ld_SuccessDelta l = s" "ld_RevenueDeltaCents l = v" "db_dead_letters d' = db_dead_letters d"
    "unique_keys ld_RunID (db_ledger d) \<longrightarrow> unique_keys ld_RunID (db_ledger d')"
  using assms
  by (auto simp: insertRuntimeResultLedgerAndStats_def tx_simps InsertRunAccountingLedger_def GetRunAccountingLedger_def
      MarkAgentAvailabilitySuccess_def MarkAgentAvailabilityFailure_def IncrementAgentStats_def Let_def
      find_row_insert unique_keys_insert split: option.split_asm if_split_asm)

lemma result_terminal_books:
  assumes tx: "result_terminal fe began request fp run attempt finished errorCode classification exceeded exhausted clk d = Inr (ack, d')"
    and sem: "runtimeResultTerminalSemantics request classification exceeded exhausted =
      (status, state, outcome, eventType, code, ackClass)"
  obtains l where "find_row ld_RunID (r_ID run) (db_ledger d') = Some l"
    "ld_TerminalEventID l = deterministicTerminalEventID fe (r_ID run) status" "ld_AgentID l = r_AgentID run"
    "ld_SuccessDelta l = (if status = ''success'' then 1 else 0)"
    "ld_RevenueDeltaCents l = (if status = ''success'' then r_CreatorRevenueCents run else 0)"
    "unique_keys ld_RunID (db_ledger d) \<longrightarrow> unique_keys ld_RunID (db_ledger d')"
    "exhausted \<and> \<not> exceeded \<longrightarrow> (\<exists>q. find_row dq_RunID (r_ID run) (db_dead_letters d') = Some q \<and>
       Some (dq_FinalAttemptNo q) = a_AttemptNo finished \<and> dq_ReasonCode q = ''RUNTIME_RETRY_EXHAUSTED'')"
  using tx sem
proof (rule result_terminal_statementsE)
  fix parent payload e d3 d4 out r' d6 d7 d8 effects resultID fp' message
  assume 3: "InsertTerminalRunEvent (deterministicTerminalEventID fe (r_ID run) status) began (r_ID run) parent eventType payload d = Inr (e, d3)"
    and 4: "(if exhausted \<and> \<not> exceeded
         then tx_bind (tx_guard (a_AttemptNo finished \<noteq> None)
                (OtherError ''finished retryable attempt has no attempt number'' None)) (\<lambda>_.
              ensureRuntimeResultDeadLetter (r_ID run) (the (a_AttemptNo finished)) errorCode)
         else tx_return ()) d3 = Inr ((), d4)"
    and 6: "FinalizeRunFromResult (r_ID run) (a_ID attempt) status state out (if code \<noteq> [] then Some code else None) message
         resultID fp' (sint (rq_DurationMS request)) (ev_ID e) (clk 9) d4 = Inr (Some r', d6)"
    and 7: "(if status = ''success'' then result_artifacts fe (r_ID run) request else tx_return ()) d6 = Inr ((), d7)"
    and 8: "insertRuntimeResultLedgerAndStats run (ev_ID e) (if status = ''success'' then 1 else 0)
         (if status = ''success'' then r_CreatorRevenueCents run else 0) began d7 = Inr ((), d8)"
    and 9: "ensure_effects fe (r_ID run) (ev_ID e) (clk 10) effects d8 = Inr ((), d')"
  note e = InsertTerminalRunEvent_InrD[OF 3]
  have d4: "db_ledger d4 = db_ledger d" using 4 e(1) by (auto simp: tx_simps split: if_split_asm elim: dead_letter_stored)
  have dead: "\<exists>q. find_row dq_RunID (r_ID run) (db_dead_letters d4) = Some q \<and>
       Some (dq_FinalAttemptNo q) = a_AttemptNo finished \<and> dq_ReasonCode q = ''RUNTIME_RETRY_EXHAUSTED''" if "exhausted \<and> \<not> exceeded"
    using 4 that by (auto simp: tx_simps elim: dead_letter_stored)
  have d6: "same_books d4 d6" using 6
    by (auto simp: FinalizeRunFromResult_def same_books_def Let_def split: option.split_asm if_split_asm)
  have d7: "same_books d6 d7" using 7 by (auto simp: tx_simps same_books_def split: if_split_asm dest!: artifacts_books[unfolded same_books_def])
  have d': "same_books d8 d'" by (rule ensure_effects_books[OF 9])
  from 8 obtain l where l: "find_row ld_RunID (r_ID run) (db_ledger d8) = Some l" "ld_TerminalEventID l = ev_ID e"
      "ld_AgentID l = r_AgentID run" "ld_SuccessDelta l = (if status = ''success'' then 1 else 0)"
      "ld_RevenueDeltaCents l = (if status = ''success'' then r_CreatorRevenueCents run else 0)"
      "db_dead_letters d8 = db_dead_letters d7" "unique_keys ld_RunID (db_ledger d7) \<longrightarrow> unique_keys ld_RunID (db_ledger d8)"
    by (rule ledger_stored)
  show thesis
    by (rule that[of l]) (use l d4 d6 d7 d' dead e(5) in \<open>simp_all add: same_books_def\<close>)
qed

section \<open>The transaction\<close>

lemma result_checks_InrD:
  assumes "result_checks p request run deadline attempt clk d = Inr (exceeded, d')"
  shows "\<exists>gs. d' = d\<lparr>db_grants := gs\<rparr>" "r_Status run = ''running''" "r_CancelRequestID run = None"
    "runtimeResultActiveAttemptMatches run (rq_AttemptIdentity request) attempt"
    "a_LastClientEventSeq attempt \<le> rq_FinalClientEventSeq request" "exceeded \<longleftrightarrow> \<not> clk 1 < deadline"
    "\<not> exceeded \<Longrightarrow> clk 1 < a_AttemptDeadlineAt attempt"
    "\<not> exceeded \<Longrightarrow> missingRuntimeEventRanges
       (ListClientEventSequencesThrough (r_ID run) (a_ID attempt) (the (a_AttemptNo attempt))
          (rq_FinalClientEventSeq request) d) (rq_FinalClientEventSeq request) = []"
proof -
  from assms obtain az gs where gs: "authorizeRuntimeAttemptPrincipal p (rq_AttemptIdentity request) attempt False
        (\<lambda>n. clk (2 + n)) d = Inr (az, gs)"
    and facts: "r_Status run = ''running''" "r_CancelRequestID run = None"
      "runtimeResultActiveAttemptMatches run (rq_AttemptIdentity request) attempt"
      "a_LastClientEventSeq attempt \<le> rq_FinalClientEventSeq request"
    and rest: "(if \<not> clk 1 < deadline then tx_return True
       else tx_bind (result_guard (\<not> ((\<not> az_resumed az \<and> \<not> clk 1 < a_LeaseExpiresAt attempt) \<or>
           \<not> clk 1 < a_AttemptDeadlineAt attempt)) RuntimeResultErrorLeaseExpired) (\<lambda>_.
       tx_bind (\<lambda>d. let ranges = missingRuntimeEventRanges
                     (ListClientEventSequencesThrough (r_ID run) (a_ID attempt) (the (a_AttemptNo attempt))
                        (rq_FinalClientEventSeq request) d) (rq_FinalClientEventSeq request)
              in if ranges = [] then Inr ((), d) else Inl (missingRuntimeResultEvents ranges)) (\<lambda>_.
       tx_return False))) gs = Inr (exceeded, d')"
    unfolding result_checks_def tx_simps Let_def by (auto simp: tx_simps GetRunAttemptByResultID_def)
  obtain ys where ys: "gs = d\<lparr>db_grants := ys\<rparr>" using authorize_frame[OF gs] by blast
  have list: "ListClientEventSequencesThrough x y z n gs = ListClientEventSequencesThrough x y z n d" for x y z n
    by (simp add: ListClientEventSequencesThrough_def ys)
  have "d' = gs" using rest by (auto simp: tx_simps Let_def split: if_split_asm)
  then show "\<exists>gs. d' = d\<lparr>db_grants := gs\<rparr>" using ys by blast
  show "exceeded \<longleftrightarrow> \<not> clk 1 < deadline" "\<not> exceeded \<Longrightarrow> clk 1 < a_AttemptDeadlineAt attempt"
    using rest by (auto simp: tx_simps Let_def split: if_split_asm)
  show "\<not> exceeded \<Longrightarrow> missingRuntimeEventRanges
       (ListClientEventSequencesThrough (r_ID run) (a_ID attempt) (the (a_AttemptNo attempt))
          (rq_FinalClientEventSeq request) d) (rq_FinalClientEventSeq request) = []"
    using rest by (auto simp: tx_simps Let_def list split: if_split_asm)
qed (use assms in \<open>auto simp: result_checks_def tx_simps Let_def\<close>)

lemma finalizeTx_InrE:
  assumes "finalizeTx fe f began clk p request fp d = Inr (ack, d')"
  obtains (replay) locked run a where
      "lockRuntimePrincipal p (clk 0) d = Inr (locked, d)" "find_run (ra_RunID (rq_AttemptIdentity request)) d = Some run"
      "find_attempt (ra_AttemptID (rq_AttemptIdentity request)) d = Some a" "a_RunID a = r_ID run" "a_ResultID a \<noteq> None"
      "result_replay fe p request fp run a clk d = Inr (ack, d')"
  | (new) locked run deadline a where
      "lockRuntimePrincipal p (clk 0) d = Inr (locked, d)" "find_run (ra_RunID (rq_AttemptIdentity request)) d = Some run"
      "r_RunDeadlineAt run = Some deadline" "r_RuntimeContractID run = RuntimeContractID"
      "pe_AgentID p = r_AgentID run" "ra_AgentID (rq_AttemptIdentity request) = r_AgentID run"
      "find_attempt (ra_AttemptID (rq_AttemptIdentity request)) d = Some a" "a_RunID a = r_ID run" "a_ResultID a = None"
      "runtimeResultIdentityMatchesAttempt (fe_events fe) (rq_AttemptIdentity request) a" "validAt locked (clk 1)"
      "result_new fe f began p request fp run deadline a clk d = Inr (ack, d')"
proof -
  let ?i = "rq_AttemptIdentity request"
  from assms obtain locked d1 run d2 deadline d3 a d4 where
      lock: "lockRuntimePrincipal p (clk 0) d = Inr (locked, d1)"
    and run: "LockRunForResultFinalization (ra_RunID ?i) d1 = Some (run, d2)"
    and dl: "runtimeResultRunFromLocked run d2 = Inr (deadline, d3)"
    and ok: "pe_AgentID p = r_AgentID run" "ra_AgentID ?i = r_AgentID run" "validAt locked (clk 1)"
      "runtimeResultIdentityMatchesAttempt (fe_events fe) ?i a"
    and att: "LockRunAttemptForResult (r_ID run) (ra_AttemptID ?i) d3 = Some (a, d4)"
    and rest: "(if a_ResultID a \<noteq> None then result_replay fe p request fp run a clk
      else result_new fe f began p request fp run deadline a clk) d4 = Inr (ack, d')"
    unfolding finalizeTx_def Let_def tx_simps by (auto simp: tx_simps)
  have d1: "d1 = d" using lock by (rule lockRuntimePrincipal_keeps)
  have r: "d2 = d" "find_run (ra_RunID ?i) d = Some run" "r_RuntimeContractID run = RuntimeContractID"
    using run by (auto simp: LockRunForResultFinalization_def d1 split: option.split_asm if_split_asm)
  have t: "d3 = d" "r_RunDeadlineAt run = Some deadline"
    using dl by (auto simp: runtimeResultRunFromLocked_def r(1) tx_simps split: option.split_asm)
  have x: "d4 = d" "find_attempt (ra_AttemptID ?i) d = Some a" "a_RunID a = r_ID run"
    using att by (auto simp: LockRunAttemptForResult_def t(1) split: option.split_asm if_split_asm)
  show ?thesis
  proof (cases "a_ResultID a = None")
    case True
    with lock ok r t x rest d1 show ?thesis by (intro new) simp_all
  next
    case False
    with lock r t x rest d1 show ?thesis by (intro replay) simp_all
  qed
qed


text \<open>The decisions of a new result: what it is classified as, and what that means.\<close>

abbreviation result_class :: "ResultFinalizer \<Rightarrow> RuntimeResultRequest \<Rightarrow> RunRow \<Rightarrow> AttemptRow \<Rightarrow> string" where
  "result_class f request run a \<equiv> fz_classifier f \<lparr>ci_ExecutorType = a_ExecutorType a,
     ci_EndpointIdempotency = (r_EndpointIdempotencySnapshot run = Some True), ci_Request = request\<rparr>"

abbreviation result_exhausted :: "ResultFinalizer \<Rightarrow> RuntimeResultRequest \<Rightarrow> RunRow \<Rightarrow> AttemptRow \<Rightarrow> bool" where
  "result_exhausted f request run a \<equiv>
     result_class f request run a = ClassificationRetryable \<and> r_AttemptCount run \<ge> r_MaxAttempts run"

abbreviation result_retries :: "ResultFinalizer \<Rightarrow> RuntimeResultRequest \<Rightarrow> RunRow \<Rightarrow> AttemptRow \<Rightarrow> bool \<Rightarrow> bool" where
  "result_retries f request run a exceeded \<equiv>
     result_class f request run a = ClassificationRetryable \<and> \<not> exceeded \<and> \<not> result_exhausted f request run a"

lemma result_new_InrE:
  assumes "result_new fe f began p request fp run deadline a clk d = Inr (ack, d')"
  obtains exceeded gs status state outcome eventType code ackClass errorCode detail a1 d1 d2 where
    "result_checks p request run deadline a clk d = Inr (exceeded, d\<lparr>db_grants := gs\<rparr>)"
    "validateRuntimeResultClassification request (result_class f request run a)"
    "runtimeResultTerminalSemantics request (result_class f request run a) exceeded (result_exhausted f request run a) =
       (status, state, outcome, eventType, code, ackClass)"
    "FinishRunAttempt (r_ID run) (a_ID a) (a_LeaseID a) (a_FencingToken a) outcome (rq_ResultID request) fp
       (result_class f request run a) (rq_FinalClientEventSeq request) errorCode detail (clk 4) (d\<lparr>db_grants := gs\<rparr>) = Inr (Some a1, d1)"
    "releaseRuntimeAttemptCapacity a (\<lambda>n. clk (5 + n)) d1 = Inr ((), d2)"
    "(if result_retries f request run a exceeded then result_retry f request run a clk
      else result_terminal fe began request fp run a a1 errorCode (result_class f request run a) exceeded
         (result_exhausted f request run a) clk) d2 = Inr (ack, d')"
proof -
  let ?c = "result_class f request run a" and ?x = "result_exhausted f request run a"
  from assms obtain exceeded d0 errorCode detail a1 d1 d2 where
      chk: "result_checks p request run deadline a clk d = Inr (exceeded, d0)"
    and val: "validateRuntimeResultClassification request ?c"
    and fin: "FinishRunAttempt (r_ID run) (a_ID a) (a_LeaseID a) (a_FencingToken a)
         (case runtimeResultTerminalSemantics request ?c exceeded ?x of (_, _, attemptOutcome, _) \<Rightarrow> attemptOutcome)
         (rq_ResultID request) fp ?c (rq_FinalClientEventSeq request) errorCode detail (clk 4) d0 = Inr (Some a1, d1)"
    and rel: "releaseRuntimeAttemptCapacity a (\<lambda>n. clk (5 + n)) d1 = Inr ((), d2)"
    and rest: "(if result_retries f request run a exceeded then result_retry f request run a clk
      else result_terminal fe began request fp run a a1 errorCode ?c exceeded ?x clk) d2 = Inr (ack, d')"
    unfolding result_new_def Let_def tx_simps by (auto simp: tx_simps)
  obtain status state outcome eventType code ackClass where sem: "runtimeResultTerminalSemantics request ?c exceeded ?x =
      (status, state, outcome, eventType, code, ackClass)" by (rule prod_cases6)
  obtain gs where "d0 = d\<lparr>db_grants := gs\<rparr>" using result_checks_InrD(1)[OF chk] by blast
  with chk val fin rel rest sem show ?thesis by (intro that[of exceeded gs status state outcome eventType code ackClass]) simp_all
qed

lemma gives_back_slot_cong:
  "db_sessions d1 = db_sessions d \<Longrightarrow> db_nodes d1 = db_nodes d \<Longrightarrow> db_sessions d2' = db_sessions d2 \<Longrightarrow> db_nodes d2' = db_nodes d2 \<Longrightarrow>
     gives_back_slot a d1 d2 \<Longrightarrow> gives_back_slot a d d2'"
  by (simp only: gives_back_slot_def)

lemma run_leads_of_match: "runtimeResultActiveAttemptMatches run i a \<Longrightarrow> run_leads run a"
  by (simp add: runtimeResultActiveAttemptMatches_def run_leads_def)

text \<open>A new result closes the attempt; the step is the same for a retry and for the end of the run.\<close>

lemma result_new_step:
  assumes tx: "result_new fe f began p request fp run deadline a clk d = Inr (ack, d')"
    and r: "find_run (r_ID run) d = Some run" and a: "find_attempt (a_ID a) d = Some a" "a_RunID a = r_ID run" and shape: "slot_shape a"
  shows "run_step d d'"
  using tx
proof (rule result_new_InrE)
  fix exceeded gs status state outcome eventType code ackClass errorCode detail a1 d1 d2
  let ?d = "d\<lparr>db_grants := gs\<rparr>"
  assume chk: "result_checks p request run deadline a clk d = Inr (exceeded, ?d)"
    and sem: "runtimeResultTerminalSemantics request (result_class f request run a) exceeded (result_exhausted f request run a) =
       (status, state, outcome, eventType, code, ackClass)"
    and fin: "FinishRunAttempt (r_ID run) (a_ID a) (a_LeaseID a) (a_FencingToken a) outcome (rq_ResultID request) fp
       (result_class f request run a) (rq_FinalClientEventSeq request) errorCode detail (clk 4) ?d = Inr (Some a1, d1)"
    and rel: "releaseRuntimeAttemptCapacity a (\<lambda>n. clk (5 + n)) d1 = Inr ((), d2)"
    and rest: "(if result_retries f request run a exceeded then result_retry f request run a clk
      else result_terminal fe began request fp run a a1 errorCode (result_class f request run a) exceeded
         (result_exhausted f request run a) clk) d2 = Inr (ack, d')"
  note c = result_checks_InrD[OF chk]
  have a0: "find_attempt (a_ID a) ?d = Some a" using a(1) by simp
  note f1 = FinishRunAttempt_InrD[OF fin a0]
  have ended: "finishes a a1" unfolding f1(1) by (rule finishes_finished)
  note rl = release_statements[OF rel f1(2) a0 ended shape f1(4)]
  let ?a2 = "closed_attempt a1 (clk (5 + 0))"
  have closed: "closes_attempt a ?a2" by (rule closes_finished[OF shape f1(4) ended])
  have rows: "find_run (r_ID run) d2 = Some run" "find_attempt (a_ID a) d2 = Some ?a2"
    using r a(1) closed by (simp_all add: rl find_row_replace f1(1))
  have "\<exists>r'. closes_run run r' \<and> db_runs d' = update_row r_ID (r_ID run) (\<lambda>_. r') (db_runs d) \<and>
      db_attempts d' = db_attempts d2 \<and> db_sessions d' = db_sessions d2 \<and> db_nodes d' = db_nodes d2 \<and>
      (db_events d' = db_events d \<or>
       (\<exists>e. core_event e \<and> next_event d e \<and> ev_RunID e = r_ID run \<and> db_events d' = insert_row e (db_events d)))"
  proof (cases "result_retries f request run a exceeded")
    case True
    with rest have "result_retry f request run a clk d2 = Inr (ack, d')" by simp
    then show ?thesis by (rule result_retry_InrE[OF _ rows(1)]) (auto simp: rl)
  next
    case False
    with rest have "result_terminal fe began request fp run a a1 errorCode (result_class f request run a) exceeded
         (result_exhausted f request run a) clk d2 = Inr (ack, d')" by (simp only: if_False)
    from this sem rows obtain e r' where "core_event e" "next_event d2 e" "ev_RunID e = r_ID run" "db_events d' = insert_row e (db_events d2)"
        "db_runs d' = update_row r_ID (r_ID run) (\<lambda>_. r') (db_runs d2)" "closes_run run r'"
        "db_attempts d' = db_attempts d2" "db_sessions d' = db_sessions d2" "db_nodes d' = db_nodes d2"
      by (rule result_terminal_InrE)
    moreover have "next_event d e \<longleftrightarrow> next_event d2 e" for e by (rule next_event_cong) (simp add: rl)
    ultimately show ?thesis by (auto simp: rl)
  qed
  then obtain r' where r': "closes_run run r'" "db_runs d' = update_row r_ID (r_ID run) (\<lambda>_. r') (db_runs d)"
      "db_attempts d' = db_attempts d2" "db_sessions d' = db_sessions d2" "db_nodes d' = db_nodes d2"
    and ev: "db_events d' = db_events d \<or>
       (\<exists>e. core_event e \<and> next_event d e \<and> ev_RunID e = r_ID run \<and> db_events d' = insert_row e (db_events d))" by blast
  have slot: "gives_back_slot a d d'" by (rule gives_back_slot_cong[OF _ _ r'(4,5) rl(1)]) simp_all
  have att: "db_attempts d' = update_row a_ID (a_ID a) (\<lambda>_. ?a2) (db_attempts d)" using r'(3) rl(2) by simp
  show "run_step d d'"
    by (rule run_step.Close[OF r a f1(4) run_leads_of_match[OF c(4)] c(2) closed r'(1) slot att r'(2) ev])
qed

lemma finalizeTx_step:
  assumes "finalizeTx fe f began clk p request fp d = Inr (ack, d')" "lease_inv d"
  shows "d' = d \<or> run_step d d'"
  using assms(1)
proof (cases rule: finalizeTx_InrE)
  case (replay locked run a)
  then show ?thesis
    by (auto simp: result_replay_def tx_simps dest: authorize_stored_keeps split: sum.split_asm)
next
  case (new locked run deadline a)
  have keys: "r_ID run = ra_RunID (rq_AttemptIdentity request)" "a_ID a = ra_AttemptID (rq_AttemptIdentity request)"
    using new(2,7) by (auto dest: find_row_key)
  have "slot_shape a" using assms(2) find_row_SomeD[OF new(7)] by (auto simp: lease_inv_def slots_ok_def)
  from result_new_step[OF new(12) _ _ new(8) this] new(2,7) keys show ?thesis by simp
qed


section \<open>Finished attempts\<close>

text \<open>No step touches an attempt that is finished.\<close>

lemma run_step_attempts:
  assumes "run_step d d'"
  obtains (same) "db_attempts d' = db_attempts d"
    | (new) a where "db_attempts d' = insert_row a (db_attempts d)"
    | (change) k a a' where "find_attempt k d = Some a" "a_FinishedAt a = None" "a_ID a' = k"
        "db_attempts d' = update_row a_ID k (\<lambda>_. a') (db_attempts d)"
  using assms
proof cases
  case Lease
  then show ?thesis
  proof cases
    case (Offer runID r sessionID s n now ttl a attemptID leaseID core s' t1 n' t2)
    then show ?thesis by (intro new[of a]) simp
  next
    case (Confirm runID r attemptID a now leaseTtlMs a' core attachmentID)
    with find_row_key[OF Confirm(3)] show ?thesis by (intro change[of attemptID a a']) (auto simp: open_lease_def)
  next
    case (Renew runID r attemptID a now leaseTtlMs a' core)
    with find_row_key[OF Renew(3)] show ?thesis by (intro change[of attemptID a a']) (auto simp: open_lease_def)
  next
    case (GiveBack runID r attemptID a sessionID nodeID s n outcome a' errorCode t1 t2 s' t3 n' t4 signals)
    with find_row_key[OF GiveBack(3)] show ?thesis
      by (intro change[of attemptID a a']) (auto simp: open_lease_def released_attempt_def)
  qed
next
  case (Record runID r attemptID a no e clientEventID n skills mcps grants)
  with find_row_key[OF Record(3)] show ?thesis
    by (intro change[of attemptID a "a\<lparr>a_LastClientEventSeq := max (a_LastClientEventSeq a) n\<rparr>"]) auto
next
  case (Close runID r attemptID a a' r')
  with find_row_key[OF Close(2)] show ?thesis by (intro change[of attemptID a a']) (auto simp: closes_attempt_def)
next
  case Settle
  then show ?thesis by (intro same) simp
next
  case (Stop runID r attemptID a a')
  with find_row_key[OF Stop(2)] show ?thesis by (intro change[of attemptID a a']) (auto simp: closes_attempt_def)
next
  case Note
  then show ?thesis by (intro same) simp
qed

lemma run_step_finished:
  assumes "run_step d d'" "find_attempt j d = Some b" "a_FinishedAt b \<noteq> None"
  shows "find_attempt j d' = Some b"
  using assms(1)
proof (cases rule: run_step_attempts)
  case same
  with assms(2) show ?thesis by simp
next
  case (new a)
  with assms(2) show ?thesis by (simp add: find_row_insert)
next
  case (change k a a')
  have "j \<noteq> k" using change(1,2) assms(2,3) by auto
  then show ?thesis using change(4) assms(2) find_row_replace[OF change(1,3), of j] by simp
qed

lemma steps_finished:
  "run_step\<^sup>*\<^sup>* d d' \<Longrightarrow> find_attempt j d = Some b \<Longrightarrow> a_FinishedAt b \<noteq> None \<Longrightarrow> find_attempt j d' = Some b"
  by (induction rule: rtranclp_induct) (auto intro: run_step_finished)


section \<open>What is stored\<close>

text \<open>The acknowledgement of a new result is what the stored rows say, for a retry as well as for the end of the run.\<close>

lemma stored_ack_retry:
  assumes "a_ResultID a = Some i" "a_ResultClassification a = Some ClassificationRetryable" "a_Outcome a = Some ''retryable_failure''"
    "r_Status r = ''running''" "r_DispatchState r = ''retry_wait''"
  shows "runtimeResultAckFromStored r a v = Inr \<lparr>rk_ResultID = i, rk_Classification = ClassificationRetryable,
    rk_RunStatus = r_Status r, rk_DispatchState = r_DispatchState r, rk_Replayed = v, rk_NextAttemptAt = r_NextAttemptAt r\<rparr>"
  using assms by (simp add: runtimeResultAckFromStored_def)

lemma terminal_semanticsE:
  assumes "runtimeResultTerminalSemantics request c exceeded exhausted = (status, state, outcome, eventType, code, ackClass)"
    and "\<not> (c = ClassificationRetryable \<and> \<not> exceeded \<and> \<not> exhausted)"
  obtains (timeout) "exceeded" "status = ''timeout''" "state = ''terminal''" "outcome = ''timeout''"
      "code = ''RUN_DEADLINE_EXCEEDED''" "ackClass = ClassificationTimeout"
    | (dead_letter) "\<not> exceeded" "exhausted" "status = ''failed''" "state = ''dead_letter''" "outcome = ''retryable_failure''"
      "code = ''RUNTIME_RETRY_EXHAUSTED''" "ackClass = ClassificationDeadLetter"
    | (success) "\<not> exceeded" "\<not> exhausted" "c = ClassificationSuccess" "status = ''success''" "state = ''terminal''"
      "outcome = ''success''" "code = []" "ackClass = ClassificationSuccess"
    | (failed) "\<not> exceeded" "\<not> exhausted" "c \<noteq> ClassificationSuccess" "status = ''failed''" "state = ''terminal''"
      "outcome = ''non_retryable_failure''" "code = rf_ErrorCode (the (rq_Error request))" "ackClass = ClassificationNonRetryable"
proof -
  consider "exceeded" | "\<not> exceeded" "exhausted" | "\<not> exceeded" "\<not> exhausted" "c = ClassificationSuccess"
    | "\<not> exceeded" "\<not> exhausted" "c \<noteq> ClassificationSuccess" "c \<noteq> ClassificationRetryable" using assms(2) by blast
  then show ?thesis
  proof cases
    case 1
    with assms(1) show ?thesis by (intro timeout) (auto simp: runtimeResultTerminalSemantics_def)
  next
    case 2
    with assms(1) show ?thesis by (intro dead_letter) (auto simp: runtimeResultTerminalSemantics_def)
  next
    case 3
    with assms(1) show ?thesis by (intro success) (auto simp: runtimeResultTerminalSemantics_def)
  next
    case 4
    with assms(1) show ?thesis by (intro failed) (auto simp: runtimeResultTerminalSemantics_def)
  qed
qed

lemma stored_ack_terminal:
  assumes sem: "runtimeResultTerminalSemantics request c exceeded exhausted = (status, state, outcome, eventType, code, ackClass)"
    and final: "\<not> (c = ClassificationRetryable \<and> \<not> exceeded \<and> \<not> exhausted)"
    and a: "a_ResultID a = Some i" "a_ResultClassification a = Some c"
    and r: "r_Status r = status" "r_DispatchState r = state" "r_LatestAttemptID r = Some (a_ID a)"
  shows "runtimeResultAckFromStored r a v = Inr \<lparr>rk_ResultID = i, rk_Classification = ackClass, rk_RunStatus = status,
      rk_DispatchState = state, rk_Replayed = v, rk_NextAttemptAt = r_NextAttemptAt r\<rparr>" "status \<noteq> ''running''"
proof -
  show "runtimeResultAckFromStored r a v = Inr \<lparr>rk_ResultID = i, rk_Classification = ackClass, rk_RunStatus = status,
      rk_DispatchState = state, rk_Replayed = v, rk_NextAttemptAt = r_NextAttemptAt r\<rparr>"
    using sem final by (rule terminal_semanticsE) (simp_all add: runtimeResultAckFromStored_def a r)
  show "status \<noteq> ''running''" using sem final by (rule terminal_semanticsE) simp_all
qed

lemma result_new_stored:
  assumes tx: "result_new fe f began p request fp run deadline a clk d = Inr (ack, d')"
    and r: "find_run (r_ID run) d = Some run" and a: "find_attempt (a_ID a) d = Some a" "a_RunID a = r_ID run" and shape: "slot_shape a"
  obtains r' a' where "find_run (r_ID run) d' = Some r'" "find_attempt (a_ID a) d' = Some a'"
    "runtimeResultAckFromStored r' a' False = Inr ack" "same_identity a a'" "a_FinishedAt a' \<noteq> None"
    "a_ResultID a' = Some (rq_ResultID request)" "a_ResultFingerprint a' = Some fp" "length fp = 32"
    "a_ResultClassification a' \<noteq> None" "r_Status r' = rk_RunStatus ack" "r_DispatchState r' = rk_DispatchState ack"
  using tx
proof (rule result_new_InrE)
  fix exceeded gs status state outcome eventType code ackClass errorCode detail a1 d1 d2
  let ?d = "d\<lparr>db_grants := gs\<rparr>"
  assume chk: "result_checks p request run deadline a clk d = Inr (exceeded, ?d)"
    and sem: "runtimeResultTerminalSemantics request (result_class f request run a) exceeded (result_exhausted f request run a) =
       (status, state, outcome, eventType, code, ackClass)"
    and fin: "FinishRunAttempt (r_ID run) (a_ID a) (a_LeaseID a) (a_FencingToken a) outcome (rq_ResultID request) fp
       (result_class f request run a) (rq_FinalClientEventSeq request) errorCode detail (clk 4) ?d = Inr (Some a1, d1)"
    and rel: "releaseRuntimeAttemptCapacity a (\<lambda>n. clk (5 + n)) d1 = Inr ((), d2)"
    and rest: "(if result_retries f request run a exceeded then result_retry f request run a clk
      else result_terminal fe began request fp run a a1 errorCode (result_class f request run a) exceeded
         (result_exhausted f request run a) clk) d2 = Inr (ack, d')"
  have a0: "find_attempt (a_ID a) ?d = Some a" using a(1) by simp
  note f1 = FinishRunAttempt_InrD[OF fin a0]
  have ended: "finishes a a1" unfolding f1(1) by (rule finishes_finished)
  note rl = release_statements[OF rel f1(2) a0 ended shape f1(4)]
  let ?a2 = "closed_attempt a1 (clk (5 + 0))"
  have rows: "find_run (r_ID run) d2 = Some run" "find_attempt (a_ID a) d2 = Some ?a2"
    using r a(1) by (simp_all add: rl find_row_replace f1(1))
  have a2: "same_identity a ?a2" "a_FinishedAt ?a2 \<noteq> None" "a_ResultID ?a2 = Some (rq_ResultID request)"
      "a_ResultFingerprint ?a2 = Some fp" "length fp = 32" "a_ResultClassification ?a2 = Some (result_class f request run a)"
      "a_Outcome ?a2 = Some outcome" "a_ID ?a2 = a_ID a"
    using closes_finished[OF shape f1(4) ended] f1(3)
    by (auto simp: f1(1) closes_attempt_def closed_attempt_def finished_attempt_def attempt_result_checks_def)
  have latest: "r_LatestAttemptID run = Some (a_ID a)"
    using result_checks_InrD(4)[OF chk] by (simp add: runtimeResultActiveAttemptMatches_def)
  show thesis
  proof (cases "result_retries f request run a exceeded")
    case True
    with rest have retry: "result_retry f request run a clk d2 = Inr (ack, d')" by simp
    have outcome: "outcome = ''retryable_failure''"
      using sem True by (simp add: runtimeResultTerminalSemantics_def split: if_split_asm)
    from retry rows(1) obtain r' where r': "d' = set_run (r_ID run) r' d2" "closes_run run r'" "r_Status r' = ''running''"
        "r_DispatchState r' = ''retry_wait''"
        "ack = \<lparr>rk_ResultID = rq_ResultID request, rk_Classification = ClassificationRetryable, rk_RunStatus = r_Status r',
           rk_DispatchState = r_DispatchState r', rk_Replayed = False, rk_NextAttemptAt = r_NextAttemptAt r'\<rparr>"
      by (rule result_retry_InrE)
    have "find_run (r_ID run) d' = Some r'" "find_attempt (a_ID a) d' = Some ?a2"
      using rows r'(1,2) by (simp_all add: find_row_replace closes_run_def)
    moreover have "runtimeResultAckFromStored r' ?a2 False = Inr ack"
      using stored_ack_retry[of ?a2 "rq_ResultID request" r' False] a2 True outcome r' by simp
    ultimately show thesis using a2 r' by (intro that[of r' ?a2]) simp_all
  next
    case False
    with rest have term_tx: "result_terminal fe began request fp run a a1 errorCode (result_class f request run a) exceeded
         (result_exhausted f request run a) clk d2 = Inr (ack, d')" by (simp only: if_False)
    from term_tx sem rows obtain e r' where r': "db_runs d' = update_row r_ID (r_ID run) (\<lambda>_. r') (db_runs d2)" "closes_run run r'"
        "r_Status r' = status" "r_DispatchState r' = state" "r_NextAttemptAt r' = None"
        "r_LatestAttemptID r' = r_LatestAttemptID run" "db_attempts d' = db_attempts d2"
        "ack = \<lparr>rk_ResultID = rq_ResultID request, rk_Classification = ackClass, rk_RunStatus = status,
          rk_DispatchState = state, rk_Replayed = False, rk_NextAttemptAt = None\<rparr>"
      by (rule result_terminal_InrE)
    have "find_run (r_ID run) d' = Some r'" "find_attempt (a_ID a) d' = Some ?a2"
      using rows r'(1,2,7) by (simp_all add: find_row_replace closes_run_def)
    moreover have "runtimeResultAckFromStored r' ?a2 False = Inr ack"
      using stored_ack_terminal(1)[OF sem False a2(3,6) r'(3,4)] a2(8) latest r'(5,6,8) by simp
    ultimately show thesis using a2 r' by (intro that[of r' ?a2]) simp_all
  qed
qed

end
