(* ===== verification/Result_Example.thy ===== *)
theory Result_Example
  imports Result_Steps Event_Example
begin

text \<open>
  The concrete world of \<open>Event_Example\<close>, in which the runtime that stored one event reports the
  success of its attempt.
\<close>

definition wit_result_env :: result_env where
  "wit_result_env = \<lparr>fe_events = wit_event_env,
     fe_artifacts = \<lparr>ae_floats = ee_floats wit_event_env, ae_int64 = (\<lambda>_. 0), ae_Marshal = (\<lambda>_. Inr ''{}'')\<rparr>,
     fe_NewSHA1 = (\<lambda>_ _. 40), fe_Marshal = (\<lambda>_. Inr ''{}''), fe_Unmarshal = (\<lambda>_. None), fe_event_types = (\<lambda>_. None)\<rparr>"

definition wit_result :: RuntimeResultRequest where
  "wit_result = \<lparr>rq_AttemptIdentity = wit_event_identity, rq_ResultID = 30, rq_Status = ''success'', rq_Output = Some [],
     rq_Error = None, rq_DurationMS = 5, rq_FinalClientEventSeq = 1\<rparr>"

definition wit_ready :: runtime_db where
  "wit_ready = wit_reported\<lparr>db_agents := [\<lparr>ag_ID = 3, ag_CreatorID = 7, ag_Visibility = ''public'', ag_WebhookURL = None,
     ag_TotalCalls = 0, ag_TotalRevenueCents = 0\<rparr>]\<rparr>"

definition wit_result_clock :: "nat \<Rightarrow> gotime" where
  "wit_result_clock n = 3000 + int n"

abbreviation wit_finalizer :: ResultFinalizer where
  "wit_finalizer \<equiv> NewResultFinalizer None None"

abbreviation wit_hash :: bytes where
  "wit_hash \<equiv> replicate 32 (CHR ''h'')"

definition wit_owner :: AttemptRow where
  "wit_owner = wit_accepted\<lparr>a_LastClientEventSeq := 1\<rparr>"

definition wit_leased :: RunRow where
  "wit_leased = executing_run (offered_run wit_run wit_attempt) wit_accepted"

definition wit_result_ack :: RuntimeResultAck where
  "wit_result_ack = \<lparr>rk_ResultID = 30, rk_Classification = ''success'', rk_RunStatus = ''success'', rk_DispatchState = ''terminal'',
     rk_Replayed = False, rk_NextAttemptAt = None\<rparr>"

lemma wit_ready_rows:
  "find_run 6 wit_ready = Some wit_leased" "find_attempt 10 wit_ready = Some wit_owner"
  "db_attempts wit_ready = [wit_owner]" "db_runs wit_ready = [wit_leased]" "db_events wit_ready = [wit_event]"
  "db_sessions wit_ready = [wit_session 1 1005 1005]" "db_nodes wit_ready = [wit_node 1 (Some 1006) 1006]"
  "db_ledger wit_ready = []" "db_delegations wit_ready = []" "db_delivery_targets wit_ready = []" "db_callbacks wit_ready = []"
  "db_artifacts wit_ready = []" "db_availability wit_ready = []" "db_tasks wit_ready = []"
  "db_signals wit_ready = []"
  by (simp_all add: wit_ready_def wit_reported_def wit_executing_def wit_worlds wit_accepted_def find_row_def executing_run_def
      offered_run_def wit_leased_def wit_owner_def)

lemma wit_result_valid: "validateRuntimeResultRequest wit_result = None"
  using wit_event_identity_valid
  by (simp add: validateRuntimeResultRequest_def wit_result_def err_if_def max_int64_def)

lemma runes_plain: "a < 128 \<Longrightarrow> runes (a # xs) = a # runes xs"
  by (simp add: runes.simps(2) Let_def)

lemma wit_result_text:
  "\<exists>s. CanonicalizeRFC8785 (fe_floats wit_result_env) (VObject [(''duration_ms'', VInt 5), (''final_client_event_seq'', VInt 1),
     (''schema'', VString ''openlinker.runtime-result.v1''), (''status'', VString ''success''), (''output'', VObject [])]) = Inr s \<and>
     length s \<le> 4194304"
proof -
  have five: "signedIntegerExactlyRepresentable 5" by code_simp
  have sorted: "sort_members [(''duration_ms'', a), (''final_client_event_seq'', b), (''schema'', c), (''status'', x), (''output'', y)] =
      [(''duration_ms'', a), (''final_client_event_seq'', b), (''output'', y), (''schema'', c), (''status'', x)]" for a b c x y :: "go_error + string"
    by (simp add: sort_members_def utf16Units_def runes_plain utf16_rune_def)
  have empty: "sort_members ([] :: (string \<times> (go_error + string)) list) = []" by (simp add: sort_members_def)
  show ?thesis
    by (simp add: CanonicalizeRFC8785_def sorted empty member_text_def appendCanonicalJSONString_def ValidString_def five wit_one_representable
        appendCanonicalFloat_def canonical_number_def wit_result_env_def wit_event_env_def quoted_def escape_byte_def)
qed

lemma wit_result_fingerprint: "RuntimeResultFingerprint wit_result_env wit_result = Inr wit_hash"
proof -
  let ?ms = "[(''duration_ms'', VInt 5), (''final_client_event_seq'', VInt 1), (''schema'', VString ''openlinker.runtime-result.v1''),
    (''status'', VString ''success''), (''output'', VObject [])]"
  have body: "canonicalRuntimeResultValue (fe_floats wit_result_env) wit_result = Inr (VObject ?ms)"
    using wit_result_valid by (simp add: canonicalRuntimeResultValue_def) (simp add: wit_result_def of_jmap_opt_def)
  from wit_result_text show ?thesis
    by (auto simp: RuntimeResultFingerprint_def body maxRuntimeResultPayloadBytes_def) (simp add: wit_result_env_def wit_event_env_def)
qed


lemma wit_result_fields:
  "ra_RunID (rq_AttemptIdentity wit_result) = 6" "ra_AttemptID (rq_AttemptIdentity wit_result) = 10"
  "ra_AgentID (rq_AttemptIdentity wit_result) = 3" "rq_AttemptIdentity wit_result = wit_event_identity"
  "rq_ResultID wit_result = 30" "rq_FinalClientEventSeq wit_result = 1" "rq_Error wit_result = None" "rq_Output wit_result = Some []"
  "rq_Status wit_result = ''success''"
  by (simp_all add: wit_result_def wit_event_identity_def)

lemma wit_identity_fields:
  "ra_RunID wit_event_identity = 6" "ra_AttemptID wit_event_identity = 10" "ra_AgentID wit_event_identity = 3"
  by (simp_all add: wit_event_identity_def)

lemma wit_leased_fields:
  "r_ID wit_leased = 6" "r_Status wit_leased = ''running''" "r_DispatchState wit_leased = ''executing''"
  "r_RunDeadlineAt wit_leased = Some 2000000000000" "r_AgentID wit_leased = 3" "r_RuntimeContractID wit_leased = RuntimeContractID"
  "r_CancelRequestID wit_leased = None" "r_ActiveAttemptID wit_leased = Some 10" "r_UserID wit_leased = 7"
  "r_EndpointIdempotencySnapshot wit_leased = None" "r_CreatorRevenueCents wit_leased = 0"
  by (simp_all add: wit_leased_def executing_run_def offered_run_def wit_run_def wit_attempt_def)

lemma wit_owner_fields:
  "a_ID wit_owner = 10" "a_RunID wit_owner = 6" "a_LeaseID wit_owner = 11" "a_FencingToken wit_owner = 1" "a_AttemptNo wit_owner = Some 1"
  "a_ExecutorType wit_owner = ''runtime''" "a_ResultID wit_owner = None" "a_FinishedAt wit_owner = None"
  "a_AcceptedAt wit_owner = Some 2002" "a_LastClientEventSeq wit_owner = 1" "a_LeaseExpiresAt wit_owner = 60000002002"
  "a_AttemptDeadlineAt wit_owner = 1800000001007" "a_NodeID wit_owner = Some 2" "a_ActiveRuntimeSessionID wit_owner = Some 1"
  "a_SlotAcquiredAt wit_owner = Some 1007" "a_SlotReleasedAt wit_owner = None" "a_AgentID wit_owner = 3"
  by (simp_all add: wit_owner_def wit_accepted_def wit_attempt_def)

lemma wit_result_owner:
  "runtimePrincipalMatchesAttempt wit_event_principal wit_owner" "runtimeResultActiveAttemptMatches wit_leased wit_event_identity wit_owner"
  "runtimeResultIdentityMatchesAttempt wit_event_env wit_event_identity wit_owner"
proof -
  show "runtimePrincipalMatchesAttempt wit_event_principal wit_owner"
    using wit_event_owner by (auto simp: wit_owner_def runtimePrincipalMatchesAttempt_def)
  show "runtimeResultActiveAttemptMatches wit_leased wit_event_identity wit_owner"
    by (simp add: runtimeResultActiveAttemptMatches_def runtimeResultConnectionMatchesExecutor_def wit_event_identity_def
        wit_leased_def wit_owner_def executing_run_def offered_run_def wit_run_def wit_accepted_def wit_attempt_def)
  have "stored_identity wit_owner = wit_event_identity"
    by (simp add: stored_identity_def wit_event_identity_def wit_owner_def wit_accepted_def wit_attempt_def)
  then show "runtimeResultIdentityMatchesAttempt wit_event_env wit_event_identity wit_owner"
    by (simp add: runtimeResultIdentityMatchesAttempt_def)
qed

lemma wit_result_checks:
  "result_checks wit_event_principal wit_result wit_leased 2000000000000 wit_owner wit_result_clock wit_ready = Inr (False, wit_ready)"
proof -
  have other: "GetRunAttemptByResultID 6 30 wit_ready = None"
    by (simp add: GetRunAttemptByResultID_def wit_ready_rows wit_owner_fields)
  have auth: "authorizeRuntimeAttemptPrincipal wit_event_principal wit_event_identity wit_owner False c wit_ready =
      Inr (\<lparr>az_resumed = False, az_permission = [], az_grantID = uuid_Nil\<rparr>, wit_ready)" for c
    using wit_result_owner(1) by (simp add: authorizeRuntimeAttemptPrincipal_def tx_defs)
  have none: "missingRuntimeEventRanges (ListClientEventSequencesThrough 6 10 1 1 wit_ready) 1 = []"
    by (simp add: ListClientEventSequencesThrough_def wit_ready_rows wit_event_def missingRuntimeEventRanges_def int64_id
        List.map_filter_simps)
  show ?thesis
    using wit_result_owner(2)
    by (simp add: result_checks_def tx_defs result_guard_def map_principal_error_def other auth none wit_result_fields
        wit_leased_fields wit_owner_fields wit_result_clock_def)
qed


definition wit_done :: AttemptRow where
  "wit_done = finished_attempt wit_owner ''success'' 30 wit_hash ''success'' 1 None None 3004"

lemma wit_done_fields:
  "a_ID wit_done = 10" "a_RunID wit_done = 6" "a_LeaseID wit_done = 11" "a_FencingToken wit_done = 1" "a_AttemptNo wit_done = Some 1"
  "a_ExecutorType wit_done = ''runtime''" "a_ResultID wit_done = Some 30" "a_ResultFingerprint wit_done = Some wit_hash"
  "a_Outcome wit_done = Some ''success''" "a_FinishedAt wit_done = Some 3004" "a_ResultAcknowledgedAt wit_done = Some 3004"
  "a_NodeID wit_done = Some 2" "a_ActiveRuntimeSessionID wit_done = Some 1" "a_SlotAcquiredAt wit_done = Some 1007"
  "a_SlotReleasedAt wit_done = None"
  by (simp_all add: wit_done_def finished_attempt_def wit_owner_fields)

definition wit_settled :: runtime_db where
  "wit_settled = wit_ready\<lparr>db_attempts := [wit_done]\<rparr>"

definition wit_released :: runtime_db where
  "wit_released = wit_ready\<lparr>db_attempts := [closed_attempt wit_done 3005], db_sessions := [wit_session 0 1005 3006],
     db_nodes := [wit_node 0 (Some 1006) 3007], db_signals := [\<lparr>sg_EventType = ''node.capacity.available'', sg_AgentID = 3,
        sg_RunID = Some 6, sg_Payload = signal_payload ''node_id'' 2, sg_AvailableAt = 3008\<rparr>]\<rparr>"

lemma wit_result_finish:
  "FinishRunAttempt 6 10 11 1 ''success'' 30 wit_hash ''success'' 1 None None 3004 wit_ready =
     Inr (Some wit_done, wit_settled)"
proof -
  have "attempt_result_checks wit_done"
    by (simp add: attempt_result_checks_def wit_done_def finished_attempt_def wit_owner_fields)
  then show ?thesis
    by (simp add: FinishRunAttempt_def wit_ready_rows find_row_def attempt_key_def wit_owner_fields wit_settled_def
        update_row_def flip: wit_done_def)
qed

lemma wit_result_release:
  "releaseRuntimeAttemptCapacity wit_owner (\<lambda>n. wit_result_clock (5 + n)) wit_settled = Inr ((), wit_released)"
proof -
  have row: "find_attempt 10 wit_settled = Some wit_done"
    by (simp add: wit_settled_def find_row_def wit_done_fields)
  let ?d = "wit_ready\<lparr>db_attempts := [closed_attempt wit_done 3005]\<rparr>"
  have mark: "MarkRunAttemptCapacityReleased 6 10 11 1 3005 wit_settled =
      Some (\<lparr>cap_RuntimeSessionID = 1, cap_NodeID = 2, cap_SlotAcquiredAt = 1007, cap_SlotReleasedAt = 3005\<rparr>, ?d)"
    unfolding MarkRunAttemptCapacityReleased_def row
    by (simp add: attempt_key_def wit_done_fields closed_attempt_def update_row_def wit_settled_def)
  have ses: "ReleaseRuntimeSessionSlot 1 3006 ?d = Some (wit_session 0 1005 3006, ?d\<lparr>db_sessions := [wit_session 0 1005 3006]\<rparr>)"
    by (simp add: ReleaseRuntimeSessionSlot_def wit_ready_rows find_row_def update_row_def wit_session_def Let_def)
  have nod: "ReleaseRuntimeNodeSlot 2 3007 (?d\<lparr>db_sessions := x\<rparr>) =
      Some (wit_node 0 (Some 1006) 3007, ?d\<lparr>db_sessions := x, db_nodes := [wit_node 0 (Some 1006) 3007]\<rparr>)" for x
    by (simp add: ReleaseRuntimeNodeSlot_def wit_ready_rows find_row_def update_row_def wit_node_def Let_def)
  show ?thesis
    by (simp add: releaseRuntimeAttemptCapacity_def wit_owner_fields wit_result_clock_def tx_defs mark ses nod
        createRuntimeNodeCapacityAvailableSignal_def CreateRuntimeSignal_def insert_row_def wit_released_def Let_def wit_ready_rows)
qed


definition wit_terminal_event :: EventRow where
  "wit_terminal_event = \<lparr>ev_ID = 40, ev_RunID = 6, ev_ParentRunID = None, ev_Sequence = 2, ev_EventType = ''run.completed'',
     ev_Payload = ''{}'', ev_CreatedAt = 3000, ev_ClientEventID = None, ev_ClientEventSeq = None, ev_PayloadFingerprint = None,
     ev_AttemptID = None, ev_AttemptNo = None, ev_FencingToken = None\<rparr>"

definition wit_announced :: runtime_db where
  "wit_announced = wit_released\<lparr>db_events := [wit_event, wit_terminal_event]\<rparr>"

definition wit_ended_run :: RunRow where
  "wit_ended_run = (clear_lease wit_leased)\<lparr>r_Status := ''success'', r_DispatchState := ''terminal'', r_Output := Some ''{}'',
     r_ErrorCode := None, r_ErrorMessage := None, r_DurationMs := Some 5, r_FinishedAt := Some 3009, r_NextAttemptAt := None,
     r_ResultID := Some 30, r_ResultFingerprint := Some wit_hash, r_TerminalEventID := Some 40, r_DeadLetteredAt := None\<rparr>"

definition wit_ended :: runtime_db where
  "wit_ended = wit_announced\<lparr>db_runs := [wit_ended_run]\<rparr>"

lemma wit_released_rows:
  "db_runs wit_released = [wit_leased]" "db_attempts wit_released = [closed_attempt wit_done 3005]" "db_events wit_released = [wit_event]"
  "db_delegations wit_released = []" "db_delivery_targets wit_released = []" "db_callbacks wit_released = []" "db_ledger wit_released = []"
  "find_row ag_ID 3 (db_agents wit_released) = Some \<lparr>ag_ID = 3, ag_CreatorID = 7, ag_Visibility = ''public'', ag_WebhookURL = None,
     ag_TotalCalls = 0, ag_TotalRevenueCents = 0\<rparr>"
  by (simp_all add: wit_released_def wit_ready_rows) (simp add: wit_ready_def find_row_def)

lemma wit_result_discover:
  "discoverRuntimeResultEffects wit_result_env wit_leased 40 ''run.completed'' wit_released = Inr ((None, []), wit_released)"
  by (simp add: discoverRuntimeResultEffects_def tx_defs GetRunDelegationByChild_def webhook_effects_def GetAgentWebhookConfig_def
      delivery_effects_def GetDefaultDeliveryTarget_def ListActiveTaskCallbackSubscriptionsForEvent_def wit_released_rows
      wit_leased_fields sort_effects_def find_row_def[of dl_ChildRunID])

lemma wit_result_event:
  "InsertTerminalRunEvent 40 3000 6 None ''run.completed'' ''{}'' wit_released = Inr (wit_terminal_event, wit_announced)"
proof -
  have "last_sequence 6 wit_released = 1"
    by (simp add: last_sequence_def wit_released_rows wit_event_def Collect_conv_if)
  then show ?thesis
    by (simp add: InsertTerminalRunEvent_def LockRunForResultFinalization_def wit_released_rows find_row_def wit_leased_fields
        insert_event_def event_conflict_def wit_event_def insert_row_def wit_announced_def wit_terminal_event_def sql_eq_def)
qed

lemma wit_result_ends:
  "FinalizeRunFromResult 6 10 ''success'' ''terminal'' (Some ''{}'') None None (Some 30) (Some wit_hash) 5 40 3009 wit_announced =
     Inr (Some wit_ended_run, wit_ended)"
proof -
  have rows: "find_run 6 wit_announced = Some wit_leased" "find_attempt 10 wit_announced = Some (closed_attempt wit_done 3005)"
    by (simp_all add: wit_announced_def wit_released_rows find_row_def wit_leased_fields wit_done_fields)
  have checks: "run_state_checks wit_ended_run" by (simp add: run_state_checks_def wit_ended_run_def)
  have ended: "set_run 6 wit_ended_run wit_announced = wit_ended"
    by (simp add: wit_ended_def wit_announced_def wit_released_rows update_row_def wit_leased_fields)
  have closed: "a_Outcome (closed_attempt wit_done 3005) = Some ''success''" "a_ResultID (closed_attempt wit_done 3005) = Some 30"
      "a_ResultFingerprint (closed_attempt wit_done 3005) = Some wit_hash" "a_FinishedAt (closed_attempt wit_done 3005) = Some 3004"
      "a_ResultAcknowledgedAt (closed_attempt wit_done 3005) = Some 3004" "a_RunID (closed_attempt wit_done 3005) = 6"
    by (simp_all add: closed_attempt_def wit_done_fields)
  show ?thesis
    unfolding FinalizeRunFromResult_def rows
    by (simp add: wit_leased_fields wit_done_fields closed finalize_allowed_def Let_def checks ended flip: wit_ended_run_def)
qed


lemma wit_result_materials:
  obtains xs ts where "result_artifacts wit_result_env 6 wit_result wit_ended = Inr ((), wit_ended\<lparr>db_artifacts := xs, db_tasks := ts\<rparr>)"
proof -
  have items: "runArtifactsFromOutput (fe_artifacts wit_result_env) [] = ([plain_draft ''json'' cn_output [] True], [])"
    by (simp add: runArtifactsFromOutput_def object_member_def)
  have none: "\<not> HasRunArtifactsByRun 6 wit_ended"
    by (simp add: HasRunArtifactsByRun_def wit_ended_def wit_announced_def wit_released_def wit_ready_rows)
  have bytes: "ae_Marshal (fe_artifacts wit_result_env) v = Inr ''{}''" for v by (simp add: wit_result_env_def)
  obtain d1 where d1: "createRunArtifacts (fe_artifacts wit_result_env) 6 [] wit_ended = Inr ([], d1)"
    using none by (simp add: createRunArtifacts_def items tx_defs plain_draft_def bytes)
  obtain xs where xs: "d1 = wit_ended\<lparr>db_artifacts := xs\<rparr>" using createRunArtifacts_frame[OF d1] by blast
  obtain ts where "CompletePrivateTaskFromSuccessfulRun 6 (privateTaskCompletionSummary (fe_artifacts wit_result_env) []) d1 =
      wit_ended\<lparr>db_artifacts := xs, db_tasks := ts\<rparr>"
    using CompletePrivateTask_frame unfolding xs by blast
  then show ?thesis by (intro that) (simp add: result_artifacts_def tx_defs wit_result_fields d1)
qed

lemma wit_result_terminal:
  obtains xs ts l ag av where "result_terminal wit_result_env 3000 wit_result wit_hash wit_leased wit_owner wit_done None ''success''
    False False wit_result_clock wit_released = Inr (wit_result_ack, wit_ended\<lparr>db_artifacts := xs, db_tasks := ts, db_ledger := l,
      db_agents := ag, db_availability := av\<rparr>)"
proof -
  have sem: "runtimeResultTerminalSemantics wit_result ''success'' False False =
      (''success'', ''terminal'', ''success'', ''run.completed'', [], ''success'')"
    by (simp add: runtimeResultTerminalSemantics_def)
  obtain xs ts where d7: "result_artifacts wit_result_env 6 wit_result wit_ended = Inr ((), wit_ended\<lparr>db_artifacts := xs, db_tasks := ts\<rparr>)"
    by (rule wit_result_materials)
  have "db_ledger wit_ended = []" by (simp add: wit_ended_def wit_announced_def wit_released_rows)
  then obtain l ag av where d8: "insertRuntimeResultLedgerAndStats wit_leased 40 1 0 3000 (wit_ended\<lparr>db_artifacts := xs, db_tasks := ts\<rparr>) =
      Inr ((), wit_ended\<lparr>db_artifacts := xs, db_tasks := ts, db_ledger := l, db_agents := ag, db_availability := av\<rparr>)"
    by (simp add: insertRuntimeResultLedgerAndStats_def InsertRunAccountingLedger_def find_row_def tx_defs Let_def
        MarkAgentAvailabilitySuccess_def IncrementAgentStats_def)
  have ev: "deterministicTerminalEventID wit_result_env 6 t = 40" for t
    by (simp add: deterministicTerminalEventID_def wit_result_env_def)
  have raw: "marshalRuntimeResultJSON wit_result_env v d = Inr (''{}'', d)" for v d
    by (simp add: marshalRuntimeResultJSON_def wit_result_env_def tx_defs)
  have "sint (rq_DurationMS wit_result) = 5" by (simp add: wit_result_def)
  moreover have "r_Status wit_ended_run = ''success''" "r_DispatchState wit_ended_run = ''terminal''" "r_NextAttemptAt wit_ended_run = None"
    by (simp_all add: wit_ended_run_def)
  moreover have "ev_ID wit_terminal_event = 40" by (simp add: wit_terminal_event_def)
  moreover have "wit_result_clock 9 = 3009" by (simp add: wit_result_clock_def)
  ultimately have "result_terminal wit_result_env 3000 wit_result wit_hash wit_leased wit_owner wit_done None ''success'' False False
    wit_result_clock wit_released = Inr (wit_result_ack, wit_ended\<lparr>db_artifacts := xs, db_tasks := ts, db_ledger := l,
      db_agents := ag, db_availability := av\<rparr>)"
    unfolding result_terminal_def sem prod.case Let_def
    by (simp add: tx_defs wit_leased_fields wit_owner_fields wit_result_fields ev raw wit_result_discover wit_result_event
        wit_result_ends result_row_def d7 d8 wit_result_ack_def)
  then show ?thesis by (rule that)
qed

lemma wit_result_class: "result_class wit_finalizer wit_result wit_leased wit_owner = ''success''"
  by (simp add: NewResultFinalizer_def defaultResultClassifier_def wit_result_fields)

lemma wit_result_commits:
  obtains d where "Finalize wit_result_env wit_finalizer 3000 wit_result_clock wit_event_principal wit_result wit_ready =
    (Inr wit_result_ack, d)" "db_sessions d = [wit_session 0 1005 3006]" "db_nodes d = [wit_node 0 (Some 1006) 3007]"
    "db_tokens d = db_tokens wit_db" "db_attachments d = db_attachments wit_db" "db_wire_contracts d = db_wire_contracts wit_db"
proof -
  obtain xs ts l ag av where d: "result_terminal wit_result_env 3000 wit_result wit_hash wit_leased wit_owner wit_done None ''success''
    False False wit_result_clock wit_released = Inr (wit_result_ack, wit_ended\<lparr>db_artifacts := xs, db_tasks := ts, db_ledger := l,
      db_agents := ag, db_availability := av\<rparr>)" by (rule wit_result_terminal)
  let ?d = "wit_ended\<lparr>db_artifacts := xs, db_tasks := ts, db_ledger := l, db_agents := ag, db_availability := av\<rparr>"
  have valid: "validateRuntimeResultClassification wit_result ''success''"
    by (simp add: validateRuntimeResultClassification_def wit_result_fields)
  have outcome: "(case runtimeResultTerminalSemantics wit_result ''success'' False False of (_, _, attemptOutcome, _) \<Rightarrow> attemptOutcome) = ''success''"
    by (simp add: runtimeResultTerminalSemantics_def)
  have clock: "wit_result_clock 4 = 3004" by (simp add: wit_result_clock_def)
  have new: "result_new wit_result_env wit_finalizer 3000 wit_event_principal wit_result wit_hash wit_leased 2000000000000 wit_owner
      wit_result_clock wit_ready = Inr (wit_result_ack, ?d)"
    unfolding result_new_def Let_def wit_result_class
    by (simp add: tx_defs wit_result_checks valid outcome clock wit_leased_fields wit_owner_fields wit_result_fields
        result_row_def wit_result_finish wit_result_release d)
  obtain l where lock: "lockRuntimePrincipal wit_event_principal (wit_result_clock 0) wit_ready = Inr (Some l, wit_ready)"
      "t_ExpiresAt (lp_credential l) = None"
    by (rule wit_event_lock[of wit_ready 1 1005 1005 1 "Some 1006" 1006])
       (simp_all add: wit_ready_def wit_reported_def wit_executing_def wit_worlds)
  have "validAt (Some l) (wit_result_clock 1)" using lock(2) by (simp add: validAt_def wit_result_clock_def IsZero_def)
  moreover have "pe_AgentID wit_event_principal = 3" by (simp add: wit_event_principal_def)
  moreover have "fe_events wit_result_env = wit_event_env" by (simp add: wit_result_env_def)
  moreover have "ra_AttemptID wit_event_identity = 10" "ra_RunID wit_event_identity = 6" "ra_AgentID wit_event_identity = 3"
    by (simp_all add: wit_event_identity_def)
  ultimately have "finalizeTx wit_result_env wit_finalizer 3000 wit_result_clock wit_event_principal wit_result wit_hash wit_ready =
      Inr (wit_result_ack, ?d)"
    using wit_result_owner(3)
    by (simp add: finalizeTx_def Let_def tx_defs map_principal_error_def lock(1) result_one_def result_guard_def
        LockRunForResultFinalization_def wit_ready_rows(1,2) runtimeResultRunFromLocked_def LockRunAttemptForResult_def
        wit_leased_fields wit_owner_fields wit_result_fields(4-) new)
  then have "Finalize wit_result_env wit_finalizer 3000 wit_result_clock wit_event_principal wit_result wit_ready = (Inr wit_result_ack, ?d)"
    by (simp add: Finalize_def WithTransaction_def wit_event_principal_valid wit_result_fingerprint)
  moreover have "db_sessions ?d = [wit_session 0 1005 3006]" "db_nodes ?d = [wit_node 0 (Some 1006) 3007]"
      "db_tokens ?d = db_tokens wit_db" "db_attachments ?d = db_attachments wit_db" "db_wire_contracts ?d = db_wire_contracts wit_db"
    by (simp_all add: wit_ended_def wit_announced_def wit_released_def)
       (simp_all add: wit_ready_def wit_reported_def wit_executing_def wit_worlds)
  ultimately show ?thesis by (rule that)
qed

lemma wit_executing_lease_inv: "lease_inv wit_executing"
  by (simp add: lease_inv_def keys_ok_def slots_ok_def capacity_exact_def counters_exact_def fences_ok_def active_ok_def
      expiry_ok_def budget_ok_def unique_keys_def count_rows_def wit_executing_def wit_worlds wit_accepted_def executing_run_def
      offered_run_def slot_shape_def holds_session_slot_def holds_node_slot_def live_attempt_def run_leads_def mirror_of_def find_row_def)

lemma wit_reported_step: "run_step wit_executing wit_reported"
proof -
  have seq: "1 \<le> eq_ClientEventSeq wit_event_request" by (simp add: wit_event_request_def)
  have "find_run (ra_RunID wit_event_identity) wit_executing = Some (executing_run (offered_run wit_run wit_attempt) wit_accepted)"
    using wit_event_rows(1) by (simp add: wit_event_identity_def)
  from wit_event_new this seq show ?thesis by (rule append_new_tx_InrE)
qed

lemma wit_ready_inv: "lease_inv wit_ready" "event_inv wit_ready"
proof -
  have "lease_inv wit_reported" "event_inv wit_reported"
    using run_step_lease_inv[OF wit_reported_step wit_executing_lease_inv] run_step_event_inv[OF wit_reported_step wit_event_inv] .
  moreover have "same_core wit_reported wit_ready" by (simp add: same_core_def wit_ready_def)
  ultimately show "lease_inv wit_ready" "event_inv wit_ready" by (simp_all add: same_core_inv)
qed


section \<open>A failure with a reserved code\<close>

lemma wit_reserved_code: "TrimSpace ''RUNTIME_RETRY_EXHAUSTED'' = ''RUNTIME_RETRY_EXHAUSTED''" "TrimSpace ''m'' = ''m''"
  by (rule TrimSpace_keeps; simp add: space_runes_def)+

end
