(* ===== verification/Result_Laws.thy ===== *)
theory Result_Laws
  imports Append_Laws Result_Example
begin

text \<open>
  What the finalizer guarantees: a committed result answers its repetition from the store, it is
  accepted only with a complete event log, a retryable failure is retried until the budget of the run is used
  up, and the default policies never make a valid result fail.
\<close>

section \<open>Policies\<close>

text \<open>
  The finalizer calls two policies. A classifier answers a valid request with a classification the
  finalizer accepts; a retry planner answers with a delay within its bounds.
\<close>

locale result_classifier =
  fixes classify :: "ResultClassificationInput \<Rightarrow> string"
  assumes classify_valid: "rq_Status (ci_Request input) \<in> {''success'', ''failed''} \<Longrightarrow>
      validateRuntimeResultClassification (ci_Request input) (classify input)"
begin

lemma classified_success:
  "rq_Status (ci_Request input) = ''success'' \<Longrightarrow> classify input = ClassificationSuccess"
  using classify_valid[of input] by (auto simp: validateRuntimeResultClassification_def)

end

locale retry_planner =
  fixes delay :: "int \<Rightarrow> gotime"
  assumes delay_pos: "0 < delay n" and delay_bound: "delay n \<le> 60 * second"

locale result_policy = result_classifier classify + retry_planner delay
  for classify :: "ResultClassificationInput \<Rightarrow> string" and delay :: "int \<Rightarrow> gotime"
begin

abbreviation finalizer :: ResultFinalizer where
  "finalizer \<equiv> \<lparr>fz_classifier = classify, fz_retryPlanner = delay\<rparr>"

lemma accepts:
  assumes "validateRuntimeResultRequest request = None"
  shows "validateRuntimeResultClassification request (result_class finalizer request run a)"
    "0 < fz_retryPlanner finalizer n" "fz_retryPlanner finalizer n \<le> 60 * second"
proof -
  have "rq_Status request \<in> {''success'', ''failed''}"
    using assms by (auto simp: validateRuntimeResultRequest_def err_if_def split: if_split_asm option.split_asm)
  then show "validateRuntimeResultClassification request (result_class finalizer request run a)"
    using classify_valid[of "\<lparr>ci_ExecutorType = a_ExecutorType a,
      ci_EndpointIdempotency = (r_EndpointIdempotencySnapshot run = Some True), ci_Request = request\<rparr>"] by simp
qed (simp_all add: delay_pos delay_bound)

end

lemma fixed_delays:
  "fixedResultRetryPlanner n = (if n \<le> 6 then second * 2 ^ nat (max 0 (n - 1)) else 60 * second)"
proof -
  consider "n < 1" | "n = 1" | "n = 2" | "n = 3" | "n = 4" | "n = 5" | "n = 6" | "n = 7" | "7 < n" by linarith
  then show ?thesis
    by cases (simp_all add: fixedResultRetryPlanner_def Let_def second_def millisecond_def)
qed

lemma fixed_delay_bounds: "second \<le> fixedResultRetryPlanner n" "fixedResultRetryPlanner n \<le> 60 * second"
proof -
  have "(2 :: int) ^ nat (max 0 (n - 1)) \<le> 2 ^ 5" if "n \<le> 6" using that by (intro power_increasing) auto
  then show "second \<le> fixedResultRetryPlanner n" "fixedResultRetryPlanner n \<le> 60 * second"
    by (auto simp: fixed_delays second_def millisecond_def)
qed

lemma fixed_delay_mono: "m \<le> n \<Longrightarrow> fixedResultRetryPlanner m \<le> fixedResultRetryPlanner n"
proof (cases "n \<le> 6")
  case True
  assume "m \<le> n"
  with True have "(2 :: int) ^ nat (max 0 (m - 1)) \<le> 2 ^ nat (max 0 (n - 1))" by (intro power_increasing) auto
  with True \<open>m \<le> n\<close> show ?thesis by (simp add: fixed_delays second_def millisecond_def)
next
  case False
  then show ?thesis using fixed_delay_bounds(2)[of m] by (simp add: fixed_delays)
qed

interpretation default_policy: result_policy defaultResultClassifier fixedResultRetryPlanner
proof
  fix input :: ResultClassificationInput
  assume "rq_Status (ci_Request input) \<in> {''success'', ''failed''}"
  then show "validateRuntimeResultClassification (ci_Request input) (defaultResultClassifier input)"
    by (auto simp: validateRuntimeResultClassification_def defaultResultClassifier_def split: option.split)
next
  fix n :: int
  show "0 < fixedResultRetryPlanner n" using fixed_delay_bounds(1)[of n] by (simp add: second_def millisecond_def)
  show "fixedResultRetryPlanner n \<le> 60 * second" by (rule fixed_delay_bounds(2))
qed

text \<open>
  With the default policies, which \<open>NewResultFinalizer\<close> installs when it is given none, every valid
  result gets a classification that the finalizer accepts, and every retry waits between one second
  and one minute, the longer the more attempts were made; neither internal error of the finalizer about
  its policies can occur.
\<close>

lemma default_policies_are_accepted:
  assumes "validateRuntimeResultRequest request = None" "m \<le> n"
  defines "f \<equiv> NewResultFinalizer None None"
  shows "validateRuntimeResultClassification request (result_class f request run a) \<and>
    second \<le> fz_retryPlanner f m \<and> fz_retryPlanner f m \<le> fz_retryPlanner f n \<and> fz_retryPlanner f n \<le> 60 * second"
  using default_policy.accepts[OF assms(1)] fixed_delay_bounds fixed_delay_mono[OF assms(2)]
  by (simp add: f_def NewResultFinalizer_def)


section \<open>Replay\<close>

lemma Finalize_InrE:
  assumes "Finalize fe f began clk p request d = (Inr ack, d')"
  obtains fp where "validateRuntimeEventPrincipal p = None" "RuntimeResultFingerprint fe request = Inr fp"
    "finalizeTx fe f began clk p request fp d = Inr (ack, d')"
  using assms by (auto simp: Finalize_def WithTransaction_commit split: option.split_asm sum.split_asm)

lemma result_replay_Inr:
  "result_replay fe p request fp run a clk d = Inr (ack, d') \<Longrightarrow> rk_Replayed ack \<and> d' = d"
  by (auto simp: result_replay_def tx_simps runtimeResultAckFromStored_def dest: authorize_stored_keeps
      split: option.split_asm)

text \<open>A committed result that is no replay, with the rows it found and the rows it left.\<close>

lemma Finalize_newE:
  assumes commit: "Finalize fe f began clk p request d = (Inr ack, d')" "\<not> rk_Replayed ack" and inv: "lease_inv d"
  obtains fp locked run deadline a r' a' where "validateRuntimeEventPrincipal p = None" "RuntimeResultFingerprint fe request = Inr fp"
    "find_run (ra_RunID (rq_AttemptIdentity request)) d = Some run" "r_RunDeadlineAt run = Some deadline"
    "r_RuntimeContractID run = RuntimeContractID" "pe_AgentID p = r_AgentID run"
    "ra_AgentID (rq_AttemptIdentity request) = r_AgentID run"
    "find_attempt (ra_AttemptID (rq_AttemptIdentity request)) d = Some a" "a_RunID a = r_ID run"
    "runtimeResultIdentityMatchesAttempt (fe_events fe) (rq_AttemptIdentity request) a" "slot_shape a"
    "result_new fe f began p request fp run deadline a clk d = Inr (ack, d')" "run_step d d'"
    "find_run (ra_RunID (rq_AttemptIdentity request)) d' = Some r'"
    "find_attempt (ra_AttemptID (rq_AttemptIdentity request)) d' = Some a'"
    "runtimeResultAckFromStored r' a' False = Inr ack" "same_identity a a'" "a_FinishedAt a' \<noteq> None"
    "a_ResultID a' = Some (rq_ResultID request)" "a_ResultFingerprint a' = Some fp" "length fp = 32"
    "a_ResultClassification a' \<noteq> None" "r_Status r' = rk_RunStatus ack" "r_DispatchState r' = rk_DispatchState ack"
proof -
  from commit(1) obtain fp where fp: "validateRuntimeEventPrincipal p = None" "RuntimeResultFingerprint fe request = Inr fp"
    and tx: "finalizeTx fe f began clk p request fp d = Inr (ack, d')" by (rule Finalize_InrE)
  from tx show ?thesis
  proof (cases rule: finalizeTx_InrE)
    case (replay locked run a)
    with commit(2) result_replay_Inr show ?thesis by blast
  next
    case (new locked run deadline a)
    have keys: "r_ID run = ra_RunID (rq_AttemptIdentity request)" "a_ID a = ra_AttemptID (rq_AttemptIdentity request)"
      using new(2,7) by (auto dest: find_row_key)
    have shape: "slot_shape a" using inv find_row_SomeD[OF new(7)] by (auto simp: lease_inv_def slots_ok_def)
    have rows: "find_run (r_ID run) d = Some run" "find_attempt (a_ID a) d = Some a" using new(2,7) keys by simp_all
    have step: "run_step d d'" by (rule result_new_step[OF new(12) rows new(8) shape])
    show ?thesis
      by (rule result_new_stored[OF new(12) rows new(8) shape])
         (rule that[OF fp new(2,3,4,5,6,7,8,10) shape new(12) step]; simp only: keys not_False_eq_True)
  qed
qed

lemma stored_ack_replayed:
  "runtimeResultAckFromStored r a False = Inr ack \<Longrightarrow> runtimeResultAckFromStored r a True = Inr (ack\<lparr>rk_Replayed := True\<rparr>)"
  by (auto simp: runtimeResultAckFromStored_def split: option.split_asm)

lemma stored_ack_flag: "runtimeResultAckFromStored r a v = Inr ack \<Longrightarrow> rk_Replayed ack = v"
  by (cases "a_ResultID a"; cases "a_ResultClassification a") (auto simp: runtimeResultAckFromStored_def)

lemma stored_ack_noted: "cancel_noted r r' \<Longrightarrow> runtimeResultAckFromStored r' a v = runtimeResultAckFromStored r a v"
  unfolding cancel_noted_def runtimeResultAckFromStored_def by (erule ssubst) (auto split: option.splits)

lemma stored_ack_total:
  assumes "a_ResultID a = Some i" "a_ResultClassification a \<noteq> None"
  obtains ack where "runtimeResultAckFromStored r a v = Inr ack" "rk_ResultID ack = i" "rk_Replayed ack = v"
  using assms by (auto simp: runtimeResultAckFromStored_def)

lemma digest_same_identity:
  "same_identity a a' \<Longrightarrow> runtimeResultIdentityMatchesAttempt ee i a \<Longrightarrow> runtimeResultIdentityMatchesAttempt ee i a'"
  by (simp add: same_identity_def runtimeResultIdentityMatchesAttempt_def)

text \<open>
  C29: A runtime whose principal is still valid may report the result of its own attempt again at any
  later time, after any number of lease, event and closing steps: it is answered from the store, marked
  as a replay, and nothing changes. When the first report ended the run, the answer is the first one word for word.
\<close>

theorem result_replay_is_idempotent:
  assumes inv: "lease_inv d" and first: "Finalize fe f began clk p request d = (Inr ack, d1)" "\<not> rk_Replayed ack"
    and own: "find_attempt (ra_AttemptID (rq_AttemptIdentity request)) d = Some a" "runtimePrincipalMatchesAttempt p a"
    and later: "run_step\<^sup>*\<^sup>* d1 d2"
    and live: "lockRuntimePrincipal p (clk' 0) d2 = Inr (locked, d2)" "validAt locked (clk' 1)"
  shows "\<exists>ack'. Finalize fe f began' clk' p request d2 = (Inr ack', d2) \<and> rk_ResultID ack' = rq_ResultID request \<and>
    rk_Replayed ack' \<and> (rk_RunStatus ack \<noteq> ''running'' \<longrightarrow> ack' = ack\<lparr>rk_Replayed := True\<rparr>)"
  using first inv
proof (rule Finalize_newE)
  let ?i = "rq_AttemptIdentity request"
  fix fp run deadline b r' a'
  assume fp: "validateRuntimeEventPrincipal p = None" "RuntimeResultFingerprint fe request = Inr fp"
    and run: "find_run (ra_RunID ?i) d = Some run" "r_RunDeadlineAt run = Some deadline" "r_RuntimeContractID run = RuntimeContractID"
      "pe_AgentID p = r_AgentID run" "ra_AgentID ?i = r_AgentID run"
    and b: "find_attempt (ra_AttemptID ?i) d = Some b" "a_RunID b = r_ID run" "runtimeResultIdentityMatchesAttempt (fe_events fe) ?i b"
    and step: "run_step d d1"
    and r': "find_run (ra_RunID ?i) d1 = Some r'" "r_Status r' = rk_RunStatus ack"
    and a': "find_attempt (ra_AttemptID ?i) d1 = Some a'" "same_identity b a'" "a_FinishedAt a' \<noteq> None"
      "a_ResultID a' = Some (rq_ResultID request)" "a_ResultFingerprint a' = Some fp" "length fp = 32" "a_ResultClassification a' \<noteq> None"
    and ack: "runtimeResultAckFromStored r' a' False = Inr ack"
  have owner: "a = b" using own(1) b(1) by simp
  have a2: "find_attempt (ra_AttemptID ?i) d2 = Some a'" by (rule steps_finished[OF later a'(1,3)])
  obtain r2 where r2: "find_run (ra_RunID ?i) d2 = Some r2" "same_request run r2"
    using steps_request[OF converse_rtranclp_into_rtranclp[OF step later] run(1)] by blast
  have id2: "r_ID r2 = ra_RunID ?i" "r_ID run = ra_RunID ?i" using r2(1) run(1) by (auto dest: find_row_key)
  have ok: "runtimePrincipalMatchesAttempt p a'" "runtimeResultIdentityMatchesAttempt (fe_events fe) ?i a'" "a_RunID a' = r_ID r2"
    using principal_same_identity[OF a'(2)] own(2) owner digest_same_identity[OF a'(2) b(3)] a'(2) b(2) id2
    by (auto simp: same_identity_def stored_identity_def)
  obtain ack' where ack': "runtimeResultAckFromStored r2 a' True = Inr ack'" "rk_ResultID ack' = rq_ResultID request"
      "rk_Replayed ack'"
    using stored_ack_total[OF a'(4,7), of r2 True] by auto
  have same: "ack' = ack\<lparr>rk_Replayed := True\<rparr>" if "rk_RunStatus ack \<noteq> ''running''"
  proof -
    have "cancel_noted r' r2" using steps_settled[OF later r'(1)] r2(1) r'(2) that by simp
    with stored_ack_replayed[OF ack] ack'(1) show ?thesis by (simp add: stored_ack_noted)
  qed
  have replay: "result_replay fe p request fp r2 a' clk' d2 = Inr (ack', d2)"
    using a'(4-6) ok(1) ack'(1)
    by (simp add: result_replay_def result_guard_def map_principal_error_def authorizeRuntimeAttemptPrincipal_def
        runtimeResultFingerprintsEqual_def tx_defs)
  have "finalizeTx fe f began' clk' p request fp d2 = Inr (ack', d2)"
    using live run r2 a2 ok replay a'(4) id2
    by (simp add: finalizeTx_def Let_def map_principal_error_def result_one_def result_guard_def tx_defs
        LockRunForResultFinalization_def runtimeResultRunFromLocked_def LockRunAttemptForResult_def same_request_def)
  then show ?thesis using fp ack' same by (simp add: Finalize_def WithTransaction_def)
qed


theorem result_replay_is_idempotent_witness:
  "\<exists>d. Finalize wit_result_env wit_finalizer 3000 wit_result_clock wit_event_principal wit_result wit_ready = (Inr wit_result_ack, d) \<and>
     Finalize wit_result_env wit_finalizer 9000 wit_result_clock wit_event_principal wit_result d =
       (Inr (wit_result_ack\<lparr>rk_Replayed := True\<rparr>), d)"
proof -
  obtain d where d: "Finalize wit_result_env wit_finalizer 3000 wit_result_clock wit_event_principal wit_result wit_ready =
      (Inr wit_result_ack, d)" "db_sessions d = [wit_session 0 1005 3006]" "db_nodes d = [wit_node 0 (Some 1006) 3007]"
      "db_tokens d = db_tokens wit_db" "db_attachments d = db_attachments wit_db" "db_wire_contracts d = db_wire_contracts wit_db"
    by (rule wit_result_commits)
  obtain l where lock: "lockRuntimePrincipal wit_event_principal (wit_result_clock 0) d = Inr (Some l, d)"
      "t_ExpiresAt (lp_credential l) = None" by (rule wit_event_lock[OF d(2-6)])
  have valid: "validAt (Some l) (wit_result_clock 1)" using lock(2) by (simp add: validAt_def wit_result_clock_def IsZero_def)
  have own: "find_attempt (ra_AttemptID (rq_AttemptIdentity wit_result)) wit_ready = Some wit_owner"
    by (simp only: wit_result_fields wit_identity_fields wit_ready_rows(2))
  have new: "\<not> rk_Replayed wit_result_ack" by (simp add: wit_result_ack_def)
  from result_replay_is_idempotent[where clk' = wit_result_clock and began' = 9000,
      OF wit_ready_inv(1) d(1) new own wit_result_owner(1) rtranclp.rtrancl_refl lock(1) valid] d(1)
  show ?thesis by (auto simp: wit_result_ack_def)
qed

section \<open>Complete logs\<close>

lemma fingerprint_valid: "RuntimeResultFingerprint fe request = Inr fp \<Longrightarrow> validateRuntimeResultRequest request = None"
  by (auto simp: RuntimeResultFingerprint_def canonicalRuntimeResultValue_def split: sum.split_asm option.split_asm)

lemma valid_final_seq:
  "validateRuntimeResultRequest request = None \<Longrightarrow> 0 \<le> rq_FinalClientEventSeq request \<and> rq_FinalClientEventSeq request \<noteq> max_int64"
  by (auto simp: validateRuntimeResultRequest_def split: if_split_asm)

lemma client_sequences_bounds:
  assumes inv: "log_owned d" and a: "find_attempt k d = Some a" and n: "n \<in> client_sequences k d"
  shows "1 \<le> n" "n \<le> a_LastClientEventSeq a"
proof -
  from n obtain e where e: "e \<in> set (db_events d)" "ev_AttemptID e = Some k" "ev_ClientEventSeq e = Some n"
    by (auto simp: client_sequences_def)
  then show "1 \<le> n" using inv a by (auto simp: log_owned_def event_of_attempt_def)
  have "a_LastClientEventSeq a = Max (insert 0 (client_sequences k d))"
    using inv find_row_SomeD[OF a] by (auto simp: log_owned_def)
  then show "n \<le> a_LastClientEventSeq a" using n by simp
qed

text \<open>
  C28: Before the deadline of the run a result is accepted only with a complete event log: the client
  sequences stored for the attempt are then exactly the numbers from 1 to the final one that the
  result names, so nothing the runtime announced is missing and nothing came after it.
\<close>

theorem accepted_result_has_complete_log:
  assumes inv: "lease_inv d" "event_inv d"
    and commit: "Finalize fe f began clk p request d = (Inr ack, d')" "\<not> rk_Replayed ack"
    and int64: "rq_FinalClientEventSeq request \<le> max_int64"
    and early: "find_run (ra_RunID (rq_AttemptIdentity request)) d = Some run" "sql_gt (r_RunDeadlineAt run) (clk 1)"
  shows "client_sequences (ra_AttemptID (rq_AttemptIdentity request)) d = {1..rq_FinalClientEventSeq request}"
  using commit inv(1)
proof (rule Finalize_newE)
  let ?i = "rq_AttemptIdentity request" and ?final = "rq_FinalClientEventSeq request"
  fix fp run' deadline a
  assume fp: "RuntimeResultFingerprint fe request = Inr fp"
    and run: "find_run (ra_RunID ?i) d = Some run'" "r_RunDeadlineAt run' = Some deadline"
    and a: "find_attempt (ra_AttemptID ?i) d = Some a"
    and new: "result_new fe f began p request fp run' deadline a clk d = Inr (ack, d')"
  have now: "clk 1 < deadline" using early run by simp
  have key: "a_ID a = ra_AttemptID ?i" using a by (rule find_row_key)
  have owned: "log_owned d" using inv(2) by (simp add: event_inv_def)
  from new obtain exceeded d0 where chk: "result_checks p request run' deadline a clk d = Inr (exceeded, d0)"
    by (rule result_new_InrE)
  note c = result_checks_InrD[OF chk]
  from c(4) obtain no where no: "a_AttemptNo a = Some no" by (auto simp: runtimeResultActiveAttemptMatches_def)
  let ?xs = "ListClientEventSequencesThrough (r_ID run') (a_ID a) no ?final d"
  have none: "missingRuntimeEventRanges ?xs ?final = []" using c(6,8) now no by simp
  have xs: "set ?xs = stored_client_sequences (r_ID run') a d \<inter> {1..?final}"
    by (rule ListClientEventSequencesThrough_set[OF no])
  have "range_set (missingRuntimeEventRanges ?xs ?final) = {1..?final} - set ?xs"
    using valid_final_seq[OF fingerprint_valid[OF fp]] int64 xs
    by (intro missingRuntimeEventRanges_gaps) (auto simp: ListClientEventSequencesThrough_def)
  then have "{1..?final} \<subseteq> stored_client_sequences (r_ID run') a d" using none xs by auto
  also have "\<dots> \<subseteq> client_sequences (ra_AttemptID ?i) d"
    by (auto simp: stored_client_sequences_def client_sequences_def key)
  finally show ?thesis using client_sequences_bounds[OF owned a] c(5) by fastforce
qed


theorem accepted_result_has_complete_log_witness: "client_sequences 10 wit_ready = {1..1}"
proof -
  obtain d where d: "Finalize wit_result_env wit_finalizer 3000 wit_result_clock wit_event_principal wit_result wit_ready =
      (Inr wit_result_ack, d)" by (rule wit_result_commits)
  from accepted_result_has_complete_log[OF wit_ready_inv d, of wit_leased, unfolded wit_result_fields wit_identity_fields]
  show ?thesis
    by (simp add: wit_ready_rows(1) wit_leased_fields wit_result_clock_def wit_result_ack_def max_int64_def)
qed

section \<open>Outcomes\<close>

lemma unique_filter:
  "unique_keys key t \<Longrightarrow> find_row key k t = Some x \<Longrightarrow> filter (\<lambda>r. key r = k) t = [x]"
proof (induction t)
  case (Cons y t)
  show ?case
  proof (cases "key y = k")
    case True
    then have "filter (\<lambda>r. key r = k) t = []"
      using Cons.prems(1) by (auto simp: unique_keys_def filter_empty_conv image_iff)
    with True Cons.prems(2) show ?thesis by (simp add: find_row_def)
  next
    case False
    with Cons show ?thesis by (simp add: unique_keys_def find_row_def)
  qed
qed (simp add: find_row_def)

text \<open>A new result either waits for a retry or ends the run, through one of the two branches.\<close>

lemma Finalize_branchE:
  assumes commit: "Finalize fe f began clk p request d = (Inr ack, d')" "\<not> rk_Replayed ack" and inv: "lease_inv d"
    and rows: "find_run (ra_RunID (rq_AttemptIdentity request)) d = Some run"
      "find_attempt (ra_AttemptID (rq_AttemptIdentity request)) d = Some a" "r_RunDeadlineAt run = Some deadline"
  obtains (retry) d2 where "clk 1 < deadline" "result_class f request run a = ClassificationRetryable" "r_AttemptCount run < r_MaxAttempts run"
      "result_retry f request run a clk d2 = Inr (ack, d')" "find_run (r_ID run) d2 = Some run"
  | (terminal) fp a1 a2 errorCode status state outcome eventType code ackClass d2 where
      "\<not> result_retries f request run a (\<not> clk 1 < deadline)" "validateRuntimeResultClassification request (result_class f request run a)"
      "runtimeResultTerminalSemantics request (result_class f request run a) (\<not> clk 1 < deadline) (result_exhausted f request run a) =
         (status, state, outcome, eventType, code, ackClass)"
      "result_terminal fe began request fp run a a1 errorCode (result_class f request run a) (\<not> clk 1 < deadline)
         (result_exhausted f request run a) clk d2 = Inr (ack, d')"
      "find_run (r_ID run) d2 = Some run" "find_attempt (a_ID a) d2 = Some a2" "a_AttemptNo a1 = a_AttemptNo a"
      "db_ledger d2 = db_ledger d"
  using commit inv
proof (rule Finalize_newE)
  fix fp run' deadline' b
  assume r: "find_run (ra_RunID (rq_AttemptIdentity request)) d = Some run'" "r_RunDeadlineAt run' = Some deadline'"
    and b: "find_attempt (ra_AttemptID (rq_AttemptIdentity request)) d = Some b" "slot_shape b"
    and new: "result_new fe f began p request fp run' deadline' b clk d = Inr (ack, d')"
  have eq: "run' = run" "deadline' = deadline" "b = a" using rows r b by simp_all
  from new[unfolded eq] show thesis
  proof (rule result_new_InrE)
    fix exceeded gs status state outcome eventType code ackClass errorCode detail a1 d1 d2
    let ?d = "d\<lparr>db_grants := gs\<rparr>"
    assume chk: "result_checks p request run deadline a clk d = Inr (exceeded, ?d)"
      and val: "validateRuntimeResultClassification request (result_class f request run a)"
      and sem: "runtimeResultTerminalSemantics request (result_class f request run a) exceeded (result_exhausted f request run a) =
         (status, state, outcome, eventType, code, ackClass)"
      and fin: "FinishRunAttempt (r_ID run) (a_ID a) (a_LeaseID a) (a_FencingToken a) outcome (rq_ResultID request) fp
         (result_class f request run a) (rq_FinalClientEventSeq request) errorCode detail (clk 4) ?d = Inr (Some a1, d1)"
      and rel: "releaseRuntimeAttemptCapacity a (\<lambda>n. clk (5 + n)) d1 = Inr ((), d2)"
      and rest: "(if result_retries f request run a exceeded then result_retry f request run a clk
        else result_terminal fe began request fp run a a1 errorCode (result_class f request run a) exceeded
           (result_exhausted f request run a) clk) d2 = Inr (ack, d')"
    have ex: "exceeded \<longleftrightarrow> \<not> clk 1 < deadline" by (rule result_checks_InrD(6)[OF chk])
    have keys: "r_ID run = ra_RunID (rq_AttemptIdentity request)" "a_ID a = ra_AttemptID (rq_AttemptIdentity request)"
      using rows by (auto dest: find_row_key)
    have a0: "find_attempt (a_ID a) ?d = Some a" using rows(2) keys by simp
    note f1 = FinishRunAttempt_InrD[OF fin a0]
    have ended: "finishes a a1" unfolding f1(1) by (rule finishes_finished)
    note rl = release_statements[OF rel f1(2) a0 ended b(2)[unfolded eq] f1(4)]
    have found: "find_run (r_ID run) d2 = Some run" "find_attempt (a_ID a) d2 = Some (closed_attempt a1 (clk (5 + 0)))"
      using rows keys a0 by (simp_all add: rl find_row_replace f1(1))
    have "db_ledger d1 = db_ledger d" by (simp add: f1(2))
    moreover have "db_ledger d2 = db_ledger d1" using rel
      by (auto simp: releaseRuntimeAttemptCapacity_def tx_simps MarkRunAttemptCapacityReleased_def ReleaseRuntimeSessionSlot_def
          ReleaseRuntimeNodeSlot_def signal_statements Let_def split: if_split_asm option.split_asm)
    ultimately have books: "db_ledger d2 = db_ledger d" by simp
    have no: "a_AttemptNo a1 = a_AttemptNo a" by (simp add: f1(1))
    show thesis
    proof (cases "result_retries f request run a exceeded")
      case True
      with rest found ex show thesis by (intro retry[of d2]) auto
    next
      case False
      with rest have "result_terminal fe began request fp run a a1 errorCode (result_class f request run a) exceeded
           (result_exhausted f request run a) clk d2 = Inr (ack, d')" by (simp only: if_False)
      from terminal[OF False[unfolded ex] val sem[unfolded ex] this[unfolded ex] found no books] show thesis .
    qed
  qed
qed

text \<open>
  C27: What a new result does to its run is decided by the deadline, the classification and the attempts
  made so far, and by nothing else. A retryable failure waits for at most a minute and is retried
  as long as attempts are left; then the run is a dead letter, with a row that names its last
  attempt.
\<close>

theorem result_decides_run:
  assumes "Finalize fe f began clk p request d = (Inr ack, d')" "\<not> rk_Replayed ack" "lease_inv d"
    and "find_run (ra_RunID (rq_AttemptIdentity request)) d = Some run"
      "find_attempt (ra_AttemptID (rq_AttemptIdentity request)) d = Some a" "r_RunDeadlineAt run = Some deadline"
  shows "(rk_RunStatus ack, rk_DispatchState ack) =
      (if \<not> clk 1 < deadline then (''timeout'', ''terminal'')
       else if result_class f request run a = ClassificationSuccess then (''success'', ''terminal'')
       else if result_class f request run a = ClassificationNonRetryable then (''failed'', ''terminal'')
       else if r_AttemptCount run < r_MaxAttempts run then (''running'', ''retry_wait'') else (''failed'', ''dead_letter'')) \<and>
    (rk_DispatchState ack = ''retry_wait'' \<longrightarrow>
       (\<exists>t. rk_NextAttemptAt ack = Some t \<and> clk 9 \<le> t \<and> t \<le> clk 9 + 60 * second)) \<and>
    (rk_DispatchState ack = ''dead_letter'' \<longrightarrow>
       (\<exists>q. find_row dq_RunID (r_ID run) (db_dead_letters d') = Some q \<and> Some (dq_FinalAttemptNo q) = a_AttemptNo a))"
  using assms
proof (rule Finalize_branchE)
  fix d2
  assume now: "clk 1 < deadline" "result_class f request run a = ClassificationRetryable" "r_AttemptCount run < r_MaxAttempts run"
    and tx: "result_retry f request run a clk d2 = Inr (ack, d')" and r: "find_run (r_ID run) d2 = Some run"
  from tx r obtain r' :: RunRow where r': "r_Status r' = ''running''" "r_DispatchState r' = ''retry_wait''"
      "r_NextAttemptAt r' = Some (after_ms (clk 9) (Milliseconds (fz_retryPlanner f (r_AttemptCount run))))"
      "0 < fz_retryPlanner f (r_AttemptCount run)" "fz_retryPlanner f (r_AttemptCount run) \<le> 60 * second"
      "ack = \<lparr>rk_ResultID = rq_ResultID request, rk_Classification = ClassificationRetryable, rk_RunStatus = r_Status r',
         rk_DispatchState = r_DispatchState r', rk_Replayed = False, rk_NextAttemptAt = r_NextAttemptAt r'\<rparr>"
    by (rule result_retry_InrE)
  let ?t = "after_ms (clk 9) (Milliseconds (fz_retryPlanner f (r_AttemptCount run)))"
  have "clk 9 \<le> ?t \<and> ?t \<le> clk 9 + 60 * second"
    using r'(4,5) by (simp add: after_ms_def Milliseconds_def second_def millisecond_def)
  with now r' show ?thesis by simp
next
  fix fp a1 a2 errorCode status state outcome eventType code ackClass d2
  assume final: "\<not> result_retries f request run a (\<not> clk 1 < deadline)"
    and val: "validateRuntimeResultClassification request (result_class f request run a)"
    and sem: "runtimeResultTerminalSemantics request (result_class f request run a) (\<not> clk 1 < deadline) (result_exhausted f request run a) =
         (status, state, outcome, eventType, code, ackClass)"
    and tx: "result_terminal fe began request fp run a a1 errorCode (result_class f request run a) (\<not> clk 1 < deadline)
         (result_exhausted f request run a) clk d2 = Inr (ack, d')"
    and found: "find_run (r_ID run) d2 = Some run" "find_attempt (a_ID a) d2 = Some a2" and no: "a_AttemptNo a1 = a_AttemptNo a"
  from tx sem found have ack: "rk_RunStatus ack = status" "rk_DispatchState ack = state"
    by (rule result_terminal_InrE, simp)+
  have dead: "result_exhausted f request run a \<and> \<not> \<not> clk 1 < deadline \<longrightarrow>
      (\<exists>q. find_row dq_RunID (r_ID run) (db_dead_letters d') = Some q \<and> Some (dq_FinalAttemptNo q) = a_AttemptNo a)"
    using tx sem by (rule result_terminal_books) (auto simp: no)
  from sem final show ?thesis
  proof (cases rule: terminal_semanticsE)
    case timeout
    with ack show ?thesis by simp
  next
    case dead_letter
    with ack dead show ?thesis by auto
  next
    case success
    with ack show ?thesis by simp
  next
    case failed
    then have "result_class f request run a = ClassificationNonRetryable"
      using val final by (auto simp: validateRuntimeResultClassification_def)
    with failed ack show ?thesis by simp
  qed
qed


theorem result_decides_run_witness:
  "\<exists>d. Finalize wit_result_env wit_finalizer 3000 wit_result_clock wit_event_principal wit_result wit_ready = (Inr wit_result_ack, d) \<and>
     (rk_RunStatus wit_result_ack, rk_DispatchState wit_result_ack) = (''success'', ''terminal'')"
proof -
  obtain d where d: "Finalize wit_result_env wit_finalizer 3000 wit_result_clock wit_event_principal wit_result wit_ready =
      (Inr wit_result_ack, d)" by (rule wit_result_commits)
  from result_decides_run[OF d, of wit_leased wit_owner 2000000000000, unfolded wit_result_fields wit_identity_fields]
  have "(rk_RunStatus wit_result_ack, rk_DispatchState wit_result_ack) = (''success'', ''terminal'')"
    by (simp add: wit_ready_rows(1,2) wit_ready_inv wit_leased_fields wit_result_clock_def wit_result_class wit_result_ack_def)
  with d show ?thesis by blast
qed

text \<open>
  C30: A result that ends a run is accounted for exactly once: the ledger has one entry for the run, with the
  terminal event of the run, a success and the revenue of the run when it succeeded and nothing
  otherwise.
\<close>

theorem terminal_result_is_accounted_once:
  assumes "Finalize fe f began clk p request d = (Inr ack, d')" "\<not> rk_Replayed ack" "lease_inv d"
    and "find_run (ra_RunID (rq_AttemptIdentity request)) d = Some run"
      "find_attempt (ra_AttemptID (rq_AttemptIdentity request)) d = Some a" "r_RunDeadlineAt run = Some deadline"
    and ledger: "unique_keys ld_RunID (db_ledger d)" and over: "rk_RunStatus ack \<noteq> ''running''"
  shows "\<exists>l. filter (\<lambda>x. ld_RunID x = r_ID run) (db_ledger d') = [l] \<and>
    ld_TerminalEventID l = deterministicTerminalEventID fe (r_ID run) (rk_RunStatus ack) \<and> ld_AgentID l = r_AgentID run \<and>
    (ld_SuccessDelta l, ld_RevenueDeltaCents l) =
      (if rk_RunStatus ack = ''success'' then (1, r_CreatorRevenueCents run) else (0, 0))"
  using assms(1-6)
proof (rule Finalize_branchE)
  fix d2
  assume "result_retry f request run a clk d2 = Inr (ack, d')" "find_run (r_ID run) d2 = Some run"
  then have "rk_RunStatus ack = ''running''" by (rule result_retry_InrE) simp
  with over show ?thesis by simp
next
  fix fp a1 a2 errorCode status state outcome eventType code ackClass d2
  assume sem: "runtimeResultTerminalSemantics request (result_class f request run a) (\<not> clk 1 < deadline) (result_exhausted f request run a) =
         (status, state, outcome, eventType, code, ackClass)"
    and tx: "result_terminal fe began request fp run a a1 errorCode (result_class f request run a) (\<not> clk 1 < deadline)
         (result_exhausted f request run a) clk d2 = Inr (ack, d')"
    and found: "find_run (r_ID run) d2 = Some run" "find_attempt (a_ID a) d2 = Some a2" and books: "db_ledger d2 = db_ledger d"
  from tx sem found have ack: "rk_RunStatus ack = status" by (rule result_terminal_InrE) simp
  from tx sem obtain l where l: "find_row ld_RunID (r_ID run) (db_ledger d') = Some l"
    "ld_TerminalEventID l = deterministicTerminalEventID fe (r_ID run) status" "ld_AgentID l = r_AgentID run"
    "ld_SuccessDelta l = (if status = ''success'' then 1 else 0)"
    "ld_RevenueDeltaCents l = (if status = ''success'' then r_CreatorRevenueCents run else 0)"
    "unique_keys ld_RunID (db_ledger d2) \<longrightarrow> unique_keys ld_RunID (db_ledger d')" by (rule result_terminal_books)
  have "filter (\<lambda>x. ld_RunID x = r_ID run) (db_ledger d') = [l]"
    using l(1,6) ledger books by (intro unique_filter) simp_all
  with l ack show ?thesis by auto
qed

theorem terminal_result_is_accounted_once_witness:
  "\<exists>d l. Finalize wit_result_env wit_finalizer 3000 wit_result_clock wit_event_principal wit_result wit_ready = (Inr wit_result_ack, d) \<and>
     filter (\<lambda>x. ld_RunID x = 6) (db_ledger d) = [l] \<and> ld_SuccessDelta l = 1"
proof -
  obtain d where d: "Finalize wit_result_env wit_finalizer 3000 wit_result_clock wit_event_principal wit_result wit_ready =
      (Inr wit_result_ack, d)" by (rule wit_result_commits)
  from terminal_result_is_accounted_once[OF d, of wit_leased wit_owner 2000000000000, unfolded wit_result_fields wit_identity_fields]
  have "\<exists>l. filter (\<lambda>x. ld_RunID x = 6) (db_ledger d) = [l] \<and> ld_SuccessDelta l = 1"
    by (auto simp: wit_ready_rows(1,2,8) wit_ready_inv wit_leased_fields unique_keys_def wit_result_ack_def)
  with d show ?thesis by blast
qed

section \<open>A reserved error code\<close>

text \<open>
  C31: The error code \<open>RUNTIME_RETRY_EXHAUSTED\<close> is reserved for dead letters by a constraint on runs, but
  a runtime may report it: validation accepts it. Such a failure, when it is not
  retried, can never be stored before the deadline of the run, whatever the state of the database; every report of it
  is an error and leaves the attempt open.
\<close>

theorem reserved_error_code_never_commits:
  assumes "lease_inv d" "find_run (ra_RunID (rq_AttemptIdentity request)) d = Some run" "sql_gt (r_RunDeadlineAt run) (clk 1)"
    and "find_attempt (ra_AttemptID (rq_AttemptIdentity request)) d = Some a" "a_ResultID a = None"
    and "result_class f request run a = ClassificationNonRetryable"
    and "rq_Error request = Some failure" "rf_ErrorCode failure = ''RUNTIME_RETRY_EXHAUSTED''"
  shows "\<exists>err. Finalize fe f began clk p request d = (Inl err, d)"
proof -
  obtain deadline where deadline: "r_RunDeadlineAt run = Some deadline" "clk 1 < deadline"
    using assms(3) by (auto simp: sql_gt_def split: option.split_asm)
  have False if commit: "Finalize fe f began clk p request d = (Inr ack, d')" for ack d'
  proof -
    have new: "\<not> rk_Replayed ack"
    proof -
      from commit obtain fp where "finalizeTx fe f began clk p request fp d = Inr (ack, d')" by (rule Finalize_InrE)
      then show ?thesis
      proof (cases rule: finalizeTx_InrE)
        case (replay locked run' b)
        then show ?thesis using assms(4,5) by simp
      next
        case (new locked run' deadline' b)
        have "slot_shape b" using assms(1) find_row_SomeD[OF new(7)] by (auto simp: lease_inv_def slots_ok_def)
        moreover have "find_run (r_ID run') d = Some run'" "find_attempt (a_ID b) d = Some b"
          using new(2,7) find_row_key[OF new(2)] find_row_key[OF new(7)] by simp_all
        ultimately have "\<exists>r' a'. runtimeResultAckFromStored r' a' False = Inr ack"
          using new(8,12) by (metis result_new_stored)
        then show ?thesis by (auto dest: stored_ack_flag)
      qed
    qed
    from commit new assms(1,2,4) deadline(1) show False
    proof (rule Finalize_branchE)
      fix fp a1 a2 errorCode status state outcome eventType code ackClass d2
      assume sem: "runtimeResultTerminalSemantics request (result_class f request run a) (\<not> clk 1 < deadline) (result_exhausted f request run a) =
             (status, state, outcome, eventType, code, ackClass)"
        and tx: "result_terminal fe began request fp run a a1 errorCode (result_class f request run a) (\<not> clk 1 < deadline)
             (result_exhausted f request run a) clk d2 = Inr (ack, d')"
        and found: "find_run (r_ID run) d2 = Some run" "find_attempt (a_ID a) d2 = Some a2"
      have sem': "state = ''terminal''" "code = ''RUNTIME_RETRY_EXHAUSTED''"
        using sem deadline(2) assms(6-8) by (auto simp: runtimeResultTerminalSemantics_def)
      from tx sem found obtain r' :: RunRow where "run_state_checks r'" "r_DispatchState r' = state"
          "r_ErrorCode r' = (if code \<noteq> [] then Some code else None)" by (rule result_terminal_InrE)
      then show False by (simp add: sem' run_state_checks_def)
    qed (use assms(6) in simp)
  qed
  then show ?thesis
    by (cases "Finalize fe f began clk p request d")
       (auto simp: Finalize_def WithTransaction_def split: option.split_asm sum.split_asm prod.split_asm)
qed

definition wit_reserved :: RuntimeResultRequest where
  "wit_reserved = wit_result\<lparr>rq_Status := ''failed'', rq_Output := None,
     rq_Error := Some \<lparr>rf_ErrorCode = ''RUNTIME_RETRY_EXHAUSTED'', rf_Message = ''m'', rf_RetryableHint = False\<rparr>\<rparr>"

text \<open>The request passes validation, and its report fails in the world where the success was stored.\<close>

theorem reserved_error_code_never_commits_witness:
  "validateRuntimeResultRequest wit_reserved = None \<and>
   (\<exists>err. Finalize wit_result_env wit_finalizer 3000 wit_result_clock wit_event_principal wit_reserved wit_ready = (Inl err, wit_ready))"
proof -
  have ids: "ra_RunID (rq_AttemptIdentity wit_reserved) = 6" "ra_AttemptID (rq_AttemptIdentity wit_reserved) = 10"
    by (simp_all add: wit_reserved_def wit_result_fields wit_identity_fields)
  have failure: "validRuntimeResultFailure \<lparr>rf_ErrorCode = ''RUNTIME_RETRY_EXHAUSTED'', rf_Message = ''m'', rf_RetryableHint = False\<rparr>"
    by (simp add: validRuntimeResultFailure_def ascii_string wit_reserved_code)
  have "validateRuntimeResultRequest wit_reserved = None"
    using wit_result_valid failure
    by (simp add: validateRuntimeResultRequest_def wit_reserved_def err_if_def split: if_split_asm option.split_asm)
  moreover have "\<exists>err. Finalize wit_result_env wit_finalizer 3000 wit_result_clock wit_event_principal wit_reserved wit_ready = (Inl err, wit_ready)"
    by (rule reserved_error_code_never_commits[where run = wit_leased and a = wit_owner and
        failure = "\<lparr>rf_ErrorCode = ''RUNTIME_RETRY_EXHAUSTED'', rf_Message = ''m'', rf_RetryableHint = False\<rparr>"])
       (simp_all add: wit_ready_inv ids wit_ready_rows(1,2) wit_leased_fields wit_owner_fields wit_result_clock_def
         NewResultFinalizer_def defaultResultClassifier_def, simp_all add: wit_reserved_def)
  ultimately show ?thesis by blast
qed

end
