(* ===== verification/Reconciler.thy ===== *)
theory Reconciler
  imports Result_Finalizer
begin

text \<open>
  The deadline reconciler of \<open>pkg/runtime/reconciler.go\<close> with the statements of
  \<open>pkg/db/generated/runtime_reconciler.sql.go\<close>. A batch lists the running runs that are due, and
  takes each in a transaction of its own: an expired offer goes back to the queue, an expired
  execution is retried, and a run past its deadline or its budget ends.

  A turn is what one transaction sees of its surroundings: the start of the transaction, its clock
  readings, and which of the three \<open>SKIP LOCKED\<close> statements find their row held by somebody else.
\<close>

section \<open>Due runs\<close>

text \<open>\<open>LEAST\<close> skips \<open>NULL\<close> and is \<open>NULL\<close> when every argument is.\<close>

definition sql_least :: "gotime option list \<Rightarrow> gotime option" where
  "sql_least ts = (case List.map_filter id ts of [] \<Rightarrow> None | t # us \<Rightarrow> Some (foldl min t us))"

definition active_attempt :: "RunRow \<Rightarrow> runtime_db \<Rightarrow> AttemptRow option" where
  "active_attempt r d =
     (case r_ActiveAttemptID r of
        None \<Rightarrow> None
      | Some k \<Rightarrow>
         (case find_attempt k d of
            None \<Rightarrow> None
          | Some a \<Rightarrow> if a_RunID a = r_ID r then Some a else None))"

definition reconcile_due_at :: "RunRow \<Rightarrow> AttemptRow option \<Rightarrow> gotime option" where
  "reconcile_due_at r a =
     (if r_DispatchState r = ''offered''
      then sql_least [map_option a_OfferExpiresAt a, r_DispatchDeadlineAt r, r_RunDeadlineAt r]
      else if r_DispatchState r = ''executing''
      then sql_least [map_option a_LeaseExpiresAt a, map_option a_AttemptDeadlineAt a, r_RunDeadlineAt r]
      else sql_least [r_DispatchDeadlineAt r, r_RunDeadlineAt r])"

definition attempt_unresolved :: "AttemptRow \<Rightarrow> bool" where
  "attempt_unresolved a \<longleftrightarrow> a_FinishedAt a = None \<and> a_Outcome a = None \<and> a_ResultID a = None"

definition reconcile_eligible :: "RunRow \<Rightarrow> AttemptRow option \<Rightarrow> bool" where
  "reconcile_eligible r a \<longleftrightarrow>
     r_RuntimeContractID r = RuntimeContractID \<and> r_Status r = ''running'' \<and> r_CancelRequestID r = None \<and>
     (case a of
        Some x \<Rightarrow> attempt_unresolved x \<and>
          (r_DispatchState r = ''offered'' \<and> a_AcceptedAt x = None \<and> a_AttemptNo x = None \<or>
           r_DispatchState r = ''executing'' \<and> a_AcceptedAt x \<noteq> None \<and> a_AttemptNo x \<noteq> None)
      | None \<Rightarrow> (r_DispatchState r = ''pending'' \<or> r_DispatchState r = ''retry_wait'') \<and> r_ActiveAttemptID r = None)"

definition NextRuntimeReconcileDue :: "gotime \<Rightarrow> runtime_db \<Rightarrow> gotime option \<times> gotime" where
  "NextRuntimeReconcileDue now d =
     (sql_least (map (\<lambda>r. reconcile_due_at r (active_attempt r d))
        (filter (\<lambda>r. reconcile_eligible r (active_attempt r d)) (db_runs d))), now)"

record ReconcileCandidate =
  rc_RunID :: uuid
  rc_AttemptID :: "uuid option"
  rc_ExecutorType :: "string option"
  rc_RuntimeSessionID :: "uuid option"
  rc_NodeID :: "uuid option"
  rc_DueAt :: gotime
  rc_DatabaseNow :: gotime

definition reconcile_candidate :: "gotime \<Rightarrow> runtime_db \<Rightarrow> RunRow \<Rightarrow> ReconcileCandidate option" where
  "reconcile_candidate now d r =
     (let a = active_attempt r d; due = reconcile_due_at r a in
      if reconcile_eligible r a \<and> sql_le due now
      then Some \<lparr>rc_RunID = r_ID r, rc_AttemptID = r_ActiveAttemptID r, rc_ExecutorType = map_option a_ExecutorType a,
             rc_RuntimeSessionID = Option.bind a a_ActiveRuntimeSessionID, rc_NodeID = Option.bind a a_NodeID,
             rc_DueAt = the due, rc_DatabaseNow = now\<rparr>
      else None)"

definition ListDueRuntimeReconcileCandidates :: "nat \<Rightarrow> gotime \<Rightarrow> runtime_db \<Rightarrow> ReconcileCandidate list" where
  "ListDueRuntimeReconcileCandidates limit now d =
     take limit (sort_key rc_DueAt (sort_key rc_RunID
       (List.map_filter (reconcile_candidate now d) (db_runs d))))"

section \<open>Statements\<close>

definition LockRuntimeSessionForReconcile :: "uuid \<Rightarrow> (runtime_db, uuid) query" where
  "LockRuntimeSessionForReconcile sessionID d = map_option (\<lambda>s. (s_ID s, d)) (find_session sessionID d)"

definition LockRuntimeNodeForReconcile :: "uuid \<Rightarrow> (runtime_db, uuid) query" where
  "LockRuntimeNodeForReconcile nodeID d = map_option (\<lambda>n. (n_ID n, d)) (find_node nodeID d)"

text \<open>The two deadlines are scanned into \<open>time.Time\<close>, which fails on \<open>NULL\<close>.\<close>

record RuntimeReconcileLockedRunRow =
  lr_run :: RunRow
  lr_DispatchDeadlineAt :: gotime
  lr_RunDeadlineAt :: gotime
  lr_DatabaseNow :: gotime

definition scanRuntimeReconcileLockedRun :: "gotime \<Rightarrow> RunRow \<Rightarrow> RuntimeReconcileLockedRunRow option lease_tx" where
  "scanRuntimeReconcileLockedRun now r =
     (case (r_DispatchDeadlineAt r, r_RunDeadlineAt r) of
        (Some dispatch, Some deadline) \<Rightarrow>
          tx_return (Some \<lparr>lr_run = r, lr_DispatchDeadlineAt = dispatch, lr_RunDeadlineAt = deadline, lr_DatabaseNow = now\<rparr>)
      | _ \<Rightarrow> tx_fail (OtherError ''cannot scan NULL into *time.Time'' None))"

definition LockDueRuntimeRunWithAttempt ::
    "uuid \<Rightarrow> uuid \<Rightarrow> string \<Rightarrow> uuid option \<Rightarrow> uuid option \<Rightarrow> gotime \<Rightarrow> RuntimeReconcileLockedRunRow option lease_tx" where
  "LockDueRuntimeRunWithAttempt runID attemptID executorType sessionID nodeID now = (\<lambda>d.
     case (find_run runID d, find_attempt attemptID d) of
       (Some r, Some a) \<Rightarrow>
         if a_RunID a = runID \<and> a_ExecutorType a = executorType \<and> a_ActiveRuntimeSessionID a = sessionID \<and>
            a_NodeID a = nodeID \<and> r_LatestAttemptID r = Some (a_ID a) \<and> run_leads r a \<and>
            r_ExecutorType r = Some (a_ExecutorType a) \<and> reconcile_eligible r (Some a) \<and>
            sql_le (reconcile_due_at r (Some a)) now
         then scanRuntimeReconcileLockedRun now r d
         else Inr (None, d)
     | _ \<Rightarrow> Inr (None, d))"

definition LockDueRuntimeRunWithoutAttempt :: "uuid \<Rightarrow> gotime \<Rightarrow> RuntimeReconcileLockedRunRow option lease_tx" where
  "LockDueRuntimeRunWithoutAttempt runID now = (\<lambda>d.
     case find_run runID d of
       None \<Rightarrow> Inr (None, d)
     | Some r \<Rightarrow>
         if r_ActiveAttemptID r = None \<and> reconcile_eligible r None \<and> sql_le (reconcile_due_at r None) now
         then scanRuntimeReconcileLockedRun now r d
         else Inr (None, d))"

definition FinishRuntimeReconciledAttempt ::
    "string \<Rightarrow> string \<Rightarrow> uuid \<Rightarrow> uuid \<Rightarrow> uuid \<Rightarrow> int \<Rightarrow> gotime \<Rightarrow> (runtime_db, AttemptRow) query" where
  "FinishRuntimeReconciledAttempt outcome errorCode runID attemptID leaseID fencingToken now d =
     (case (find_run runID d, find_attempt attemptID d) of
        (Some r, Some a) \<Rightarrow>
          if attempt_key runID attemptID leaseID fencingToken a \<and> attempt_unresolved a \<and>
             r_RuntimeContractID r = RuntimeContractID \<and> r_Status r = ''running'' \<and> r_CancelRequestID r = None \<and>
             r_LatestAttemptID r = Some (a_ID a) \<and> run_leads r a \<and>
             (outcome = ''offer_expired'' \<and> r_DispatchState r = ''offered'' \<and> a_AcceptedAt a = None \<and> a_AttemptNo a = None \<or>
              outcome \<in> {''lease_expired'', ''timeout'', ''result_unknown''} \<and> r_DispatchState r = ''executing'' \<and>
                a_AcceptedAt a \<noteq> None \<and> a_AttemptNo a \<noteq> None)
          then (let a' = a\<lparr>a_FinishedAt := Some now, a_Outcome := Some outcome, a_ErrorCode := Some errorCode,
                          a_ErrorDetailRedacted := None\<rparr>
                in Some (a', set_attempt attemptID a' d))
          else None
      | _ \<Rightarrow> None)"

text \<open>An update of a run that satisfies the constraints of the table.\<close>

definition checked_run :: "uuid \<Rightarrow> RunRow \<Rightarrow> RunRow option lease_tx" where
  "checked_run runID r' = (\<lambda>d. if run_state_checks r' then Inr (Some r', set_run runID r' d) else Inl check_violation)"

definition ResetRuntimeRunAfterReconciledOffer ::
    "uuid \<Rightarrow> uuid \<Rightarrow> uuid \<Rightarrow> int \<Rightarrow> gotime \<Rightarrow> RunRow option lease_tx" where
  "ResetRuntimeRunAfterReconciledOffer runID attemptID leaseID fencingToken now = (\<lambda>d.
     case (find_run runID d, find_attempt attemptID d) of
       (Some r, Some a) \<Rightarrow>
         if attempt_key runID attemptID leaseID fencingToken a \<and> a_FinishedAt a \<noteq> None \<and>
            a_Outcome a = Some ''offer_expired'' \<and> a_AcceptedAt a = None \<and> a_AttemptNo a = None \<and>
            r_RuntimeContractID r = RuntimeContractID \<and> r_Status r = ''running'' \<and> r_DispatchState r = ''offered'' \<and>
            r_CancelRequestID r = None \<and> run_leads r a \<and> r_LatestAttemptID r = Some (a_ID a) \<and>
            r_OfferCount r < r_MaxOfferCount r \<and> sql_gt (r_DispatchDeadlineAt r) now \<and> sql_gt (r_RunDeadlineAt r) now
         then checked_run runID ((clear_lease r)\<lparr>r_DispatchState := ''pending'', r_NextAttemptAt := None,
                r_ErrorCode := None, r_ErrorMessage := None\<rparr>) d
         else Inr (None, d)
     | _ \<Rightarrow> Inr (None, d))"

definition TransitionRuntimeRunAfterExpiredAttempt ::
    "int \<Rightarrow> uuid \<Rightarrow> uuid \<Rightarrow> uuid \<Rightarrow> int \<Rightarrow> gotime \<Rightarrow> RunRow option lease_tx" where
  "TransitionRuntimeRunAfterExpiredAttempt retryAfterMs runID attemptID leaseID fencingToken now = (\<lambda>d.
     case (find_run runID d, find_attempt attemptID d) of
       (Some r, Some a) \<Rightarrow>
         if attempt_key runID attemptID leaseID fencingToken a \<and> a_FinishedAt a \<noteq> None \<and>
            a_Outcome a = Some ''lease_expired'' \<and> a_AcceptedAt a \<noteq> None \<and> a_AttemptNo a \<noteq> None \<and>
            r_RuntimeContractID r = RuntimeContractID \<and> r_Status r = ''running'' \<and> r_DispatchState r = ''executing'' \<and>
            r_CancelRequestID r = None \<and> run_leads r a \<and> r_LatestAttemptID r = Some (a_ID a) \<and>
            r_AttemptCount r < r_MaxAttempts r \<and> sql_gt (r_DispatchDeadlineAt r) now \<and> sql_gt (r_RunDeadlineAt r) now \<and>
            1 \<le> retryAfterMs \<and> retryAfterMs \<le> 60000
         then checked_run runID ((clear_lease r)\<lparr>r_DispatchState := ''retry_wait'',
                r_NextAttemptAt := sql_least [Some (after_ms now retryAfterMs), r_DispatchDeadlineAt r, r_RunDeadlineAt r],
                r_ErrorCode := None, r_ErrorMessage := None\<rparr>) d
         else Inr (None, d)
     | _ \<Rightarrow> Inr (None, d))"

text \<open>What may be written, given the run and the attempt that is named.\<close>

definition reconciled_attempt_matches :: "RunRow \<Rightarrow> AttemptRow option \<Rightarrow> bool" where
  "reconciled_attempt_matches r finished \<longleftrightarrow>
     (case finished of
        None \<Rightarrow> r_ActiveAttemptID r = None \<and> (r_DispatchState r = ''pending'' \<or> r_DispatchState r = ''retry_wait'')
      | Some a \<Rightarrow> r_ActiveAttemptID r = Some (a_ID a) \<and> r_LatestAttemptID r = Some (a_ID a) \<and> a_RunID a = r_ID r \<and>
          a_FinishedAt a \<noteq> None \<and> (\<exists>outcome \<in> {''offer_expired'', ''lease_expired'', ''timeout'', ''result_unknown'',
            ''retryable_failure''}. a_Outcome a = Some outcome))"

definition reconciled_allowed :: "string \<Rightarrow> string \<Rightarrow> string \<Rightarrow> RunRow \<Rightarrow> AttemptRow option \<Rightarrow> bool" where
  "reconciled_allowed status state errorCode r finished \<longleftrightarrow>
     status = ''timeout'' \<and> state = ''terminal'' \<and>
       (errorCode = ''RUNTIME_DISPATCH_TIMEOUT'' \<or> errorCode = ''RUN_DEADLINE_EXCEEDED'') \<or>
     (case finished of
        None \<Rightarrow> False
      | Some a \<Rightarrow>
         status = ''failed'' \<and> state = ''dead_letter'' \<and> errorCode = ''RUNTIME_RETRY_EXHAUSTED'' \<and>
           r_MaxAttempts r \<le> r_AttemptCount r \<and> a_AttemptNo a = Some (r_AttemptCount r) \<and>
           (a_Outcome a = Some ''lease_expired'' \<or> a_Outcome a = Some ''result_unknown'') \<or>
         status = ''failed'' \<and> state = ''terminal'' \<and> errorCode = ''ENDPOINT_RESULT_UNKNOWN'' \<and>
           r_EndpointIdempotencySnapshot r = Some False \<and>
           (a_ExecutorType a = ''core_http'' \<or> a_ExecutorType a = ''core_mcp'') \<and>
           a_Outcome a = Some ''result_unknown'' \<and> a_ResultID a = None)"

definition FinalizeRuntimeReconciledRun ::
    "string \<Rightarrow> string \<Rightarrow> string \<Rightarrow> string \<Rightarrow> int \<Rightarrow> uuid \<Rightarrow> uuid \<Rightarrow> uuid option \<Rightarrow> gotime \<Rightarrow> RunRow option lease_tx" where
  "FinalizeRuntimeReconciledRun status state errorCode errorMessage durationMs terminalEventID runID attemptID now = (\<lambda>d.
     case find_run runID d of
       None \<Rightarrow> Inr (None, d)
     | Some r \<Rightarrow>
         (let finished = Option.bind attemptID (\<lambda>k. find_attempt k d) in
          if r_RuntimeContractID r = RuntimeContractID \<and> r_Status r = ''running'' \<and>
             (r_DispatchState r = ''pending'' \<or> r_DispatchState r = ''offered'' \<or> r_DispatchState r = ''executing'' \<or>
              r_DispatchState r = ''retry_wait'') \<and>
             r_CancelRequestID r = None \<and> r_TerminalEventID r = None \<and> 0 \<le> durationMs \<and>
             (attemptID = None \<longleftrightarrow> finished = None) \<and> reconciled_attempt_matches r finished \<and>
             reconciled_allowed status state errorCode r finished
          then checked_run runID ((clear_lease r)\<lparr>r_Status := status, r_DispatchState := state, r_Output := None,
                 r_ErrorCode := Some errorCode, r_ErrorMessage := Some errorMessage, r_DurationMs := Some durationMs,
                 r_FinishedAt := Some now, r_NextAttemptAt := None, r_ResultID := None, r_ResultFingerprint := None,
                 r_TerminalEventID := Some terminalEventID,
                 r_DeadLetteredAt := (if state = ''dead_letter'' then Some now else None)\<rparr>) d
          else Inr (None, d)))"

section \<open>Decisions\<close>

record runtimeReconcileTerminal =
  tt_status :: string
  tt_dispatchState :: string
  tt_classification :: string
  tt_errorCode :: string
  tt_errorMessage :: string

definition runtimeDeadlineTerminalForRun :: "RuntimeReconcileLockedRunRow \<Rightarrow> runtimeReconcileTerminal option" where
  "runtimeDeadlineTerminalForRun locked =
     (if \<not> lr_DatabaseNow locked < lr_RunDeadlineAt locked
      then Some \<lparr>tt_status = ''timeout'', tt_dispatchState = ''terminal'', tt_classification = ClassificationTimeout,
             tt_errorCode = ''RUN_DEADLINE_EXCEEDED'', tt_errorMessage = ''Run deadline exceeded''\<rparr>
      else if \<not> lr_DatabaseNow locked < lr_DispatchDeadlineAt locked
      then Some \<lparr>tt_status = ''timeout'', tt_dispatchState = ''terminal'', tt_classification = ClassificationTimeout,
             tt_errorCode = ''RUNTIME_DISPATCH_TIMEOUT'', tt_errorMessage = ''Runtime dispatch deadline exceeded''\<rparr>
      else None)"

definition runtimeOfferTerminalForRun :: "RuntimeReconcileLockedRunRow \<Rightarrow> AttemptRow \<Rightarrow> runtimeReconcileTerminal option" where
  "runtimeOfferTerminalForRun locked a =
     (case runtimeDeadlineTerminalForRun locked of
        Some t \<Rightarrow> Some t
      | None \<Rightarrow>
         if r_OfferCount (lr_run locked) \<ge> r_MaxOfferCount (lr_run locked) \<and> \<not> lr_DatabaseNow locked < a_OfferExpiresAt a
         then Some \<lparr>tt_status = ''timeout'', tt_dispatchState = ''terminal'', tt_classification = ClassificationTimeout,
                tt_errorCode = ''RUNTIME_DISPATCH_TIMEOUT'',
                tt_errorMessage = ''Runtime offer budget exhausted before dispatch completed''\<rparr>
         else None)"

definition runtimeExecutionTerminalForRun :: "RuntimeReconcileLockedRunRow \<Rightarrow> runtimeReconcileTerminal option" where
  "runtimeExecutionTerminalForRun locked =
     (case runtimeDeadlineTerminalForRun locked of
        Some t \<Rightarrow> Some t
      | None \<Rightarrow>
         if r_AttemptCount (lr_run locked) \<ge> r_MaxAttempts (lr_run locked)
         then Some \<lparr>tt_status = ''failed'', tt_dispatchState = ''dead_letter'',
                tt_classification = ClassificationDeadLetter, tt_errorCode = ''RUNTIME_RETRY_EXHAUSTED'',
                tt_errorMessage = ''Runtime retry budget exhausted''\<rparr>
         else None)"

definition endpointResultUnknown :: runtimeReconcileTerminal where
  "endpointResultUnknown =
     \<lparr>tt_status = ''failed'', tt_dispatchState = ''terminal'', tt_classification = ClassificationNonRetryable,
      tt_errorCode = ''ENDPOINT_RESULT_UNKNOWN'', tt_errorMessage = ''Endpoint execution outcome could not be confirmed''\<rparr>"

definition runtimeCancellationDurationMS :: "gotime \<Rightarrow> gotime \<Rightarrow> go_error + int" where
  "runtimeCancellationDurationMS databaseNow startedAt =
     (if IsZero databaseNow \<or> IsZero startedAt \<or> databaseNow < startedAt
      then Inl (OtherError ''runtime cancellation database clock is invalid'' None)
      else Inr (min max_int32 (Milliseconds (databaseNow - startedAt))))"

datatype runtimeReconcileDisposition =
    runtimeReconcileSkipped
  | runtimeReconcileRequeued
  | runtimeReconcileTimedOut
  | runtimeReconcileDeadLettered
  | runtimeReconcileResultUnknown

section \<open>Transactions\<close>

text \<open>
  Readings: 0 run lock, 1 finish, 2 to 5 capacity, 6 transition, 7 the clock statement, 8 final update
  of the run, 9 effects, 10 signal.
\<close>

record reconcile_turn =
  tn_began :: gotime
  tn_clk :: "nat \<Rightarrow> gotime"
  tn_held :: "nat \<Rightarrow> bool"

definition createRuntimeAvailableSignal :: "uuid \<Rightarrow> uuid \<Rightarrow> gotime option \<Rightarrow> gotime \<Rightarrow> unit lease_tx" where
  "createRuntimeAvailableSignal agentID runID availableAt now =
     tx_bind (tx_one ErrNoRows (CreateRuntimeSignal ''run.available'' agentID (Some runID) (signal_payload ''run_id'' runID)
        (case availableAt of None \<Rightarrow> now | Some t \<Rightarrow> t))) (\<lambda>_. tx_return ())"

definition finalizeRuntimeReconciledTerminal ::
    "result_env \<Rightarrow> reconcile_turn \<Rightarrow> RuntimeReconcileLockedRunRow \<Rightarrow> AttemptRow option \<Rightarrow> runtimeReconcileTerminal
       \<Rightarrow> unit lease_tx" where
  "finalizeRuntimeReconciledTerminal fe tn locked finished terminal =
     (let run = lr_run locked; terminalEventID = deterministicTerminalEventID fe (r_ID run) (tt_status terminal) in
      tx_bind (tx_lift (runtimeCancellationDurationMS (lr_DatabaseNow locked) (r_StartedAt run))) (\<lambda>durationMS.
      tx_bind (discoverRuntimeResultEffects fe run terminalEventID ''run.failed'') (\<lambda>(parentRunID, effects).
      tx_bind (marshalRuntimeResultJSON fe (VObject [(''classification'', VString (tt_classification terminal)),
         (''duration_ms'', VInt (word_of_int durationMS)), (''error_code'', VString (tt_errorCode terminal)),
         (''error_message'', VString (tt_errorMessage terminal)), (''status'', VString (tt_status terminal)),
         (''terminal'', VBool True)])) (\<lambda>payload.
      tx_bind (InsertTerminalRunEvent terminalEventID (tn_began tn) (r_ID run) parentRunID ''run.failed'' payload) (\<lambda>event.
      tx_bind (if tt_dispatchState terminal = ''dead_letter''
         then (case finished of
             Some a \<Rightarrow>
               tx_bind (tx_guard (a_AttemptNo a \<noteq> None)
                 (OtherError ''dead-lettered Runtime Run has no final Attempt number'' None)) (\<lambda>_.
               ensureRuntimeResultDeadLetter (r_ID run) (the (a_AttemptNo a)) (a_ErrorCode a))
           | None \<Rightarrow> tx_fail (OtherError ''dead-lettered Runtime Run has no final Attempt number'' None))
         else tx_return ()) (\<lambda>_.
      tx_bind (FinalizeRuntimeReconciledRun (tt_status terminal) (tt_dispatchState terminal) (tt_errorCode terminal)
         (tt_errorMessage terminal) durationMS (ev_ID event) (r_ID run) (map_option a_ID finished) (tn_clk tn 8)) (\<lambda>finalized.
      tx_bind (tx_guard (finalized \<noteq> None) (OtherError ''Runtime terminal reconcile lost its fenced Run'' None)) (\<lambda>_.
      tx_bind (tx_guard (r_Status (the finalized) = tt_status terminal \<and>
          r_DispatchState (the finalized) = tt_dispatchState terminal \<and>
          r_TerminalEventID (the finalized) = Some (ev_ID event))
         (OtherError ''Runtime terminal reconcile produced inconsistent Run facts'' None)) (\<lambda>_.
      tx_bind (insertRuntimeResultLedgerAndStats run (ev_ID event) 0 0 (tn_began tn)) (\<lambda>_.
      ensure_effects fe (r_ID run) (ev_ID event) (tn_clk tn 9) effects))))))))))"

definition reconcileRuntimeDeadlineCrossedAfterAttemptFinish ::
    "result_env \<Rightarrow> reconcile_turn \<Rightarrow> RuntimeReconcileLockedRunRow \<Rightarrow> AttemptRow \<Rightarrow> runtimeReconcileDisposition lease_tx" where
  "reconcileRuntimeDeadlineCrossedAfterAttemptFinish fe tn locked finished =
     (let locked' = locked\<lparr>lr_DatabaseNow := tn_clk tn 7\<rparr> in
      case runtimeDeadlineTerminalForRun locked' of
        None \<Rightarrow> tx_fail (OtherError ''Runtime reconcile transition lost its fenced Run'' None)
      | Some terminal \<Rightarrow>
          tx_bind (finalizeRuntimeReconciledTerminal fe tn locked' (Some finished) terminal) (\<lambda>_.
          tx_return runtimeReconcileTimedOut))"

definition reconcileExpiredOffer ::
    "result_env \<Rightarrow> reconcile_turn \<Rightarrow> RuntimeReconcileLockedRunRow \<Rightarrow> AttemptRow \<Rightarrow> runtimeReconcileDisposition lease_tx" where
  "reconcileExpiredOffer fe tn locked attempt =
     (let terminal = runtimeOfferTerminalForRun locked attempt;
          attemptErrorCode = (case terminal of None \<Rightarrow> ''RUNTIME_OFFER_EXPIRED'' | Some t \<Rightarrow> tt_errorCode t) in
      tx_bind (tx_one (OtherError ''Runtime expired offer changed after Run lock'' None)
         (FinishRuntimeReconciledAttempt ''offer_expired'' attemptErrorCode (a_RunID attempt) (a_ID attempt)
            (a_LeaseID attempt) (a_FencingToken attempt) (tn_clk tn 1))) (\<lambda>finished.
      tx_bind (releaseRuntimeAttemptCapacity attempt (\<lambda>n. tn_clk tn (2 + n))) (\<lambda>_.
      case terminal of
        Some t \<Rightarrow>
          tx_bind (finalizeRuntimeReconciledTerminal fe tn locked (Some finished) t) (\<lambda>_.
          tx_return runtimeReconcileTimedOut)
      | None \<Rightarrow>
          tx_bind (ResetRuntimeRunAfterReconciledOffer (a_RunID attempt) (a_ID attempt) (a_LeaseID attempt)
             (a_FencingToken attempt) (tn_clk tn 6)) (\<lambda>transitioned.
          case transitioned of
            None \<Rightarrow> reconcileRuntimeDeadlineCrossedAfterAttemptFinish fe tn locked finished
          | Some r \<Rightarrow>
              tx_bind (tx_guard (r_DispatchState r = ''pending'' \<and> r_NextAttemptAt r = None)
                 (OtherError ''expired offer did not return its Run to pending'' None)) (\<lambda>_.
              tx_bind (createRuntimeAvailableSignal (r_AgentID (lr_run locked)) (r_ID (lr_run locked)) None (tn_clk tn 10)) (\<lambda>_.
              tx_return runtimeReconcileRequeued))))))"

definition is_core_executor :: "AttemptRow \<Rightarrow> bool" where
  "is_core_executor a \<longleftrightarrow> a_ExecutorType a = ''core_http'' \<or> a_ExecutorType a = ''core_mcp''"

definition reconcileExpiredExecution ::
    "result_env \<Rightarrow> (int \<Rightarrow> gotime) \<Rightarrow> reconcile_turn \<Rightarrow> RuntimeReconcileLockedRunRow \<Rightarrow> AttemptRow
       \<Rightarrow> runtimeReconcileDisposition lease_tx" where
  "reconcileExpiredExecution fe retryPlanner tn locked attempt =
     (let coreResultUnknown = (is_core_executor attempt \<and> r_EndpointIdempotencySnapshot (lr_run locked) \<noteq> Some True);
          terminal = (if coreResultUnknown then Some endpointResultUnknown else runtimeExecutionTerminalForRun locked);
          deadline = (case terminal of None \<Rightarrow> False | Some t \<Rightarrow> tt_errorCode t = ''RUN_DEADLINE_EXCEEDED'');
          outcome = (if deadline then ''timeout'' else if coreResultUnknown then ''result_unknown'' else ''lease_expired'');
          attemptErrorCode = (if deadline then ''RUN_DEADLINE_EXCEEDED''
             else if coreResultUnknown then tt_errorCode endpointResultUnknown else ''LEASE_EXPIRED'');
          retryDelay = retryPlanner (r_AttemptCount (lr_run locked)) in
      tx_bind (tx_guard (terminal = None \<longrightarrow> millisecond \<le> retryDelay \<and> retryDelay \<le> 60 * second)
         (OtherError ''Runtime retry planner returned invalid delay'' None)) (\<lambda>_.
      tx_bind (tx_one (OtherError ''Runtime expired execution changed after Run lock'' None)
         (FinishRuntimeReconciledAttempt outcome attemptErrorCode (a_RunID attempt) (a_ID attempt)
            (a_LeaseID attempt) (a_FencingToken attempt) (tn_clk tn 1))) (\<lambda>finished.
      tx_bind (releaseRuntimeAttemptCapacity attempt (\<lambda>n. tn_clk tn (2 + n))) (\<lambda>_.
      case terminal of
        Some t \<Rightarrow>
          tx_bind (finalizeRuntimeReconciledTerminal fe tn locked (Some finished) t) (\<lambda>_.
          tx_return (if tt_dispatchState t = ''dead_letter'' then runtimeReconcileDeadLettered
             else if coreResultUnknown then runtimeReconcileResultUnknown else runtimeReconcileTimedOut))
      | None \<Rightarrow>
          tx_bind (TransitionRuntimeRunAfterExpiredAttempt (Milliseconds retryDelay) (a_RunID attempt) (a_ID attempt)
             (a_LeaseID attempt) (a_FencingToken attempt) (tn_clk tn 6)) (\<lambda>transitioned.
          case transitioned of
            None \<Rightarrow> reconcileRuntimeDeadlineCrossedAfterAttemptFinish fe tn locked finished
          | Some r \<Rightarrow>
              tx_bind (tx_guard (r_DispatchState r = ''retry_wait'' \<and> r_NextAttemptAt r \<noteq> None)
                 (OtherError ''expired runtime Attempt did not enter retry_wait'' None)) (\<lambda>_.
              tx_bind (createRuntimeAvailableSignal (r_AgentID (lr_run locked)) (r_ID (lr_run locked))
                 (r_NextAttemptAt r) (tn_clk tn 10)) (\<lambda>_.
              tx_return runtimeReconcileRequeued)))))))"

definition validateRuntimeReconcileAttempt :: "RuntimeReconcileLockedRunRow \<Rightarrow> AttemptRow \<Rightarrow> ReconcileCandidate \<Rightarrow> go_error option" where
  "validateRuntimeReconcileAttempt locked a candidate =
     (let r = lr_run locked in
      if \<not> (rc_AttemptID candidate = Some (a_ID a) \<and> a_RunID a = r_ID r \<and> a_AgentID a = r_AgentID r \<and>
             rc_ExecutorType candidate = Some (a_ExecutorType a) \<and> attempt_unresolved a \<and>
             r_LatestAttemptID r = Some (a_ID a) \<and> run_leads r a \<and> r_CancelRequestID r = None)
      then Some (OtherError ''Runtime reconcile Attempt no longer matches its Run'' None)
      else if a_ExecutorType a = ''runtime'' \<and>
         \<not> (a_SlotAcquiredAt a \<noteq> None \<and> a_SlotReleasedAt a = None \<and> a_ActiveRuntimeSessionID a \<noteq> None \<and> a_NodeID a \<noteq> None \<and>
            rc_RuntimeSessionID candidate = a_ActiveRuntimeSessionID a \<and> rc_NodeID candidate = a_NodeID a)
      then Some (OtherError ''Runtime reconcile Attempt capacity identity changed'' None)
      else if a_ExecutorType a \<noteq> ''runtime'' \<and>
         \<not> (a_SlotAcquiredAt a = None \<and> a_SlotReleasedAt a = None \<and> a_ActiveRuntimeSessionID a = None \<and>
            rc_RuntimeSessionID candidate = None \<and> rc_NodeID candidate = None)
      then Some (OtherError ''Core Runtime reconcile Attempt has capacity evidence'' None)
      else if r_DispatchState r = ''offered''
      then (if a_AcceptedAt a = None \<and> a_AttemptNo a = None then None
            else Some (OtherError ''offered Runtime reconcile Attempt is already accepted'' None))
      else if r_DispatchState r = ''executing''
      then (if a_AcceptedAt a \<noteq> None \<and> a_AttemptNo a = Some (r_AttemptCount r) then None
            else Some (OtherError ''executing Runtime reconcile Attempt lacks acceptance evidence'' None))
      else Some (OtherError ''Runtime reconcile Attempt has invalid dispatch state'' None))"

text \<open>A \<open>SKIP LOCKED\<close> statement whose row is held finds no row.\<close>

definition skip_locked :: "bool \<Rightarrow> ('s, 'a) query \<Rightarrow> ('s, 'a) query" where
  "skip_locked held q = (if held then (\<lambda>_. None) else q)"

definition skip_locked_tx :: "bool \<Rightarrow> 'a option lease_tx \<Rightarrow> 'a option lease_tx" where
  "skip_locked_tx held m = (if held then tx_return None else m)"

text \<open>The locks on the owners of the slot; the value is whether both were taken.\<close>

definition reconcile_owners :: "reconcile_turn \<Rightarrow> ReconcileCandidate \<Rightarrow> bool lease_tx" where
  "reconcile_owners tn candidate =
     (if rc_ExecutorType candidate = Some ''runtime''
      then (case (rc_RuntimeSessionID candidate, rc_NodeID candidate) of
          (Some sessionID, Some nodeID) \<Rightarrow>
            tx_bind (tx_opt (skip_locked (tn_held tn 0) (LockRuntimeSessionForReconcile sessionID))) (\<lambda>lockedSession.
            if lockedSession = None then tx_return False
            else tx_bind (tx_guard (lockedSession = Some sessionID)
               (OtherError ''runtime reconcile Session lock returned a different owner'' None)) (\<lambda>_.
            tx_bind (tx_opt (skip_locked (tn_held tn 1) (LockRuntimeNodeForReconcile nodeID))) (\<lambda>lockedNode.
            if lockedNode = None then tx_return False
            else tx_bind (tx_guard (lockedNode = Some nodeID)
               (OtherError ''runtime reconcile Node lock returned a different owner'' None)) (\<lambda>_. tx_return True))))
        | _ \<Rightarrow> tx_fail (OtherError ''runtime reconcile candidate is missing capacity owner'' None))
      else if rc_ExecutorType candidate = Some ''core_http'' \<or> rc_ExecutorType candidate = Some ''core_mcp''
      then (if rc_RuntimeSessionID candidate \<noteq> None \<or> rc_NodeID candidate \<noteq> None
            then tx_fail (OtherError ''Core reconcile candidate unexpectedly owns Runtime Worker capacity'' None)
            else tx_return True)
      else tx_fail (OtherError ''runtime reconcile candidate has unknown executor type'' None))"

definition reconcile_tx ::
    "result_env \<Rightarrow> (int \<Rightarrow> gotime) \<Rightarrow> reconcile_turn \<Rightarrow> ReconcileCandidate \<Rightarrow> runtimeReconcileDisposition lease_tx" where
  "reconcile_tx fe retryPlanner tn candidate =
     (case rc_AttemptID candidate of
        None \<Rightarrow>
          tx_bind (skip_locked_tx (tn_held tn 2) (LockDueRuntimeRunWithoutAttempt (rc_RunID candidate) (tn_clk tn 0))) (\<lambda>row.
          case row of
            None \<Rightarrow> tx_return runtimeReconcileSkipped
          | Some locked \<Rightarrow>
             (case runtimeDeadlineTerminalForRun locked of
                None \<Rightarrow> tx_fail (OtherError ''locked Runtime deadline-only Run is not due'' None)
              | Some terminal \<Rightarrow>
                  tx_bind (finalizeRuntimeReconciledTerminal fe tn locked None terminal) (\<lambda>_.
                  tx_return runtimeReconcileTimedOut)))
      | Some attemptID \<Rightarrow>
          tx_bind (reconcile_owners tn candidate) (\<lambda>taken.
          if \<not> taken then tx_return runtimeReconcileSkipped
          else
            tx_bind (skip_locked_tx (tn_held tn 2) (LockDueRuntimeRunWithAttempt (rc_RunID candidate) attemptID
               (the (rc_ExecutorType candidate)) (rc_RuntimeSessionID candidate) (rc_NodeID candidate) (tn_clk tn 0))) (\<lambda>row.
            case row of
              None \<Rightarrow> tx_return runtimeReconcileSkipped
            | Some locked \<Rightarrow>
                tx_bind (tx_one ErrNoRows (LockRunAttemptForResult (r_ID (lr_run locked)) attemptID)) (\<lambda>attempt.
                case validateRuntimeReconcileAttempt locked attempt candidate of
                  Some err \<Rightarrow> tx_fail err
                | None \<Rightarrow>
                    if r_DispatchState (lr_run locked) = ''offered'' then reconcileExpiredOffer fe tn locked attempt
                    else if r_DispatchState (lr_run locked) = ''executing''
                    then reconcileExpiredExecution fe retryPlanner tn locked attempt
                    else tx_fail (OtherError ''Runtime Attempt candidate changed to an unsupported dispatch state'' None)))))"

definition reconcileCandidate ::
    "result_env \<Rightarrow> (int \<Rightarrow> gotime) \<Rightarrow> reconcile_turn \<Rightarrow> ReconcileCandidate \<Rightarrow> runtime_db
       \<Rightarrow> (go_error + runtimeReconcileDisposition) \<times> runtime_db" where
  "reconcileCandidate fe retryPlanner tn candidate d =
     (if rc_RunID candidate = uuid_Nil \<or> IsZero (rc_DatabaseNow candidate) \<or> IsZero (rc_DueAt candidate)
      then (Inl (OtherError ''Runtime reconcile candidate is incomplete'' None), d)
      else if rc_AttemptID candidate = None \<and>
         (rc_ExecutorType candidate \<noteq> None \<or> rc_RuntimeSessionID candidate \<noteq> None \<or> rc_NodeID candidate \<noteq> None)
      then (Inl (OtherError ''Runtime deadline-only candidate has Attempt identity'' None), d)
      else if rc_AttemptID candidate \<noteq> None \<and> rc_ExecutorType candidate = None
      then (Inl (OtherError ''Runtime Attempt candidate has no executor type'' None), d)
      else WithTransaction (reconcile_tx fe retryPlanner tn candidate) d)"

section \<open>Batches\<close>

record RuntimeDeadlineReconciler =
  rr_pool :: bool
  rr_retryPlanner :: "int \<Rightarrow> gotime"

definition NewRuntimeDeadlineReconciler :: "bool \<Rightarrow> (int \<Rightarrow> gotime) option \<Rightarrow> RuntimeDeadlineReconciler" where
  "NewRuntimeDeadlineReconciler pool planner =
     \<lparr>rr_pool = pool, rr_retryPlanner = (case planner of None \<Rightarrow> fixedResultRetryPlanner | Some p \<Rightarrow> p)\<rparr>"

record RuntimeReconcileBatchResult =
  br_Scanned :: int
  br_Reconciled :: int
  br_Requeued :: int
  br_TimedOut :: int
  br_DeadLettered :: int
  br_ResultUnknown :: int

definition ErrRuntimeReconcilerNotConfigured :: go_error where
  "ErrRuntimeReconcilerNotConfigured = OtherError ''Runtime deadline reconciler is not configured'' None"

definition ErrRuntimeReconcileBatchInvalid :: go_error where
  "ErrRuntimeReconcileBatchInvalid = OtherError ''Runtime deadline reconcile batch must be between 1 and 1000'' None"

definition nextReconcileDue :: "RuntimeDeadlineReconciler \<Rightarrow> gotime \<Rightarrow> runtime_db \<Rightarrow> go_error + gotime option \<times> gotime" where
  "nextReconcileDue r now d =
     (if rr_pool r then Inr (NextRuntimeReconcileDue now d) else Inl ErrRuntimeReconcilerNotConfigured)"

fun count_disposition :: "runtimeReconcileDisposition \<Rightarrow> RuntimeReconcileBatchResult \<Rightarrow> RuntimeReconcileBatchResult" where
  "count_disposition runtimeReconcileSkipped b = b"
| "count_disposition runtimeReconcileRequeued b = b\<lparr>br_Requeued := br_Requeued b + 1, br_Reconciled := br_Reconciled b + 1\<rparr>"
| "count_disposition runtimeReconcileTimedOut b = b\<lparr>br_TimedOut := br_TimedOut b + 1, br_Reconciled := br_Reconciled b + 1\<rparr>"
| "count_disposition runtimeReconcileDeadLettered b =
     b\<lparr>br_DeadLettered := br_DeadLettered b + 1, br_Reconciled := br_Reconciled b + 1\<rparr>"
| "count_disposition runtimeReconcileResultUnknown b =
     b\<lparr>br_ResultUnknown := br_ResultUnknown b + 1, br_Reconciled := br_Reconciled b + 1\<rparr>"

fun reconcile_loop ::
    "result_env \<Rightarrow> (int \<Rightarrow> gotime) \<Rightarrow> (nat \<Rightarrow> reconcile_turn) \<Rightarrow> ReconcileCandidate list \<Rightarrow> RuntimeReconcileBatchResult
       \<Rightarrow> runtime_db \<Rightarrow> (RuntimeReconcileBatchResult \<times> go_error option) \<times> runtime_db" where
  "reconcile_loop fe retryPlanner turns [] b d = ((b, None), d)"
| "reconcile_loop fe retryPlanner turns (candidate # rest) b d =
     (case reconcileCandidate fe retryPlanner (turns 0) candidate d of
        (Inl err, d') \<Rightarrow> ((b, Some err), d')
      | (Inr disposition, d') \<Rightarrow>
          reconcile_loop fe retryPlanner (\<lambda>n. turns (Suc n)) rest (count_disposition disposition b) d')"

definition ReconcileBatch ::
    "result_env \<Rightarrow> RuntimeDeadlineReconciler \<Rightarrow> int \<Rightarrow> gotime \<Rightarrow> (nat \<Rightarrow> reconcile_turn) \<Rightarrow> runtime_db
       \<Rightarrow> (RuntimeReconcileBatchResult \<times> go_error option) \<times> runtime_db" where
  "ReconcileBatch fe r limit now turns d =
     (let zero = \<lparr>br_Scanned = 0, br_Reconciled = 0, br_Requeued = 0, br_TimedOut = 0, br_DeadLettered = 0,
                  br_ResultUnknown = 0\<rparr> in
      if \<not> rr_pool r then ((zero, Some ErrRuntimeReconcilerNotConfigured), d)
      else if limit < 1 \<or> limit > 1000 then ((zero, Some ErrRuntimeReconcileBatchInvalid), d)
      else
        (let candidates = ListDueRuntimeReconcileCandidates (nat limit) now d in
         reconcile_loop fe (rr_retryPlanner r) turns candidates (zero\<lparr>br_Scanned := int (length candidates)\<rparr>) d))"

end
