(* ===== verification/Reconciler_Steps.thy ===== *)
theory Reconciler_Steps
  imports Result_Steps Reconciler
begin

text \<open>
  Every committed transaction of the reconciler is a step of the abstract specification, or changes
  nothing: a run that ends without an attempt is settled, and an attempt that is given up is closed
  together with its run.
\<close>

section \<open>Statements\<close>

lemma scan_Inr:
  "scanRuntimeReconcileLockedRun now r d = Inr (Some locked, d') \<longleftrightarrow>
     d' = d \<and> lr_run locked = r \<and> r_DispatchDeadlineAt r = Some (lr_DispatchDeadlineAt locked) \<and>
     r_RunDeadlineAt r = Some (lr_RunDeadlineAt locked) \<and> lr_DatabaseNow locked = now"
  by (cases locked) (auto simp: scanRuntimeReconcileLockedRun_def tx_simps split: option.splits)

lemma scan_never_None: "scanRuntimeReconcileLockedRun now r d \<noteq> Inr (None, d')"
  by (auto simp: scanRuntimeReconcileLockedRun_def tx_simps split: option.splits)

lemma lock_None_keeps:
  "skip_locked_tx held (LockDueRuntimeRunWithoutAttempt runID now) d = Inr (None, d') \<Longrightarrow> d' = d"
  "skip_locked_tx held (LockDueRuntimeRunWithAttempt runID attemptID executor sessionID nodeID now) d = Inr (None, d') \<Longrightarrow> d' = d"
  by (auto simp: skip_locked_tx_def LockDueRuntimeRunWithoutAttempt_def LockDueRuntimeRunWithAttempt_def tx_simps
      scan_never_None split: option.split_asm if_split_asm)

lemma owners_keep: "reconcile_owners tn candidate d = Inr (taken, d') \<Longrightarrow> d' = d"
  by (auto simp: reconcile_owners_def tx_simps skip_locked_def LockRuntimeSessionForReconcile_def
      LockRuntimeNodeForReconcile_def split: option.split_asm if_split_asm)

text \<open>The attempt after its finish statement.\<close>

definition reconciled_attempt :: "AttemptRow \<Rightarrow> string \<Rightarrow> string \<Rightarrow> gotime \<Rightarrow> AttemptRow" where
  "reconciled_attempt a outcome errorCode now =
     a\<lparr>a_FinishedAt := Some now, a_Outcome := Some outcome, a_ErrorCode := Some errorCode, a_ErrorDetailRedacted := None\<rparr>"

lemma finishes_reconciled: "finishes a (reconciled_attempt a outcome errorCode now)"
  by (simp add: finishes_def reconciled_attempt_def same_identity_def stored_identity_def)

lemma FinishRuntimeReconciledAttempt_SomeD:
  assumes "FinishRuntimeReconciledAttempt outcome errorCode runID attemptID leaseID fence now d = Some (a', d')"
    and "find_attempt attemptID d = Some a"
  shows "a' = reconciled_attempt a outcome errorCode now" "d' = set_attempt attemptID a' d"
  using assms by (auto simp: FinishRuntimeReconciledAttempt_def reconciled_attempt_def Let_def split: option.split_asm if_split_asm)

lemma checked_run_Inr: "checked_run runID r d = Inr (x, d') \<longleftrightarrow> run_state_checks r \<and> x = Some r \<and> d' = set_run runID r d"
  by (auto simp: checked_run_def)

lemma FinalizeReconciled_InrD:
  assumes "FinalizeRuntimeReconciledRun status state code message ms eventID runID attemptID now d = Inr (Some r', d')"
    and "find_run runID d = Some r"
  shows "d' = set_run runID r' d" "closes_run r r'" "r_Status r' = status" "r_DispatchState r' = state" "run_state_checks r'"
    "status \<noteq> ''running''" "r_TerminalEventID r' = Some eventID" "r_ErrorCode r' = Some code"
proof -
  from assms have r': "r' = (clear_lease r)\<lparr>r_Status := status, r_DispatchState := state, r_Output := None,
                 r_ErrorCode := Some code, r_ErrorMessage := Some message, r_DurationMs := Some ms,
                 r_FinishedAt := Some now, r_NextAttemptAt := None, r_ResultID := None, r_ResultFingerprint := None,
                 r_TerminalEventID := Some eventID,
                 r_DeadLetteredAt := (if state = ''dead_letter'' then Some now else None)\<rparr>"
    and facts: "d' = set_run runID r' d" "run_state_checks r'"
    and allowed: "reconciled_allowed status state code r (Option.bind attemptID (\<lambda>k. find_attempt k d))"
    by (auto simp: FinalizeRuntimeReconciledRun_def checked_run_Inr Let_def split: if_split_asm)
  show "closes_run r r'" unfolding r' by (rule closes_clear_lease)
  show "status \<noteq> ''running''" using allowed by (auto simp: reconciled_allowed_def split: option.split_asm)
  show "d' = set_run runID r' d" "run_state_checks r'" by (fact facts)+
  show "r_Status r' = status" "r_DispatchState r' = state" "r_TerminalEventID r' = Some eventID" "r_ErrorCode r' = Some code"
    by (simp_all add: r')
qed

section \<open>Ending a run\<close>

lemma reconciled_terminalE:
  assumes tx: "finalizeRuntimeReconciledTerminal fe tn locked finished terminal d = Inr (u, d')"
    and r: "find_run (r_ID (lr_run locked)) d = Some r"
  obtains e r' where "core_event e" "next_event d e" "ev_RunID e = r_ID (lr_run locked)" "db_events d' = insert_row e (db_events d)"
    "ev_ID e = deterministicTerminalEventID fe (r_ID (lr_run locked)) (tt_status terminal)"
    "db_runs d' = update_row r_ID (r_ID (lr_run locked)) (\<lambda>_. r') (db_runs d)" "closes_run r r'"
    "r_Status r' = tt_status terminal" "r_DispatchState r' = tt_dispatchState terminal" "tt_status terminal \<noteq> ''running''"
    "r_ErrorCode r' = Some (tt_errorCode terminal)" "r_TerminalEventID r' = Some (ev_ID e)"
    "db_attempts d' = db_attempts d" "db_sessions d' = db_sessions d" "db_nodes d' = db_nodes d"
proof -
  let ?run = "lr_run locked" let ?ev = "deterministicTerminalEventID fe (r_ID ?run) (tt_status terminal)"
  from tx obtain ms parent effects d1 payload d2 e d3 d4 r' d5 d6 where
      1: "discoverRuntimeResultEffects fe ?run ?ev ''run.failed'' d = Inr ((parent, effects), d1)"
    and 2: "marshalRuntimeResultJSON fe (VObject [(''classification'', VString (tt_classification terminal)),
         (''duration_ms'', VInt (word_of_int ms)), (''error_code'', VString (tt_errorCode terminal)),
         (''error_message'', VString (tt_errorMessage terminal)), (''status'', VString (tt_status terminal)),
         (''terminal'', VBool True)]) d1 = Inr (payload, d2)"
    and 3: "InsertTerminalRunEvent ?ev (tn_began tn) (r_ID ?run) parent ''run.failed'' payload d2 = Inr (e, d3)"
    and 4: "(if tt_dispatchState terminal = ''dead_letter''
         then (case finished of
             Some a \<Rightarrow>
               tx_bind (tx_guard (a_AttemptNo a \<noteq> None)
                 (OtherError ''dead-lettered Runtime Run has no final Attempt number'' None)) (\<lambda>_.
               ensureRuntimeResultDeadLetter (r_ID ?run) (the (a_AttemptNo a)) (a_ErrorCode a))
           | None \<Rightarrow> tx_fail (OtherError ''dead-lettered Runtime Run has no final Attempt number'' None))
         else tx_return ()) d3 = Inr ((), d4)"
    and 5: "FinalizeRuntimeReconciledRun (tt_status terminal) (tt_dispatchState terminal) (tt_errorCode terminal)
         (tt_errorMessage terminal) ms (ev_ID e) (r_ID ?run) (map_option a_ID finished) (tn_clk tn 8) d4 = Inr (Some r', d5)"
    and 6: "insertRuntimeResultLedgerAndStats ?run (ev_ID e) 0 0 (tn_began tn) d5 = Inr ((), d6)"
    and 7: "ensure_effects fe (r_ID ?run) (ev_ID e) (tn_clk tn 9) effects d6 = Inr (u, d')"
    unfolding finalizeRuntimeReconciledTerminal_def Let_def tx_simps by (auto simp: tx_simps)
  have pre: "d1 = d" "d2 = d" using discover_keeps[OF 1] marshal_keeps[OF 2] by simp_all
  note e = InsertTerminalRunEvent_InrD[OF 3[unfolded pre]]
  have d4: "same_core d3 d4"
    using 4 by (auto simp: tx_simps split: if_split_asm option.split_asm dest: dead_letter_core)
  have row: "find_run (r_ID ?run) d4 = Some r" using r d4 by (simp add: same_core_def e(1))
  note fin = FinalizeReconciled_InrD[OF 5 row]
  have rest: "same_core d5 d'" by (rule same_core_trans[OF ledger_core[OF 6] ensure_effects_core[OF 7]])
  show ?thesis
    by (rule that[of e r']) (use e d4 rest fin in \<open>simp_all add: same_core_def\<close>)
qed

section \<open>Steps\<close>

text \<open>
  What a disposition says of the run before and after. Both deadlines of a run that goes back to the
  queue were ahead when it was locked and when it was put back, and its attempt had expired. A run that
  times out carries the code of the deadline that had passed, the run deadline first, or of the offers
  that are used up. It becomes a dead letter when its attempts are used up while both deadlines are
  ahead, and its result is unknown only for an endpoint of Core that does not promise idempotence.
\<close>

definition in_time :: "RunRow \<Rightarrow> gotime \<Rightarrow> bool" where
  "in_time r now \<longleftrightarrow> sql_gt (r_DispatchDeadlineAt r) now \<and> sql_gt (r_RunDeadlineAt r) now"

definition attempt_expired :: "RunRow \<Rightarrow> AttemptRow option \<Rightarrow> gotime \<Rightarrow> bool" where
  "attempt_expired r att now \<longleftrightarrow>
     (\<exists>a. att = Some a \<and>
        (r_DispatchState r = ''offered'' \<and> a_OfferExpiresAt a \<le> now \<or>
         r_DispatchState r = ''executing'' \<and> (a_LeaseExpiresAt a \<le> now \<or> a_AttemptDeadlineAt a \<le> now)))"

definition times_out :: "RunRow \<Rightarrow> AttemptRow option \<Rightarrow> gotime \<Rightarrow> string option \<Rightarrow> bool" where
  "times_out r att now code \<longleftrightarrow>
     code = Some ''RUN_DEADLINE_EXCEEDED'' \<and> sql_le (r_RunDeadlineAt r) now \<or>
     code = Some ''RUNTIME_DISPATCH_TIMEOUT'' \<and> sql_gt (r_RunDeadlineAt r) now \<and>
       (sql_le (r_DispatchDeadlineAt r) now \<or>
        r_DispatchState r = ''offered'' \<and> attempt_expired r att now \<and> r_MaxOfferCount r \<le> r_OfferCount r)"

definition disposed ::
    "reconcile_turn \<Rightarrow> RunRow \<Rightarrow> AttemptRow option \<Rightarrow> runtimeReconcileDisposition \<Rightarrow> RunRow \<Rightarrow> bool" where
  "disposed tn r att x r' \<longleftrightarrow>
     (case x of
        runtimeReconcileSkipped \<Rightarrow> False
      | runtimeReconcileRequeued \<Rightarrow>
          in_time r (tn_clk tn 0) \<and> in_time r (tn_clk tn 6) \<and> attempt_expired r att (tn_clk tn 0) \<and>
          r_Status r' = ''running'' \<and> r_ErrorCode r' = None \<and>
          (r_DispatchState r = ''offered'' \<and> r_DispatchState r' = ''pending'' \<and> r_OfferCount r < r_MaxOfferCount r \<or>
           r_DispatchState r = ''executing'' \<and> r_DispatchState r' = ''retry_wait'' \<and> r_AttemptCount r < r_MaxAttempts r)
      | runtimeReconcileTimedOut \<Rightarrow>
          r_Status r' = ''timeout'' \<and> r_DispatchState r' = ''terminal'' \<and>
          (times_out r att (tn_clk tn 0) (r_ErrorCode r') \<or>
           in_time r (tn_clk tn 0) \<and> \<not> in_time r (tn_clk tn 7) \<and> times_out r None (tn_clk tn 7) (r_ErrorCode r'))
      | runtimeReconcileDeadLettered \<Rightarrow>
          in_time r (tn_clk tn 0) \<and> attempt_expired r att (tn_clk tn 0) \<and> r_DispatchState r = ''executing'' \<and>
          r_MaxAttempts r \<le> r_AttemptCount r \<and>
          r_Status r' = ''failed'' \<and> r_DispatchState r' = ''dead_letter'' \<and> r_ErrorCode r' = Some ''RUNTIME_RETRY_EXHAUSTED''
      | runtimeReconcileResultUnknown \<Rightarrow>
          r_DispatchState r = ''executing'' \<and> r_EndpointIdempotencySnapshot r \<noteq> Some True \<and>
          (\<exists>a. att = Some a \<and> is_core_executor a) \<and>
          r_Status r' = ''failed'' \<and> r_DispatchState r' = ''terminal'' \<and> r_ErrorCode r' = Some ''ENDPOINT_RESULT_UNKNOWN'')"

lemma sql_le_iff: "sql_le v t \<longleftrightarrow> (\<exists>x. v = Some x \<and> x \<le> t)"
  by (cases v) (simp_all add: sql_le_def)

lemma sql_least_le: "sql_le (sql_least ts) t \<longleftrightarrow> (\<exists>x. Some x \<in> set ts \<and> x \<le> t)"
proof -
  have fold: "foldl min x us \<le> t \<longleftrightarrow> (\<exists>y \<in> set (x # us). y \<le> t)" for x us
    by (induction us arbitrary: x) (auto simp: min_le_iff_disj)
  have "(\<exists>x. Some x \<in> set ts \<and> x \<le> t) \<longleftrightarrow> (\<exists>y \<in> set (List.map_filter id ts). y \<le> t)"
    by (auto simp: set_map_filter)
  then show ?thesis by (cases "List.map_filter id ts") (auto simp: sql_least_def sql_le_def fold simp del: foldl_Cons)
qed

lemma due_attempt_expired:
  "sql_le (reconcile_due_at r (Some a)) now \<Longrightarrow> in_time r now \<Longrightarrow> r_DispatchState r \<in> {''offered'', ''executing''} \<Longrightarrow>
     attempt_expired r (Some a) now"
  by (cases "r_DispatchDeadlineAt r"; cases "r_RunDeadlineAt r")
    (auto simp: reconcile_due_at_def sql_least_le in_time_def attempt_expired_def)

definition locked_row :: "RuntimeReconcileLockedRunRow \<Rightarrow> gotime \<Rightarrow> bool" where
  "locked_row locked now \<longleftrightarrow> r_DispatchDeadlineAt (lr_run locked) = Some (lr_DispatchDeadlineAt locked) \<and>
     r_RunDeadlineAt (lr_run locked) = Some (lr_RunDeadlineAt locked) \<and> lr_DatabaseNow locked = now"

lemma lock_without_attempt_SomeD:
  assumes "skip_locked_tx held (LockDueRuntimeRunWithoutAttempt runID now) d = Inr (Some locked, d')"
  shows "d' = d" "find_run runID d = Some (lr_run locked)" "r_Status (lr_run locked) = ''running''"
    "r_CancelRequestID (lr_run locked) = None" "sql_le (reconcile_due_at (lr_run locked) (active_attempt (lr_run locked) d)) now"
    "locked_row locked now" "r_ID (lr_run locked) = runID"
  using assms
  by (auto simp: skip_locked_tx_def LockDueRuntimeRunWithoutAttempt_def tx_simps scan_Inr reconcile_eligible_def
      locked_row_def active_attempt_def dest: find_row_key split: option.split_asm if_split_asm)

lemma lock_with_attempt_SomeD:
  assumes "skip_locked_tx held (LockDueRuntimeRunWithAttempt runID attemptID executor sessionID nodeID now) d = Inr (Some locked, d')"
  obtains a where "d' = d" "find_run runID d = Some (lr_run locked)" "find_attempt attemptID d = Some a" "a_RunID a = runID"
    "r_Status (lr_run locked) = ''running''" "a_FinishedAt a = None" "run_leads (lr_run locked) a"
    "r_CancelRequestID (lr_run locked) = None" "sql_le (reconcile_due_at (lr_run locked) (Some a)) now" "locked_row locked now"
  using assms
  by (auto simp: skip_locked_tx_def LockDueRuntimeRunWithAttempt_def tx_simps scan_Inr reconcile_eligible_def
      attempt_unresolved_def locked_row_def split: option.split_asm if_split_asm)

lemma active_attempt_leads:
  "run_leads r a \<Longrightarrow> find_attempt (a_ID a) d = Some a \<Longrightarrow> a_RunID a = r_ID r \<Longrightarrow> active_attempt r d = Some a"
  by (simp add: active_attempt_def run_leads_def)

lemma deadline_terminalD:
  "runtimeDeadlineTerminalForRun locked = Some t \<Longrightarrow> locked_row locked now \<Longrightarrow>
     times_out (lr_run locked) att now (Some (tt_errorCode t)) \<and> \<not> in_time (lr_run locked) now \<and>
     tt_status t = ''timeout'' \<and> tt_dispatchState t = ''terminal''"
  by (auto simp: runtimeDeadlineTerminalForRun_def locked_row_def times_out_def in_time_def split: if_split_asm)

lemma deadline_terminal_None: "runtimeDeadlineTerminalForRun locked = None \<Longrightarrow> locked_row locked now \<Longrightarrow> in_time (lr_run locked) now"
  by (auto simp: runtimeDeadlineTerminalForRun_def locked_row_def in_time_def split: if_split_asm)

lemma offer_terminalD:
  assumes "runtimeOfferTerminalForRun locked a = Some t" "locked_row locked now" "r_DispatchState (lr_run locked) = ''offered''"
  shows "times_out (lr_run locked) (Some a) now (Some (tt_errorCode t)) \<and> tt_status t = ''timeout'' \<and> tt_dispatchState t = ''terminal''"
proof (cases "runtimeDeadlineTerminalForRun locked")
  case None
  with deadline_terminal_None[OF None assms(2)] assms show ?thesis
    by (auto simp: runtimeOfferTerminalForRun_def times_out_def in_time_def attempt_expired_def locked_row_def split: if_split_asm)
next
  case (Some t')
  with assms deadline_terminalD[OF Some assms(2)] show ?thesis by (simp add: runtimeOfferTerminalForRun_def)
qed

lemma offer_terminal_None: "runtimeOfferTerminalForRun locked a = None \<Longrightarrow> locked_row locked now \<Longrightarrow> in_time (lr_run locked) now"
  by (auto simp: runtimeOfferTerminalForRun_def intro: deadline_terminal_None split: option.split_asm)

lemma execution_terminalD:
  assumes "runtimeExecutionTerminalForRun locked = Some t" "locked_row locked now"
  shows "times_out (lr_run locked) att now (Some (tt_errorCode t)) \<and> tt_status t = ''timeout'' \<and> tt_dispatchState t = ''terminal'' \<or>
     in_time (lr_run locked) now \<and> r_MaxAttempts (lr_run locked) \<le> r_AttemptCount (lr_run locked) \<and>
     tt_status t = ''failed'' \<and> tt_dispatchState t = ''dead_letter'' \<and> tt_errorCode t = ''RUNTIME_RETRY_EXHAUSTED''"
proof (cases "runtimeDeadlineTerminalForRun locked")
  case None
  with deadline_terminal_None[OF None assms(2)] assms show ?thesis
    by (auto simp: runtimeExecutionTerminalForRun_def split: if_split_asm)
next
  case (Some t')
  with assms deadline_terminalD[OF Some assms(2)] show ?thesis by (simp add: runtimeExecutionTerminalForRun_def)
qed

lemma execution_terminal_None: "runtimeExecutionTerminalForRun locked = None \<Longrightarrow> locked_row locked now \<Longrightarrow> in_time (lr_run locked) now"
  by (auto simp: runtimeExecutionTerminalForRun_def intro: deadline_terminal_None split: option.split_asm)

text \<open>
  The common shape of the branches with an attempt: it was finished and its slot given back, and then
  the run is sent back to the queue or ended.
\<close>

definition run_moved :: "(RunRow \<Rightarrow> bool) \<Rightarrow> RunRow \<Rightarrow> runtime_db \<Rightarrow> runtime_db \<Rightarrow> bool" where
  "run_moved Q r d d' \<longleftrightarrow>
     (\<exists>r'. Q r' \<and> closes_run r r' \<and> db_runs d' = update_row r_ID (r_ID r) (\<lambda>_. r') (db_runs d)) \<and>
     db_attempts d' = db_attempts d \<and> db_sessions d' = db_sessions d \<and> db_nodes d' = db_nodes d \<and>
     (db_events d' = db_events d \<or>
      (\<exists>e. core_event e \<and> next_event d e \<and> ev_RunID e = r_ID r \<and> db_events d' = insert_row e (db_events d)))"

lemma terminal_moves:
  assumes "finalizeRuntimeReconciledTerminal fe tn locked finished t d = Inr (u, d')"
    and "find_run (r_ID (lr_run locked)) d = Some (lr_run locked)"
    and "\<And>r'. r_Status r' = tt_status t \<Longrightarrow> r_DispatchState r' = tt_dispatchState t \<Longrightarrow>
       r_ErrorCode r' = Some (tt_errorCode t) \<Longrightarrow> Q r'"
  shows "run_moved Q (lr_run locked) d d'"
  using assms(1,2) by (rule reconciled_terminalE) (use assms(3) in \<open>auto simp: run_moved_def\<close>)

lemma crossed_moves:
  assumes "reconcileRuntimeDeadlineCrossedAfterAttemptFinish fe tn locked finished d = Inr (x, d')"
    and "find_run (r_ID (lr_run locked)) d = Some (lr_run locked)" "locked_row locked now"
    and "in_time (lr_run locked) (tn_clk tn 0)"
  shows "run_moved (disposed tn (lr_run locked) att x) (lr_run locked) d d'"
proof -
  let ?l = "locked\<lparr>lr_DatabaseNow := tn_clk tn 7\<rparr>"
  from assms(1) obtain t where t: "finalizeRuntimeReconciledTerminal fe tn ?l (Some finished) t d = Inr ((), d')"
      "runtimeDeadlineTerminalForRun ?l = Some t" "x = runtimeReconcileTimedOut"
    by (auto simp: reconcileRuntimeDeadlineCrossedAfterAttemptFinish_def Let_def tx_simps split: option.split_asm)
  have "locked_row ?l (tn_clk tn 7)" using assms(3) by (simp add: locked_row_def)
  from deadline_terminalD[OF t(2) this, of None] terminal_moves[OF t(1), of "disposed tn (lr_run locked) att x"] assms(2,4) t(3)
  show ?thesis by (simp add: disposed_def)
qed

lemma Reset_InrD:
  assumes "ResetRuntimeRunAfterReconciledOffer runID attemptID leaseID fence (tn_clk tn 6) d = Inr (x, d')" "find_run runID d = Some r"
    and "in_time r (tn_clk tn 0)" "attempt_expired r att (tn_clk tn 0)"
  shows "case x of None \<Rightarrow> d' = d
     | Some r' \<Rightarrow> d' = set_run runID r' d \<and> closes_run r r' \<and> disposed tn r att runtimeReconcileRequeued r'"
  using assms
  by (auto simp: ResetRuntimeRunAfterReconciledOffer_def checked_run_Inr closes_run_def same_request_def clear_lease_def disposed_def in_time_def
      split: option.split_asm if_split_asm)

lemma Transition_InrD:
  assumes "TransitionRuntimeRunAfterExpiredAttempt ms runID attemptID leaseID fence (tn_clk tn 6) d = Inr (x, d')" "find_run runID d = Some r"
    and "in_time r (tn_clk tn 0)" "attempt_expired r att (tn_clk tn 0)"
  shows "case x of None \<Rightarrow> d' = d
     | Some r' \<Rightarrow> d' = set_run runID r' d \<and> closes_run r r' \<and> disposed tn r att runtimeReconcileRequeued r'"
  using assms
  by (auto simp: TransitionRuntimeRunAfterExpiredAttempt_def checked_run_Inr closes_run_def same_request_def clear_lease_def disposed_def in_time_def
      split: option.split_asm if_split_asm)

lemma signal_keeps_core: "createRuntimeAvailableSignal agentID runID t now d = Inr (u, d') \<Longrightarrow> same_core d d'"
  by (auto simp: createRuntimeAvailableSignal_def tx_simps CreateRuntimeSignal_def Let_def same_core_def)

lemma set_run_moves:
  assumes "closes_run r r'" "d1 = set_run (r_ID r) r' d" "same_core d1 d'" "Q r'"
  shows "run_moved Q r d d'"
  using assms by (auto simp: run_moved_def same_core_def)

lemma given_up_step:
  assumes rows: "find_run (r_ID r) d = Some r" "find_attempt (a_ID a) d = Some a" "a_RunID a = r_ID r"
    and open_: "slot_shape a" "a_FinishedAt a = None" "run_leads r a" "r_Status r = ''running''"
    and fin: "FinishRuntimeReconciledAttempt outcome errorCode (a_RunID a) (a_ID a) (a_LeaseID a) (a_FencingToken a) now d = Some (a1, d1)"
    and rel: "releaseRuntimeAttemptCapacity a clk d1 = Inr (u, d2)"
    and move: "find_run (r_ID r) d2 = Some r \<Longrightarrow> run_moved Q r d2 d'"
  shows "run_step d d' \<and> (\<exists>r'. find_run (r_ID r) d' = Some r' \<and> Q r')"
proof -
  note f = FinishRuntimeReconciledAttempt_SomeD[OF fin rows(2)]
  have ended: "finishes a a1" unfolding f(1) by (rule finishes_reconciled)
  note rl = release_statements[OF rel f(2) rows(2) ended open_(1,2)]
  have closed: "closes_attempt a (closed_attempt a1 (clk 0))" by (rule closes_finished[OF open_(1,2) ended])
  have "run_moved Q r d2 d'" using move rows(1) by (simp add: rl)
  then obtain r' where "Q r'" and r': "closes_run r r'" "db_runs d' = update_row r_ID (r_ID r) (\<lambda>_. r') (db_runs d)"
      "db_attempts d' = db_attempts d2" "db_sessions d' = db_sessions d2" "db_nodes d' = db_nodes d2"
    and ev: "db_events d' = db_events d \<or>
       (\<exists>e. core_event e \<and> next_event d2 e \<and> ev_RunID e = r_ID r \<and> db_events d' = insert_row e (db_events d))"
    by (auto simp: run_moved_def rl)
  have "next_event d2 e \<longleftrightarrow> next_event d e" for e by (rule next_event_cong) (simp add: rl)
  with ev have ev': "db_events d' = db_events d \<or>
       (\<exists>e. core_event e \<and> next_event d e \<and> ev_RunID e = r_ID r \<and> db_events d' = insert_row e (db_events d))" by simp
  have slot: "gives_back_slot a d d'" by (rule gives_back_slot_cong[OF _ _ r'(4,5) rl(1)]) simp_all
  have att: "db_attempts d' = update_row a_ID (a_ID a) (\<lambda>_. closed_attempt a1 (clk 0)) (db_attempts d)"
    using r'(3) rl(2) by simp
  have "run_step d d'"
    by (rule run_step.Close[OF rows(1,2,3) open_(2,3,4) closed r'(1) slot att r'(2) ev'])
  moreover have "find_run (r_ID r) d' = Some r'"
    using r'(1,2) find_row_replace[OF rows(1), of r' "r_ID r"] by (simp add: closes_run_def)
  ultimately show ?thesis using \<open>Q r'\<close> by blast
qed

text \<open>Both branches end alike: the run ends, is sent back by \<open>transition\<close>, or ends because a deadline was crossed.\<close>

lemma tail_moves:
  assumes rest: "(case terminal of
        Some t \<Rightarrow> tx_bind (finalizeRuntimeReconciledTerminal fe tn locked (Some a1) t) (\<lambda>_. tx_return (f t))
      | None \<Rightarrow> tx_bind transition (\<lambda>transitioned. case transitioned of
            None \<Rightarrow> reconcileRuntimeDeadlineCrossedAfterAttemptFinish fe tn locked a1
          | Some r \<Rightarrow>
              tx_bind (tx_guard (P r) err) (\<lambda>_.
              tx_bind (createRuntimeAvailableSignal (r_AgentID (lr_run locked)) (r_ID (lr_run locked)) (g r) now) (\<lambda>_.
              tx_return runtimeReconcileRequeued)))) d = Inr (x, d')"
    and run: "find_run (r_ID (lr_run locked)) d = Some (lr_run locked)"
    and row: "locked_row locked t0"
    and trans: "\<And>y d1. terminal = None \<Longrightarrow> transition d = Inr (y, d1) \<Longrightarrow>
       (case y of None \<Rightarrow> d1 = d
        | Some r' \<Rightarrow> d1 = set_run (r_ID (lr_run locked)) r' d \<and> closes_run (lr_run locked) r' \<and>
            disposed tn (lr_run locked) att runtimeReconcileRequeued r')"
    and calm: "terminal = None \<Longrightarrow> in_time (lr_run locked) (tn_clk tn 0)"
    and final: "\<And>t r'. terminal = Some t \<Longrightarrow> r_Status r' = tt_status t \<Longrightarrow> r_DispatchState r' = tt_dispatchState t \<Longrightarrow>
       r_ErrorCode r' = Some (tt_errorCode t) \<Longrightarrow> disposed tn (lr_run locked) att (f t) r'"
  shows "run_moved (disposed tn (lr_run locked) att x) (lr_run locked) d d'"
proof (cases terminal)
  case (Some t)
  with rest obtain u where "finalizeRuntimeReconciledTerminal fe tn locked (Some a1) t d = Inr (u, d')" "x = f t"
    by (auto simp: tx_simps)
  with terminal_moves[OF _ run] final[OF Some] show ?thesis by simp
next
  case None
  note trans = trans[OF None] and calm = calm[OF None]
  from None rest obtain y d1 where reset: "transition d = Inr (y, d1)"
    and cont: "(case y of None \<Rightarrow> reconcileRuntimeDeadlineCrossedAfterAttemptFinish fe tn locked a1
        | Some r \<Rightarrow>
            tx_bind (tx_guard (P r) err) (\<lambda>_.
            tx_bind (createRuntimeAvailableSignal (r_AgentID (lr_run locked)) (r_ID (lr_run locked)) (g r) now) (\<lambda>_.
            tx_return runtimeReconcileRequeued))) d1 = Inr (x, d')" by (auto simp: tx_simps)
  show ?thesis
  proof (cases y)
    case None
    with trans[OF reset] cont crossed_moves[OF _ run row calm] show ?thesis by simp
  next
    case (Some r')
    with trans[OF reset] have r': "closes_run (lr_run locked) r'" "d1 = set_run (r_ID (lr_run locked)) r' d"
        "disposed tn (lr_run locked) att runtimeReconcileRequeued r'" by simp_all
    from cont Some have "same_core d1 d'" "x = runtimeReconcileRequeued" by (auto simp: tx_simps dest: signal_keeps_core)
    with set_run_moves[OF r'(1,2)] r'(3) show ?thesis by simp
  qed
qed

lemma offer_step:
  assumes tx: "reconcileExpiredOffer fe tn locked a d = Inr (x, d')"
    and rows: "find_run (r_ID (lr_run locked)) d = Some (lr_run locked)" "find_attempt (a_ID a) d = Some a" "a_RunID a = r_ID (lr_run locked)"
    and open_: "slot_shape a" "a_FinishedAt a = None" "run_leads (lr_run locked) a" "r_Status (lr_run locked) = ''running''"
    and row: "locked_row locked (tn_clk tn 0)" and due: "sql_le (reconcile_due_at (lr_run locked) (Some a)) (tn_clk tn 0)"
    and state: "r_DispatchState (lr_run locked) = ''offered''"
  shows "run_step d d' \<and> (\<exists>r'. find_run (r_ID (lr_run locked)) d' = Some r' \<and> disposed tn (lr_run locked) (Some a) x r')"
proof -
  from tx obtain code a1 d1 u d2 where
      fin: "FinishRuntimeReconciledAttempt ''offer_expired'' code (a_RunID a) (a_ID a) (a_LeaseID a) (a_FencingToken a) (tn_clk tn 1) d = Some (a1, d1)"
    and rel: "releaseRuntimeAttemptCapacity a (\<lambda>n. tn_clk tn (2 + n)) d1 = Inr (u, d2)"
    and rest: "(case runtimeOfferTerminalForRun locked a of
        Some t \<Rightarrow> tx_bind (finalizeRuntimeReconciledTerminal fe tn locked (Some a1) t) (\<lambda>_. tx_return runtimeReconcileTimedOut)
      | None \<Rightarrow> tx_bind (ResetRuntimeRunAfterReconciledOffer (a_RunID a) (a_ID a) (a_LeaseID a) (a_FencingToken a) (tn_clk tn 6))
          (\<lambda>transitioned. case transitioned of
            None \<Rightarrow> reconcileRuntimeDeadlineCrossedAfterAttemptFinish fe tn locked a1
          | Some r \<Rightarrow>
              tx_bind (tx_guard (r_DispatchState r = ''pending'' \<and> r_NextAttemptAt r = None)
                 (OtherError ''expired offer did not return its Run to pending'' None)) (\<lambda>_.
              tx_bind (createRuntimeAvailableSignal (r_AgentID (lr_run locked)) (r_ID (lr_run locked)) None (tn_clk tn 10)) (\<lambda>_.
              tx_return runtimeReconcileRequeued)))) d2 = Inr (x, d')"
    unfolding reconcileExpiredOffer_def Let_def tx_simps by auto
  show ?thesis
  proof (rule given_up_step[OF rows open_ fin rel])
    assume run: "find_run (r_ID (lr_run locked)) d2 = Some (lr_run locked)"
    show "run_moved (disposed tn (lr_run locked) (Some a) x) (lr_run locked) d2 d'"
    proof (rule tail_moves[OF rest[unfolded rows(3)] run row])
      fix y d3 assume none: "runtimeOfferTerminalForRun locked a = None"
        and reset: "ResetRuntimeRunAfterReconciledOffer (r_ID (lr_run locked)) (a_ID a) (a_LeaseID a) (a_FencingToken a) (tn_clk tn 6) d2 = Inr (y, d3)"
      have calm: "in_time (lr_run locked) (tn_clk tn 0)" by (rule offer_terminal_None[OF none row])
      with due_attempt_expired[OF due] state Reset_InrD[OF reset run calm, of "Some a"]
      show "case y of None \<Rightarrow> d3 = d2 | Some r' \<Rightarrow> d3 = set_run (r_ID (lr_run locked)) r' d2 \<and> closes_run (lr_run locked) r' \<and>
          disposed tn (lr_run locked) (Some a) runtimeReconcileRequeued r'" by simp
    next
      fix t and r' :: RunRow assume "runtimeOfferTerminalForRun locked a = Some t" "r_Status r' = tt_status t"
        "r_DispatchState r' = tt_dispatchState t" "r_ErrorCode r' = Some (tt_errorCode t)"
      with offer_terminalD[OF _ row state] show "disposed tn (lr_run locked) (Some a) runtimeReconcileTimedOut r'" by (simp add: disposed_def)
    qed (rule offer_terminal_None[OF _ row])
  qed
qed

lemma execution_step:
  assumes tx: "reconcileExpiredExecution fe planner tn locked a d = Inr (x, d')"
    and rows: "find_run (r_ID (lr_run locked)) d = Some (lr_run locked)" "find_attempt (a_ID a) d = Some a" "a_RunID a = r_ID (lr_run locked)"
    and open_: "slot_shape a" "a_FinishedAt a = None" "run_leads (lr_run locked) a" "r_Status (lr_run locked) = ''running''"
    and row: "locked_row locked (tn_clk tn 0)" and due: "sql_le (reconcile_due_at (lr_run locked) (Some a)) (tn_clk tn 0)"
    and state: "r_DispatchState (lr_run locked) = ''executing''"
  shows "run_step d d' \<and> (\<exists>r'. find_run (r_ID (lr_run locked)) d' = Some r' \<and> disposed tn (lr_run locked) (Some a) x r')"
proof -
  let ?unknown = "is_core_executor a \<and> r_EndpointIdempotencySnapshot (lr_run locked) \<noteq> Some True"
  let ?delay = "planner (r_AttemptCount (lr_run locked))"
  from tx obtain outcome code a1 d1 u d2 where
      fin: "FinishRuntimeReconciledAttempt outcome code (a_RunID a) (a_ID a) (a_LeaseID a) (a_FencingToken a) (tn_clk tn 1) d = Some (a1, d1)"
    and rel: "releaseRuntimeAttemptCapacity a (\<lambda>n. tn_clk tn (2 + n)) d1 = Inr (u, d2)"
    and rest: "(case (if ?unknown then Some endpointResultUnknown else runtimeExecutionTerminalForRun locked) of
        Some t \<Rightarrow> tx_bind (finalizeRuntimeReconciledTerminal fe tn locked (Some a1) t)
           (\<lambda>_. tx_return (if tt_dispatchState t = ''dead_letter'' then runtimeReconcileDeadLettered
             else if ?unknown then runtimeReconcileResultUnknown else runtimeReconcileTimedOut))
      | None \<Rightarrow> tx_bind (TransitionRuntimeRunAfterExpiredAttempt (Milliseconds ?delay) (a_RunID a) (a_ID a) (a_LeaseID a)
           (a_FencingToken a) (tn_clk tn 6)) (\<lambda>transitioned. case transitioned of
            None \<Rightarrow> reconcileRuntimeDeadlineCrossedAfterAttemptFinish fe tn locked a1
          | Some r \<Rightarrow>
              tx_bind (tx_guard (r_DispatchState r = ''retry_wait'' \<and> r_NextAttemptAt r \<noteq> None)
                 (OtherError ''expired runtime Attempt did not enter retry_wait'' None)) (\<lambda>_.
              tx_bind (createRuntimeAvailableSignal (r_AgentID (lr_run locked)) (r_ID (lr_run locked)) (r_NextAttemptAt r) (tn_clk tn 10)) (\<lambda>_.
              tx_return runtimeReconcileRequeued)))) d2 = Inr (x, d')"
    unfolding reconcileExpiredExecution_def Let_def tx_simps by auto
  show ?thesis
  proof (rule given_up_step[OF rows open_ fin rel])
    assume run: "find_run (r_ID (lr_run locked)) d2 = Some (lr_run locked)"
    show "run_moved (disposed tn (lr_run locked) (Some a) x) (lr_run locked) d2 d'"
    proof (rule tail_moves[OF rest[unfolded rows(3)] run row])
      fix y d3 assume none: "(if ?unknown then Some endpointResultUnknown else runtimeExecutionTerminalForRun locked) = None"
        and trans: "TransitionRuntimeRunAfterExpiredAttempt (Milliseconds ?delay) (r_ID (lr_run locked)) (a_ID a) (a_LeaseID a)
           (a_FencingToken a) (tn_clk tn 6) d2 = Inr (y, d3)"
      have calm: "in_time (lr_run locked) (tn_clk tn 0)" using execution_terminal_None[OF _ row] none by (simp split: if_split_asm)
      with due_attempt_expired[OF due] state Transition_InrD[OF trans run calm, of "Some a"]
      show "case y of None \<Rightarrow> d3 = d2 | Some r' \<Rightarrow> d3 = set_run (r_ID (lr_run locked)) r' d2 \<and> closes_run (lr_run locked) r' \<and>
          disposed tn (lr_run locked) (Some a) runtimeReconcileRequeued r'" by simp
    next
      assume "(if ?unknown then Some endpointResultUnknown else runtimeExecutionTerminalForRun locked) = None"
      then show "in_time (lr_run locked) (tn_clk tn 0)" using execution_terminal_None[OF _ row] by (simp split: if_split_asm)
    next
      fix t and r' :: RunRow assume t: "(if ?unknown then Some endpointResultUnknown else runtimeExecutionTerminalForRun locked) = Some t"
        and r': "r_Status r' = tt_status t" "r_DispatchState r' = tt_dispatchState t" "r_ErrorCode r' = Some (tt_errorCode t)"
      show "disposed tn (lr_run locked) (Some a) (if tt_dispatchState t = ''dead_letter''
          then runtimeReconcileDeadLettered else if ?unknown then runtimeReconcileResultUnknown else runtimeReconcileTimedOut) r'"
      proof (cases ?unknown)
        case True
        with t r' state show ?thesis by (auto simp: disposed_def endpointResultUnknown_def)
      next
        case False
        with t have "runtimeExecutionTerminalForRun locked = Some t" by simp
        from execution_terminalD[OF this row, of "Some a"] r' state False due_attempt_expired[OF due]
        show ?thesis by (auto simp: disposed_def)
      qed
    qed
  qed
qed

text \<open>The transaction of one candidate.\<close>

lemma reconcile_tx_cases:
  assumes tx: "reconcile_tx fe planner tn candidate d = Inr (x, d')" and inv: "lease_inv d"
  obtains (skipped) "x = runtimeReconcileSkipped" "d' = d"
    | (acted) r r' where "run_step d d'" "find_run (rc_RunID candidate) d = Some r" "r_Status r = ''running''"
      "r_CancelRequestID r = None" "sql_le (reconcile_due_at r (active_attempt r d)) (tn_clk tn 0)"
      "find_run (rc_RunID candidate) d' = Some r'" "disposed tn r (active_attempt r d) x r'"
proof (cases "rc_AttemptID candidate")
  case None
  with tx obtain row d1 where lock: "skip_locked_tx (tn_held tn 2) (LockDueRuntimeRunWithoutAttempt (rc_RunID candidate) (tn_clk tn 0)) d = Inr (row, d1)"
    and rest: "(case row of None \<Rightarrow> tx_return runtimeReconcileSkipped
          | Some locked \<Rightarrow> (case runtimeDeadlineTerminalForRun locked of
                None \<Rightarrow> tx_fail (OtherError ''locked Runtime deadline-only Run is not due'' None)
              | Some terminal \<Rightarrow> tx_bind (finalizeRuntimeReconciledTerminal fe tn locked None terminal) (\<lambda>_.
                  tx_return runtimeReconcileTimedOut))) d1 = Inr (x, d')"
    by (auto simp: reconcile_tx_def tx_simps)
  show ?thesis
  proof (cases row)
    case None
    with rest lock_None_keeps(1)[of "tn_held tn 2"] lock show ?thesis by (intro skipped) (auto simp: tx_simps)
  next
    case (Some locked)
    note l = lock_without_attempt_SomeD[OF lock[unfolded Some]]
    from rest Some l(1) obtain terminal where fin: "finalizeRuntimeReconciledTerminal fe tn locked None terminal d = Inr ((), d')"
      and t: "runtimeDeadlineTerminalForRun locked = Some terminal" "x = runtimeReconcileTimedOut"
      by (auto simp: tx_simps split: option.split_asm)
    have run: "find_run (r_ID (lr_run locked)) d = Some (lr_run locked)" using l(2,7) by simp
    from fin run obtain e r' where "core_event e" "next_event d e" "ev_RunID e = r_ID (lr_run locked)" "db_events d' = insert_row e (db_events d)"
        "db_runs d' = update_row r_ID (r_ID (lr_run locked)) (\<lambda>_. r') (db_runs d)" "closes_run (lr_run locked) r'"
        "r_Status r' = tt_status terminal" "r_DispatchState r' = tt_dispatchState terminal" "tt_status terminal \<noteq> ''running''"
        "r_ErrorCode r' = Some (tt_errorCode terminal)" "db_attempts d' = db_attempts d" "db_sessions d' = db_sessions d" "db_nodes d' = db_nodes d"
      by (rule reconciled_terminalE)
    note moved = this
    have "run_step d d'" using moved by (intro run_step.Settle[OF run l(3), of r']) auto
    moreover have "find_run (rc_RunID candidate) d' = Some r'"
      using moved(5,6) find_row_replace[OF run, of r' "r_ID (lr_run locked)"] l(7) by (simp add: closes_run_def)
    moreover have "disposed tn (lr_run locked) (active_attempt (lr_run locked) d) x r'"
      using deadline_terminalD[OF t(1) l(6)] t(2) moved(7,8,10) by (simp add: disposed_def)
    ultimately show ?thesis using l by (intro acted) simp_all
  qed
next
  case (Some attemptID)
  with tx obtain taken d0 where own: "reconcile_owners tn candidate d = Inr (taken, d0)"
    and rest: "(if \<not> taken then tx_return runtimeReconcileSkipped
          else tx_bind (skip_locked_tx (tn_held tn 2) (LockDueRuntimeRunWithAttempt (rc_RunID candidate) attemptID
               (the (rc_ExecutorType candidate)) (rc_RuntimeSessionID candidate) (rc_NodeID candidate) (tn_clk tn 0))) (\<lambda>row.
            case row of None \<Rightarrow> tx_return runtimeReconcileSkipped
            | Some locked \<Rightarrow>
                tx_bind (tx_one ErrNoRows (LockRunAttemptForResult (r_ID (lr_run locked)) attemptID)) (\<lambda>attempt.
                case validateRuntimeReconcileAttempt locked attempt candidate of
                  Some err \<Rightarrow> tx_fail err
                | None \<Rightarrow>
                    if r_DispatchState (lr_run locked) = ''offered'' then reconcileExpiredOffer fe tn locked attempt
                    else if r_DispatchState (lr_run locked) = ''executing''
                    then reconcileExpiredExecution fe planner tn locked attempt
                    else tx_fail (OtherError ''Runtime Attempt candidate changed to an unsupported dispatch state'' None)))) d0 = Inr (x, d')"
    unfolding reconcile_tx_def by (simp only: option.case tx_bind_Inr) blast
  have d0: "d0 = d" by (rule owners_keep[OF own])
  show ?thesis
  proof (cases taken)
    case False
    with rest d0 show ?thesis by (intro skipped) (simp_all add: tx_simps)
  next
    case True
    with rest d0 obtain row d1 where lock: "skip_locked_tx (tn_held tn 2) (LockDueRuntimeRunWithAttempt (rc_RunID candidate) attemptID
               (the (rc_ExecutorType candidate)) (rc_RuntimeSessionID candidate) (rc_NodeID candidate) (tn_clk tn 0)) d = Inr (row, d1)"
      and cont: "(case row of None \<Rightarrow> tx_return runtimeReconcileSkipped
            | Some locked \<Rightarrow>
                tx_bind (tx_one ErrNoRows (LockRunAttemptForResult (r_ID (lr_run locked)) attemptID)) (\<lambda>attempt.
                case validateRuntimeReconcileAttempt locked attempt candidate of
                  Some err \<Rightarrow> tx_fail err
                | None \<Rightarrow>
                    if r_DispatchState (lr_run locked) = ''offered'' then reconcileExpiredOffer fe tn locked attempt
                    else if r_DispatchState (lr_run locked) = ''executing''
                    then reconcileExpiredExecution fe planner tn locked attempt
                    else tx_fail (OtherError ''Runtime Attempt candidate changed to an unsupported dispatch state'' None))) d1 = Inr (x, d')"
      by (simp only: not_True_eq_False if_False tx_bind_Inr) blast
    show ?thesis
    proof (cases row)
      case None
      with cont lock lock_None_keeps(2) show ?thesis by (intro skipped) (auto simp: tx_simps)
    next
      case (Some locked)
      from lock[unfolded Some] obtain a where l: "d1 = d" "find_run (rc_RunID candidate) d = Some (lr_run locked)"
          "find_attempt attemptID d = Some a" "a_RunID a = rc_RunID candidate" "r_Status (lr_run locked) = ''running''"
          "a_FinishedAt a = None" "run_leads (lr_run locked) a" "r_CancelRequestID (lr_run locked) = None"
          "sql_le (reconcile_due_at (lr_run locked) (Some a)) (tn_clk tn 0)" "locked_row locked (tn_clk tn 0)"
        by (rule lock_with_attempt_SomeD)
      have keys: "r_ID (lr_run locked) = rc_RunID candidate" "a_ID a = attemptID" using l(2,3) by (auto dest: find_row_key)
      have rows: "find_run (r_ID (lr_run locked)) d = Some (lr_run locked)" "find_attempt (a_ID a) d = Some a"
          "a_RunID a = r_ID (lr_run locked)" using l keys by simp_all
      have shape: "slot_shape a" using inv find_row_SomeD[OF l(3)] by (auto simp: lease_inv_def slots_ok_def)
      from cont Some l keys have "r_DispatchState (lr_run locked) = ''offered'' \<and> reconcileExpiredOffer fe tn locked a d = Inr (x, d') \<or>
          r_DispatchState (lr_run locked) = ''executing'' \<and> reconcileExpiredExecution fe planner tn locked a d = Inr (x, d')"
        by (auto simp: tx_simps LockRunAttemptForResult_def split: option.split_asm if_split_asm)
      with offer_step[OF _ rows shape l(6,7,5,10,9)] execution_step[OF _ rows shape l(6,7,5,10,9)]
      have "run_step d d' \<and> (\<exists>r'. find_run (r_ID (lr_run locked)) d' = Some r' \<and> disposed tn (lr_run locked) (Some a) x r')" by blast
      then obtain r' where r': "run_step d d'" "find_run (rc_RunID candidate) d' = Some r'" "disposed tn (lr_run locked) (Some a) x r'"
        using keys(1) by auto
      have act: "active_attempt (lr_run locked) d = Some a" by (rule active_attempt_leads[OF l(7) rows(2,3)])
      show ?thesis by (rule acted[OF r'(1) l(2,5,8) l(9)[folded act] r'(2) r'(3)[folded act]])
    qed
  qed
qed

lemma reconcile_tx_step:
  "reconcile_tx fe planner tn candidate d = Inr (x, d') \<Longrightarrow> lease_inv d \<Longrightarrow> d' = d \<or> run_step d d'"
  by (erule (1) reconcile_tx_cases) simp_all

lemma reconcileCandidate_step:
  assumes "lease_inv d"
  shows "run_step\<^sup>*\<^sup>* d (snd (reconcileCandidate fe planner tn candidate d))"
proof -
  have "run_step\<^sup>*\<^sup>* d (snd (WithTransaction (reconcile_tx fe planner tn candidate) d))"
    using reconcile_tx_step[OF _ assms, of fe planner tn candidate]
    by (auto simp: WithTransaction_def split: sum.splits)
  then show ?thesis by (simp add: reconcileCandidate_def)
qed

lemma steps_lease_inv_run: "run_step\<^sup>*\<^sup>* d d' \<Longrightarrow> lease_inv d \<Longrightarrow> lease_inv d'"
  by (induction rule: rtranclp_induct) (auto dest: run_step_lease_inv)

lemma reconcile_loop_steps:
  "lease_inv d \<Longrightarrow> run_step\<^sup>*\<^sup>* d (snd (reconcile_loop fe planner turns candidates b d))"
proof (induction candidates arbitrary: turns b d)
  case (Cons c cs)
  obtain r d1 where c: "reconcileCandidate fe planner (turns 0) c d = (r, d1)" by (cases "reconcileCandidate fe planner (turns 0) c d")
  with reconcileCandidate_step[OF Cons.prems, of fe planner "turns 0" c] have step: "run_step\<^sup>*\<^sup>* d d1" by simp
  show ?case
  proof (cases r)
    case (Inl err)
    with c step show ?thesis by simp
  next
    case (Inr x)
    with c step Cons.IH[OF steps_lease_inv_run[OF step Cons.prems]] show ?thesis by (auto intro: rtranclp_trans)
  qed
qed simp

lemma ReconcileBatch_steps: "lease_inv d \<Longrightarrow> run_step\<^sup>*\<^sup>* d (snd (ReconcileBatch fe r limit now turns d))"
  by (simp add: ReconcileBatch_def Let_def reconcile_loop_steps)

end
