(* ===== verification/Reconciler_Laws.thy ===== *)
theory Reconciler_Laws
  imports Reconciler_Steps Result_Example
begin

text \<open>
  What the reconciler guarantees: it wakes exactly when a run is due, a batch takes the most overdue
  runs, a transaction acts on a due run only and for a stated reason, and an offer nobody confirmed
  goes back to the queue with its slot.
\<close>

section \<open>An expired offer\<close>

text \<open>The offer of the lease world, ten seconds after it expired.\<close>

definition wit_turn :: reconcile_turn where
  "wit_turn = \<lparr>tn_began = 40000000000, tn_clk = (\<lambda>n. 40000000000 + int n), tn_held = (\<lambda>_. False)\<rparr>"

definition wit_reconciler :: RuntimeDeadlineReconciler where
  "wit_reconciler = NewRuntimeDeadlineReconciler True None"

definition wit_candidate :: ReconcileCandidate where
  "wit_candidate = \<lparr>rc_RunID = 6, rc_AttemptID = Some 10, rc_ExecutorType = Some ''runtime'', rc_RuntimeSessionID = Some 1,
     rc_NodeID = Some 2, rc_DueAt = 30000001007, rc_DatabaseNow = 40000000000\<rparr>"

lemma wit_offered_lease_inv: "lease_inv wit_offered"
  by (simp add: lease_inv_def keys_ok_def slots_ok_def capacity_exact_def counters_exact_def fences_ok_def active_ok_def
      expiry_ok_def budget_ok_def unique_keys_def count_rows_def wit_worlds
      offered_run_def slot_shape_def holds_session_slot_def holds_node_slot_def live_attempt_def run_leads_def mirror_of_def find_row_def)

lemma wit_offered_rows:
  "find_run 6 wit_offered = Some (offered_run wit_run wit_attempt)" "find_attempt 10 wit_offered = Some wit_attempt"
  "find_session 1 wit_offered = Some (wit_session 1 1005 1005)" "find_node 2 wit_offered = Some (wit_node 1 (Some 1006) 1006)"
  by (simp_all add: wit_offered_def wit_world_def find_row_def offered_run_def wit_run_def wit_attempt_def wit_session_def wit_node_def)

lemma wit_candidate_listed:
  "reconcile_candidate 40000000000 wit_offered (offered_run wit_run wit_attempt) = Some wit_candidate"
  by (simp add: reconcile_candidate_def active_attempt_def Let_def wit_worlds offered_run_def find_row_def reconcile_eligible_def
      attempt_unresolved_def reconcile_due_at_def sql_least_def map_filter_def sql_le_def wit_candidate_def)

section \<open>Due runs\<close>

lemma sort_key_Nil_iff [simp]: "sort_key f xs = [] \<longleftrightarrow> xs = []"
  by (metis set_empty set_sort)

lemma in_due_candidates:
  "c \<in> set (List.map_filter (reconcile_candidate now d) (db_runs d)) \<longleftrightarrow>
     (\<exists>r \<in> set (db_runs d). reconcile_candidate now d r = Some c)"
  by (auto simp: set_map_filter)

lemma reconcile_candidate_Some:
  "reconcile_candidate now d r = Some c \<Longrightarrow> reconcile_eligible r (active_attempt r d) \<and>
     reconcile_due_at r (active_attempt r d) = Some (rc_DueAt c) \<and> rc_DueAt c \<le> now \<and> rc_RunID c = r_ID r"
  by (auto simp: reconcile_candidate_def Let_def sql_le_def split: if_split_asm option.split_asm)

text \<open>
  C15: the time the reconciler is told to wake up at is exact: at any later time, a batch of any size
  finds a run to reconcile if and only if that time has come.
\<close>

theorem wake_time_is_exact:
  assumes "nextReconcileDue r now d = Inr (due, now')" and "0 < limit"
  shows "sql_le due t \<longleftrightarrow> ListDueRuntimeReconcileCandidates limit t d \<noteq> []"
proof -
  let ?eligible = "\<lambda>r. reconcile_eligible r (active_attempt r d)"
  have due: "due = sql_least (map (\<lambda>r. reconcile_due_at r (active_attempt r d)) (filter ?eligible (db_runs d)))"
    using assms(1) by (auto simp: nextReconcileDue_def NextRuntimeReconcileDue_def split: if_split_asm)
  have "sql_le due t \<longleftrightarrow> (\<exists>r \<in> set (db_runs d). ?eligible r \<and> sql_le (reconcile_due_at r (active_attempt r d)) t)"
    unfolding due sql_least_le by (simp add: sql_le_iff image_iff Bex_def) metis
  also have "\<dots> \<longleftrightarrow> (\<exists>r \<in> set (db_runs d). \<exists>c. reconcile_candidate t d r = Some c)"
    by (simp add: reconcile_candidate_def Let_def)
  also have "\<dots> \<longleftrightarrow> set (List.map_filter (reconcile_candidate t d) (db_runs d)) \<noteq> {}"
    by (auto simp: set_map_filter)
  also have "\<dots> \<longleftrightarrow> ListDueRuntimeReconcileCandidates limit t d \<noteq> []"
    using assms(2) by (simp add: ListDueRuntimeReconcileCandidates_def)
  finally show ?thesis .
qed

theorem wake_time_is_exact_witness:
  "nextReconcileDue wit_reconciler 1007 wit_offered = Inr (Some 30000001007, 1007) \<and>
   ListDueRuntimeReconcileCandidates 1 30000001007 wit_offered \<noteq> [] \<and>
   ListDueRuntimeReconcileCandidates 1 30000001006 wit_offered = []"
proof -
  have due: "nextReconcileDue wit_reconciler 1007 wit_offered = Inr (Some 30000001007, 1007)"
    by (simp add: nextReconcileDue_def wit_reconciler_def NewRuntimeDeadlineReconciler_def NextRuntimeReconcileDue_def
        active_attempt_def wit_worlds offered_run_def find_row_def reconcile_eligible_def attempt_unresolved_def
        reconcile_due_at_def sql_least_def map_filter_def)
  from wake_time_is_exact[OF due, of 1 30000001007] wake_time_is_exact[OF due, of 1 30000001006] show ?thesis
    by (simp add: due sql_le_def)
qed

text \<open>
  A batch takes the most overdue runs: it lists as many due runs as its limit allows, each with the
  time it fell due, in that order, and a due run that is left out of a full batch fell due no earlier
  than any that is taken.
\<close>

definition due_run :: "gotime \<Rightarrow> runtime_db \<Rightarrow> RunRow \<Rightarrow> gotime \<Rightarrow> bool" where
  "due_run now d r t \<longleftrightarrow>
     reconcile_eligible r (active_attempt r d) \<and> reconcile_due_at r (active_attempt r d) = Some t \<and> t \<le> now"

lemma due_run_candidate: "due_run now d r t \<longleftrightarrow> (\<exists>c. reconcile_candidate now d r = Some c \<and> rc_RunID c = r_ID r \<and> rc_DueAt c = t)"
  by (auto simp: due_run_def reconcile_candidate_def Let_def sql_le_iff)

lemma batch_takes_most_overdue:
  assumes "cs = ListDueRuntimeReconcileCandidates limit now d"
  shows "length cs = min limit (length (filter (\<lambda>r. \<exists>t. due_run now d r t) (db_runs d)))"
    and "sorted (map rc_DueAt cs)"
    and "c \<in> set cs \<Longrightarrow> \<exists>r \<in> set (db_runs d). rc_RunID c = r_ID r \<and> due_run now d r (rc_DueAt c)"
    and "r \<in> set (db_runs d) \<Longrightarrow> due_run now d r t \<Longrightarrow>
       (\<exists>c \<in> set cs. rc_RunID c = r_ID r) \<or> length cs = limit \<and> (\<forall>c \<in> set cs. rc_DueAt c \<le> t)"
proof -
  let ?all = "sort_key rc_DueAt (sort_key rc_RunID (List.map_filter (reconcile_candidate now d) (db_runs d)))"
  have cs: "cs = take limit ?all" using assms by (simp add: ListDueRuntimeReconcileCandidates_def)
  have due: "(\<exists>t. due_run now d r t) \<longleftrightarrow> reconcile_candidate now d r \<noteq> None" for r
    using reconcile_candidate_Some by (fastforce simp: due_run_candidate)
  have "length (List.map_filter f rs) = length (filter (\<lambda>r. f r \<noteq> None) rs)" for f :: "RunRow \<Rightarrow> ReconcileCandidate option" and rs
    by (induction rs) (auto simp: map_filter_simps)
  then show "length cs = min limit (length (filter (\<lambda>r. \<exists>t. due_run now d r t) (db_runs d)))"
    by (simp add: cs due min.commute)
  show "sorted (map rc_DueAt cs)" by (simp add: cs sorted_wrt_take flip: take_map)
  show "\<exists>r \<in> set (db_runs d). rc_RunID c = r_ID r \<and> due_run now d r (rc_DueAt c)" if "c \<in> set cs"
    using that reconcile_candidate_Some by (fastforce simp: cs in_due_candidates due_run_def dest: in_set_takeD)
  show "(\<exists>c \<in> set cs. rc_RunID c = r_ID r) \<or> length cs = limit \<and> (\<forall>c \<in> set cs. rc_DueAt c \<le> t)"
    if r: "r \<in> set (db_runs d)" "due_run now d r t"
  proof -
    obtain x where x: "reconcile_candidate now d r = Some x" "rc_RunID x = r_ID r" "rc_DueAt x = t"
      using r(2) by (auto simp: due_run_candidate)
    have "x \<in> set (take limit ?all @ drop limit ?all)" using r(1) x(1) by (auto simp: in_due_candidates)
    then consider "x \<in> set cs" | "x \<in> set (drop limit ?all)" unfolding cs set_append by blast
    then show ?thesis
    proof cases
      case 1
      with x(2) show ?thesis by blast
    next
      case 2
      have "sorted (map rc_DueAt (take limit ?all @ drop limit ?all))" by simp
      with 2 x(3) have "\<forall>c \<in> set cs. rc_DueAt c \<le> t"
        by (auto simp: cs sorted_append simp del: append_take_drop_id)
      moreover have "length cs = limit" using 2 by (cases "limit \<le> length ?all") (auto simp: cs)
      ultimately show ?thesis by simp
    qed
  qed
qed

section \<open>Reasons\<close>

text \<open>
  C14: a transaction that does not skip its candidate acts on a run that is running, has no
  cancellation, and was due when it was locked, and what it does is decided by which deadline had
  passed. The run goes back to the queue only if its attempt had expired while both of its deadlines
  were ahead, when it was locked and again when it is put back, and while its budget lasts. It times
  out with the code of the deadline that had passed, the run deadline before the dispatch deadline, or
  because its last offer expired. It becomes a dead letter only with its attempts used up and both
  deadlines ahead, and its result is unknown only where an endpoint of Core does not promise idempotence.
\<close>

theorem reconciler_acts_only_when_due:
  assumes "lease_inv d" and "reconcileCandidate fe planner tn candidate d = (Inr x, d')"
    and "x \<noteq> runtimeReconcileSkipped"
  shows "\<exists>r r'. find_run (rc_RunID candidate) d = Some r \<and> r_Status r = ''running'' \<and> r_CancelRequestID r = None \<and>
     sql_le (reconcile_due_at r (active_attempt r d)) (tn_clk tn 0) \<and>
     find_run (rc_RunID candidate) d' = Some r' \<and> disposed tn r (active_attempt r d) x r'"
proof -
  from assms(2) have "reconcile_tx fe planner tn candidate d = Inr (x, d')"
    by (auto simp: reconcileCandidate_def WithTransaction_def split: if_split_asm sum.split_asm)
  then show ?thesis using assms(1) by (rule reconcile_tx_cases) (use assms(3) in auto)
qed

section \<open>Requeueing\<close>

text \<open>The slot of an unfinished attempt can always be given back.\<close>

lemma release_succeeds:
  assumes a: "find_attempt (a_ID a) d = Some a'" "finishes a a'" "slot_shape a" "a_FinishedAt a = None"
    and slot: "a_ExecutorType a = ''runtime''" "a_ActiveRuntimeSessionID a = Some sid" "a_NodeID a = Some nid"
    and s: "find_session sid d = Some s" "0 < s_Inflight s" and n: "find_node nid d = Some n" "0 < n_Inflight n"
  shows "\<exists>g. releaseRuntimeAttemptCapacity a clk d = Inr ((),
     (set_node nid (n\<lparr>n_Inflight := n_Inflight n - 1, n_UpdatedAt := clk 2\<rparr>)
       (set_session sid (s\<lparr>s_Inflight := s_Inflight s - 1, s_UpdatedAt := clk 1\<rparr>)
         (set_attempt (a_ID a) (closed_attempt a' (clk 0)) d)))\<lparr>db_signals := g\<rparr>)"
proof -
  obtain t where t: "a_SlotReleasedAt a = None" "a_SlotAcquiredAt a = Some t"
    using slot_shape_open[OF a(3) slot(1) a(4)] by blast
  note a' = a(2)[unfolded finishes_def]
  have "\<exists>cap. MarkRunAttemptCapacityReleased (a_RunID a) (a_ID a) (a_LeaseID a) (a_FencingToken a) (clk 0) d =
      Some (cap, set_attempt (a_ID a) (closed_attempt a' (clk 0)) d) \<and> cap_RuntimeSessionID cap = sid \<and> cap_NodeID cap = nid"
    using a(1) a' t slot by (auto simp: MarkRunAttemptCapacityReleased_def closed_attempt_def attempt_key_def same_identity_def)
  then obtain cap where mark: "MarkRunAttemptCapacityReleased (a_RunID a) (a_ID a) (a_LeaseID a) (a_FencingToken a) (clk 0) d =
      Some (cap, set_attempt (a_ID a) (closed_attempt a' (clk 0)) d)" "cap_RuntimeSessionID cap = sid" "cap_NodeID cap = nid" by blast
  show ?thesis
    by (rule exI) (simp add: releaseRuntimeAttemptCapacity_def tx_defs slot t mark s n ReleaseRuntimeSessionSlot_def
        ReleaseRuntimeNodeSlot_def createRuntimeNodeCapacityAvailableSignal_def CreateRuntimeSignal_def Let_def)
qed

definition waiting_offer :: "RunRow \<Rightarrow> AttemptRow \<Rightarrow> bool" where
  "waiting_offer r a \<longleftrightarrow>
     r_RuntimeContractID r = RuntimeContractID \<and> r_Status r = ''running'' \<and> r_DispatchState r = ''offered'' \<and>
     r_CancelRequestID r = None \<and> run_leads r a \<and> r_LatestAttemptID r = Some (a_ID a) \<and>
     r_ExecutorType r = Some ''runtime'' \<and> run_state_checks r \<and> a_RunID a = r_ID r \<and> a_AgentID a = r_AgentID r \<and>
     a_ExecutorType a = ''runtime'' \<and> attempt_unresolved a \<and> a_AcceptedAt a = None \<and> a_AttemptNo a = None"

lemma waiting_candidate:
  assumes "waiting_offer r a" "find_attempt (a_ID a) d = Some a" "reconcile_candidate now d r = Some c"
  shows "c = \<lparr>rc_RunID = r_ID r, rc_AttemptID = Some (a_ID a), rc_ExecutorType = Some ''runtime'',
     rc_RuntimeSessionID = a_ActiveRuntimeSessionID a, rc_NodeID = a_NodeID a, rc_DueAt = rc_DueAt c, rc_DatabaseNow = now\<rparr>"
proof -
  have "active_attempt r d = Some a" "r_ActiveAttemptID r = Some (a_ID a)"
    using active_attempt_leads assms(1,2) by (auto simp: waiting_offer_def run_leads_def)
  with assms(1,3) show ?thesis
    by (auto simp: reconcile_candidate_def Let_def waiting_offer_def split: if_split_asm)
qed

lemma waiting_lock:
  assumes "waiting_offer r a" "find_run (r_ID r) d = Some r" "find_attempt (a_ID a) d = Some a"
    and "a_OfferExpiresAt a \<le> now" "r_DispatchDeadlineAt r = Some dispatch" "r_RunDeadlineAt r = Some deadline"
  shows "LockDueRuntimeRunWithAttempt (r_ID r) (a_ID a) ''runtime'' (a_ActiveRuntimeSessionID a) (a_NodeID a) now d =
     Inr (Some \<lparr>lr_run = r, lr_DispatchDeadlineAt = dispatch, lr_RunDeadlineAt = deadline, lr_DatabaseNow = now\<rparr>, d)"
proof -
  have "sql_le (reconcile_due_at r (Some a)) now"
    using assms(1,4) by (auto simp: waiting_offer_def reconcile_due_at_def sql_least_le)
  with assms show ?thesis
    by (auto simp: LockDueRuntimeRunWithAttempt_def waiting_offer_def reconcile_eligible_def
        scanRuntimeReconcileLockedRun_def tx_defs)
qed

lemma slot_counted:
  assumes "lease_inv d" "find_attempt attemptID d = Some a" "a_FinishedAt a = None" "a_ExecutorType a = ''runtime''"
  shows "a_ActiveRuntimeSessionID a = Some sid \<Longrightarrow> find_session sid d = Some s \<Longrightarrow> 0 < s_Inflight s"
    and "a_NodeID a = Some nid \<Longrightarrow> find_node nid d = Some n \<Longrightarrow> 0 < n_Inflight n"
proof -
  have shape: "slot_shape a" and keys: "unique_keys a_ID (db_attempts d)"
    using assms(1) find_row_SomeD[OF assms(2)] by (auto simp: lease_inv_def slots_ok_def keys_ok_def)
  show "0 < s_Inflight s" if "a_ActiveRuntimeSessionID a = Some sid" "find_session sid d = Some s"
    using count_rows_update_pos[OF keys assms(2), of "holds_session_slot sid"] that assms(1) find_row_SomeD[OF that(2)]
    by (auto simp: lease_inv_def capacity_exact_def counters_exact_def holds_session_slot_def)
  show "0 < n_Inflight n" if "a_NodeID a = Some nid" "find_node nid d = Some n"
    using count_rows_update_pos[OF keys assms(2), of "holds_node_slot nid"] that assms find_row_SomeD[OF that(2)] shape
    by (auto simp: lease_inv_def capacity_exact_def counters_exact_def holds_node_slot_def slot_shape_def)
qed

definition requeued_run :: "RunRow \<Rightarrow> RunRow" where
  "requeued_run r = (clear_lease r)\<lparr>r_DispatchState := ''pending'', r_NextAttemptAt := None, r_ErrorCode := None, r_ErrorMessage := None\<rparr>"

lemma expired_offer_reset:
  assumes w: "waiting_offer r a" and rows: "find_run (r_ID r) d = Some r" "find_attempt (a_ID a) d = Some b"
    and b: "attempt_key (r_ID r) (a_ID a) (a_LeaseID a) (a_FencingToken a) b" "a_FinishedAt b \<noteq> None"
      "a_Outcome b = Some ''offer_expired''" "a_AcceptedAt b = None" "a_AttemptNo b = None"
    and left: "r_OfferCount r < r_MaxOfferCount r" "sql_gt (r_DispatchDeadlineAt r) now" "sql_gt (r_RunDeadlineAt r) now"
  shows "ResetRuntimeRunAfterReconciledOffer (r_ID r) (a_ID a) (a_LeaseID a) (a_FencingToken a) now d =
      Inr (Some (requeued_run r), set_run (r_ID r) (requeued_run r) d)"
proof -
  have "run_leads r b" "r_LatestAttemptID r = Some (a_ID b)"
    using w b(1) by (simp_all add: waiting_offer_def run_leads_def attempt_key_def)
  moreover have "run_state_checks (requeued_run r)"
  proof -
    have state: "r_Status r = ''running''" "r_DispatchState r = ''offered''" "run_state_checks r"
      using w by (simp_all add: waiting_offer_def)
    have "r_DeadLetteredAt r = None" "r_ResultID r = None" "r_ResultFingerprint r = None" "r_TerminalEventID r = None"
      using state(3) by (simp_all add: run_state_checks_def state(1,2))
    then show ?thesis by (simp add: run_state_checks_def requeued_run_def clear_lease_def state(1))
  qed
  ultimately show ?thesis
    using w rows b left by (simp add: ResetRuntimeRunAfterReconciledOffer_def checked_run_def waiting_offer_def requeued_run_def)
qed

lemma waiting_offer_taken:
  assumes w: "waiting_offer r a" and rows: "find_run (r_ID r) d = Some r" "find_attempt (a_ID a) d = Some a"
    and owners: "a_ActiveRuntimeSessionID a = Some sid" "find_session sid d = Some s"
      "a_NodeID a = Some nid" "find_node nid d = Some n"
    and shape: "slot_shape a" and expired: "a_OfferExpiresAt a \<le> tn_clk tn 0"
    and deadlines: "r_DispatchDeadlineAt r = Some dispatch" "r_RunDeadlineAt r = Some deadline"
    and free: "\<And>k. \<not> tn_held tn k"
    and listed: "reconcile_candidate now d r = Some c" "r_ID r \<noteq> uuid_Nil" "\<not> IsZero now" "\<not> IsZero (rc_DueAt c)"
  shows "reconcileCandidate fe planner tn c d = WithTransaction (\<lambda>_. reconcileExpiredOffer fe tn
     \<lparr>lr_run = r, lr_DispatchDeadlineAt = dispatch, lr_RunDeadlineAt = deadline, lr_DatabaseNow = tn_clk tn 0\<rparr> a d) d"
    (is "_ = WithTransaction (\<lambda>_. reconcileExpiredOffer fe tn ?locked a d) d")
proof -
  note wo = w[unfolded waiting_offer_def]
  note c = waiting_candidate[OF w rows(2) listed(1)]
  have id: "rc_RunID c = r_ID r" "rc_AttemptID c = Some (a_ID a)" "rc_ExecutorType c = Some ''runtime''"
      "rc_RuntimeSessionID c = Some sid" "rc_NodeID c = Some nid" "rc_DatabaseNow c = now"
    using owners by (subst c; simp)+
  have keys: "s_ID s = sid" "n_ID n = nid" using owners by (auto dest: find_row_key)
  have own: "reconcile_owners tn c d = Inr (True, d)"
    using owners keys
    by (simp add: reconcile_owners_def id tx_defs skip_locked_def free LockRuntimeSessionForReconcile_def LockRuntimeNodeForReconcile_def)
  have lock: "skip_locked_tx (tn_held tn 2) (LockDueRuntimeRunWithAttempt (r_ID r) (a_ID a) ''runtime'' (Some sid) (Some nid) (tn_clk tn 0)) d
      = Inr (Some ?locked, d)"
    using waiting_lock[OF w rows expired deadlines] owners by (simp add: skip_locked_tx_def free)
  have att: "LockRunAttemptForResult (r_ID r) (a_ID a) d = Some (a, d)"
    using rows(2) wo by (simp add: LockRunAttemptForResult_def)
  have "validateRuntimeReconcileAttempt ?locked a c = None"
    using wo owners shape by (simp add: validateRuntimeReconcileAttempt_def Let_def id attempt_unresolved_def slot_shape_def)
  then have "reconcile_tx fe planner tn c d = reconcileExpiredOffer fe tn ?locked a d"
    using wo by (simp add: reconcile_tx_def id tx_defs own lock att)
  then show ?thesis using listed(2-) by (simp add: reconcileCandidate_def id WithTransaction_def)
qed

lemma expired_offer_requeue:
  assumes inv: "lease_inv d" and w: "waiting_offer r a"
    and rows: "find_run (r_ID r) d = Some r" "find_attempt (a_ID a) d = Some a"
    and owners: "a_ActiveRuntimeSessionID a = Some sid" "find_session sid d = Some s"
      "a_NodeID a = Some nid" "find_node nid d = Some n"
    and expired: "a_OfferExpiresAt a \<le> tn_clk tn 0" and offers: "r_OfferCount r < r_MaxOfferCount r"
    and deadlines: "r_DispatchDeadlineAt r = Some dispatch" "r_RunDeadlineAt r = Some deadline"
      "max (tn_clk tn 0) (tn_clk tn 6) < min dispatch deadline"
    and free: "\<And>k. \<not> tn_held tn k"
    and listed: "reconcile_candidate now d r = Some c" "r_ID r \<noteq> uuid_Nil" "\<not> IsZero now" "\<not> IsZero (rc_DueAt c)"
  shows "\<exists>d' a' s' n'. reconcileCandidate fe planner tn c d = (Inr runtimeReconcileRequeued, d') \<and>
    find_run (r_ID r) d' = Some (requeued_run r) \<and>
    find_attempt (a_ID a) d' = Some a' \<and> a_Outcome a' = Some ''offer_expired'' \<and> a_FinishedAt a' \<noteq> None \<and>
    find_session sid d' = Some s' \<and> s_Inflight s' = s_Inflight s - 1 \<and>
    find_node nid d' = Some n' \<and> n_Inflight n' = n_Inflight n - 1"
proof -
  let ?a = "reconciled_attempt a ''offer_expired'' ''RUNTIME_OFFER_EXPIRED'' (tn_clk tn 1)"
  let ?clk = "\<lambda>n. tn_clk tn (2 + n)"
  let ?locked = "\<lparr>lr_run = r, lr_DispatchDeadlineAt = dispatch, lr_RunDeadlineAt = deadline, lr_DatabaseNow = tn_clk tn 0\<rparr>"
  note wo = w[unfolded waiting_offer_def]
  have unfinished: "a_FinishedAt a = None" using wo by (simp add: attempt_unresolved_def)
  have shape: "slot_shape a" using inv find_row_SomeD[OF rows(2)] by (auto simp: lease_inv_def slots_ok_def)
  have keys: "s_ID s = sid" "n_ID n = nid" using owners by (auto dest: find_row_key)
  have exec: "a_ExecutorType a = ''runtime''" using wo by simp
  have counted: "0 < s_Inflight s" "0 < n_Inflight n"
    using slot_counted[OF inv rows(2) unfinished exec] owners by simp_all
  have fin: "FinishRuntimeReconciledAttempt ''offer_expired'' ''RUNTIME_OFFER_EXPIRED'' (r_ID r) (a_ID a) (a_LeaseID a)
      (a_FencingToken a) (tn_clk tn 1) d = Some (?a, set_attempt (a_ID a) ?a d)"
    using wo rows by (simp add: FinishRuntimeReconciledAttempt_def attempt_key_def reconciled_attempt_def Let_def)
  have a1: "find_attempt (a_ID a) (set_attempt (a_ID a) ?a d) = Some ?a"
    using rows(2) by (simp add: find_row_replace reconciled_attempt_def)
  obtain g where rel: "releaseRuntimeAttemptCapacity a ?clk (set_attempt (a_ID a) ?a d) = Inr ((),
     (set_node nid (n\<lparr>n_Inflight := n_Inflight n - 1, n_UpdatedAt := ?clk 2\<rparr>)
       (set_session sid (s\<lparr>s_Inflight := s_Inflight s - 1, s_UpdatedAt := ?clk 1\<rparr>)
         (set_attempt (a_ID a) (closed_attempt ?a (?clk 0)) (set_attempt (a_ID a) ?a d))))\<lparr>db_signals := g\<rparr>)"
    (is "_ = Inr ((), ?d2)")
    using release_succeeds[OF a1 finishes_reconciled shape unfinished exec owners(1) owners(3), of s n ?clk] owners counted
    by auto
  have rows2: "find_run (r_ID r) ?d2 = Some r" "find_attempt (a_ID a) ?d2 = Some (closed_attempt ?a (?clk 0))"
    using rows by (simp_all add: update_row_twice find_row_replace closed_attempt_def reconciled_attempt_def)
  have closed: "attempt_key (r_ID r) (a_ID a) (a_LeaseID a) (a_FencingToken a) (closed_attempt ?a (?clk 0))"
      "a_FinishedAt (closed_attempt ?a (?clk 0)) \<noteq> None" "a_Outcome (closed_attempt ?a (?clk 0)) = Some ''offer_expired''"
      "a_AcceptedAt (closed_attempt ?a (?clk 0)) = None" "a_AttemptNo (closed_attempt ?a (?clk 0)) = None"
    using wo by (simp_all add: closed_attempt_def reconciled_attempt_def attempt_key_def)
  have left: "sql_gt (r_DispatchDeadlineAt r) (tn_clk tn 6)" "sql_gt (r_RunDeadlineAt r) (tn_clk tn 6)"
    using deadlines by simp_all
  note reset = expired_offer_reset[OF w rows2 closed offers left]
  let ?d3 = "set_run (r_ID r) (requeued_run r) ?d2"
  have none: "runtimeOfferTerminalForRun ?locked a = None"
    using offers deadlines(3) by (simp add: runtimeOfferTerminalForRun_def runtimeDeadlineTerminalForRun_def)
  obtain g' where sig: "createRuntimeAvailableSignal (r_AgentID r) (r_ID r) None (tn_clk tn 10) ?d3 = Inr ((), ?d3\<lparr>db_signals := g'\<rparr>)"
    by (rule that) (simp add: createRuntimeAvailableSignal_def tx_defs CreateRuntimeSignal_def Let_def)
  have "reconcileExpiredOffer fe tn ?locked a d = Inr (runtimeReconcileRequeued, ?d3\<lparr>db_signals := g'\<rparr>)"
    using wo fin rel reset sig none by (simp add: reconcileExpiredOffer_def Let_def tx_defs) (simp add: requeued_run_def)
  moreover have "reconcileCandidate fe planner tn c d = WithTransaction (\<lambda>_. reconcileExpiredOffer fe tn ?locked a d) d"
    by (rule waiting_offer_taken[OF w rows owners shape expired deadlines(1,2) free listed])
  moreover have "find_attempt (a_ID a) (?d3\<lparr>db_signals := g'\<rparr>) = Some (closed_attempt ?a (?clk 0))" using rows2(2) by simp
  moreover have "find_run (r_ID r) (?d3\<lparr>db_signals := g'\<rparr>) = Some (requeued_run r)"
    using rows(1) by (simp add: find_row_replace requeued_run_def clear_lease_def)
  moreover have "find_session sid (?d3\<lparr>db_signals := g'\<rparr>) = Some (s\<lparr>s_Inflight := s_Inflight s - 1, s_UpdatedAt := ?clk 1\<rparr>)"
    "find_node nid (?d3\<lparr>db_signals := g'\<rparr>) = Some (n\<lparr>n_Inflight := n_Inflight n - 1, n_UpdatedAt := ?clk 2\<rparr>)"
    using owners keys by (simp_all add: find_row_replace)
  ultimately show ?thesis
    by (intro exI[of _ "?d3\<lparr>db_signals := g'\<rparr>"] exI[of _ "closed_attempt ?a (?clk 0)"] exI conjI)
      (auto simp: WithTransaction_def closed_attempt_def reconciled_attempt_def)
qed

text \<open>
  C13: an offer that expires before it is confirmed is not lost. While offers and time are left and no
  other transaction holds the rows, the reconciler ends the attempt, gives its slot back to the
  session and the node, and makes the run available again.
\<close>

theorem expired_offer_is_requeued:
  assumes "lease_inv d" and w: "waiting_offer r a"
    and "find_run (r_ID r) d = Some r" "find_attempt (a_ID a) d = Some a"
    and "a_ActiveRuntimeSessionID a = Some sid" "find_session sid d = Some s"
      "a_NodeID a = Some nid" "find_node nid d = Some n"
    and "a_OfferExpiresAt a \<le> tn_clk tn 0" and offers: "r_OfferCount r < r_MaxOfferCount r" "r_AttemptCount r < r_MaxAttempts r"
    and mode: "r_ConnectionModeSnapshot r = Some ''runtime''"
    and deadlines: "r_DispatchDeadlineAt r = Some dispatch" "r_RunDeadlineAt r = Some deadline"
      "max (tn_clk tn 0) (tn_clk tn 6) < min dispatch deadline"
    and "\<And>k. \<not> tn_held tn k"
    and "reconcile_candidate now d r = Some c" "r_ID r \<noteq> uuid_Nil" "\<not> IsZero now" "\<not> IsZero (rc_DueAt c)"
  shows "\<exists>d' r' a' s' n'. reconcileCandidate fe planner tn c d = (Inr runtimeReconcileRequeued, d') \<and>
    find_run (r_ID r) d' = Some r' \<and> (\<forall>t < min dispatch deadline. run_dispatchable r' t) \<and>
    find_attempt (a_ID a) d' = Some a' \<and> a_Outcome a' = Some ''offer_expired'' \<and> a_FinishedAt a' \<noteq> None \<and>
    find_session sid d' = Some s' \<and> s_Inflight s' = s_Inflight s - 1 \<and>
    find_node nid d' = Some n' \<and> n_Inflight n' = n_Inflight n - 1"
proof -
  have "\<forall>t < min dispatch deadline. run_dispatchable (requeued_run r) t"
    using w offers mode deadlines
    by (simp add: run_dispatchable_def requeued_run_def clear_lease_def waiting_offer_def)
  with expired_offer_requeue[OF assms(1-10) deadlines assms(16-)] show ?thesis by blast
qed

lemma wit_waiting: "waiting_offer (offered_run wit_run wit_attempt) wit_attempt"
  by (simp add: waiting_offer_def offered_run_def wit_run_def wit_attempt_def run_leads_def run_state_checks_def attempt_unresolved_def)

lemma wit_offer_facts:
  "r_ID (offered_run wit_run wit_attempt) = 6" "a_ID wit_attempt = 10" "a_ActiveRuntimeSessionID wit_attempt = Some 1"
  "a_NodeID wit_attempt = Some 2" "a_OfferExpiresAt wit_attempt \<le> tn_clk wit_turn 0"
  "r_OfferCount (offered_run wit_run wit_attempt) < r_MaxOfferCount (offered_run wit_run wit_attempt)"
  "r_AttemptCount (offered_run wit_run wit_attempt) < r_MaxAttempts (offered_run wit_run wit_attempt)"
  "r_ConnectionModeSnapshot (offered_run wit_run wit_attempt) = Some ''runtime''"
  "r_DispatchDeadlineAt (offered_run wit_run wit_attempt) = Some 1000000000000"
  "r_RunDeadlineAt (offered_run wit_run wit_attempt) = Some 2000000000000"
  "max (tn_clk wit_turn 0) (tn_clk wit_turn 6) < min 1000000000000 2000000000000" "\<not> tn_held wit_turn k"
  "\<not> IsZero (rc_DueAt wit_candidate)" "r_ID (offered_run wit_run wit_attempt) \<noteq> uuid_Nil" "\<not> IsZero (40000000000 :: gotime)"
  by (simp_all add: offered_run_def wit_run_def wit_attempt_def wit_turn_def wit_candidate_def)

theorem expired_offer_is_requeued_witness:
  "\<exists>d' r' s'. reconcileCandidate wit_result_env fixedResultRetryPlanner wit_turn wit_candidate wit_offered =
       (Inr runtimeReconcileRequeued, d') \<and>
     find_run 6 d' = Some r' \<and> run_dispatchable r' 40000000000 \<and> find_session 1 d' = Some s' \<and> s_Inflight s' = 0"
proof -
  have "s_Inflight (wit_session 1 1005 1005) = 1" by (simp add: wit_session_def)
  moreover note expired_offer_is_requeued[OF wit_offered_lease_inv wit_waiting, unfolded wit_offer_facts(1,2),
      OF wit_offered_rows(1,2) wit_offer_facts(3) wit_offered_rows(3) wit_offer_facts(4) wit_offered_rows(4) wit_offer_facts(5-12)
        wit_candidate_listed wit_offer_facts(14,15,13)[unfolded wit_offer_facts(1)], of wit_result_env fixedResultRetryPlanner]
  ultimately show ?thesis by fastforce
qed

text \<open>The same turn shows the reasons of a transaction.\<close>

theorem reconciler_acts_only_when_due_witness:
  "\<exists>d' r r'. reconcileCandidate wit_result_env fixedResultRetryPlanner wit_turn wit_candidate wit_offered =
       (Inr runtimeReconcileRequeued, d') \<and>
     find_run 6 wit_offered = Some r \<and> find_run 6 d' = Some r' \<and>
     disposed wit_turn r (active_attempt r wit_offered) runtimeReconcileRequeued r'"
proof -
  have id: "rc_RunID wit_candidate = 6" by (simp add: wit_candidate_def)
  from expired_offer_requeue[OF wit_offered_lease_inv wit_waiting, unfolded wit_offer_facts(1,2),
      OF wit_offered_rows(1,2) wit_offer_facts(3) wit_offered_rows(3) wit_offer_facts(4) wit_offered_rows(4) wit_offer_facts(5,6,9-12)
        wit_candidate_listed wit_offer_facts(14,15,13)[unfolded wit_offer_facts(1)], of wit_result_env fixedResultRetryPlanner]
  obtain d' where "reconcileCandidate wit_result_env fixedResultRetryPlanner wit_turn wit_candidate wit_offered =
       (Inr runtimeReconcileRequeued, d')" by blast
  with reconciler_acts_only_when_due[OF wit_offered_lease_inv this, unfolded id] show ?thesis by auto
qed

end
