(* ===== verification/Run_Cancellation.thy ===== *)
theory Run_Cancellation
  imports Result_Finalizer Reconciler
begin

text \<open>
  Owner cancellation of \<open>pkg/runtime/cancellation.go\<close> with the statements of
  \<open>pkg/db/generated/runtime_cancellations.sql.go\<close> and \<open>run_cancellations.sql.go\<close>. Canceling ends the run
  at once and leaves the attempt open; the runtime is told to stop, acknowledges it, and the attempt
  ends with the acknowledgement or, when none comes in time, with the reaper.

  \<open>fe\<close> is the environment of the finalizer. \<open>clk\<close> numbers the clock readings of the statements of one
  transaction, \<open>began\<close> is its start, and \<open>held\<close> says which runs somebody else has locked.
\<close>

section \<open>Constants and results\<close>

definition defaultRuntimeCancellationDeadline :: gotime where
  "defaultRuntimeCancellationDeadline = 30 * second"

abbreviation "runtimeCancellationReasonCode \<equiv> ''OWNER_CANCEL_REQUESTED''"
abbreviation "runtimeCancellationPublicCode \<equiv> ''CANCELED''"
abbreviation "runtimeCancellationUnconfirmedCode \<equiv> ''CANCEL_UNCONFIRMED''"

abbreviation "RuntimeCancelRequested \<equiv> ''requested''"
abbreviation "RuntimeCancelDelivered \<equiv> ''delivered''"
abbreviation "RuntimeCancelStopping \<equiv> ''stopping''"
abbreviation "RuntimeCancelStopped \<equiv> ''stopped''"
abbreviation "RuntimeCancelUnsupported \<equiv> ''unsupported''"
abbreviation "RuntimeCancelFailed \<equiv> ''failed''"
abbreviation "RuntimeCancelUnconfirmed \<equiv> ''unconfirmed''"

definition maxRuntimeCancellationReapBatch :: int where
  "maxRuntimeCancellationReapBatch = 1000"

definition ErrRuntimeCancellationNotFound :: go_error where
  "ErrRuntimeCancellationNotFound = OtherError ''Runtime Run is not owned by the requester'' None"

definition ErrRuntimeCancellationRunEnded :: go_error where
  "ErrRuntimeCancellationRunEnded = OtherError ''Runtime Run is already terminal'' None"

definition ErrRuntimeCancellationInvalid :: go_error where
  "ErrRuntimeCancellationInvalid = OtherError ''invalid runtime cancellation request'' None"

definition errRuntimeCancellationNotReady :: go_error where
  "errRuntimeCancellationNotReady = OtherError ''runtime cancellation coordinator is not configured'' None"

definition errRuntimeCancellationContended :: go_error where
  "errRuntimeCancellationContended = OtherError ''pending runtime cancellation is contended'' None"

definition runtimeCancellationIDNamespace :: uuid where
  "runtimeCancellationIDNamespace = 0xf6fcac0bd2535ad0929007bf4ec2ac12"

record RuntimeCancellationResult =
  xr_Run :: RunRow
  xr_Cancellation :: CancellationRow
  xr_Replayed :: bool

record RuntimeCancellationCoordinator =
  cn_repository :: bool
  cn_commandDeadline :: gotime

definition NewRuntimeCancellationCoordinator :: "bool \<Rightarrow> RuntimeCancellationCoordinator" where
  "NewRuntimeCancellationCoordinator pool =
     \<lparr>cn_repository = pool, cn_commandDeadline = defaultRuntimeCancellationDeadline\<rparr>"

definition newRuntimeCancellationCoordinator :: "bool \<Rightarrow> gotime \<Rightarrow> RuntimeCancellationCoordinator" where
  "newRuntimeCancellationCoordinator repository commandDeadline =
     \<lparr>cn_repository = repository,
      cn_commandDeadline = (if commandDeadline = 0 then defaultRuntimeCancellationDeadline else commandDeadline)\<rparr>"

definition deadline_configured :: "gotime \<Rightarrow> bool" where
  "deadline_configured deadline \<longleftrightarrow> \<not> (deadline < millisecond \<or> deadline > 3600 * second)"

definition command_ready :: "RuntimeCancellationCoordinator \<Rightarrow> bool" where
  "command_ready c \<longleftrightarrow> cn_repository c \<and> deadline_configured (cn_commandDeadline c)"

section \<open>Helpers\<close>

definition normalizeRuntimeCancellationReason :: "string \<Rightarrow> go_error + string" where
  "normalizeRuntimeCancellationReason reason =
     (let trimmed = TrimSpace reason; normal = (if trimmed = [] then ''Run canceled by owner'' else trimmed) in
      if \<not> ValidString normal \<or> RuneCount normal > 500 then Inl ErrRuntimeCancellationInvalid else Inr normal)"

definition deterministicRuntimeCancellationID :: "result_env \<Rightarrow> uuid \<Rightarrow> uuid" where
  "deterministicRuntimeCancellationID fe runID =
     fe_NewSHA1 fe runtimeCancellationIDNamespace (uuid_String runID @ ''/owner-cancel'')"

definition validRuntimeCancellationAck :: "RunCancelAckPayload \<Rightarrow> bool" where
  "validRuntimeCancellationAck request \<longleftrightarrow>
     (if cak_CancelState request \<in> {RuntimeCancelDelivered, RuntimeCancelStopping, RuntimeCancelStopped}
      then cak_ErrorCode request = []
      else if cak_CancelState request \<in> {RuntimeCancelUnsupported, RuntimeCancelFailed}
      then TrimSpace (cak_ErrorCode request) \<noteq> []
      else False)"

definition runtimeCancellationAckFinalState :: "string \<Rightarrow> bool" where
  "runtimeCancellationAckFinalState state \<longleftrightarrow>
     state = RuntimeCancelStopped \<or> state = RuntimeCancelUnsupported \<or> state = RuntimeCancelFailed"

definition runtimeCancellationTransitionAllowed :: "string \<Rightarrow> string \<Rightarrow> bool" where
  "runtimeCancellationTransitionAllowed current target \<longleftrightarrow>
     (if current = RuntimeCancelRequested
      then target = RuntimeCancelDelivered \<or> target = RuntimeCancelStopping \<or> runtimeCancellationAckFinalState target
      else if current = RuntimeCancelDelivered
      then target = RuntimeCancelStopping \<or> runtimeCancellationAckFinalState target
      else if current = RuntimeCancelStopping then runtimeCancellationAckFinalState target
      else False)"

definition runtimeCancellationAckAlreadyCovered :: "string \<Rightarrow> string \<Rightarrow> bool" where
  "runtimeCancellationAckAlreadyCovered current incoming \<longleftrightarrow>
     current = RuntimeCancelStopping \<and> incoming = RuntimeCancelDelivered \<or>
     current = RuntimeCancelUnconfirmed \<and> incoming \<noteq> RuntimeCancelUnconfirmed"

definition runtimeCancellationStateFromDB :: "CancellationRow \<Rightarrow> RunCancellationState" where
  "runtimeCancellationStateFromDB x =
     \<lparr>cst_CancellationID = cx_ID x, cst_CancelState = cx_State x, cst_UpdatedAt = cx_UpdatedAt x,
      cst_ErrorCode = (case cx_ErrorCode x of None \<Rightarrow> [] | Some code \<Rightarrow> code)\<rparr>"

definition mapRuntimeCancellationPrincipalError :: "go_error \<Rightarrow> go_error" where
  "mapRuntimeCancellationPrincipalError err =
     (if InvalidRuntimeEvent \<in> set (error_chain err)
      then LeaseError RuntimeLeaseErrorValidationFailed (Some err)
      else case errors_As is_EventError err of
        Some e \<Rightarrow> if fst (typed_error e) = ''LEASE_IDENTITY_MISMATCH''
                  then LeaseError RuntimeLeaseErrorIdentityMismatch (Some err) else err
      | None \<Rightarrow> err)"

definition EventPrincipal :: "RuntimeSessionPrincipal \<Rightarrow> RuntimeEventPrincipal" where
  "EventPrincipal p =
     \<lparr>pe_AgentID = pr_AgentID p, pe_RuntimeContractDigest = pr_RuntimeContractDigest p,
      pe_CredentialID = Some (pr_CredentialID p), pe_NodeID = Some (pr_NodeID p), pe_WorkerID = Some (pr_WorkerID p),
      pe_RuntimeSessionID = Some (pr_RuntimeSessionID p), pe_CoreInstanceID = Some (pr_CoreInstanceID p),
      pe_AttachmentID = Some (pr_AttachmentID p), pe_DeviceCertificateSerial = Some (pr_DeviceCertificateSerial p),
      pe_DevicePublicKeyThumbprintSHA256 = Some (pr_DevicePublicKeyThumbprintSHA256 p)\<rparr>"

definition stale_one :: "(runtime_db, 'a) query \<Rightarrow> 'a lease_tx" where
  "stale_one q = tx_one (LeaseError RuntimeLeaseErrorStaleLease (Some ErrNoRows)) q"

definition stale_guard :: "bool \<Rightarrow> unit lease_tx" where
  "stale_guard b = tx_guard b (LeaseError RuntimeLeaseErrorStaleLease None)"

definition lock_principal :: "RuntimeSessionPrincipal \<Rightarrow> gotime \<Rightarrow> lockedRuntimePrincipal option lease_tx" where
  "lock_principal p now = (\<lambda>d. map_sum mapRuntimeCancellationPrincipalError id (lockRuntimePrincipal (EventPrincipal p) now d))"

section \<open>The cancellation table\<close>

definition find_cancellation :: "uuid \<Rightarrow> runtime_db \<Rightarrow> CancellationRow option" where
  "find_cancellation runID d = find_row cx_RunID runID (db_cancellations d)"

definition set_cancellation :: "uuid \<Rightarrow> CancellationRow \<Rightarrow> runtime_db \<Rightarrow> runtime_db" where
  "set_cancellation runID x d = d\<lparr>db_cancellations := update_row cx_RunID runID (\<lambda>_. x) (db_cancellations d)\<rparr>"

text \<open>\<open>run_cancellations_state_evidence\<close> and \<open>run_cancellations_time_order\<close>.\<close>

definition cancellation_evidence :: "CancellationRow \<Rightarrow> bool" where
  "cancellation_evidence x \<longleftrightarrow>
     (let target = (cx_TargetAttemptID x \<noteq> None); delivered = (cx_DeliveredAt x \<noteq> None);
          stopping = (cx_StoppingAt x \<noteq> None); stopped = (cx_StoppedAt x \<noteq> None);
          acked = (cx_AcknowledgedAt x \<noteq> None); err = (cx_ErrorCode x \<noteq> None) in
      if cx_State x = ''requested'' then \<not> delivered \<and> \<not> stopping \<and> \<not> stopped \<and> \<not> acked \<and> \<not> err
      else if cx_State x = ''delivered'' then target \<and> delivered \<and> \<not> stopping \<and> \<not> stopped \<and> \<not> acked \<and> \<not> err
      else if cx_State x = ''stopping'' then target \<and> delivered \<and> stopping \<and> \<not> stopped \<and> acked \<and> \<not> err
      else if cx_State x = ''stopped'' then stopped \<and> \<not> err \<and>
        (\<not> target \<and> \<not> delivered \<and> \<not> stopping \<and> \<not> acked \<or> target \<and> delivered \<and> acked)
      else if cx_State x = ''unsupported'' then target \<and> delivered \<and> \<not> stopping \<and> \<not> stopped \<and> acked \<and> err
      else if cx_State x = ''failed'' \<or> cx_State x = ''unconfirmed'' then target \<and> \<not> stopped \<and> err
      else False)"

definition coalesce :: "gotime option \<Rightarrow> gotime \<Rightarrow> gotime" where
  "coalesce v t = (case v of None \<Rightarrow> t | Some x \<Rightarrow> x)"

definition not_before :: "gotime option \<Rightarrow> gotime \<Rightarrow> bool" where
  "not_before v t \<longleftrightarrow> (case v of None \<Rightarrow> True | Some x \<Rightarrow> t \<le> x)"

definition cancellation_time_order :: "CancellationRow \<Rightarrow> bool" where
  "cancellation_time_order x \<longleftrightarrow>
     not_before (cx_DeliveredAt x) (cx_RequestedAt x) \<and>
     not_before (cx_StoppingAt x) (coalesce (cx_DeliveredAt x) (cx_RequestedAt x)) \<and>
     not_before (cx_StoppedAt x) (coalesce (cx_StoppingAt x) (coalesce (cx_DeliveredAt x) (cx_RequestedAt x))) \<and>
     not_before (cx_AcknowledgedAt x) (cx_RequestedAt x) \<and> cx_RequestedAt x \<le> cx_UpdatedAt x"

text \<open>The transitions the trigger \<open>enforce_run_cancellation_transition\<close> lets pass.\<close>

definition cancellation_transition :: "string \<Rightarrow> string \<Rightarrow> bool" where
  "cancellation_transition old new \<longleftrightarrow>
     new = old \<or>
     old = ''requested'' \<and> new \<in> {''delivered'', ''stopping'', ''stopped'', ''unsupported'', ''failed'', ''unconfirmed''} \<or>
     old = ''delivered'' \<and> new \<in> {''stopping'', ''stopped'', ''unsupported'', ''failed'', ''unconfirmed''} \<or>
     old = ''stopping'' \<and> new \<in> {''stopped'', ''failed'', ''unconfirmed''} \<or>
     old = ''unconfirmed'' \<and> new \<in> {''stopped'', ''unsupported'', ''failed''}"

definition GetRunCancellationByRun :: "uuid \<Rightarrow> (runtime_db, CancellationRow) query" where
  "GetRunCancellationByRun runID d = map_option (\<lambda>x. (x, d)) (find_cancellation runID d)"

definition LockRunCancellationForMutation :: "uuid \<Rightarrow> uuid \<Rightarrow> (runtime_db, CancellationRow) query" where
  "LockRunCancellationForMutation runID cancellationID d =
     (case find_cancellation runID d of
        None \<Rightarrow> None
      | Some x \<Rightarrow> if cx_ID x = cancellationID then Some (x, d) else None)"

definition CreateRunCancellation ::
    "uuid \<Rightarrow> uuid \<Rightarrow> uuid option \<Rightarrow> string \<Rightarrow> uuid \<Rightarrow> string option \<Rightarrow> gotime \<Rightarrow> CancellationRow lease_tx" where
  "CreateRunCancellation cancellationID runID targetAttemptID requestedByType requestedByID reason now = (\<lambda>d.
     case find_cancellation runID d of
       Some x \<Rightarrow> Inr (x, d)
     | None \<Rightarrow>
         if \<exists>x \<in> set (db_cancellations d). cx_ID x = cancellationID
         then Inl (OtherError ''unique constraint violation'' None)
         else (let x = \<lparr>cx_ID = cancellationID, cx_RunID = runID, cx_TargetAttemptID = targetAttemptID,
                 cx_State = ''requested'', cx_RequestedByType = requestedByType, cx_RequestedByID = requestedByID,
                 cx_Reason = reason, cx_RequestedAt = now, cx_DeliveredAt = None, cx_StoppingAt = None,
                 cx_StoppedAt = None, cx_AcknowledgedAt = None, cx_ErrorCode = None, cx_UpdatedAt = now\<rparr>
               in Inr (x, d\<lparr>db_cancellations := insert_row x (db_cancellations d)\<rparr>)))"

definition advanced_cancellation :: "string \<Rightarrow> string option \<Rightarrow> gotime \<Rightarrow> CancellationRow \<Rightarrow> CancellationRow" where
  "advanced_cancellation target errorCode now x =
     (let aimed = (cx_TargetAttemptID x \<noteq> None) in
      x\<lparr>cx_State := target,
        cx_DeliveredAt := (if aimed \<and> target \<in> {''delivered'', ''stopping'', ''stopped'', ''unsupported'', ''failed''}
          then Some (coalesce (cx_DeliveredAt x) now) else cx_DeliveredAt x),
        cx_StoppingAt := (if aimed \<and> target \<in> {''stopping'', ''stopped''}
          then Some (coalesce (cx_StoppingAt x) now) else cx_StoppingAt x),
        cx_StoppedAt := (if target = ''stopped'' then Some (coalesce (cx_StoppedAt x) now) else cx_StoppedAt x),
        cx_AcknowledgedAt := (if aimed \<and> target \<in> {''stopping'', ''stopped'', ''unsupported'', ''failed''}
          then Some (coalesce (cx_AcknowledgedAt x) now) else cx_AcknowledgedAt x),
        cx_ErrorCode := errorCode, cx_UpdatedAt := now\<rparr>)"

definition AdvanceRuntimeRunCancellation ::
    "string \<Rightarrow> string option \<Rightarrow> uuid \<Rightarrow> uuid \<Rightarrow> string \<Rightarrow> gotime \<Rightarrow> CancellationRow option lease_tx" where
  "AdvanceRuntimeRunCancellation target errorCode runID cancellationID expected now = (\<lambda>d.
     case find_cancellation runID d of
       None \<Rightarrow> Inr (None, d)
     | Some x \<Rightarrow>
         if cx_ID x = cancellationID \<and> cx_State x = expected \<and>
            cx_State x \<notin> {''stopped'', ''unsupported'', ''failed''} \<and>
            target \<in> {''delivered'', ''stopping'', ''stopped'', ''unsupported'', ''failed'', ''unconfirmed''}
         then (let x' = advanced_cancellation target errorCode now x in
               if cancellation_evidence x' \<and> cancellation_time_order x' \<and> cancellation_transition (cx_State x) target \<and>
                  cx_UpdatedAt x \<le> cx_UpdatedAt x'
               then Inr (Some x', set_cancellation runID x' d) else Inl check_violation)
         else Inr (None, d))"

text \<open>A statement that returns no row, as the caller reports it.\<close>

definition row_or :: "go_error \<Rightarrow> 'a option lease_tx \<Rightarrow> 'a lease_tx" where
  "row_or err m = tx_bind m (\<lambda>row. case row of None \<Rightarrow> tx_fail err | Some x \<Rightarrow> tx_return x)"

section \<open>Statements on runs and attempts\<close>

definition GetRunByID :: "uuid \<Rightarrow> (runtime_db, RunRow) query" where
  "GetRunByID runID d = map_option (\<lambda>r. (r, d)) (find_run runID d)"

definition cancelable :: "RunRow \<Rightarrow> CancellationRow \<Rightarrow> runtime_db \<Rightarrow> bool" where
  "cancelable r x d \<longleftrightarrow>
     (case cx_TargetAttemptID x of
        None \<Rightarrow> cx_State x = ''stopped'' \<and> r_ActiveAttemptID r = None \<and> r_DispatchState r \<in> {''pending'', ''retry_wait''}
      | Some k \<Rightarrow> r_ActiveAttemptID r = Some k \<and>
         (case find_attempt k d of
            None \<Rightarrow> False
          | Some a \<Rightarrow> a_RunID a = r_ID r \<and>
             (cx_State x = ''requested'' \<and> r_DispatchState r \<in> {''offered'', ''executing''} \<and>
                a_FinishedAt a = None \<and> a_Outcome a = None \<or>
              cx_State x = ''stopped'' \<and> r_DispatchState r = ''executing'' \<and>
                a_ExecutorType a \<in> {''core_http'', ''core_mcp''} \<and> a_FinishedAt a \<noteq> None \<and>
                a_Outcome a = Some ''canceled'' \<and> a_ResultID a = None)))"

definition FinalizeRuntimeRunCancellation :: "int \<Rightarrow> uuid \<Rightarrow> uuid \<Rightarrow> uuid \<Rightarrow> gotime \<Rightarrow> RunRow option lease_tx" where
  "FinalizeRuntimeRunCancellation durationMs terminalEventID runID cancellationID now = (\<lambda>d.
     case (find_run runID d, find_cancellation runID d) of
       (Some r, Some x) \<Rightarrow>
         if cx_ID x = cancellationID \<and> r_RuntimeContractID r = RuntimeContractID \<and> r_Status r = ''running'' \<and>
            r_DispatchState r \<in> {''pending'', ''offered'', ''executing'', ''retry_wait''} \<and> 0 \<le> durationMs \<and> cancelable r x d
         then checked_run runID ((clear_lease r)\<lparr>r_Status := ''canceled'', r_DispatchState := ''terminal'', r_Output := None,
                r_ErrorCode := Some ''CANCELED'',
                r_ErrorMessage := Some (case cx_Reason x of None \<Rightarrow> ''Run canceled'' | Some reason \<Rightarrow> reason),
                r_DurationMs := Some durationMs, r_FinishedAt := Some now, r_NextAttemptAt := None, r_ResultID := None,
                r_ResultFingerprint := None, r_TerminalEventID := Some terminalEventID, r_DeadLetteredAt := None,
                r_CancelRequestID := Some (cx_ID x), r_CancelState := Some (cx_State x),
                r_CancelRequestedAt := Some (cx_RequestedAt x), r_CancelAcknowledgedAt := cx_AcknowledgedAt x,
                r_CancelReason := cx_Reason x\<rparr>) d
         else Inr (None, d)
     | _ \<Rightarrow> Inr (None, d))"

definition MirrorRuntimeRunCancellationState :: "uuid \<Rightarrow> uuid \<Rightarrow> (runtime_db, RunRow) query" where
  "MirrorRuntimeRunCancellationState runID cancellationID d =
     (case (find_run runID d, find_cancellation runID d) of
        (Some r, Some x) \<Rightarrow>
          if r_RuntimeContractID r = RuntimeContractID \<and> r_Status r = ''canceled'' \<and> r_DispatchState r = ''terminal'' \<and>
             r_CancelRequestID r = Some cancellationID \<and> cx_ID x = cancellationID
          then (let r' = r\<lparr>r_CancelState := Some (cx_State x), r_CancelAcknowledgedAt := cx_AcknowledgedAt x,
                           r_CancelReason := cx_Reason x\<rparr>
                in Some (r', set_run runID r' d))
          else None
      | _ \<Rightarrow> None)"

text \<open>The run of an attempt is canceled and its cancellation aims at the attempt.\<close>

definition canceled_target :: "AttemptRow \<Rightarrow> runtime_db \<Rightarrow> (RunRow \<times> CancellationRow) option" where
  "canceled_target a d =
     (case (find_run (a_RunID a) d, find_cancellation (a_RunID a) d) of
        (Some r, Some x) \<Rightarrow>
          if r_CancelRequestID r = Some (cx_ID x) \<and> r_RuntimeContractID r = RuntimeContractID \<and> r_Status r = ''canceled'' \<and>
             r_DispatchState r = ''terminal'' \<and> cx_TargetAttemptID x = Some (a_ID a)
          then Some (r, x) else None
      | _ \<Rightarrow> None)"

definition canceled_attempt :: "string option \<Rightarrow> gotime \<Rightarrow> AttemptRow \<Rightarrow> AttemptRow" where
  "canceled_attempt errorCode now a =
     a\<lparr>a_FinishedAt := Some now, a_Outcome := Some ''canceled'', a_ErrorCode := errorCode, a_ErrorDetailRedacted := None\<rparr>"

definition FinishRuntimeCanceledAttempt ::
    "string option \<Rightarrow> uuid \<Rightarrow> uuid \<Rightarrow> uuid \<Rightarrow> int \<Rightarrow> int \<Rightarrow> gotime \<Rightarrow> (runtime_db, AttemptRow) query" where
  "FinishRuntimeCanceledAttempt errorCode runID attemptID leaseID fencingToken commandDeadlineMs now d =
     (case find_attempt attemptID d of
        None \<Rightarrow> None
      | Some a \<Rightarrow>
         if attempt_key runID attemptID leaseID fencingToken a \<and> a_ExecutorType a = ''runtime'' \<and> attempt_unresolved a \<and>
            (case canceled_target a d of
               None \<Rightarrow> False
             | Some (_, x) \<Rightarrow> cx_State x \<in> {''stopped'', ''unconfirmed''} \<or>
                 cx_State x \<in> {''unsupported'', ''failed''} \<and> cx_ErrorCode x \<noteq> None \<and>
                 after_ms (cx_RequestedAt x) commandDeadlineMs \<le> now)
         then Some (canceled_attempt errorCode now a, set_attempt attemptID (canceled_attempt errorCode now a) d)
         else None)"

definition finish_core_attempt ::
    "(CancellationRow \<Rightarrow> bool) \<Rightarrow> string \<Rightarrow> uuid \<Rightarrow> uuid \<Rightarrow> uuid \<Rightarrow> int \<Rightarrow> gotime \<Rightarrow> (runtime_db, AttemptRow) query" where
  "finish_core_attempt settled errorCode runID attemptID leaseID fencingToken now d =
     (case find_attempt attemptID d of
        None \<Rightarrow> None
      | Some a \<Rightarrow>
         if attempt_key runID attemptID leaseID fencingToken a \<and> is_core_executor a \<and> attempt_unresolved a \<and>
            (case canceled_target a d of
               None \<Rightarrow> False
             | Some (r, x) \<Rightarrow> r_LatestAttemptID r = Some (a_ID a) \<and> settled x)
         then Some (canceled_attempt (Some errorCode) now a,
                    set_attempt attemptID (canceled_attempt (Some errorCode) now a) d)
         else None)"

definition FinishRuntimeCoreCanceledAttempt :: "uuid \<Rightarrow> uuid \<Rightarrow> uuid \<Rightarrow> int \<Rightarrow> gotime \<Rightarrow> (runtime_db, AttemptRow) query" where
  "FinishRuntimeCoreCanceledAttempt = finish_core_attempt (\<lambda>x. cx_State x = ''stopped'') ''CANCELED''"

definition FinishRuntimeCoreUnconfirmedAttempt :: "uuid \<Rightarrow> uuid \<Rightarrow> uuid \<Rightarrow> int \<Rightarrow> gotime \<Rightarrow> (runtime_db, AttemptRow) query" where
  "FinishRuntimeCoreUnconfirmedAttempt =
     finish_core_attempt (\<lambda>x. cx_State x = ''unconfirmed'' \<and> cx_ErrorCode x = Some ''CANCEL_UNCONFIRMED'') ''CANCEL_UNCONFIRMED''"

section \<open>Cancellations that wait\<close>

text \<open>
  The join of canceled runs with their cancellation and its target. The summary of the run has to
  agree with the cancellation.
\<close>

definition cancellation_join :: "runtime_db \<Rightarrow> RunRow \<Rightarrow> (RunRow \<times> CancellationRow \<times> AttemptRow) option" where
  "cancellation_join d r =
     (case find_cancellation (r_ID r) d of
        None \<Rightarrow> None
      | Some x \<Rightarrow>
         (case Option.bind (cx_TargetAttemptID x) (\<lambda>k. find_attempt k d) of
            None \<Rightarrow> None
          | Some a \<Rightarrow>
             if r_CancelRequestID r = Some (cx_ID x) \<and> a_RunID a = r_ID r \<and> r_RuntimeContractID r = RuntimeContractID \<and>
                r_Status r = ''canceled'' \<and> r_DispatchState r = ''terminal'' \<and> r_CancelState r = Some (cx_State x) \<and>
                a_FinishedAt a = None
             then Some (r, x, a) else None))"

definition open_state :: "string \<Rightarrow> bool" where
  "open_state s \<longleftrightarrow> s = RuntimeCancelRequested \<or> s = RuntimeCancelDelivered \<or> s = RuntimeCancelStopping"

definition reap_due_at :: "int \<Rightarrow> CancellationRow \<Rightarrow> gotime" where
  "reap_due_at commandDeadlineMs x = after_ms (cx_RequestedAt x) commandDeadlineMs"

definition reapable_runtime :: "CancellationRow \<Rightarrow> AttemptRow \<Rightarrow> bool" where
  "reapable_runtime x a \<longleftrightarrow>
     (open_state (cx_State x) \<or> cx_State x = RuntimeCancelUnsupported \<or> cx_State x = RuntimeCancelFailed) \<and>
     a_ExecutorType a = ''runtime'' \<and> a_Outcome a = None \<and> a_SlotAcquiredAt a \<noteq> None \<and> a_SlotReleasedAt a = None \<and>
     a_ActiveRuntimeSessionID a \<noteq> None \<and> a_NodeID a \<noteq> None"

definition reapable_core :: "CancellationRow \<Rightarrow> AttemptRow \<Rightarrow> bool" where
  "reapable_core x a \<longleftrightarrow>
     open_state (cx_State x) \<and> is_core_executor a \<and> a_Outcome a = None \<and> a_ResultID a = None"

definition NextRuntimeCancellationReapDue :: "int \<Rightarrow> gotime \<Rightarrow> runtime_db \<Rightarrow> gotime option \<times> gotime" where
  "NextRuntimeCancellationReapDue commandDeadlineMs now d =
     (sql_least (map (\<lambda>(r, x, a). Some (reap_due_at commandDeadlineMs x))
        (filter (\<lambda>(r, x, a). reapable_runtime x a \<or> reapable_core x a)
           (List.map_filter (cancellation_join d) (db_runs d)))), now)"

record CancellationCandidate =
  cd_RunID :: uuid
  cd_AgentID :: uuid
  cd_CancellationID :: uuid
  cd_TargetAttemptID :: uuid
  cd_DatabaseNow :: gotime

record FindNextDueRuntimeCancellationRow = CancellationCandidate +
  cd_RuntimeSessionID :: uuid
  cd_NodeID :: uuid

definition cancellation_candidate :: "gotime \<Rightarrow> RunRow \<times> CancellationRow \<times> AttemptRow \<Rightarrow> CancellationCandidate" where
  "cancellation_candidate now = (\<lambda>(r, x, a).
     \<lparr>cd_RunID = r_ID r, cd_AgentID = r_AgentID r, cd_CancellationID = cx_ID x, cd_TargetAttemptID = a_ID a,
      cd_DatabaseNow = now\<rparr>)"

definition first_by :: "('a \<Rightarrow> gotime) \<Rightarrow> ('a \<Rightarrow> uuid) \<Rightarrow> 'a list \<Rightarrow> 'a option" where
  "first_by time key xs = (case sort_key time (sort_key key xs) of [] \<Rightarrow> None | x # _ \<Rightarrow> Some x)"

definition command_scope :: "RuntimeSessionPrincipal \<Rightarrow> int \<Rightarrow> gotime \<Rightarrow> RunRow \<times> CancellationRow \<times> AttemptRow \<Rightarrow> bool" where
  "command_scope p commandDeadlineMs now = (\<lambda>(r, x, a).
     open_state (cx_State x) \<and> a_ExecutorType a = ''runtime'' \<and> a_AgentID a = pr_AgentID p \<and>
     a_NodeID a = Some (pr_NodeID p) \<and> a_RuntimeTokenID a = Some (pr_CredentialID p) \<and>
     a_RuntimeWorkerID a = Some (pr_WorkerID p) \<and> a_RuntimeSessionID a = Some (pr_RuntimeSessionID p) \<and>
     reap_due_at commandDeadlineMs x > now)"

definition LockNextRuntimeCancellationCommandRun ::
    "RuntimeSessionPrincipal \<Rightarrow> int \<Rightarrow> (uuid \<Rightarrow> bool) \<Rightarrow> gotime \<Rightarrow> (runtime_db, CancellationCandidate) query" where
  "LockNextRuntimeCancellationCommandRun p commandDeadlineMs held now d =
     map_option (\<lambda>j. (cancellation_candidate now j, d))
       (first_by (\<lambda>(r, x, a). cx_UpdatedAt x) (\<lambda>(r, x, a). cx_ID x)
          (filter (\<lambda>j. command_scope p commandDeadlineMs now j \<and> \<not> held (r_ID (fst j)))
             (List.map_filter (cancellation_join d) (db_runs d))))"

definition HasPendingRuntimeCancellationCommand :: "RuntimeSessionPrincipal \<Rightarrow> int \<Rightarrow> gotime \<Rightarrow> runtime_db \<Rightarrow> bool" where
  "HasPendingRuntimeCancellationCommand p commandDeadlineMs now d \<longleftrightarrow>
     list_ex (command_scope p commandDeadlineMs now) (List.map_filter (cancellation_join d) (db_runs d))"

definition FindNextDueRuntimeCancellation ::
    "int \<Rightarrow> gotime \<Rightarrow> (runtime_db, FindNextDueRuntimeCancellationRow) query" where
  "FindNextDueRuntimeCancellation commandDeadlineMs now d =
     map_option (\<lambda>(r, x, a). (\<lparr>cd_RunID = r_ID r, cd_AgentID = r_AgentID r, cd_CancellationID = cx_ID x,
            cd_TargetAttemptID = a_ID a, cd_DatabaseNow = now, cd_RuntimeSessionID = the (a_ActiveRuntimeSessionID a),
            cd_NodeID = the (a_NodeID a)\<rparr>, d))
       (first_by (\<lambda>(r, x, a). cx_RequestedAt x) (\<lambda>(r, x, a). cx_ID x)
          (filter (\<lambda>(r, x, a). reapable_runtime x a \<and> reap_due_at commandDeadlineMs x \<le> now)
             (List.map_filter (cancellation_join d) (db_runs d))))"

definition FindNextDueRuntimeCoreCancellation :: "int \<Rightarrow> gotime \<Rightarrow> (runtime_db, CancellationCandidate) query" where
  "FindNextDueRuntimeCoreCancellation commandDeadlineMs now d =
     map_option (\<lambda>j. (cancellation_candidate now j, d))
       (first_by (\<lambda>(r, x, a). cx_RequestedAt x) (\<lambda>(r, x, a). cx_ID x)
          (filter (\<lambda>(r, x, a). reapable_core x a \<and> reap_due_at commandDeadlineMs x \<le> now)
             (List.map_filter (cancellation_join d) (db_runs d))))"

definition LockRuntimeSessionForCancellationReap :: "uuid \<Rightarrow> (runtime_db, uuid) query" where
  "LockRuntimeSessionForCancellationReap sessionID d = map_option (\<lambda>s. (s_ID s, d)) (find_session sessionID d)"

definition LockRuntimeNodeForCancellationReap :: "uuid \<Rightarrow> (runtime_db, uuid) query" where
  "LockRuntimeNodeForCancellationReap nodeID d = map_option (\<lambda>n. (n_ID n, d)) (find_node nodeID d)"

definition LockDueRuntimeCancellationRun ::
    "uuid \<Rightarrow> uuid \<Rightarrow> uuid \<Rightarrow> uuid \<Rightarrow> uuid \<Rightarrow> int \<Rightarrow> gotime \<Rightarrow> (runtime_db, CancellationCandidate) query" where
  "LockDueRuntimeCancellationRun runID cancellationID targetAttemptID sessionID nodeID commandDeadlineMs now d =
     (case Option.bind (find_run runID d) (cancellation_join d) of
        None \<Rightarrow> None
      | Some (r, x, a) \<Rightarrow>
         if cx_ID x = cancellationID \<and> a_ID a = targetAttemptID \<and> a_ActiveRuntimeSessionID a = Some sessionID \<and>
            a_NodeID a = Some nodeID \<and> reapable_runtime x a \<and> reap_due_at commandDeadlineMs x \<le> now
         then Some (cancellation_candidate now (r, x, a), d) else None)"

definition LockDueRuntimeCoreCancellationRun ::
    "uuid \<Rightarrow> uuid \<Rightarrow> uuid \<Rightarrow> int \<Rightarrow> gotime \<Rightarrow> (runtime_db, CancellationCandidate) query" where
  "LockDueRuntimeCoreCancellationRun runID cancellationID targetAttemptID commandDeadlineMs now d =
     (case Option.bind (find_run runID d) (cancellation_join d) of
        None \<Rightarrow> None
      | Some (r, x, a) \<Rightarrow>
         if cx_ID x = cancellationID \<and> a_ID a = targetAttemptID \<and> reapable_core x a \<and> reap_due_at commandDeadlineMs x \<le> now
         then Some (cancellation_candidate now (r, x, a), d) else None)"

definition nextReapDue :: "RuntimeCancellationCoordinator \<Rightarrow> gotime \<Rightarrow> runtime_db \<Rightarrow> go_error + gotime option \<times> gotime" where
  "nextReapDue c now d =
     (if command_ready c then Inr (NextRuntimeCancellationReapDue (Milliseconds (cn_commandDeadline c)) now d)
      else Inl errRuntimeCancellationNotReady)"

section \<open>Canceling\<close>

definition runtimeCancellationActiveAttemptMatches :: "RunRow \<Rightarrow> AttemptRow \<Rightarrow> bool" where
  "runtimeCancellationActiveAttemptMatches r a \<longleftrightarrow>
     r_ActiveAttemptID r = Some (a_ID a) \<and> r_LatestAttemptID r = Some (a_ID a) \<and> r_LeaseID r = Some (a_LeaseID a) \<and>
     r_FencingToken r = a_FencingToken a \<and> r_AgentID r = a_AgentID a \<and> a_RunID a = r_ID r \<and>
     a_FinishedAt a = None \<and> a_Outcome a = None"

definition lockStoredRuntimeCancellation :: "RunRow \<Rightarrow> CancellationRow lease_tx" where
  "lockStoredRuntimeCancellation r =
     tx_bind (tx_one ErrNoRows (GetRunCancellationByRun (r_ID r))) (\<lambda>stored.
     tx_bind (case cx_TargetAttemptID stored of
         None \<Rightarrow> tx_return ()
       | Some k \<Rightarrow> tx_bind (tx_one ErrNoRows (LockRunAttemptForResult (r_ID r) k)) (\<lambda>_. tx_return ())) (\<lambda>_.
     tx_bind (tx_one ErrNoRows (LockRunCancellationForMutation (r_ID r) (cx_ID stored))) (\<lambda>x.
     tx_bind (tx_guard (r_CancelRequestID r = Some (cx_ID x) \<and> r_CancelState r = Some (cx_State x))
        (OtherError ''stored runtime cancellation summary is inconsistent'' None)) (\<lambda>_.
     tx_return x))))"

definition insertRuntimeCancellationLedger :: "RunRow \<Rightarrow> uuid \<Rightarrow> unit lease_tx" where
  "insertRuntimeCancellationLedger r terminalEventID =
     tx_bind (tx_opt (InsertRunAccountingLedger (r_ID r) terminalEventID (r_AgentID r) 0 0)) (\<lambda>created.
     case created of
       None \<Rightarrow>
         tx_bind (tx_one ErrNoRows (GetRunAccountingLedger (r_ID r))) (\<lambda>l.
         tx_guard (ld_TerminalEventID l = terminalEventID \<and> ld_AgentID l = r_AgentID r \<and>
             ld_SuccessDelta l = 0 \<and> ld_RevenueDeltaCents l = 0)
           (OtherError ''runtime cancellation accounting ledger identity conflict'' None))
     | Some l \<Rightarrow>
         tx_guard (ld_RunID l = r_ID r \<and> ld_TerminalEventID l = terminalEventID \<and> ld_AgentID l = r_AgentID r \<and>
             ld_SuccessDelta l = 0 \<and> ld_RevenueDeltaCents l = 0)
           (OtherError ''created runtime cancellation accounting ledger is inconsistent'' None))"

text \<open>The payload of the stop signal; for a Core executor it names the instance that runs the call.\<close>

definition cancel_signal_payload :: "result_env \<Rightarrow> uuid \<Rightarrow> CancellationRow \<Rightarrow> AttemptRow \<Rightarrow> go_error + bytes" where
  "cancel_signal_payload fe runID x a =
     (case CanonicalizeRFC8785 (fe_floats fe) (VObject [(''attempt_id'', VString (uuid_String (a_ID a))),
         (''cancellation_id'', VString (uuid_String (cx_ID x))), (''run_id'', VString (uuid_String runID))]) of
        Inl err \<Rightarrow> Inl err
      | Inr payload \<Rightarrow>
         if \<not> is_core_executor a then Inr payload
         else (case fe_Unmarshal fe payload of
            Some (VObject members) \<Rightarrow>
              CanonicalizeRFC8785 (fe_floats fe) (VObject (filter (\<lambda>f. fst f \<noteq> ''target_instance_id'') members @
                [(''target_instance_id'', VString (uuid_String (a_AttachedCoreInstanceID a)))]))
          | _ \<Rightarrow> Inl (OtherError ''cannot unmarshal into map[string]interface'' None)))"

text \<open>Readings: 0 run lock, 1 creation, 2 advance, 3 final update of the run, 4 effects, 5 signal.\<close>

definition PersistCancellationTerminal ::
    "result_env \<Rightarrow> gotime \<Rightarrow> (nat \<Rightarrow> gotime) \<Rightarrow> RunRow \<Rightarrow> CancellationRow \<Rightarrow> AttemptRow option \<Rightarrow> RunRow lease_tx" where
  "PersistCancellationTerminal fe began clk run x target =
     (let terminalEventID = deterministicTerminalEventID fe (r_ID run) ''canceled'' in
      tx_bind (runtimeResultRunFromLocked run) (\<lambda>_.
      tx_bind (tx_lift (runtimeCancellationDurationMS (clk 0) (r_StartedAt run))) (\<lambda>durationMS.
      tx_bind (discoverRuntimeResultEffects fe run terminalEventID ''run.canceled'') (\<lambda>(parentRunID, effects).
      tx_bind (marshalRuntimeResultJSON fe (VObject [(''cancellation_id'', VString (uuid_String (cx_ID x))),
         (''classification'', VString ClassificationCanceled), (''duration_ms'', VInt (word_of_int durationMS)),
         (''error_code'', VString runtimeCancellationPublicCode),
         (''error_message'', case cx_Reason x of None \<Rightarrow> VNull | Some reason \<Rightarrow> VString reason),
         (''status'', VString ''canceled''), (''terminal'', VBool True)])) (\<lambda>payload.
      tx_bind (InsertTerminalRunEvent terminalEventID began (r_ID run) parentRunID ''run.canceled'' payload) (\<lambda>event.
      tx_bind (row_or ErrNoRows (FinalizeRuntimeRunCancellation durationMS (ev_ID event) (r_ID run) (cx_ID x) (clk 3))) (\<lambda>finalized.
      tx_bind (tx_guard (r_Status finalized = ''canceled'' \<and> r_DispatchState finalized = ''terminal'' \<and>
          r_TerminalEventID finalized = Some (ev_ID event) \<and> r_CancelRequestID finalized = Some (cx_ID x))
         (OtherError ''finalized runtime cancellation is inconsistent'' None)) (\<lambda>_.
      tx_bind (insertRuntimeCancellationLedger run (ev_ID event)) (\<lambda>_.
      tx_bind (ensure_effects fe (r_ID run) (ev_ID event) (clk 4) effects) (\<lambda>_.
      tx_bind (case target of
          None \<Rightarrow> tx_return ()
        | Some a \<Rightarrow>
            tx_bind (tx_lift (cancel_signal_payload fe (r_ID run) x a)) (\<lambda>signal.
            tx_bind (tx_one ErrNoRows (CreateRuntimeSignal ''run.cancel'' (r_AgentID run) (Some (r_ID run)) signal (clk 5))) (\<lambda>_.
            tx_return ()))) (\<lambda>_.
      tx_one ErrNoRows (GetRunByID (r_ID run)))))))))))))"

text \<open>The attempt a new cancellation aims at.\<close>

definition cancel_target :: "RunRow \<Rightarrow> AttemptRow option lease_tx" where
  "cancel_target r =
     (case r_ActiveAttemptID r of
        Some k \<Rightarrow>
          tx_bind (stale_one (LockRunAttemptForResult (r_ID r) k)) (\<lambda>a.
          tx_bind (stale_guard (runtimeCancellationActiveAttemptMatches r a)) (\<lambda>_. tx_return (Some a)))
      | None \<Rightarrow>
          tx_bind (stale_guard (r_DispatchState r = ''pending'' \<or> r_DispatchState r = ''retry_wait'')) (\<lambda>_. tx_return None))"

definition cancel_new ::
    "result_env \<Rightarrow> gotime \<Rightarrow> (nat \<Rightarrow> gotime) \<Rightarrow> uuid \<Rightarrow> string \<Rightarrow> RunRow \<Rightarrow> RuntimeCancellationResult lease_tx" where
  "cancel_new fe began clk requesterID reason locked =
     (let runID = r_ID locked; cancellationID = deterministicRuntimeCancellationID fe runID in
      tx_bind (tx_guard (r_CancelRequestID locked = None \<and> r_TerminalEventID locked = None) ErrRuntimeCancellationRunEnded) (\<lambda>_.
      tx_bind (cancel_target locked) (\<lambda>target.
      tx_bind (CreateRunCancellation cancellationID runID (map_option a_ID target) ''user'' requesterID (Some reason) (clk 1)) (\<lambda>x.
      tx_bind (tx_guard (cx_ID x = cancellationID \<and> cx_RunID x = runID \<and> cx_TargetAttemptID x = map_option a_ID target)
         (OtherError ''created runtime cancellation identity is inconsistent'' None)) (\<lambda>_.
      tx_bind (case target of
          None \<Rightarrow> row_or ErrNoRows (AdvanceRuntimeRunCancellation RuntimeCancelStopped None runID cancellationID
                     RuntimeCancelRequested (clk 2))
        | Some a \<Rightarrow>
            tx_bind (tx_guard (a_ExecutorType a = ''runtime'' \<or> is_core_executor a)
               (OtherError ''runtime cancellation target has unknown executor type'' None)) (\<lambda>_. tx_return x)) (\<lambda>x'.
      tx_bind (PersistCancellationTerminal fe began clk locked x' target) (\<lambda>run.
      tx_return \<lparr>xr_Run = run, xr_Cancellation = x', xr_Replayed = False\<rparr>)))))))"

definition cancel_tx ::
    "result_env \<Rightarrow> gotime \<Rightarrow> (nat \<Rightarrow> gotime) \<Rightarrow> uuid \<Rightarrow> uuid \<Rightarrow> string \<Rightarrow> RuntimeCancellationResult lease_tx" where
  "cancel_tx fe began clk requesterID runID reason =
     tx_bind (tx_one ErrRuntimeCancellationNotFound (LockRunForResultFinalization runID)) (\<lambda>locked.
     tx_bind (tx_guard (r_UserID locked = requesterID) ErrRuntimeCancellationNotFound) (\<lambda>_.
     if r_Status locked \<noteq> ''running'' \<or> r_DispatchState locked = ''terminal'' \<or> r_DispatchState locked = ''dead_letter''
     then
       tx_bind (tx_guard (r_Status locked = ''canceled'' \<and> r_CancelRequestID locked \<noteq> None) ErrRuntimeCancellationRunEnded) (\<lambda>_.
       tx_bind (lockStoredRuntimeCancellation locked) (\<lambda>x.
       tx_bind (tx_one ErrNoRows (GetRunByID runID)) (\<lambda>run.
       tx_return \<lparr>xr_Run = run, xr_Cancellation = x, xr_Replayed = True\<rparr>)))
     else cancel_new fe began clk requesterID reason locked))"

definition CancelOwnedRun ::
    "result_env \<Rightarrow> RuntimeCancellationCoordinator \<Rightarrow> gotime \<Rightarrow> (nat \<Rightarrow> gotime) \<Rightarrow> uuid \<Rightarrow> uuid \<Rightarrow> string \<Rightarrow> runtime_db
       \<Rightarrow> (go_error + RuntimeCancellationResult) \<times> runtime_db" where
  "CancelOwnedRun fe c began clk requesterID runID reason d =
     (case normalizeRuntimeCancellationReason reason of
        Inl err \<Rightarrow> (Inl err, d)
      | Inr normal \<Rightarrow>
         if requesterID = uuid_Nil \<or> runID = uuid_Nil then (Inl ErrRuntimeCancellationInvalid, d)
         else if \<not> cn_repository c then (Inl errRuntimeCancellationNotReady, d)
         else WithTransaction (cancel_tx fe began clk requesterID runID normal) d)"

section \<open>Commands\<close>

text \<open>\<open>json.Marshal\<close> of the command and the decoders of its payload.\<close>

record command_env =
  ce_Marshal :: "RunCancelPayload \<Rightarrow> go_error + bytes"
  ce_decoders :: payload_decoders

definition runtimeCancellationCommandTargetMatches ::
    "RuntimeSessionPrincipal \<Rightarrow> CancellationCandidate \<Rightarrow> CancellationRow \<Rightarrow> AttemptRow \<Rightarrow> bool" where
  "runtimeCancellationCommandTargetMatches p candidate x a \<longleftrightarrow>
     cx_ID x = cd_CancellationID candidate \<and> cx_RunID x = cd_RunID candidate \<and> cx_TargetAttemptID x = Some (a_ID a) \<and>
     a_RunID a = cd_RunID candidate \<and> a_AgentID a = pr_AgentID p \<and> a_ExecutorType a = ''runtime'' \<and> a_FinishedAt a = None \<and>
     a_NodeID a = Some (pr_NodeID p) \<and> a_RuntimeTokenID a = Some (pr_CredentialID p) \<and>
     a_RuntimeWorkerID a = Some (pr_WorkerID p) \<and> a_RuntimeSessionID a = Some (pr_RuntimeSessionID p)"

definition runtimeCancellationPendingCommand ::
    "command_env \<Rightarrow> CancellationRow \<Rightarrow> AttemptRow \<Rightarrow> gotime \<Rightarrow> go_error + PendingCommand" where
  "runtimeCancellationPendingCommand ce x a deadline =
     (case attemptIdentityFromRow a of
        Inl err \<Rightarrow> Inl err
      | Inr identity \<Rightarrow>
         (let payload = \<lparr>can_CancellationID = cx_ID x, can_AttemptIdentity = identity,
                can_ReasonCode = runtimeCancellationReasonCode, can_DeadlineAt = cx_RequestedAt x + deadline\<rparr> in
          case validateRunCancel payload of
            Some err \<Rightarrow> Inl err
          | None \<Rightarrow>
             (case ce_Marshal ce payload of
                Inl err \<Rightarrow> Inl err
              | Inr raw \<Rightarrow>
                 (let command = \<lparr>pc_Type = RuntimeMessageRunCancel, pc_Payload = raw\<rparr> in
                  case DecodePendingCommand (ce_decoders ce) command of
                    Inl err \<Rightarrow> Inl err
                  | Inr _ \<Rightarrow> Inr command))))"

text \<open>The delivery of an open cancellation is recorded on it and on its run.\<close>

definition deliver_tx :: "CancellationRow \<Rightarrow> gotime \<Rightarrow> CancellationRow lease_tx" where
  "deliver_tx x now =
     (if open_state (cx_State x)
      then
        tx_bind (row_or ErrNoRows (AdvanceRuntimeRunCancellation
           (if cx_State x = RuntimeCancelRequested then RuntimeCancelDelivered else cx_State x)
           (cx_ErrorCode x) (cx_RunID x) (cx_ID x) (cx_State x) now)) (\<lambda>x'.
        tx_bind (tx_one ErrNoRows (MirrorRuntimeRunCancellationState (cx_RunID x') (cx_ID x'))) (\<lambda>_.
        tx_return x'))
      else tx_return x)"

text \<open>Readings: 0 session lock, 1 credential lock, 2 candidate, 3 presence probe, 4 advance.\<close>

definition command_for ::
    "command_env \<Rightarrow> RuntimeCancellationCoordinator \<Rightarrow> (nat \<Rightarrow> gotime) \<Rightarrow> RuntimeSessionPrincipal \<Rightarrow> lockedRuntimePrincipal option
       \<Rightarrow> CancellationCandidate \<Rightarrow> PendingCommand lease_tx" where
  "command_for ce c clk p lockedPrincipal candidate =
     tx_bind (tx_guard (cd_AgentID candidate = pr_AgentID p \<and> validAt lockedPrincipal (cd_DatabaseNow candidate))
        (LeaseError RuntimeLeaseErrorIdentityMismatch None)) (\<lambda>_.
     tx_bind (stale_one (LockRunAttemptForResult (cd_RunID candidate) (cd_TargetAttemptID candidate))) (\<lambda>attempt.
     tx_bind (stale_one (LockRunCancellationForMutation (cd_RunID candidate) (cd_CancellationID candidate))) (\<lambda>x.
     tx_bind (tx_guard (runtimeCancellationCommandTargetMatches p candidate x attempt)
        (LeaseError RuntimeLeaseErrorIdentityMismatch None)) (\<lambda>_.
     tx_bind (deliver_tx x (clk 4)) (\<lambda>x'.
     tx_lift (runtimeCancellationPendingCommand ce x' attempt (cn_commandDeadline c)))))))"

definition next_command_tx ::
    "command_env \<Rightarrow> RuntimeCancellationCoordinator \<Rightarrow> (nat \<Rightarrow> gotime) \<Rightarrow> (uuid \<Rightarrow> bool) \<Rightarrow> RuntimeSessionPrincipal
       \<Rightarrow> PendingCommand option lease_tx" where
  "next_command_tx ce c clk held p =
     (let ms = Milliseconds (cn_commandDeadline c) in
      tx_bind (lock_principal p (clk 1)) (\<lambda>lockedPrincipal.
      tx_bind (tx_opt (LockNextRuntimeCancellationCommandRun p ms held (clk 2))) (\<lambda>found.
      case found of
        None \<Rightarrow>
          tx_bind (\<lambda>d. Inr (HasPendingRuntimeCancellationCommand p ms (clk 3) d, d)) (\<lambda>pending.
          if pending then tx_fail errRuntimeCancellationContended else tx_return None)
      | Some candidate \<Rightarrow>
          tx_bind (command_for ce c clk p lockedPrincipal candidate) (\<lambda>command. tx_return (Some command)))))"

text \<open>The database time that is returned beside the result, an error included.\<close>

definition next_command_time ::
    "RuntimeCancellationCoordinator \<Rightarrow> (nat \<Rightarrow> gotime) \<Rightarrow> (uuid \<Rightarrow> bool) \<Rightarrow> RuntimeSessionPrincipal \<Rightarrow> runtime_db \<Rightarrow> gotime" where
  "next_command_time c clk held p d =
     (case lock_principal p (clk 1) d of
        Inl _ \<Rightarrow> 0
      | Inr (_, d') \<Rightarrow>
         (case LockNextRuntimeCancellationCommandRun p (Milliseconds (cn_commandDeadline c)) held (clk 2) d' of
            None \<Rightarrow> clk 0
          | Some (candidate, _) \<Rightarrow> cd_DatabaseNow candidate))"

definition NextCommand ::
    "command_env \<Rightarrow> RuntimeCancellationCoordinator \<Rightarrow> (nat \<Rightarrow> gotime) \<Rightarrow> (uuid \<Rightarrow> bool) \<Rightarrow> RuntimeSessionPrincipal \<Rightarrow> runtime_db
       \<Rightarrow> ((go_error + PendingCommand option) \<times> gotime) \<times> runtime_db" where
  "NextCommand ce c clk held p d =
     (if \<not> command_ready c then ((Inl errRuntimeCancellationNotReady, 0), d)
      else case validateRuntimeEventPrincipal (EventPrincipal p) of
        Some err \<Rightarrow> ((Inl (LeaseError RuntimeLeaseErrorValidationFailed (Some err)), 0), d)
      | None \<Rightarrow>
         (case WithTransaction (next_command_tx ce c clk held p) d of
            (outcome, d') \<Rightarrow> ((outcome, next_command_time c clk held p d), d')))"

definition PollCommands ::
    "command_env \<Rightarrow> RuntimeCancellationCoordinator \<Rightarrow> (nat \<Rightarrow> gotime) \<Rightarrow> (uuid \<Rightarrow> bool) \<Rightarrow> RuntimeSessionPrincipal \<Rightarrow> runtime_db
       \<Rightarrow> (RuntimeCommandsResponse option \<times> go_error option) \<times> runtime_db" where
  "PollCommands ce c clk held p d =
     (case NextCommand ce c clk held p d of
        ((Inl err, now), d') \<Rightarrow>
          if errRuntimeCancellationContended \<notin> set (error_chain err) then ((None, Some err), d')
          else ((Some \<lparr>rcr_Commands = [], rcr_DatabaseTime = now\<rparr>, Some err), d')
      | ((Inr command, now), d') \<Rightarrow>
          ((Some \<lparr>rcr_Commands = (case command of None \<Rightarrow> [] | Some x \<Rightarrow> [x]), rcr_DatabaseTime = now\<rparr>, None), d'))"

section \<open>Acknowledgements\<close>

text \<open>Readings: 0 finish, 1 release mark, 2 session, 3 node, 4 signal.\<close>

definition finishRuntimeCancellationAttempt ::
    "AttemptRow \<Rightarrow> string option \<Rightarrow> gotime \<Rightarrow> (nat \<Rightarrow> gotime) \<Rightarrow> unit lease_tx" where
  "finishRuntimeCancellationAttempt a errorCode commandDeadline clk =
     tx_bind (tx_guard (deadline_configured commandDeadline) errRuntimeCancellationNotReady) (\<lambda>_.
     tx_bind (stale_one (FinishRuntimeCanceledAttempt errorCode (a_RunID a) (a_ID a) (a_LeaseID a) (a_FencingToken a)
        (Milliseconds commandDeadline) (clk 0))) (\<lambda>finished.
     tx_bind (tx_guard (a_FinishedAt finished \<noteq> None \<and> a_Outcome finished = Some ''canceled'' \<and>
         a_SlotAcquiredAt finished \<noteq> None \<and> a_ActiveRuntimeSessionID finished \<noteq> None \<and> a_NodeID finished \<noteq> None)
        (OtherError ''finished canceled Attempt is missing capacity evidence'' None)) (\<lambda>_.
     tx_bind (stale_one (MarkRunAttemptCapacityReleased (a_RunID a) (a_ID a) (a_LeaseID a) (a_FencingToken a) (clk 1))) (\<lambda>capacity.
     tx_bind (tx_guard (Some (cap_RuntimeSessionID capacity) = a_ActiveRuntimeSessionID finished \<and>
         Some (cap_NodeID capacity) = a_NodeID finished \<and> \<not> IsZero (cap_SlotAcquiredAt capacity) \<and>
         \<not> IsZero (cap_SlotReleasedAt capacity) \<and> \<not> cap_SlotReleasedAt capacity < cap_SlotAcquiredAt capacity)
        (OtherError ''canceled Attempt capacity owner changed'' None)) (\<lambda>_.
     tx_bind (tx_one ErrNoRows (ReleaseRuntimeSessionSlot (cap_RuntimeSessionID capacity) (clk 2))) (\<lambda>_.
     tx_bind (tx_one ErrNoRows (ReleaseRuntimeNodeSlot (cap_NodeID capacity) (clk 3))) (\<lambda>_.
     createRuntimeNodeCapacityAvailableSignal (a_AgentID a) (cap_NodeID capacity) (a_RunID a) (clk 4))))))))"

definition runtimeCancellationAckIdentityMatches ::
    "RunRow \<Rightarrow> RuntimeEventPrincipal \<Rightarrow> RunCancelAckPayload \<Rightarrow> CancellationRow \<Rightarrow> AttemptRow \<Rightarrow> bool" where
  "runtimeCancellationAckIdentityMatches locked p request x a \<longleftrightarrow>
     r_Status locked = ''canceled'' \<and> r_DispatchState locked = ''terminal'' \<and>
     r_CancelRequestID locked = Some (cak_CancellationID request) \<and> cx_ID x = cak_CancellationID request \<and>
     cx_RunID x = r_ID locked \<and> cx_TargetAttemptID x = Some (a_ID a) \<and>
     runtimeIdentityMatchesAttempt (RuntimeIdentity (cak_AttemptIdentity request)) a \<and> runtimePrincipalMatchesAttempt p a"

text \<open>The summary on the run follows the cancellation, and is checked.\<close>

definition mirror_tx :: "CancellationRow \<Rightarrow> unit lease_tx" where
  "mirror_tx x =
     tx_bind (stale_one (MirrorRuntimeRunCancellationState (cx_RunID x) (cx_ID x))) (\<lambda>mirrored.
     stale_guard (r_CancelState mirrored = Some (cx_State x)))"

text \<open>Readings: 0 credential lock, 1 run lock, 2 advance, 3 to 7 the end of the attempt.\<close>

definition ack_advance ::
    "RuntimeCancellationCoordinator \<Rightarrow> (nat \<Rightarrow> gotime) \<Rightarrow> RunCancelAckPayload \<Rightarrow> CancellationRow \<Rightarrow> AttemptRow \<Rightarrow> CancellationRow lease_tx" where
  "ack_advance c clk request x attempt =
     (let errorCode = (if cak_ErrorCode request \<noteq> [] then Some (cak_ErrorCode request) else None) in
      tx_bind (row_or (LeaseError RuntimeLeaseErrorStaleLease (Some ErrNoRows))
         (AdvanceRuntimeRunCancellation (cak_CancelState request) errorCode (cx_RunID x) (cx_ID x) (cx_State x) (clk 2))) (\<lambda>advanced.
      tx_bind (if cak_CancelState request = RuntimeCancelStopped
         then finishRuntimeCancellationAttempt attempt errorCode (cn_commandDeadline c) (\<lambda>n. clk (3 + n))
         else tx_return ()) (\<lambda>_.
      tx_bind (mirror_tx advanced) (\<lambda>_. tx_return advanced))))"

definition ack_cancel_tx ::
    "RuntimeCancellationCoordinator \<Rightarrow> (nat \<Rightarrow> gotime) \<Rightarrow> RuntimeSessionPrincipal \<Rightarrow> RunCancelAckPayload \<Rightarrow> RunCancellationState lease_tx" where
  "ack_cancel_tx c clk p request =
     (let runID = ai_RunID (cak_AttemptIdentity request) in
      tx_bind (lock_principal p (clk 0)) (\<lambda>lockedPrincipal.
      tx_bind (stale_one (LockRunForResultFinalization runID)) (\<lambda>lockedRun.
      tx_bind (tx_guard (validAt lockedPrincipal (clk 1)) (LeaseError RuntimeLeaseErrorIdentityMismatch None)) (\<lambda>_.
      tx_bind (stale_one (LockRunAttemptForResult runID (ai_AttemptID (cak_AttemptIdentity request)))) (\<lambda>attempt.
      tx_bind (stale_one (LockRunCancellationForMutation runID (cak_CancellationID request))) (\<lambda>x.
      tx_bind (stale_guard (runtimeCancellationAckIdentityMatches lockedRun (EventPrincipal p) request x attempt)) (\<lambda>_.
      if cx_State x = cak_CancelState request \<or> cx_State x = RuntimeCancelUnconfirmed
      then tx_return (runtimeCancellationStateFromDB x)
      else
        tx_bind (stale_guard (cx_State x \<noteq> RuntimeCancelStopped)) (\<lambda>_.
        if runtimeCancellationAckAlreadyCovered (cx_State x) (cak_CancelState request)
        then tx_return (runtimeCancellationStateFromDB x)
        else
          tx_bind (stale_guard (runtimeCancellationTransitionAllowed (cx_State x) (cak_CancelState request))) (\<lambda>_.
          tx_bind (ack_advance c clk request x attempt) (\<lambda>advanced.
          tx_return (runtimeCancellationStateFromDB advanced)))))))))))"

definition AckCancel ::
    "payload_decoders \<Rightarrow> RuntimeCancellationCoordinator \<Rightarrow> (nat \<Rightarrow> gotime) \<Rightarrow> RuntimeSessionPrincipal \<Rightarrow> RunCancelAckPayload
       \<Rightarrow> runtime_db \<Rightarrow> (go_error + RunCancellationState) \<times> runtime_db" where
  "AckCancel decs c clk p request d =
     (if \<not> cn_repository c then (Inl errRuntimeCancellationNotReady, d)
      else
        (let invalid = ValidateRuntimePayload decs (PRunCancelAck request) in
         if invalid \<noteq> None \<or> \<not> validRuntimeCancellationAck request
         then (Inl (LeaseError RuntimeLeaseErrorValidationFailed invalid), d)
         else case validatePrincipalAttemptIdentity p (cak_AttemptIdentity request) of
           Some err \<Rightarrow> (Inl err, d)
         | None \<Rightarrow> WithTransaction (ack_cancel_tx c clk p request) d))"

text \<open>Every failure of a statement is reported as a stale lease.\<close>

definition wrap_stale :: "'a lease_tx \<Rightarrow> 'a lease_tx" where
  "wrap_stale m = (\<lambda>d. map_sum (\<lambda>err. LeaseError RuntimeLeaseErrorStaleLease (Some err)) id (m d))"

text \<open>The end of a Core attempt and the summary; \<open>finish\<close> is the finish statement. Readings: 0 finish.\<close>

definition core_stop_tx ::
    "(uuid \<Rightarrow> uuid \<Rightarrow> uuid \<Rightarrow> int \<Rightarrow> gotime \<Rightarrow> (runtime_db, AttemptRow) query) \<Rightarrow> AttemptRow \<Rightarrow> CancellationRow \<Rightarrow> gotime \<Rightarrow> unit lease_tx" where
  "core_stop_tx finish a x now =
     tx_bind (stale_one (finish (a_RunID a) (a_ID a) (a_LeaseID a) (a_FencingToken a) now)) (\<lambda>finished.
     tx_bind (stale_guard (a_FinishedAt finished \<noteq> None \<and> a_Outcome finished = Some ''canceled'')) (\<lambda>_.
     mirror_tx x))"

text \<open>Readings: 0 advance, 1 finish.\<close>

definition core_stopped_tx :: "(nat \<Rightarrow> gotime) \<Rightarrow> uuid \<Rightarrow> RuntimeAttemptIdentity \<Rightarrow> RunCancellationState lease_tx" where
  "core_stopped_tx clk coreInstanceID i =
     tx_bind (stale_one (LockRunForResultFinalization (ra_RunID i))) (\<lambda>locked.
     tx_bind (stale_guard (r_Status locked = ''canceled'' \<and> r_DispatchState locked = ''terminal'' \<and>
         r_CancelRequestID locked \<noteq> None \<and> r_LatestAttemptID locked = Some (ra_AttemptID i) \<and>
         r_AgentID locked = ra_AgentID i)) (\<lambda>_.
     tx_bind (stale_one (LockRunAttemptForResult (ra_RunID i) (ra_AttemptID i))) (\<lambda>a.
     tx_bind (stale_guard (a_RunID a = ra_RunID i \<and> a_AgentID a = ra_AgentID i \<and> a_LeaseID a = ra_LeaseID i \<and>
         a_FencingToken a = ra_FencingToken i \<and> a_AttachedCoreInstanceID a = coreInstanceID \<and> is_core_executor a)) (\<lambda>_.
     tx_bind (stale_one (LockRunCancellationForMutation (ra_RunID i) (the (r_CancelRequestID locked)))) (\<lambda>x.
     tx_bind (stale_guard (cx_TargetAttemptID x = Some (a_ID a))) (\<lambda>_.
     if cx_State x = RuntimeCancelStopped
     then tx_bind (stale_guard (a_FinishedAt a \<noteq> None \<and> a_Outcome a = Some ''canceled'')) (\<lambda>_.
          tx_return (runtimeCancellationStateFromDB x))
     else
       tx_bind (stale_guard (open_state (cx_State x))) (\<lambda>_.
       tx_bind (wrap_stale (row_or ErrNoRows (AdvanceRuntimeRunCancellation RuntimeCancelStopped None (cx_RunID x) (cx_ID x)
          (cx_State x) (clk 0)))) (\<lambda>advanced.
       tx_bind (core_stop_tx FinishRuntimeCoreCanceledAttempt a advanced (clk 1)) (\<lambda>_.
       tx_return (runtimeCancellationStateFromDB advanced))))))))))"

definition AcknowledgeCoreStopped ::
    "RuntimeCancellationCoordinator \<Rightarrow> (nat \<Rightarrow> gotime) \<Rightarrow> uuid \<Rightarrow> RuntimeAttemptIdentity \<Rightarrow> runtime_db
       \<Rightarrow> (go_error + RunCancellationState) \<times> runtime_db" where
  "AcknowledgeCoreStopped c clk coreInstanceID i d =
     (if \<not> cn_repository c then (Inl errRuntimeCancellationNotReady, d)
      else if coreInstanceID = uuid_Nil then (Inl (LeaseError RuntimeLeaseErrorValidationFailed None), d)
      else
        (let invalid = validateRuntimeAttemptIdentity i in
         if invalid \<noteq> None \<or> ra_NodeID i \<noteq> None \<or> ra_RuntimeSessionID i \<noteq> None \<or> ra_WorkerID i \<noteq> None
         then (Inl (LeaseError RuntimeLeaseErrorValidationFailed invalid), d)
         else WithTransaction (core_stopped_tx clk coreInstanceID i) d))"

section \<open>Reaping\<close>

definition runtimeCancellationReapTargetMatches ::
    "CancellationCandidate \<Rightarrow> CancellationRow \<Rightarrow> AttemptRow \<Rightarrow> gotime \<Rightarrow> bool" where
  "runtimeCancellationReapTargetMatches candidate x a deadline \<longleftrightarrow>
     \<not> (IsZero (cd_DatabaseNow candidate) \<or> \<not> deadline_configured deadline \<or> IsZero (cx_RequestedAt x) \<or>
        cd_DatabaseNow candidate < cx_RequestedAt x + deadline) \<and>
     (open_state (cx_State x) \<or> cx_State x = RuntimeCancelUnsupported \<or> cx_State x = RuntimeCancelFailed) \<and>
     cx_ID x = cd_CancellationID candidate \<and> cx_RunID x = cd_RunID candidate \<and>
     cx_TargetAttemptID x = Some (cd_TargetAttemptID candidate) \<and> a_ID a = cd_TargetAttemptID candidate \<and>
     a_RunID a = cd_RunID candidate \<and> a_AgentID a = cd_AgentID candidate \<and> a_ExecutorType a = ''runtime'' \<and>
     attempt_unresolved a \<and> a_SlotAcquiredAt a \<noteq> None \<and> a_SlotReleasedAt a = None \<and>
     a_ActiveRuntimeSessionID a \<noteq> None \<and> a_NodeID a \<noteq> None"

text \<open>
  Readings of the transaction for Core attempts: 0 search, 1 run lock, 2 advance, 3 finish; of the one
  for runtime attempts: 0 search, 1 run lock, 2 advance, 3 to 7 the end of the attempt.
\<close>

definition reap_core_locked ::
    "(nat \<Rightarrow> gotime) \<Rightarrow> CancellationCandidate \<Rightarrow> CancellationCandidate \<Rightarrow> RunCancellationState lease_tx" where
  "reap_core_locked clk candidate locked =
     tx_bind (tx_one ErrNoRows (LockRunAttemptForResult (cd_RunID locked) (cd_TargetAttemptID locked))) (\<lambda>a.
     tx_bind (tx_one ErrNoRows (LockRunCancellationForMutation (cd_RunID locked) (cd_CancellationID locked))) (\<lambda>x.
     tx_bind (stale_guard (a_ID a = cd_TargetAttemptID candidate \<and> a_RunID a = cd_RunID candidate \<and>
         a_AgentID a = cd_AgentID candidate \<and> is_core_executor a \<and> attempt_unresolved a \<and>
         cx_TargetAttemptID x = Some (a_ID a))) (\<lambda>_.
     tx_bind (row_or ErrNoRows (AdvanceRuntimeRunCancellation RuntimeCancelUnconfirmed
        (Some runtimeCancellationUnconfirmedCode) (cx_RunID x) (cx_ID x) (cx_State x) (clk 2))) (\<lambda>advanced.
     tx_bind (core_stop_tx FinishRuntimeCoreUnconfirmedAttempt a advanced (clk 3)) (\<lambda>_.
     tx_return (runtimeCancellationStateFromDB advanced))))))"

definition reap_core_tx :: "RuntimeCancellationCoordinator \<Rightarrow> (nat \<Rightarrow> gotime) \<Rightarrow> RunCancellationState option lease_tx" where
  "reap_core_tx c clk =
     (let ms = Milliseconds (cn_commandDeadline c) in
      tx_bind (tx_opt (FindNextDueRuntimeCoreCancellation ms (clk 0))) (\<lambda>found.
      case found of
        None \<Rightarrow> tx_return None
      | Some candidate \<Rightarrow>
          tx_bind (tx_opt (LockDueRuntimeCoreCancellationRun (cd_RunID candidate) (cd_CancellationID candidate)
             (cd_TargetAttemptID candidate) ms (clk 1))) (\<lambda>lock.
          case lock of
            None \<Rightarrow> tx_return None
          | Some locked \<Rightarrow> tx_bind (reap_core_locked clk candidate locked) (\<lambda>state. tx_return (Some state)))))"

definition reap_advance :: "CancellationRow \<Rightarrow> gotime \<Rightarrow> CancellationRow lease_tx" where
  "reap_advance x now =
     (if open_state (cx_State x)
      then row_or (LeaseError RuntimeLeaseErrorStaleLease (Some ErrNoRows))
             (AdvanceRuntimeRunCancellation RuntimeCancelUnconfirmed (Some runtimeCancellationUnconfirmedCode)
                (cx_RunID x) (cx_ID x) (cx_State x) now)
      else if cx_State x = RuntimeCancelFailed \<or> cx_State x = RuntimeCancelUnsupported then tx_return x
      else tx_fail (LeaseError RuntimeLeaseErrorStaleLease None))"

definition reap_runtime_locked ::
    "RuntimeCancellationCoordinator \<Rightarrow> (nat \<Rightarrow> gotime) \<Rightarrow> CancellationCandidate \<Rightarrow> RunCancellationState lease_tx" where
  "reap_runtime_locked c clk locked =
     tx_bind (stale_one (LockRunAttemptForResult (cd_RunID locked) (cd_TargetAttemptID locked))) (\<lambda>a.
     tx_bind (stale_one (LockRunCancellationForMutation (cd_RunID locked) (cd_CancellationID locked))) (\<lambda>x.
     tx_bind (stale_guard (runtimeCancellationReapTargetMatches locked x a (cn_commandDeadline c))) (\<lambda>_.
     tx_bind (reap_advance x (clk 2)) (\<lambda>reaped.
     tx_bind (finishRuntimeCancellationAttempt a (Some runtimeCancellationUnconfirmedCode) (cn_commandDeadline c)
        (\<lambda>n. clk (3 + n))) (\<lambda>_.
     tx_bind (mirror_tx reaped) (\<lambda>_.
     tx_return (runtimeCancellationStateFromDB reaped)))))))"

definition reap_runtime_tx :: "RuntimeCancellationCoordinator \<Rightarrow> (nat \<Rightarrow> gotime) \<Rightarrow> RunCancellationState option lease_tx" where
  "reap_runtime_tx c clk =
     (let ms = Milliseconds (cn_commandDeadline c) in
      tx_bind (tx_opt (FindNextDueRuntimeCancellation ms (clk 0))) (\<lambda>found.
      case found of
        None \<Rightarrow> tx_return None
      | Some candidate \<Rightarrow>
          tx_bind (tx_one ErrNoRows (LockRuntimeSessionForCancellationReap (cd_RuntimeSessionID candidate))) (\<lambda>sessionID.
          tx_bind (stale_guard (sessionID = cd_RuntimeSessionID candidate)) (\<lambda>_.
          tx_bind (tx_one ErrNoRows (LockRuntimeNodeForCancellationReap (cd_NodeID candidate))) (\<lambda>nodeID.
          tx_bind (stale_guard (nodeID = cd_NodeID candidate)) (\<lambda>_.
          tx_bind (tx_opt (LockDueRuntimeCancellationRun (cd_RunID candidate) (cd_CancellationID candidate)
             (cd_TargetAttemptID candidate) (cd_RuntimeSessionID candidate) (cd_NodeID candidate) ms (clk 1))) (\<lambda>lock.
          case lock of
            None \<Rightarrow> tx_return None
          | Some locked \<Rightarrow> tx_bind (reap_runtime_locked c clk locked) (\<lambda>state. tx_return (Some state)))))))))"

definition reapExpiredCoreCancellation ::
    "RuntimeCancellationCoordinator \<Rightarrow> (nat \<Rightarrow> gotime) \<Rightarrow> runtime_db \<Rightarrow> (go_error + RunCancellationState option) \<times> runtime_db" where
  "reapExpiredCoreCancellation c clk d = WithTransaction (reap_core_tx c clk) d"

definition ReapExpiredCancellation ::
    "RuntimeCancellationCoordinator \<Rightarrow> (nat \<Rightarrow> gotime) \<times> (nat \<Rightarrow> gotime) \<Rightarrow> runtime_db
       \<Rightarrow> (go_error + RunCancellationState option) \<times> runtime_db" where
  "ReapExpiredCancellation c clks d =
     (if \<not> command_ready c then (Inl errRuntimeCancellationNotReady, d)
      else case reapExpiredCoreCancellation c (fst clks) d of
        (Inr None, d') \<Rightarrow> WithTransaction (reap_runtime_tx c (snd clks)) d'
      | (outcome, d') \<Rightarrow> (outcome, d'))"

fun reap_loop ::
    "RuntimeCancellationCoordinator \<Rightarrow> (nat \<Rightarrow> (nat \<Rightarrow> gotime) \<times> (nat \<Rightarrow> gotime)) \<Rightarrow> nat \<Rightarrow> int \<Rightarrow> runtime_db
       \<Rightarrow> (int \<times> go_error option) \<times> runtime_db" where
  "reap_loop c turns 0 reaped d = ((reaped, None), d)"
| "reap_loop c turns (Suc left) reaped d =
     (case ReapExpiredCancellation c (turns 0) d of
        (Inl err, d') \<Rightarrow> ((reaped, Some err), d')
      | (Inr None, d') \<Rightarrow> ((reaped, None), d')
      | (Inr (Some _), d') \<Rightarrow> reap_loop c (\<lambda>n. turns (Suc n)) left (reaped + 1) d')"

definition ReapExpiredCancellations ::
    "RuntimeCancellationCoordinator \<Rightarrow> (nat \<Rightarrow> (nat \<Rightarrow> gotime) \<times> (nat \<Rightarrow> gotime)) \<Rightarrow> int \<Rightarrow> runtime_db
       \<Rightarrow> (int \<times> go_error option) \<times> runtime_db" where
  "ReapExpiredCancellations c turns limit d =
     (if limit < 1 \<or> limit > maxRuntimeCancellationReapBatch then ((0, Some ErrRuntimeCancellationInvalid), d)
      else reap_loop c turns (nat limit) 0 d)"

end
