(* ===== verification/Cancellation_Steps.thy ===== *)
theory Cancellation_Steps
  imports Reconciler_Steps Run_Cancellation
begin

text \<open>
  Every committed transaction of the cancellation coordinator is one of two moves: a running run is
  canceled (\<open>cancel_created\<close>), or the cancellation of a canceled run advances, with or without the end
  of the attempt it aims at (\<open>cancel_moved\<close>). Both are steps of the abstract specification.
\<close>

section \<open>Cancellation rows\<close>

definition same_cancellation :: "CancellationRow \<Rightarrow> CancellationRow \<Rightarrow> bool" where
  "same_cancellation x x' \<longleftrightarrow> cx_ID x' = cx_ID x \<and> cx_RunID x' = cx_RunID x \<and>
     cx_TargetAttemptID x' = cx_TargetAttemptID x \<and> cx_RequestedByType x' = cx_RequestedByType x \<and>
     cx_RequestedByID x' = cx_RequestedByID x \<and> cx_Reason x' = cx_Reason x \<and> cx_RequestedAt x' = cx_RequestedAt x"

text \<open>A cancellation keeps its identity, and only an open one changes.\<close>

definition advances :: "CancellationRow \<Rightarrow> CancellationRow \<Rightarrow> bool" where
  "advances x x' \<longleftrightarrow> same_cancellation x x' \<and>
     (x' = x \<or> open_state (cx_State x) \<and> cancellation_transition (cx_State x) (cx_State x') \<and> cancellation_evidence x')"

lemma advances_refl [simp]: "advances x x"
  by (simp add: advances_def same_cancellation_def)

lemma advanced_same: "same_cancellation x (advanced_cancellation state code now x)"
  by (simp add: same_cancellation_def advanced_cancellation_def Let_def)

lemma Advance_InrE:
  assumes "AdvanceRuntimeRunCancellation target code runID cancellationID expected now d = Inr (Some x', d')" "open_state expected"
  obtains x where "find_cancellation runID d = Some x" "cx_ID x = cancellationID" "cx_State x = expected" "advances x x'"
    "cx_State x' = target" "d' = set_cancellation runID x' d"
  using assms advanced_same
  by (auto simp: AdvanceRuntimeRunCancellation_def Let_def advances_def split: option.split_asm if_split_asm)
     (auto simp: advanced_cancellation_def Let_def)

lemma row_or_Inr [tx_simps]: "row_or err m d = Inr r \<longleftrightarrow> (\<exists>x. m d = Inr (Some x, snd r) \<and> fst r = x)"
  by (cases "m d"; cases r) (auto simp: row_or_def tx_simps tx_bind_Inr split: option.splits)

lemma stale_Inr [tx_simps]: "stale_one q d = Inr r \<longleftrightarrow> q d = Some r" "stale_guard b d = Inr s \<longleftrightarrow> b \<and> s = ((), d)"
  by (auto simp: stale_one_def stale_guard_def tx_simps)

lemma wrap_stale_Inr [tx_simps]: "wrap_stale m d = Inr r \<longleftrightarrow> m d = Inr r"
  by (cases "m d") (auto simp: wrap_stale_def)

lemma lock_principal_keeps: "lock_principal p now d = Inr (x, d') \<Longrightarrow> d' = d"
  by (cases "lockRuntimePrincipal (EventPrincipal p) now d") (auto simp: lock_principal_def dest: lockRuntimePrincipal_keeps)

lemma lock_cancellation_Some:
  "LockRunCancellationForMutation runID cancellationID d = Some (x, d') \<longleftrightarrow>
     find_cancellation runID d = Some x \<and> cx_ID x = cancellationID \<and> d' = d"
  by (auto simp: LockRunCancellationForMutation_def split: option.split_asm if_split_asm)

lemma lock_attempt_Some:
  "LockRunAttemptForResult runID attemptID d = Some (a, d') \<longleftrightarrow> find_attempt attemptID d = Some a \<and> a_RunID a = runID \<and> d' = d"
  by (auto simp: LockRunAttemptForResult_def split: option.split_asm if_split_asm)

lemma lock_run_Some:
  "LockRunForResultFinalization runID d = Some (r, d') \<longleftrightarrow>
     find_run runID d = Some r \<and> r_RuntimeContractID r = RuntimeContractID \<and> d' = d"
  by (auto simp: LockRunForResultFinalization_def split: option.split_asm if_split_asm)

lemmas lock_simps = lock_cancellation_Some lock_attempt_Some lock_run_Some

lemma cancellation_run: "find_cancellation runID d = Some x \<Longrightarrow> cx_RunID x = runID"
  by (auto simp: find_cancellation_def dest: find_row_key)

section \<open>Moves\<close>

definition replaces_cancellation :: "uuid \<Rightarrow> CancellationRow \<Rightarrow> runtime_db \<Rightarrow> runtime_db \<Rightarrow> bool" where
  "replaces_cancellation runID x' d d' \<longleftrightarrow>
     (\<forall>j. find_cancellation j d' = (if j = runID then Some x' else find_cancellation j d))"

lemma replaces_cong: "db_cancellations d2 = db_cancellations d1 \<Longrightarrow> replaces_cancellation runID x d d1 \<Longrightarrow> replaces_cancellation runID x d d2"
  by (simp add: replaces_cancellation_def find_cancellation_def)

lemma set_cancellation_replaces:
  "find_cancellation runID d = Some x \<Longrightarrow> cx_RunID x' = runID \<Longrightarrow> replaces_cancellation runID x' d (set_cancellation runID x' d)"
  by (simp add: replaces_cancellation_def find_cancellation_def set_cancellation_def find_row_replace)

lemma replaces_refl: "find_cancellation runID d = Some x \<Longrightarrow> replaces_cancellation runID x d d"
  by (simp add: replaces_cancellation_def)

definition mirrored :: "RunRow \<Rightarrow> CancellationRow \<Rightarrow> RunRow" where
  "mirrored r x = r\<lparr>r_CancelState := Some (cx_State x), r_CancelAcknowledgedAt := cx_AcknowledgedAt x, r_CancelReason := cx_Reason x\<rparr>"

definition stops_attempt :: "AttemptRow \<Rightarrow> runtime_db \<Rightarrow> runtime_db \<Rightarrow> bool" where
  "stops_attempt a d d' \<longleftrightarrow>
     find_attempt (a_ID a) d = Some a \<and> a_FinishedAt a = None \<and> gives_back_slot a d d' \<and>
     (\<exists>a'. closes_attempt a a' \<and> a_Outcome a' = Some ''canceled'' \<and>
        db_attempts d' = update_row a_ID (a_ID a) (\<lambda>_. a') (db_attempts d))"

definition cancel_moved ::
    "uuid \<Rightarrow> CancellationRow \<Rightarrow> CancellationRow \<Rightarrow> AttemptRow option \<Rightarrow> runtime_db \<Rightarrow> runtime_db \<Rightarrow> bool" where
  "cancel_moved runID x x' stopped d d' \<longleftrightarrow>
     (\<exists>r. find_run runID d = Some r \<and> r_Status r = ''canceled'' \<and> r_DispatchState r = ''terminal'' \<and>
        r_CancelRequestID r = Some (cx_ID x) \<and> db_runs d' = update_row r_ID runID (\<lambda>_. mirrored r x') (db_runs d)) \<and>
     find_cancellation runID d = Some x \<and> advances x x' \<and> replaces_cancellation runID x' d d' \<and> db_events d' = db_events d \<and>
     (case stopped of
        None \<Rightarrow> db_attempts d' = db_attempts d \<and> db_sessions d' = db_sessions d \<and> db_nodes d' = db_nodes d
      | Some a \<Rightarrow> a_RunID a = runID \<and> cx_TargetAttemptID x = Some (a_ID a) \<and> \<not> open_state (cx_State x') \<and> stops_attempt a d d')"

lemma mirrored_noted: "cancel_noted r (mirrored r x)"
  by (simp add: cancel_noted_def mirrored_def)

lemma cancel_moved_steps:
  assumes inv: "lease_inv d" and m: "cancel_moved runID x x' stopped d d'"
  shows "run_step\<^sup>*\<^sup>* d d'"
proof -
  from m obtain r where r: "find_run runID d = Some r" "r_Status r = ''canceled''" "r_DispatchState r = ''terminal''"
      "db_runs d' = update_row r_ID runID (\<lambda>_. mirrored r x') (db_runs d)" and ev: "db_events d' = db_events d"
    by (auto simp: cancel_moved_def)
  show ?thesis
  proof (cases stopped)
    case None
    with m r have "run_step d d'"
      by (intro run_step.Note[OF r(1) _ mirrored_noted[of r x']]) (simp_all add: cancel_moved_def)
    then show ?thesis by blast
  next
    case (Some a)
    let ?d = "d'\<lparr>db_runs := db_runs d\<rparr>"
    from m Some obtain a' where a: "find_attempt (a_ID a) d = Some a" "a_RunID a = runID" "a_FinishedAt a = None"
        "gives_back_slot a d d'" "closes_attempt a a'" "db_attempts d' = update_row a_ID (a_ID a) (\<lambda>_. a') (db_attempts d)"
      by (auto simp: cancel_moved_def stops_attempt_def)
    have idle: "r_ActiveAttemptID r = None"
    proof (rule ccontr)
      assume "r_ActiveAttemptID r \<noteq> None"
      then obtain k where "r_ActiveAttemptID r = Some k" by auto
      with inv find_row_SomeD[OF r(1)] obtain b where "mirror_of r b" by (force simp: lease_inv_def active_ok_def)
      with r(3) show False by (simp add: mirror_of_def split: if_split_asm)
    qed
    have slot: "gives_back_slot a d ?d" by (rule gives_back_slot_cong[OF _ _ _ _ a(4)]) simp_all
    have "run_step d ?d"
      by (rule run_step.Stop[OF r(1) a(1,2,3) _ idle a(5) slot]) (use r a ev in simp_all)
    moreover have "run_step ?d d'"
      by (rule run_step.Note[of runID ?d r "mirrored r x'"]) (use r mirrored_noted ev in simp_all)
    ultimately show ?thesis by (meson r_into_rtranclp rtranclp.rtrancl_into_rtrancl)
  qed
qed

text \<open>After the advance, the summary is mirrored; between the two, the attempt may be stopped.\<close>

lemma mirror_Some:
  "MirrorRuntimeRunCancellationState runID cancellationID d = Some (r', d') \<longleftrightarrow>
     (\<exists>r x. find_run runID d = Some r \<and> find_cancellation runID d = Some x \<and> r_RuntimeContractID r = RuntimeContractID \<and>
        r_Status r = ''canceled'' \<and> r_DispatchState r = ''terminal'' \<and> r_CancelRequestID r = Some cancellationID \<and>
        cx_ID x = cancellationID \<and> r' = mirrored r x \<and> d' = set_run runID r' d)"
  by (auto simp: MirrorRuntimeRunCancellationState_def mirrored_def Let_def split: option.splits if_splits)

lemma mirror_moved:
  assumes x: "find_cancellation runID d = Some x" "advances x x'" and rep: "replaces_cancellation runID x' d d2"
    and mid: "db_runs d2 = db_runs d" "db_events d2 = db_events d"
    and mirror: "MirrorRuntimeRunCancellationState runID (cx_ID x) d2 = Some (r', d')"
    and stop: "case stopped of None \<Rightarrow> db_attempts d2 = db_attempts d \<and> db_sessions d2 = db_sessions d \<and> db_nodes d2 = db_nodes d
      | Some a \<Rightarrow> a_RunID a = runID \<and> cx_TargetAttemptID x = Some (a_ID a) \<and> \<not> open_state (cx_State x') \<and> stops_attempt a d d2"
  shows "cancel_moved runID x x' stopped d d'"
proof -
  have "find_cancellation runID d2 = Some x'" using rep by (simp add: replaces_cancellation_def)
  with mirror obtain r where r: "find_run runID d = Some r" "r_Status r = ''canceled''" "r_DispatchState r = ''terminal''"
      "r_CancelRequestID r = Some (cx_ID x)" "d' = set_run runID (mirrored r x') d2"
    by (auto simp: mirror_Some mid)
  have "replaces_cancellation runID x' d d'" by (rule replaces_cong[OF _ rep]) (simp add: r(5))
  moreover have "stops_attempt a d d'" if "stops_attempt a d d2" for a
    using that r(5) by (auto simp: stops_attempt_def intro: gives_back_slot_cong[rotated 4])
  ultimately show ?thesis using stop x r mid by (auto simp: cancel_moved_def split: option.split_asm)
qed

section \<open>Transactions\<close>

lemma release_keeps_cancellations:
  "releaseRuntimeAttemptCapacity a clk d = Inr (u, d') \<Longrightarrow> db_cancellations d' = db_cancellations d"
  by (auto simp: releaseRuntimeAttemptCapacity_def tx_simps MarkRunAttemptCapacityReleased_def ReleaseRuntimeSessionSlot_def
      ReleaseRuntimeNodeSlot_def createRuntimeNodeCapacityAvailableSignal_def CreateRuntimeSignal_def Let_def
      split: if_split_asm option.split_asm)

lemma finishes_canceled: "finishes a (canceled_attempt code now a)"
  by (simp add: finishes_def canceled_attempt_def same_identity_def stored_identity_def)

lemma canceled_target_Some:
  "canceled_target a d = Some (r, x) \<Longrightarrow> find_cancellation (a_RunID a) d = Some x \<and> cx_TargetAttemptID x = Some (a_ID a)"
  by (auto simp: canceled_target_def split: option.split_asm if_split_asm)

lemma finish_cancellation_stops:
  assumes tx: "finishRuntimeCancellationAttempt a code deadline clk d = Inr (u, d')"
    and a: "find_attempt (a_ID a) d = Some a" "slot_shape a"
  obtains x where "stops_attempt a d d'" "db_runs d' = db_runs d" "db_events d' = db_events d"
    "db_cancellations d' = db_cancellations d" "find_cancellation (a_RunID a) d = Some x"
    "cx_TargetAttemptID x = Some (a_ID a)" "\<not> open_state (cx_State x)" "a_FinishedAt a = None"
proof -
  let ?a = "canceled_attempt code (clk 0) a"
  from tx obtain a1 d1 where fin: "FinishRuntimeCanceledAttempt code (a_RunID a) (a_ID a) (a_LeaseID a) (a_FencingToken a)
        (Milliseconds deadline) (clk 0) d = Some (a1, d1)" and slot: "a_SlotAcquiredAt a1 \<noteq> None" "a_ActiveRuntimeSessionID a1 \<noteq> None" "a_NodeID a1 \<noteq> None"
    and rest: "tx_bind (stale_one (MarkRunAttemptCapacityReleased (a_RunID a) (a_ID a) (a_LeaseID a) (a_FencingToken a) (clk 1))) (\<lambda>capacity.
     tx_bind (tx_guard (Some (cap_RuntimeSessionID capacity) = a_ActiveRuntimeSessionID a1 \<and>
         Some (cap_NodeID capacity) = a_NodeID a1 \<and> \<not> IsZero (cap_SlotAcquiredAt capacity) \<and>
         \<not> IsZero (cap_SlotReleasedAt capacity) \<and> \<not> cap_SlotReleasedAt capacity < cap_SlotAcquiredAt capacity)
        (OtherError ''canceled Attempt capacity owner changed'' None)) (\<lambda>_.
     tx_bind (tx_one ErrNoRows (ReleaseRuntimeSessionSlot (cap_RuntimeSessionID capacity) (clk 2))) (\<lambda>_.
     tx_bind (tx_one ErrNoRows (ReleaseRuntimeNodeSlot (cap_NodeID capacity) (clk 3))) (\<lambda>_.
     createRuntimeNodeCapacityAvailableSignal (a_AgentID a) (cap_NodeID capacity) (a_RunID a) (clk 4))))) d1 = Inr (u, d')"
    unfolding finishRuntimeCancellationAttempt_def by (simp only: tx_simps) auto
  from fin a(1) obtain r x where f: "a1 = ?a" "d1 = set_attempt (a_ID a) ?a d" "a_ExecutorType a = ''runtime''" "a_FinishedAt a = None"
      "canceled_target a d = Some (r, x)" "\<not> open_state (cx_State x)"
    by (auto simp: FinishRuntimeCanceledAttempt_def attempt_unresolved_def open_state_def split: if_split_asm option.split_asm)
  have rel: "releaseRuntimeAttemptCapacity a (\<lambda>n. clk (1 + n)) d1 = Inr (u, d')"
    using rest f(3) slot unfolding releaseRuntimeAttemptCapacity_def f(1)
    by (auto simp: tx_simps canceled_attempt_def numeral_eq_Suc)
  note rl = release_statements[OF rel f(2) a(1) finishes_canceled a(2) f(4)]
  have "closes_attempt a (closed_attempt ?a (clk (1 + 0)))" by (rule closes_finished[OF a(2) f(4) finishes_canceled])
  then have "stops_attempt a d d'"
    using rl a f(4) by (auto simp: stops_attempt_def closed_attempt_def canceled_attempt_def)
  with rl canceled_target_Some[OF f(5)] f(2,4,6) release_keeps_cancellations[OF rel] show ?thesis by (intro that) simp_all
qed

lemma core_finish_stops:
  assumes fin: "finish_core_attempt settled code runID attemptID leaseID fence now d = Some (a', d')"
    and a: "find_attempt attemptID d = Some a" "slot_shape a" and settled: "\<And>x. settled x \<Longrightarrow> \<not> open_state (cx_State x)"
  obtains x where "stops_attempt a d d'" "db_runs d' = db_runs d" "db_events d' = db_events d"
    "db_cancellations d' = db_cancellations d" "find_cancellation (a_RunID a) d = Some x"
    "cx_TargetAttemptID x = Some (a_ID a)" "\<not> open_state (cx_State x)" "a_FinishedAt a = None"
proof -
  have key: "a_ID a = attemptID" using a(1) by (rule find_row_key)
  from fin a(1) settled obtain r x where f: "a' = canceled_attempt (Some code) now a" "d' = set_attempt attemptID a' d"
      "is_core_executor a" "a_FinishedAt a = None" "canceled_target a d = Some (r, x)" "\<not> open_state (cx_State x)"
    by (auto simp: finish_core_attempt_def attempt_unresolved_def split: if_split_asm option.split_asm)
  have core: "a_ExecutorType a \<noteq> ''runtime''" using f(3) by (auto simp: is_core_executor_def)
  have "closes_attempt a a'"
    using closes_finished[OF a(2) f(4) finishes_canceled, of "Some code" now now] core by (simp add: f(1) closed_attempt_def canceled_attempt_def)
  then have "stops_attempt a d d'"
    using a f(2,4) core key by (auto simp: stops_attempt_def gives_back_slot_def f(1) canceled_attempt_def)
  with canceled_target_Some[OF f(5)] f show ?thesis by (intro that) simp_all
qed

lemma mirror_tx_Inr [tx_simps]:
  "mirror_tx x d = Inr (u, d') \<longleftrightarrow>
     (\<exists>r'. MirrorRuntimeRunCancellationState (cx_RunID x) (cx_ID x) d = Some (r', d') \<and> r_CancelState r' = Some (cx_State x))"
  by (auto simp: mirror_tx_def tx_simps)

lemma deliver_moved:
  assumes "deliver_tx x now d = Inr (x', d')" "find_cancellation runID d = Some x"
  shows "d' = d \<or> cancel_moved runID x x' None d d'"
proof (cases "open_state (cx_State x)")
  case True
  have run: "cx_RunID x = runID" by (rule cancellation_run[OF assms(2)])
  from assms(1) True obtain target d1 r' where adv: "AdvanceRuntimeRunCancellation target (cx_ErrorCode x) runID (cx_ID x) (cx_State x) now d = Inr (Some x', d1)"
    and mir: "MirrorRuntimeRunCancellationState (cx_RunID x') (cx_ID x') d1 = Some (r', d')"
    by (auto simp: deliver_tx_def tx_simps run)
  from adv True obtain y where "find_cancellation runID d = Some y" "advances y x'" "d1 = set_cancellation runID x' d" by (rule Advance_InrE)
  with assms(2) have y: "advances x x'" "d1 = set_cancellation runID x' d" by simp_all
  then have id: "cx_RunID x' = runID" "cx_ID x' = cx_ID x" using run by (auto simp: advances_def same_cancellation_def)
  have "cancel_moved runID x x' None d d'"
    by (rule mirror_moved[OF assms(2) y(1) _ _ _ mir[unfolded id]])
       (use y set_cancellation_replaces[OF assms(2) id(1)] in \<open>simp_all add: set_cancellation_def\<close>)
  then show ?thesis ..
next
  case False
  with assms show ?thesis by (simp add: deliver_tx_def tx_simps)
qed

lemma command_for_moved:
  assumes "command_for ce c clk p locked candidate d = Inr (command, d')"
  shows "d' = d \<or> (\<exists>runID x x'. cancel_moved runID x x' None d d')"
proof -
  from assms obtain x x' where "find_cancellation (cd_RunID candidate) d = Some x" "deliver_tx x (clk 4) d = Inr (x', d')"
    by (auto simp: command_for_def tx_simps lock_simps)
  with deliver_moved show ?thesis by blast
qed

lemma next_command_cases:
  assumes "next_command_tx ce c clk held p d = Inr (out, d')"
  shows "d' = d \<or> (\<exists>runID x x'. cancel_moved runID x x' None d d')"
proof -
  have keep: "LockNextRuntimeCancellationCommandRun p ms held now d0 = Some (candidate, d1) \<Longrightarrow> d1 = d0" for ms now d0 candidate d1
    by (auto simp: LockNextRuntimeCancellationCommandRun_def)
  from assms consider "d' = d" | locked candidate command where "command_for ce c clk p locked candidate d = Inr (command, d')"
    unfolding next_command_tx_def Let_def tx_simps
    by (auto simp: tx_simps split: if_split_asm option.split_asm dest!: lock_principal_keeps keep)
  then show ?thesis using command_for_moved by cases blast+
qed

lemma stops_attempt_cong:
  "same_core d d1 \<Longrightarrow> stops_attempt a d1 d2 \<Longrightarrow> stops_attempt a d d2"
  by (auto simp: stops_attempt_def same_core_def intro: gives_back_slot_cong[rotated 4])

lemma stop_moved:
  assumes x: "find_cancellation runID d = Some x" "advances x x'" "replaces_cancellation runID x' d d1" and core: "same_core d d1"
    and stop: "stops_attempt a d1 d2" "db_runs d2 = db_runs d1" "db_events d2 = db_events d1" "db_cancellations d2 = db_cancellations d1"
    and y: "find_cancellation (a_RunID a) d1 = Some y" "cx_TargetAttemptID y = Some (a_ID a)" "\<not> open_state (cx_State y)"
    and run: "a_RunID a = runID"
    and mirror: "MirrorRuntimeRunCancellationState runID (cx_ID x) d2 = Some (r', d')"
  shows "cancel_moved runID x x' (Some a) d d'"
proof -
  have "y = x'" using y(1) x(3) run by (simp add: replaces_cancellation_def)
  moreover have "cx_TargetAttemptID x' = cx_TargetAttemptID x" using x(2) by (simp add: advances_def same_cancellation_def)
  ultimately show ?thesis
    using x core stop y run mirror
    by (intro mirror_moved[OF x(1,2) replaces_cong[OF stop(4) x(3)] _ _ mirror])
       (auto simp: same_core_def intro: stops_attempt_cong[OF core])
qed

lemma set_cancellation_core [simp]: "same_core d (set_cancellation runID x d)"
  by (simp add: same_core_def set_cancellation_def)

lemma open_shape: "lease_inv d \<Longrightarrow> find_attempt k d = Some a \<Longrightarrow> slot_shape a"
  by (auto simp: lease_inv_def slots_ok_def dest: find_row_SomeD)

lemma open_covers: "runtimeCancellationTransitionAllowed s t \<Longrightarrow> open_state s"
  by (auto simp: runtimeCancellationTransitionAllowed_def open_state_def split: if_split_asm)

text \<open>Both kinds of advance that precede the end of an attempt.\<close>

lemma advance_facts:
  assumes "AdvanceRuntimeRunCancellation target code (cx_RunID x) (cx_ID x) (cx_State x) now d = Inr (Some x', d1)"
    and x: "find_cancellation runID d = Some x" "open_state (cx_State x)"
  shows "advances x x'" "replaces_cancellation runID x' d d1" "same_core d d1" "cx_RunID x' = runID" "cx_ID x' = cx_ID x"
    "cx_State x' = target"
proof -
  have run: "cx_RunID x = runID" by (rule cancellation_run[OF x(1)])
  from assms(1) x(2) obtain y where "find_cancellation (cx_RunID x) d = Some y" "advances y x'" "cx_State x' = target"
      "d1 = set_cancellation (cx_RunID x) x' d" by (rule Advance_InrE)
  with x(1) run have y: "advances x x'" "cx_State x' = target" "d1 = set_cancellation runID x' d" by simp_all
  show "advances x x'" "cx_State x' = target" by (fact y)+
  show id: "cx_RunID x' = runID" "cx_ID x' = cx_ID x" using y(1) run by (auto simp: advances_def same_cancellation_def)
  show "replaces_cancellation runID x' d d1" "same_core d d1" using y(3) set_cancellation_replaces[OF x(1) id(1)] by simp_all
qed

lemma ack_advance_moved:
  assumes tx: "ack_advance c clk request x a d = Inr (x', d')" and inv: "lease_inv d"
    and x: "find_cancellation runID d = Some x" "open_state (cx_State x)"
    and a: "find_attempt (a_ID a) d = Some a" "a_RunID a = runID"
  shows "cancel_moved runID x x' (if cak_CancelState request = RuntimeCancelStopped then Some a else None) d d' \<and>
    cx_State x' = cak_CancelState request"
proof -
  let ?code = "if cak_ErrorCode request \<noteq> [] then Some (cak_ErrorCode request) else None"
  from tx obtain d1 u d2 r' where adv: "AdvanceRuntimeRunCancellation (cak_CancelState request) ?code (cx_RunID x) (cx_ID x) (cx_State x) (clk 2) d = Inr (Some x', d1)"
    and fin: "(if cak_CancelState request = RuntimeCancelStopped
         then finishRuntimeCancellationAttempt a ?code (cn_commandDeadline c) (\<lambda>n. clk (3 + n)) else tx_return ()) d1 = Inr (u, d2)"
    and mir: "MirrorRuntimeRunCancellationState (cx_RunID x') (cx_ID x') d2 = Some (r', d')"
    unfolding ack_advance_def Let_def tx_simps by auto
  note f = advance_facts[OF adv x]
  have a1: "find_attempt (a_ID a) d1 = Some a" using a f(3) by (simp add: same_core_def)
  show ?thesis
  proof (cases "cak_CancelState request = RuntimeCancelStopped")
    case True
    with fin have "finishRuntimeCancellationAttempt a ?code (cn_commandDeadline c) (\<lambda>n. clk (3 + n)) d1 = Inr (u, d2)" by simp
    then obtain y where "stops_attempt a d1 d2" "db_runs d2 = db_runs d1" "db_events d2 = db_events d1"
        "db_cancellations d2 = db_cancellations d1" "find_cancellation (a_RunID a) d1 = Some y"
        "cx_TargetAttemptID y = Some (a_ID a)" "\<not> open_state (cx_State y)"
      by (rule finish_cancellation_stops[OF _ a1 open_shape[OF inv a(1)]])
    note st = this
    have "cancel_moved runID x x' (Some a) d d'"
      by (rule stop_moved[OF x(1) f(1,2,3) st a(2) mir[unfolded f(4,5)]])
    with True f(6) show ?thesis by simp
  next
    case False
    with fin have "d2 = d1" by (simp add: tx_simps)
    with f(3) have "cancel_moved runID x x' None d d'"
      by (intro mirror_moved[OF x(1) f(1) _ _ _ mir[unfolded f(4,5)]]) (simp_all add: f(2) same_core_def)
    with False f(6) show ?thesis by simp
  qed
qed

lemma ack_cancel_InrE:
  assumes "ack_cancel_tx c clk p request d = Inr (st, d')"
  obtains (known) x where "find_cancellation (ai_RunID (cak_AttemptIdentity request)) d = Some x" "d' = d"
      "cx_State x = cak_CancelState request \<or> cx_State x = RuntimeCancelUnconfirmed \<or>
       runtimeCancellationAckAlreadyCovered (cx_State x) (cak_CancelState request)"
    | (fresh) x x' a where "find_attempt (ai_AttemptID (cak_AttemptIdentity request)) d = Some a"
      "a_RunID a = ai_RunID (cak_AttemptIdentity request)" "find_cancellation (ai_RunID (cak_AttemptIdentity request)) d = Some x"
      "runtimeCancellationTransitionAllowed (cx_State x) (cak_CancelState request)"
      "ack_advance c clk request x a d = Inr (x', d')" "st = runtimeCancellationStateFromDB x'"
      "runtimePrincipalMatchesAttempt (EventPrincipal p) a"
  using assms unfolding ack_cancel_tx_def Let_def tx_simps
  by (auto simp: tx_simps lock_simps runtimeCancellationAckIdentityMatches_def split: if_split_asm dest!: lock_principal_keeps)

lemma ack_cancel_cases:
  assumes tx: "ack_cancel_tx c clk p request d = Inr (st, d')" and inv: "lease_inv d"
  obtains (same) "d' = d"
    | (moved) x x' a where "find_attempt (ai_AttemptID (cak_AttemptIdentity request)) d = Some a"
      "cancel_moved (ai_RunID (cak_AttemptIdentity request)) x x'
         (if cak_CancelState request = RuntimeCancelStopped then Some a else None) d d'"
      "cx_State x' = cak_CancelState request" "st = runtimeCancellationStateFromDB x'"
      "runtimePrincipalMatchesAttempt (EventPrincipal p) a" "open_state (cx_State x)"
  using tx
proof (cases rule: ack_cancel_InrE)
  case (fresh x x' a)
  have row: "find_attempt (a_ID a) d = Some a" using fresh(1) find_row_key[OF fresh(1)] by simp
  note op = open_covers[OF fresh(4)]
  from ack_advance_moved[OF fresh(5) inv fresh(3) op row fresh(2)] show ?thesis using fresh(1,6,7) op by (intro moved) auto
qed (rule same)

lemma core_stop_moved:
  assumes tx: "core_stop_tx (finish_core_attempt settled code) a x' now d1 = Inr (u, d')" and settled: "\<And>y. settled y \<Longrightarrow> \<not> open_state (cx_State y)"
    and adv: "AdvanceRuntimeRunCancellation target err (cx_RunID x) (cx_ID x) (cx_State x) t d = Inr (Some x', d1)"
    and x: "find_cancellation runID d = Some x" "open_state (cx_State x)" and inv: "lease_inv d"
    and a: "find_attempt (a_ID a) d = Some a" "a_RunID a = runID"
  shows "cancel_moved runID x x' (Some a) d d'"
proof -
  note f = advance_facts[OF adv x]
  have a1: "find_attempt (a_ID a) d1 = Some a" using a f(3) by (simp add: same_core_def)
  from tx obtain a' d2 r' where fin: "finish_core_attempt settled code (a_RunID a) (a_ID a) (a_LeaseID a) (a_FencingToken a) now d1 = Some (a', d2)"
    and mir: "MirrorRuntimeRunCancellationState (cx_RunID x') (cx_ID x') d2 = Some (r', d')"
    by (auto simp: core_stop_tx_def tx_simps)
  from fin a1 open_shape[OF inv a(1)] settled obtain y where "stops_attempt a d1 d2" "db_runs d2 = db_runs d1"
      "db_events d2 = db_events d1" "db_cancellations d2 = db_cancellations d1" "find_cancellation (a_RunID a) d1 = Some y"
      "cx_TargetAttemptID y = Some (a_ID a)" "\<not> open_state (cx_State y)" by (rule core_finish_stops)
  note st = this
  show ?thesis by (rule stop_moved[OF x(1) f(1,2,3) st a(2) mir[unfolded f(4,5)]])
qed

lemma core_stopped_cases:
  assumes tx: "core_stopped_tx clk core i d = Inr (st, d')" and inv: "lease_inv d"
  shows "d' = d \<or> (\<exists>x x' a. cancel_moved (ra_RunID i) x x' (Some a) d d')"
proof -
  from tx have "d' = d \<or> (\<exists>x x' a d1. find_attempt (ra_AttemptID i) d = Some a \<and> a_RunID a = ra_RunID i \<and>
      find_cancellation (ra_RunID i) d = Some x \<and> open_state (cx_State x) \<and>
      AdvanceRuntimeRunCancellation RuntimeCancelStopped None (cx_RunID x) (cx_ID x) (cx_State x) (clk 0) d = Inr (Some x', d1) \<and>
      core_stop_tx FinishRuntimeCoreCanceledAttempt a x' (clk 1) d1 = Inr ((), d'))"
    unfolding core_stopped_tx_def tx_simps by (auto simp: tx_simps lock_simps split: if_split_asm)
  then show ?thesis
  proof (elim disjE exE conjE)
    fix x x' a d1
    assume a: "find_attempt (ra_AttemptID i) d = Some a" "a_RunID a = ra_RunID i" and x: "find_cancellation (ra_RunID i) d = Some x"
        "open_state (cx_State x)"
      and adv: "AdvanceRuntimeRunCancellation RuntimeCancelStopped None (cx_RunID x) (cx_ID x) (cx_State x) (clk 0) d = Inr (Some x', d1)"
      and stop: "core_stop_tx FinishRuntimeCoreCanceledAttempt a x' (clk 1) d1 = Inr ((), d')"
    have row: "find_attempt (a_ID a) d = Some a" using a(1) find_row_key[OF a(1)] by simp
    from stop[unfolded FinishRuntimeCoreCanceledAttempt_def] _ adv x inv row a(2) have "cancel_moved (ra_RunID i) x x' (Some a) d d'"
      by (rule core_stop_moved) (auto simp: open_state_def)
    then show ?thesis by blast
  qed simp
qed

lemma join_facts:
  "Option.bind (find_run runID d) (cancellation_join d) = Some (r, x, a) \<Longrightarrow>
     find_run runID d = Some r \<and> find_cancellation runID d = Some x \<and> find_attempt (a_ID a) d = Some a \<and> a_RunID a = runID \<and>
     cx_TargetAttemptID x = Some (a_ID a) \<and> r_ID r = runID"
  by (auto simp: cancellation_join_def dest: find_row_key split: option.split_asm if_split_asm bind_split_asm)

lemma due_core_locked:
  assumes "LockDueRuntimeCoreCancellationRun runID cancellationID attemptID ms now d = Some (locked, d1)"
  obtains x a where "d1 = d" "cd_RunID locked = runID" "cd_TargetAttemptID locked = a_ID a" "cd_CancellationID locked = cx_ID x"
    "find_cancellation runID d = Some x" "find_attempt (a_ID a) d = Some a" "a_RunID a = runID" "reapable_core x a"
  using assms join_facts
  by (fastforce simp: LockDueRuntimeCoreCancellationRun_def cancellation_candidate_def split: option.split_asm if_split_asm)

lemma due_runtime_locked:
  assumes "LockDueRuntimeCancellationRun runID cancellationID attemptID sid nid ms now d = Some (locked, d1)"
  obtains x a where "d1 = d" "cd_RunID locked = runID" "cd_TargetAttemptID locked = a_ID a" "cd_CancellationID locked = cx_ID x"
    "find_cancellation runID d = Some x" "find_attempt (a_ID a) d = Some a" "a_RunID a = runID" "reapable_runtime x a"
  using assms join_facts
  by (fastforce simp: LockDueRuntimeCancellationRun_def cancellation_candidate_def split: option.split_asm if_split_asm)

lemma find_core_keeps: "FindNextDueRuntimeCoreCancellation ms now d = Some (candidate, d1) \<Longrightarrow> d1 = d"
  by (auto simp: FindNextDueRuntimeCoreCancellation_def)

lemma opt_case_Inr:
  "tx_bind (tx_opt q) (\<lambda>found. case found of None \<Rightarrow> m | Some y \<Rightarrow> f y) d = Inr r \<longleftrightarrow>
     q d = None \<and> m d = Inr r \<or> (\<exists>y d1. q d = Some (y, d1) \<and> f y d1 = Inr r)"
  by (cases "q d") (auto simp: tx_bind_Inr tx_opt_Inr)

lemma reap_core_cases:
  assumes tx: "reap_core_tx c clk d = Inr (out, d')" and inv: "lease_inv d"
  shows "case out of None \<Rightarrow> d' = d | Some st \<Rightarrow> \<exists>runID x x' a. cancel_moved runID x x' (Some a) d d'"
proof -
  let ?ms = "Milliseconds (cn_commandDeadline c)"
  from tx consider "out = None" "d' = d"
    | runID cid k candidate locked d1 st where "out = Some st" "LockDueRuntimeCoreCancellationRun runID cid k ?ms (clk 1) d = Some (locked, d1)"
      "reap_core_locked clk candidate locked d1 = Inr (st, d')"
    unfolding reap_core_tx_def Let_def opt_case_Inr
    by (elim disjE exE conjE) (auto simp: tx_simps dest!: find_core_keeps)
  then show ?thesis
  proof cases
    case (2 runID cid k candidate locked d1 st)
    from 2(2) obtain x a where l: "d1 = d" "cd_RunID locked = runID" "cd_TargetAttemptID locked = a_ID a" "cd_CancellationID locked = cx_ID x"
        "find_cancellation runID d = Some x" "find_attempt (a_ID a) d = Some a" "a_RunID a = runID" "reapable_core x a"
      by (rule due_core_locked)
    from 2(3) l obtain x' d2 where
        adv: "AdvanceRuntimeRunCancellation RuntimeCancelUnconfirmed (Some runtimeCancellationUnconfirmedCode) (cx_RunID x) (cx_ID x)
          (cx_State x) (clk 2) d = Inr (Some x', d2)"
      and stop: "core_stop_tx FinishRuntimeCoreUnconfirmedAttempt a x' (clk 3) d2 = Inr ((), d')"
      unfolding reap_core_locked_def by (auto simp: tx_simps lock_simps)
    have "open_state (cx_State x)" using l(8) by (simp add: reapable_core_def)
    from stop[unfolded FinishRuntimeCoreUnconfirmedAttempt_def] _ adv l(5) this inv l(6,7) have "cancel_moved runID x x' (Some a) d d'"
      by (rule core_stop_moved) (auto simp: open_state_def)
    with 2(1) show ?thesis by auto
  qed simp
qed

lemma find_due_keeps: "FindNextDueRuntimeCancellation ms now d = Some (candidate, d1) \<Longrightarrow> d1 = d"
  by (auto simp: FindNextDueRuntimeCancellation_def)

lemma reap_owner_keeps:
  "LockRuntimeSessionForCancellationReap sid d = Some (x, d1) \<Longrightarrow> d1 = d"
  "LockRuntimeNodeForCancellationReap nid d = Some (y, d1) \<Longrightarrow> d1 = d"
  by (auto simp: LockRuntimeSessionForCancellationReap_def LockRuntimeNodeForCancellationReap_def)

lemma reap_advance_facts:
  assumes "reap_advance x now d = Inr (x', d1)" and x: "find_cancellation runID d = Some x"
  shows "advances x x'" "replaces_cancellation runID x' d d1" "same_core d d1" "cx_RunID x' = runID" "cx_ID x' = cx_ID x"
proof -
  have "advances x x' \<and> replaces_cancellation runID x' d d1 \<and> same_core d d1 \<and> cx_RunID x' = runID \<and> cx_ID x' = cx_ID x"
  proof (cases "open_state (cx_State x)")
    case True
    with assms have adv: "AdvanceRuntimeRunCancellation RuntimeCancelUnconfirmed (Some runtimeCancellationUnconfirmedCode)
        (cx_RunID x) (cx_ID x) (cx_State x) now d = Inr (Some x', d1)" by (simp add: reap_advance_def tx_simps)
    from advance_facts[OF adv x True] show ?thesis by simp
  next
    case False
    with assms show ?thesis
      by (auto simp: reap_advance_def tx_simps cancellation_run replaces_refl split: if_split_asm)
  qed
  then show "advances x x'" "replaces_cancellation runID x' d d1" "same_core d d1" "cx_RunID x' = runID" "cx_ID x' = cx_ID x"
    by simp_all
qed

lemma reap_runtime_cases:
  assumes tx: "reap_runtime_tx c clk d = Inr (out, d')" and inv: "lease_inv d"
  shows "case out of None \<Rightarrow> d' = d | Some st \<Rightarrow> \<exists>runID x x' a. cancel_moved runID x x' (Some a) d d'"
proof -
  let ?ms = "Milliseconds (cn_commandDeadline c)"
  from tx consider "out = None" "d' = d"
    | runID cid k sid nid locked d1 st where "out = Some st"
      "LockDueRuntimeCancellationRun runID cid k sid nid ?ms (clk 1) d = Some (locked, d1)"
      "reap_runtime_locked c clk locked d1 = Inr (st, d')"
    unfolding reap_runtime_tx_def Let_def opt_case_Inr
    by (elim disjE exE conjE) (auto simp: tx_bind_Inr[where m = "tx_one _ _"] tx_simps opt_case_Inr dest!: find_due_keeps reap_owner_keeps)
  then show ?thesis
  proof cases
    case (2 runID cid k sid nid locked d1 st)
    from 2(2) obtain x a where l: "d1 = d" "cd_RunID locked = runID" "cd_TargetAttemptID locked = a_ID a" "cd_CancellationID locked = cx_ID x"
        "find_cancellation runID d = Some x" "find_attempt (a_ID a) d = Some a" "a_RunID a = runID" "reapable_runtime x a"
      by (rule due_runtime_locked)
    from 2(3) l obtain x' d2 u d3 r' where adv: "reap_advance x (clk 2) d = Inr (x', d2)"
      and fin: "finishRuntimeCancellationAttempt a (Some runtimeCancellationUnconfirmedCode) (cn_commandDeadline c) (\<lambda>n. clk (3 + n)) d2 = Inr (u, d3)"
      and mir: "MirrorRuntimeRunCancellationState (cx_RunID x') (cx_ID x') d3 = Some (r', d')"
      unfolding reap_runtime_locked_def by (auto simp: tx_simps lock_simps)
    note f = reap_advance_facts[OF adv l(5)]
    have a1: "find_attempt (a_ID a) d2 = Some a" using l(6) f(3) by (simp add: same_core_def)
    from fin obtain y where "stops_attempt a d2 d3" "db_runs d3 = db_runs d2" "db_events d3 = db_events d2"
        "db_cancellations d3 = db_cancellations d2" "find_cancellation (a_RunID a) d2 = Some y"
        "cx_TargetAttemptID y = Some (a_ID a)" "\<not> open_state (cx_State y)"
      by (rule finish_cancellation_stops[OF _ a1 open_shape[OF inv l(6)]])
    note st = this
    have "cancel_moved runID x x' (Some a) d d'" by (rule stop_moved[OF l(5) f(1,2,3) st l(7) mir[unfolded f(4,5)]])
    with 2(1) show ?thesis by auto
  qed simp
qed

section \<open>Canceling a run\<close>

definition summary_of :: "RunRow \<Rightarrow> CancellationRow \<Rightarrow> bool" where
  "summary_of r x \<longleftrightarrow> r_CancelRequestID r = Some (cx_ID x) \<and> r_CancelState r = Some (cx_State x) \<and>
     r_CancelRequestedAt r = Some (cx_RequestedAt x) \<and> r_CancelAcknowledgedAt r = cx_AcknowledgedAt x \<and>
     r_CancelReason r = cx_Reason x"

definition cancel_created :: "uuid \<Rightarrow> RunRow \<Rightarrow> RunRow \<Rightarrow> CancellationRow \<Rightarrow> runtime_db \<Rightarrow> runtime_db \<Rightarrow> bool" where
  "cancel_created runID r r' x d d' \<longleftrightarrow>
     find_run runID d = Some r \<and> r_Status r = ''running'' \<and> closes_run r r' \<and> r_Status r' = ''canceled'' \<and>
     r_DispatchState r' = ''terminal'' \<and> summary_of r' x \<and> db_runs d' = update_row r_ID runID (\<lambda>_. r') (db_runs d) \<and>
     (\<exists>e. core_event e \<and> next_event d e \<and> ev_RunID e = runID \<and> db_events d' = insert_row e (db_events d) \<and>
        r_TerminalEventID r' = Some (ev_ID e)) \<and>
     db_attempts d' = db_attempts d \<and> db_sessions d' = db_sessions d \<and> db_nodes d' = db_nodes d \<and>
     replaces_cancellation runID x d d' \<and> cx_TargetAttemptID x = r_ActiveAttemptID r \<and>
     cx_State x = (if r_ActiveAttemptID r = None then ''stopped'' else ''requested'')"

lemma cancel_created_step: "cancel_created runID r r' x d d' \<Longrightarrow> run_step d d'"
  by (rule run_step.Settle[of runID d r r']) (auto simp: cancel_created_def)

lemma Create_InrD:
  assumes "CreateRunCancellation cid runID target kind requester reason now d = Inr (x, d1)"
  shows "same_core d d1" "replaces_cancellation runID x d d1" "cx_RunID x = runID"
  using assms
  by (auto simp: CreateRunCancellation_def Let_def same_core_def replaces_cancellation_def find_cancellation_def row_simps
      dest: find_row_key split: option.splits if_split_asm)

lemma ensure_effect_cancellations:
  "ensureRuntimeResultEffect fe runID ev now e d = Inr (u, d') \<Longrightarrow> db_cancellations d' = db_cancellations d"
  by (auto simp: ensureRuntimeResultEffect_def tx_simps CreateRunEffect_def GetRunEffectByBusinessKey_def
      split: if_split_asm option.split_asm)

lemma ensure_effects_cancellations:
  "ensure_effects fe runID ev now es d = Inr (u, d') \<Longrightarrow> db_cancellations d' = db_cancellations d"
  by (induction es arbitrary: d) (auto simp: tx_simps dest!: ensure_effect_cancellations)

lemma cancel_ledger_keeps:
  "insertRuntimeCancellationLedger r ev d = Inr (u, d') \<Longrightarrow> same_core d d' \<and> db_cancellations d' = db_cancellations d"
  by (auto simp: insertRuntimeCancellationLedger_def tx_simps InsertRunAccountingLedger_def GetRunAccountingLedger_def
      same_core_def Let_def split: option.split_asm if_split_asm)

lemma FinalizeCancellation_InrD:
  assumes "FinalizeRuntimeRunCancellation ms ev runID cid now d = Inr (Some r', d')" "find_run runID d = Some r"
    "find_cancellation runID d = Some x"
  shows "d' = set_run runID r' d" "closes_run r r'" "r_Status r' = ''canceled''" "r_DispatchState r' = ''terminal''"
    "summary_of r' x" "r_TerminalEventID r' = Some ev" "r_Status r = ''running''" "cancelable r x d"
  using assms
  by (simp_all add: FinalizeRuntimeRunCancellation_def checked_run_Inr closes_run_def same_request_def clear_lease_def
      summary_of_def split: if_split_asm)

lemma cancelable_state:
  assumes "cancelable r x d" "lease_inv d" "find_run runID d = Some r"
  shows "cx_State x = (if cx_TargetAttemptID x = None then ''stopped'' else ''requested'') \<and> cx_TargetAttemptID x = r_ActiveAttemptID r"
proof (cases "cx_TargetAttemptID x")
  case None
  with assms(1) show ?thesis by (simp add: cancelable_def)
next
  case (Some k)
  with assms(1) have active: "r_ActiveAttemptID r = Some k" by (simp add: cancelable_def)
  have "r \<in> set (db_runs d)" using find_row_SomeD[OF assms(3)] by simp
  with active assms(2) obtain a where "find_attempt k d = Some a" "mirror_of r a" by (auto simp: lease_inv_def active_ok_def)
  with assms(1) Some active show ?thesis by (simp add: cancelable_def mirror_of_def)
qed

lemma lease_inv_cong:
  assumes "db_runs d' = db_runs d" "db_attempts d' = db_attempts d" "db_sessions d' = db_sessions d" "db_nodes d' = db_nodes d"
  shows "lease_inv d' \<longleftrightarrow> lease_inv d"
  by (simp only: lease_inv_def keys_ok_def slots_ok_def capacity_exact_def fences_ok_def active_ok_def expiry_ok_def
      budget_ok_def assms)

lemma replaces_trans:
  "replaces_cancellation runID x d d1 \<Longrightarrow> replaces_cancellation runID y d1 d2 \<Longrightarrow> replaces_cancellation runID y d d2"
  by (simp add: replaces_cancellation_def)

lemma persist_created:
  assumes tx: "PersistCancellationTerminal fe began clk r x target d1 = Inr (run, d')"
    and r: "find_run runID d = Some r" "r_Status r = ''running''" and inv: "lease_inv d"
    and d1: "same_core d d1" "replaces_cancellation runID x d d1"
  shows "cancel_created runID r run x d d'"
proof -
  let ?ev = "deterministicTerminalEventID fe (r_ID r) ''canceled''"
  have id: "r_ID r = runID" using r(1) by (rule find_row_key)
  from tx obtain ms parent effects d2 payload d3 e d4 r' d5 d6 u d7 where
      2: "discoverRuntimeResultEffects fe r ?ev ''run.canceled'' d1 = Inr ((parent, effects), d2)"
    and 3: "marshalRuntimeResultJSON fe (VObject [(''cancellation_id'', VString (uuid_String (cx_ID x))),
         (''classification'', VString ClassificationCanceled), (''duration_ms'', VInt (word_of_int ms)),
         (''error_code'', VString runtimeCancellationPublicCode),
         (''error_message'', case cx_Reason x of None \<Rightarrow> VNull | Some reason \<Rightarrow> VString reason),
         (''status'', VString ''canceled''), (''terminal'', VBool True)]) d2 = Inr (payload, d3)"
    and 4: "InsertTerminalRunEvent ?ev began (r_ID r) parent ''run.canceled'' payload d3 = Inr (e, d4)"
    and 5: "FinalizeRuntimeRunCancellation ms (ev_ID e) (r_ID r) (cx_ID x) (clk 3) d4 = Inr (Some r', d5)"
    and 6: "insertRuntimeCancellationLedger r (ev_ID e) d5 = Inr ((), d6)"
    and 7: "ensure_effects fe (r_ID r) (ev_ID e) (clk 4) effects d6 = Inr (u, d7)"
    and 8: "(case target of None \<Rightarrow> tx_return ()
        | Some a \<Rightarrow> tx_bind (tx_lift (cancel_signal_payload fe (r_ID r) x a)) (\<lambda>signal.
            tx_bind (tx_one ErrNoRows (CreateRuntimeSignal ''run.cancel'' (r_AgentID r) (Some (r_ID r)) signal (clk 5))) (\<lambda>_.
            tx_return ()))) d7 = Inr ((), d')"
    and 9: "find_run (r_ID r) d' = Some run"
    unfolding PersistCancellationTerminal_def Let_def tx_simps
    by (auto simp: tx_simps GetRunByID_def runtimeResultRunFromLocked_def split: option.split_asm)
  have pre: "d2 = d1" "d3 = d1" using discover_keeps[OF 2] marshal_keeps[OF 3] by simp_all
  note e = InsertTerminalRunEvent_InrD[OF 4[unfolded pre]]
  have rows: "find_run (r_ID r) d4 = Some r" "find_cancellation (r_ID r) d4 = Some x"
    using r d1 id by (simp_all add: e(1) same_core_def replaces_cancellation_def find_cancellation_def)
  note fin = FinalizeCancellation_InrD[OF 5 rows]
  have 67: "same_core d5 d7" "db_cancellations d7 = db_cancellations d5"
    using cancel_ledger_keeps[OF 6] ensure_effects_core[OF 7] ensure_effects_cancellations[OF 7] by (auto intro: same_core_trans)
  have 78: "same_core d7 d'" "db_cancellations d' = db_cancellations d7"
    using 8 by (auto simp: tx_simps CreateRuntimeSignal_def Let_def same_core_def split: option.split_asm)
  have core: "same_core d5 d'" "db_cancellations d' = db_cancellations d5" using 67 78 by (auto intro: same_core_trans)
  have lease4: "lease_inv d4" using inv d1(1) lease_inv_cong[of d4 d] by (simp add: e(1) same_core_def)
  have state: "cx_State x = (if r_ActiveAttemptID r = None then ''stopped'' else ''requested'')" "cx_TargetAttemptID x = r_ActiveAttemptID r"
    using cancelable_state[OF fin(8) lease4 rows(1)] by simp_all
  have "run = r'"
    using 9 core(1) fin(1,2) rows(1) find_row_replace[OF rows(1), of r' "r_ID r"] by (simp add: same_core_def closes_run_def)
  moreover have "next_event d e" using next_event_cong[of d1 d] e(2) d1(1) by (simp add: same_core_def)
  moreover have "replaces_cancellation runID x d d'"
    by (rule replaces_cong[OF _ d1(2)]) (simp add: core(2) fin(1) e(1))
  ultimately show ?thesis
    using r fin e core(1) d1(1) id state unfolding cancel_created_def by (auto simp: same_core_def)
qed

lemma cancel_target_InrD:
  "cancel_target r d = Inr (target, d') \<Longrightarrow> d' = d \<and> map_option a_ID target = r_ActiveAttemptID r"
  by (auto simp: cancel_target_def tx_simps lock_simps dest: find_row_key split: option.split_asm)

lemma cancel_new_created:
  assumes tx: "cancel_new fe began clk requester reason r d = Inr (res, d')"
    and r: "find_run runID d = Some r" "r_Status r = ''running''" and inv: "lease_inv d"
  shows "cancel_created runID r (xr_Run res) (xr_Cancellation res) d d' \<and> \<not> xr_Replayed res"
proof -
  let ?cid = "deterministicRuntimeCancellationID fe runID"
  have id: "r_ID r = runID" using r(1) by (rule find_row_key)
  from tx obtain target d0 x d1 x' d2 run where target: "cancel_target r d = Inr (target, d0)"
    and new: "CreateRunCancellation ?cid runID (map_option a_ID target) ''user'' requester (Some reason) (clk 1) d0 = Inr (x, d1)"
    and adv: "(case target of
          None \<Rightarrow> row_or ErrNoRows (AdvanceRuntimeRunCancellation RuntimeCancelStopped None runID ?cid RuntimeCancelRequested (clk 2))
        | Some a \<Rightarrow>
            tx_bind (tx_guard (a_ExecutorType a = ''runtime'' \<or> is_core_executor a)
               (OtherError ''runtime cancellation target has unknown executor type'' None)) (\<lambda>_. tx_return x)) d1 = Inr (x', d2)"
    and per: "PersistCancellationTerminal fe began clk r x' target d2 = Inr (run, d')"
    and res: "res = \<lparr>xr_Run = run, xr_Cancellation = x', xr_Replayed = False\<rparr>"
    unfolding cancel_new_def Let_def id tx_simps by (auto simp: tx_simps)
  have "d0 = d" using cancel_target_InrD[OF target] by simp
  note c = Create_InrD[OF new[unfolded this]]
  have "same_core d1 d2 \<and> replaces_cancellation runID x' d d2"
  proof (cases target)
    case None
    with adv have "AdvanceRuntimeRunCancellation RuntimeCancelStopped None runID ?cid RuntimeCancelRequested (clk 2) d1 = Inr (Some x', d2)"
      by (simp add: tx_simps)
    moreover have "open_state RuntimeCancelRequested" by (simp add: open_state_def)
    ultimately obtain y where y: "find_cancellation runID d1 = Some y" "advances y x'" "d2 = set_cancellation runID x' d1" by (rule Advance_InrE)
    have "cx_RunID x' = runID" using y(2) cancellation_run[OF y(1)] by (simp add: advances_def same_cancellation_def)
    with y set_cancellation_replaces replaces_trans[OF c(2)] show ?thesis by simp
  next
    case (Some a)
    with adv c show ?thesis by (auto simp: tx_simps)
  qed
  with c have "same_core d d2" "replaces_cancellation runID x' d d2" by (auto intro: same_core_trans)
  from persist_created[OF per r inv this] res show ?thesis by simp
qed

lemma cancel_tx_cases:
  assumes tx: "cancel_tx fe began clk requester runID reason d = Inr (res, d')" and inv: "lease_inv d"
  obtains (replayed) "d' = d" "xr_Replayed res" "find_run runID d = Some (xr_Run res)" "r_Status (xr_Run res) = ''canceled''"
      "find_cancellation runID d = Some (xr_Cancellation res)" "r_UserID (xr_Run res) = requester"
    | (canceled) r where "cancel_created runID r (xr_Run res) (xr_Cancellation res) d d'" "\<not> xr_Replayed res" "r_UserID r = requester"
      "r_RuntimeContractID r = RuntimeContractID"
proof -
  from tx obtain r where r: "find_run runID d = Some r" "r_UserID r = requester" "r_RuntimeContractID r = RuntimeContractID" and rest: "(if r_Status r \<noteq> ''running'' \<or>
       r_DispatchState r = ''terminal'' \<or> r_DispatchState r = ''dead_letter''
     then tx_bind (tx_guard (r_Status r = ''canceled'' \<and> r_CancelRequestID r \<noteq> None) ErrRuntimeCancellationRunEnded) (\<lambda>_.
       tx_bind (lockStoredRuntimeCancellation r) (\<lambda>x.
       tx_bind (tx_one ErrNoRows (GetRunByID runID)) (\<lambda>run.
       tx_return \<lparr>xr_Run = run, xr_Cancellation = x, xr_Replayed = True\<rparr>)))
     else cancel_new fe began clk requester reason r) d = Inr (res, d')"
    unfolding cancel_tx_def by (auto simp: tx_bind_Inr tx_one_Inr tx_guard_Inr lock_simps)
  show ?thesis
  proof (cases "r_Status r \<noteq> ''running'' \<or> r_DispatchState r = ''terminal'' \<or> r_DispatchState r = ''dead_letter''")
    case True
    have id: "r_ID r = runID" using r(1) by (rule find_row_key)
    from rest True obtain x d1 run where lk: "lockStoredRuntimeCancellation r d = Inr (x, d1)" "r_Status r = ''canceled''"
        "GetRunByID runID d1 = Some (run, d')" "res = \<lparr>xr_Run = run, xr_Cancellation = x, xr_Replayed = True\<rparr>"
      by (auto simp: tx_simps)
    from lk(1) have "d1 = d" "find_cancellation runID d = Some x"
      by (auto simp: lockStoredRuntimeCancellation_def tx_simps GetRunCancellationByRun_def lock_simps id split: option.split_asm)
    with lk r show ?thesis by (intro replayed) (auto simp: GetRunByID_def)
  next
    case False
    with rest cancel_new_created[OF _ r(1) _ inv] r(2,3) show ?thesis by (intro canceled) simp_all
  qed
qed

section \<open>Requests\<close>

lemma WithTransaction_outcome:
  "snd (WithTransaction m d) = d \<or> (\<exists>x. m d = Inr (x, snd (WithTransaction m d)))"
  by (cases "m d") (auto simp: WithTransaction_def)

text \<open>Every other request leaves the database alone or moves one cancellation.\<close>

definition cancel_progress :: "runtime_db \<Rightarrow> runtime_db \<Rightarrow> bool" where
  "cancel_progress d d' \<longleftrightarrow> d' = d \<or> (\<exists>runID x x' stopped. cancel_moved runID x x' stopped d d')"

lemma cancel_progress_tx:
  "(\<And>x d'. m d = Inr (x, d') \<Longrightarrow> cancel_progress d d') \<Longrightarrow> cancel_progress d (snd (WithTransaction m d))"
  using WithTransaction_outcome[of m d] by (auto simp: cancel_progress_def)

lemma cancel_progress_refl [simp]: "cancel_progress d d"
  by (simp add: cancel_progress_def)

lemma NextCommand_progress: "cancel_progress d (snd (NextCommand ce c clk held p d))"
proof -
  have "cancel_progress d (snd (WithTransaction (next_command_tx ce c clk held p) d))"
    by (rule cancel_progress_tx) (use next_command_cases in \<open>fastforce simp: cancel_progress_def\<close>)
  then show ?thesis by (auto simp: NextCommand_def split: option.split prod.split)
qed

lemma AckCancel_progress:
  assumes "lease_inv d"
  shows "cancel_progress d (snd (AckCancel decs c clk p request d))"
proof -
  have "cancel_progress d (snd (WithTransaction (ack_cancel_tx c clk p request) d))"
    by (rule cancel_progress_tx, erule ack_cancel_cases[OF _ assms]) (auto simp: cancel_progress_def)
  then show ?thesis by (simp add: AckCancel_def Let_def split: option.split)
qed

lemma AcknowledgeCoreStopped_progress:
  assumes "lease_inv d"
  shows "cancel_progress d (snd (AcknowledgeCoreStopped c clk core i d))"
proof -
  have "cancel_progress d (snd (WithTransaction (core_stopped_tx clk core i) d))"
    by (rule cancel_progress_tx) (use core_stopped_cases[OF _ assms] in \<open>fastforce simp: cancel_progress_def\<close>)
  then show ?thesis by (simp add: AcknowledgeCoreStopped_def Let_def)
qed

lemma ReapExpiredCancellation_moves:
  assumes "ReapExpiredCancellation c clks d = (out, d')" "lease_inv d"
  shows "case out of Inr (Some st) \<Rightarrow> (\<exists>runID x x' a. cancel_moved runID x x' (Some a) d d') | _ \<Rightarrow> d' = d"
proof -
  have core: "case fst (WithTransaction (reap_core_tx c (fst clks)) d) of
      Inr (Some st) \<Rightarrow> (\<exists>runID x x' a. cancel_moved runID x x' (Some a) d (snd (WithTransaction (reap_core_tx c (fst clks)) d)))
    | _ \<Rightarrow> snd (WithTransaction (reap_core_tx c (fst clks)) d) = d"
    using reap_core_cases[OF _ assms(2), of c "fst clks"]
    by (cases "reap_core_tx c (fst clks) d") (auto simp: WithTransaction_def split: option.split)
  have runtime: "case fst (WithTransaction (reap_runtime_tx c (snd clks)) d) of
      Inr (Some st) \<Rightarrow> (\<exists>runID x x' a. cancel_moved runID x x' (Some a) d (snd (WithTransaction (reap_runtime_tx c (snd clks)) d)))
    | _ \<Rightarrow> snd (WithTransaction (reap_runtime_tx c (snd clks)) d) = d"
    using reap_runtime_cases[OF _ assms(2), of c "snd clks"]
    by (cases "reap_runtime_tx c (snd clks) d") (auto simp: WithTransaction_def split: option.split)
  from assms(1) core runtime show ?thesis
    by (auto simp: ReapExpiredCancellation_def reapExpiredCoreCancellation_def split: if_split_asm prod.split_asm sum.split_asm option.split_asm)
      blast+
qed

end
