(* ===== verification/Cancellation_Example.thy ===== *)
theory Cancellation_Example
  imports Cancellation_Steps Result_Example
begin

text \<open>
  The concrete world of \<open>Event_Example\<close>, in which the owner cancels the run while its attempt is
  executing and the runtime then confirms the stop.
\<close>

section \<open>The owner cancels\<close>

definition wit_coordinator :: RuntimeCancellationCoordinator where
  "wit_coordinator = NewRuntimeCancellationCoordinator True"

definition wit_cancellation :: CancellationRow where
  "wit_cancellation = \<lparr>cx_ID = 40, cx_RunID = 6, cx_TargetAttemptID = Some 10, cx_State = ''requested'',
     cx_RequestedByType = ''user'', cx_RequestedByID = 7, cx_Reason = Some ''Run canceled by owner'', cx_RequestedAt = 3001,
     cx_DeliveredAt = None, cx_StoppingAt = None, cx_StoppedAt = None, cx_AcknowledgedAt = None, cx_ErrorCode = None,
     cx_UpdatedAt = 3001\<rparr>"

definition wit_cancel_event :: EventRow where
  "wit_cancel_event = wit_terminal_event\<lparr>ev_EventType := ''run.canceled''\<rparr>"

definition wit_canceled_run :: RunRow where
  "wit_canceled_run = (clear_lease wit_leased)\<lparr>r_Status := ''canceled'', r_DispatchState := ''terminal'', r_Output := None,
     r_ErrorCode := Some ''CANCELED'', r_ErrorMessage := Some ''Run canceled by owner'', r_DurationMs := Some 0,
     r_FinishedAt := Some 3003, r_NextAttemptAt := None, r_ResultID := None, r_ResultFingerprint := None,
     r_TerminalEventID := Some 40, r_DeadLetteredAt := None, r_CancelRequestID := Some 40, r_CancelState := Some ''requested'',
     r_CancelRequestedAt := Some 3001, r_CancelAcknowledgedAt := None, r_CancelReason := Some ''Run canceled by owner''\<rparr>"

definition wit_canceling :: runtime_db where
  "wit_canceling = snd (CancelOwnedRun wit_result_env wit_coordinator 3000 wit_result_clock 7 6 [] wit_ready)"

definition wit_cancel_result :: RuntimeCancellationResult where
  "wit_cancel_result = \<lparr>xr_Run = wit_canceled_run, xr_Cancellation = wit_cancellation, xr_Replayed = False\<rparr>"

lemma wit_cancel_reason: "normalizeRuntimeCancellationReason [] = Inr ''Run canceled by owner''"
proof -
  have "TrimSpace [] = []" by code_simp
  moreover have "ValidString ''Run canceled by owner''" "RuneCount ''Run canceled by owner'' \<le> 500" by (simp_all add: ascii_string)
  ultimately show ?thesis by (simp add: normalizeRuntimeCancellationReason_def Let_def)
qed

lemma uuid_String_valid: "ValidString (uuid_String u)"
proof -
  have "(of_char c :: nat) < 128" if "c \<in> set (uuid_hex u)" for c
  proof -
    from that obtain n where n: "c = hex_digit (n mod 16)" by (auto simp: uuid_hex_def)
    have "n mod 16 < 16" by simp
    then show ?thesis unfolding n hex_digit_def by (simp split: if_split) linarith
  qed
  then have "list_all (\<lambda>b. (b::nat) < 128) (map of_char (uuid_String u))"
    by (auto simp: list_all_iff uuid_String_def Let_def dest!: in_set_takeD in_set_dropD)
  then show ?thesis by (simp add: ascii_string)
qed

lemma wit_cancel_payload:
  "\<exists>s. cancel_signal_payload wit_result_env 6 wit_cancellation wit_owner = Inr s"
proof -
  have "\<exists>s. CanonicalizeRFC8785 (fe_floats wit_result_env) (VObject [(''attempt_id'', VString (uuid_String 10)),
         (''cancellation_id'', VString (uuid_String 40)), (''run_id'', VString (uuid_String 6))]) = Inr s"
    by (rule canonical_object_ok) (auto simp: uuid_String_valid appendCanonicalJSONString_def ascii_string)
  then show ?thesis
    by (auto simp: cancel_signal_payload_def wit_owner_fields is_core_executor_def wit_cancellation_def)
qed


lemma wit_cancel_rows:
  "find_row ag_ID 3 (db_agents wit_ready) = Some \<lparr>ag_ID = 3, ag_CreatorID = 7, ag_Visibility = ''public'', ag_WebhookURL = None,
     ag_TotalCalls = 0, ag_TotalRevenueCents = 0\<rparr>" "db_cancellations wit_ready = []" "db_effects wit_ready = []"
  by (simp_all add: wit_ready_def find_row_def wit_reported_def wit_executing_def wit_world_def)

lemma wit_cancel_fields:
  "cx_ID wit_cancellation = 40" "cx_RunID wit_cancellation = 6" "cx_TargetAttemptID wit_cancellation = Some 10"
  "cx_State wit_cancellation = ''requested''" "cx_Reason wit_cancellation = Some ''Run canceled by owner''"
  "cx_RequestedAt wit_cancellation = 3001" "cx_AcknowledgedAt wit_cancellation = None"
  "r_ID wit_canceled_run = 6" "r_Status wit_canceled_run = ''canceled''" "r_DispatchState wit_canceled_run = ''terminal''"
  "r_TerminalEventID wit_canceled_run = Some 40" "r_CancelRequestID wit_canceled_run = Some 40"
  "r_CancelState wit_canceled_run = Some ''requested''" "r_RuntimeContractID wit_canceled_run = RuntimeContractID"
  "r_UserID wit_canceled_run = 7" "r_AgentID wit_canceled_run = 3" "r_ActiveAttemptID wit_canceled_run = None"
  by (simp_all add: wit_cancellation_def wit_canceled_run_def clear_lease_def wit_leased_fields)

lemma wit_cancel_event:
  "InsertTerminalRunEvent 40 3000 6 None ''run.canceled'' ''{}'' (wit_ready\<lparr>db_cancellations := cs\<rparr>) =
     Inr (wit_cancel_event, wit_ready\<lparr>db_cancellations := cs, db_events := [wit_event, wit_cancel_event]\<rparr>)"
proof -
  have "last_sequence 6 (wit_ready\<lparr>db_cancellations := cs\<rparr>) = 1"
    by (simp add: last_sequence_def wit_ready_rows wit_event_def Collect_conv_if)
  then show ?thesis
    by (simp add: InsertTerminalRunEvent_def LockRunForResultFinalization_def wit_ready_rows find_row_def wit_leased_fields
        insert_event_def event_conflict_def wit_event_def insert_row_def wit_cancel_event_def wit_terminal_event_def sql_eq_def)
qed

lemma wit_cancel_discover:
  "discoverRuntimeResultEffects wit_result_env wit_leased 40 ''run.canceled'' (wit_ready\<lparr>db_cancellations := cs\<rparr>) =
     Inr ((None, []), wit_ready\<lparr>db_cancellations := cs\<rparr>)"
  by (simp add: discoverRuntimeResultEffects_def tx_defs GetRunDelegationByChild_def webhook_effects_def GetAgentWebhookConfig_def
      delivery_effects_def GetDefaultDeliveryTarget_def ListActiveTaskCallbackSubscriptionsForEvent_def wit_ready_rows wit_cancel_rows
      wit_leased_fields sort_effects_def find_row_def[of dl_ChildRunID])

lemma wit_owner_open: "a_Outcome wit_owner = None" "r_LatestAttemptID wit_leased = Some 10" "r_LeaseID wit_leased = Some 11"
    "r_FencingToken wit_leased = 1" "r_StartedAt wit_leased = 1" "r_TerminalEventID wit_leased = None"
  by (simp_all add: wit_owner_def wit_accepted_def wit_attempt_def wit_leased_def executing_run_def offered_run_def wit_run_def)

lemma wit_cancel_ends:
  "FinalizeRuntimeRunCancellation 0 40 6 40 3003
     (wit_ready\<lparr>db_cancellations := [wit_cancellation], db_events := es\<rparr>) =
   Inr (Some wit_canceled_run, wit_ready\<lparr>db_cancellations := [wit_cancellation], db_events := es, db_runs := [wit_canceled_run]\<rparr>)"
proof -
  have checks: "run_state_checks wit_canceled_run" by (simp add: run_state_checks_def wit_canceled_run_def)
  have "cancelable wit_leased wit_cancellation (wit_ready\<lparr>db_cancellations := [wit_cancellation], db_events := es\<rparr>)"
    by (simp add: cancelable_def wit_cancel_fields wit_leased_fields wit_ready_rows wit_owner_fields wit_owner_open find_row_def)
  then show ?thesis
    by (simp add: FinalizeRuntimeRunCancellation_def find_cancellation_def find_row_def wit_ready_rows wit_leased_fields wit_cancel_fields
      checked_run_def checks update_row_def flip: wit_canceled_run_def)
qed


lemma wit_cancel_commits:
  obtains d where "CancelOwnedRun wit_result_env wit_coordinator 3000 wit_result_clock 7 6 [] wit_ready = (Inr wit_cancel_result, d)"
    "db_runs d = [wit_canceled_run]" "db_cancellations d = [wit_cancellation]" "db_attempts d = [wit_owner]"
    "db_sessions d = db_sessions wit_ready" "db_nodes d = db_nodes wit_ready" "db_tokens d = db_tokens wit_ready"
    "db_attachments d = db_attachments wit_ready" "db_wire_contracts d = db_wire_contracts wit_ready"
proof -
  obtain sig where sig: "cancel_signal_payload wit_result_env 6 wit_cancellation wit_owner = Inr sig" using wit_cancel_payload ..
  let ?d = "wit_ready\<lparr>db_cancellations := [wit_cancellation]\<rparr>"
  let ?e = "?d\<lparr>db_events := [wit_event, wit_cancel_event], db_runs := [wit_canceled_run], db_ledger := [\<lparr>ld_RunID = 6,
     ld_TerminalEventID = 40, ld_AgentID = 3, ld_SuccessDelta = 0, ld_RevenueDeltaCents = 0\<rparr>],
     db_signals := [\<lparr>sg_EventType = ''run.cancel'', sg_AgentID = 3, sg_RunID = Some 6, sg_Payload = sig, sg_AvailableAt = 3005\<rparr>]\<rparr>"
  have ids: "deterministicTerminalEventID wit_result_env 6 t = 40" "deterministicRuntimeCancellationID wit_result_env 6 = 40" for t
    by (simp_all add: deterministicTerminalEventID_def deterministicRuntimeCancellationID_def wit_result_env_def)
  have raw: "marshalRuntimeResultJSON wit_result_env v d = Inr (''{}'', d)" for v d
    by (simp add: marshalRuntimeResultJSON_def wit_result_env_def tx_defs)
  have dur: "runtimeCancellationDurationMS 3000 1 = Inr 0" by code_simp
  have ev: "ev_ID wit_cancel_event = 40" by (simp add: wit_cancel_event_def wit_terminal_event_def)
  have clock: "wit_result_clock 0 = 3000" "wit_result_clock 3 = 3003" "wit_result_clock 4 = 3004" "wit_result_clock 5 = 3005" "wit_result_clock 1 = 3001"
    "wit_result_clock (Suc 0) = 3001"
    by (simp_all add: wit_result_clock_def)
  have persist: "PersistCancellationTerminal wit_result_env 3000 wit_result_clock wit_leased wit_cancellation (Some wit_owner) ?d =
      Inr (wit_canceled_run, ?e)"
    unfolding PersistCancellationTerminal_def Let_def
    by (simp add: wit_leased_fields ids raw dur clock wit_owner_open tx_defs runtimeResultRunFromLocked_def wit_cancel_discover
        wit_cancel_event row_or_def wit_cancel_ends wit_cancel_fields ev insertRuntimeCancellationLedger_def InsertRunAccountingLedger_def
        wit_ready_rows find_row_def insert_row_def sig CreateRuntimeSignal_def GetRunByID_def Let_def)
  have target: "cancel_target wit_leased wit_ready = Inr (Some wit_owner, wit_ready)"
    by (simp add: cancel_target_def wit_leased_fields tx_defs stale_one_def stale_guard_def LockRunAttemptForResult_def wit_ready_rows
        find_row_def wit_owner_fields runtimeCancellationActiveAttemptMatches_def wit_owner_open)
  have create: "CreateRunCancellation 40 6 (Some 10) ''user'' 7 (Some ''Run canceled by owner'') 3001 wit_ready =
      Inr (wit_cancellation, ?d)"
    by (simp add: CreateRunCancellation_def find_cancellation_def wit_cancel_rows find_row_def insert_row_def wit_cancellation_def Let_def)
  have "cancel_tx wit_result_env 3000 wit_result_clock 7 6 ''Run canceled by owner'' wit_ready = Inr (wit_cancel_result, ?e)"
    unfolding cancel_tx_def cancel_new_def Let_def
    by (simp add: tx_defs LockRunForResultFinalization_def wit_ready_rows find_row_def wit_leased_fields wit_owner_open ids target wit_owner_fields
        clock create wit_cancel_fields persist wit_cancel_result_def)
  then have "CancelOwnedRun wit_result_env wit_coordinator 3000 wit_result_clock 7 6 [] wit_ready = (Inr wit_cancel_result, ?e)"
    by (simp add: CancelOwnedRun_def wit_cancel_reason WithTransaction_def wit_coordinator_def NewRuntimeCancellationCoordinator_def)
  then show ?thesis by (rule that) (simp_all add: wit_ready_rows)
qed

lemma wit_canceling:
  "CancelOwnedRun wit_result_env wit_coordinator 3000 wit_result_clock 7 6 [] wit_ready = (Inr wit_cancel_result, wit_canceling)"
  "db_runs wit_canceling = [wit_canceled_run]" "db_cancellations wit_canceling = [wit_cancellation]" "db_attempts wit_canceling = [wit_owner]"
  "db_sessions wit_canceling = db_sessions wit_ready" "db_nodes wit_canceling = db_nodes wit_ready" "db_tokens wit_canceling = db_tokens wit_ready"
  "db_attachments wit_canceling = db_attachments wit_ready" "db_wire_contracts wit_canceling = db_wire_contracts wit_ready"
  unfolding wit_canceling_def by (rule wit_cancel_commits, simp)+


section \<open>The attempt stops\<close>

definition wit_codec :: "'p struct_codec" where
  "wit_codec = \<lparr>sc_decode = (\<lambda>_. Inl ErrNoRows), sc_trailing = (\<lambda>_. ErrNoRows), sc_required = (\<lambda>_. None)\<rparr>"

definition wit_decoders :: payload_decoders where
  "wit_decoders = \<lparr>pd_RunCancel = wit_codec, pd_Drain = wit_codec, pd_LeaseRevoked = wit_codec,
     pd_ViewerCommand = wit_codec, pd_ObserverCommand = wit_codec\<rparr>"

definition wit_stop_ack :: RunCancelAckPayload where
  "wit_stop_ack = \<lparr>cak_CancellationID = 40, cak_AttemptIdentity = wit_identity, cak_CancelState = ''stopped'', cak_ErrorCode = []\<rparr>"

text \<open>The end of the attempt in any world with the canceled run whose cancellation has an outcome.\<close>

lemma wit_cancel_finish:
  assumes "db_runs d = [wit_canceled_run]" "db_cancellations d = [x]" "db_attempts d = [wit_owner]"
    "db_sessions d = [wit_session 1 1005 1005]" "db_nodes d = [wit_node 1 (Some 1006) 1006]"
    and x: "cx_ID x = 40" "cx_RunID x = 6" "cx_TargetAttemptID x = Some 10" "cx_State x = ''stopped'' \<or> cx_State x = ''unconfirmed''"
    and clk: "1007 \<le> clk (Suc 0)"
  obtains d' where "finishRuntimeCancellationAttempt wit_owner code 30000000000 clk d = Inr ((), d')"
    "db_runs d' = db_runs d" "db_cancellations d' = db_cancellations d"
proof -
  let ?a = "canceled_attempt code (clk 0) wit_owner"
  let ?d = "d\<lparr>db_attempts := [?a\<lparr>a_SlotReleasedAt := Some (clk (Suc 0)), a_ActiveRuntimeSessionID := None\<rparr>]\<rparr>"
  have deadline: "deadline_configured 30000000000" by code_simp
  have target: "canceled_target wit_owner d = Some (wit_canceled_run, x)"
    using assms by (simp add: canceled_target_def wit_owner_fields find_row_def find_cancellation_def wit_cancel_fields)
  have fin: "FinishRuntimeCanceledAttempt code 6 10 11 1 ms (clk 0) d = Some (?a, d\<lparr>db_attempts := [?a]\<rparr>)" for ms
    using assms(3) x(4) by (auto simp: FinishRuntimeCanceledAttempt_def find_row_def wit_owner_fields attempt_key_def
        attempt_unresolved_def wit_owner_open target update_row_def)
  have mark: "MarkRunAttemptCapacityReleased 6 10 11 1 (clk (Suc 0)) (d\<lparr>db_attempts := [?a]\<rparr>) =
      Some (\<lparr>cap_RuntimeSessionID = 1, cap_NodeID = 2, cap_SlotAcquiredAt = 1007, cap_SlotReleasedAt = clk (Suc 0)\<rparr>, ?d)"
    by (simp add: MarkRunAttemptCapacityReleased_def find_row_def canceled_attempt_def attempt_key_def wit_owner_fields update_row_def)
  have ses: "ReleaseRuntimeSessionSlot 1 t ?d = Some (wit_session 0 1005 t, ?d\<lparr>db_sessions := [wit_session 0 1005 t]\<rparr>)" for t
    using assms by (simp add: ReleaseRuntimeSessionSlot_def find_row_def update_row_def wit_session_def Let_def)
  have nod: "ReleaseRuntimeNodeSlot 2 t (?d\<lparr>db_sessions := y\<rparr>) =
      Some (wit_node 0 (Some 1006) t, ?d\<lparr>db_sessions := y, db_nodes := [wit_node 0 (Some 1006) t]\<rparr>)" for t y
    using assms by (simp add: ReleaseRuntimeNodeSlot_def find_row_def update_row_def wit_node_def Let_def)
  have fields: "a_FinishedAt ?a = Some (clk 0)" "a_Outcome ?a = Some ''canceled''" "a_SlotAcquiredAt ?a = Some 1007"
      "a_ActiveRuntimeSessionID ?a = Some 1" "a_NodeID ?a = Some 2"
    by (simp_all add: canceled_attempt_def wit_owner_fields)
  let ?e = "?d\<lparr>db_sessions := [wit_session 0 1005 (clk 2)], db_nodes := [wit_node 0 (Some 1006) (clk 3)],
    db_signals := insert_row \<lparr>sg_EventType = ''node.capacity.available'', sg_AgentID = 3, sg_RunID = Some 6,
        sg_Payload = signal_payload ''node_id'' 2, sg_AvailableAt = clk 4\<rparr> (db_signals d)\<rparr>"
  have "finishRuntimeCancellationAttempt wit_owner code 30000000000 clk d = Inr ((), ?e)"
    using clk by (simp add: finishRuntimeCancellationAttempt_def deadline tx_defs wit_owner_fields stale_one_def fin mark ses nod fields
        createRuntimeNodeCapacityAvailableSignal_def CreateRuntimeSignal_def Let_def IsZero_def)
  then show ?thesis by (rule that) simp_all
qed

lemma wit_tables:
  "db_sessions wit_ready = [wit_session 1 1005 1005]" "db_nodes wit_ready = [wit_node 1 (Some 1006) 1006]"
  "db_tokens wit_ready = db_tokens wit_db" "db_attachments wit_ready = db_attachments wit_db"
  "db_wire_contracts wit_ready = db_wire_contracts wit_db"
  by (simp_all add: wit_ready_rows) (simp_all add: wit_ready_def wit_reported_def wit_executing_def wit_worlds)

lemma wit_event_principal: "EventPrincipal wit_principal = wit_event_principal"
  by (simp add: EventPrincipal_def wit_principal_def wit_event_principal_def)

text \<open>The mirror of the outcome on the canceled run.\<close>

lemma wit_mirror:
  assumes "db_runs d = [wit_canceled_run]" "db_cancellations d = [x]" "cx_ID x = 40" "cx_RunID x = 6"
  shows "mirror_tx x d = Inr ((), set_run 6 (mirrored wit_canceled_run x) d)"
  using assms by (simp add: mirror_tx_def tx_defs stale_one_def stale_guard_def MirrorRuntimeRunCancellationState_def find_row_def
      find_cancellation_def wit_cancel_fields mirrored_def Let_def)

lemma wit_advance:
  assumes "db_cancellations d = [wit_cancellation]" "3001 \<le> now"
    "cancellation_evidence (advanced_cancellation target code now wit_cancellation)"
    "target \<in> {''stopped'', ''unconfirmed''}"
  shows "AdvanceRuntimeRunCancellation target code 6 40 ''requested'' now d =
    Inr (Some (advanced_cancellation target code now wit_cancellation),
         d\<lparr>db_cancellations := [advanced_cancellation target code now wit_cancellation]\<rparr>)"
proof -
  have "cancellation_time_order (advanced_cancellation target code now wit_cancellation)"
    using assms(2,4) by (auto simp: cancellation_time_order_def advanced_cancellation_def Let_def wit_cancellation_def coalesce_def not_before_def)
  moreover have "cx_UpdatedAt (advanced_cancellation target code now wit_cancellation) = now" "cx_UpdatedAt wit_cancellation = 3001"
    by (simp_all add: advanced_cancellation_def Let_def wit_cancellation_def)
  moreover have "target \<in> {''delivered'', ''stopping'', ''stopped'', ''unsupported'', ''failed'', ''unconfirmed''}" using assms(4) by auto
  moreover have "cancellation_transition ''requested'' target" using assms(4) by (auto simp: cancellation_transition_def)
  ultimately show ?thesis
    using assms(1-3) by (simp add: AdvanceRuntimeRunCancellation_def find_cancellation_def find_row_def wit_cancel_fields Let_def
        set_cancellation_def update_row_def)
qed

lemma wit_stop_commits:
  obtains st d where "AckCancel wit_decoders wit_coordinator wit_result_clock wit_principal wit_stop_ack wit_canceling = (Inr st, d)" "d \<noteq> wit_canceling"
proof -
  let ?x = "advanced_cancellation ''stopped'' None 3002 wit_cancellation"
  let ?d = "wit_canceling\<lparr>db_cancellations := [?x]\<rparr>"
  have x: "cx_ID ?x = 40" "cx_RunID ?x = 6" "cx_TargetAttemptID ?x = Some 10" "cx_State ?x = ''stopped''" "cancellation_evidence ?x"
    by (simp_all add: advanced_cancellation_def Let_def wit_cancellation_def cancellation_evidence_def)
  note tables = wit_canceling(2-) wit_tables
  obtain d2 where d2: "finishRuntimeCancellationAttempt wit_owner None 30000000000 (\<lambda>n. wit_result_clock (3 + n)) ?d = Inr ((), d2)"
      "db_runs d2 = [wit_canceled_run]" "db_cancellations d2 = [?x]"
    by (rule wit_cancel_finish[of ?d ?x "\<lambda>n. wit_result_clock (3 + n)" None])
       (use x tables in \<open>simp_all add: wit_result_clock_def\<close>)
  have clock: "wit_result_clock 2 = 3002" by (simp add: wit_result_clock_def)
  have adv: "ack_advance wit_coordinator wit_result_clock wit_stop_ack wit_cancellation wit_owner wit_canceling =
      Inr (?x, set_run 6 (mirrored wit_canceled_run ?x) d2)"
    using wit_advance[of wit_canceling 3002 "''stopped''" None] x wit_mirror[OF d2(2,3) x(1,2)] d2(1)
    by (simp add: ack_advance_def wit_stop_ack_def tx_defs row_or_def wit_cancel_fields clock tables wit_coordinator_def
        NewRuntimeCancellationCoordinator_def defaultRuntimeCancellationDeadline_def second_def millisecond_def)
  obtain l where lock: "lockRuntimePrincipal wit_event_principal (wit_result_clock 0) wit_canceling = Inr (Some l, wit_canceling)"
      "t_ExpiresAt (lp_credential l) = None"
    by (rule wit_event_lock[of wit_canceling 1 1005 1005 1 "Some 1006" 1006]) (simp_all add: tables)
  have valid: "validAt (Some l) (wit_result_clock (Suc 0))" using lock(2) by (simp add: validAt_def wit_result_clock_def IsZero_def)
  have match: "runtimeCancellationAckIdentityMatches wit_canceled_run wit_event_principal wit_stop_ack wit_cancellation wit_owner"
  proof -
    have "RuntimeIdentity wit_identity = wit_event_identity" by (simp add: RuntimeIdentity_def wit_identity_def wit_event_identity_def)
    moreover have "runtimeIdentityMatchesAttempt wit_event_identity wit_owner"
      using wit_event_matches by (auto simp: wit_owner_def runtimeIdentityMatchesAttempt_def)
    ultimately show ?thesis
      using wit_result_owner(1) by (simp add: runtimeCancellationAckIdentityMatches_def wit_cancel_fields wit_stop_ack_def wit_owner_fields)
  qed
  have "ack_cancel_tx wit_coordinator wit_result_clock wit_principal wit_stop_ack wit_canceling =
      Inr (runtimeCancellationStateFromDB ?x, set_run 6 (mirrored wit_canceled_run ?x) d2)"
    unfolding ack_cancel_tx_def Let_def
    using match adv valid
    by (simp add: tx_defs lock_principal_def wit_event_principal lock stale_one_def stale_guard_def LockRunForResultFinalization_def
        LockRunAttemptForResult_def LockRunCancellationForMutation_def find_cancellation_def find_row_def tables wit_stop_ack_def
        wit_identity_def wit_cancel_fields wit_owner_fields runtimeCancellationAckAlreadyCovered_def runtimeCancellationTransitionAllowed_def
        runtimeCancellationAckFinalState_def)
  moreover have "ValidateRuntimePayload wit_decoders (PRunCancelAck wit_stop_ack) = None"
    using wit_identity_valid by (simp add: ValidateRuntimePayload_def validateRunCancelAck_def wit_stop_ack_def err_then_def err_if_def
        validRuntimeCancelState_def validOptionalString_def)
  moreover have "validatePrincipalAttemptIdentity wit_principal wit_identity = None"
    by (simp add: validatePrincipalAttemptIdentity_def wit_actors err_if_def)
  ultimately have "AckCancel wit_decoders wit_coordinator wit_result_clock wit_principal wit_stop_ack wit_canceling =
      (Inr (runtimeCancellationStateFromDB ?x), set_run 6 (mirrored wit_canceled_run ?x) d2)"
    by (simp add: AckCancel_def WithTransaction_def wit_coordinator_def NewRuntimeCancellationCoordinator_def)
       (simp add: wit_stop_ack_def validRuntimeCancellationAck_def WithTransaction_def)
  moreover have "set_run 6 (mirrored wit_canceled_run ?x) d2 \<noteq> wit_canceling"
  proof
    assume "set_run 6 (mirrored wit_canceled_run ?x) d2 = wit_canceling"
    from arg_cong[OF this, of db_cancellations] have "db_cancellations d2 = db_cancellations wit_canceling" by simp
    with d2(3) have "?x = wit_cancellation" by (simp add: tables)
    with x(4) show False by (simp add: wit_cancel_fields)
  qed
  ultimately show ?thesis by (rule that)
qed


section \<open>The reaper\<close>

definition wit_late :: "nat \<Rightarrow> gotime" where
  "wit_late n = 40000000000 + int n"

lemma wit_join: "List.map_filter (cancellation_join wit_canceling) (db_runs wit_canceling) = [(wit_canceled_run, wit_cancellation, wit_owner)]"
  by (simp add: wit_canceling(2) List.map_filter_simps cancellation_join_def find_cancellation_def find_row_def wit_canceling
      wit_cancel_fields wit_owner_fields)

lemma wit_reapable: "reapable_runtime wit_cancellation wit_owner" "\<not> reapable_core wit_cancellation wit_owner"
  "reap_due_at 30000 wit_cancellation = 30000003001"
  by (simp_all add: reapable_runtime_def reapable_core_def open_state_def wit_cancel_fields wit_owner_fields wit_owner_open is_core_executor_def
      reap_due_at_def after_ms_def millisecond_def)

lemma wit_reap_commits:
  obtains st d where "ReapExpiredCancellation wit_coordinator (wit_late, wit_late) wit_canceling = (Inr (Some st), d)"
proof -
  let ?code = "Some runtimeCancellationUnconfirmedCode"
  let ?x = "advanced_cancellation ''unconfirmed'' ?code 40000000002 wit_cancellation"
  let ?d = "wit_canceling\<lparr>db_cancellations := [?x]\<rparr>"
  have x: "cx_ID ?x = 40" "cx_RunID ?x = 6" "cx_TargetAttemptID ?x = Some 10" "cx_State ?x = ''unconfirmed''" "cancellation_evidence ?x"
    by (simp_all add: advanced_cancellation_def Let_def wit_cancellation_def cancellation_evidence_def)
  note tables = wit_canceling(2-) wit_tables
  have ms: "Milliseconds 30000000000 = 30000" "cn_commandDeadline wit_coordinator = 30000000000"
      "command_ready wit_coordinator" "deadline_configured 30000000000" by code_simp+
  obtain d2 where d2: "finishRuntimeCancellationAttempt wit_owner ?code 30000000000 (\<lambda>n. wit_late (3 + n)) ?d = Inr ((), d2)"
      "db_runs d2 = [wit_canceled_run]" "db_cancellations d2 = [?x]"
    by (rule wit_cancel_finish[of ?d ?x "\<lambda>n. wit_late (3 + n)" ?code]) (use x tables in \<open>simp_all add: wit_late_def\<close>)
  have clock: "wit_late 0 = 40000000000" "wit_late (Suc 0) = 40000000001" "wit_late 2 = 40000000002" by (simp_all add: wit_late_def)
  have adv: "reap_advance wit_cancellation 40000000002 wit_canceling = Inr (?x, ?d)"
    using wit_advance[of wit_canceling 40000000002 "''unconfirmed''" ?code] x
    by (simp add: reap_advance_def open_state_def wit_cancel_fields tx_defs row_or_def tables)
  let ?c = "\<lparr>cd_RunID = 6, cd_AgentID = 3, cd_CancellationID = 40, cd_TargetAttemptID = 10, cd_DatabaseNow = 40000000001\<rparr>"
  have match: "runtimeCancellationReapTargetMatches ?c wit_cancellation wit_owner 30000000000"
    using ms(4) by (simp add: runtimeCancellationReapTargetMatches_def wit_cancel_fields wit_owner_fields wit_owner_open open_state_def attempt_unresolved_def)
  have locked: "reap_runtime_locked wit_coordinator wit_late ?c wit_canceling =
      Inr (runtimeCancellationStateFromDB ?x, set_run 6 (mirrored wit_canceled_run ?x) d2)"
    using match adv d2(1) wit_mirror[OF d2(2,3) x(1,2)]
    by (simp add: reap_runtime_locked_def tx_defs stale_one_def stale_guard_def LockRunAttemptForResult_def LockRunCancellationForMutation_def
        find_cancellation_def find_row_def tables wit_cancel_fields wit_owner_fields ms clock)
  have find: "FindNextDueRuntimeCoreCancellation 30000 40000000000 wit_canceling = None"
      "FindNextDueRuntimeCancellation 30000 40000000000 wit_canceling = Some (\<lparr>cd_RunID = 6, cd_AgentID = 3, cd_CancellationID = 40,
         cd_TargetAttemptID = 10, cd_DatabaseNow = 40000000000, cd_RuntimeSessionID = 1, cd_NodeID = 2\<rparr>, wit_canceling)"
    by (simp_all add: FindNextDueRuntimeCoreCancellation_def FindNextDueRuntimeCancellation_def wit_join wit_reapable first_by_def
        wit_cancel_fields wit_owner_fields)
  have "find_run 6 wit_canceling = Some wit_canceled_run" by (simp add: tables find_row_def wit_cancel_fields)
  moreover have "cancellation_join wit_canceling wit_canceled_run = Some (wit_canceled_run, wit_cancellation, wit_owner)"
    using wit_join by (simp add: tables List.map_filter_simps split: option.split_asm)
  ultimately have lock: "LockDueRuntimeCancellationRun 6 40 10 1 2 30000 40000000001 wit_canceling = Some (?c, wit_canceling)"
    by (simp add: LockDueRuntimeCancellationRun_def wit_reapable cancellation_candidate_def wit_cancel_fields wit_owner_fields)
  have "reap_runtime_tx wit_coordinator wit_late wit_canceling =
      Inr (Some (runtimeCancellationStateFromDB ?x), set_run 6 (mirrored wit_canceled_run ?x) d2)"
    using locked
    by (simp add: reap_runtime_tx_def Let_def ms clock tx_defs find stale_guard_def LockRuntimeSessionForCancellationReap_def
        LockRuntimeNodeForCancellationReap_def find_row_def tables wit_session_def wit_node_def lock)
  moreover have "reap_core_tx wit_coordinator wit_late wit_canceling = Inr (None, wit_canceling)"
    by (simp add: reap_core_tx_def Let_def ms clock tx_defs find)
  ultimately have "ReapExpiredCancellation wit_coordinator (wit_late, wit_late) wit_canceling =
      (Inr (Some (runtimeCancellationStateFromDB ?x)), set_run 6 (mirrored wit_canceled_run ?x) d2)"
    by (simp add: ReapExpiredCancellation_def ms(3) reapExpiredCoreCancellation_def WithTransaction_def)
  then show ?thesis by (rule that)
qed

end
