(* ===== verification/Cancellation_Laws.thy ===== *)
theory Cancellation_Laws
  imports Cancellation_Example
begin

text \<open>
  What the cancellation coordinator guarantees: the summary on the run always agrees with the
  cancellation row, a cancellation only moves forward and its outcome is final, canceling is immediate
  and idempotent, a confirmed stop gives the slot back, and the reaper makes progress. \<open>cancel_request\<close>
  is one request to the coordinator.
\<close>

section \<open>Requests\<close>

datatype cancel_request =
    CancelRun result_env RuntimeCancellationCoordinator gotime "nat \<Rightarrow> gotime" uuid uuid string
  | PollRequest command_env RuntimeCancellationCoordinator "nat \<Rightarrow> gotime" "uuid \<Rightarrow> bool" RuntimeSessionPrincipal
  | StopAck payload_decoders RuntimeCancellationCoordinator "nat \<Rightarrow> gotime" RuntimeSessionPrincipal RunCancelAckPayload
  | CoreStopped RuntimeCancellationCoordinator "nat \<Rightarrow> gotime" uuid RuntimeAttemptIdentity
  | ReapRequest RuntimeCancellationCoordinator "nat \<Rightarrow> (nat \<Rightarrow> gotime) \<times> (nat \<Rightarrow> gotime)" int

datatype cancel_reply =
    CancelReply "go_error + RuntimeCancellationResult"
  | PollReply "RuntimeCommandsResponse option \<times> go_error option"
  | StopReply "go_error + RunCancellationState"
  | ReapReply "int \<times> go_error option"

fun cancel_request_step :: "cancel_request \<Rightarrow> runtime_db \<Rightarrow> cancel_reply \<times> runtime_db" where
  "cancel_request_step (CancelRun fe c began clk requester runID reason) d =
     apfst CancelReply (CancelOwnedRun fe c began clk requester runID reason d)"
| "cancel_request_step (PollRequest ce c clk held p) d = apfst PollReply (PollCommands ce c clk held p d)"
| "cancel_request_step (StopAck decs c clk p request) d = apfst StopReply (AckCancel decs c clk p request d)"
| "cancel_request_step (CoreStopped c clk core i) d = apfst StopReply (AcknowledgeCoreStopped c clk core i d)"
| "cancel_request_step (ReapRequest c turns limit) d = apfst ReapReply (ReapExpiredCancellations c turns limit d)"

section \<open>The summary\<close>

text \<open>The condition of the deferred trigger \<open>enforce_run_cancellation_summary_consistency\<close>.\<close>

definition cancel_summary :: "runtime_db \<Rightarrow> bool" where
  "cancel_summary d \<longleftrightarrow>
     (\<forall>r \<in> set (db_runs d).
        (case r_CancelRequestID r of
           None \<Rightarrow> find_cancellation (r_ID r) d = None
         | Some k \<Rightarrow> (\<exists>x. find_cancellation (r_ID r) d = Some x \<and> summary_of r x)) \<and>
        (r_RuntimeContractID r = RuntimeContractID \<longrightarrow>
           (if r_Status r = ''canceled'' then r_DispatchState r = ''terminal'' \<and> r_CancelRequestID r \<noteq> None
            else r_CancelRequestID r = None)))"

definition cancel_inv :: "runtime_db \<Rightarrow> bool" where
  "cancel_inv d \<longleftrightarrow> lease_inv d \<and> cancel_summary d"

lemma summary_mirrored: "summary_of r x \<Longrightarrow> advances x x' \<Longrightarrow> summary_of (mirrored r x') x'"
  by (simp add: summary_of_def mirrored_def advances_def same_cancellation_def)

lemma cancel_summaryD:
  assumes "cancel_summary d" "find_run runID d = Some r" "r_CancelRequestID r = Some k"
  obtains x where "find_cancellation runID d = Some x" "summary_of r x"
proof -
  have "r \<in> set (db_runs d)" "r_ID r = runID" using find_row_SomeD[OF assms(2)] by simp_all
  with assms(1,3) show ?thesis unfolding cancel_summary_def by (auto dest!: bspec intro: that)
qed

text \<open>Replacing a run and its cancellation together keeps the summary of every other run.\<close>

lemma summary_update:
  assumes ok: "cancel_summary d" and keys: "unique_keys r_ID (db_runs d)" and r: "find_run runID d = Some r"
    and d': "db_runs d' = update_row r_ID runID (\<lambda>_. r') (db_runs d)" "replaces_cancellation runID x d d'"
    and r': "r_ID r' = runID" "summary_of r' x" "r_Status r' = ''canceled''" "r_DispatchState r' = ''terminal''"
  shows "cancel_summary d'"
  unfolding cancel_summary_def
proof
  fix y assume "y \<in> set (db_runs d')"
  then consider "y = r'" | "y \<in> set (db_runs d)" "r_ID y \<noteq> runID" unfolding d'(1) by (blast dest: in_update_row)
  then show "(case r_CancelRequestID y of None \<Rightarrow> find_cancellation (r_ID y) d' = None
         | Some k \<Rightarrow> (\<exists>x. find_cancellation (r_ID y) d' = Some x \<and> summary_of y x)) \<and>
        (r_RuntimeContractID y = RuntimeContractID \<longrightarrow>
           (if r_Status y = ''canceled'' then r_DispatchState y = ''terminal'' \<and> r_CancelRequestID y \<noteq> None
            else r_CancelRequestID y = None))"
  proof cases
    case 1
    with r' d'(2) show ?thesis by (auto simp: summary_of_def replaces_cancellation_def)
  next
    case 2
    with ok have *: "(case r_CancelRequestID y of None \<Rightarrow> find_cancellation (r_ID y) d = None
         | Some k \<Rightarrow> (\<exists>x. find_cancellation (r_ID y) d = Some x \<and> summary_of y x)) \<and>
        (r_RuntimeContractID y = RuntimeContractID \<longrightarrow>
           (if r_Status y = ''canceled'' then r_DispatchState y = ''terminal'' \<and> r_CancelRequestID y \<noteq> None
            else r_CancelRequestID y = None))" by (simp add: cancel_summary_def)
    have eq: "find_cancellation (r_ID y) d' = find_cancellation (r_ID y) d" using d'(2) 2(2) by (simp add: replaces_cancellation_def)
    show ?thesis unfolding eq by (rule *)
  qed
qed

lemma created_inv: "cancel_created runID r r' x d d' \<Longrightarrow> cancel_inv d \<Longrightarrow> cancel_inv d'"
  unfolding cancel_inv_def
proof (elim conjE, intro conjI)
  assume c: "cancel_created runID r r' x d d'" and inv: "lease_inv d" "cancel_summary d"
  show "lease_inv d'" by (rule run_step_lease_inv[OF cancel_created_step[OF c] inv(1)])
  from c have "r_ID r' = runID" by (auto simp: cancel_created_def closes_run_def dest: find_row_key)
  with c inv show "cancel_summary d'"
    by (intro summary_update[OF inv(2), of runID r]) (auto simp: cancel_created_def lease_inv_def keys_ok_def)
qed

lemma moved_inv: "cancel_moved runID x x' stopped d d' \<Longrightarrow> cancel_inv d \<Longrightarrow> cancel_inv d'"
  unfolding cancel_inv_def
proof (elim conjE, intro conjI)
  assume m: "cancel_moved runID x x' stopped d d'" and inv: "lease_inv d" "cancel_summary d"
  show "lease_inv d'" by (rule steps_lease_inv_run[OF cancel_moved_steps[OF inv(1) m] inv(1)])
  from m obtain r where r: "find_run runID d = Some r" "r_Status r = ''canceled''" "r_DispatchState r = ''terminal''"
      "r_CancelRequestID r = Some (cx_ID x)" "db_runs d' = update_row r_ID runID (\<lambda>_. mirrored r x') (db_runs d)"
    and x: "find_cancellation runID d = Some x" "advances x x'" "replaces_cancellation runID x' d d'"
    by (auto simp: cancel_moved_def)
  from cancel_summaryD[OF inv(2) r(1,4)] x(1) have "summary_of r x" by auto
  with x(2) have "summary_of (mirrored r x') x'" by (rule summary_mirrored[rotated])
  moreover have "r_ID (mirrored r x') = runID" using find_row_key[OF r(1)] by (simp add: mirrored_def)
  ultimately show "cancel_summary d'"
    using inv(1) r by (intro summary_update[OF inv(2) _ r(1,5) x(3)]) (simp_all add: lease_inv_def keys_ok_def mirrored_def)
qed


section \<open>Every request is a sequence of moves\<close>

inductive cancel_move :: "runtime_db \<Rightarrow> runtime_db \<Rightarrow> bool" where
  Created: "cancel_created runID r r' x d d' \<Longrightarrow> r_RuntimeContractID r = RuntimeContractID \<Longrightarrow> cancel_move d d'"
| Moved: "cancel_moved runID x x' stopped d d' \<Longrightarrow> cancel_move d d'"

lemma move_inv: "cancel_move d d' \<Longrightarrow> cancel_inv d \<Longrightarrow> cancel_inv d'"
  by (induction rule: cancel_move.induct) (blast intro: created_inv moved_inv)+

lemma moves_inv: "cancel_move\<^sup>*\<^sup>* d d' \<Longrightarrow> cancel_inv d \<Longrightarrow> cancel_inv d'"
  by (induction rule: rtranclp_induct) (blast intro: move_inv)+

lemma cancel_inv_lease: "cancel_inv d \<Longrightarrow> lease_inv d"
  by (simp add: cancel_inv_def)

lemma progress_moves: "cancel_progress d d' \<Longrightarrow> cancel_move\<^sup>*\<^sup>* d d'"
  by (auto simp: cancel_progress_def intro: cancel_move.Moved)

lemma CancelOwnedRun_cases:
  assumes "CancelOwnedRun fe c began clk requester runID reason d = (out, d')"
  obtains (refused) err where "out = Inl err" "d' = d"
    | (answered) res reason' where "out = Inr res" "cancel_tx fe began clk requester runID reason' d = Inr (res, d')"
  using assms by (cases "normalizeRuntimeCancellationReason reason")
    (auto simp: CancelOwnedRun_def WithTransaction_def split: if_split_asm sum.split_asm)

lemma CancelOwnedRun_moves:
  assumes "lease_inv d"
  shows "cancel_move\<^sup>*\<^sup>* d (snd (CancelOwnedRun fe c began clk requester runID reason d))"
proof (cases "CancelOwnedRun fe c began clk requester runID reason d")
  case (Pair out d')
  then show ?thesis
  proof (cases rule: CancelOwnedRun_cases)
    case (answered res reason')
    from this(2) assms show ?thesis by (rule cancel_tx_cases) (use Pair in \<open>auto intro: cancel_move.Created\<close>)
  qed (use Pair in simp)
qed

lemma PollCommands_db: "snd (PollCommands ce c clk held p d) = snd (NextCommand ce c clk held p d)"
  by (auto simp: PollCommands_def split: prod.split sum.split)

lemma reap_loop_moves: "lease_inv d \<Longrightarrow> cancel_move\<^sup>*\<^sup>* d (snd (reap_loop c turns k n d))"
proof (induction c turns k n d rule: reap_loop.induct)
  case (2 c turns left reaped d)
  obtain out d' where out: "ReapExpiredCancellation c (turns 0) d = (out, d')" by fastforce
  note moves = ReapExpiredCancellation_moves[OF out 2(2)]
  show ?case
  proof (cases "\<exists>st. out = Inr (Some st)")
    case True
    then obtain st where st: "out = Inr (Some st)" ..
    with moves have m: "cancel_move d d'" by (auto intro: cancel_move.Moved)
    from st moves have "lease_inv d'"
      using cancel_moved_steps[OF 2(2)] steps_lease_inv_run[OF _ 2(2)] by auto
    from 2(1)[OF out[symmetric] st refl this] m out st show ?thesis by (simp add: converse_rtranclp_into_rtranclp)
  qed (use moves out in \<open>auto split: sum.split option.split\<close>)
qed simp

lemma request_moves: "lease_inv d \<Longrightarrow> cancel_move\<^sup>*\<^sup>* d (snd (cancel_request_step q d))"
  by (cases q) (simp_all add: CancelOwnedRun_moves PollCommands_db progress_moves NextCommand_progress AckCancel_progress
      AcknowledgeCoreStopped_progress ReapExpiredCancellations_def reap_loop_moves)

interpretation cancel_service: service_inv cancel_request_step cancel_inv
  by unfold_locales (rule moves_inv[OF request_moves[OF cancel_inv_lease]])


section \<open>Cancellations move forward\<close>

definition cancel_stage :: "string \<Rightarrow> nat" where
  "cancel_stage s = (if s = RuntimeCancelRequested then 0 else if s = RuntimeCancelDelivered then 1
     else if s = RuntimeCancelStopping then 2 else 3)"

text \<open>One cancellation after some requests: the same, not behind, and unchanged once it has an outcome.\<close>

definition follows :: "CancellationRow \<Rightarrow> CancellationRow \<Rightarrow> bool" where
  "follows x x' \<longleftrightarrow> same_cancellation x x' \<and> cancel_stage (cx_State x) \<le> cancel_stage (cx_State x') \<and>
     (\<not> open_state (cx_State x) \<longrightarrow> x' = x)"

lemma follows_refl [simp]: "follows x x"
  by (simp add: follows_def same_cancellation_def)

lemma follows_trans: "follows x y \<Longrightarrow> follows y z \<Longrightarrow> follows x z"
  by (auto simp: follows_def same_cancellation_def)

lemma advances_follows: "advances x x' \<Longrightarrow> follows x x'"
  by (auto simp: advances_def follows_def same_cancellation_def open_state_def cancellation_transition_def cancel_stage_def)

text \<open>A running run of the runtime contract has no cancellation yet.\<close>

lemma summary_running:
  assumes "cancel_summary d" "find_run runID d = Some r" "r_Status r = ''running''" "r_RuntimeContractID r = RuntimeContractID"
  shows "find_cancellation runID d = None"
proof -
  have "r \<in> set (db_runs d)" "r_ID r = runID" using find_row_SomeD[OF assms(2)] by simp_all
  with assms(1,3,4) show ?thesis unfolding cancel_summary_def by (auto dest!: bspec)
qed

lemma move_follows:
  assumes "cancel_move d d'" "cancel_inv d" "find_cancellation runID d = Some x"
  shows "\<exists>x'. find_cancellation runID d' = Some x' \<and> follows x x'"
  using assms(1)
proof cases
  case (Created j r r' y)
  with assms(2) have "find_cancellation j d = None"
    by (intro summary_running) (auto simp: cancel_inv_def cancel_created_def)
  with Created assms(3) show ?thesis by (auto simp: cancel_created_def replaces_cancellation_def)
next
  case (Moved j y y' stopped)
  then show ?thesis using assms(3) advances_follows by (auto simp: cancel_moved_def replaces_cancellation_def)
qed

lemma moves_follow:
  "cancel_move\<^sup>*\<^sup>* d d' \<Longrightarrow> cancel_inv d \<Longrightarrow> find_cancellation runID d = Some x \<Longrightarrow>
     \<exists>x'. find_cancellation runID d' = Some x' \<and> follows x x'"
proof (induction rule: rtranclp_induct)
  case (step d1 d2)
  then obtain y where y: "find_cancellation runID d1 = Some y" "follows x y" by blast
  from move_follows[OF step(2) moves_inv[OF step(1,4)] y(1)] y(2) show ?case by (blast intro: follows_trans)
qed auto

lemma run_requests_moves: "cancel_inv d \<Longrightarrow> cancel_move\<^sup>*\<^sup>* d (run_service cancel_request_step qs d)"
proof (induction qs arbitrary: d)
  case (Cons q qs)
  from request_moves[OF cancel_inv_lease[OF Cons(2)], of q] Cons(1)[OF cancel_service.step_inv[OF Cons(2), of q]]
  show ?case unfolding run_service.simps by (rule rtranclp_trans)
qed simp


text \<open>
  C7: whatever requests the coordinator serves, the cancellation columns of every run agree with its
  cancellation row, and a run of the runtime contract has a cancellation exactly if its status is
  canceled; the deferred consistency trigger never refuses a commit of the coordinator.
\<close>

theorem cancellation_summary_consistent:
  "cancel_inv d \<Longrightarrow> cancel_inv (run_service cancel_request_step requests d)"
  by (rule cancel_service.run_inv)

text \<open>
  C8: a cancellation keeps its identity (target, requester, reason, time), its stage (requested,
  delivered, stopping, finished) never goes back, and once it has an outcome no request changes it.
\<close>

theorem cancellation_moves_forward:
  assumes "cancel_inv d" "find_cancellation runID d = Some x"
  shows "\<exists>x'. find_cancellation runID (run_service cancel_request_step requests d) = Some x' \<and> same_cancellation x x' \<and>
    cancel_stage (cx_State x) \<le> cancel_stage (cx_State x') \<and> (\<not> open_state (cx_State x) \<longrightarrow> x' = x)"
  using moves_follow[OF run_requests_moves[OF assms(1)] assms] by (auto simp: follows_def)

section \<open>Canceling\<close>

lemma active_attempt_exists:
  assumes "lease_inv d" "find_run runID d = Some r" "r_ActiveAttemptID r = Some k"
  obtains a where "find_attempt k d = Some a" "a_RunID a = runID"
proof -
  have r: "r \<in> set (db_runs d)" "r_ID r = runID" using find_row_SomeD[OF assms(2)] by simp_all
  with assms(1,3) show ?thesis by (force simp: lease_inv_def active_ok_def mirror_of_def intro: that)
qed

text \<open>A canceled run and its cancellation as a second request by the owner finds them.\<close>

definition replayable :: "uuid \<Rightarrow> uuid \<Rightarrow> RunRow \<Rightarrow> CancellationRow \<Rightarrow> runtime_db \<Rightarrow> bool" where
  "replayable requester runID r x d \<longleftrightarrow>
     find_run runID d = Some r \<and> r_Status r = ''canceled'' \<and> r_RuntimeContractID r = RuntimeContractID \<and>
     r_UserID r = requester \<and> find_cancellation runID d = Some x \<and> r_CancelRequestID r = Some (cx_ID x) \<and>
     r_CancelState r = Some (cx_State x) \<and>
     (\<forall>k. cx_TargetAttemptID x = Some k \<longrightarrow> (\<exists>a. find_attempt k d = Some a \<and> a_RunID a = runID))"

lemma replayable_replays:
  assumes "replayable requester runID r x d"
  shows "cancel_tx fe began clk requester runID reason d = Inr (\<lparr>xr_Run = r, xr_Cancellation = x, xr_Replayed = True\<rparr>, d)"
proof -
  have id: "r_ID r = runID" using assms by (auto simp: replayable_def dest: find_row_key)
  have "lockStoredRuntimeCancellation r d = Inr (x, d)"
    using assms by (auto simp: lockStoredRuntimeCancellation_def tx_simps id replayable_def GetRunCancellationByRun_def lock_simps
        split: option.split)
  with assms show ?thesis
    by (simp add: cancel_tx_def tx_defs LockRunForResultFinalization_def replayable_def GetRunByID_def)
qed


lemma created_replayable:
  assumes "cancel_created runID r r' x d d'" "r_RuntimeContractID r = RuntimeContractID" "r_UserID r = requester" "lease_inv d"
  shows "replayable requester runID r' x d'"
proof -
  from assms(1) have r: "find_run runID d = Some r" and r': "r_ID r' = runID"
    by (auto simp: cancel_created_def closes_run_def dest: find_row_key)
  have "\<exists>a. find_attempt k d' = Some a \<and> a_RunID a = runID" if "cx_TargetAttemptID x = Some k" for k
    using that assms(1) active_attempt_exists[OF assms(4) r, of k] by (metis cancel_created_def)
  moreover have "find_run runID d' = Some r'"
    using assms(1) find_row_replace[OF r r', of runID] by (simp add: cancel_created_def)
  moreover have "r_RuntimeContractID r' = RuntimeContractID" "r_UserID r' = requester"
    using assms by (simp_all add: cancel_created_def closes_run_def same_request_def)
  ultimately show ?thesis
    using assms(1) by (auto simp: replayable_def cancel_created_def summary_of_def replaces_cancellation_def)
qed

lemma lockStored_InrD:
  assumes "lockStoredRuntimeCancellation r d = Inr (x, d1)"
  shows "d1 = d \<and> find_cancellation (r_ID r) d = Some x \<and> r_CancelRequestID r = Some (cx_ID x) \<and> r_CancelState r = Some (cx_State x) \<and>
    (\<forall>k. cx_TargetAttemptID x = Some k \<longrightarrow> (\<exists>a. find_attempt k d = Some a \<and> a_RunID a = r_ID r))"
proof (cases "find_cancellation (r_ID r) d")
  case None
  with assms show ?thesis by (simp add: lockStoredRuntimeCancellation_def tx_defs GetRunCancellationByRun_def)
next
  case (Some y)
  show ?thesis
    by (cases "cx_TargetAttemptID y") (use assms Some in \<open>auto simp: lockStoredRuntimeCancellation_def tx_defs GetRunCancellationByRun_def
        LockRunCancellationForMutation_def LockRunAttemptForResult_def split: option.split_asm if_split_asm\<close>)
qed

lemma replayed_replayable:
  assumes tx: "cancel_tx fe began clk requester runID reason d = Inr (res, d')" and "xr_Replayed res" "lease_inv d"
  shows "replayable requester runID (xr_Run res) (xr_Cancellation res) d"
proof -
  from tx obtain r where r: "find_run runID d = Some r" "r_UserID r = requester" "r_RuntimeContractID r = RuntimeContractID"
    and rest: "(if r_Status r \<noteq> ''running'' \<or>
       r_DispatchState r = ''terminal'' \<or> r_DispatchState r = ''dead_letter''
     then tx_bind (tx_guard (r_Status r = ''canceled'' \<and> r_CancelRequestID r \<noteq> None) ErrRuntimeCancellationRunEnded) (\<lambda>_.
       tx_bind (lockStoredRuntimeCancellation r) (\<lambda>x.
       tx_bind (tx_one ErrNoRows (GetRunByID runID)) (\<lambda>run.
       tx_return \<lparr>xr_Run = run, xr_Cancellation = x, xr_Replayed = True\<rparr>)))
     else cancel_new fe began clk requester reason r) d = Inr (res, d')"
    unfolding cancel_tx_def by (auto simp: tx_bind_Inr tx_one_Inr tx_guard_Inr lock_simps)
  have id: "r_ID r = runID" using r(1) by (rule find_row_key)
  have ended: "r_Status r \<noteq> ''running'' \<or> r_DispatchState r = ''terminal'' \<or> r_DispatchState r = ''dead_letter''"
  proof (rule ccontr)
    assume "\<not> ?thesis"
    with rest have "cancel_new fe began clk requester reason r d = Inr (res, d')" "r_Status r = ''running''" by simp_all
    from cancel_new_created[OF this(1) r(1) this(2) assms(3)] assms(2) show False by simp
  qed
  from rest[unfolded if_P[OF ended]] obtain x d1 run where lk: "lockStoredRuntimeCancellation r d = Inr (x, d1)" "r_Status r = ''canceled''"
      "GetRunByID runID d1 = Some (run, d')" "res = \<lparr>xr_Run = run, xr_Cancellation = x, xr_Replayed = True\<rparr>"
    by (auto simp: tx_simps)
  note st = lockStored_InrD[OF lk(1), unfolded id]
  from lk(3) st r(1) have "run = r" by (auto simp: GetRunByID_def)
  with st r lk(2,4) show ?thesis by (simp add: replayable_def)
qed

lemma CancelOwnedRun_Inr:
  "CancelOwnedRun fe c began clk requester runID reason d = (Inr res, d') \<longleftrightarrow>
     (\<exists>normal. normalizeRuntimeCancellationReason reason = Inr normal \<and> requester \<noteq> uuid_Nil \<and> runID \<noteq> uuid_Nil \<and> cn_repository c \<and>
        cancel_tx fe began clk requester runID normal d = Inr (res, d'))"
  by (cases "normalizeRuntimeCancellationReason reason") (auto simp: CancelOwnedRun_def WithTransaction_commit)

lemma cancel_tx_replayable:
  assumes tx: "cancel_tx fe began clk requester runID reason d = Inr (res, d')" and inv: "cancel_inv d"
  shows "replayable requester runID (xr_Run res) (xr_Cancellation res) d' \<and> r_DispatchState (xr_Run res) = ''terminal'' \<and>
    db_attempts d' = db_attempts d \<and> db_sessions d' = db_sessions d \<and> db_nodes d' = db_nodes d"
  using tx cancel_inv_lease[OF inv]
proof (cases rule: cancel_tx_cases)
  case replayed
  from replayed_replayable[OF tx replayed(2) cancel_inv_lease[OF inv]]
  have rep: "replayable requester runID (xr_Run res) (xr_Cancellation res) d" .
  moreover from inv find_row_SomeD[OF replayed(3)] have "r_DispatchState (xr_Run res) = ''terminal''"
    using rep unfolding cancel_inv_def cancel_summary_def replayable_def by auto
  ultimately show ?thesis using replayed(1) by simp
next
  case (canceled r)
  from created_replayable[OF canceled(1,4,3) cancel_inv_lease[OF inv]] canceled(1) show ?thesis by (simp add: cancel_created_def)
qed

text \<open>
  C9: canceling is immediate and idempotent. When the owner's request is accepted the stored run is
  canceled and terminal, its cancellation row is stored, and no attempt or capacity counter has
  changed yet; a second request by the owner, with any valid reason and at any time, returns the same
  run and the same cancellation, marked as replayed, and changes nothing.
\<close>

theorem owner_cancel_is_idempotent:
  assumes "cancel_inv d" "CancelOwnedRun fe c began clk requester runID reason d = (Inr res, d')"
    and "cn_repository c2" "normalizeRuntimeCancellationReason reason2 = Inr normal"
  shows "find_run runID d' = Some (xr_Run res) \<and> r_UserID (xr_Run res) = requester \<and>
    r_Status (xr_Run res) = ''canceled'' \<and> r_DispatchState (xr_Run res) = ''terminal'' \<and>
    find_cancellation runID d' = Some (xr_Cancellation res) \<and>
    db_attempts d' = db_attempts d \<and> db_sessions d' = db_sessions d \<and> db_nodes d' = db_nodes d \<and>
    CancelOwnedRun fe2 c2 began2 clk2 requester runID reason2 d' =
      (Inr \<lparr>xr_Run = xr_Run res, xr_Cancellation = xr_Cancellation res, xr_Replayed = True\<rparr>, d')"
proof -
  from assms(2) obtain n where tx: "cancel_tx fe began clk requester runID n d = Inr (res, d')" "requester \<noteq> uuid_Nil" "runID \<noteq> uuid_Nil"
    unfolding CancelOwnedRun_Inr by blast
  note res = cancel_tx_replayable[OF tx(1) assms(1)]
  have "CancelOwnedRun fe2 c2 began2 clk2 requester runID reason2 d' =
      (Inr \<lparr>xr_Run = xr_Run res, xr_Cancellation = xr_Cancellation res, xr_Replayed = True\<rparr>, d')"
    unfolding CancelOwnedRun_Inr using tx(2,3) assms(3,4) replayable_replays[OF conjunct1[OF res]] by blast
  with res show ?thesis by (simp add: replayable_def)
qed


section \<open>Stopping\<close>

text \<open>The attempt is finished as canceled and its session and its node have the slot back.\<close>

definition slot_returned :: "uuid \<Rightarrow> runtime_db \<Rightarrow> runtime_db \<Rightarrow> bool" where
  "slot_returned attemptID d d' \<longleftrightarrow>
     (\<exists>a a' sessionID s s' nodeID n n'.
        find_attempt attemptID d = Some a \<and> a_FinishedAt a = None \<and>
        a_ActiveRuntimeSessionID a = Some sessionID \<and> a_NodeID a = Some nodeID \<and>
        find_attempt attemptID d' = Some a' \<and> a_FinishedAt a' \<noteq> None \<and> a_Outcome a' = Some ''canceled'' \<and>
        a_SlotReleasedAt a' \<noteq> None \<and>
        find_session sessionID d = Some s \<and> find_session sessionID d' = Some s' \<and> s_Inflight s' = s_Inflight s - 1 \<and>
        find_node nodeID d = Some n \<and> find_node nodeID d' = Some n' \<and> n_Inflight n' = n_Inflight n - 1)"

lemma stops_slot_returned:
  assumes "stops_attempt a d d'" "a_ExecutorType a = ''runtime''"
  shows "slot_returned (a_ID a) d d'"
proof -
  from assms obtain a' where a: "find_attempt (a_ID a) d = Some a" "a_FinishedAt a = None" "gives_back_slot a d d'" "closes_attempt a a'"
      "a_Outcome a' = Some ''canceled''" "db_attempts d' = update_row a_ID (a_ID a) (\<lambda>_. a') (db_attempts d)"
    by (auto simp: stops_attempt_def)
  from a(3) assms(2) obtain sid nid s n t1 t2 where o: "a_ActiveRuntimeSessionID a = Some sid" "a_NodeID a = Some nid"
      "find_session sid d = Some s" "find_node nid d = Some n"
      "db_sessions d' = update_row s_ID sid (\<lambda>_. s\<lparr>s_Inflight := s_Inflight s - 1, s_UpdatedAt := t1\<rparr>) (db_sessions d)"
      "db_nodes d' = update_row n_ID nid (\<lambda>_. n\<lparr>n_Inflight := n_Inflight n - 1, n_UpdatedAt := t2\<rparr>) (db_nodes d)"
    by (auto simp: gives_back_slot_def)
  have "find_attempt (a_ID a) d' = Some a'"
    using find_row_replace[OF a(1), of a' "a_ID a"] a(4,6) by (simp add: closes_attempt_def)
  moreover have "find_session sid d' = Some (s\<lparr>s_Inflight := s_Inflight s - 1, s_UpdatedAt := t1\<rparr>)"
    using find_row_replace[OF o(3), of "s\<lparr>s_Inflight := s_Inflight s - 1, s_UpdatedAt := t1\<rparr>" sid] find_row_key[OF o(3)] o(5) by simp
  moreover have "find_node nid d' = Some (n\<lparr>n_Inflight := n_Inflight n - 1, n_UpdatedAt := t2\<rparr>)"
    using find_row_replace[OF o(4), of "n\<lparr>n_Inflight := n_Inflight n - 1, n_UpdatedAt := t2\<rparr>" nid] find_row_key[OF o(4)] o(6) by simp
  ultimately show ?thesis
    unfolding slot_returned_def using a o assms(2) by (simp add: closes_attempt_def)
qed

lemma ack_runtime: "runtimePrincipalMatchesAttempt (EventPrincipal p) a \<Longrightarrow> a_ExecutorType a = ''runtime''"
  by (auto simp: runtimePrincipalMatchesAttempt_def EventPrincipal_def runtimeExecutorIdentityShapeValid_def split: if_split_asm)

text \<open>
  C10: an acknowledgement of the runtime that changes anything puts its cancellation into the
  acknowledged state and answers with that state; it ends the attempt and gives its session and its
  node their slot back exactly when it confirms the stop, and otherwise touches no attempt and no
  counter.
\<close>

theorem stop_ack_frees_slot:
  assumes "lease_inv d" "AckCancel decs c clk p request d = (Inr st, d')" "d' \<noteq> d"
  shows "\<exists>x x'. find_cancellation (ai_RunID (cak_AttemptIdentity request)) d = Some x \<and> open_state (cx_State x) \<and>
    find_cancellation (ai_RunID (cak_AttemptIdentity request)) d' = Some x' \<and> same_cancellation x x' \<and>
    cx_State x' = cak_CancelState request \<and> st = runtimeCancellationStateFromDB x' \<and>
    (if cak_CancelState request = ''stopped'' then slot_returned (ai_AttemptID (cak_AttemptIdentity request)) d d'
     else db_attempts d' = db_attempts d \<and> db_sessions d' = db_sessions d \<and> db_nodes d' = db_nodes d)"
proof -
  from assms(2) have tx: "ack_cancel_tx c clk p request d = Inr (st, d')"
    by (auto simp: AckCancel_def Let_def WithTransaction_commit split: if_split_asm option.split_asm)
  from tx assms(1) show ?thesis
  proof (cases rule: ack_cancel_cases)
    case same
    with assms(3) show ?thesis by simp
  next
    case (moved x x' a)
    from find_row_key[OF moved(1)] have key: "a_ID a = ai_AttemptID (cak_AttemptIdentity request)" .
    have x: "find_cancellation (ai_RunID (cak_AttemptIdentity request)) d = Some x" "advances x x'"
        "find_cancellation (ai_RunID (cak_AttemptIdentity request)) d' = Some x'"
      using moved(2) by (simp_all add: cancel_moved_def replaces_cancellation_def)
    have "slot_returned (a_ID a) d d'" if "cak_CancelState request = ''stopped''"
      using moved(2) that by (intro stops_slot_returned ack_runtime[OF moved(5)]) (simp add: cancel_moved_def)
    moreover have "db_attempts d' = db_attempts d \<and> db_sessions d' = db_sessions d \<and> db_nodes d' = db_nodes d"
      if "cak_CancelState request \<noteq> ''stopped''"
      using moved(2) that by (simp add: cancel_moved_def)
    ultimately show ?thesis using x moved(3,4,6) unfolding key by (intro exI[of _ x] exI[of _ x']) (simp add: advances_def)
  qed
qed


text \<open>The evidence an \<open>unsupported\<close> acknowledgement would store after \<open>stopping\<close> breaks the constraints.\<close>

lemma stopping_unsupported: "\<not> cancellation_transition ''stopping'' ''unsupported''"
  by (simp add: cancellation_transition_def)

text \<open>
  C12: the coordinator's transition table lets a runtime answer \<open>unsupported\<close> after it has reported
  \<open>stopping\<close>, but the database refuses that transition: such an acknowledgement ends in a bare
  constraint violation, whatever else it carries, and changes nothing.
\<close>

theorem unsupported_after_stopping_fails:
  assumes "find_cancellation (ai_RunID (cak_AttemptIdentity request)) d = Some x" "cx_State x = ''stopping''"
    and "cak_CancelState request = ''unsupported''"
  shows "runtimeCancellationTransitionAllowed (cx_State x) (cak_CancelState request) \<and>
    ack_advance c clk request x a d = Inl check_violation \<and>
    (\<exists>err. AckCancel decs c clk p request d = (Inl err, d))"
proof -
  let ?run = "ai_RunID (cak_AttemptIdentity request)"
  have x: "cx_RunID x = ?run" using assms(1) by (rule cancellation_run)
  have adv: "ack_advance c clk request x a d = Inl check_violation" for a
    using assms stopping_unsupported x
    by (simp add: ack_advance_def Let_def tx_defs row_or_def AdvanceRuntimeRunCancellation_def)
  have "ack_cancel_tx c clk p request d \<noteq> Inr (st, d')" for st d'
    using assms adv by (auto elim!: ack_cancel_InrE simp: runtimeCancellationAckAlreadyCovered_def)
  then have "\<exists>err. ack_cancel_tx c clk p request d = Inl err" by (cases "ack_cancel_tx c clk p request d") auto
  then have "\<exists>err. AckCancel decs c clk p request d = (Inl err, d)"
    by (auto simp: AckCancel_def Let_def WithTransaction_def split: option.split)
  moreover have "runtimeCancellationTransitionAllowed (cx_State x) (cak_CancelState request)"
    using assms by (simp add: runtimeCancellationTransitionAllowed_def runtimeCancellationAckFinalState_def)
  ultimately show ?thesis using adv by blast
qed

section \<open>Reaping\<close>

definition unfinished :: "runtime_db \<Rightarrow> nat" where
  "unfinished d = count_rows (\<lambda>a. a_FinishedAt a = None) (db_attempts d)"

lemma moved_unfinished:
  assumes "cancel_moved runID x x' (Some a) d d'" "lease_inv d"
  shows "int (unfinished d') = int (unfinished d) - 1"
proof -
  from assms(1) obtain a' where a: "find_attempt (a_ID a) d = Some a" "a_FinishedAt a = None" "closes_attempt a a'"
      "db_attempts d' = update_row a_ID (a_ID a) (\<lambda>_. a') (db_attempts d)"
    by (auto simp: cancel_moved_def stops_attempt_def)
  have "unique_keys a_ID (db_attempts d)" using assms(2) by (simp add: lease_inv_def keys_ok_def)
  from count_rows_update[OF this a(1), of "\<lambda>a. a_FinishedAt a = None" "\<lambda>_. a'"] a(2,3) show ?thesis
    by (simp add: unfinished_def a(4) closes_attempt_def)
qed

lemma reap_loop_counts:
  "lease_inv d \<Longrightarrow> reap_loop c turns k reaped d = ((n, err), d') \<Longrightarrow>
     lease_inv d' \<and> reaped \<le> n \<and> n \<le> reaped + int k \<and> int (unfinished d') = int (unfinished d) - (n - reaped) \<and>
     (err = None \<and> n < reaped + int k \<longrightarrow> ReapExpiredCancellation c (turns (nat (n - reaped))) d' = (Inr None, d'))"
proof (induction c turns k reaped d rule: reap_loop.induct)
  case (2 c turns left reaped d)
  obtain out d1 where out: "ReapExpiredCancellation c (turns 0) d = (out, d1)" by fastforce
  note moves = ReapExpiredCancellation_moves[OF out 2(2)]
  show ?case
  proof (cases out)
    case (Inl e)
    with 2(2,3) out moves show ?thesis by auto
  next
    case (Inr found)
    show ?thesis
    proof (cases found)
      case None
      with Inr 2(2,3) out moves show ?thesis by auto
    next
      case (Some st)
      with Inr moves obtain runID x x' a where m: "cancel_moved runID x x' (Some a) d d1" by auto
      have inv: "lease_inv d1" by (rule steps_lease_inv_run[OF cancel_moved_steps[OF 2(2) m] 2(2)])
      have loop: "reap_loop c (\<lambda>n. turns (Suc n)) left (reaped + 1) d1 = ((n, err), d')" using 2(3) out Inr Some by simp
      note IH = 2(1)[OF out[symmetric] Inr Some inv loop]
      have "Suc (nat (n - (reaped + 1))) = nat (n - reaped)" using IH by arith
      with IH moved_unfinished[OF m 2(2)] show ?thesis by auto
    qed
  qed
qed simp

text \<open>
  A cancellation is overdue when its run is canceled and mirrors its state, the attempt it targets is
  unfinished, the time allowed for the acknowledgement has passed since the request, and the state is
  one from which the reaper ends the attempt: open, or for a runtime attempt also refused.
\<close>

definition overdue_cancellation :: "int \<Rightarrow> gotime \<Rightarrow> runtime_db \<Rightarrow> bool" where
  "overdue_cancellation ms now d \<longleftrightarrow>
     (\<exists>r \<in> set (db_runs d). \<exists>x k a.
        find_cancellation (r_ID r) d = Some x \<and> cx_TargetAttemptID x = Some k \<and> find_attempt k d = Some a \<and>
        a_RunID a = r_ID r \<and> a_FinishedAt a = None \<and> a_Outcome a = None \<and>
        r_RuntimeContractID r = RuntimeContractID \<and> r_Status r = ''canceled'' \<and> r_DispatchState r = ''terminal'' \<and>
        r_CancelRequestID r = Some (cx_ID x) \<and> r_CancelState r = Some (cx_State x) \<and>
        cx_RequestedAt x + ms * millisecond \<le> now \<and>
        (a_ExecutorType a = ''runtime'' \<and>
           cx_State x \<in> {''requested'', ''delivered'', ''stopping'', ''unsupported'', ''failed''} \<and>
           a_SlotAcquiredAt a \<noteq> None \<and> a_SlotReleasedAt a = None \<and> a_ActiveRuntimeSessionID a \<noteq> None \<and> a_NodeID a \<noteq> None \<or>
         a_ExecutorType a \<in> {''core_http'', ''core_mcp''} \<and> cx_State x \<in> {''requested'', ''delivered'', ''stopping''} \<and>
           a_ResultID a = None))"

lemma overdue_joined:
  "overdue_cancellation ms now d \<longleftrightarrow>
     (\<exists>r \<in> set (db_runs d). \<exists>x a. cancellation_join d r = Some (r, x, a) \<and> (reapable_core x a \<or> reapable_runtime x a) \<and>
        reap_due_at ms x \<le> now)"
proof -
  have join: "cancellation_join d r = Some (r, x, a) \<longleftrightarrow>
      (\<exists>k. find_cancellation (r_ID r) d = Some x \<and> cx_TargetAttemptID x = Some k \<and> find_attempt k d = Some a \<and>
        r_CancelRequestID r = Some (cx_ID x) \<and> a_RunID a = r_ID r \<and> r_RuntimeContractID r = RuntimeContractID \<and>
        r_Status r = ''canceled'' \<and> r_DispatchState r = ''terminal'' \<and> r_CancelState r = Some (cx_State x) \<and> a_FinishedAt a = None)" for r x a
    by (auto simp: cancellation_join_def bind_eq_Some_conv split: option.split_asm if_split_asm option.split)
  show ?thesis
    unfolding overdue_cancellation_def join
    by (simp add: reapable_core_def reapable_runtime_def reap_due_at_def after_ms_def is_core_executor_def open_state_def) blast
qed

lemma first_by_None [simp]: "first_by t k xs = None \<longleftrightarrow> xs = []"
  by (auto simp: first_by_def split: list.split) (metis set_empty set_sort)+

lemma first_by_in: "first_by t k xs = Some x \<Longrightarrow> x \<in> set xs"
  by (auto simp: first_by_def split: list.split_asm) (metis list.set_intros(1) set_sort)

lemma join_self: "cancellation_join d r = Some j \<Longrightarrow> fst j = r"
  by (auto simp: cancellation_join_def split: option.split_asm if_split_asm)

lemma joined_run:
  assumes "(r, x, a) \<in> set (List.map_filter (cancellation_join d) (db_runs d))" "unique_keys r_ID (db_runs d)"
  shows "find_run (r_ID r) d = Some r" "cancellation_join d r = Some (r, x, a)"
proof -
  from assms(1) obtain r0 where "r0 \<in> set (db_runs d)" "cancellation_join d r0 = Some (r, x, a)" by (auto simp: set_map_filter)
  with join_self have "r \<in> set (db_runs d)" and join: "cancellation_join d r = Some (r, x, a)" by fastforce+
  with assms(2) show "find_run (r_ID r) d = Some r" by (simp add: find_row_in_set)
  show "cancellation_join d r = Some (r, x, a)" by (fact join)
qed

lemma find_core_locks:
  assumes "FindNextDueRuntimeCoreCancellation ms t0 d = Some (k, d1)" "t0 \<le> t1" "unique_keys r_ID (db_runs d)"
  shows "LockDueRuntimeCoreCancellationRun (cd_RunID k) (cd_CancellationID k) (cd_TargetAttemptID k) ms t1 d \<noteq> None"
proof -
  from assms(1) obtain r x a where k: "k = cancellation_candidate t0 (r, x, a)"
      and j: "(r, x, a) \<in> set (List.map_filter (cancellation_join d) (db_runs d))" "reapable_core x a" "reap_due_at ms x \<le> t0"
    by (fastforce simp: FindNextDueRuntimeCoreCancellation_def dest: first_by_in)
  from joined_run[OF j(1) assms(3)] k j(2,3) assms(2) show ?thesis
    by (simp add: LockDueRuntimeCoreCancellationRun_def cancellation_candidate_def)
qed

lemma find_runtime_locks:
  assumes "FindNextDueRuntimeCancellation ms t0 d = Some (k, d1)" "t0 \<le> t1" "unique_keys r_ID (db_runs d)"
  shows "LockDueRuntimeCancellationRun (cd_RunID k) (cd_CancellationID k) (cd_TargetAttemptID k) (cd_RuntimeSessionID k)
    (cd_NodeID k) ms t1 d \<noteq> None"
proof -
  from assms(1) obtain r x a where k: "cd_RunID k = r_ID r" "cd_CancellationID k = cx_ID x" "cd_TargetAttemptID k = a_ID a"
        "cd_RuntimeSessionID k = the (a_ActiveRuntimeSessionID a)" "cd_NodeID k = the (a_NodeID a)"
      and j: "(r, x, a) \<in> set (List.map_filter (cancellation_join d) (db_runs d))" "reapable_runtime x a" "reap_due_at ms x \<le> t0"
    by (fastforce simp: FindNextDueRuntimeCancellation_def dest: first_by_in)
  moreover have "a_ActiveRuntimeSessionID a \<noteq> None" "a_NodeID a \<noteq> None" using j(2) by (simp_all add: reapable_runtime_def)
  ultimately show ?thesis
    using joined_run[OF j(1) assms(3)] assms(2) by (auto simp: LockDueRuntimeCancellationRun_def)
qed

lemma reap_core_tx_None:
  assumes "reap_core_tx c clk d = Inr (None, d')" "clk 0 \<le> clk 1" "unique_keys r_ID (db_runs d)"
  shows "FindNextDueRuntimeCoreCancellation (Milliseconds (cn_commandDeadline c)) (clk 0) d = None" "d' = d"
proof -
  have keeps: "d1 = d" if "FindNextDueRuntimeCoreCancellation ms t d = Some (k, d1)" for ms t k d1
    using that by (auto simp: FindNextDueRuntimeCoreCancellation_def)
  have locks: "LockDueRuntimeCoreCancellationRun (cd_RunID k) (cd_CancellationID k) (cd_TargetAttemptID k) ms (clk 1) d \<noteq> None"
    if "FindNextDueRuntimeCoreCancellation ms (clk 0) d = Some (k, d1)" for ms k d1
    using find_core_locks[OF that assms(2,3)] .
  show "FindNextDueRuntimeCoreCancellation (Milliseconds (cn_commandDeadline c)) (clk 0) d = None" "d' = d"
    using assms(1) keeps locks
    by (auto simp: reap_core_tx_def Let_def tx_defs split: option.split_asm prod.split_asm sum.split_asm; metis option.distinct(1))+
qed

lemma reap_runtime_tx_None:
  assumes "reap_runtime_tx c clk d = Inr (None, d')" "clk 0 \<le> clk 1" "unique_keys r_ID (db_runs d)"
  shows "FindNextDueRuntimeCancellation (Milliseconds (cn_commandDeadline c)) (clk 0) d = None"
proof (rule ccontr)
  let ?ms = "Milliseconds (cn_commandDeadline c)"
  assume "FindNextDueRuntimeCancellation ?ms (clk 0) d \<noteq> None"
  then obtain k d0 where "FindNextDueRuntimeCancellation ?ms (clk 0) d = Some (k, d0)" by auto
  with find_due_keeps have k: "FindNextDueRuntimeCancellation ?ms (clk 0) d = Some (k, d)" by metis
  obtain l d1 where lock: "LockDueRuntimeCancellationRun (cd_RunID k) (cd_CancellationID k) (cd_TargetAttemptID k)
      (cd_RuntimeSessionID k) (cd_NodeID k) ?ms (clk 1) d = Some (l, d1)"
    using find_runtime_locks[OF k assms(2,3)] by auto
  show False
    using assms(1) k lock
    by (auto simp: reap_runtime_tx_def stale_guard_def Let_def tx_defs LockRuntimeSessionForCancellationReap_def LockRuntimeNodeForCancellationReap_def
        split: option.split_asm prod.split_asm sum.split_asm if_split_asm)
qed

lemma reap_none_overdue:
  assumes "ReapExpiredCancellation c clks d = (Inr None, d')" "unique_keys r_ID (db_runs d)"
    and "fst clks 0 \<le> fst clks 1" "snd clks 0 \<le> snd clks 1"
  shows "\<not> overdue_cancellation (Milliseconds (cn_commandDeadline c)) (min (fst clks 0) (snd clks 0)) d"
proof -
  let ?ms = "Milliseconds (cn_commandDeadline c)"
  from assms(1) obtain d1 d2 where tx: "reap_core_tx c (fst clks) d = Inr (None, d1)" "reap_runtime_tx c (snd clks) d1 = Inr (None, d2)"
    by (auto simp: ReapExpiredCancellation_def reapExpiredCoreCancellation_def WithTransaction_def
        split: if_split_asm prod.split_asm sum.split_asm option.split_asm)
  note core = reap_core_tx_None[OF tx(1) assms(3,2)]
  note runtime = reap_runtime_tx_None[OF tx(2)[unfolded core(2)] assms(4,2)]
  have none: "\<not> (reapable_core x a \<and> reap_due_at ?ms x \<le> fst clks 0)" "\<not> (reapable_runtime x a \<and> reap_due_at ?ms x \<le> snd clks 0)"
    if "r \<in> set (db_runs d)" "cancellation_join d r = Some (r, x, a)" for r x a
    using core(1) runtime that
    by (force simp: FindNextDueRuntimeCoreCancellation_def FindNextDueRuntimeCancellation_def filter_empty_conv set_map_filter)+
  show ?thesis unfolding overdue_joined using none by fastforce
qed

text \<open>
  C11: a batch of the reaper returns: it reaps at most as many cancellations as it was asked for and
  ends exactly one unfinished attempt for each, so repeated batches terminate; a batch that returns
  without an error before its limit leaves no cancellation that was overdue when it last searched.
  Transactions being serialised, the clock is assumed not to run backwards between the search and the
  lock of one of them.
\<close>

theorem reaper_progress:
  assumes "lease_inv d" "ReapExpiredCancellations c turns limit d = ((n, err), d')"
    and "\<And>k. fst (turns k) 0 \<le> fst (turns k) 1" "\<And>k. snd (turns k) 0 \<le> snd (turns k) 1"
  shows "0 \<le> n \<and> n \<le> max 0 limit \<and> n \<le> 1000 \<and> int (unfinished d') = int (unfinished d) - n \<and>
    (err = None \<and> n < limit \<longrightarrow>
       \<not> overdue_cancellation (Milliseconds (cn_commandDeadline c)) (min (fst (turns (nat n)) 0) (snd (turns (nat n)) 0)) d')"
proof (cases "limit < 1 \<or> limit > maxRuntimeCancellationReapBatch")
  case True
  with assms(2) show ?thesis by (auto simp: ReapExpiredCancellations_def)
next
  case False
  with assms(2) have "reap_loop c turns (nat limit) 0 d = ((n, err), d')" by (simp add: ReapExpiredCancellations_def)
  note counts = reap_loop_counts[OF assms(1) this]
  then have "unique_keys r_ID (db_runs d')" by (simp add: lease_inv_def keys_ok_def)
  from reap_none_overdue[OF _ this assms(3,4), of c] counts False show ?thesis
    by (auto simp: maxRuntimeCancellationReapBatch_def)
qed


section \<open>The laws on the example\<close>

lemma wit_ready_cancel_inv: "cancel_inv wit_ready"
  using wit_ready_inv(1)
  by (simp add: cancel_inv_def cancel_summary_def wit_ready_rows wit_leased_fields find_cancellation_def wit_cancel_rows find_row_def)

lemma wit_canceling_inv: "cancel_inv wit_canceling"
proof -
  have "snd (cancel_request_step (CancelRun wit_result_env wit_coordinator 3000 wit_result_clock 7 6 []) wit_ready) = wit_canceling"
    by (simp add: wit_canceling(1))
  with cancel_service.step_inv[OF wit_ready_cancel_inv] show ?thesis by metis
qed

lemma wit_cancellation_row: "find_cancellation 6 wit_canceling = Some wit_cancellation"
  by (simp add: find_cancellation_def wit_canceling find_row_def wit_cancel_fields)

theorem cancellation_summary_consistent_witness:
  "db_cancellations wit_canceling = [wit_cancellation] \<and> cancel_inv wit_canceling"
proof -
  have "run_service cancel_request_step [CancelRun wit_result_env wit_coordinator 3000 wit_result_clock 7 6 []] wit_ready = wit_canceling"
    by (simp add: wit_canceling(1))
  with cancellation_summary_consistent[OF wit_ready_cancel_inv] have "cancel_inv wit_canceling" by metis
  with wit_canceling(3) show ?thesis by simp
qed

theorem cancellation_moves_forward_witness:
  "\<exists>x'. find_cancellation 6 (run_service cancel_request_step
       [StopAck wit_decoders wit_coordinator wit_result_clock wit_principal wit_stop_ack] wit_canceling) = Some x' \<and>
     same_cancellation wit_cancellation x'"
  using cancellation_moves_forward[OF wit_canceling_inv wit_cancellation_row] by blast

theorem owner_cancel_is_idempotent_witness:
  "CancelOwnedRun wit_result_env wit_coordinator 5000 wit_late 7 6 [] wit_canceling =
     (Inr \<lparr>xr_Run = wit_canceled_run, xr_Cancellation = wit_cancellation, xr_Replayed = True\<rparr>, wit_canceling)"
proof -
  have "cn_repository wit_coordinator" by (simp add: wit_coordinator_def NewRuntimeCancellationCoordinator_def)
  from owner_cancel_is_idempotent[OF wit_ready_cancel_inv wit_canceling(1) this wit_cancel_reason]
  show ?thesis by (simp add: wit_cancel_result_def)
qed

theorem stop_ack_frees_slot_witness:
  "\<exists>st d x'. AckCancel wit_decoders wit_coordinator wit_result_clock wit_principal wit_stop_ack wit_canceling = (Inr st, d) \<and>
     find_cancellation 6 d = Some x' \<and> cx_State x' = ''stopped'' \<and> slot_returned 10 wit_canceling d"
proof -
  obtain st d where ack: "AckCancel wit_decoders wit_coordinator wit_result_clock wit_principal wit_stop_ack wit_canceling = (Inr st, d)"
      "d \<noteq> wit_canceling" by (rule wit_stop_commits)
  have "ai_RunID (cak_AttemptIdentity wit_stop_ack) = 6" "ai_AttemptID (cak_AttemptIdentity wit_stop_ack) = 10"
      "cak_CancelState wit_stop_ack = ''stopped''" by (simp_all add: wit_stop_ack_def wit_identity_def)
  with stop_ack_frees_slot[OF cancel_inv_lease[OF wit_canceling_inv] ack] ack(1) show ?thesis by auto
qed

definition wit_stopping :: runtime_db where
  "wit_stopping = wit_canceling\<lparr>db_cancellations := [advanced_cancellation ''stopping'' None 3002 wit_cancellation]\<rparr>"

theorem unsupported_after_stopping_fails_witness:
  "\<exists>err. AckCancel wit_decoders wit_coordinator wit_result_clock wit_principal
       (wit_stop_ack\<lparr>cak_CancelState := ''unsupported'', cak_ErrorCode := ''NO_CANCEL''\<rparr>) wit_stopping = (Inl err, wit_stopping)"
proof -
  let ?q = "wit_stop_ack\<lparr>cak_CancelState := ''unsupported'', cak_ErrorCode := ''NO_CANCEL''\<rparr>"
  let ?x = "advanced_cancellation ''stopping'' None 3002 wit_cancellation"
  have row: "find_cancellation (ai_RunID (cak_AttemptIdentity ?q)) wit_stopping = Some ?x" "cx_State ?x = ''stopping''"
      "cak_CancelState ?q = ''unsupported''"
    by (simp_all add: wit_stopping_def find_cancellation_def find_row_def wit_stop_ack_def wit_identity_def advanced_cancellation_def
        Let_def wit_cancellation_def)
  from unsupported_after_stopping_fails[OF this] show ?thesis by blast
qed

lemma wit_reap_idle: "ReapExpiredCancellation wit_coordinator (\<lambda>_. 0, \<lambda>_. 0) wit_canceling = (Inr None, wit_canceling)"
proof -
  have ms: "Milliseconds 30000000000 = 30000" "cn_commandDeadline wit_coordinator = 30000000000" "command_ready wit_coordinator"
    by code_simp+
  then show ?thesis
    by (simp add: ReapExpiredCancellation_def reapExpiredCoreCancellation_def WithTransaction_def reap_core_tx_def reap_runtime_tx_def
        Let_def tx_defs FindNextDueRuntimeCoreCancellation_def FindNextDueRuntimeCancellation_def wit_join wit_reapable first_by_def)
qed

text \<open>After the deadline the cancellation is reaped; long before it, nothing is overdue and nothing is done.\<close>

theorem reaper_progress_witness:
  "\<exists>d. ReapExpiredCancellations wit_coordinator (\<lambda>_. (wit_late, wit_late)) 1 wit_canceling = ((1, None), d) \<and>
     int (unfinished d) = int (unfinished wit_canceling) - 1 \<and>
     ReapExpiredCancellations wit_coordinator (\<lambda>_. (\<lambda>_. 0, \<lambda>_. 0)) 1 wit_canceling = ((0, None), wit_canceling) \<and>
     \<not> overdue_cancellation (Milliseconds (cn_commandDeadline wit_coordinator)) 0 wit_canceling"
proof -
  note inv = cancel_inv_lease[OF wit_canceling_inv]
  obtain st d where "ReapExpiredCancellation wit_coordinator (wit_late, wit_late) wit_canceling = (Inr (Some st), d)"
    by (rule wit_reap_commits)
  then have late: "ReapExpiredCancellations wit_coordinator (\<lambda>_. (wit_late, wit_late)) 1 wit_canceling = ((1, None), d)"
    by (simp add: ReapExpiredCancellations_def maxRuntimeCancellationReapBatch_def)
  have idle: "ReapExpiredCancellations wit_coordinator (\<lambda>_. (\<lambda>_. 0, \<lambda>_. 0)) 1 wit_canceling = ((0, None), wit_canceling)"
    by (simp add: ReapExpiredCancellations_def maxRuntimeCancellationReapBatch_def wit_reap_idle)
  from reaper_progress[OF inv late] reaper_progress[OF inv idle] late idle show ?thesis by (simp add: wit_late_def)
qed

end
