(* ===== verification/Runtime_Laws.thy ===== *)
theory Runtime_Laws
  imports Lease_Laws Result_Laws Reconciler_Laws Cancellation_Laws
begin

text \<open>
  The runtime as a whole. Requests to the lease service, the event store, the result finalizer, the
  deadline reconciler and the cancellation coordinator act on one database in the order in which
  their transactions commit. Every one of them is a sequence of steps of the specification in
  \<open>Run_Steps\<close>, so the service interfaces hold of the composition, and with them what the parts
  promise each other: exact capacity, increasing fencing tokens, one live attempt per run, and an
  outcome that the first writer decides.
\<close>

section \<open>Requests\<close>

datatype runtime_request =
    LeaseCall lease_request
  | AppendCall event_env uuid gotime "nat \<Rightarrow> gotime" RuntimeEventPrincipal RuntimeAttemptIdentity RuntimeEventRequest
  | FinalizeCall result_env ResultFinalizer gotime "nat \<Rightarrow> gotime" RuntimeEventPrincipal RuntimeResultRequest
  | ReconcileCall result_env RuntimeDeadlineReconciler int gotime "nat \<Rightarrow> reconcile_turn"
  | CancelCall cancel_request

datatype runtime_reply =
    LeaseReply "go_error + lease_reply"
  | AppendReply "go_error + RuntimeEventAck"
  | FinalizeReply "go_error + RuntimeResultAck"
  | ReconcileReply "RuntimeReconcileBatchResult \<times> go_error option"
  | CancelCallReply cancel_reply

fun runtime_step :: "runtime_request \<Rightarrow> runtime_db \<Rightarrow> runtime_reply \<times> runtime_db" where
  "runtime_step (LeaseCall q) d = apfst LeaseReply (lease_request_step q d)"
| "runtime_step (AppendCall ee eventID began clk p i request) d = apfst AppendReply (Append ee eventID began clk p i request d)"
| "runtime_step (FinalizeCall fe f began clk p request) d = apfst FinalizeReply (Finalize fe f began clk p request d)"
| "runtime_step (ReconcileCall fe r limit now turns) d = apfst ReconcileReply (ReconcileBatch fe r limit now turns d)"
| "runtime_step (CancelCall q) d = apfst CancelCallReply (cancel_request_step q d)"

section \<open>Every request is a sequence of steps\<close>

lemma Append_steps: "run_step\<^sup>*\<^sup>* d (snd (Append ee eventID began clk p i request d))"
proof (cases "Append ee eventID began clk p i request d")
  case (Pair out d')
  show ?thesis
  proof (cases out)
    case (Inl err)
    with Pair show ?thesis
      by (auto simp: Append_def dest: WithTransaction_error split: option.split_asm sum.split_asm)
  next
    case (Inr ack)
    from Pair[unfolded Inr] obtain fp payload where fp: "RuntimeEventFingerprint ee request = Inr fp"
      and tx: "append_tx ee eventID began p i request fp payload clk d = Inr (ack, d')" by (rule Append_InrE)
    from tx have "run_step\<^sup>*\<^sup>* d d'"
    proof (cases rule: append_tx_InrE)
      case replay
      with replay_tx_keeps show ?thesis by fastforce
    next
      case (new locked run deadline)
      then show ?thesis
        using append_new_tx_InrE[OF _ new(3) RuntimeEventFingerprint_seq[OF fp]] by blast
    qed
    with Pair show ?thesis by simp
  qed
qed

lemma Finalize_steps: "lease_inv d \<Longrightarrow> run_step\<^sup>*\<^sup>* d (snd (Finalize fe f began clk p request d))"
  by (auto simp: Finalize_def WithTransaction_def dest: finalizeTx_step split: option.split sum.split)

lemma lease_steps_run: "lease_step\<^sup>*\<^sup>* d d' \<Longrightarrow> run_step\<^sup>*\<^sup>* d d'"
  by (rule rtranclp_mono[THEN predicate2D, of lease_step]) (auto intro: run_step.Lease)

lemma cancel_move_steps: "cancel_move d d' \<Longrightarrow> lease_inv d \<Longrightarrow> run_step\<^sup>*\<^sup>* d d'"
  by (auto elim!: cancel_move.cases intro: cancel_moved_steps dest: cancel_created_step)

lemma cancel_moves_steps: "cancel_move\<^sup>*\<^sup>* d d' \<Longrightarrow> lease_inv d \<Longrightarrow> run_step\<^sup>*\<^sup>* d d'"
proof (induction rule: rtranclp_induct)
  case (step d1 d2)
  from step(3)[OF step(4)] steps_lease_inv_run[OF _ step(4)] cancel_move_steps[OF step(2)] show ?case by (meson rtranclp_trans)
qed simp

lemma runtime_steps: "lease_inv d \<Longrightarrow> run_step\<^sup>*\<^sup>* d (snd (runtime_step q d))"
  by (cases q) (simp_all add: lease_steps_run request_steps Append_steps Finalize_steps ReconcileBatch_steps
      cancel_moves_steps request_moves)

lemma update_fence:
  assumes "find_run k d = Some r" "r_ID r' = k" "r_FencingToken r \<le> r_FencingToken r'"
    "db_runs d' = update_row r_ID k (\<lambda>_. r') (db_runs d)"
  shows "fence_rank d \<le> fence_rank d'"
  using assms by (auto simp: le_fun_def fence_rank_def run_fence_def find_row_replace[OF assms(1,2)])

lemma run_step_fence: "run_step d d' \<Longrightarrow> fence_rank d \<le> fence_rank d'"
proof (induction rule: run_step.induct)
  case (Lease d d')
  then show ?case by (rule step_fence_rank)
next
  case (Close runID d r attemptID a a' r' d')
  with find_row_key[OF Close(1)] show ?case by (intro update_fence[of runID d r r']) (simp_all add: closes_run_def)
next
  case (Settle runID d r r' d')
  with find_row_key[OF Settle(1)] show ?case by (intro update_fence[of runID d r r']) (simp_all add: closes_run_def)
next
  case (Note runID d r r' d')
  with find_row_key[OF Note(1)] cancel_noted_fields[OF Note(3)] show ?case by (intro update_fence[of runID d r r']) simp_all
qed (simp_all add: fence_rank_def run_fence_def)

lemma run_steps_fence: "run_step\<^sup>*\<^sup>* d d' \<Longrightarrow> fence_rank d \<le> fence_rank d'"
  by (induction rule: rtranclp_induct) (auto intro: order_trans run_step_fence)

lemma steps_log: "run_step\<^sup>*\<^sup>* d d' \<Longrightarrow> \<exists>es. db_events d' = db_events d @ es"
proof (induction rule: rtranclp_induct)
  case (step d1 d2)
  then show ?case using run_step_events[OF step(2)] by auto
qed simp

definition runtime_inv :: "runtime_db \<Rightarrow> bool" where
  "runtime_inv d \<longleftrightarrow> lease_inv d \<and> event_inv d"

lemma runtime_invD: "runtime_inv d \<Longrightarrow> lease_inv d" "runtime_inv d \<Longrightarrow> event_inv d"
  by (simp_all add: runtime_inv_def)

interpretation runtime: service_mono runtime_step runtime_inv fence_rank
proof
  fix d q assume inv: "runtime_inv d"
  note steps = runtime_steps[OF runtime_invD(1)[OF inv], of q]
  show "runtime_inv (snd (runtime_step q d))"
    unfolding runtime_inv_def using steps_lease_inv_run[OF steps] steps_event_inv[OF steps] runtime_invD[OF inv] by blast
  show "fence_rank d \<le> fence_rank (snd (runtime_step q d))" by (rule run_steps_fence[OF steps])
qed

lemma runtime_history: "runtime_inv d \<Longrightarrow> run_step\<^sup>*\<^sup>* d (run_service runtime_step qs d)"
proof (induction qs arbitrary: d)
  case (Cons q qs)
  from runtime_steps[OF runtime_invD(1)[OF Cons(2)], of q] Cons(1)[OF runtime.step_inv[OF Cons(2), of q]]
  show ?case unfolding run_service.simps by (rule rtranclp_trans)
qed simp

section \<open>Guarantees over every history\<close>

text \<open>
  C1: Whatever requests the services of any Core instances take, in whatever order their transactions
  commit, the database keeps the lease invariant (exact capacity counters, unique and bounded fencing
  tokens, run rows that mirror their active attempt, leases that end by the deadlines) and the
  invariant of the event log (consecutive sequences per run, one entry per client event).
\<close>

theorem runtime_invariant_kept:
  "runtime_inv d \<Longrightarrow> lease_inv (run_service runtime_step requests d) \<and> event_inv (run_service runtime_step requests d)"
  using runtime.run_inv[of d requests] by (simp add: runtime_inv_def)

text \<open>
  C2: Capacity is conserved by offers, rejections, results, timeouts and cancellations alike. After any
  history, the inflight counter of every session and of every node is the number of attempts that hold
  one of its slots, and never exceeds its capacity.
\<close>

theorem capacity_conserved:
  assumes "runtime_inv d" "d' = run_service runtime_step requests d"
  shows "(\<forall>s \<in> set (db_sessions d').
            s_Inflight s = int (count_rows (holds_session_slot (s_ID s)) (db_attempts d')) \<and> s_Inflight s \<le> s_Capacity s) \<and>
         (\<forall>n \<in> set (db_nodes d').
            n_Inflight n = int (count_rows (holds_node_slot (n_ID n)) (db_attempts d')) \<and> n_Inflight n \<le> n_Capacity n)"
  using runtime_invD(1)[OF runtime.run_inv[OF assms(1), of requests]]
  unfolding assms(2) lease_inv_def capacity_exact_def counters_exact_def by blast

text \<open>
  C5: The fencing token of a run never decreases: a run that exists keeps existing with its owner, its
  agent and its deadline, and after any history its token is at least what it was.
\<close>

theorem fencing_token_monotone:
  assumes "runtime_inv d" "find_run runID d = Some r"
  shows "\<exists>r'. find_run runID (run_service runtime_step requests d) = Some r' \<and> same_request r r' \<and>
    r_FencingToken r \<le> r_FencingToken r'"
proof -
  obtain r' where r': "find_run runID (run_service runtime_step requests d) = Some r'" "same_request r r'"
    using steps_request[OF runtime_history[OF assms(1)] assms(2)] by blast
  have "fence_rank d runID \<le> fence_rank (run_service runtime_step requests d) runID"
    using runtime.run_rank[OF assms(1), of requests] by (simp add: le_fun_def)
  with r' assms(2) show ?thesis by (simp add: fence_rank_def run_fence_def)
qed

lemma live_attempt_unique:
  assumes "lease_inv d" and "a \<in> set (db_attempts d)" "b \<in> set (db_attempts d)" "a_RunID a = a_RunID b"
    and "a_FinishedAt a = None \<and> a_FinishedAt b = None \<or> a_FencingToken a = a_FencingToken b"
  shows "a = b"
proof -
  have ok: "fences_ok d" "unique_keys a_ID (db_attempts d)" using assms(1) by (simp_all add: lease_inv_def keys_ok_def)
  have "a_ID a = a_ID b"
    using assms(5)
  proof
    assume "a_FinishedAt a = None \<and> a_FinishedAt b = None"
    with fences_ok_runD[OF ok(1) assms(2)] fences_ok_runD[OF ok(1) assms(3)]
    obtain ra rb where "find_run (a_RunID a) d = Some ra" "live_attempt ra a" "find_run (a_RunID b) d = Some rb" "live_attempt rb b"
      by metis
    with assms(4) have "a_FencingToken a = a_FencingToken b" by (simp add: live_attempt_def)
    then show ?thesis by (rule fences_ok_uniqueD[OF ok(1) assms(2,3,4)])
  qed (rule fences_ok_uniqueD[OF ok(1) assms(2,3,4)])
  with find_row_in_set[OF ok(2) assms(2)] find_row_in_set[OF ok(2) assms(3)] show ?thesis
    by (metis option.inject)
qed

text \<open>
  C4: At most one attempt of a run is live. In any state the runtime reaches, two unfinished attempts
  of one run are the same attempt, and two attempts of a run never share a fencing token.
\<close>

theorem one_live_attempt_per_run:
  assumes "runtime_inv d" "d' = run_service runtime_step requests d"
    and "a \<in> set (db_attempts d')" "b \<in> set (db_attempts d')" "a_RunID a = a_RunID b"
    and "a_FinishedAt a = None \<and> a_FinishedAt b = None \<or> a_FencingToken a = a_FencingToken b"
  shows "a = b"
  using live_attempt_unique[OF runtime_invD(1) assms(3-6)] runtime.run_inv[OF assms(1), of requests] assms(2) by simp

text \<open>
  C3: The first outcome wins. Once a run has ended, by a result, by a timeout or by its owner's
  cancellation, no later request changes the outcome: after any history the stored run is the same
  row up to the three columns that report how far the stop of its attempt got, and the event log has
  only grown at its end.
\<close>

theorem first_outcome_wins:
  assumes "runtime_inv d" "find_run runID d = Some r" "r_Status r \<noteq> ''running''"
  shows "\<exists>r' es. find_run runID (run_service runtime_step requests d) = Some r' \<and>
    r' = r\<lparr>r_CancelState := r_CancelState r', r_CancelAcknowledgedAt := r_CancelAcknowledgedAt r', r_CancelReason := r_CancelReason r'\<rparr> \<and>
    db_events (run_service runtime_step requests d) = db_events d @ es"
  using steps_settled[OF runtime_history[OF assms(1)] assms(2,3)] steps_log[OF runtime_history[OF assms(1), of requests]]
  by (auto simp: cancel_noted_def)

section \<open>Refusals\<close>

text \<open>Replies that report an error of a single transaction.\<close>

fun refused :: "runtime_reply \<Rightarrow> bool" where
  "refused (LeaseReply (Inl _)) \<longleftrightarrow> True"
| "refused (AppendReply (Inl _)) \<longleftrightarrow> True"
| "refused (FinalizeReply (Inl _)) \<longleftrightarrow> True"
| "refused (CancelCallReply (CancelReply (Inl _))) \<longleftrightarrow> True"
| "refused (CancelCallReply (StopReply (Inl _))) \<longleftrightarrow> True"
| "refused (CancelCallReply (PollReply (_, Some _))) \<longleftrightarrow> True"
| "refused _ \<longleftrightarrow> False"

lemma lease_refused: "lease_request_step q d = (Inl e, d') \<Longrightarrow> d' = d"
  by (cases q) (auto simp: ClaimOffer_def AckAssignment_def RejectAssignment_def RenewLease_def
      ReleaseUnackedOffer_def dest: run_checked_error)

lemma CancelOwnedRun_refused: "CancelOwnedRun fe c began clk requester runID reason d = (Inl e, d') \<Longrightarrow> d' = d"
  by (erule CancelOwnedRun_cases) simp_all

lemma PollCommands_refused: "PollCommands ce c clk held p d = ((out, Some e), d') \<Longrightarrow> d' = d"
  by (auto simp: PollCommands_def NextCommand_def dest: WithTransaction_error
      split: prod.split_asm sum.split_asm if_split_asm option.split_asm)

lemma AckCancel_refused: "AckCancel decs c clk p request d = (Inl e, d') \<Longrightarrow> d' = d"
  by (auto simp: AckCancel_def Let_def dest: WithTransaction_error split: if_split_asm option.split_asm)

lemma CoreStopped_refused: "AcknowledgeCoreStopped c clk core i d = (Inl e, d') \<Longrightarrow> d' = d"
  by (auto simp: AcknowledgeCoreStopped_def Let_def dest: WithTransaction_error split: if_split_asm)

lemma refused_cases:
  assumes "refused r"
  obtains e where "r = LeaseReply (Inl e)" | e where "r = AppendReply (Inl e)" | e where "r = FinalizeReply (Inl e)"
    | e where "r = CancelCallReply (CancelReply (Inl e))" | e where "r = CancelCallReply (StopReply (Inl e))"
    | x e where "r = CancelCallReply (PollReply (x, Some e))"
  using assms by (cases r rule: refused.cases) auto

lemma cancel_refused:
  assumes "cancel_request_step q d = (r, d')" "refused (CancelCallReply r)"
  shows "d' = d"
  using assms(2)
proof (cases rule: refused_cases)
  case (4 e)
  with assms(1) show ?thesis by (cases q) (auto simp: apfst_def map_prod_def dest: CancelOwnedRun_refused split: prod.split_asm)
next
  case (5 e)
  with assms(1) show ?thesis
    by (cases q) (auto simp: apfst_def map_prod_def dest: AckCancel_refused CoreStopped_refused split: prod.split_asm)
next
  case (6 x e)
  with assms(1) show ?thesis by (cases q) (auto simp: apfst_def map_prod_def dest: PollCommands_refused split: prod.split_asm)
qed simp_all

lemma Append_refused: "Append ee eventID began clk p i request d = (Inl e, d') \<Longrightarrow> d' = d"
  by (auto simp: Append_def dest: WithTransaction_error split: option.split_asm sum.split_asm)

lemma Finalize_refused: "Finalize fe f began clk p request d = (Inl e, d') \<Longrightarrow> d' = d"
  by (auto simp: Finalize_def dest: WithTransaction_error split: option.split_asm sum.split_asm)

lemma runtime_refused:
  assumes "runtime_step q d = (r, d')" "refused r"
  shows "d' = d"
proof (cases q)
  case (CancelCall x)
  with assms show ?thesis by (auto simp: apfst_def map_prod_def dest: cancel_refused split: prod.split_asm)
qed (use assms in \<open>auto simp: apfst_def map_prod_def elim!: refused_cases
    dest: lease_refused Append_refused Finalize_refused split: prod.split_asm\<close>)

text \<open>
  C6: Every request to the runtime is a sequence of steps of the abstract specification, and a request
  that reports the error of its transaction leaves the database exactly as it was.
\<close>

theorem runtime_requests_refine_steps:
  assumes "lease_inv d" "runtime_step q d = (r, d')"
  shows "run_step\<^sup>*\<^sup>* d d' \<and> (refused r \<longrightarrow> d' = d)"
  using runtime_steps[OF assms(1), of q] runtime_refused[OF assms(2)] assms(2) by simp

section \<open>The laws on the example\<close>

lemma wit_runtime_inv: "runtime_inv wit_ready"
  using wit_ready_inv by (simp add: runtime_inv_def)

text \<open>The owner cancels while the runtime reports its result; the result comes too late.\<close>

definition wit_race :: "runtime_request list" where
  "wit_race = [CancelCall (CancelRun wit_result_env wit_coordinator 3000 wit_result_clock 7 6 []),
     FinalizeCall wit_result_env wit_finalizer 3000 wit_result_clock wit_event_principal wit_result,
     CancelCall (StopAck wit_decoders wit_coordinator wit_result_clock wit_principal wit_stop_ack)]"

lemma wit_cancel_call:
  "run_service runtime_step [CancelCall (CancelRun wit_result_env wit_coordinator 3000 wit_result_clock 7 6 [])] wit_ready = wit_canceling"
  by (simp add: wit_canceling(1))

theorem runtime_invariant_kept_witness: "lease_inv wit_canceling \<and> event_inv wit_canceling"
  using runtime_invariant_kept[OF wit_runtime_inv, of "[CancelCall (CancelRun wit_result_env wit_coordinator 3000 wit_result_clock 7 6 [])]"]
  unfolding wit_cancel_call .

theorem capacity_conserved_witness:
  "s_Inflight (wit_session 1 1005 1005) = int (count_rows (holds_session_slot 1) [wit_owner]) \<and>
   n_Inflight (wit_node 1 (Some 1006) 1006) = int (count_rows (holds_node_slot 2) [wit_owner])"
  using capacity_conserved[OF wit_runtime_inv wit_cancel_call[symmetric]]
  by (simp add: wit_canceling wit_ready_rows) (simp add: wit_session_def wit_node_def)

theorem fencing_token_monotone_witness:
  "\<exists>r'. find_run 6 (run_service runtime_step wit_race wit_ready) = Some r' \<and> same_request wit_leased r' \<and>
     r_FencingToken wit_leased \<le> r_FencingToken r'"
  by (rule fencing_token_monotone[OF wit_runtime_inv wit_ready_rows(1)])

theorem one_live_attempt_per_run_witness:
  "{b \<in> set (db_attempts wit_canceling). a_RunID b = 6 \<and> a_FinishedAt b = None} = {wit_owner}"
proof -
  have "wit_owner = b" if "b \<in> set (db_attempts wit_canceling)" "a_RunID b = 6" "a_FinishedAt b = None" for b
    by (rule one_live_attempt_per_run[OF wit_runtime_inv wit_cancel_call[symmetric] _ that(1)])
       (use that in \<open>simp_all add: wit_canceling wit_owner_fields\<close>)
  then show ?thesis by (auto simp: wit_canceling wit_owner_fields)
qed

theorem first_outcome_wins_witness:
  "\<exists>r'. find_run 6 (run_service runtime_step wit_race wit_ready) = Some r' \<and> r_Status r' = ''canceled'' \<and> r_TerminalEventID r' = Some 40"
proof -
  have inv: "runtime_inv wit_canceling" using runtime.run_inv[OF wit_runtime_inv] wit_cancel_call by metis
  have "find_run 6 wit_canceling = Some wit_canceled_run" "r_Status wit_canceled_run \<noteq> ''running''"
    by (simp_all add: wit_canceling find_row_def wit_cancel_fields)
  from first_outcome_wins[OF inv this, of "tl wit_race"] obtain r' where
      r': "find_run 6 (run_service runtime_step (tl wit_race) wit_canceling) = Some r'"
      "r' = wit_canceled_run\<lparr>r_CancelState := r_CancelState r', r_CancelAcknowledgedAt := r_CancelAcknowledgedAt r', r_CancelReason := r_CancelReason r'\<rparr>"
    by blast
  have "run_service runtime_step wit_race wit_ready = run_service runtime_step (tl wit_race) wit_canceling"
    by (simp add: wit_race_def wit_canceling(1))
  moreover have "r_Status r' = ''canceled''" "r_TerminalEventID r' = Some 40"
    by (subst r'(2), simp add: wit_cancel_fields)+
  ultimately show ?thesis using r'(1) by simp
qed

theorem runtime_requests_refine_steps_witness: "run_step\<^sup>*\<^sup>* wit_ready wit_canceling"
  using runtime_requests_refine_steps[OF wit_ready_inv(1), of "CancelCall (CancelRun wit_result_env wit_coordinator 3000 wit_result_clock 7 6 [])"]
  by (simp add: wit_canceling(1))

end
