(* ===== verification/Workflow_Graph.thy ===== *)
theory Workflow_Graph
  imports Canonical_Json
begin

text \<open>
  The graph of a workflow, from \<open>pkg/workflow/service.go\<close>: how the edges of a request or of a stored
  definition are normalised, and how \<open>buildWorkflowGraph\<close> arranges the nodes in levels that may run
  in parallel, by Kahn's algorithm one level at a time. A Go \<open>map[string]interface{}\<close> is the list of
  its entries in iteration order, so its keys are distinct. A Go map that is only read with a default
  is a total function, the value of an absent key being the zero value of Go. The two loops over
  worklists are partial functions into \<open>option\<close>: \<open>None\<close> means that the loop does not end.

  Every \<open>workflow_error\<close> stands for the \<open>httpx.BadRequest\<close> whose message it names.
\<close>

named_theorems wf_defs \<open>definitions of the workflow graph\<close>

section \<open>Data\<close>

type_synonym json_object = "(string \<times> gvalue) list"

record WorkflowNode =
  wfn_ID :: uuid
  wfn_WorkflowID :: uuid
  wfn_NodeKey :: string
  wfn_NodeType :: string
  wfn_AgentID :: uuid
  wfn_Title :: string
  wfn_Config :: bytes
  wfn_Position :: "32 word"
  wfn_CreatedAt :: gotime

definition zero_node :: WorkflowNode where
  "zero_node =
     \<lparr>wfn_ID = uuid_Nil, wfn_WorkflowID = uuid_Nil, wfn_NodeKey = '''', wfn_NodeType = '''',
      wfn_AgentID = uuid_Nil, wfn_Title = '''', wfn_Config = [], wfn_Position = 0, wfn_CreatedAt = 0\<rparr>"

record Workflow =
  wfl_ID :: uuid
  wfl_UserID :: uuid
  wfl_Name :: string
  wfl_Description :: string
  wfl_Status :: string
  wfl_Edges :: bytes
  wfl_CreatedAt :: gotime
  wfl_UpdatedAt :: gotime

record WorkflowNodeRequest =
  wnr_Key :: string
  wnr_Title :: string
  wnr_AgentID :: uuid
  wnr_Config :: "json_object option"

record workflowGraph =
  wfg_Parents :: "string \<Rightarrow> string list"
  wfg_Children :: "string \<Rightarrow> string list"
  wfg_Levels :: "WorkflowNode list list"
  wfg_Sequence :: "string \<rightharpoonup> 32 word"
  wfg_Sinks :: "string list"

datatype workflow_error =
    EdgesNotJSON
  | DuplicateNodeKey string
  | EdgeWithoutEndpoints
  | SelfEdge string
  | UnknownEdgeFrom string
  | UnknownEdgeTo string
  | DuplicateEdge string
  | CyclicEdges

section \<open>Edges\<close>

fun workflowEdgeEndpoint :: "json_object \<Rightarrow> string list \<Rightarrow> string" where
  "workflowEdgeEndpoint edge [] = ''''"
| "workflowEdgeEndpoint edge (key # keys) =
     (case map_of edge key of
        Some (VString s) \<Rightarrow> TrimSpace s
      | _ \<Rightarrow> workflowEdgeEndpoint edge keys)"

definition isWorkflowEndpointKey :: "string \<Rightarrow> bool" where
  "isWorkflowEndpointKey key \<longleftrightarrow>
     key \<in> {''from'', ''to'', ''source'', ''target'', ''source_key'', ''target_key'', ''sourceKey'', ''targetKey''}"

definition edge_from :: "json_object \<Rightarrow> string" where
  "edge_from raw = workflowEdgeEndpoint raw [''from'', ''source'', ''source_key'', ''sourceKey'']"

definition edge_to :: "json_object \<Rightarrow> string" where
  "edge_to raw = workflowEdgeEndpoint raw [''to'', ''target'', ''target_key'', ''targetKey'']"

definition edge_key :: "string \<Rightarrow> string \<Rightarrow> string" where
  "edge_key from to = from @ ''->'' @ to"

text \<open>The known keys; blank keys are skipped.\<close>

fun known_keys :: "string list \<Rightarrow> string list \<Rightarrow> workflow_error + string list" where
  "known_keys known [] = Inr known"
| "known_keys known (raw # keys) =
     (let key = TrimSpace raw in
      if key = '''' then known_keys known keys
      else if key \<in> set known then Inl (DuplicateNodeKey key)
      else known_keys (known @ [key]) keys)"

definition normalized_edge :: "json_object \<Rightarrow> json_object" where
  "normalized_edge raw =
     [(''from'', VString (edge_from raw)), (''to'', VString (edge_to raw))] @
     filter (\<lambda>(k, v). \<not> isWorkflowEndpointKey k) raw"

fun normalize_edges :: "string list \<Rightarrow> string list \<Rightarrow> json_object list \<Rightarrow> workflow_error + json_object list" where
  "normalize_edges known seen [] = Inr []"
| "normalize_edges known seen (raw # rest) =
     (let from = edge_from raw; to = edge_to raw; key = edge_key from to in
      if from = '''' \<or> to = '''' then Inl EdgeWithoutEndpoints
      else if from = to then Inl (SelfEdge from)
      else if from \<notin> set known then Inl (UnknownEdgeFrom from)
      else if to \<notin> set known then Inl (UnknownEdgeTo to)
      else if key \<in> set seen then Inl (DuplicateEdge key)
      else map_sum id ((#) (normalized_edge raw)) (normalize_edges known (key # seen) rest))"

definition normalizeWorkflowEdges :: "string list \<Rightarrow> json_object list \<Rightarrow> workflow_error + json_object list" where
  "normalizeWorkflowEdges nodeKeys rawEdges =
     (if rawEdges = [] then Inr []
      else case known_keys [] nodeKeys of
        Inl err \<Rightarrow> Inl err
      | Inr known \<Rightarrow> normalize_edges known [] rawEdges)"

fun sequentialWorkflowEdges :: "string list \<Rightarrow> json_object list" where
  "sequentialWorkflowEdges (a # b # keys) =
     [(''from'', VString a), (''to'', VString b)] # sequentialWorkflowEdges (b # keys)"
| "sequentialWorkflowEdges _ = []"

text \<open>Edges that are omitted or null are \<open>None\<close>: only they get the sequential default.\<close>

definition normalizeWorkflowEdgesFromRequest ::
    "WorkflowNodeRequest list \<Rightarrow> json_object list option \<Rightarrow> workflow_error + json_object list" where
  "normalizeWorkflowEdgesFromRequest nodes rawEdges =
     (let nodeKeys = map (TrimSpace \<circ> wnr_Key) nodes in
      normalizeWorkflowEdges nodeKeys
        (case rawEdges of None \<Rightarrow> sequentialWorkflowEdges nodeKeys | Some edges \<Rightarrow> edges))"

section \<open>Levels\<close>

definition node_index :: "WorkflowNode list \<Rightarrow> string \<Rightarrow> nat" where
  "node_index nodes = fold (\<lambda>(i, node) m. m(wfn_NodeKey node := i)) (enumerate 0 nodes) (\<lambda>_. 0)"

definition nodes_by_key :: "WorkflowNode list \<Rightarrow> string \<rightharpoonup> WorkflowNode" where
  "nodes_by_key nodes = fold (\<lambda>node m. m(wfn_NodeKey node \<mapsto> node)) nodes Map.empty"

definition node_of :: "WorkflowNode list \<Rightarrow> string \<Rightarrow> WorkflowNode" where
  "node_of nodes key = (case nodes_by_key nodes key of Some node \<Rightarrow> node | None \<Rightarrow> zero_node)"

record edge_tables =
  et_parents :: "string \<Rightarrow> string list"
  et_children :: "string \<Rightarrow> string list"
  et_inDegree :: "string \<Rightarrow> int"

definition empty_tables :: edge_tables where
  "empty_tables = \<lparr>et_parents = (\<lambda>_. []), et_children = (\<lambda>_. []), et_inDegree = (\<lambda>_. 0)\<rparr>"

definition add_edge :: "string \<Rightarrow> string \<Rightarrow> edge_tables \<Rightarrow> edge_tables" where
  "add_edge from to t =
     t\<lparr>et_children := (et_children t)(from := et_children t from @ [to]),
       et_parents := (et_parents t)(to := et_parents t to @ [from]),
       et_inDegree := (et_inDegree t)(to := et_inDegree t to + 1)\<rparr>"

fun add_edges :: "WorkflowNode list \<Rightarrow> json_object list \<Rightarrow> edge_tables \<Rightarrow> workflow_error + edge_tables" where
  "add_edges nodes [] t = Inr t"
| "add_edges nodes (edge # edges) t =
     (let from = workflowEdgeEndpoint edge [''from'']; to = workflowEdgeEndpoint edge [''to''] in
      if nodes_by_key nodes from = None then Inl (UnknownEdgeFrom from)
      else if nodes_by_key nodes to = None then Inl (UnknownEdgeTo to)
      else add_edges nodes edges (add_edge from to t))"

text \<open>Two keys with the same index are the same key, so an unstable sort has only one result.\<close>

definition sortWorkflowKeys :: "WorkflowNode list \<Rightarrow> string list \<Rightarrow> string list" where
  "sortWorkflowKeys nodes keys = sort_key (node_index nodes) keys"

record level_state =
  ls_ready :: "string list"
  ls_levels :: "WorkflowNode list list"
  ls_sequence :: "string \<rightharpoonup> 32 word"
  ls_processed :: nat
  ls_seq :: "32 word"
  ls_inDegree :: "string \<Rightarrow> int"

definition visit_key :: "(string \<Rightarrow> string list) \<Rightarrow> string \<Rightarrow> level_state \<Rightarrow> level_state" where
  "visit_key children key st =
     st\<lparr>ls_sequence := (ls_sequence st)(key \<mapsto> ls_seq st), ls_seq := ls_seq st + 1,
        ls_processed := ls_processed st + 1,
        ls_inDegree := fold (\<lambda>child d. d(child := d child - 1)) (children key) (ls_inDegree st)\<rparr>"

definition next_ready :: "WorkflowNode list \<Rightarrow> level_state \<Rightarrow> string list" where
  "next_ready nodes st =
     filter (\<lambda>key. ls_inDegree st key = 0 \<and> ls_sequence st key = None) (map wfn_NodeKey nodes)"

definition level_step :: "WorkflowNode list \<Rightarrow> (string \<Rightarrow> string list) \<Rightarrow> level_state \<Rightarrow> level_state" where
  "level_step nodes children st =
     (let current = ls_ready st; st' = fold (visit_key children) current st in
      st'\<lparr>ls_ready := sortWorkflowKeys nodes (next_ready nodes st'),
          ls_levels := ls_levels st' @ [map (node_of nodes) current]\<rparr>)"

partial_function (option) run_levels ::
    "WorkflowNode list \<Rightarrow> (string \<Rightarrow> string list) \<Rightarrow> level_state \<Rightarrow> level_state option" where
  "run_levels nodes children st =
     (if ls_ready st = [] then Some st else run_levels nodes children (level_step nodes children st))"

definition start_levels :: "WorkflowNode list \<Rightarrow> edge_tables \<Rightarrow> level_state" where
  "start_levels nodes t =
     \<lparr>ls_ready = sortWorkflowKeys nodes (filter (\<lambda>key. et_inDegree t key = 0) (map wfn_NodeKey nodes)),
      ls_levels = [], ls_sequence = Map.empty, ls_processed = 0, ls_seq = 0, ls_inDegree = et_inDegree t\<rparr>"

definition graph_result :: "WorkflowNode list \<Rightarrow> edge_tables \<Rightarrow> level_state \<Rightarrow> workflow_error + workflowGraph" where
  "graph_result nodes t st =
     (if ls_processed st \<noteq> length nodes then Inl CyclicEdges
      else Inr \<lparr>wfg_Parents = et_parents t, wfg_Children = et_children t, wfg_Levels = ls_levels st,
                wfg_Sequence = ls_sequence st,
                wfg_Sinks = sortWorkflowKeys nodes
                  (filter (\<lambda>key. et_children t key = []) (map wfn_NodeKey nodes))\<rparr>)"

definition sort_tables :: "WorkflowNode list \<Rightarrow> edge_tables \<Rightarrow> edge_tables" where
  "sort_tables nodes t =
     t\<lparr>et_parents := (\<lambda>key. sortWorkflowKeys nodes (et_parents t key)),
       et_children := (\<lambda>key. sortWorkflowKeys nodes (et_children t key))\<rparr>"

definition buildWorkflowGraph ::
    "WorkflowNode list \<Rightarrow> json_object list \<Rightarrow> (workflow_error + workflowGraph) option" where
  "buildWorkflowGraph nodes edges =
     (case add_edges nodes edges empty_tables of
        Inl err \<Rightarrow> Some (Inl err)
      | Inr tables \<Rightarrow>
          let t = sort_tables nodes tables in
          map_option (graph_result nodes t) (run_levels nodes (et_children t) (start_levels nodes t)))"

definition validateWorkflowGraphFromRequest ::
    "WorkflowNodeRequest list \<Rightarrow> json_object list \<Rightarrow> workflow_error option option" where
  "validateWorkflowGraphFromRequest nodes edges =
     map_option (\<lambda>r. case r of Inl err \<Rightarrow> Some err | Inr _ \<Rightarrow> None)
       (buildWorkflowGraph
          (map (\<lambda>(i, node). zero_node\<lparr>wfn_NodeKey := TrimSpace (wnr_Key node),
             wfn_AgentID := wnr_AgentID node, wfn_Position := of_nat i\<rparr>) (enumerate 0 nodes))
          edges)"

text \<open>\<open>unmarshal\<close> is \<open>json.Unmarshal\<close> into a slice of maps, \<open>None\<close> when it fails.\<close>

definition workflowGraphFromDefinition ::
    "(bytes \<Rightarrow> json_object list option) \<Rightarrow> Workflow \<Rightarrow> WorkflowNode list \<Rightarrow>
     (workflow_error + workflowGraph) option" where
  "workflowGraphFromDefinition unmarshal w nodes =
     (case (if wfl_Edges w = [] then Some [] else unmarshal (wfl_Edges w)) of
        None \<Rightarrow> Some (Inl EdgesNotJSON)
      | Some rawEdges \<Rightarrow>
          (case normalizeWorkflowEdges (map wfn_NodeKey nodes) rawEdges of
             Inl err \<Rightarrow> Some (Inl err)
           | Inr edges \<Rightarrow> buildWorkflowGraph nodes edges))"

section \<open>Descendants\<close>

fun push_children :: "string list \<Rightarrow> string list \<Rightarrow> string list \<Rightarrow> string list \<times> string list" where
  "push_children affected queue [] = (affected, queue)"
| "push_children affected queue (child # children) =
     (if child \<in> set affected then push_children affected queue children
      else push_children (affected @ [child]) (queue @ [child]) children)"

partial_function (option) affected_loop ::
    "(string \<Rightarrow> string list) \<Rightarrow> string list \<Rightarrow> string list \<Rightarrow> string list option" where
  "affected_loop children affected queue =
     (case queue of
        [] \<Rightarrow> Some affected
      | current # rest \<Rightarrow>
          (case push_children affected rest (children current) of
             (affected', queue') \<Rightarrow> affected_loop children affected' queue'))"

definition workflowAffectedNodeKeys :: "workflowGraph \<Rightarrow> string \<Rightarrow> string list option" where
  "workflowAffectedNodeKeys graph nodeKey = affected_loop (wfg_Children graph) [nodeKey] [nodeKey]"

end
