(* ===== verification/Workflow_Levels.thy ===== *)
theory Workflow_Levels
  imports Workflow_Graph
begin

text \<open>
  Correctness of the two worklist loops of the workflow graph. Both are instances of one locale, a
  loop that repeats a step until it is done: an invariant that the step keeps and a measure that it
  decreases give a result. For \<open>buildWorkflowGraph\<close> the invariant says that the in-degrees count
  the edges from nodes that are not yet placed, and that the levels built so far are layered: every
  parent of a node is in an earlier level and, after the first level, one of them in the level just
  before. For \<open>workflowAffectedNodeKeys\<close> it says that the children of every key that has left the
  queue are marked.
\<close>

section \<open>Worklist loops\<close>

locale worklist_loop =
  fixes run :: "'s \<Rightarrow> 'r option"
    and finished :: "'s \<Rightarrow> bool"
    and step :: "'s \<Rightarrow> 's"
    and result :: "'s \<Rightarrow> 'r"
  assumes run_unfold: "run st = (if finished st then Some (result st) else run (step st))"
begin

lemma run_rule:
  assumes "P st"
    and "\<And>st. P st \<Longrightarrow> \<not> finished st \<Longrightarrow> P (step st)"
    and "\<And>st. P st \<Longrightarrow> \<not> finished st \<Longrightarrow> (m (step st) :: nat) < m st"
  shows "\<exists>st'. run st = Some (result st') \<and> finished st' \<and> P st'"
  using assms(1)
proof (induction "m st" arbitrary: st rule: less_induct)
  case less
  show ?case
  proof (cases "finished st")
    case True
    then show ?thesis using less.prems run_unfold[of st] by auto
  next
    case False
    then have "\<exists>st'. run (step st) = Some (result st') \<and> finished st' \<and> P st'"
      using less assms by blast
    then show ?thesis using False run_unfold[of st] by simp
  qed
qed

end

interpretation level_loop: worklist_loop "run_levels nodes children" "\<lambda>st. ls_ready st = []"
    "level_step nodes children" "\<lambda>st. st" for nodes children
  by unfold_locales (rule run_levels.simps)

definition affected_step :: "(string \<Rightarrow> string list) \<Rightarrow> string list \<times> string list \<Rightarrow> string list \<times> string list" where
  "affected_step children st =
     (case st of (affected, queue) \<Rightarrow> push_children affected (tl queue) (children (hd queue)))"

interpretation affected_search: worklist_loop "\<lambda>(affected, queue). affected_loop children affected queue"
    "\<lambda>(affected, queue). queue = []" "affected_step children" fst for children
proof
  fix st :: "string list \<times> string list"
  obtain affected queue where st: "st = (affected, queue)" by (cases st)
  show "(case st of (affected, queue) \<Rightarrow> affected_loop children affected queue) =
    (if case st of (affected, queue) \<Rightarrow> queue = [] then Some (fst st)
     else case affected_step children st of (affected, queue) \<Rightarrow> affected_loop children affected queue)"
    unfolding st by (subst affected_loop.simps) (auto simp: affected_step_def split: list.split)
qed

section \<open>Keys and nodes\<close>

abbreviation node_keys :: "WorkflowNode list \<Rightarrow> string list" where
  "node_keys nodes \<equiv> map wfn_NodeKey nodes"

lemma nodes_by_key_fold:
  "fold (\<lambda>node m. m(wfn_NodeKey node \<mapsto> node)) nodes m k = None \<longleftrightarrow> m k = None \<and> k \<notin> set (node_keys nodes)"
  by (induction nodes arbitrary: m) auto

lemma nodes_by_key_None [simp]: "nodes_by_key nodes k = None \<longleftrightarrow> k \<notin> set (node_keys nodes)"
  unfolding nodes_by_key_def by (subst nodes_by_key_fold) simp

lemma nodes_by_key_fold_notin:
  "k \<notin> set (node_keys nodes) \<Longrightarrow> fold (\<lambda>node m. m(wfn_NodeKey node \<mapsto> node)) nodes m k = m k"
  by (induction nodes arbitrary: m) auto

lemma nodes_by_key_fold_in:
  "distinct (node_keys nodes) \<Longrightarrow> n \<in> set nodes \<Longrightarrow>
     fold (\<lambda>node m. m(wfn_NodeKey node \<mapsto> node)) nodes m (wfn_NodeKey n) = Some n"
proof (induction nodes arbitrary: m)
  case (Cons a nodes)
  then show ?case by (cases "n = a") (auto simp: nodes_by_key_fold_notin fun_upd_same simp del: fun_upd_apply)
qed simp

lemma node_of_key [simp]:
  "distinct (node_keys nodes) \<Longrightarrow> n \<in> set nodes \<Longrightarrow> node_of nodes (wfn_NodeKey n) = n"
  by (simp add: node_of_def nodes_by_key_def nodes_by_key_fold_in)

lemma node_of_in:
  assumes "distinct (node_keys nodes)" "k \<in> set (node_keys nodes)"
  shows "node_of nodes k \<in> set nodes" "wfn_NodeKey (node_of nodes k) = k"
  using assms by auto

lemma key_node_of [simp]:
  "distinct (node_keys nodes) \<Longrightarrow> set ks \<subseteq> set (node_keys nodes) \<Longrightarrow>
     map wfn_NodeKey (map (node_of nodes) ks) = ks"
  by (induction ks) (auto simp: node_of_in)

lemma node_index_fold_notin:
  "k \<notin> set (node_keys nodes) \<Longrightarrow>
     fold (\<lambda>(i, node) m. m(wfn_NodeKey node := i)) (enumerate d nodes) m k = m k"
  by (induction nodes arbitrary: d m) auto

lemma node_index_fold:
  "distinct (node_keys nodes) \<Longrightarrow> i < length nodes \<Longrightarrow>
     fold (\<lambda>(i, node) m. m(wfn_NodeKey node := i)) (enumerate d nodes) m (wfn_NodeKey (nodes ! i)) = d + i"
proof (induction nodes arbitrary: d i m)
  case (Cons a nodes)
  then show ?case by (cases i) (auto simp: node_index_fold_notin fun_upd_same simp del: fun_upd_apply)
qed simp

lemma node_index_nth:
  "distinct (node_keys nodes) \<Longrightarrow> i < length nodes \<Longrightarrow> node_index nodes (wfn_NodeKey (nodes ! i)) = i"
  by (simp add: node_index_def node_index_fold)

lemma node_keys_sorted:
  assumes "distinct (node_keys nodes)"
  shows "sorted (map (node_index nodes) (node_keys nodes))"
proof -
  have "map (node_index nodes) (node_keys nodes) = [0..<length nodes]"
    by (rule nth_equalityI) (use assms in \<open>simp_all add: node_index_nth\<close>)
  then show ?thesis by simp
qed

text \<open>With distinct keys every list of keys that is selected in declaration order is already sorted.\<close>

lemma sort_selected [simp]:
  "distinct (node_keys nodes) \<Longrightarrow>
     sortWorkflowKeys nodes (filter P (node_keys nodes)) = filter P (node_keys nodes)"
  unfolding sortWorkflowKeys_def
  by (intro sort_key_id_if_sorted sorted_filter node_keys_sorted)

lemma mset_sortWorkflowKeys [simp]: "mset (sortWorkflowKeys nodes keys) = mset keys"
  by (simp add: sortWorkflowKeys_def)

lemma set_sortWorkflowKeys [simp]: "set (sortWorkflowKeys nodes keys) = set keys"
  by (simp add: sortWorkflowKeys_def)

lemma sortWorkflowKeys_Nil [simp]: "sortWorkflowKeys nodes keys = [] \<longleftrightarrow> keys = []"
  by (metis set_sortWorkflowKeys set_empty)

section \<open>Edge tables\<close>

definition edge_pairs :: "json_object list \<Rightarrow> (string \<times> string) list" where
  "edge_pairs edges =
     map (\<lambda>edge. (workflowEdgeEndpoint edge [''from''], workflowEdgeEndpoint edge [''to''])) edges"

definition edges_known :: "WorkflowNode list \<Rightarrow> json_object list \<Rightarrow> bool" where
  "edges_known nodes edges \<longleftrightarrow>
     (\<forall>(a, b) \<in> set (edge_pairs edges). a \<in> set (node_keys nodes) \<and> b \<in> set (node_keys nodes))"

lemma edge_pairs_simps [simp]:
  "edge_pairs [] = []"
  "edge_pairs (edge # edges) =
     (workflowEdgeEndpoint edge [''from''], workflowEdgeEndpoint edge [''to'']) # edge_pairs edges"
  by (simp_all add: edge_pairs_def)

lemma edges_known_simps [simp]:
  "edges_known nodes []"
  "edges_known nodes (edge # edges) \<longleftrightarrow>
     workflowEdgeEndpoint edge [''from''] \<in> set (node_keys nodes) \<and>
     workflowEdgeEndpoint edge [''to''] \<in> set (node_keys nodes) \<and> edges_known nodes edges"
  by (auto simp: edges_known_def)

definition tables_of :: "(string \<times> string) list \<Rightarrow> edge_tables" where
  "tables_of pairs = fold (\<lambda>(a, b). add_edge a b) pairs empty_tables"

lemma add_edges_known:
  "edges_known nodes edges \<Longrightarrow>
     add_edges nodes edges t = Inr (fold (\<lambda>(a, b). add_edge a b) (edge_pairs edges) t)"
  by (induction edges arbitrary: t) (simp_all del: workflowEdgeEndpoint.simps)

lemma add_edges_unknown: "\<not> edges_known nodes edges \<Longrightarrow> \<exists>err. add_edges nodes edges t = Inl err \<and> err \<noteq> CyclicEdges"
  by (induction edges arbitrary: t) (auto simp del: workflowEdgeEndpoint.simps simp: Let_def)

lemma tables_fold:
  "et_children (fold (\<lambda>(a, b). add_edge a b) pairs t) k = et_children t k @ map snd (filter (\<lambda>(a, b). a = k) pairs)"
  "et_parents (fold (\<lambda>(a, b). add_edge a b) pairs t) k = et_parents t k @ map fst (filter (\<lambda>(a, b). b = k) pairs)"
  "et_inDegree (fold (\<lambda>(a, b). add_edge a b) pairs t) k = et_inDegree t k + int (length (filter (\<lambda>(a, b). b = k) pairs))"
  by (induction pairs arbitrary: t) (auto simp: add_edge_def)

lemma tables_of_fields [simp]:
  "et_children (tables_of pairs) k = map snd (filter (\<lambda>(a, b). a = k) pairs)"
  "et_parents (tables_of pairs) k = map fst (filter (\<lambda>(a, b). b = k) pairs)"
  "et_inDegree (tables_of pairs) k = int (length (filter (\<lambda>(a, b). b = k) pairs))"
  by (simp_all add: tables_of_def tables_fold empty_tables_def)

lemma sort_tables_fields [simp]:
  "et_children (sort_tables nodes t) k = sortWorkflowKeys nodes (et_children t k)"
  "et_parents (sort_tables nodes t) k = sortWorkflowKeys nodes (et_parents t k)"
  "et_inDegree (sort_tables nodes t) = et_inDegree t"
  by (simp_all add: sort_tables_def)

section \<open>Levels\<close>

text \<open>
  \<open>layered R K\<close>: all \<open>R\<close>-predecessors of a member of a level lie in earlier levels, and from the second
  level on at least one of them lies in the level just before, so no member could run earlier.
\<close>

definition layered :: "('a \<times> 'a) set \<Rightarrow> 'a list list \<Rightarrow> bool" where
  "layered R K \<longleftrightarrow>
     (\<forall>i < length K. \<forall>x \<in> set (K ! i).
        (\<forall>a. (a, x) \<in> R \<longrightarrow> a \<in> set (concat (take i K))) \<and>
        (0 < i \<longrightarrow> (\<exists>a \<in> set (K ! (i - 1)). (a, x) \<in> R)))"

lemma layered_Nil [simp]: "layered R []"
  by (simp add: layered_def)

lemma layered_snoc:
  assumes "layered R K" "\<And>x a. x \<in> set l \<Longrightarrow> (a, x) \<in> R \<Longrightarrow> a \<in> set (concat K)"
    "\<And>x. x \<in> set l \<Longrightarrow> K \<noteq> [] \<Longrightarrow> \<exists>a \<in> set (last K). (a, x) \<in> R"
  shows "layered R (K @ [l])"
  using assms unfolding layered_def
  by (auto simp: nth_append less_Suc_eq last_conv_nth)

text \<open>The edges into a key that start at a node that is not yet placed.\<close>

definition open_degree :: "(string \<times> string) list \<Rightarrow> string set \<Rightarrow> string \<Rightarrow> nat" where
  "open_degree pairs S x = length (filter (\<lambda>(a, b). b = x \<and> a \<notin> S) pairs)"

lemma open_degree_insert:
  "k \<notin> S \<Longrightarrow> open_degree pairs S x =
     open_degree pairs (insert k S) x + count (mset (map snd (filter (\<lambda>(a, b). a = k) pairs))) x"
  unfolding open_degree_def by (induction pairs) auto

lemma open_degree_0: "open_degree pairs S x = 0 \<longleftrightarrow> (\<forall>a. (a, x) \<in> set pairs \<longrightarrow> a \<in> S)"
  unfolding open_degree_def by (auto simp: filter_empty_conv)

lemma fold_decrement:
  "fold (\<lambda>child d. d(child := d child - 1)) children d x = d x - int (count (mset children) x)"
  by (induction children arbitrary: d) auto

text \<open>What holds while the keys of a level are visited; \<open>L\<close> lists the keys placed so far.\<close>

definition placed :: "(string \<times> string) list \<Rightarrow> string list \<Rightarrow> level_state \<Rightarrow> bool" where
  "placed pairs L st \<longleftrightarrow>
     distinct L \<and> dom (ls_sequence st) = set L \<and>
     (\<forall>i < length L. ls_sequence st (L ! i) = Some (of_nat i)) \<and>
     ls_processed st = length L \<and> ls_seq st = of_nat (length L) \<and>
     (\<forall>x. ls_inDegree st x = int (open_degree pairs (set L) x))"

definition sorted_children :: "WorkflowNode list \<Rightarrow> (string \<times> string) list \<Rightarrow> string \<Rightarrow> string list" where
  "sorted_children nodes pairs = et_children (sort_tables nodes (tables_of pairs))"

lemma mset_sorted_children:
  "mset (sorted_children nodes pairs k) = mset (map snd (filter (\<lambda>(a, b). a = k) pairs))"
  by (simp add: sorted_children_def)

lemma placed_visit:
  assumes "placed pairs L st" "k \<notin> set L"
  shows "placed pairs (L @ [k]) (visit_key (sorted_children nodes pairs) k st)"
  using assms open_degree_insert[OF assms(2), of pairs]
  unfolding placed_def visit_key_def
  by (auto simp: nth_append less_Suc_eq fold_decrement mset_sorted_children)

lemma visit_key_frame [simp]:
  "ls_levels (visit_key children k st) = ls_levels st" "ls_ready (visit_key children k st) = ls_ready st"
  by (simp_all add: visit_key_def)

lemma visit_keys_frame [simp]:
  "ls_levels (fold (visit_key children) ks st) = ls_levels st"
  "ls_ready (fold (visit_key children) ks st) = ls_ready st"
  by (induction ks arbitrary: st) simp_all

lemma placed_visits:
  "placed pairs L st \<Longrightarrow> distinct (L @ ks) \<Longrightarrow>
     placed pairs (L @ ks) (fold (visit_key (sorted_children nodes pairs)) ks st)"
proof (induction ks arbitrary: L st)
  case (Cons k ks)
  from Cons.IH[of "L @ [k]"] Cons.prems placed_visit[of pairs L st k nodes] show ?case by simp
qed simp

definition ready_keys :: "WorkflowNode list \<Rightarrow> (string \<times> string) list \<Rightarrow> string set \<Rightarrow> string list" where
  "ready_keys nodes pairs S =
     filter (\<lambda>k. (\<forall>a. (a, k) \<in> set pairs \<longrightarrow> a \<in> S) \<and> k \<notin> S) (node_keys nodes)"

lemma next_ready_placed: "placed pairs L st \<Longrightarrow> next_ready nodes st = ready_keys nodes pairs (set L)"
  unfolding next_ready_def ready_keys_def placed_def
  by (auto simp: open_degree_0 domIff intro!: filter_cong)

abbreviation key_levels :: "level_state \<Rightarrow> string list list" where
  "key_levels st \<equiv> map (map wfn_NodeKey) (ls_levels st)"

definition level_inv :: "WorkflowNode list \<Rightarrow> (string \<times> string) list \<Rightarrow> level_state \<Rightarrow> bool" where
  "level_inv nodes pairs st \<longleftrightarrow>
     placed pairs (concat (key_levels st)) st \<and>
     ls_ready st = ready_keys nodes pairs (set (concat (key_levels st))) \<and>
     layered (set pairs) (key_levels st) \<and>
     (\<forall>level \<in> set (ls_levels st). \<exists>P. level = filter P nodes) \<and>
     (ls_levels st \<noteq> [] \<longrightarrow> (\<forall>x \<in> set (ls_ready st). \<exists>a \<in> set (last (key_levels st)). (a, x) \<in> set pairs))"

lemma visits_dom [simp]:
  "dom (ls_sequence (fold (visit_key children) ks st)) = dom (ls_sequence st) \<union> set ks"
  by (induction ks arbitrary: st) (auto simp: visit_key_def)

text \<open>The keys of the next level are new, so each round leaves fewer keys to place.\<close>

definition fresh_ready :: "WorkflowNode list \<Rightarrow> level_state \<Rightarrow> bool" where
  "fresh_ready nodes st \<longleftrightarrow> set (ls_ready st) \<subseteq> set (node_keys nodes) - dom (ls_sequence st)"

definition unplaced :: "WorkflowNode list \<Rightarrow> level_state \<Rightarrow> nat" where
  "unplaced nodes st = card (set (node_keys nodes) - dom (ls_sequence st))"

lemma level_step_dom:
  "dom (ls_sequence (level_step nodes children st)) = dom (ls_sequence st) \<union> set (ls_ready st)"
  by (simp add: level_step_def Let_def)

lemma next_ready_fresh: "set (next_ready nodes st) \<subseteq> set (node_keys nodes) - dom (ls_sequence st)"
  by (auto simp: next_ready_def)

lemma fresh_ready_step: "fresh_ready nodes (level_step nodes children st)"
  using next_ready_fresh[of nodes "fold (visit_key children) (ls_ready st) st"]
  unfolding fresh_ready_def level_step_def Let_def by simp

lemma unplaced_step:
  assumes "fresh_ready nodes st" "ls_ready st \<noteq> []"
  shows "unplaced nodes (level_step nodes children st) < unplaced nodes st"
  unfolding unplaced_def
proof (rule psubset_card_mono)
  show "set (node_keys nodes) - dom (ls_sequence (level_step nodes children st)) \<subset>
    set (node_keys nodes) - dom (ls_sequence st)"
    using assms hd_in_set[of "ls_ready st"] unfolding level_step_dom fresh_ready_def by blast
qed simp

lemma run_levels_returns: "\<exists>st'. run_levels nodes children (start_levels nodes t) = Some st'"
proof -
  have "fresh_ready nodes (start_levels nodes t)"
    by (auto simp: fresh_ready_def start_levels_def)
  then show ?thesis
    using level_loop.run_rule[of "fresh_ready nodes" "start_levels nodes t" nodes children "unplaced nodes"]
      fresh_ready_step unplaced_step by blast
qed

lemma map_node_of_filter:
  "distinct (node_keys nodes) \<Longrightarrow>
     map (node_of nodes) (filter Q (node_keys nodes)) = filter (Q \<circ> wfn_NodeKey) nodes"
  by (auto simp: filter_map intro!: map_idI)

lemma level_inv_step:
  assumes "distinct (node_keys nodes)" "level_inv nodes pairs st"
  shows "level_inv nodes pairs (level_step nodes (sorted_children nodes pairs) st)"
proof -
  define L where "L = concat (key_levels st)"
  define cur where "cur = ls_ready st"
  define st' where "st' = fold (visit_key (sorted_children nodes pairs)) cur st"
  define st2 where "st2 = level_step nodes (sorted_children nodes pairs) st"
  note inv = assms(2)[unfolded level_inv_def, folded L_def cur_def]
  have cur: "cur = ready_keys nodes pairs (set L)" using inv by blast
  then have sub: "set cur \<subseteq> set (node_keys nodes)" by (auto simp: ready_keys_def)
  have placed: "placed pairs (L @ cur) st'"
    unfolding st'_def using inv assms(1) cur
    by (intro placed_visits) (auto simp: ready_keys_def placed_def)
  have keys: "key_levels st2 = key_levels st @ [cur]"
    using key_node_of[OF assms(1) sub] by (simp add: st2_def level_step_def Let_def cur_def)
  then have concat: "concat (key_levels st2) = L @ cur" by (simp add: L_def)
  have ready: "ls_ready st2 = ready_keys nodes pairs (set (L @ cur))"
    using assms(1) next_ready_placed[OF placed, of nodes]
    by (simp add: st2_def level_step_def Let_def st'_def cur_def ready_keys_def)
  have "placed pairs (concat (key_levels st2)) st2"
    using placed unfolding concat by (simp add: st2_def level_step_def Let_def st'_def cur_def placed_def)
  moreover have "layered (set pairs) (key_levels st2)"
    unfolding keys using inv cur by (intro layered_snoc) (auto simp: ready_keys_def L_def cur_def)
  moreover have "\<forall>level \<in> set (ls_levels st2). \<exists>P. level = filter P nodes"
    using inv map_node_of_filter[OF assms(1)] cur
    by (auto simp: st2_def level_step_def Let_def cur_def ready_keys_def)
  moreover have "\<forall>x \<in> set (ls_ready st2). \<exists>a \<in> set (last (key_levels st2)). (a, x) \<in> set pairs"
    unfolding ready keys using cur by (fastforce simp: ready_keys_def)
  ultimately show ?thesis
    using ready concat unfolding level_inv_def st2_def by auto
qed

lemma level_inv_fresh: "level_inv nodes pairs st \<Longrightarrow> fresh_ready nodes st"
  by (auto simp: level_inv_def fresh_ready_def ready_keys_def placed_def)

lemma level_inv_start:
  "distinct (node_keys nodes) \<Longrightarrow> level_inv nodes pairs (start_levels nodes (sort_tables nodes (tables_of pairs)))"
  by (auto simp: level_inv_def start_levels_def ready_keys_def placed_def open_degree_def filter_empty_conv
      intro!: filter_cong)

section \<open>The graph\<close>

lemma in_set_concat: "x \<in> set (concat K) \<longleftrightarrow> (\<exists>i < length K. x \<in> set (K ! i))"
  by simp (metis in_set_conv_nth)

lemma layered_acyclic:
  assumes "layered R K" "\<And>a x. (a, x) \<in> R \<Longrightarrow> x \<in> set (concat K)"
  shows "acyclic R"
proof -
  define f where "f x = (LEAST i. i < length K \<and> x \<in> set (K ! i))" for x
  have "f a < f x" if ax: "(a, x) \<in> R" for a x
  proof -
    from assms(2)[OF ax] obtain i where "i < length K \<and> x \<in> set (K ! i)"
      by (auto simp: in_set_concat simp del: set_concat)
    then have x: "f x < length K \<and> x \<in> set (K ! f x)"
      unfolding f_def by (rule LeastI)
    then have "a \<in> set (concat (take (f x) K))" using assms(1) ax by (auto simp: layered_def)
    then obtain j where j: "j < f x" "j < length K" "a \<in> set (K ! j)"
      by (auto simp: in_set_concat simp del: set_concat)
    then have "f a \<le> j" unfolding f_def by (intro Least_le) simp
    then show ?thesis using j(1) by simp
  qed
  then have "R \<subseteq> measure f" by auto
  then show ?thesis by (rule acyclic_subset[OF wf_acyclic[OF wf_measure]])
qed

text \<open>When no key is ready and one is left, every key that is left waits for another one that is left.\<close>

lemma acyclic_all_placed:
  assumes "level_inv nodes pairs st" "ls_ready st = []" "acyclic (set pairs)"
    and known: "\<And>a b. (a, b) \<in> set pairs \<Longrightarrow> a \<in> set (node_keys nodes)"
  shows "set (concat (key_levels st)) = set (node_keys nodes)"
proof (rule ccontr)
  let ?S = "set (concat (key_levels st))"
  have none: "ready_keys nodes pairs ?S = []" using assms(1,2) by (simp add: level_inv_def)
  have levels: "\<forall>level \<in> set (ls_levels st). \<exists>P. level = filter P nodes"
    using assms(1) by (simp add: level_inv_def)
  then have "?S \<subseteq> set (node_keys nodes)" by fastforce
  moreover assume "?S \<noteq> set (node_keys nodes)"
  ultimately obtain k where k: "k \<in> set (node_keys nodes) - ?S" by blast
  have "wf (set pairs)" by (simp add: assms(3) finite_acyclic_wf)
  then obtain z where z: "z \<in> set (node_keys nodes) - ?S"
    "\<And>y. (y, z) \<in> set pairs \<Longrightarrow> y \<notin> set (node_keys nodes) - ?S"
    using wfE_min[OF _ k] by metis
  then have "z \<in> set (ready_keys nodes pairs ?S)"
    using known by (auto simp: ready_keys_def)
  then show False using none by simp
qed

definition graph_ok :: "WorkflowNode list \<Rightarrow> (string \<times> string) list \<Rightarrow> workflowGraph \<Rightarrow> bool" where
  "graph_ok nodes pairs g \<longleftrightarrow>
     mset (concat (wfg_Levels g)) = mset nodes \<and>
     layered (set pairs) (map (map wfn_NodeKey) (wfg_Levels g)) \<and>
     (\<forall>level \<in> set (wfg_Levels g). \<exists>P. level = filter P nodes) \<and>
     (\<forall>i < length nodes. wfg_Sequence g (wfn_NodeKey (concat (wfg_Levels g) ! i)) = Some (of_nat i)) \<and>
     dom (wfg_Sequence g) = set (node_keys nodes) \<and>
     (\<forall>key. mset (wfg_Parents g key) = mset (map fst (filter (\<lambda>(a, b). b = key) pairs))) \<and>
     (\<forall>key. mset (wfg_Children g key) = mset (map snd (filter (\<lambda>(a, b). a = key) pairs))) \<and>
     wfg_Sinks g = filter (\<lambda>key. key \<notin> fst ` set pairs) (node_keys nodes)"

lemma graph_result_ok:
  assumes "distinct (node_keys nodes)" "level_inv nodes pairs st"
    "set (concat (key_levels st)) = set (node_keys nodes)"
  shows "\<exists>g. graph_result nodes (sort_tables nodes (tables_of pairs)) st = Inr g \<and> graph_ok nodes pairs g"
proof -
  let ?L = "concat (key_levels st)"
  have L: "?L = map wfn_NodeKey (concat (ls_levels st))" by (simp add: map_concat)
  have d: "distinct ?L" using assms(2) by (simp add: level_inv_def placed_def)
  then have "length ?L = length nodes"
    using assms(1,3) by (metis distinct_card length_map)
  moreover have "set (concat (ls_levels st)) = set nodes"
  proof
    show sub: "set (concat (ls_levels st)) \<subseteq> set nodes"
      using assms(2) by (fastforce simp: level_inv_def)
    show "set nodes \<subseteq> set (concat (ls_levels st))"
    proof
      fix n assume n: "n \<in> set nodes"
      then obtain n' where n': "n' \<in> set (concat (ls_levels st))" "wfn_NodeKey n' = wfn_NodeKey n"
        using assms(3) unfolding L by (metis (mono_tags, lifting) image_iff list.set_map)
      then have "n' = n" using n sub assms(1) by (metis node_of_key subsetD)
      then show "n \<in> set (concat (ls_levels st))" using n'(1) by simp
    qed
  qed
  then have "mset (concat (ls_levels st)) = mset nodes"
    using d assms(1) unfolding L by (metis distinct_map set_eq_iff_mset_eq_distinct)
  ultimately show ?thesis
    using assms unfolding level_inv_def placed_def graph_result_def graph_ok_def L
    by (auto simp: sorted_children_def filter_empty_conv image_iff intro!: filter_cong)
qed

lemma build_levels:
  assumes "distinct (node_keys nodes)" "edges_known nodes edges"
  obtains st where
    "buildWorkflowGraph nodes edges =
       Some (graph_result nodes (sort_tables nodes (tables_of (edge_pairs edges))) st)"
    "ls_ready st = []" "level_inv nodes (edge_pairs edges) st"
proof -
  let ?pairs = "edge_pairs edges"
  let ?t = "sort_tables nodes (tables_of ?pairs)"
  obtain st where st: "run_levels nodes (sorted_children nodes ?pairs) (start_levels nodes ?t) = Some st"
    "ls_ready st = []" "level_inv nodes ?pairs st"
    using level_loop.run_rule[of "level_inv nodes ?pairs" "start_levels nodes ?t" nodes
        "sorted_children nodes ?pairs" "unplaced nodes"]
      level_inv_start[OF assms(1), of ?pairs] level_inv_step[OF assms(1)] unplaced_step level_inv_fresh
    by blast
  then have "buildWorkflowGraph nodes edges = Some (graph_result nodes ?t st)"
    using add_edges_known[OF assms(2), of empty_tables]
    by (simp add: buildWorkflowGraph_def Let_def tables_of_def[symmetric] sorted_children_def)
  then show thesis using st that by blast
qed

lemma build_acyclic:
  assumes "distinct (node_keys nodes)" "edges_known nodes edges" "acyclic (set (edge_pairs edges))"
  shows "\<exists>g. buildWorkflowGraph nodes edges = Some (Inr g) \<and> graph_ok nodes (edge_pairs edges) g"
proof -
  obtain st where st: "buildWorkflowGraph nodes edges =
       Some (graph_result nodes (sort_tables nodes (tables_of (edge_pairs edges))) st)"
    "ls_ready st = []" "level_inv nodes (edge_pairs edges) st"
    using build_levels[OF assms(1,2)] by blast
  then have "set (concat (key_levels st)) = set (node_keys nodes)"
    using acyclic_all_placed[of nodes "edge_pairs edges" st] assms(2,3) by (fastforce simp: edges_known_def)
  then show ?thesis using graph_result_ok[OF assms(1) st(3)] st(1) by auto
qed

lemma build_cyclic:
  assumes "distinct (node_keys nodes)" "edges_known nodes edges" "\<not> acyclic (set (edge_pairs edges))"
  shows "buildWorkflowGraph nodes edges = Some (Inl CyclicEdges)"
proof -
  obtain st where st: "buildWorkflowGraph nodes edges =
       Some (graph_result nodes (sort_tables nodes (tables_of (edge_pairs edges))) st)"
    "ls_ready st = []" "level_inv nodes (edge_pairs edges) st"
    using build_levels[OF assms(1,2)] by blast
  let ?L = "concat (key_levels st)"
  have "\<not> set (node_keys nodes) \<subseteq> set ?L"
    using layered_acyclic[of "set (edge_pairs edges)" "key_levels st"] st(3) assms(2,3)
    unfolding level_inv_def edges_known_def by blast
  moreover have "set ?L \<subseteq> set (node_keys nodes)" using st(3) by (fastforce simp: level_inv_def)
  ultimately have "card (set ?L) < card (set (node_keys nodes))" by (intro psubset_card_mono) auto
  then have "ls_processed st \<noteq> length nodes"
    using st(3) assms(1) unfolding level_inv_def placed_def by (metis distinct_card length_map less_irrefl)
  then show ?thesis using st(1) by (simp add: graph_result_def)
qed

section \<open>Descendants\<close>

lemma push_children_new:
  "\<exists>new. push_children affected queue cs = (affected @ new, queue @ new) \<and>
     set new = set cs - set affected \<and> distinct new"
proof (induction cs arbitrary: affected queue)
  case (Cons c cs)
  show ?case
  proof (cases "c \<in> set affected")
    case True
    then show ?thesis using Cons[of affected queue] by auto
  next
    case False
    obtain new where "push_children (affected @ [c]) (queue @ [c]) cs = (affected @ c # new, queue @ c # new)"
      "set new = set cs - set (affected @ [c])" "distinct new"
      using Cons[of "affected @ [c]" "queue @ [c]"] by auto
    then show ?thesis using False by (intro exI[of _ "c # new"]) auto
  qed
qed simp

definition child_rel :: "('a \<Rightarrow> 'a list) \<Rightarrow> ('a \<times> 'a) set" where
  "child_rel children = {(a, b). b \<in> set (children a)}"

definition affected_inv ::
    "(string \<Rightarrow> string list) \<Rightarrow> string \<Rightarrow> string list \<times> string list \<Rightarrow> bool" where
  "affected_inv children src st \<longleftrightarrow>
     (case st of (affected, queue) \<Rightarrow>
        distinct affected \<and> src \<in> set affected \<and> set queue \<subseteq> set affected \<and>
        set affected \<subseteq> (child_rel children)\<^sup>* `` {src} \<and>
        (\<forall>x \<in> set affected - set queue. set (children x) \<subseteq> set affected))"

definition affected_bound :: "string set \<Rightarrow> string list \<times> string list \<Rightarrow> nat" where
  "affected_bound U st = (case st of (affected, queue) \<Rightarrow> card (U - set affected) + length queue)"

lemma affected_inv_step:
  assumes "affected_inv children src (affected, x # rest)"
  shows "affected_inv children src (affected_step children (affected, x # rest))"
proof -
  obtain new where new: "push_children affected rest (children x) = (affected @ new, rest @ new)"
    "set new = set (children x) - set affected" "distinct new"
    using push_children_new by blast
  have "x \<in> (child_rel children)\<^sup>* `` {src}" using assms by (auto simp: affected_inv_def)
  then have "set (children x) \<subseteq> (child_rel children)\<^sup>* `` {src}"
    by (auto simp: child_rel_def intro: rtrancl_into_rtrancl)
  then show ?thesis using assms new unfolding affected_inv_def affected_step_def by auto
qed

lemma affected_bound_step:
  assumes "finite U" "set (children x) \<subseteq> U" "x \<in> set affected"
  shows "affected_bound U (affected_step children (affected, x # rest)) < affected_bound U (affected, x # rest)"
proof -
  obtain new where new: "push_children affected rest (children x) = (affected @ new, rest @ new)"
    "set new = set (children x) - set affected" "distinct new"
    using push_children_new by blast
  have "card (U - set affected) = card (U - set (affected @ new)) + card (set new)"
    using new(2) assms(1,2) by (subst card_Un_disjoint[symmetric]) (auto intro: arg_cong[where f = card])
  then show ?thesis using new distinct_card[OF new(3)] by (simp add: affected_bound_def affected_step_def)
qed

lemma affected_inv_done:
  assumes "affected_inv children src (affected, [])"
  shows "set affected = (child_rel children)\<^sup>* `` {src}"
proof
  show "(child_rel children)\<^sup>* `` {src} \<subseteq> set affected"
  proof
    fix y assume "y \<in> (child_rel children)\<^sup>* `` {src}"
    then have "(src, y) \<in> (child_rel children)\<^sup>*" by simp
    then show "y \<in> set affected"
      by induction (use assms in \<open>auto simp: affected_inv_def child_rel_def\<close>)
  qed
qed (use assms in \<open>simp add: affected_inv_def\<close>)

lemma affected_loop_reaches:
  assumes "finite (\<Union>x. set (children x))"
  shows "\<exists>affected. affected_loop children [src] [src] = Some affected \<and>
    set affected = (child_rel children)\<^sup>* `` {src} \<and> distinct affected"
proof -
  let ?P = "affected_inv children src" and ?U = "\<Union>x. set (children x)"
  have start: "?P ([src], [src])" by (simp add: affected_inv_def)
  have step: "?P (affected_step children st) \<and> affected_bound ?U (affected_step children st) < affected_bound ?U st"
    if "?P st" "\<not> (case st of (affected, queue) \<Rightarrow> queue = [])" for st
  proof -
    obtain affected x rest where st: "st = (affected, x # rest)"
      using \<open>\<not> _\<close> by (cases st) (auto simp: neq_Nil_conv)
    then show ?thesis
      using that affected_inv_step[of children src affected x rest]
        affected_bound_step[OF assms, of children x affected rest] by (auto simp: affected_inv_def)
  qed
  obtain st' where "affected_loop children [src] [src] = Some (fst st')" "snd st' = []" "?P st'"
    using affected_search.run_rule[of ?P "([src], [src])" children "affected_bound ?U"] start step
    by (auto split: prod.splits)
  then show ?thesis
    using affected_inv_done[of children src "fst st'"] by (cases st') (auto simp: affected_inv_def)
qed

text \<open>The tables of a graph with the right children give the relation of the edges.\<close>

lemma child_rel_edges:
  assumes "\<And>key. mset (children key) = mset (map snd (filter (\<lambda>(a, b). a = key) pairs))"
  shows "child_rel children = set pairs" "finite (\<Union>x. set (children x))"
proof -
  have children: "set (children key) = snd ` {e \<in> set pairs. fst e = key}" for key
    using mset_eq_setD[OF assms[of key]] by (auto simp: case_prod_beta)
  then show "child_rel children = set pairs" by (force simp: child_rel_def)
  show "finite (\<Union>x. set (children x))"
    by (rule finite_subset[of _ "snd ` set pairs"]) (auto simp: children)
qed

end
