(* ===== verification/Workflow_Input.thy ===== *)
theory Workflow_Input
  imports Workflow_Graph "HOL-Library.AList"
begin

text \<open>
  The input of a workflow node, from \<open>pkg/workflow/input_mapping.go\<close>: without a mapping the node
  gets the input of the workflow and the outputs of its parents, with one it gets the fields the
  mapping selects. A mapping is decoded and validated before it is evaluated. The calls of
  \<open>encoding/json\<close> are the record \<open>mapping_codec\<close>. A nil map and a nil interface are both \<open>VNull\<close>: a path
  through either finds nothing. \<open>previous_output\<close> indexes the parents with 0; an evaluation that
  would index an empty slice panics and is \<open>None\<close>.

  The theory also holds the output that a finished workflow reports.
\<close>

section \<open>Mappings\<close>

record workflowInputSource =
  wis_Source :: string
  wis_Path :: "string list"
  wis_NodeKey :: string
  wis_Value :: gvalue

record workflowInputMapping =
  wim_Version :: string
  wim_Fields :: "(string \<times> workflowInputSource) list"

record workflowInputSourceWire =
  wsw_Source :: string
  wsw_Path :: "string list option"
  wsw_NodeKey :: "string option"
  wsw_Value :: "bytes option"

record workflowInputMappingWire =
  wmw_Version :: string
  wmw_Fields :: "(string \<times> workflowInputSourceWire) list"

record mapping_codec =
  mc_config :: "bytes \<Rightarrow> json_object option option"
  mc_marshal :: "gvalue \<Rightarrow> bytes option"
  mc_decode :: "bytes \<Rightarrow> (workflowInputMappingWire \<times> bytes) option"
  mc_value :: "bytes \<Rightarrow> gvalue option"
  mc_schema :: "bytes \<Rightarrow> json_object option"

datatype mapping_error =
    ConfigNotJSON
  | MappingNotJSON
  | MappingMalformed
  | MappingTrailing
  | MappingVersion
  | MappingWithoutFields
  | TargetNotTrimmed
  | TargetTooLong string
  | PathMissing string
  | PathTooDeep string
  | PathSegmentInvalid string
  | InputForbidsNodeKeyOrValue string
  | DependencyNeedsNodeKey string
  | DependencyNotParent string string
  | DependencyForbidsValue string
  | PreviousNeedsOneParent string
  | PreviousForbidsNodeKeyOrValue string
  | ConstantNeedsValue string
  | ConstantForbidsPathOrNodeKey string
  | ConstantNotJSON string
  | SourceUnsupported string string
  | PathNotFound string
  | RequiredNotMapped "string list"
  | CapabilityMissing
  | SchemaInvalid

definition workflowInputMappingVersion :: string where
  "workflowInputMappingVersion = ''v1''"

definition validateWorkflowInputPath :: "string \<Rightarrow> string list option \<Rightarrow> mapping_error option" where
  "validateWorkflowInputPath target path =
     (case path of
        None \<Rightarrow> Some (PathMissing target)
      | Some segments \<Rightarrow>
          if 32 < length segments then Some (PathTooDeep target)
          else err_if (list_ex (\<lambda>segment. segment = '''' \<or> segment \<noteq> TrimSpace segment \<or> 160 < length segment) segments)
                 (PathSegmentInvalid target))"

definition empty_source :: "string \<Rightarrow> workflowInputSource" where
  "empty_source source = \<lparr>wis_Source = source, wis_Path = [], wis_NodeKey = '''', wis_Value = VNull\<rparr>"

definition wire_path :: "workflowInputSourceWire \<Rightarrow> string list" where
  "wire_path wire = (case wsw_Path wire of Some path \<Rightarrow> path | None \<Rightarrow> [])"

definition validateWorkflowInputSource ::
    "mapping_codec \<Rightarrow> string \<Rightarrow> workflowInputSourceWire \<Rightarrow> string set \<Rightarrow> nat \<Rightarrow>
     mapping_error + workflowInputSource" where
  "validateWorkflowInputSource mc target wire parents parentCount =
     (let source = empty_source (wsw_Source wire) in
      if wsw_Source wire = ''workflow_input'' then
        (case validateWorkflowInputPath target (wsw_Path wire) of
           Some err \<Rightarrow> Inl err
         | None \<Rightarrow>
             if wsw_NodeKey wire \<noteq> None \<or> wsw_Value wire \<noteq> None then Inl (InputForbidsNodeKeyOrValue target)
             else Inr (source\<lparr>wis_Path := wire_path wire\<rparr>))
      else if wsw_Source wire = ''dependency'' then
        (case validateWorkflowInputPath target (wsw_Path wire) of
           Some err \<Rightarrow> Inl err
         | None \<Rightarrow>
             (case wsw_NodeKey wire of
                None \<Rightarrow> Inl (DependencyNeedsNodeKey target)
              | Some key \<Rightarrow>
                  if key = '''' \<or> key \<noteq> TrimSpace key then Inl (DependencyNeedsNodeKey target)
                  else if key \<notin> parents then Inl (DependencyNotParent target key)
                  else if wsw_Value wire \<noteq> None then Inl (DependencyForbidsValue target)
                  else Inr (source\<lparr>wis_Path := wire_path wire, wis_NodeKey := key\<rparr>)))
      else if wsw_Source wire = ''previous_output'' then
        (case validateWorkflowInputPath target (wsw_Path wire) of
           Some err \<Rightarrow> Inl err
         | None \<Rightarrow>
             if parentCount \<noteq> 1 then Inl (PreviousNeedsOneParent target)
             else if wsw_NodeKey wire \<noteq> None \<or> wsw_Value wire \<noteq> None
             then Inl (PreviousForbidsNodeKeyOrValue target)
             else Inr (source\<lparr>wis_Path := wire_path wire\<rparr>))
      else if wsw_Source wire = ''constant'' then
        (case wsw_Value wire of
           None \<Rightarrow> Inl (ConstantNeedsValue target)
         | Some raw \<Rightarrow>
             if wsw_Path wire \<noteq> None \<or> wsw_NodeKey wire \<noteq> None then Inl (ConstantForbidsPathOrNodeKey target)
             else (case mc_value mc raw of
                     None \<Rightarrow> Inl (ConstantNotJSON target)
                   | Some v \<Rightarrow> Inr (source\<lparr>wis_Value := v\<rparr>)))
      else Inl (SourceUnsupported target (wsw_Source wire)))"

fun validate_fields ::
    "mapping_codec \<Rightarrow> string list \<Rightarrow> (string \<times> workflowInputSourceWire) list \<Rightarrow>
     mapping_error + (string \<times> workflowInputSource) list" where
  "validate_fields mc parents [] = Inr []"
| "validate_fields mc parents ((target, wire) # wires) =
     (if target = '''' \<or> target \<noteq> TrimSpace target then Inl TargetNotTrimmed
      else if 160 < length target then Inl (TargetTooLong target)
      else case validateWorkflowInputSource mc target wire (set parents) (length parents) of
        Inl err \<Rightarrow> Inl err
      | Inr source \<Rightarrow> map_sum id ((#) (target, source)) (validate_fields mc parents wires))"

definition decodeWorkflowInputMapping ::
    "mapping_codec \<Rightarrow> bytes \<Rightarrow> string list \<Rightarrow> mapping_error + workflowInputMapping" where
  "decodeWorkflowInputMapping mc data parents =
     (case mc_decode mc data of
        None \<Rightarrow> Inl MappingMalformed
      | Some (wire, rest) \<Rightarrow>
          if \<not> list_all is_json_space rest then Inl MappingTrailing
          else if wmw_Version wire \<noteq> workflowInputMappingVersion then Inl MappingVersion
          else if wmw_Fields wire = [] then Inl MappingWithoutFields
          else map_sum id (\<lambda>sources. \<lparr>wim_Version = wmw_Version wire, wim_Fields = sources\<rparr>)
                 (validate_fields mc parents (wmw_Fields wire)))"

text \<open>The result is \<open>Inr None\<close> when no mapping is configured.\<close>

definition decodeRequestWorkflowInputMapping ::
    "mapping_codec \<Rightarrow> json_object option \<Rightarrow> string list \<Rightarrow> mapping_error + workflowInputMapping option" where
  "decodeRequestWorkflowInputMapping mc config parents =
     (case config of
        None \<Rightarrow> Inr None
      | Some object \<Rightarrow>
          (case map_of object ''input_mapping'' of
             None \<Rightarrow> Inr None
           | Some raw \<Rightarrow>
               (case mc_marshal mc raw of
                  None \<Rightarrow> Inl MappingNotJSON
                | Some data \<Rightarrow> map_sum id Some (decodeWorkflowInputMapping mc data parents))))"

definition decodeStoredWorkflowInputMapping ::
    "mapping_codec \<Rightarrow> bytes \<Rightarrow> string list \<Rightarrow> mapping_error + workflowInputMapping option" where
  "decodeStoredWorkflowInputMapping mc config parents =
     (if config = [] then Inr None
      else case mc_config mc config of
        None \<Rightarrow> Inl ConfigNotJSON
      | Some decoded \<Rightarrow> decodeRequestWorkflowInputMapping mc decoded parents)"

section \<open>Evaluation\<close>

type_synonym node_outputs = "(string \<times> json_object) list"

definition output_value :: "node_outputs \<Rightarrow> string \<Rightarrow> gvalue" where
  "output_value outputs key = (case map_of outputs key of Some object \<Rightarrow> VObject object | None \<Rightarrow> VNull)"

fun workflowObjectPath :: "gvalue \<Rightarrow> string list \<Rightarrow> gvalue option" where
  "workflowObjectPath current [] = Some current"
| "workflowObjectPath current (segment # path) =
     (case current of
        VObject object \<Rightarrow>
          (case map_of object segment of Some v \<Rightarrow> workflowObjectPath v path | None \<Rightarrow> None)
      | _ \<Rightarrow> None)"

definition sort_strings :: "string list \<Rightarrow> string list" where
  "sort_strings = sort_key (map of_char :: string \<Rightarrow> nat list)"

text \<open>The value a source reads; \<open>None\<close> is the index panic.\<close>

definition source_root ::
    "json_object \<Rightarrow> node_outputs \<Rightarrow> string list \<Rightarrow> workflowInputSource \<Rightarrow> gvalue option" where
  "source_root original outputs parents source =
     (if wis_Source source = ''workflow_input'' then Some (VObject original)
      else if wis_Source source = ''dependency'' then Some (output_value outputs (wis_NodeKey source))
      else if wis_Source source = ''previous_output''
      then (case parents of [] \<Rightarrow> None | parent # _ \<Rightarrow> Some (output_value outputs parent))
      else Some VNull)"

fun evaluate_targets ::
    "workflowInputMapping \<Rightarrow> json_object \<Rightarrow> node_outputs \<Rightarrow> string list \<Rightarrow> json_object \<Rightarrow> string list \<Rightarrow>
     (json_object \<times> mapping_error option) option" where
  "evaluate_targets mapping original outputs parents result [] = Some (result, None)"
| "evaluate_targets mapping original outputs parents result (target # targets) =
     (let source = (case map_of (wim_Fields mapping) target of Some s \<Rightarrow> s | None \<Rightarrow> empty_source '''') in
      if wis_Source source = ''constant''
      then evaluate_targets mapping original outputs parents (AList.update target (wis_Value source) result) targets
      else case source_root original outputs parents source of
        None \<Rightarrow> None
      | Some base \<Rightarrow>
          (case workflowObjectPath base (wis_Path source) of
             None \<Rightarrow> Some (result, Some (PathNotFound target))
           | Some resolved \<Rightarrow>
               evaluate_targets mapping original outputs parents (AList.update target resolved result) targets))"

definition evaluateWorkflowInputMapping ::
    "workflowInputMapping \<Rightarrow> json_object \<Rightarrow> node_outputs \<Rightarrow> string list \<Rightarrow>
     (json_object \<times> mapping_error option) option" where
  "evaluateWorkflowInputMapping mapping original outputs parents =
     evaluate_targets mapping original outputs parents [] (sort_strings (map fst (wim_Fields mapping)))"

definition legacyWorkflowStepInput ::
    "json_object \<Rightarrow> node_outputs \<Rightarrow> string list \<Rightarrow> string \<Rightarrow> json_object" where
  "legacyWorkflowStepInput original outputs parents nodeKey =
     (if parents = [] then [(''workflow_input'', VObject original), (''node_key'', VString nodeKey)]
      else
        (let dependencies = map (\<lambda>key. (key, output_value outputs key)) (remdups parents);
             input = [(''workflow_input'', VObject original), (''dependencies'', VObject dependencies),
                      (''node_key'', VString nodeKey)] in
         if length parents = 1
         then input @ [(''previous_node'', VString (hd parents)),
                       (''previous_output'', output_value outputs (hd parents))]
         else input))"

datatype step_input_error = InvalidMapping string mapping_error | EvaluationFailed string mapping_error

record workflowStepInputResult =
  sir_Value :: json_object
  sir_Mapped :: bool
  sir_Err :: "step_input_error option"

definition workflowStepInput ::
    "mapping_codec \<Rightarrow> json_object \<Rightarrow> node_outputs \<Rightarrow> string list \<Rightarrow> WorkflowNode \<Rightarrow>
     workflowStepInputResult option" where
  "workflowStepInput mc original outputs parents node =
     (let legacy = legacyWorkflowStepInput original outputs parents (wfn_NodeKey node) in
      case decodeStoredWorkflowInputMapping mc (wfn_Config node) parents of
        Inl err \<Rightarrow> Some \<lparr>sir_Value = legacy, sir_Mapped = True, sir_Err = Some (InvalidMapping (wfn_NodeKey node) err)\<rparr>
      | Inr None \<Rightarrow> Some \<lparr>sir_Value = legacy, sir_Mapped = False, sir_Err = None\<rparr>
      | Inr (Some mapping) \<Rightarrow>
          (case evaluateWorkflowInputMapping mapping original outputs parents of
             None \<Rightarrow> None
           | Some (v, err) \<Rightarrow>
               Some \<lparr>sir_Value = v, sir_Mapped = True,
                     sir_Err = map_option (EvaluationFailed (wfn_NodeKey node)) err\<rparr>))"

section \<open>Validation of a request\<close>

definition required_fields :: "json_object \<Rightarrow> string list" where
  "required_fields schema =
     (case map_of schema ''required'' of
        Some (VArray items) \<Rightarrow>
          concat (map (\<lambda>item. case item of VString field \<Rightarrow> if field = '''' then [] else [field] | _ \<Rightarrow> []) items)
      | _ \<Rightarrow> [])"

definition workflowInputMappingCoversRequired ::
    "workflowInputMapping \<Rightarrow> json_object \<Rightarrow> mapping_error option" where
  "workflowInputMappingCoversRequired mapping schema =
     (let missing = filter (\<lambda>field. map_of (wim_Fields mapping) field = None) (required_fields schema) in
      if missing = [] then None else Some (RequiredNotMapped (sort_strings missing)))"

datatype capability_row = CapabilityRow bytes | NoCapabilityRow | CapabilityQueryFailed

datatype request_mapping_error = NodeMappingInvalid string mapping_error | CapabilityLookupFailed

definition parents_by_node :: "json_object list \<Rightarrow> string \<Rightarrow> string list" where
  "parents_by_node edges key = map edge_from (filter (\<lambda>edge. edge_to edge = key) edges)"

text \<open>The schemas already read are kept by agent; \<open>capability\<close> is the row the query returns.\<close>

fun validate_node_mappings ::
    "mapping_codec \<Rightarrow> (uuid \<Rightarrow> capability_row) \<Rightarrow> json_object list \<Rightarrow> (uuid \<rightharpoonup> json_object) \<Rightarrow>
     WorkflowNodeRequest list \<Rightarrow> request_mapping_error option" where
  "validate_node_mappings mc capability edges schemas [] = None"
| "validate_node_mappings mc capability edges schemas (node # nodes) =
     (let key = TrimSpace (wnr_Key node); parents = sort_strings (parents_by_node edges key);
          fail = (\<lambda>err. Some (NodeMappingInvalid key err)) in
      case decodeRequestWorkflowInputMapping mc (wnr_Config node) parents of
        Inl err \<Rightarrow> fail err
      | Inr None \<Rightarrow> validate_node_mappings mc capability edges schemas nodes
      | Inr (Some mapping) \<Rightarrow>
          (let check = (\<lambda>schema schemas'.
                 case workflowInputMappingCoversRequired mapping schema of
                   Some err \<Rightarrow> fail err
                 | None \<Rightarrow> validate_node_mappings mc capability edges schemas' nodes) in
           case schemas (wnr_AgentID node) of
             Some schema \<Rightarrow> check schema schemas
           | None \<Rightarrow>
               (case capability (wnr_AgentID node) of
                  NoCapabilityRow \<Rightarrow> fail CapabilityMissing
                | CapabilityQueryFailed \<Rightarrow> Some CapabilityLookupFailed
                | CapabilityRow raw \<Rightarrow>
                    (case mc_schema mc raw of
                       None \<Rightarrow> fail SchemaInvalid
                     | Some schema \<Rightarrow> check schema (schemas(wnr_AgentID node \<mapsto> schema))))))"

definition validateWorkflowRequestInputMappings ::
    "mapping_codec \<Rightarrow> (uuid \<Rightarrow> capability_row) \<Rightarrow> WorkflowNodeRequest list \<Rightarrow> json_object list \<Rightarrow>
     request_mapping_error option" where
  "validateWorkflowRequestInputMappings mc capability nodes edges =
     validate_node_mappings mc capability edges Map.empty nodes"

section \<open>The output of a workflow\<close>

definition workflowOutputsMap :: "node_outputs \<Rightarrow> json_object" where
  "workflowOutputsMap outputs =
     map (\<lambda>key. (key, output_value outputs key)) (sort_strings (map fst outputs))"

definition workflowFinalOutput :: "node_outputs \<Rightarrow> string list \<Rightarrow> json_object" where
  "workflowFinalOutput outputs sinks =
     (let terminals = VArray (map VString sinks); all_outputs = VObject (workflowOutputsMap outputs) in
      case sinks of
        [sink] \<Rightarrow>
          AList.update ''workflow_outputs'' all_outputs
            (AList.update ''terminal_nodes'' terminals
               (case map_of outputs sink of Some object \<Rightarrow> object | None \<Rightarrow> []))
      | _ \<Rightarrow>
          [(''terminal_nodes'', terminals),
           (''terminal_outputs'', VObject (map (\<lambda>key. (key, output_value outputs key)) (remdups sinks))),
           (''workflow_outputs'', all_outputs)])"

end
