(* ===== verification/Workflow_Laws.thy ===== *)
theory Workflow_Laws
  imports Workflow_Levels Workflow_Input
begin

text \<open>
  The properties of the workflow graph and of the inputs of its nodes. The specification of an input
  is written over the edges of the workflow and over paths through JSON objects, not over the tables
  and loops of the code.
\<close>

section \<open>Values at a path\<close>

inductive path_value :: "gvalue \<Rightarrow> string list \<Rightarrow> gvalue \<Rightarrow> bool" where
  here: "path_value v [] v"
| member: "map_of object segment = Some v \<Longrightarrow> path_value v path w \<Longrightarrow> path_value (VObject object) (segment # path) w"

inductive_simps path_value_Nil [simp]: "path_value v [] w"
inductive_simps path_value_Cons [simp]: "path_value v (segment # path) w"

lemma workflowObjectPath_iff: "workflowObjectPath v path = Some w \<longleftrightarrow> path_value v path w"
proof (induction path arbitrary: v)
  case (Cons segment path)
  then show ?case by (cases v) (simp_all split: option.split)
qed auto

text \<open>What a source of a mapping reads, when \<open>P\<close> are the direct parents of the node.\<close>

definition source_reads ::
    "json_object \<Rightarrow> node_outputs \<Rightarrow> string set \<Rightarrow> workflowInputSource \<Rightarrow> gvalue \<Rightarrow> bool" where
  "source_reads original outputs P source v \<longleftrightarrow>
     wis_Source source = ''constant'' \<and> v = wis_Value source \<or>
     wis_Source source = ''workflow_input'' \<and> path_value (VObject original) (wis_Path source) v \<or>
     wis_Source source = ''dependency'' \<and> wis_NodeKey source \<in> P \<and>
       path_value (output_value outputs (wis_NodeKey source)) (wis_Path source) v \<or>
     wis_Source source = ''previous_output'' \<and>
       (\<exists>p. P = {p} \<and> path_value (output_value outputs p) (wis_Path source) v)"

definition mapped_input_ok ::
    "json_object \<Rightarrow> node_outputs \<Rightarrow> string set \<Rightarrow> workflowInputMapping \<Rightarrow> workflowStepInputResult \<Rightarrow> bool" where
  "mapped_input_ok original outputs P mapping r \<longleftrightarrow>
     (if sir_Err r = None
      then \<forall>t v. map_of (sir_Value r) t = Some v \<longleftrightarrow>
             (\<exists>s. map_of (wim_Fields mapping) t = Some s \<and> source_reads original outputs P s v)
      else \<exists>t s. map_of (wim_Fields mapping) t = Some s \<and> (\<forall>v. \<not> source_reads original outputs P s v))"

definition default_input_ok ::
    "json_object \<Rightarrow> node_outputs \<Rightarrow> string set \<Rightarrow> workflowStepInputResult \<Rightarrow> bool" where
  "default_input_ok original outputs P r \<longleftrightarrow>
     sir_Err r = None \<and> map_of (sir_Value r) ''workflow_input'' = Some (VObject original) \<and>
     (if P = {} then map_of (sir_Value r) ''dependencies'' = None
      else \<exists>dependencies. map_of (sir_Value r) ''dependencies'' = Some (VObject dependencies) \<and>
             (\<forall>p v. map_of dependencies p = Some v \<longleftrightarrow> p \<in> P \<and> v = output_value outputs p))"

section \<open>Validated sources\<close>

definition source_ok :: "string list \<Rightarrow> workflowInputSource \<Rightarrow> bool" where
  "source_ok parents source \<longleftrightarrow>
     wis_Source source \<in> {''workflow_input'', ''dependency'', ''previous_output'', ''constant''} \<and>
     (wis_Source source = ''dependency'' \<longrightarrow> wis_NodeKey source \<in> set parents) \<and>
     (wis_Source source = ''previous_output'' \<longrightarrow> length parents = 1)"

lemma validated_source_ok:
  "validateWorkflowInputSource mc target wire (set parents) (length parents) = Inr source \<Longrightarrow> source_ok parents source"
  by (auto simp: validateWorkflowInputSource_def source_ok_def empty_source_def Let_def
      split: if_split_asm option.split_asm)

lemma validate_fields_ok:
  "validate_fields mc parents wires = Inr fs \<Longrightarrow> \<forall>(t, s) \<in> set fs. source_ok parents s"
proof (induction wires arbitrary: fs)
  case (Cons w wires)
  then show ?case
    by (cases w; cases "validate_fields mc parents wires")
      (auto simp: map_sum_Inr split: if_split_asm sum.split_asm dest: validated_source_ok)
qed simp

lemma decoded_mapping_ok:
  assumes "decodeStoredWorkflowInputMapping mc config parents = Inr (Some mapping)"
    "map_of (wim_Fields mapping) t = Some s"
  shows "source_ok parents s"
proof -
  obtain data where "decodeWorkflowInputMapping mc data parents = Inr mapping"
    using assms(1)
    by (auto simp: decodeStoredWorkflowInputMapping_def decodeRequestWorkflowInputMapping_def map_sum_Inr
        split: if_split_asm option.split_asm)
  then obtain wires where "validate_fields mc parents wires = Inr (wim_Fields mapping)"
    by (auto simp: decodeWorkflowInputMapping_def map_sum_Inr split: if_split_asm option.split_asm)
  then show ?thesis using validate_fields_ok map_of_SomeD[OF assms(2)] by fastforce
qed

section \<open>Evaluation\<close>

lemma source_root_reads:
  assumes "source_ok parents s" "wis_Source s \<noteq> ''constant''"
  obtains base where "source_root original outputs parents s = Some base"
    "\<And>v. source_reads original outputs (set parents) s v \<longleftrightarrow> path_value base (wis_Path s) v"
proof (cases "wis_Source s = ''previous_output''")
  case True
  then obtain p where "parents = [p]" using assms by (auto simp: source_ok_def length_Suc_conv)
  then show thesis using True that by (simp add: source_root_def source_reads_def)
next
  case False
  then show thesis using assms that by (auto simp: source_root_def source_reads_def source_ok_def)
qed

lemma evaluate_targets_reads:
  assumes "\<And>t. t \<in> set targets \<Longrightarrow> \<exists>s. map_of (wim_Fields mapping) t = Some s \<and> source_ok parents s"
  shows "\<exists>res err. evaluate_targets mapping original outputs parents result targets = Some (res, err) \<and>
    (if err = None
     then \<forall>t v. map_of res t = Some v \<longleftrightarrow>
       (if t \<in> set targets then \<exists>s. map_of (wim_Fields mapping) t = Some s \<and> source_reads original outputs (set parents) s v
        else map_of result t = Some v)
     else \<exists>t s. map_of (wim_Fields mapping) t = Some s \<and> (\<forall>v. \<not> source_reads original outputs (set parents) s v))"
  using assms
proof (induction targets arbitrary: result)
  case (Cons target targets)
  then obtain s where s: "map_of (wim_Fields mapping) target = Some s" "source_ok parents s" by auto
  note IH = Cons.IH[OF Cons.prems]
  show ?case
  proof (cases "\<exists>w. source_reads original outputs (set parents) s w")
    case False
    then have "wis_Source s \<noteq> ''constant''" by (auto simp: source_reads_def)
    from source_root_reads[OF s(2) this] obtain base where
      "source_root original outputs parents s = Some base" "\<And>v. \<not> path_value base (wis_Path s) v"
      using False by metis
    then have "workflowObjectPath base (wis_Path s) = None" by (metis workflowObjectPath_iff not_Some_eq)
    with s False \<open>wis_Source s \<noteq> _\<close> \<open>source_root _ _ _ _ = _\<close> show ?thesis by auto
  next
    case True
    then obtain w where w: "source_reads original outputs (set parents) s w" by blast
    have step: "evaluate_targets mapping original outputs parents result (target # targets) =
        evaluate_targets mapping original outputs parents (AList.update target w result) targets \<and>
        (\<forall>v. source_reads original outputs (set parents) s v \<longleftrightarrow> v = w)"
    proof (cases "wis_Source s = ''constant''")
      case True
      then show ?thesis using w s by (auto simp: source_reads_def)
    next
      case False
      from source_root_reads[OF s(2) this] obtain base where base:
        "source_root original outputs parents s = Some base"
        "\<And>v. source_reads original outputs (set parents) s v \<longleftrightarrow> path_value base (wis_Path s) v"
        by metis
      then have "workflowObjectPath base (wis_Path s) = Some w" using w by (simp add: workflowObjectPath_iff)
      then show ?thesis using base s False by (auto simp: workflowObjectPath_iff[symmetric])
    qed
    from IH[of "AList.update target w result"] show ?thesis
      unfolding conjunct1[OF step] using s(1) conjunct2[OF step]
      by (fastforce simp: update_conv' split: if_split_asm)
  qed
qed auto

lemma evaluate_targets_cong:
  assumes "\<And>t. t \<in> set targets \<Longrightarrow> \<exists>s. map_of (wim_Fields mapping) t = Some s \<and> source_ok parents s"
    "\<And>p. p \<in> set parents \<Longrightarrow> map_of outputs' p = map_of outputs p"
  shows "evaluate_targets mapping original outputs' parents result targets =
    evaluate_targets mapping original outputs parents result targets"
  using assms(1)
proof (induction targets arbitrary: result)
  case (Cons target targets)
  then obtain s where s: "map_of (wim_Fields mapping) target = Some s" "source_ok parents s" by auto
  then have "source_root original outputs' parents s = source_root original outputs parents s"
    using assms(2) by (auto simp: source_root_def source_ok_def output_value_def split: list.split)
  then show ?case using Cons s by (auto split: option.split)
qed simp

lemma set_sort_strings [simp]: "set (sort_strings xs) = set xs"
  by (simp add: sort_strings_def)

lemma decoded_targets_ok:
  assumes "decodeStoredWorkflowInputMapping mc config parents = Inr (Some mapping)"
    "t \<in> set (sort_strings (map fst (wim_Fields mapping)))"
  shows "\<exists>s. map_of (wim_Fields mapping) t = Some s \<and> source_ok parents s"
proof -
  have "t \<in> dom (map_of (wim_Fields mapping))" using assms(2) by (simp add: dom_map_of_conv_image_fst)
  then show ?thesis using decoded_mapping_ok[OF assms(1)] by blast
qed

lemma mapped_step_input:
  assumes "decodeStoredWorkflowInputMapping mc (wfn_Config node) parents = Inr (Some mapping)"
  shows "\<exists>r. workflowStepInput mc original outputs parents node = Some r \<and>
    mapped_input_ok original outputs (set parents) mapping r"
proof -
  let ?targets = "sort_strings (map fst (wim_Fields mapping))"
  have none: "map_of (wim_Fields mapping) t = None" if "t \<notin> set ?targets" for t
    using that by (simp add: map_of_eq_None_iff)
  from evaluate_targets_reads[OF decoded_targets_ok[OF assms],
      where original = original and outputs = outputs and result = "[]"] obtain res err where
    res: "evaluate_targets mapping original outputs parents [] ?targets = Some (res, err)"
    "if err = None
     then \<forall>t v. map_of res t = Some v \<longleftrightarrow>
       (if t \<in> set ?targets then \<exists>s. map_of (wim_Fields mapping) t = Some s \<and> source_reads original outputs (set parents) s v
        else map_of [] t = Some v)
     else \<exists>t s. map_of (wim_Fields mapping) t = Some s \<and> (\<forall>v. \<not> source_reads original outputs (set parents) s v)"
    by blast
  then show ?thesis
    using assms none
    by (auto simp: workflowStepInput_def evaluateWorkflowInputMapping_def mapped_input_ok_def Let_def
        simp del: set_sort_strings split: if_split_asm)
qed

lemma default_step_input:
  assumes "decodeStoredWorkflowInputMapping mc (wfn_Config node) parents = Inr None"
  shows "\<exists>r. workflowStepInput mc original outputs parents node = Some r \<and>
    default_input_ok original outputs (set parents) r"
  using assms
  by (auto simp: workflowStepInput_def default_input_ok_def legacyWorkflowStepInput_def Let_def map_of_map_restrict
      restrict_map_def)

lemma step_input_cong:
  assumes "\<And>p. p \<in> set parents \<Longrightarrow> map_of outputs' p = map_of outputs p"
  shows "workflowStepInput mc original outputs' parents node = workflowStepInput mc original outputs parents node"
proof -
  have "output_value outputs' p = output_value outputs p" if "p \<in> set parents" for p
    using assms[OF that] by (simp add: output_value_def)
  then have legacy: "legacyWorkflowStepInput original outputs' parents key = legacyWorkflowStepInput original outputs parents key" for key
    by (auto simp: legacyWorkflowStepInput_def Let_def)
  have "evaluateWorkflowInputMapping mapping original outputs' parents = evaluateWorkflowInputMapping mapping original outputs parents"
    if "decodeStoredWorkflowInputMapping mc (wfn_Config node) parents = Inr (Some mapping)" for mapping
    unfolding evaluateWorkflowInputMapping_def
    using evaluate_targets_cong[OF decoded_targets_ok[OF that] assms] by blast
  then show ?thesis by (auto simp: workflowStepInput_def legacy Let_def split: sum.split option.split)
qed

lemma step_input_returns: "\<exists>r. workflowStepInput mc original outputs parents node = Some r"
proof (cases "decodeStoredWorkflowInputMapping mc (wfn_Config node) parents")
  case (Inl err)
  then show ?thesis by (simp add: workflowStepInput_def Let_def)
next
  case (Inr configured)
  then show ?thesis
    using mapped_step_input default_step_input by (cases configured) blast+
qed

lemma built_graph_ok:
  assumes "distinct (node_keys nodes)" "edges_known nodes edges" "buildWorkflowGraph nodes edges = Some (Inr g)"
  shows "graph_ok nodes (edge_pairs edges) g"
  using build_acyclic[OF assms(1,2)] build_cyclic[OF assms(1,2)] assms(3) by fastforce

lemma graph_parents:
  assumes "graph_ok nodes pairs g"
  shows "set (wfg_Parents g key) = {p. (p, key) \<in> set pairs}"
proof -
  have "mset (wfg_Parents g key) = mset (map fst (filter (\<lambda>(a, b). b = key) pairs))"
    using assms by (simp add: graph_ok_def)
  from mset_eq_setD[OF this] show ?thesis by force
qed

section \<open>An example\<close>

definition dag_node :: "string \<Rightarrow> WorkflowNode" where
  "dag_node key = zero_node\<lparr>wfn_NodeKey := key\<rparr>"

definition dag_edge :: "string \<Rightarrow> string \<Rightarrow> json_object" where
  "dag_edge from to = [(''from'', VString from), (''to'', VString to)]"

definition dag_nodes :: "WorkflowNode list" where
  "dag_nodes = [dag_node ''a'', (dag_node ''b'')\<lparr>wfn_Config := ''config''\<rparr>, dag_node ''c'']"

definition dag_edges :: "json_object list" where
  "dag_edges = [dag_edge ''a'' ''b'', dag_edge ''a'' ''c'']"

definition dag_cycle :: "json_object list" where
  "dag_cycle = [dag_edge ''a'' ''b'', dag_edge ''b'' ''a'']"

lemma dag_trims: "TrimSpace ''a'' = ''a''" "TrimSpace ''b'' = ''b''" "TrimSpace ''c'' = ''c''"
  "TrimSpace ''x'' = ''x''" "TrimSpace ''out'' = ''out''" "TrimSpace ''b->c'' = ''b->c''" "TrimSpace ''a->b'' = ''a->b''"
  by (rule TrimSpace_keeps; simp add: space_runes_def)+

lemma dag_pairs:
  "edge_pairs dag_edges = [(''a'', ''b''), (''a'', ''c'')]" "edge_pairs dag_cycle = [(''a'', ''b''), (''b'', ''a'')]"
  by (simp_all add: dag_edges_def dag_cycle_def dag_edge_def dag_trims)

lemma dag_keys: "node_keys dag_nodes = [''a'', ''b'', ''c'']"
  by (simp add: dag_nodes_def dag_node_def)

lemma dag_known: "edges_known dag_nodes dag_edges" "edges_known dag_nodes dag_cycle"
  by (simp_all add: edges_known_def dag_pairs dag_keys)

lemma dag_acyclic: "acyclic (set (edge_pairs dag_edges))"
  by (rule acyclic_subset[OF wf_acyclic[OF wf_measure[of "\<lambda>k. if k = ''a'' then 0 else (1::nat)"]]])
    (simp add: dag_pairs)


text \<open>A codec that knows one configuration: field \<open>x\<close> is the member \<open>out\<close> of the output of node \<open>a\<close>.\<close>

definition dag_wire :: workflowInputMappingWire where
  "dag_wire =
     \<lparr>wmw_Version = ''v1'',
      wmw_Fields = [(''x'', \<lparr>wsw_Source = ''dependency'', wsw_Path = Some [''out''],
        wsw_NodeKey = Some ''a'', wsw_Value = None\<rparr>)]\<rparr>"

definition dag_codec :: mapping_codec where
  "dag_codec =
     \<lparr>mc_config = (\<lambda>raw. if raw = ''config'' then Some (Some [(''input_mapping'', VString ''m'')]) else None),
      mc_marshal = (\<lambda>v. case v of VString s \<Rightarrow> Some s | _ \<Rightarrow> None),
      mc_decode = (\<lambda>raw. if raw = ''m'' then Some (dag_wire, []) else None),
      mc_value = (\<lambda>raw. None), mc_schema = (\<lambda>raw. None)\<rparr>"

definition dag_outputs :: node_outputs where
  "dag_outputs = [(''a'', [(''out'', VString ''done'')])]"

lemma dag_graph:
  obtains g where "buildWorkflowGraph dag_nodes dag_edges = Some (Inr g)" "wfg_Parents g ''b'' = [''a'']"
proof -
  obtain g where g: "buildWorkflowGraph dag_nodes dag_edges = Some (Inr g)" "graph_ok dag_nodes (edge_pairs dag_edges) g"
    using build_acyclic[OF _ dag_known(1) dag_acyclic] by (auto simp: dag_keys)
  then have "mset (wfg_Parents g ''b'') = {#''a''#}" by (simp add: graph_ok_def dag_pairs)
  then show thesis using g(1) that by simp
qed

lemma dag_input:
  "workflowStepInput dag_codec [] dag_outputs [''a''] (dag_nodes ! 1) =
     Some \<lparr>sir_Value = [(''x'', VString ''done'')], sir_Mapped = True, sir_Err = None\<rparr>"
  by (simp add: workflowStepInput_def dag_nodes_def dag_node_def decodeStoredWorkflowInputMapping_def dag_codec_def
      decodeRequestWorkflowInputMapping_def decodeWorkflowInputMapping_def dag_wire_def workflowInputMappingVersion_def
      dag_trims validateWorkflowInputSource_def validateWorkflowInputPath_def err_if_def wire_path_def empty_source_def
      evaluateWorkflowInputMapping_def sort_strings_def source_root_def output_value_def dag_outputs_def)

section \<open>Properties\<close>


text \<open>
  C39: \<open>workflowAffectedNodeKeys\<close> returns: in a graph built from nodes with distinct keys it gives the
  node itself and exactly the nodes that can be reached from it along the edges.
\<close>

theorem affected_nodes_are_descendants:
  assumes "distinct (node_keys nodes)" "edges_known nodes edges" "buildWorkflowGraph nodes edges = Some (Inr g)"
  shows "\<exists>affected. workflowAffectedNodeKeys g key = Some affected \<and> distinct affected \<and>
    set affected = (set (edge_pairs edges))\<^sup>* `` {key}"
proof -
  have "mset (wfg_Children g x) = mset (map snd (filter (\<lambda>(a, b). a = x) (edge_pairs edges)))" for x
    using built_graph_ok[OF assms] by (simp add: graph_ok_def)
  note tables = child_rel_edges[OF this]
  from affected_loop_reaches[OF tables(2), of key] show ?thesis
    unfolding workflowAffectedNodeKeys_def tables(1) by blast
qed

text \<open>
  C40: the input of a node of a built graph is computed without a panic and depends only on the outputs
  of its direct parents. With a valid mapping every mapped field holds the value its source names,
  or the result is an error because some source names no value; without a mapping the node gets the
  input of the workflow and the outputs of exactly its parents.
\<close>

theorem step_input_reads_parents:
  assumes "distinct (node_keys nodes)" "edges_known nodes edges" "buildWorkflowGraph nodes edges = Some (Inr g)"
    and "\<And>p. (p, wfn_NodeKey node) \<in> set (edge_pairs edges) \<Longrightarrow> map_of outputs' p = map_of outputs p"
  defines "parents \<equiv> wfg_Parents g (wfn_NodeKey node)" and "P \<equiv> {p. (p, wfn_NodeKey node) \<in> set (edge_pairs edges)}"
  shows "\<exists>r. workflowStepInput mc original outputs parents node = Some r \<and>
    workflowStepInput mc original outputs' parents node = Some r \<and>
    (case decodeStoredWorkflowInputMapping mc (wfn_Config node) parents of
       Inl err \<Rightarrow> sir_Err r = Some (InvalidMapping (wfn_NodeKey node) err)
     | Inr None \<Rightarrow> default_input_ok original outputs P r
     | Inr (Some mapping) \<Rightarrow> mapped_input_ok original outputs P mapping r)"
proof -
  have P: "set parents = P"
    unfolding parents_def P_def by (rule graph_parents[OF built_graph_ok[OF assms(1-3)]])
  obtain r where r: "workflowStepInput mc original outputs parents node = Some r"
    using step_input_returns by blast
  moreover have "workflowStepInput mc original outputs' parents node = Some r"
    using r step_input_cong[of parents outputs' outputs] assms(4) P by (auto simp: P_def)
  moreover have "sir_Err r = Some (InvalidMapping (wfn_NodeKey node) err)"
    if "decodeStoredWorkflowInputMapping mc (wfn_Config node) parents = Inl err" for err
    using r that by (auto simp: workflowStepInput_def Let_def)
  ultimately show ?thesis
    using mapped_step_input[of mc node parents _ original outputs] default_step_input[of mc node parents original outputs]
    unfolding P by (fastforce split: sum.split option.split)
qed


theorem affected_nodes_are_descendants_witness:
  "\<exists>g affected. buildWorkflowGraph dag_nodes dag_edges = Some (Inr g) \<and>
     workflowAffectedNodeKeys g ''a'' = Some affected \<and> set affected = {''a'', ''b'', ''c''}"
proof -
  obtain g where g: "buildWorkflowGraph dag_nodes dag_edges = Some (Inr g)" using dag_graph by blast
  have "(set (edge_pairs dag_edges))\<^sup>* `` {''a''} = {''a'', ''b'', ''c''}"
    by (auto simp: dag_pairs elim: rtranclE)
  with affected_nodes_are_descendants[OF _ dag_known(1) g, of "''a''"] g show ?thesis
    by (auto simp: dag_keys)
qed

theorem step_input_reads_parents_witness:
  "\<exists>g. buildWorkflowGraph dag_nodes dag_edges = Some (Inr g) \<and>
     workflowStepInput dag_codec [] ((''c'', []) # dag_outputs) (wfg_Parents g ''b'') (dag_nodes ! 1) =
       Some \<lparr>sir_Value = [(''x'', VString ''done'')], sir_Mapped = True, sir_Err = None\<rparr>"
proof -
  obtain g where g: "buildWorkflowGraph dag_nodes dag_edges = Some (Inr g)" "wfg_Parents g ''b'' = [''a'']"
    by (rule dag_graph)
  have key: "wfn_NodeKey (dag_nodes ! 1) = ''b''" by (simp add: dag_nodes_def dag_node_def)
  have "map_of ((''c'', []) # dag_outputs) p = map_of dag_outputs p"
    if "(p, wfn_NodeKey (dag_nodes ! 1)) \<in> set (edge_pairs dag_edges)" for p
    using that by (auto simp: key dag_pairs)
  from step_input_reads_parents[OF _ dag_known(1) g(1), of "dag_nodes ! 1", OF _ this, of dag_codec "[]"]
  have "workflowStepInput dag_codec [] ((''c'', []) # dag_outputs) (wfg_Parents g ''b'') (dag_nodes ! 1) =
      workflowStepInput dag_codec [] dag_outputs (wfg_Parents g ''b'') (dag_nodes ! 1)"
    unfolding key dag_keys by fastforce
  then show ?thesis using g dag_input by simp
qed

section \<open>Edges that collide\<close>

text \<open>
  \<open>normalizeWorkflowEdges\<close> recognises a duplicate by the text \<open>from->to\<close>. A node key may contain an
  arrow, so two different edges can have the same text; the second one is refused as a duplicate.
\<close>

lemma edge_key_collides: "edge_key a (b @ ''->'' @ c) = edge_key (a @ ''->'' @ b) c"
  by (simp add: edge_key_def)

lemma distinct_edges_refused:
  "normalizeWorkflowEdges [''a'', ''b->c'', ''a->b'', ''c''] [dag_edge ''a'' ''b->c'', dag_edge ''a->b'' ''c''] =
     Inl (DuplicateEdge ''a->b->c'')"
  by (simp add: normalizeWorkflowEdges_def Let_def dag_edge_def dag_trims edge_from_def edge_to_def edge_key_def)

end
