(* ===== verification/Spec2Isabelle.thy ===== *)
theory Spec2Isabelle
  imports Wire_Laws Canonical_Laws Runtime_Laws Workflow_Laws
begin

text \<open>
  Verification of the Core runtime of OpenLinker (\<open>src/pkg/runtime\<close> with its statements in
  \<open>src/pkg/db/generated\<close>) and of the graphs of its workflows (\<open>src/pkg/workflow\<close>).

  \<^bold>\<open>The program.\<close> Core keeps runs of agents in PostgreSQL and hands them to runtime nodes. A node
  opens a session, claims a run, gets an assignment with a fencing token, confirms it, renews its
  lease while it works, streams events and reports a result. A reconciler takes back offers and
  leases that expire and ends runs past their deadlines; the owner of a run may cancel it at any
  time, after which its attempt is told to stop and is reaped if it does not. Every message is a JSON
  envelope that is validated before it reaches a service, and every service operation is one
  transaction on the shared tables, which is how the services interact. A workflow is a graph of agents;
  its nodes run level by level, each on an input derived from the outputs of its parents.

  \<^bold>\<open>Theories.\<close>
  \<^item> \<open>Core_Prelude\<close>: scalar types, UTF-8, the transaction monad, keyed tables with counting laws and
    the interfaces \<open>service_inv\<close> and \<open>service_mono\<close>.
  \<^item> \<open>Wire_Protocol\<close>: \<open>protocol.go\<close>, \<open>contract.go\<close>, \<open>wire_compatibility.go\<close> and the browser payloads, one
    record per struct.
  \<^item> \<open>Wire_Errors\<close>: \<open>protocol_error.go\<close>; Go errors as chains of causes.
  \<^item> \<open>Json_Scanner\<close>: the scanner automaton of \<open>encoding/json\<close>, which \<open>json.Valid\<close> runs.
  \<^item> \<open>Wire_Validation\<close>: \<open>protocol_validation.go\<close>; one function per validator, with the struct codec of
    \<open>encoding/json\<close> as a parameter. \<open>Wire_Laws\<close> characterises the resume messages and the events that
    are accepted, and shows that whatever is rejected is answered with a valid error body, the status
    of a client error and a close code that ends the connection.
  \<^item> \<open>Runtime_Store\<close>: the tables and each SQL statement of the lease service as a function of its
    parameters, the clock reading and the database; no row is \<open>None\<close>. The statement that claims a run
    skips the runs that other transactions hold, which are an argument.
  \<^item> \<open>Lease_Service\<close>: \<open>lease.go\<close>; every operation with its guards, statements and early returns.
  \<^item> \<open>Lease_Steps\<close>: the abstract specification, an inductive step relation (offer, confirm, renew,
    give back), and the proof that every committed transaction refines it.
  \<^item> \<open>Lease_Invariants\<close>: exact capacity counters (one locale for sessions and nodes), unique and
    bounded fences, mirrored leases and deadlines, kept by every step.
  \<^item> \<open>Lease_Example\<close>: a concrete world in which the operations commit.
  \<^item> \<open>Lease_Laws\<close>: the guarantees of the lease service over any interleaving of requests.
  \<^item> \<open>Canonical_Json\<close>: \<open>idempotency.go\<close>; RFC 8785 bytes of a Go value and the run creation fingerprint.
    \<open>Canonical_Laws\<close> gives a value its meaning, a document whose objects are finite sets of members and
    whose numbers are binary64 values, independently of the code; equal bytes are equal documents, and
    equal fingerprints are equal requests, field by field. What is assumed of \<open>strconv\<close> is that the
    text of a number parses back to it and has the shape of the format that was asked for.
  \<^item> \<open>Event_Store\<close>: \<open>event_store.go\<close>, \<open>principal.go\<close>, \<open>resume_authorization.go\<close> and the receipts of skill
    packages and MCP bindings; \<open>Append\<close> with replay, resume grants and gap detection.
  \<^item> \<open>Run_Artifacts\<close>: the artifacts that \<open>service.go\<close> derives from the output of a successful run, and
    the completion of private tasks.
  \<^item> \<open>Result_Finalizer\<close>: \<open>finalizer.go\<close>; \<open>Finalize\<close> with replay, checks, classification, retry, dead
    letters, ledger, statistics and outgoing effects. The CHECK constraints that its updates meet are
    part of the statements, because an update that breaks one is an error and not a state.
  \<^item> \<open>Run_Steps\<close>: the abstract specification of a run's life, a step relation: a lease step, an event of
    the live attempt, the end of an attempt with its run, the end of a run alone, the end of an attempt
    of a run that has ended, and the progress of a cancellation. Every step keeps the lease invariant
    and that of the event log; events are only added, and the outcome of an ended run does not change.
    \<open>Result_Steps\<close>, \<open>Append_Laws\<close>, \<open>Reconciler_Steps\<close> and \<open>Cancellation_Steps\<close> show that committed
    transactions refine it.
  \<^item> \<open>Event_Laws\<close>, \<open>Append_Laws\<close>, \<open>Result_Laws\<close>: gap detection, idempotent replay, fencing, complete logs,
    the decision table of a result, the ledger. \<open>Event_Example\<close> and \<open>Result_Example\<close> are the concrete
    databases on which the operations commit.
  \<^item> \<open>Reconciler\<close>: \<open>reconciler.go\<close>; \<open>ReconcileBatch\<close> with its candidate query, the transactions for
    expired offers, expired executions and passed deadlines, and the terminal bookkeeping.
    \<open>Reconciler_Laws\<close>: the wake-up time is exact, a batch takes the most overdue runs, a transaction
    acts only on a due run and as the deadline that passed demands, and an expired offer is made again.
  \<^item> \<open>Run_Cancellation\<close>: \<open>cancellation.go\<close>; the owner's cancellation, the commands a session polls, the
    acknowledgements of runtimes and of Core executors, and the reaper. The CHECK constraints and the
    transition trigger of \<open>run_cancellations\<close> are part of the statements. \<open>Cancellation_Steps\<close> reduces
    every transaction to one of two moves, \<open>Cancellation_Example\<close> commits them on a concrete database,
    and \<open>Cancellation_Laws\<close> shows that the summary on the run agrees with the cancellation, that a
    cancellation only moves forward, that canceling is immediate and idempotent, that a confirmed stop
    frees the slot, and that a batch of the reaper that stops early leaves nothing overdue.
  \<^item> \<open>Runtime_Laws\<close>: the composition. One request type over all services; each request is a sequence
    of steps, so invariants, exact capacity, increasing fences, one live attempt per run and the
    finality of the first outcome hold over every interleaving of leases, events, results, timeouts
    and cancellations.

  \<^item> \<open>Workflow_Graph\<close>, \<open>Workflow_Input\<close>: \<open>service.go\<close> and \<open>input_mapping.go\<close> of \<open>pkg/workflow\<close>; edges,
    the levels of the graph, the nodes a rerun affects, input mappings, step inputs and the final
    output. \<open>Workflow_Levels\<close> proves the two worklist loops, which are partial functions, total and
    right; \<open>Workflow_Laws\<close> states what levels, affected nodes and inputs are in terms of the edges.

  \<^bold>\<open>Interfaces.\<close> \<open>service_inv\<close> and \<open>service_mono\<close> (\<open>Core_Prelude\<close>) turn laws of single requests into laws
  of histories, and are interpreted on the lease service, the cancellation coordinator and the whole
  runtime; \<open>slot_counter\<close> (\<open>Lease_Invariants\<close>) is shared by session and node capacity;
  \<open>result_classifier\<close>, \<open>retry_planner\<close> and \<open>result_policy\<close> (\<open>Result_Laws\<close>) are the contract between the
  finalizer and its policies, interpreted on the defaults of the code; \<open>worklist_loop\<close>
  (\<open>Workflow_Levels\<close>) is the loop rule of the level loop and of the search for affected nodes.

  \<^bold>\<open>State and time.\<close> Transactions are serialised, as the row locks of the statements order them; each
  operation takes its clock readings as an argument, one per statement that calls
  \<open>clock_timestamp()\<close>. Only the law of the reaper assumes something of them, that the clock does not
  run backwards between the search and the lock of one transaction. New identifiers are arguments; the
  unique indexes of \<open>run_attempts\<close> are modelled, so a repeated identifier is an error and not an
  assumption. Row locks that another transaction holds are an argument where a statement skips locked
  rows. Loops over batches recurse on the candidate list or on the limit, and worklist loops are partial
  functions that are proved to return, so no fuel is needed.

  \<^bold>\<open>Parameters.\<close> JSON decoding into structs, canonicalisation, SHA-256, the capability issuer and the
  checks of the skill-package and MCP packages are arguments of the definitions.

  \<^bold>\<open>Not modelled.\<close> The creation of sessions, nodes and attachments and the issuing of resume grants
  (their rows are part of the state, and every operation that reads them checks them); network and
  HTTP plumbing, metrics and logging, the execution and storage of workflow runs, the registry, the
  protocol gateways and the command line tools.
\<close>

end
